(* ===== verification/Prelude.thy ===== *)
theory Prelude
  imports Main "HOL-Library.Word"
begin

unbundle bit_operations_syntax

text \<open>
  Shared vocabulary of the development: the machine integer types of the Rust sources,
  little-endian byte encodings, the power-of-two test and its mask arithmetic, and a few
  facts about lists that several components use. Bytes are \<open>8 word\<close>; \<open>usize\<close> is 64 bits
  wide (the code ships for x86-64 and arm64 only) and is kept as \<open>nat\<close> where it counts
  elements of an existing buffer.
\<close>

section \<open>Types\<close>

type_synonym u8 = "8 word"
type_synonym u16 = "16 word"
type_synonym u32 = "32 word"
type_synonym u64 = "64 word"

text \<open>A Rust \<open>Result<T, E>\<close> is \<open>E + T\<close>: \<open>Inl\<close> is \<open>Err\<close>, \<open>Inr\<close> is \<open>Ok\<close>.\<close>

named_theorems codec "byte-level encode/decode equations"
named_theorems layout "sizes and offsets of shared-memory structures"

section \<open>Results\<close>

definition map_ok :: "('a \<Rightarrow> 'b) \<Rightarrow> 'e + 'a \<Rightarrow> 'e + 'b" where
  "map_ok f r = (case r of Inl e \<Rightarrow> Inl e | Inr x \<Rightarrow> Inr (f x))"

definition and_then :: "'e + 'a \<Rightarrow> ('a \<Rightarrow> 'e + 'b) \<Rightarrow> 'e + 'b" where
  "and_then r k = (case r of Inl e \<Rightarrow> Inl e | Inr x \<Rightarrow> k x)"

definition ok_or :: "'e \<Rightarrow> 'a option \<Rightarrow> 'e + 'a" where
  "ok_or e m = (case m of None \<Rightarrow> Inl e | Some x \<Rightarrow> Inr x)"

lemma map_ok_simps [simp]: "map_ok f (Inl e) = Inl e" "map_ok f (Inr x) = Inr (f x)"
  by (simp_all add: map_ok_def)

lemma map_ok_Inr_iff: "map_ok f r = Inr y \<longleftrightarrow> (\<exists>x. r = Inr x \<and> y = f x)"
  by (auto simp: map_ok_def split: sum.splits)

lemma and_then_simps [simp]: "and_then (Inl e) k = Inl e" "and_then (Inr x) k = k x"
  by (simp_all add: and_then_def)

lemma and_then_Inr_iff: "and_then r k = Inr y \<longleftrightarrow> (\<exists>x. r = Inr x \<and> k x = Inr y)"
  by (cases r) auto

lemma ok_or_simps [simp]: "ok_or e None = Inl e" "ok_or e (Some x) = Inr x"
  by (simp_all add: ok_or_def)

text \<open>The same with a state: an error stops the sequence and keeps the state reached.\<close>

definition st_bind :: "('e + 'a) \<times> 's \<Rightarrow> ('a \<Rightarrow> 's \<Rightarrow> ('e + 'b) \<times> 's) \<Rightarrow> ('e + 'b) \<times> 's" where
  "st_bind r k = (case r of (Inl e, s) \<Rightarrow> (Inl e, s) | (Inr x, s) \<Rightarrow> k x s)"

lemma st_bind_simps [simp]: "st_bind (Inl e, s) k = (Inl e, s)" "st_bind (Inr x, s) k = k x s"
  by (simp_all add: st_bind_def)

fun collect_results :: "('e + 'a) list \<Rightarrow> 'e + 'a list" where
  "collect_results [] = Inr []"
| "collect_results (Inl e # rs) = Inl e"
| "collect_results (Inr x # rs) = map_ok ((#) x) (collect_results rs)"

lemma collect_results_map_Inr [simp]: "collect_results (map Inr xs) = Inr xs"
  by (induction xs) simp_all

lemma collect_results_InrD: "collect_results rs = Inr xs \<Longrightarrow> rs = map Inr xs"
  by (induction rs arbitrary: xs rule: collect_results.induct)
    (auto simp: map_ok_def split: sum.splits)

lemma length_collect_results: "collect_results rs = Inr xs \<Longrightarrow> length xs = length rs"
  by (drule collect_results_InrD) simp

section \<open>Little-endian bytes\<close>

text \<open>\<open>to_le_bytes\<close> of an \<open>n\<close>-byte integer, and \<open>from_le_bytes\<close> of a byte array.\<close>

primrec to_le :: "nat \<Rightarrow> 'a::len word \<Rightarrow> u8 list" where
  "to_le 0 w = []"
| "to_le (Suc n) w = ucast w # to_le n (drop_bit 8 w)"

primrec from_le :: "u8 list \<Rightarrow> 'a::len word" where
  "from_le [] = 0"
| "from_le (b # bs) = ucast b OR push_bit 8 (from_le bs)"

lemma length_to_le [simp]: "length (to_le n w) = n"
  by (induction n arbitrary: w) simp_all

lemma bit_from_le_to_le:
  "bit (from_le (to_le n (w :: 'a::len word)) :: 'a word) k \<longleftrightarrow> bit w k \<and> k < 8 * n"
proof (induction n arbitrary: w k)
  case 0
  then show ?case by simp
next
  case (Suc n)
  show ?case
  proof (cases "k < 8")
    case True
    then show ?thesis
      by (auto simp: bit_or_iff bit_push_bit_iff bit_ucast_iff bit_imp_le_length)
  next
    case False
    then show ?thesis
      by (auto simp: bit_or_iff bit_push_bit_iff bit_ucast_iff Suc.IH bit_drop_bit_eq
          possible_bit_word dest: bit_imp_le_length)
  qed
qed

lemma from_le_to_le:
  assumes "LENGTH('a) \<le> 8 * n"
  shows "from_le (to_le n (w :: 'a::len word)) = w"
proof (rule bit_word_eqI)
  fix k assume "k < LENGTH('a)"
  with assms show "bit (from_le (to_le n w) :: 'a word) k = bit w k"
    by (simp add: bit_from_le_to_le)
qed

lemma from_le_to_le_u16 [codec, simp]: "from_le (to_le 2 (w :: u16)) = w"
  by (rule from_le_to_le) simp

lemma from_le_to_le_u32 [codec, simp]: "from_le (to_le 4 (w :: u32)) = w"
  by (rule from_le_to_le) simp

text \<open>Writing a field into a fixed byte array, \<open>a[i..i+n].copy_from_slice(bs)\<close>.\<close>

definition put_bytes :: "nat \<Rightarrow> u8 list \<Rightarrow> u8 list \<Rightarrow> u8 list" where
  "put_bytes i bs a = take i a @ bs @ drop (i + length bs) a"

definition get_bytes :: "nat \<Rightarrow> nat \<Rightarrow> u8 list \<Rightarrow> u8 list" where
  "get_bytes i n a = take n (drop i a)"

lemma length_put_bytes [simp]:
  "i + length bs \<le> length a \<Longrightarrow> length (put_bytes i bs a) = length a"
  by (simp add: put_bytes_def)

lemma get_put_same [codec]:
  assumes "length bs = n" and "i + n \<le> length a"
  shows "get_bytes i n (put_bytes i bs a) = bs"
  using assms by (simp add: get_bytes_def put_bytes_def)

lemma get_put_above [codec]:
  assumes "i + n \<le> j" and "j + length bs \<le> length a"
  shows "get_bytes i n (put_bytes j bs a) = get_bytes i n a"
  using assms by (simp add: get_bytes_def put_bytes_def drop_take)

lemma get_put_below [codec]:
  assumes "j + length bs \<le> i" and "j + length bs \<le> length a"
  shows "get_bytes i n (put_bytes j bs a) = get_bytes i n a"
  using assms by (simp add: get_bytes_def put_bytes_def)

section \<open>Powers of two and masks\<close>

text \<open>\<open>is_power_of_two\<close> of an unsigned integer: exactly one bit is set.\<close>

definition is_power_of_two :: "'a::len word \<Rightarrow> bool" where
  "is_power_of_two w \<longleftrightarrow> list_ex (\<lambda>k. w = push_bit k 1) [0..<LENGTH('a)]"

lemma is_power_of_two_iff:
  "is_power_of_two (w :: 'a::len word) \<longleftrightarrow> (\<exists>k < LENGTH('a). w = 2 ^ k)"
  by (auto simp: is_power_of_two_def list_ex_iff push_bit_eq_mult)

lemma is_power_of_two_unat:
  assumes "is_power_of_two (w :: 'a::len word)"
  obtains k where "k < LENGTH('a)" and "unat w = 2 ^ k"
proof -
  from assms obtain k where "k < LENGTH('a)" and "w = 2 ^ k"
    by (auto simp: is_power_of_two_iff)
  then have "unat w = 2 ^ k"
    by (intro of_nat_inverse) simp_all
  with \<open>k < LENGTH('a)\<close> show thesis by (rule that)
qed

lemma unat_ucast_u32_u64 [simp]: "unat (ucast (n :: u32) :: u64) = unat n"
  using unsigned_less [of n, where ?'a = nat]
  by (simp add: unsigned_ucast_eq take_bit_nat_eq_self_iff)

lemma unat_u32_lt [simp]: "unat (n :: u32) < 4294967296"
  using unsigned_less [of n, where ?'a = nat] by simp

lemma unat_of_nat_u32: "n < 2 ^ 32 \<Longrightarrow> unat (of_nat n :: u32) = n"
  by (rule of_nat_inverse) simp_all

lemma unat_plus_one: "x \<noteq> - 1 \<Longrightarrow> unat (x + 1 :: 'a::len word) = Suc (unat x)"
  by (metis unatSuc eq_neg_iff_add_eq_0 add.commute)

lemma word_less_succ: "x \<noteq> - 1 \<Longrightarrow> x < (x + 1 :: 'a::len word)"
  by (simp add: word_less_nat_alt unat_plus_one)

lemma word_less_succ_iff:
  "x \<noteq> - 1 \<Longrightarrow> y < (x + 1 :: 'a::len word) \<longleftrightarrow> y < x \<or> y = x"
  by (auto simp: word_less_nat_alt unat_plus_one less_Suc_eq word_unat_eq_iff)

text \<open>Masking with \<open>2^k - 1\<close> is reduction modulo \<open>2^k\<close>.\<close>

lemma unat_and_mask:
  assumes "unat (c :: u64) = 2 ^ k"
  shows "unat ((i :: u64) AND (c - 1)) = unat i mod unat c"
proof -
  have k: "k < 64"
  proof (rule ccontr)
    assume "\<not> k < 64"
    then have "(2::nat) ^ 64 \<le> 2 ^ k" by (intro power_increasing) simp_all
    with assms unsigned_less [of c, where ?'a = nat] show False by simp
  qed
  then have "c = 2 ^ k"
    using arg_cong [OF assms, of "of_nat :: nat \<Rightarrow> u64"] by simp
  then have "c - 1 = mask k" by (simp add: mask_eq_exp_minus_1)
  then have "i AND (c - 1) = take_bit k i" by (simp add: take_bit_eq_mask)
  then have "unat (i AND (c - 1)) = take_bit k (unat i)"
    by (simp add: unsigned_take_bit_eq)
  then show ?thesis using assms by (simp add: take_bit_eq_mod)
qed

end
