(* ===== verification/Proto.thy ===== *)
theory Proto
  imports Prelude
begin

text \<open>
  The wire protocol of the userland netstack, \<open>crates/psroot-netstack-proto/src/lib.rs\<close>:
  opcodes and status codes with their \<open>u16\<close> discriminants, the 32-byte slot header, the
  28-byte socket address, and the packing of opcode arguments. Fixed arrays \<open>[u8; 16]\<close>
  are byte lists; \<open>wf_args\<close> and \<open>wf_addr\<close> say that they have their length.
\<close>

section \<open>Sizes and flags\<close>

definition SLOT_SIZE :: nat where [layout]: "SLOT_SIZE = 4096"
definition HEADER_SIZE :: nat where [layout]: "HEADER_SIZE = 32"
definition DATA_CAPACITY :: nat where "DATA_CAPACITY = SLOT_SIZE - HEADER_SIZE"
definition DEFAULT_RING_SLOTS :: u32 where "DEFAULT_RING_SLOTS = 256"

lemma DATA_CAPACITY_eq [layout]: "DATA_CAPACITY = 4064"
  by (simp add: DATA_CAPACITY_def SLOT_SIZE_def HEADER_SIZE_def)

definition FLAG_MORE :: u16 where "FLAG_MORE = 1"
definition FLAG_REPLY_OK :: u16 where "FLAG_REPLY_OK = 2"
definition FLAG_EVENT :: u16 where "FLAG_EVENT = 4"

section \<open>Opcodes\<close>

datatype OpCode = Hello | Socket | Bind | Connect | Listen | Accept | Send | Recv | Close
  | Shutdown | GetSockName | GetPeerName | SetSockOpt | GetSockOpt | Resolve | SendTo
  | RecvFrom | Bye

text \<open>The discriminant of an opcode (\<open>op as u16\<close>).\<close>

fun op_code :: "OpCode \<Rightarrow> u16" where
  "op_code Hello = 0x0001"
| "op_code Socket = 0x0010"
| "op_code Bind = 0x0011"
| "op_code Connect = 0x0012"
| "op_code Listen = 0x0013"
| "op_code Accept = 0x0014"
| "op_code Send = 0x0015"
| "op_code Recv = 0x0016"
| "op_code Close = 0x0017"
| "op_code Shutdown = 0x0018"
| "op_code GetSockName = 0x0019"
| "op_code GetPeerName = 0x001A"
| "op_code SetSockOpt = 0x001B"
| "op_code GetSockOpt = 0x001C"
| "op_code Resolve = 0x0030"
| "op_code SendTo = 0x0040"
| "op_code RecvFrom = 0x0041"
| "op_code Bye = 0xFFFE"

definition from_raw :: "u16 \<Rightarrow> OpCode option" where
  "from_raw v =
    (if v = 0x0001 then Some Hello
     else if v = 0x0010 then Some Socket
     else if v = 0x0011 then Some Bind
     else if v = 0x0012 then Some Connect
     else if v = 0x0013 then Some Listen
     else if v = 0x0014 then Some Accept
     else if v = 0x0015 then Some Send
     else if v = 0x0016 then Some Recv
     else if v = 0x0017 then Some Close
     else if v = 0x0018 then Some Shutdown
     else if v = 0x0019 then Some GetSockName
     else if v = 0x001A then Some GetPeerName
     else if v = 0x001B then Some SetSockOpt
     else if v = 0x001C then Some GetSockOpt
     else if v = 0x0030 then Some Resolve
     else if v = 0x0040 then Some SendTo
     else if v = 0x0041 then Some RecvFrom
     else if v = 0xFFFE then Some Bye
     else None)"

lemma from_raw_op_code [codec, simp]: "from_raw (op_code op) = Some op"
  by (cases op) (simp_all add: from_raw_def)

lemma from_raw_SomeD: "from_raw v = Some op \<Longrightarrow> v = op_code op"
  by (auto simp: from_raw_def split: if_splits)

lemma from_raw_Some_iff: "from_raw v = Some op \<longleftrightarrow> v = op_code op"
  by (auto dest: from_raw_SomeD)

section \<open>Status codes\<close>

datatype StatusCode = UnknownOp | BadSocket | WouldBlock | ConnRefused | NotSupported
  | HostError | ConnReset | TooLarge | AddrInUse | AddrNotAvail

fun status_code :: "StatusCode \<Rightarrow> u16" where
  "status_code UnknownOp = 1"
| "status_code BadSocket = 2"
| "status_code WouldBlock = 3"
| "status_code ConnRefused = 4"
| "status_code NotSupported = 5"
| "status_code HostError = 6"
| "status_code ConnReset = 7"
| "status_code TooLarge = 8"
| "status_code AddrInUse = 9"
| "status_code AddrNotAvail = 10"

section \<open>Socket addresses\<close>

definition AF_INET_V :: u16 where "AF_INET_V = 2"
definition AF_INET6_V :: u16 where "AF_INET6_V = 23"

record SockAddrBytes =
  sa_family :: u16
  sa_port :: u16
  sa_flow :: u32
  sa_addr :: "u8 list"
  sa_scope :: u32

definition wf_addr :: "SockAddrBytes \<Rightarrow> bool" where
  "wf_addr a \<longleftrightarrow> length (sa_addr a) = 16"

definition sa_zeroed :: SockAddrBytes where
  "sa_zeroed = \<lparr>sa_family = 0, sa_port = 0, sa_flow = 0, sa_addr = replicate 16 0, sa_scope = 0\<rparr>"

text \<open>\<open>SockAddrBytes::v4\<close>: the four octets go into the first bytes of \<open>addr\<close>.\<close>

definition sa_v4 :: "u8 list \<Rightarrow> u16 \<Rightarrow> SockAddrBytes" where
  "sa_v4 octets p = sa_zeroed
     \<lparr>sa_family := AF_INET_V, sa_port := p,
      sa_addr := (sa_addr sa_zeroed)[0 := octets ! 0, 1 := octets ! 1, 2 := octets ! 2,
                                     3 := octets ! 3]\<rparr>"

definition sa_v6 :: "u8 list \<Rightarrow> u16 \<Rightarrow> u32 \<Rightarrow> u32 \<Rightarrow> SockAddrBytes" where
  "sa_v6 a p flow scope =
     \<lparr>sa_family = AF_INET6_V, sa_port = p, sa_flow = flow, sa_addr = a, sa_scope = scope\<rparr>"

lemma wf_sa_v4 [simp]: "wf_addr (sa_v4 o4 p)"
  by (simp add: wf_addr_def sa_v4_def sa_zeroed_def)

lemma wf_sa_v6 [simp]: "wf_addr (sa_v6 a p f s) \<longleftrightarrow> length a = 16"
  by (simp add: wf_addr_def sa_v6_def)

lemma sa_v4_fields [simp]:
  "sa_family (sa_v4 o4 p) = AF_INET_V" "sa_port (sa_v4 o4 p) = p"
  by (simp_all add: sa_v4_def)

lemma sa_v4_octets: "length o4 = 4 \<Longrightarrow> take 4 (sa_addr (sa_v4 o4 p)) = o4"
  by (auto simp: sa_v4_def sa_zeroed_def numeral_eq_Suc length_Suc_conv)

section \<open>Slot headers\<close>

record SlotHeader =
  h_opcode :: u16
  h_flags :: u16
  h_correlation :: u32
  h_socket_id :: u32
  h_payload_len :: u32
  h_args :: "u8 list"

definition wf_args :: "SlotHeader \<Rightarrow> bool" where
  "wf_args h \<longleftrightarrow> length (h_args h) = 16"

definition zero_args :: "u8 list" where "zero_args = replicate 16 0"

definition header_new :: "OpCode \<Rightarrow> u32 \<Rightarrow> SlotHeader" where
  "header_new op corr = \<lparr>h_opcode = op_code op, h_flags = 0, h_correlation = corr,
     h_socket_id = 0, h_payload_len = 0, h_args = zero_args\<rparr>"

definition reply_ok :: "u32 \<Rightarrow> u32 \<Rightarrow> SlotHeader" where
  "reply_ok corr sid = \<lparr>h_opcode = 0, h_flags = FLAG_REPLY_OK, h_correlation = corr,
     h_socket_id = sid, h_payload_len = 0, h_args = zero_args\<rparr>"

definition header_reply_err :: "u32 \<Rightarrow> StatusCode \<Rightarrow> SlotHeader" where
  "header_reply_err corr st = \<lparr>h_opcode = status_code st, h_flags = 0, h_correlation = corr,
     h_socket_id = 0, h_payload_len = 0, h_args = zero_args\<rparr>"

definition is_ok :: "SlotHeader \<Rightarrow> bool" where
  "is_ok h \<longleftrightarrow> h_flags h AND FLAG_REPLY_OK \<noteq> 0"

definition has_more :: "SlotHeader \<Rightarrow> bool" where
  "has_more h \<longleftrightarrow> h_flags h AND FLAG_MORE \<noteq> 0"

lemma header_fields [simp]:
  "h_opcode (header_new op c) = op_code op" "h_correlation (header_new op c) = c"
  "h_correlation (reply_ok c s) = c" "h_socket_id (reply_ok c s) = s"
  "h_correlation (header_reply_err c st) = c" "h_opcode (header_reply_err c st) = status_code st"
  "h_args (header_new op c) = zero_args" "h_args (reply_ok c s) = zero_args"
  by (simp_all add: header_new_def reply_ok_def header_reply_err_def)

lemma is_ok_reply [simp]: "is_ok (reply_ok c s)" "\<not> is_ok (header_reply_err c st)"
  by (simp_all add: is_ok_def reply_ok_def header_reply_err_def FLAG_REPLY_OK_def)

lemma no_more_reply [simp]: "\<not> has_more (reply_ok c s)" "\<not> has_more (header_reply_err c st)"
  by (simp_all add: has_more_def reply_ok_def header_reply_err_def FLAG_REPLY_OK_def FLAG_MORE_def)

text \<open>Setting the fragmentation bit keeps the success bit: \<open>flags |= FLAG_MORE\<close>.\<close>

definition set_more :: "SlotHeader \<Rightarrow> SlotHeader" where
  "set_more h = h\<lparr>h_flags := h_flags h OR FLAG_MORE\<rparr>"

lemma set_more_reply [simp]:
  "is_ok (set_more (reply_ok c s))" "has_more (set_more (reply_ok c s))"
  "h_correlation (set_more h) = h_correlation h" "h_socket_id (set_more h) = h_socket_id h"
  by (simp_all add: set_more_def is_ok_def has_more_def reply_ok_def FLAG_REPLY_OK_def
      FLAG_MORE_def)

section \<open>Argument packing\<close>

definition pack_socket_args :: "u16 \<Rightarrow> u16 \<Rightarrow> u32 \<Rightarrow> u32 \<Rightarrow> u8 list" where
  "pack_socket_args af typ proto flags =
     put_bytes 8 (to_le 4 flags) (put_bytes 4 (to_le 4 proto)
       (put_bytes 2 (to_le 2 typ) (put_bytes 0 (to_le 2 af) zero_args)))"

definition unpack_socket_args :: "u8 list \<Rightarrow> u16 \<times> u16 \<times> u32 \<times> u32" where
  "unpack_socket_args a =
     (from_le (get_bytes 0 2 a), from_le (get_bytes 2 2 a), from_le (get_bytes 4 4 a),
      from_le (get_bytes 8 4 a))"

definition pack_u32 :: "u32 \<Rightarrow> u8 list" where
  "pack_u32 v = put_bytes 0 (to_le 4 v) zero_args"

definition unpack_u32 :: "u8 list \<Rightarrow> u32" where
  "unpack_u32 a = from_le (get_bytes 0 4 a)"

lemma length_zero_args [simp]: "length zero_args = 16"
  by (simp add: zero_args_def)

lemma length_pack [simp]:
  "length (pack_socket_args af typ proto flags) = 16" "length (pack_u32 v) = 16"
  by (simp_all add: pack_socket_args_def pack_u32_def)

lemma unpack_pack_u32 [codec, simp]: "unpack_u32 (pack_u32 v) = v"
  by (simp add: unpack_u32_def pack_u32_def codec)

lemma unpack_pack_socket_args [codec, simp]:
  "unpack_socket_args (pack_socket_args af typ proto flags) = (af, typ, proto, flags)"
  by (simp add: unpack_socket_args_def pack_socket_args_def codec)

end
