(* ===== verification/Ring.thy ===== *)
theory Ring
  imports Proto
begin

text \<open>
  The single-producer single-consumer ring of fixed-size slots,
  \<open>crates/psroot-netstack-ipc/src/ring.rs\<close>, as sequential operations on the shared region.
  \<open>ring_mem\<close> is the region: its address and length, the fields of \<open>RingHeader\<close>, and the
  slot array by slot index; \<open>ring\<close> is the process-local handle. \<open>head\<close> and \<open>tail\<close> are the
  wrapping 64-bit counters of the code. \<open>ring_abs\<close> reads the pending messages in order, and
  the operations are shown to be those of a bounded first-in first-out queue, whatever the
  values of the counters. The interleaving of the two processes is in \<open>Ring_Steps\<close>.
\<close>

section \<open>State\<close>

datatype RingError = Empty | Full | TooSmall | NotPow2 | Misaligned

record slot =
  s_hdr :: SlotHeader
  s_data :: "u8 list"

record ring_mem =
  rm_addr :: nat
  rm_len :: nat
  rm_magic :: u32
  rm_version :: u32
  rm_slot_count :: u32
  rm_head :: u64
  rm_tail :: u64
  rm_futex :: u32
  rm_slots :: "nat \<Rightarrow> slot"

record ring =
  r_mask :: u64
  r_slot_count :: u32

definition MAGIC :: u32 where "MAGIC = 0x70725f52"
definition VERSION :: u32 where "VERSION = 1"
definition RING_HEADER_SIZE :: nat where [layout]: "RING_HEADER_SIZE = 64"

definition ring_bytes :: "u32 \<Rightarrow> nat" where
  "ring_bytes n = RING_HEADER_SIZE + unat n * SLOT_SIZE"

definition handle_for :: "u32 \<Rightarrow> ring" where
  "handle_for n = \<lparr>r_mask = ucast n - 1, r_slot_count = n\<rparr>"

section \<open>Operations\<close>

definition ring_create :: "ring_mem \<Rightarrow> u32 \<Rightarrow> RingError + ring \<times> ring_mem" where
  "ring_create m n =
     (if \<not> is_power_of_two n \<or> n < 2 then Inl NotPow2
      else if rm_len m < ring_bytes n then Inl TooSmall
      else if rm_addr m mod 64 \<noteq> 0 then Inl Misaligned
      else Inr (handle_for n,
        m\<lparr>rm_magic := MAGIC, rm_version := VERSION, rm_slot_count := n, rm_head := 0,
          rm_tail := 0, rm_futex := 0\<rparr>))"

definition ring_attach :: "ring_mem \<Rightarrow> RingError + ring" where
  "ring_attach m =
     (if rm_len m < RING_HEADER_SIZE then Inl TooSmall
      else if rm_addr m mod 64 \<noteq> 0 then Inl Misaligned
      else if rm_magic m \<noteq> MAGIC then Inl TooSmall
      else let n = rm_slot_count m in
        if \<not> is_power_of_two n \<or> n < 2 then Inl NotPow2
        else if rm_len m < ring_bytes n then Inl TooSmall
        else Inr (handle_for n))"

definition slot_idx :: "ring \<Rightarrow> u64 \<Rightarrow> nat" where
  "slot_idx r i = unat (i AND r_mask r)"

definition slot_ptr :: "ring \<Rightarrow> u64 \<Rightarrow> nat" where
  "slot_ptr r i = RING_HEADER_SIZE + slot_idx r i * SLOT_SIZE"

definition ring_len :: "ring_mem \<Rightarrow> u64" where
  "ring_len m = rm_head m - rm_tail m"

definition ring_is_empty :: "ring_mem \<Rightarrow> bool" where
  "ring_is_empty m \<longleftrightarrow> ring_len m = 0"

text \<open>
  The producer stamps the payload length into its copy of the header, writes the header and
  copies the payload over the front of the slot's data area; bytes beyond it keep what an
  earlier message left there.
\<close>

definition stamp :: "SlotHeader \<Rightarrow> u8 list \<Rightarrow> SlotHeader" where
  "stamp h d = h\<lparr>h_payload_len := of_nat (length d)\<rparr>"

definition write_slot :: "SlotHeader \<Rightarrow> u8 list \<Rightarrow> slot \<Rightarrow> slot" where
  "write_slot h d s = \<lparr>s_hdr = stamp h d, s_data = d @ drop (length d) (s_data s)\<rparr>"

definition try_push :: "ring \<Rightarrow> ring_mem \<Rightarrow> SlotHeader \<Rightarrow> u8 list \<Rightarrow> RingError + ring_mem" where
  "try_push r m h d =
     (if DATA_CAPACITY < length d then Inl TooSmall
      else let head = rm_head m; tail = rm_tail m in
        if ucast (r_slot_count r) \<le> head - tail then Inl Full
        else let i = slot_idx r head in
          Inr (m\<lparr>rm_slots := (rm_slots m)(i := write_slot h d (rm_slots m i)),
                 rm_head := head + 1\<rparr>))"

text \<open>Reading a slot: the length is clamped to the capacity before the copy.\<close>

definition slot_msg :: "slot \<Rightarrow> SlotHeader \<times> u8 list" where
  "slot_msg s =
     (s_hdr s, take (min (unat (h_payload_len (s_hdr s))) DATA_CAPACITY) (s_data s))"

definition try_peek :: "ring \<Rightarrow> ring_mem \<Rightarrow> RingError + SlotHeader \<times> u8 list" where
  "try_peek r m =
     (let tail = rm_tail m; head = rm_head m in
      if head = tail then Inl Empty else Inr (slot_msg (rm_slots m (slot_idx r tail))))"

definition try_pop :: "ring \<Rightarrow> ring_mem \<Rightarrow> RingError + (SlotHeader \<times> u8 list) \<times> ring_mem" where
  "try_pop r m =
     (let tail = rm_tail m; head = rm_head m in
      if head = tail then Inl Empty
      else Inr (slot_msg (rm_slots m (slot_idx r tail)), m\<lparr>rm_tail := tail + 1\<rparr>))"

definition commit_peek :: "ring_mem \<Rightarrow> ring_mem" where
  "commit_peek m = m\<lparr>rm_tail := rm_tail m + 1\<rparr>"

section \<open>Invariant and abstraction\<close>

definition ring_ok :: "ring \<Rightarrow> bool" where
  "ring_ok r \<longleftrightarrow> is_power_of_two (r_slot_count r) \<and> 2 \<le> r_slot_count r \<and>
     r_mask r = ucast (r_slot_count r) - 1"

definition slots_ok :: "ring_mem \<Rightarrow> bool" where
  "slots_ok m \<longleftrightarrow> (\<forall>i. length (s_data (rm_slots m i)) = DATA_CAPACITY)"

definition ring_cap :: "ring \<Rightarrow> nat" where
  "ring_cap r = unat (r_slot_count r)"

definition ring_inv :: "ring \<Rightarrow> ring_mem \<Rightarrow> bool" where
  "ring_inv r m \<longleftrightarrow> ring_ok r \<and> slots_ok m \<and> unat (ring_len m) \<le> ring_cap r"

definition ring_abs :: "ring \<Rightarrow> ring_mem \<Rightarrow> (SlotHeader \<times> u8 list) list" where
  "ring_abs r m =
     map (\<lambda>i. slot_msg (rm_slots m (slot_idx r (rm_tail m + of_nat i)))) [0..<unat (ring_len m)]"

lemma ring_ok_handle_for [simp]:
  "is_power_of_two n \<Longrightarrow> 2 \<le> n \<Longrightarrow> ring_ok (handle_for n)"
  by (simp add: ring_ok_def handle_for_def)

lemma length_ring_abs [simp]: "length (ring_abs r m) = unat (ring_len m)"
  by (simp add: ring_abs_def)

lemma ring_ok_cap:
  assumes "ring_ok r"
  obtains k where "k < 32" and "ring_cap r = 2 ^ k" and "2 \<le> ring_cap r"
proof -
  from assms obtain k where "k < 32" "unat (r_slot_count r) = 2 ^ k"
    by (auto simp: ring_ok_def elim: is_power_of_two_unat)
  moreover from assms have "2 \<le> unat (r_slot_count r)"
    by (simp add: ring_ok_def word_le_nat_alt)
  ultimately show thesis using that by (simp add: ring_cap_def)
qed

lemma slot_idx_mod: "ring_ok r \<Longrightarrow> slot_idx r i = unat i mod ring_cap r"
proof -
  assume ok: "ring_ok r"
  then obtain k where "ring_cap r = 2 ^ k" by (rule ring_ok_cap)
  then have "unat (ucast (r_slot_count r) :: u64) = 2 ^ k" by (simp add: ring_cap_def)
  from unat_and_mask [OF this, of i] ok show ?thesis
    by (simp add: slot_idx_def ring_ok_def ring_cap_def)
qed

lemma slot_idx_add:
  assumes "ring_ok r"
  shows "slot_idx r (t + of_nat i) = (unat t + i) mod ring_cap r"
proof -
  obtain k where k: "k < 32" "ring_cap r = 2 ^ k" using assms by (rule ring_ok_cap)
  then have dvd: "ring_cap r dvd 2 ^ 64" using le_imp_power_dvd [of k 64 "2::nat"] by simp
  have "unat (t + of_nat i) = (unat t + i) mod 2 ^ 64"
    by (simp add: unat_word_ariths unat_of_nat mod_simps)
  with dvd show ?thesis
    by (simp add: slot_idx_mod [OF assms] mod_mod_cancel)
qed

lemma slot_idx_distinct:
  assumes "ring_ok r" and "i < j" and "j - i < ring_cap r"
  shows "slot_idx r (t + of_nat i) \<noteq> slot_idx r (t + of_nat j)"
proof
  assume "slot_idx r (t + of_nat i) = slot_idx r (t + of_nat j)"
  then have "(unat t + i) mod ring_cap r = (unat t + j) mod ring_cap r"
    by (simp add: slot_idx_add [OF assms(1)])
  then have "ring_cap r dvd j - i"
    using assms(2) by (metis mod_eq_dvd_iff_nat add_diff_cancel_left less_imp_le nat_add_left_cancel_le)
  with assms(2,3) show False by (auto dest: dvd_imp_le)
qed

lemma tail_plus_len [simp]: "rm_tail m + ring_len m = rm_head m"
  by (simp add: ring_len_def)

lemma head_eq: "rm_head m = rm_tail m + of_nat (unat (ring_len m))"
  by (simp add: ring_len_def)

section \<open>What each operation does\<close>

lemma slot_count_le_iff [simp]: "ucast (r_slot_count r) \<le> (x :: u64) \<longleftrightarrow> ring_cap r \<le> unat x"
  by (simp add: ring_cap_def word_le_nat_alt)

lemma slot_msg_write:
  "length d \<le> DATA_CAPACITY \<Longrightarrow> slot_msg (write_slot h d s) = (stamp h d, d)"
  by (simp add: slot_msg_def write_slot_def stamp_def unat_of_nat layout)

lemma ring_len_push:
  assumes "unat (ring_len m) < ring_cap r"
  shows "unat (rm_head m + 1 - rm_tail m) = Suc (unat (ring_len m))"
proof -
  have "ring_cap r < 2 ^ 32" by (simp add: ring_cap_def)
  with assms have "unat (ring_len m) + 1 < 2 ^ 64" by simp
  then have "unat (ring_len m + 1) = Suc (unat (ring_len m))"
    by (simp add: unat_word_ariths)
  moreover have "rm_head m + 1 - rm_tail m = ring_len m + 1"
    by (simp add: ring_len_def)
  ultimately show ?thesis by (simp only:)
qed

lemma try_push_full_iff:
  "length d \<le> DATA_CAPACITY \<Longrightarrow>
   try_push r m h d = Inl Full \<longleftrightarrow> ring_cap r \<le> length (ring_abs r m)"
  by (simp add: try_push_def Let_def ring_len_def)

lemma try_push_too_small:
  "DATA_CAPACITY < length d \<Longrightarrow> try_push r m h d = Inl TooSmall"
  by (simp add: try_push_def)

lemma try_push_ok:
  assumes inv: "ring_inv r m" and d: "length d \<le> DATA_CAPACITY"
    and room: "length (ring_abs r m) < ring_cap r"
  obtains m' where "try_push r m h d = Inr m'" and "ring_inv r m'"
    and "ring_abs r m' = ring_abs r m @ [(stamp h d, d)]"
proof -
  let ?i = "slot_idx r (rm_head m)" and ?n = "unat (ring_len m)"
  define m' where "m' = m\<lparr>rm_slots := (rm_slots m)(?i := write_slot h d (rm_slots m ?i)),
                          rm_head := rm_head m + 1\<rparr>"
  have ok: "ring_ok r" and sl: "slots_ok m" using inv by (simp_all add: ring_inv_def)
  have push: "try_push r m h d = Inr m'"
    using d room by (simp add: try_push_def Let_def m'_def ring_len_def)
  have n': "unat (ring_len m') = Suc ?n"
    using ring_len_push [of m r] room by (simp add: m'_def ring_len_def)
  have old: "slot_msg (rm_slots m' (slot_idx r (rm_tail m + of_nat j)))
           = slot_msg (rm_slots m (slot_idx r (rm_tail m + of_nat j)))" if "j < ?n" for j
  proof -
    have "slot_idx r (rm_tail m + of_nat j) \<noteq> ?i"
      using slot_idx_distinct [OF ok that, of "rm_tail m"] that room by simp
    then show ?thesis by (simp add: m'_def)
  qed
  have new: "slot_msg (rm_slots m' (slot_idx r (rm_tail m + of_nat ?n))) = (stamp h d, d)"
    using d by (simp add: m'_def slot_msg_write)
  have "ring_abs r m' = ring_abs r m @ [(stamp h d, d)]"
    using old new n' by (simp add: ring_abs_def m'_def)
  moreover have "slots_ok m'"
    using sl d by (simp add: slots_ok_def m'_def write_slot_def)
  then have "ring_inv r m'"
    using ok n' room by (simp add: ring_inv_def)
  ultimately show thesis using push that by blast
qed

lemma try_pop_empty: "ring_abs r m = [] \<Longrightarrow> try_pop r m = Inl Empty"
  by (simp add: try_pop_def Let_def ring_abs_def ring_len_def unat_eq_0)

lemma ring_abs_Cons:
  assumes "0 < unat (ring_len m)"
  shows "ring_abs r m = slot_msg (rm_slots m (slot_idx r (rm_tail m))) #
     ring_abs r (m\<lparr>rm_tail := rm_tail m + 1\<rparr>)"
proof -
  let ?m' = "m\<lparr>rm_tail := rm_tail m + 1\<rparr>"
  have len: "ring_len ?m' = ring_len m - 1" by (simp add: ring_len_def)
  have "unat (ring_len m) = Suc (unat (ring_len ?m'))"
    using assms by (simp add: len unat_minus_one unat_gt_0)
  then show ?thesis
    by (simp add: ring_abs_def upt_conv_Cons map_Suc_upt [symmetric] add.assoc comp_def
        del: upt_Suc)
qed

lemma try_pop_ok:
  assumes inv: "ring_inv r m" and abs: "ring_abs r m = x # xs"
  obtains m' where "try_pop r m = Inr (x, m')" and "ring_inv r m'" and "ring_abs r m' = xs"
proof -
  have pos: "0 < unat (ring_len m)" using abs length_ring_abs [of r m] by simp
  let ?m' = "m\<lparr>rm_tail := rm_tail m + 1\<rparr>"
  have "x = slot_msg (rm_slots m (slot_idx r (rm_tail m)))" and xs: "ring_abs r ?m' = xs"
    using ring_abs_Cons [OF pos, of r] abs by simp_all
  moreover have "rm_head m \<noteq> rm_tail m" using pos by (simp add: ring_len_def unat_gt_0)
  ultimately have "try_pop r m = Inr (x, ?m')" by (simp add: try_pop_def Let_def)
  moreover have "ring_inv r ?m'"
  proof -
    have "unat (ring_len ?m') = length xs" using xs by (metis length_ring_abs)
    also have "\<dots> \<le> length (ring_abs r m)" using abs by simp
    finally have "unat (ring_len ?m') \<le> unat (ring_len m)" by simp
    then show ?thesis using inv by (simp add: ring_inv_def slots_ok_def)
  qed
  ultimately show thesis using xs that by blast
qed

lemma try_peek_eq_pop:
  "try_peek r m = map_ok fst (try_pop r m)"
  by (simp add: try_peek_def try_pop_def Let_def)

lemma commit_peek_eq_pop:
  "try_pop r m = Inr (x, m') \<Longrightarrow> commit_peek m = m'"
  by (auto simp: try_pop_def commit_peek_def Let_def split: if_splits)

lemma ring_create_Inr:
  assumes "ring_create m n = Inr (r, m')"
  shows "ring_ok r" "ring_cap r = unat n" "ring_len m' = 0" "rm_slots m' = rm_slots m"
    "ring_attach m' = Inr r" "rm_futex m' = 0" "rm_len m' = rm_len m"
  using assms
  by (auto simp: ring_create_def ring_attach_def handle_for_def ring_ok_def ring_cap_def
      ring_len_def ring_bytes_def Let_def not_less split: if_splits)

lemma ring_create_head_tail:
  "ring_create m n = Inr (r, m') \<Longrightarrow> rm_head m' = 0 \<and> rm_tail m' = 0"
  by (auto simp: ring_create_def split: if_splits)

text \<open>Every slot lies inside the region that \<open>create\<close> and \<open>attach\<close> accept.\<close>

lemma slot_ptr_in_region:
  assumes "ring_ok r"
  shows "slot_ptr r i + SLOT_SIZE \<le> ring_bytes (r_slot_count r)"
proof -
  have "slot_idx r i < ring_cap r"
    using assms by (auto simp: slot_idx_mod elim: ring_ok_cap)
  then have "Suc (slot_idx r i) * SLOT_SIZE \<le> ring_cap r * SLOT_SIZE" by (intro mult_right_mono) auto
  then show ?thesis by (simp add: slot_ptr_def ring_bytes_def ring_cap_def)
qed

lemma slot_ptr_aligned: "slot_ptr r i mod 64 = 0" "slot_ptr r i mod SLOT_SIZE = RING_HEADER_SIZE"
  by (simp_all add: slot_ptr_def layout mod_simps)
    (simp add: mult.commute [of _ 4096] mod_mult_right_eq [of "slot_idx r i" 4096 64, symmetric])?

section \<open>The queue interface\<close>

text \<open>
  What the users of the ring (the channel, the daemon and the shim client) rely on: a bounded
  first-in first-out queue of messages that stamps what it stores.
\<close>

fun push_all :: "('q \<Rightarrow> 'h \<Rightarrow> 'd \<Rightarrow> 'e + 'q) \<Rightarrow> 'q \<Rightarrow> ('h \<times> 'd) list \<Rightarrow> 'e + 'q" where
  "push_all push q [] = Inr q"
| "push_all push q ((h, d) # xs) = and_then (push q h d) (\<lambda>q'. push_all push q' xs)"

fun pop_n :: "('q \<Rightarrow> 'e + 'x \<times> 'q) \<Rightarrow> nat \<Rightarrow> 'q \<Rightarrow> 'e + 'x list \<times> 'q" where
  "pop_n pop 0 q = Inr ([], q)"
| "pop_n pop (Suc n) q =
     and_then (pop q) (\<lambda>(x, q'). map_ok (\<lambda>(xs, q''). (x # xs, q'')) (pop_n pop n q'))"

locale message_queue =
  fixes push :: "'q \<Rightarrow> 'h \<Rightarrow> 'd \<Rightarrow> RingError + 'q"
    and pop :: "'q \<Rightarrow> RingError + ('h \<times> 'd) \<times> 'q"
    and msgs :: "'q \<Rightarrow> ('h \<times> 'd) list"
    and inv :: "'q \<Rightarrow> bool"
    and cap :: nat
    and fits :: "'d \<Rightarrow> bool"
    and stamped :: "'h \<Rightarrow> 'd \<Rightarrow> 'h"
  assumes push_room: "inv q \<Longrightarrow> fits d \<Longrightarrow> length (msgs q) < cap \<Longrightarrow>
      \<exists>q'. push q h d = Inr q' \<and> inv q' \<and> msgs q' = msgs q @ [(stamped h d, d)]"
    and push_full: "inv q \<Longrightarrow> fits d \<Longrightarrow> cap \<le> length (msgs q) \<Longrightarrow> push q h d = Inl Full"
    and push_big: "\<not> fits d \<Longrightarrow> push q h d = Inl TooSmall"
    and pop_none: "inv q \<Longrightarrow> msgs q = [] \<Longrightarrow> pop q = Inl Empty"
    and pop_some: "inv q \<Longrightarrow> msgs q = x # xs \<Longrightarrow> \<exists>q'. pop q = Inr (x, q') \<and> inv q' \<and> msgs q' = xs"
begin

lemma push_all_ok:
  assumes "inv q" and "\<forall>(h, d) \<in> set xs. fits d" and "length (msgs q) + length xs \<le> cap"
  shows "\<exists>q'. push_all push q xs = Inr q' \<and> inv q' \<and>
           msgs q' = msgs q @ map (\<lambda>(h, d). (stamped h d, d)) xs"
  using assms
proof (induction xs arbitrary: q)
  case Nil
  then show ?case by simp
next
  case (Cons x xs)
  obtain h d where x: "x = (h, d)" by (cases x)
  obtain q1 where q1: "push q h d = Inr q1" "inv q1" "msgs q1 = msgs q @ [(stamped h d, d)]"
    using push_room [of q d h] Cons.prems x by auto
  have "\<exists>q'. push_all push q1 xs = Inr q' \<and> inv q' \<and>
           msgs q' = msgs q1 @ map (\<lambda>(h, d). (stamped h d, d)) xs"
    using Cons.prems q1 by (intro Cons.IH) auto
  then show ?case using q1 x by auto
qed

lemma pop_n_ok:
  assumes "inv q" and "n \<le> length (msgs q)"
  shows "\<exists>q'. pop_n pop n q = Inr (take n (msgs q), q') \<and> inv q' \<and> msgs q' = drop n (msgs q)"
  using assms
proof (induction n arbitrary: q)
  case 0
  then show ?case by simp
next
  case (Suc n)
  then obtain x xs where m: "msgs q = x # xs" by (cases "msgs q") auto
  obtain q1 where q1: "pop q = Inr (x, q1)" "inv q1" "msgs q1 = xs"
    using pop_some [OF Suc.prems(1) m] by blast
  have "\<exists>q'. pop_n pop n q1 = Inr (take n (msgs q1), q') \<and> inv q' \<and> msgs q' = drop n (msgs q1)"
    using Suc.prems m q1 by (intro Suc.IH) auto
  then show ?case using q1 m by auto
qed

lemma fifo_transfer:
  assumes "inv q" and "msgs q = []" and "\<forall>(h, d) \<in> set xs. fits d" and "length xs \<le> cap"
  shows "\<exists>q1 q2. push_all push q xs = Inr q1 \<and>
      pop_n pop (length xs) q1 = Inr (map (\<lambda>(h, d). (stamped h d, d)) xs, q2) \<and>
      inv q2 \<and> msgs q2 = []"
proof -
  obtain q1 where q1: "push_all push q xs = Inr q1" "inv q1"
      "msgs q1 = map (\<lambda>(h, d). (stamped h d, d)) xs"
    using push_all_ok [of q xs] assms by auto
  then show ?thesis using pop_n_ok [of q1 "length xs"] by auto
qed

lemma push_cases:
  assumes "inv q"
  obtains (big) "\<not> fits d" "push q h d = Inl TooSmall"
    | (full) "fits d" "cap \<le> length (msgs q)" "push q h d = Inl Full"
    | (ok) q' where "fits d" "length (msgs q) < cap" "push q h d = Inr q'" "inv q'"
        "msgs q' = msgs q @ [(stamped h d, d)]"
  using assms push_big push_full push_room by (meson not_le)

lemma pop_cases:
  assumes "inv q"
  obtains (none) "msgs q = []" "pop q = Inl Empty"
    | (some) x q' where "msgs q = x # msgs q'" "pop q = Inr (x, q')" "inv q'"
  using assms pop_none pop_some by (metis list.exhaust)

lemma push_Inr:
  "inv q \<Longrightarrow> push q h d = Inr q' \<Longrightarrow> inv q' \<and> msgs q' = msgs q @ [(stamped h d, d)]"
  by (erule push_cases [where d = d and h = h]) auto

lemma pop_Inr: "inv q \<Longrightarrow> pop q = Inr (x, q') \<Longrightarrow> inv q' \<and> msgs q = x # msgs q'"
  by (erule pop_cases) auto

lemma pop_Inl: "inv q \<Longrightarrow> pop q = Inl e \<Longrightarrow> e = Empty \<and> msgs q = []"
  by (erule pop_cases) auto

end

interpretation ring_queue: message_queue "try_push r" "try_pop r" "ring_abs r" "ring_inv r"
  "ring_cap r" "\<lambda>d. length d \<le> DATA_CAPACITY" stamp for r
proof
  fix q h and d :: "u8 list"
  assume "ring_inv r q" "length d \<le> DATA_CAPACITY" "length (ring_abs r q) < ring_cap r"
  then show "\<exists>q'. try_push r q h d = Inr q' \<and> ring_inv r q' \<and>
      ring_abs r q' = ring_abs r q @ [(stamp h d, d)]"
    by (metis try_push_ok)
next
  fix q x xs
  assume "ring_inv r q" "ring_abs r q = x # xs"
  then show "\<exists>q'. try_pop r q = Inr (x, q') \<and> ring_inv r q' \<and> ring_abs r q' = xs"
    by (metis try_pop_ok)
qed (simp_all add: try_push_full_iff try_push_too_small try_pop_empty not_le)

section \<open>Properties\<close>

text \<open>A region for a ring of two slots, as \<open>create\<close> finds it: zeroed.\<close>

definition zero_slot :: slot where
  "zero_slot = \<lparr>s_hdr = header_new Hello 0, s_data = replicate DATA_CAPACITY 0\<rparr>"

definition small_region :: ring_mem where
  "small_region = \<lparr>rm_addr = 4096, rm_len = ring_bytes 2, rm_magic = 0, rm_version = 0,
     rm_slot_count = 0, rm_head = 0, rm_tail = 0, rm_futex = 0, rm_slots = (\<lambda>i. zero_slot)\<rparr>"

definition small_ring :: "ring \<times> ring_mem" where
  "small_ring = (handle_for 2, small_region\<lparr>rm_magic := MAGIC, rm_version := VERSION,
     rm_slot_count := 2\<rparr>)"

lemma is_power_of_two_2 [simp]: "is_power_of_two (2 :: u32)"
  by (auto simp: is_power_of_two_iff intro!: exI [of _ 1])

lemma small_ring_created: "ring_create small_region 2 = Inr small_ring"
  by (simp add: ring_create_def small_region_def small_ring_def)

lemma small_region_slots: "slots_ok small_region"
  by (simp add: slots_ok_def small_region_def zero_slot_def)

lemma ring_create_inv:
  assumes "ring_create m n = Inr (r, m')" and "slots_ok m"
  shows "ring_inv r m'" and "ring_abs r m' = []"
  using ring_create_Inr [OF assms(1)] assms(2) by (simp_all add: ring_inv_def slots_ok_def ring_abs_def)

lemma small_ring_inv: "ring_inv (fst small_ring) (snd small_ring)"
  using ring_create_inv(1) [of small_region 2] small_ring_created small_region_slots
  by (metis prod.collapse)

lemma small_ring_abs: "ring_abs (fst small_ring) (snd small_ring) = []"
  using ring_create_inv(2) [of small_region 2] small_ring_created small_region_slots
  by (metis prod.collapse)

lemma small_ring_cap: "ring_cap (fst small_ring) = 2"
  by (simp add: small_ring_def handle_for_def ring_cap_def)

text \<open>
  C1. The ring implements a bounded first-in first-out queue for every value of its wrapping
  counters: a push is refused exactly when the payload exceeds a slot or the ring holds
  \<open>slot_count\<close> messages, and otherwise appends the message with its length stamped; a pop is
  refused exactly on the empty queue and otherwise returns the oldest message unchanged. Both
  keep the invariant.
\<close>

theorem ring_refines_queue:
  assumes "ring_inv r m"
  shows "(case try_push r m h d of
      Inl e \<Rightarrow> e = TooSmall \<and> DATA_CAPACITY < length d \<or>
        e = Full \<and> length d \<le> DATA_CAPACITY \<and> length (ring_abs r m) = ring_cap r
    | Inr m' \<Rightarrow> ring_inv r m' \<and> ring_abs r m' = ring_abs r m @ [(stamp h d, d)]) \<and>
    (case try_pop r m of
      Inl e \<Rightarrow> e = Empty \<and> ring_abs r m = []
    | Inr (x, m') \<Rightarrow> ring_inv r m' \<and> ring_abs r m = x # ring_abs r m')"
proof
  have le: "length (ring_abs r m) \<le> ring_cap r" using assms by (simp add: ring_inv_def)
  show "case try_push r m h d of
      Inl e \<Rightarrow> e = TooSmall \<and> DATA_CAPACITY < length d \<or>
        e = Full \<and> length d \<le> DATA_CAPACITY \<and> length (ring_abs r m) = ring_cap r
    | Inr m' \<Rightarrow> ring_inv r m' \<and> ring_abs r m' = ring_abs r m @ [(stamp h d, d)]"
    using le by (cases rule: ring_queue.push_cases [OF assms, of d h]) auto
  show "case try_pop r m of
      Inl e \<Rightarrow> e = Empty \<and> ring_abs r m = []
    | Inr (x, m') \<Rightarrow> ring_inv r m' \<and> ring_abs r m = x # ring_abs r m'"
    by (cases rule: ring_queue.pop_cases [OF assms]) auto
qed

text \<open>On the ring just created a push of two bytes and then a pop return the message.\<close>

theorem ring_refines_queue_witness:
  "case try_push (fst small_ring) (snd small_ring) (header_new Send 0) [7, 8] of
      Inl e \<Rightarrow> False
    | Inr m' \<Rightarrow> ring_abs (fst small_ring) m' = [(stamp (header_new Send 0) [7, 8], [7, 8])]"
  using ring_refines_queue [OF small_ring_inv, where h = "header_new Send 0" and d = "[7, 8]"]
  by (auto simp: small_ring_abs small_ring_cap DATA_CAPACITY_eq split: sum.splits)

text \<open>
  Create and attach agree, every slot of the accepted region lies inside it on a 64-byte
  boundary, and up to \<open>slot_count\<close> messages pushed into the fresh ring are popped in the same
  order with the same payloads, leaving it empty.
\<close>

theorem ring_create_roundtrip:
  assumes "ring_create m0 n = Inr (r, m)" and "slots_ok m0"
    and "\<forall>(h, d) \<in> set xs. length d \<le> DATA_CAPACITY" and "length xs \<le> unat n"
  shows "ring_attach m = Inr r \<and>
    (\<forall>i. slot_ptr r i + SLOT_SIZE \<le> rm_len m0 \<and> slot_ptr r i mod 64 = 0) \<and>
    (\<exists>m1 m2. push_all (try_push r) m xs = Inr m1 \<and>
       pop_n (try_pop r) (length xs) m1 = Inr (map (\<lambda>(h, d). (stamp h d, d)) xs, m2) \<and>
       ring_abs r m2 = [])"
proof -
  note cr = ring_create_Inr [OF assms(1)]
  have "ring_bytes (r_slot_count r) \<le> rm_len m0"
    using assms(1) by (auto simp: ring_create_def handle_for_def split: if_splits)
  with slot_ptr_in_region [OF cr(1)] have "slot_ptr r i + SLOT_SIZE \<le> rm_len m0" for i
    using order_trans by blast
  moreover have "\<exists>m1 m2. push_all (try_push r) m xs = Inr m1 \<and>
       pop_n (try_pop r) (length xs) m1 = Inr (map (\<lambda>(h, d). (stamp h d, d)) xs, m2) \<and>
       ring_inv r m2 \<and> ring_abs r m2 = []"
    using ring_create_inv [OF assms(1,2)] assms(3,4) cr(2)
    by (intro ring_queue.fifo_transfer) simp_all
  ultimately show ?thesis using cr(5) slot_ptr_aligned(1) by blast
qed

theorem ring_create_roundtrip_witness:
  "\<exists>m1 m2. push_all (try_push (fst small_ring)) (snd small_ring)
      [(header_new Send 0, [1]), (header_new Close 0, [])] = Inr m1 \<and>
    pop_n (try_pop (fst small_ring)) 2 m1 =
      Inr ([(stamp (header_new Send 0) [1], [1]), (stamp (header_new Close 0) [], [])], m2)"
proof -
  let ?xs = "[(header_new Send 0, [1]), (header_new Close 0, [])] :: (SlotHeader \<times> u8 list) list"
  have fit: "\<forall>(h, d) \<in> set ?xs. length d \<le> DATA_CAPACITY" by (simp add: DATA_CAPACITY_eq)
  have two: "length ?xs \<le> unat (2 :: u32)" by simp
  have created: "ring_create small_region 2 = Inr (fst small_ring, snd small_ring)"
    by (simp add: small_ring_created)
  from ring_create_roundtrip [OF created small_region_slots fit two]
  obtain m1 m2 where push: "push_all (try_push (fst small_ring)) (snd small_ring) ?xs = Inr m1"
    and pop: "pop_n (try_pop (fst small_ring)) (length ?xs) m1 =
      Inr (map (\<lambda>(h, d). (stamp h d, d)) ?xs, m2)"
    by blast
  have eqs: "length ?xs = 2" "map (\<lambda>(h, d). (stamp h d, d)) ?xs =
      [(stamp (header_new Send 0) [1], [1]), (stamp (header_new Close 0) [], [])]"
    by simp_all
  show ?thesis using push pop unfolding eqs by (intro exI conjI)
qed

end
