(* ===== verification/Ring_Steps.thy ===== *)
theory Ring_Steps
  imports Ring
begin

text \<open>
  The two processes of a ring at the granularity of their shared-memory accesses:
  \<open>Ring::try_push\<close> and \<open>Ring::try_pop\<close> of \<open>crates/psroot-netstack-ipc/src/ring.rs\<close> cut into
  loads, single-byte copies and the publishing store, interleaved in any order. Accesses are
  sequentially consistent steps; the code's release stores and acquire loads on \<open>head\<close> and
  \<open>tail\<close> order the slot accesses that the steps order. \<open>sent\<close> and \<open>received\<close> record the
  completed pushes and pops and are not part of the program.
\<close>

section \<open>Steps\<close>

datatype prod_pc =
    P_Idle
  | P_Head SlotHeader "u8 list" u64      \<comment> \<open>head loaded\<close>
  | P_Room SlotHeader "u8 list" u64      \<comment> \<open>tail loaded, room found\<close>
  | P_Copy SlotHeader "u8 list" u64 nat  \<comment> \<open>header written, that many payload bytes copied\<close>

datatype cons_pc =
    C_Idle
  | C_Tail u64                           \<comment> \<open>tail loaded\<close>
  | C_Some u64                           \<comment> \<open>head loaded, message found\<close>
  | C_Copy u64 SlotHeader "u8 list"      \<comment> \<open>header read, these payload bytes read\<close>

record spsc =
  mem :: ring_mem
  prod :: prod_pc
  cons :: cons_pc
  sent :: "(SlotHeader \<times> u8 list) list"
  received :: "(SlotHeader \<times> u8 list) list"

definition set_slot :: "nat \<Rightarrow> (slot \<Rightarrow> slot) \<Rightarrow> ring_mem \<Rightarrow> ring_mem" where
  "set_slot i f m = m\<lparr>rm_slots := (rm_slots m)(i := f (rm_slots m i))\<rparr>"

inductive spsc_step :: "ring \<Rightarrow> spsc \<Rightarrow> spsc \<Rightarrow> bool" for r :: ring where
  push_load_head: "prod s = P_Idle \<Longrightarrow> length d \<le> DATA_CAPACITY \<Longrightarrow>
    spsc_step r s (s\<lparr>prod := P_Head h d (rm_head (mem s))\<rparr>)"
| push_full: "prod s = P_Head h d hp \<Longrightarrow> ucast (r_slot_count r) \<le> hp - rm_tail (mem s) \<Longrightarrow>
    spsc_step r s (s\<lparr>prod := P_Idle\<rparr>)"
| push_room: "prod s = P_Head h d hp \<Longrightarrow> \<not> ucast (r_slot_count r) \<le> hp - rm_tail (mem s) \<Longrightarrow>
    spsc_step r s (s\<lparr>prod := P_Room h d hp\<rparr>)"
| push_write_header: "prod s = P_Room h d hp \<Longrightarrow>
    spsc_step r s (s\<lparr>mem := set_slot (slot_idx r hp) (\<lambda>sl. sl\<lparr>s_hdr := stamp h d\<rparr>) (mem s),
                     prod := P_Copy h d hp 0\<rparr>)"
| push_copy_byte: "prod s = P_Copy h d hp n \<Longrightarrow> n < length d \<Longrightarrow>
    spsc_step r s (s\<lparr>mem := set_slot (slot_idx r hp)
                              (\<lambda>sl. sl\<lparr>s_data := (s_data sl)[n := d ! n]\<rparr>) (mem s),
                     prod := P_Copy h d hp (Suc n)\<rparr>)"
| push_publish: "prod s = P_Copy h d hp (length d) \<Longrightarrow>
    spsc_step r s (s\<lparr>mem := (mem s)\<lparr>rm_head := hp + 1\<rparr>, prod := P_Idle,
                     sent := sent s @ [(stamp h d, d)]\<rparr>)"
| pop_load_tail: "cons s = C_Idle \<Longrightarrow> spsc_step r s (s\<lparr>cons := C_Tail (rm_tail (mem s))\<rparr>)"
| pop_empty: "cons s = C_Tail tp \<Longrightarrow> rm_head (mem s) = tp \<Longrightarrow> spsc_step r s (s\<lparr>cons := C_Idle\<rparr>)"
| pop_some: "cons s = C_Tail tp \<Longrightarrow> rm_head (mem s) \<noteq> tp \<Longrightarrow>
    spsc_step r s (s\<lparr>cons := C_Some tp\<rparr>)"
| pop_read_header: "cons s = C_Some tp \<Longrightarrow>
    spsc_step r s (s\<lparr>cons := C_Copy tp (s_hdr (rm_slots (mem s) (slot_idx r tp))) []\<rparr>)"
| pop_copy_byte: "cons s = C_Copy tp h acc \<Longrightarrow>
    length acc < min (unat (h_payload_len h)) DATA_CAPACITY \<Longrightarrow>
    spsc_step r s (s\<lparr>cons := C_Copy tp h
      (acc @ [s_data (rm_slots (mem s) (slot_idx r tp)) ! length acc])\<rparr>)"
| pop_publish: "cons s = C_Copy tp h acc \<Longrightarrow>
    length acc = min (unat (h_payload_len h)) DATA_CAPACITY \<Longrightarrow>
    spsc_step r s (s\<lparr>mem := (mem s)\<lparr>rm_tail := tp + 1\<rparr>, cons := C_Idle,
                     received := received s @ [(h, acc)]\<rparr>)"

definition spsc_init :: "ring_mem \<Rightarrow> spsc" where
  "spsc_init m = \<lparr>mem = m, prod = P_Idle, cons = C_Idle, sent = [], received = []\<rparr>"

inductive spsc_reach :: "ring \<Rightarrow> ring_mem \<Rightarrow> spsc \<Rightarrow> bool" for r m where
  start: "spsc_reach r m (spsc_init m)"
| step: "spsc_reach r m s \<Longrightarrow> spsc_step r s t \<Longrightarrow> spsc_reach r m t"

section \<open>Invariant\<close>

definition core_inv :: "ring \<Rightarrow> spsc \<Rightarrow> bool" where
  "core_inv r s \<longleftrightarrow> ring_ok r \<and> slots_ok (mem s) \<and>
     rm_head (mem s) = of_nat (length (sent s)) \<and>
     rm_tail (mem s) = of_nat (length (received s)) \<and>
     length (received s) \<le> length (sent s) \<and>
     length (sent s) - length (received s) \<le> ring_cap r \<and>
     take (length (received s)) (sent s) = received s \<and>
     (\<forall>i. length (received s) \<le> i \<longrightarrow> i < length (sent s) \<longrightarrow>
        slot_msg (rm_slots (mem s) (slot_idx r (of_nat i))) = sent s ! i)"

definition has_room :: "ring \<Rightarrow> spsc \<Rightarrow> bool" where
  "has_room r s \<longleftrightarrow> length (sent s) - length (received s) < ring_cap r"

fun prod_inv :: "ring \<Rightarrow> spsc \<Rightarrow> prod_pc \<Rightarrow> bool" where
  "prod_inv r s P_Idle \<longleftrightarrow> True"
| "prod_inv r s (P_Head h d hp) \<longleftrightarrow> length d \<le> DATA_CAPACITY \<and> hp = of_nat (length (sent s))"
| "prod_inv r s (P_Room h d hp) \<longleftrightarrow>
     length d \<le> DATA_CAPACITY \<and> hp = of_nat (length (sent s)) \<and> has_room r s"
| "prod_inv r s (P_Copy h d hp n) \<longleftrightarrow>
     length d \<le> DATA_CAPACITY \<and> hp = of_nat (length (sent s)) \<and> has_room r s \<and> n \<le> length d \<and>
     s_hdr (rm_slots (mem s) (slot_idx r hp)) = stamp h d \<and>
     take n (s_data (rm_slots (mem s) (slot_idx r hp))) = take n d"

fun cons_inv :: "ring \<Rightarrow> spsc \<Rightarrow> cons_pc \<Rightarrow> bool" where
  "cons_inv r s C_Idle \<longleftrightarrow> True"
| "cons_inv r s (C_Tail tp) \<longleftrightarrow> tp = of_nat (length (received s))"
| "cons_inv r s (C_Some tp) \<longleftrightarrow>
     tp = of_nat (length (received s)) \<and> length (received s) < length (sent s)"
| "cons_inv r s (C_Copy tp h acc) \<longleftrightarrow>
     tp = of_nat (length (received s)) \<and> length (received s) < length (sent s) \<and>
     h = s_hdr (rm_slots (mem s) (slot_idx r tp)) \<and>
     length acc \<le> min (unat (h_payload_len h)) DATA_CAPACITY \<and>
     take (length acc) (s_data (rm_slots (mem s) (slot_idx r tp))) = acc"

definition spsc_inv :: "ring \<Rightarrow> spsc \<Rightarrow> bool" where
  "spsc_inv r s \<longleftrightarrow> core_inv r s \<and> prod_inv r s (prod s) \<and> cons_inv r s (cons s)"

lemma slot_of_nat_distinct:
  assumes "ring_ok r" and "i < j" and "j - i < ring_cap r"
  shows "slot_idx r (of_nat i) \<noteq> slot_idx r (of_nat j)"
  using slot_idx_distinct [OF assms, of 0] by simp

lemma writer_slot_free:
  assumes "core_inv r s" and "has_room r s" and "length (received s) \<le> i" and "i < length (sent s)"
  shows "slot_idx r (of_nat i) \<noteq> slot_idx r (of_nat (length (sent s)))"
  using assms by (intro slot_of_nat_distinct) (auto simp: core_inv_def has_room_def)

lemma set_slot_simps [simp]:
  "rm_head (set_slot i f m) = rm_head m" "rm_tail (set_slot i f m) = rm_tail m"
  "rm_slots (set_slot i f m) = (rm_slots m)(i := f (rm_slots m i))"
  by (simp_all add: set_slot_def)

text \<open>A write to the producer's slot keeps everything but the producer's own clause.\<close>

lemma core_inv_write:
  assumes "core_inv r s" and "has_room r s" and "hp = of_nat (length (sent s))"
    and "length (s_data (f (rm_slots (mem s) (slot_idx r hp)))) = DATA_CAPACITY"
  shows "core_inv r (s\<lparr>mem := set_slot (slot_idx r hp) f (mem s), prod := p\<rparr>)"
  using assms writer_slot_free [OF assms(1,2)]
  by (auto simp: core_inv_def slots_ok_def)

lemma cons_inv_write:
  assumes "core_inv r s" and "has_room r s" and "cons_inv r s (cons s)"
    and "hp = of_nat (length (sent s))"
  shows "cons_inv r (s\<lparr>mem := set_slot (slot_idx r hp) f (mem s), prod := p\<rparr>) (cons s)"
  using assms writer_slot_free [OF assms(1,2), of "length (received s)"]
  by (cases "cons s") auto

lemma inv_upd_pc [simp]:
  "core_inv r (s\<lparr>prod := p\<rparr>) = core_inv r s" "core_inv r (s\<lparr>cons := c\<rparr>) = core_inv r s"
  "has_room r (s\<lparr>prod := p\<rparr>) = has_room r s" "has_room r (s\<lparr>cons := c\<rparr>) = has_room r s"
  by (simp_all add: core_inv_def has_room_def)

lemma prod_inv_upd [simp]: "prod_inv r (s\<lparr>prod := p\<rparr>) q = prod_inv r s q"
  "prod_inv r (s\<lparr>cons := c\<rparr>) q = prod_inv r s q"
  by (cases q; simp)+

lemma cons_inv_upd [simp]: "cons_inv r (s\<lparr>prod := p\<rparr>) q = cons_inv r s q"
  "cons_inv r (s\<lparr>cons := c\<rparr>) q = cons_inv r s q"
  by (cases q; simp)+

lemma inv_prod_only: "spsc_inv r s \<Longrightarrow> prod_inv r s p \<Longrightarrow> spsc_inv r (s\<lparr>prod := p\<rparr>)"
  by (simp add: spsc_inv_def)

lemma inv_cons_only: "spsc_inv r s \<Longrightarrow> cons_inv r s c \<Longrightarrow> spsc_inv r (s\<lparr>cons := c\<rparr>)"
  by (simp add: spsc_inv_def)

lemma unat_diff_of_nat:
  assumes "b \<le> a" and "a - b < 2 ^ 64"
  shows "unat ((of_nat a :: u64) - of_nat b) = a - b"
proof -
  have "(of_nat a :: u64) - of_nat b = of_nat (a - b)" using assms(1) by (simp add: of_nat_diff)
  then show ?thesis using assms(2) by (simp only: unat_of_nat) simp
qed

lemma cap_small: "ring_cap r < 2 ^ 32"
  by (simp add: ring_cap_def)

lemma pending_unat:
  assumes "core_inv r s"
  shows "unat (rm_head (mem s) - rm_tail (mem s)) = length (sent s) - length (received s)"
  using assms cap_small [of r] by (simp add: core_inv_def unat_diff_of_nat)

lemma empty_iff:
  assumes "core_inv r s"
  shows "rm_head (mem s) = rm_tail (mem s) \<longleftrightarrow> length (sent s) = length (received s)"
  using pending_unat [OF assms] assms
  by (auto simp: core_inv_def)

lemma slot_msg_complete:
  assumes "s_hdr sl = stamp h d" and "take (length d) (s_data sl) = d"
    and "length d \<le> DATA_CAPACITY" and "length (s_data sl) = DATA_CAPACITY"
  shows "slot_msg sl = (stamp h d, d)"
  using assms by (simp add: slot_msg_def stamp_def unat_of_nat layout)

section \<open>Every step keeps the invariant\<close>

lemma publish_push_core:
  assumes core: "core_inv r s" and p: "prod_inv r s (P_Copy h d hp (length d))"
  shows "core_inv r (s\<lparr>mem := (mem s)\<lparr>rm_head := hp + 1\<rparr>, prod := P_Idle,
                     sent := sent s @ [(stamp h d, d)]\<rparr>)"
proof -
  have "slot_msg (rm_slots (mem s) (slot_idx r (of_nat (length (sent s))))) = (stamp h d, d)"
    using p core by (intro slot_msg_complete) (auto simp: core_inv_def slots_ok_def)
  with core p show ?thesis
    by (auto simp: core_inv_def has_room_def slots_ok_def nth_append less_Suc_eq add.commute)
qed

lemma cons_inv_more_sent:
  assumes "cons_inv r s (cons s)" and "rm_slots m = rm_slots (mem s)"
  shows "cons_inv r (s\<lparr>mem := m, prod := p, sent := sent s @ xs\<rparr>) (cons s)"
  using assms by (cases "cons s") simp_all

lemma publish_pop_core:
  assumes core: "core_inv r s" and c: "cons_inv r s (C_Copy tp h acc)"
    and full: "length acc = min (unat (h_payload_len h)) DATA_CAPACITY"
  shows "core_inv r (s\<lparr>mem := (mem s)\<lparr>rm_tail := tp + 1\<rparr>, cons := C_Idle,
                     received := received s @ [(h, acc)]\<rparr>)"
proof -
  let ?R = "length (received s)" and ?sl = "rm_slots (mem s) (slot_idx r tp)"
  have "h = s_hdr ?sl" and "take (length acc) (s_data ?sl) = acc" and tp: "tp = of_nat ?R"
    and lt: "?R < length (sent s)"
    using c by auto
  then have "slot_msg ?sl = (h, acc)"
    using full unfolding slot_msg_def by metis
  then have nth: "sent s ! ?R = (h, acc)"
    using core lt tp by (auto simp: core_inv_def)
  have "take ?R (sent s) = received s" using core by (simp add: core_inv_def)
  then have "take (Suc ?R) (sent s) = received s @ [(h, acc)]"
    using lt nth by (simp add: take_Suc_conv_app_nth)
  with core lt tp show ?thesis
    by (auto simp: core_inv_def slots_ok_def add.commute)
qed

lemma prod_inv_more_received:
  assumes "prod_inv r s (prod s)" and "rm_slots m = rm_slots (mem s)"
  shows "prod_inv r (s\<lparr>mem := m, cons := c, received := received s @ xs\<rparr>) (prod s)"
  using assms by (cases "prod s") (auto simp: has_room_def)

lemma prod_step_inv:
  assumes "spsc_inv r s" and "prod s = pc"
  shows "pc = P_Idle \<Longrightarrow> length d \<le> DATA_CAPACITY \<Longrightarrow>
      spsc_inv r (s\<lparr>prod := P_Head h d (rm_head (mem s))\<rparr>)"
    and "pc = P_Head h d hp \<Longrightarrow> \<not> ucast (r_slot_count r) \<le> hp - rm_tail (mem s) \<Longrightarrow>
      spsc_inv r (s\<lparr>prod := P_Room h d hp\<rparr>)"
proof -
  have core: "core_inv r s" and p: "prod_inv r s pc" using assms by (simp_all add: spsc_inv_def)
  show "spsc_inv r (s\<lparr>prod := P_Head h d (rm_head (mem s))\<rparr>)"
    if "pc = P_Idle" "length d \<le> DATA_CAPACITY"
    using that core by (intro inv_prod_only assms(1)) (simp add: core_inv_def)
  show "spsc_inv r (s\<lparr>prod := P_Room h d hp\<rparr>)"
    if "pc = P_Head h d hp" "\<not> ucast (r_slot_count r) \<le> hp - rm_tail (mem s)"
  proof (rule inv_prod_only [OF assms(1)])
    have hp: "hp = of_nat (length (sent s))" and d: "length d \<le> DATA_CAPACITY"
      using p that by simp_all
    then have "rm_head (mem s) = hp" using core by (simp add: core_inv_def)
    with that(2) pending_unat [OF core] have "has_room r s" by (simp add: has_room_def)
    with hp d show "prod_inv r s (P_Room h d hp)" by simp
  qed
qed

lemma write_step_inv:
  assumes "spsc_inv r s" and "has_room r s" and "hp = of_nat (length (sent s))"
    and "length (s_data (f (rm_slots (mem s) (slot_idx r hp)))) = DATA_CAPACITY"
    and "prod_inv r (s\<lparr>mem := set_slot (slot_idx r hp) f (mem s), prod := p\<rparr>) p"
  shows "spsc_inv r (s\<lparr>mem := set_slot (slot_idx r hp) f (mem s), prod := p\<rparr>)"
  using assms core_inv_write [of r s hp f] cons_inv_write [of r s hp, where f = f]
  by (simp add: spsc_inv_def)

lemma cons_step_inv:
  assumes inv: "spsc_inv r s"
  shows "cons s = C_Idle \<Longrightarrow> spsc_inv r (s\<lparr>cons := C_Tail (rm_tail (mem s))\<rparr>)"
    and "cons s = C_Tail tp \<Longrightarrow> rm_head (mem s) \<noteq> tp \<Longrightarrow> spsc_inv r (s\<lparr>cons := C_Some tp\<rparr>)"
    and "cons s = C_Some tp \<Longrightarrow>
      spsc_inv r (s\<lparr>cons := C_Copy tp (s_hdr (rm_slots (mem s) (slot_idx r tp))) []\<rparr>)"
proof -
  have core: "core_inv r s" and c: "cons_inv r s (cons s)" using inv by (simp_all add: spsc_inv_def)
  show "spsc_inv r (s\<lparr>cons := C_Tail (rm_tail (mem s))\<rparr>)" if "cons s = C_Idle"
    using core by (intro inv_cons_only inv) (simp add: core_inv_def)
  show "spsc_inv r (s\<lparr>cons := C_Copy tp (s_hdr (rm_slots (mem s) (slot_idx r tp))) []\<rparr>)"
    if "cons s = C_Some tp"
    using c that by (intro inv_cons_only inv) simp
  show "spsc_inv r (s\<lparr>cons := C_Some tp\<rparr>)" if pc: "cons s = C_Tail tp" and "rm_head (mem s) \<noteq> tp"
  proof (rule inv_cons_only [OF inv])
    have tp: "tp = of_nat (length (received s))" using c pc by simp
    then have "rm_tail (mem s) = tp" using core by (simp add: core_inv_def)
    with that(2) have "length (sent s) \<noteq> length (received s)" using empty_iff [OF core] by simp
    with core tp show "cons_inv r s (C_Some tp)" by (simp add: core_inv_def)
  qed
qed

lemma copy_byte_inv:
  assumes inv: "spsc_inv r s" and pc: "cons s = C_Copy tp h acc"
    and more: "length acc < min (unat (h_payload_len h)) DATA_CAPACITY"
  shows "spsc_inv r (s\<lparr>cons := C_Copy tp h
      (acc @ [s_data (rm_slots (mem s) (slot_idx r tp)) ! length acc])\<rparr>)"
proof (rule inv_cons_only [OF inv])
  let ?d = "s_data (rm_slots (mem s) (slot_idx r tp))"
  have c: "cons_inv r s (C_Copy tp h acc)" and "slots_ok (mem s)"
    using inv pc unfolding spsc_inv_def core_inv_def by auto
  moreover from this have "length acc < length ?d" using more by (simp add: slots_ok_def)
  then have "take (length acc) ?d @ [?d ! length acc] = take (Suc (length acc)) ?d"
    by (simp add: take_Suc_conv_app_nth)
  moreover have "take (length acc) ?d = acc" using c by auto
  ultimately show "cons_inv r s (C_Copy tp h (acc @ [?d ! length acc]))"
    using more unfolding cons_inv.simps length_append by auto
qed

lemma spsc_step_inv:
  assumes "spsc_step r s t" and inv: "spsc_inv r s"
  shows "spsc_inv r t"
  using assms(1)
proof (cases rule: spsc_step.cases)
  case (push_load_head d h)
  then show ?thesis using prod_step_inv(1) [OF inv] by simp
next
  case (push_full h d hp)
  then show ?thesis by (simp add: inv_prod_only [OF inv])
next
  case (push_room h d hp)
  then show ?thesis using prod_step_inv(2) [OF inv] by simp
next
  case (push_write_header h d hp)
  moreover from this inv have "prod_inv r s (P_Room h d hp)" by (simp add: spsc_inv_def)
  moreover have "slots_ok (mem s)" using inv by (simp add: spsc_inv_def core_inv_def)
  ultimately show ?thesis
    by (simp only:) (rule write_step_inv [OF inv], auto simp: slots_ok_def has_room_def)
next
  case (push_copy_byte h d hp n)
  moreover from this inv have "prod_inv r s (P_Copy h d hp n)" by (metis spsc_inv_def)
  moreover have "slots_ok (mem s)" using inv by (simp add: spsc_inv_def core_inv_def)
  ultimately show ?thesis
    by (simp only:) (rule write_step_inv [OF inv],
        auto simp: slots_ok_def has_room_def take_Suc_conv_app_nth)
next
  case (push_publish h d hp)
  moreover from this inv have "core_inv r s" "prod_inv r s (P_Copy h d hp (length d))"
    "cons_inv r s (cons s)" by (metis spsc_inv_def)+
  ultimately show ?thesis
    by (simp add: spsc_inv_def publish_push_core cons_inv_more_sent 
        del: prod_inv.simps(4))
next
  case pop_load_tail
  then show ?thesis using cons_step_inv(1) [OF inv] by simp
next
  case (pop_empty tp)
  then show ?thesis by (simp add: inv_cons_only [OF inv])
next
  case (pop_some tp)
  then show ?thesis using cons_step_inv(2) [OF inv] by simp
next
  case (pop_read_header tp)
  then show ?thesis using cons_step_inv(3) [OF inv] by simp
next
  case (pop_copy_byte tp h acc)
  then show ?thesis using copy_byte_inv [OF inv] by simp
next
  case (pop_publish tp h acc)
  moreover from this inv have "core_inv r s" "cons_inv r s (C_Copy tp h acc)"
    "prod_inv r s (prod s)" by (metis spsc_inv_def)+
  ultimately show ?thesis
    by (simp add: spsc_inv_def publish_pop_core prod_inv_more_received del: cons_inv.simps(4))
qed

section \<open>Reachable states\<close>

lemma spsc_init_inv:
  assumes "ring_create m0 n = Inr (r, m)" and "slots_ok m0"
  shows "spsc_inv r (spsc_init m)"
  using ring_create_Inr [OF assms(1)] ring_create_head_tail [OF assms(1)] assms(2)
  by (simp add: spsc_inv_def spsc_init_def core_inv_def slots_ok_def)

lemma spsc_reach_inv:
  assumes "spsc_reach r m s" and "ring_create m0 n = Inr (r, m)" and "slots_ok m0"
  shows "spsc_inv r s"
  using assms(1)
proof induction
  case start
  show ?case using assms(2,3) by (rule spsc_init_inv)
next
  case (step s t)
  then show ?case by (blast intro: spsc_step_inv)
qed

text \<open>The slot a process is in the middle of writing or reading.\<close>

fun writing :: "ring \<Rightarrow> prod_pc \<Rightarrow> nat option" where
  "writing r (P_Room h d hp) = Some (slot_idx r hp)"
| "writing r (P_Copy h d hp n) = Some (slot_idx r hp)"
| "writing r _ = None"

fun reading :: "ring \<Rightarrow> cons_pc \<Rightarrow> nat option" where
  "reading r (C_Some tp) = Some (slot_idx r tp)"
| "reading r (C_Copy tp h acc) = Some (slot_idx r tp)"
| "reading r _ = None"

lemma no_shared_slot_inv:
  assumes inv: "spsc_inv r s" and w: "writing r (prod s) = Some i" and c: "reading r (cons s) = Some j"
  shows "i \<noteq> j"
proof -
  have core: "core_inv r s" using inv by (simp add: spsc_inv_def)
  have "has_room r s" and i: "i = slot_idx r (of_nat (length (sent s)))"
    using inv w by (cases "prod s"; auto simp: spsc_inv_def)+
  moreover have "length (received s) < length (sent s)"
    and "j = slot_idx r (of_nat (length (received s)))"
    using inv c by (cases "cons s"; auto simp: spsc_inv_def)+
  ultimately show ?thesis using writer_slot_free [OF core _ order.refl] by metis
qed

section \<open>Properties\<close>

lemma core_inv_length: "core_inv r s \<Longrightarrow> length (received s) \<le> length (sent s)"
  by (simp add: core_inv_def)

text \<open>
  C2. However the loads, byte copies and publishing stores of the two processes interleave, the
  consumer receives exactly the pushed messages, in order, none twice, none torn and none lost;
  never more than \<open>slot_count\<close> messages are in flight; and those in flight are intact in their slots.
\<close>

theorem spsc_delivery:
  assumes "ring_create m0 n = Inr (r, m)" and "slots_ok m0" and "spsc_reach r m s"
  shows "received s = take (length (received s)) (sent s) \<and>
    length (sent s) - length (received s) \<le> unat n \<and>
    ring_abs r (mem s) = drop (length (received s)) (sent s)"
proof -
  have core: "core_inv r s"
    using spsc_reach_inv [OF assms(3,1,2)] by (simp add: spsc_inv_def)
  have len: "unat (ring_len (mem s)) = length (sent s) - length (received s)"
    using pending_unat [OF core] by (simp add: ring_len_def)
  have "ring_abs r (mem s) = drop (length (received s)) (sent s)"
  proof (rule nth_equalityI)
    show "length (ring_abs r (mem s)) = length (drop (length (received s)) (sent s))"
      by (simp add: len)
    fix i assume "i < length (ring_abs r (mem s))"
    then have i: "i < length (sent s) - length (received s)" by (simp add: len)
    have tail: "rm_tail (mem s) + of_nat i = of_nat (length (received s) + i)"
      using core by (simp add: core_inv_def)
    have "slot_msg (rm_slots (mem s) (slot_idx r (of_nat (length (received s) + i)))) =
        sent s ! (length (received s) + i)"
      using i core by (simp add: core_inv_def del: of_nat_add)
    then show "ring_abs r (mem s) ! i = drop (length (received s)) (sent s) ! i"
      using i core_inv_length [OF core]
      by (simp add: ring_abs_def len tail del: of_nat_add)
  qed
  then show ?thesis using core ring_create_Inr(2) [OF assms(1)] by (simp add: core_inv_def)
qed

text \<open>
  No data race on a slot: whenever the producer is between its room check and its publishing
  store and the consumer between its emptiness check and its own, they are in different slots.
\<close>

theorem spsc_no_shared_slot:
  assumes "ring_create m0 n = Inr (r, m)" and "slots_ok m0" and "spsc_reach r m s"
    and "writing r (prod s) = Some i" and "reading r (cons s) = Some j"
  shows "i \<noteq> j"
  using spsc_reach_inv [OF assms(3,1,2)] assms(4,5) by (rule no_shared_slot_inv)

text \<open>
  A run on the small ring: a message without payload is pushed, the producer starts on a second
  one and the consumer on the first.
\<close>

definition demo_busy :: spsc where
  "demo_busy =
    (let r = fst small_ring; m = snd small_ring; h = header_new Send 0;
         m1 = (set_slot (slot_idx r 0) (\<lambda>sl. sl\<lparr>s_hdr := stamp h []\<rparr>) m)\<lparr>rm_head := 1\<rparr> in
     \<lparr>mem = m1, prod = P_Room h [] 1, cons = C_Some 0, sent = [(stamp h [], [])], received = []\<rparr>)"

lemma demo_busy_reach: "spsc_reach (fst small_ring) (snd small_ring) demo_busy"
proof -
  let ?r = "fst small_ring" and ?m = "snd small_ring" and ?h = "header_new Send 0"
  let ?s0 = "spsc_init ?m"
  let ?s1 = "?s0\<lparr>prod := P_Head ?h [] 0\<rparr>" and ?s2 = "?s0\<lparr>prod := P_Room ?h [] 0\<rparr>"
  let ?m1 = "set_slot (slot_idx ?r 0) (\<lambda>sl. sl\<lparr>s_hdr := stamp ?h []\<rparr>) ?m"
  let ?s3 = "?s0\<lparr>mem := ?m1, prod := P_Copy ?h [] 0 0\<rparr>"
  let ?s4 = "?s0\<lparr>mem := ?m1\<lparr>rm_head := 1\<rparr>, sent := [(stamp ?h [], [])]\<rparr>"
  have hd0: "rm_head ?m = 0" "rm_tail ?m = 0" "r_slot_count ?r = 2"
    by (simp_all add: small_ring_def small_region_def handle_for_def)
  note step = spsc_reach.step
  have "spsc_reach ?r ?m ?s0" by (rule spsc_reach.start)
  then have "spsc_reach ?r ?m ?s1"
    using push_load_head [of ?s0 "[]" ?r ?h] by (auto intro: step simp: spsc_init_def hd0)
  then have "spsc_reach ?r ?m ?s2"
    using push_room [of ?s1 ?h "[]" 0 ?r] by (auto intro: step simp: spsc_init_def hd0 small_ring_cap)
  then have "spsc_reach ?r ?m ?s3"
    using push_write_header [of ?s2 ?h "[]" 0 ?r] by (auto intro: step simp: spsc_init_def)
  then have "spsc_reach ?r ?m ?s4"
    using push_publish [of ?s3 ?h "[]" 0 ?r] by (auto intro: step simp: spsc_init_def)
  then have "spsc_reach ?r ?m (?s4\<lparr>cons := C_Tail 0\<rparr>)"
    using pop_load_tail [of ?s4 ?r] by (auto intro: step simp: spsc_init_def hd0)
  then have "spsc_reach ?r ?m (?s4\<lparr>cons := C_Some 0\<rparr>)"
    using pop_some [of "?s4\<lparr>cons := C_Tail 0\<rparr>" 0 ?r] by (auto intro: step simp: spsc_init_def)
  then have "spsc_reach ?r ?m (?s4\<lparr>cons := C_Some 0, prod := P_Head ?h [] 1\<rparr>)"
    using push_load_head [of "?s4\<lparr>cons := C_Some 0\<rparr>" "[]" ?r ?h]
    by (auto intro: step simp: spsc_init_def)
  then have "spsc_reach ?r ?m (?s4\<lparr>cons := C_Some 0, prod := P_Room ?h [] 1\<rparr>)"
    using push_room [of "?s4\<lparr>cons := C_Some 0, prod := P_Head ?h [] 1\<rparr>" ?h "[]" 1 ?r]
    by (auto intro: step simp: spsc_init_def hd0 small_ring_cap word_le_nat_alt)
  then show ?thesis by (simp add: demo_busy_def spsc_init_def Let_def)
qed

lemma small_ring_created': "ring_create small_region 2 = Inr (fst small_ring, snd small_ring)"
  by (simp add: small_ring_created)

theorem spsc_delivery_witness:
  "ring_abs (fst small_ring) (mem demo_busy) = [(stamp (header_new Send 0) [], [])]"
  using spsc_delivery [OF small_ring_created' small_region_slots demo_busy_reach]
  by (simp add: demo_busy_def Let_def)

theorem spsc_no_shared_slot_witness:
  "writing (fst small_ring) (prod demo_busy) = Some 1 \<and> reading (fst small_ring) (cons demo_busy) = Some 0 \<and>
   slot_idx (fst small_ring) 1 \<noteq> slot_idx (fst small_ring) 0"
  using spsc_no_shared_slot [OF small_ring_created' small_region_slots demo_busy_reach,
      of "slot_idx (fst small_ring) 1" "slot_idx (fst small_ring) 0"]
  by (simp add: demo_busy_def Let_def small_ring_def handle_for_def slot_idx_def)

end
