(* ===== verification/Socket_Table.thy ===== *)
theory Socket_Table
  imports Prelude
begin

text \<open>
  The table of logical sockets, \<open>crates/psroot-netstack-host/src/socket_table.rs\<close>: a vector of
  optional values with a queue of freed ids. It is shown to be a finite map from non-zero ids,
  with insertion at an id that is not in use; a panic (id space exhausted, or an index out of
  range) is \<open>None\<close>. The interface the NAT backend relies on is the locale \<open>id_table\<close>.
\<close>

section \<open>State and operations\<close>

record 'a socket_table =
  st_slots :: "'a option list"
  st_free :: "u32 list"
  st_next :: u32

definition table_new :: "'a socket_table" where
  "table_new = \<lparr>st_slots = [None], st_free = [], st_next = 1\<rparr>"

definition table_insert :: "'a \<Rightarrow> 'a socket_table \<Rightarrow> (u32 \<times> 'a socket_table) option" where
  "table_insert v t = (case st_free t of
      i # rest \<Rightarrow>
        if unat i < length (st_slots t)
        then Some (i, t\<lparr>st_slots := (st_slots t)[unat i := Some v], st_free := rest\<rparr>) else None
    | [] \<Rightarrow>
        if st_next t = - 1 then None
        else Some (st_next t, t\<lparr>st_slots := st_slots t @ [Some v], st_next := st_next t + 1\<rparr>))"

definition table_get :: "'a socket_table \<Rightarrow> u32 \<Rightarrow> 'a option" where
  "table_get t i = (if unat i < length (st_slots t) then st_slots t ! unat i else None)"

text \<open>\<open>get_mut\<close> followed by a write of the entry.\<close>

definition table_set :: "u32 \<Rightarrow> 'a \<Rightarrow> 'a socket_table \<Rightarrow> 'a socket_table" where
  "table_set i v t =
     (if table_get t i = None then t else t\<lparr>st_slots := (st_slots t)[unat i := Some v]\<rparr>)"

definition table_remove :: "u32 \<Rightarrow> 'a socket_table \<Rightarrow> 'a option \<times> 'a socket_table" where
  "table_remove i t = (case table_get t i of
      None \<Rightarrow> (None, t)
    | Some v \<Rightarrow> (Some v, t\<lparr>st_slots := (st_slots t)[unat i := None], st_free := st_free t @ [i]\<rparr>))"

definition table_len :: "'a socket_table \<Rightarrow> nat" where
  "table_len t = length (filter (\<lambda>s. s \<noteq> None) (st_slots t))"

definition table_is_empty :: "'a socket_table \<Rightarrow> bool" where
  "table_is_empty t \<longleftrightarrow> table_len t = 0"

section \<open>Invariant\<close>

text \<open>
  Slot 0 stays empty, the next id is the length of the vector, and the free queue lists each
  empty slot above 0 exactly once.
\<close>

definition table_inv :: "'a socket_table \<Rightarrow> bool" where
  "table_inv t \<longleftrightarrow> st_slots t \<noteq> [] \<and> st_slots t ! 0 = None \<and>
     unat (st_next t) = length (st_slots t) \<and> distinct (st_free t) \<and>
     (\<forall>i. i \<in> set (st_free t) \<longleftrightarrow>
        0 < unat i \<and> unat i < length (st_slots t) \<and> st_slots t ! unat i = None)"

lemma table_inv_new [simp]: "table_inv table_new"
  by (auto simp: table_inv_def table_new_def less_Suc_eq)

lemma table_get_new [simp]: "table_get table_new = (\<lambda>i. None)"
  by (auto simp: table_get_def table_new_def less_Suc_eq)

lemma unat_eq_iff: "unat (i :: u32) = unat j \<longleftrightarrow> i = j"
  by (simp add: word_unat_eq_iff)

lemma unat_eq_next: "unat (i :: u32) = n \<Longrightarrow> unat j = n \<longleftrightarrow> j = i"
  by (auto simp: word_unat_eq_iff)

lemma table_get_zero: "table_inv t \<Longrightarrow> table_get t 0 = None"
  by (simp add: table_inv_def table_get_def)

lemma table_set_inv: "table_inv t \<Longrightarrow> table_inv (table_set i v t)"
  by (auto simp: table_inv_def table_set_def table_get_def nth_list_update split: if_splits)

lemma table_get_set:
  "table_get (table_set i v t) j = (if j = i \<and> table_get t i \<noteq> None then Some v else table_get t j)"
  by (auto simp: table_set_def table_get_def nth_list_update unat_eq_iff)

lemma table_get_remove:
  "table_get (snd (table_remove i t)) j = (if j = i then None else table_get t j)"
  by (auto simp: table_remove_def table_get_def nth_list_update unat_eq_iff split: option.splits)

lemma table_remove_inv:
  assumes "table_inv t"
  shows "table_inv (snd (table_remove i t))"
proof (cases "table_get t i")
  case None
  then show ?thesis using assms by (simp add: table_remove_def)
next
  case (Some v)
  then have i: "unat i < length (st_slots t)" "st_slots t ! unat i = Some v"
    by (auto simp: table_get_def split: if_splits)
  moreover from this assms have "0 < unat i" by (cases "unat i = 0") (auto simp: table_inv_def)
  moreover have "i \<notin> set (st_free t)" using i assms by (auto simp: table_inv_def)
  ultimately show ?thesis
    using assms Some
    by (auto simp: table_inv_def table_remove_def nth_list_update unat_eq_iff)
qed

lemma table_insert_Some:
  assumes inv: "table_inv t" and ins: "table_insert v t = Some (i, t')"
  shows "table_inv t'" and "i \<noteq> 0" and "table_get t i = None"
    and "table_get t' = (table_get t)(i \<mapsto> v)"
proof -
  have "table_inv t' \<and> i \<noteq> 0 \<and> table_get t i = None \<and> table_get t' = (table_get t)(i \<mapsto> v)"
  proof (cases "st_free t")
    case Nil
    then have next_ok: "st_next t \<noteq> - 1" and i: "i = st_next t"
      and t': "t' = t\<lparr>st_slots := st_slots t @ [Some v], st_next := st_next t + 1\<rparr>"
      using ins by (auto simp: table_insert_def split: if_splits)
    have n: "unat (st_next t) = length (st_slots t)" using inv by (simp add: table_inv_def)
    have "unat (st_next t + 1) = Suc (length (st_slots t))"
      using next_ok n by (metis unatSuc eq_neg_iff_add_eq_0 add.commute)
    then have "table_inv t'"
      using inv Nil by (auto simp: t' table_inv_def nth_append less_Suc_eq)
    moreover have "table_get t' = (table_get t)(i \<mapsto> v)"
      by (auto simp: t' i table_get_def nth_append fun_eq_iff less_Suc_eq unat_eq_next [OF n]
          n split: if_splits)
    moreover have "i \<noteq> 0" using n inv i by (auto simp: table_inv_def)
    ultimately show ?thesis using n i by (simp add: table_get_def)
  next
    case (Cons j rest)
    then have i: "i = j" and lt: "unat j < length (st_slots t)"
      and t': "t' = t\<lparr>st_slots := (st_slots t)[unat j := Some v], st_free := rest\<rparr>"
      using ins by (auto simp: table_insert_def split: if_splits)
    have j: "0 < unat j" "st_slots t ! unat j = None" "j \<notin> set rest"
      and free: "\<And>k. k \<in> set (j # rest) \<longleftrightarrow> 0 < unat k \<and> unat k < length (st_slots t) \<and> st_slots t ! unat k = None"
      using inv Cons by (auto simp: table_inv_def)
    have "k \<in> set rest \<longleftrightarrow> k \<noteq> j \<and> k \<in> set (j # rest)" for k using j(3) by auto
    then have "table_inv t'"
      using inv Cons j lt free
      by (auto simp: t' table_inv_def nth_list_update unat_eq_iff)
    moreover have "table_get t' = (table_get t)(i \<mapsto> v)"
      using lt by (auto simp: t' i table_get_def nth_list_update fun_eq_iff unat_eq_iff)
    moreover have "i \<noteq> 0" using j i by auto
    ultimately show ?thesis using j i by (simp add: table_get_def)
  qed
  then show "table_inv t'" and "i \<noteq> 0" and "table_get t i = None"
    and "table_get t' = (table_get t)(i \<mapsto> v)" by simp_all
qed

lemma table_insert_None:
  assumes inv: "table_inv t" and "table_insert v t = None"
  shows "st_free t = [] \<and> st_next t = - 1"
proof (cases "st_free t")
  case Nil
  then show ?thesis using assms by (simp add: table_insert_def split: if_splits)
next
  case (Cons j rest)
  then have "unat j < length (st_slots t)" using inv by (auto simp: table_inv_def)
  then show ?thesis using assms(2) Cons by (simp add: table_insert_def)
qed

section \<open>The interface of the socket users\<close>

locale id_table =
  fixes inv :: "'t \<Rightarrow> bool"
    and get :: "'t \<Rightarrow> u32 \<Rightarrow> 'v option"
    and ins :: "'v \<Rightarrow> 't \<Rightarrow> (u32 \<times> 't) option"
    and upd :: "u32 \<Rightarrow> 'v \<Rightarrow> 't \<Rightarrow> 't"
    and rem :: "u32 \<Rightarrow> 't \<Rightarrow> 'v option \<times> 't"
  assumes ins_inv: "inv t \<Longrightarrow> ins v t = Some (i, t') \<Longrightarrow> inv t'"
    and ins_fresh: "inv t \<Longrightarrow> ins v t = Some (i, t') \<Longrightarrow> i \<noteq> 0 \<and> get t i = None"
    and ins_get: "inv t \<Longrightarrow> ins v t = Some (i, t') \<Longrightarrow> get t' = (get t)(i \<mapsto> v)"
    and upd_inv: "inv t \<Longrightarrow> inv (upd i v t)"
    and upd_get: "get (upd i v t) j = (if j = i \<and> get t i \<noteq> None then Some v else get t j)"
    and rem_inv: "inv t \<Longrightarrow> inv (snd (rem i t))"
    and rem_get: "get (snd (rem i t)) = (get t)(i := None)"
    and rem_val: "fst (rem i t) = get t i"
begin

lemma ins_keeps: "inv t \<Longrightarrow> ins v t = Some (i, t') \<Longrightarrow> get t j = Some w \<Longrightarrow> get t' j = Some w"
  using ins_fresh ins_get by fastforce

lemma ins_new: "inv t \<Longrightarrow> ins v t = Some (i, t') \<Longrightarrow> get t' i = Some v"
  using ins_get by fastforce

lemma upd_dom: "dom (get (upd i v t)) = dom (get t)"
  by (auto simp: upd_get dom_def)

lemma ins_dom: "inv t \<Longrightarrow> ins v t = Some (i, t') \<Longrightarrow> dom (get t') = insert i (dom (get t))"
  using ins_get by fastforce

end

interpretation sockets: id_table table_inv table_get table_insert table_set table_remove
proof
  fix i :: u32 and t :: "'a socket_table"
  show "table_get (snd (table_remove i t)) = (table_get t)(i := None)"
    by (rule ext) (simp add: table_get_remove)
  show "fst (table_remove i t) = table_get t i"
    by (simp add: table_remove_def split: option.splits)
qed (simp_all add: table_insert_Some table_set_inv table_get_set table_remove_inv)

section \<open>Properties\<close>

lemma card_some_slots:
  "length (filter (\<lambda>s. s \<noteq> None) xs) = card {i. i < length xs \<and> xs ! i \<noteq> None}"
  by (simp add: length_filter_conv_card)

lemma table_len_card:
  assumes "table_inv t"
  shows "table_len t = card (dom (table_get t))"
proof -
  have small: "length (st_slots t) < 2 ^ 32"
    using assms unsigned_less [of "st_next t", where ?'a = nat] by (simp add: table_inv_def)
  have "bij_betw unat (dom (table_get t)) {i. i < length (st_slots t) \<and> st_slots t ! i \<noteq> None}"
  proof (rule bij_betw_byWitness [where f' = of_nat])
    show "unat ` dom (table_get t) \<subseteq> {i. i < length (st_slots t) \<and> st_slots t ! i \<noteq> None}"
      by (auto simp: table_get_def split: if_splits)
    have "table_get t (of_nat i) = st_slots t ! i" if "i < length (st_slots t)" for i
      using that small by (simp add: table_get_def unat_of_nat_u32)
    then show "of_nat ` {i. i < length (st_slots t) \<and> st_slots t ! i \<noteq> None} \<subseteq> dom (table_get t)"
      by auto
    show "\<forall>i \<in> {i. i < length (st_slots t) \<and> st_slots t ! i \<noteq> None}. unat (of_nat i :: u32) = i"
      using small by (simp add: unat_of_nat_u32)
  qed simp
  then show ?thesis
    unfolding table_len_def card_some_slots by (rule bij_betw_same_card [symmetric])
qed

text \<open>
  The socket table is a finite map from ids: an insertion picks an id that is non-zero and
  free, binds it and changes nothing else; it fails only when the id space is exhausted with no
  freed id left; removal unbinds exactly the id; \<open>len\<close> counts the bound ids; the invariant is kept.
\<close>

theorem socket_table_is_map:
  assumes "table_inv t"
  shows "(case table_insert v t of
      None \<Rightarrow> st_free t = [] \<and> st_next t = - 1
    | Some (i, t') \<Rightarrow> table_inv t' \<and> i \<noteq> 0 \<and> table_get t i = None \<and>
        table_get t' = (table_get t)(i \<mapsto> v)) \<and>
    (let (old, t') = table_remove i t in
       table_inv t' \<and> old = table_get t i \<and> table_get t' = (table_get t)(i := None)) \<and>
    table_len t = card (dom (table_get t))"
proof (intro conjI)
  show "case table_insert v t of
      None \<Rightarrow> st_free t = [] \<and> st_next t = - 1
    | Some (i, t') \<Rightarrow> table_inv t' \<and> i \<noteq> 0 \<and> table_get t i = None \<and>
        table_get t' = (table_get t)(i \<mapsto> v)"
    using table_insert_Some [OF assms, of v] table_insert_None [OF assms, of v]
    by (simp split: option.split prod.split)
  show "let (old, t') = table_remove i t in
       table_inv t' \<and> old = table_get t i \<and> table_get t' = (table_get t)(i := None)"
    using sockets.rem_inv [OF assms, of i] sockets.rem_get [of i t] sockets.rem_val [of i t]
    by (simp add: Let_def split_beta)
qed (rule table_len_card [OF assms])

theorem socket_table_is_map_witness:
  "\<exists>i t'. table_insert True table_new = Some (i, t') \<and> i \<noteq> 0 \<and> table_get t' i = Some True"
proof -
  have "table_insert True table_new \<noteq> None" by (simp add: table_insert_def table_new_def)
  then show ?thesis using socket_table_is_map [OF table_inv_new, of True] by auto
qed

end
