(* ===== verification/Nat_Backend.thy ===== *)
theory Nat_Backend
  imports Proto Socket_Table
begin

text \<open>
  The NAT backend, \<open>crates/psroot-netstack-host/src/nat.rs\<close>, and the trait it implements,
  \<open>backend.rs\<close>. The host's sockets are a record \<open>os\<close> of functions over a world of type \<open>'w\<close>
  with handles of type \<open>'h\<close>: every theorem holds for all such records. The trait is the record
  \<open>backend\<close> of its methods over a state. A method that inserts into the socket table may panic,
  so \<open>socket\<close> and \<open>accept\<close> return an option.
\<close>

section \<open>Host sockets\<close>

text \<open>\<open>Ipv4Addr\<close> is its four octets, \<open>Ipv6Addr\<close> a 128-bit number with big-endian octets.\<close>

datatype SocketAddr = V4 "u8 list" u16 | V6 "128 word" u16 u32 u32

definition ipv6_octets :: "128 word \<Rightarrow> u8 list" where
  "ipv6_octets a = rev (to_le 16 a)"

definition ipv6_from :: "u8 list \<Rightarrow> 128 word" where
  "ipv6_from bs = from_le (rev bs)"

lemma ipv6_from_octets [codec, simp]: "ipv6_from (ipv6_octets a) = a"
  by (simp add: ipv6_from_def ipv6_octets_def from_le_to_le)

lemma length_ipv6_octets [simp]: "length (ipv6_octets a) = 16"
  by (simp add: ipv6_octets_def)

datatype ErrorKind = K_ConnectionRefused | K_ConnectionReset | K_ConnectionAborted | K_BrokenPipe
  | K_AddrInUse | K_AddrNotAvailable | K_WouldBlock | K_Other nat

datatype Shutdown_How = Sh_Read | Sh_Write | Sh_Both

record ('w, 'h) os =
  os_connect :: "SocketAddr \<Rightarrow> 'w \<Rightarrow> (ErrorKind + 'h) \<times> 'w"
  os_tcp_bind :: "SocketAddr \<Rightarrow> 'w \<Rightarrow> (ErrorKind + 'h) \<times> 'w"
  os_udp_bind :: "SocketAddr \<Rightarrow> 'w \<Rightarrow> (ErrorKind + 'h) \<times> 'w"
  os_local_addr :: "'h \<Rightarrow> 'w \<Rightarrow> ErrorKind + SocketAddr"
  os_accept :: "'h \<Rightarrow> 'w \<Rightarrow> (ErrorKind + 'h \<times> SocketAddr) \<times> 'w"
  os_write :: "'h \<Rightarrow> u8 list \<Rightarrow> 'w \<Rightarrow> (ErrorKind + nat) \<times> 'w"
  os_read :: "'h \<Rightarrow> nat \<Rightarrow> 'w \<Rightarrow> (ErrorKind + nat \<times> u8 list) \<times> 'w"
  os_shutdown :: "'h \<Rightarrow> Shutdown_How \<Rightarrow> 'w \<Rightarrow> (ErrorKind + unit) \<times> 'w"
  os_send_to :: "'h \<Rightarrow> u8 list \<Rightarrow> SocketAddr \<Rightarrow> 'w \<Rightarrow> (ErrorKind + nat) \<times> 'w"
  os_recv_from :: "'h \<Rightarrow> nat \<Rightarrow> 'w \<Rightarrow> (ErrorKind + nat \<times> u8 list \<times> SocketAddr) \<times> 'w"
  os_drop :: "'h \<Rightarrow> 'w \<Rightarrow> 'w"

definition addr_port :: "SocketAddr \<Rightarrow> u16" where
  "addr_port a = (case a of V4 ip p \<Rightarrow> p | V6 ip p flow scope \<Rightarrow> p)"

text \<open>
  A read hands the OS a zeroed buffer of \<open>cap\<close> bytes; the OS reports a count and what it wrote
  at the front of the buffer, and \<open>truncate\<close> cuts the buffer to the count.
\<close>

definition buffer_after :: "nat \<Rightarrow> nat \<Rightarrow> u8 list \<Rightarrow> u8 list" where
  "buffer_after cap n bs = take n (take cap bs @ replicate (cap - length bs) 0)"

lemma length_buffer_after: "length (buffer_after cap n bs) \<le> cap"
  by (simp add: buffer_after_def)

section \<open>The backend trait\<close>

type_synonym 'a BResult = "StatusCode + 'a"

record 'b backend =
  be_socket :: "u16 \<Rightarrow> u16 \<Rightarrow> u32 \<Rightarrow> 'b \<Rightarrow> (u32 BResult \<times> 'b) option"
  be_bind :: "u32 \<Rightarrow> SockAddrBytes \<Rightarrow> 'b \<Rightarrow> unit BResult \<times> 'b"
  be_connect :: "u32 \<Rightarrow> SockAddrBytes \<Rightarrow> 'b \<Rightarrow> unit BResult \<times> 'b"
  be_listen :: "u32 \<Rightarrow> u32 \<Rightarrow> 'b \<Rightarrow> unit BResult \<times> 'b"
  be_accept :: "u32 \<Rightarrow> 'b \<Rightarrow> ((u32 \<times> SockAddrBytes) BResult \<times> 'b) option"
  be_send :: "u32 \<Rightarrow> u8 list \<Rightarrow> 'b \<Rightarrow> u32 BResult \<times> 'b"
  be_recv :: "u32 \<Rightarrow> u32 \<Rightarrow> 'b \<Rightarrow> u8 list BResult \<times> 'b"
  be_close :: "u32 \<Rightarrow> 'b \<Rightarrow> unit BResult \<times> 'b"
  be_shutdown :: "u32 \<Rightarrow> u32 \<Rightarrow> 'b \<Rightarrow> unit BResult \<times> 'b"
  be_get_sock_name :: "u32 \<Rightarrow> 'b \<Rightarrow> SockAddrBytes BResult \<times> 'b"
  be_get_peer_name :: "u32 \<Rightarrow> 'b \<Rightarrow> SockAddrBytes BResult \<times> 'b"
  be_sendto :: "u32 \<Rightarrow> SockAddrBytes \<Rightarrow> u8 list \<Rightarrow> 'b \<Rightarrow> u32 BResult \<times> 'b"
  be_recvfrom :: "u32 \<Rightarrow> u32 \<Rightarrow> 'b \<Rightarrow> (u8 list \<times> SockAddrBytes) BResult \<times> 'b"

definition reply_from :: "u32 \<Rightarrow> u32 \<Rightarrow> 'a BResult \<Rightarrow> SlotHeader \<times> 'a option" where
  "reply_from corr sid r = (case r of
     Inr v \<Rightarrow> (reply_ok corr sid, Some v) | Inl s \<Rightarrow> (header_reply_err corr s, None))"

section \<open>State of the NAT backend\<close>

datatype 'h SockState =
    Fresh u16 u16
  | Stream 'h SockAddrBytes
  | Listener 'h SockAddrBytes
  | Dgram 'h SockAddrBytes

record ('w, 'h) nat_backend =
  nb_table :: "'h SockState socket_table"
  nb_virtual_ipv4 :: "u8 list"
  nb_translator :: "(SocketAddr \<Rightarrow> SocketAddr option) option"
  nb_world :: 'w

definition nat_new :: "u8 list \<Rightarrow> 'w \<Rightarrow> ('w, 'h) nat_backend" where
  "nat_new ip w = \<lparr>nb_table = table_new, nb_virtual_ipv4 = ip, nb_translator = None, nb_world = w\<rparr>"

definition with_translator ::
  "(SocketAddr \<Rightarrow> SocketAddr option) \<Rightarrow> ('w, 'h) nat_backend \<Rightarrow> ('w, 'h) nat_backend" where
  "with_translator t b = b\<lparr>nb_translator := Some t\<rparr>"

definition map_io_err :: "ErrorKind \<Rightarrow> StatusCode" where
  "map_io_err k = (case k of
      K_ConnectionRefused \<Rightarrow> ConnRefused
    | K_ConnectionReset \<Rightarrow> ConnReset | K_ConnectionAborted \<Rightarrow> ConnReset | K_BrokenPipe \<Rightarrow> ConnReset
    | K_AddrInUse \<Rightarrow> AddrInUse | K_AddrNotAvailable \<Rightarrow> AddrNotAvail
    | K_WouldBlock \<Rightarrow> WouldBlock | K_Other n \<Rightarrow> HostError)"

definition sockaddr_to_std :: "SockAddrBytes \<Rightarrow> SocketAddr option" where
  "sockaddr_to_std a =
     (if sa_family a = AF_INET_V then Some (V4 (take 4 (sa_addr a)) (sa_port a))
      else if sa_family a = AF_INET6_V then Some (V6 (ipv6_from (sa_addr a)) (sa_port a) (sa_flow a) (sa_scope a))
      else None)"

definition sockaddr_of_std :: "SocketAddr \<Rightarrow> SockAddrBytes" where
  "sockaddr_of_std a = (case a of V4 ip p \<Rightarrow> sa_v4 ip p | V6 ip p flow scope \<Rightarrow> sa_v6 (ipv6_octets ip) p 0 scope)"

definition loopback_any :: "u16 \<Rightarrow> SocketAddr" where
  "loopback_any af = (if af = AF_INET_V then V4 [127, 0, 0, 1] 0
     else V6 1 0 0 0)"

definition translate_dest :: "('w, 'h) nat_backend \<Rightarrow> SocketAddr \<Rightarrow> SocketAddr" where
  "translate_dest b a = (case nb_translator b of None \<Rightarrow> a
     | Some t \<Rightarrow> (case t a of None \<Rightarrow> a | Some a' \<Rightarrow> a'))"

definition drop_state :: "('w, 'h) os \<Rightarrow> 'h SockState option \<Rightarrow> 'w \<Rightarrow> 'w" where
  "drop_state os s w = (case s of
      Some (Stream h p) \<Rightarrow> os_drop os h w | Some (Listener h p) \<Rightarrow> os_drop os h w
    | Some (Dgram h p) \<Rightarrow> os_drop os h w | _ \<Rightarrow> w)"

section \<open>Operations\<close>

definition nat_socket :: "u16 \<Rightarrow> u16 \<Rightarrow> u32 \<Rightarrow> ('w, 'h) nat_backend \<Rightarrow>
    (u32 BResult \<times> ('w, 'h) nat_backend) option" where
  "nat_socket af typ proto b =
     (if af \<noteq> AF_INET_V \<and> af \<noteq> AF_INET6_V then Some (Inl NotSupported, b)
      else if typ \<noteq> 1 \<and> typ \<noteq> 2 then Some (Inl NotSupported, b)
      else map_option (\<lambda>(i, t). (Inr i, b\<lparr>nb_table := t\<rparr>)) (table_insert (Fresh af typ) (nb_table b)))"

text \<open>
  Binding a datagram socket; on a failure after the host bind the new host socket is dropped.
  The address asked for is ignored.
\<close>

definition nat_bind :: "('w, 'h) os \<Rightarrow> u32 \<Rightarrow> SockAddrBytes \<Rightarrow> ('w, 'h) nat_backend \<Rightarrow>
    unit BResult \<times> ('w, 'h) nat_backend" where
  "nat_bind os sid addr b = (case table_get (nb_table b) sid of
      None \<Rightarrow> (Inl BadSocket, b)
    | Some (Fresh af typ) \<Rightarrow>
        if typ \<noteq> 2 then (Inr (), b)
        else (case os_udp_bind os (loopback_any af) (nb_world b) of
            (Inl k, w) \<Rightarrow> (Inl (map_io_err k), b\<lparr>nb_world := w\<rparr>)
          | (Inr h, w) \<Rightarrow> (case os_local_addr os h w of
                Inl k \<Rightarrow> (Inl (map_io_err k), b\<lparr>nb_world := os_drop os h w\<rparr>)
              | Inr local \<Rightarrow> (Inr (), b\<lparr>nb_world := w, nb_table := table_set sid
                    (Dgram h (sa_v4 (nb_virtual_ipv4 b) (addr_port local))) (nb_table b)\<rparr>)))
    | Some _ \<Rightarrow> (Inl NotSupported, b))"

definition nat_connect :: "('w, 'h) os \<Rightarrow> u32 \<Rightarrow> SockAddrBytes \<Rightarrow> ('w, 'h) nat_backend \<Rightarrow>
    unit BResult \<times> ('w, 'h) nat_backend" where
  "nat_connect os sid addr b = (case sockaddr_to_std addr of
      None \<Rightarrow> (Inl AddrNotAvail, b)
    | Some requested \<Rightarrow> (case os_connect os (translate_dest b requested) (nb_world b) of
        (Inl k, w) \<Rightarrow> (Inl (map_io_err k), b\<lparr>nb_world := w\<rparr>)
      | (Inr h, w) \<Rightarrow> (case table_get (nb_table b) sid of
            None \<Rightarrow> (Inl BadSocket, b\<lparr>nb_world := os_drop os h w\<rparr>)
          | Some old \<Rightarrow> (Inr (), b\<lparr>nb_world := drop_state os (Some old) w,
                nb_table := table_set sid (Stream h addr) (nb_table b)\<rparr>))))"

definition nat_listen :: "('w, 'h) os \<Rightarrow> u32 \<Rightarrow> u32 \<Rightarrow> ('w, 'h) nat_backend \<Rightarrow>
    unit BResult \<times> ('w, 'h) nat_backend" where
  "nat_listen os sid backlog b = (case table_get (nb_table b) sid of
      None \<Rightarrow> (Inl BadSocket, b)
    | Some (Listener h p) \<Rightarrow> (Inr (), b)
    | Some (Fresh af typ) \<Rightarrow>
        (case os_tcp_bind os (loopback_any af) (nb_world b) of
            (Inl k, w) \<Rightarrow> (Inl (map_io_err k), b\<lparr>nb_world := w\<rparr>)
          | (Inr h, w) \<Rightarrow> (case os_local_addr os h w of
                Inl k \<Rightarrow> (Inl (map_io_err k), b\<lparr>nb_world := os_drop os h w\<rparr>)
              | Inr local \<Rightarrow> (Inr (), b\<lparr>nb_world := w, nb_table := table_set sid
                    (Listener h (sa_v4 (nb_virtual_ipv4 b) (addr_port local))) (nb_table b)\<rparr>)))
    | Some _ \<Rightarrow> (Inl NotSupported, b))"

definition nat_accept :: "('w, 'h) os \<Rightarrow> u32 \<Rightarrow> ('w, 'h) nat_backend \<Rightarrow>
    ((u32 \<times> SockAddrBytes) BResult \<times> ('w, 'h) nat_backend) option" where
  "nat_accept os sid b = (case table_get (nb_table b) sid of
      None \<Rightarrow> Some (Inl BadSocket, b)
    | Some (Listener l p) \<Rightarrow> (case os_accept os l (nb_world b) of
          (Inl k, w) \<Rightarrow> Some (Inl (map_io_err k), b\<lparr>nb_world := w\<rparr>)
        | (Inr (h, peer), w) \<Rightarrow>
            map_option (\<lambda>(i, t). (Inr (i, sockaddr_of_std peer), b\<lparr>nb_world := w, nb_table := t\<rparr>))
              (table_insert (Stream h (sockaddr_of_std peer)) (nb_table b)))
    | Some _ \<Rightarrow> Some (Inl NotSupported, b))"

definition nat_send :: "('w, 'h) os \<Rightarrow> u32 \<Rightarrow> u8 list \<Rightarrow> ('w, 'h) nat_backend \<Rightarrow>
    u32 BResult \<times> ('w, 'h) nat_backend" where
  "nat_send os sid d b = (case table_get (nb_table b) sid of
      None \<Rightarrow> (Inl BadSocket, b)
    | Some (Stream h p) \<Rightarrow> (case os_write os h d (nb_world b) of
          (Inl k, w) \<Rightarrow> (Inl (map_io_err k), b\<lparr>nb_world := w\<rparr>)
        | (Inr n, w) \<Rightarrow> (Inr (of_nat n), b\<lparr>nb_world := w\<rparr>))
    | Some _ \<Rightarrow> (Inl NotSupported, b))"

definition nat_recv :: "('w, 'h) os \<Rightarrow> u32 \<Rightarrow> u32 \<Rightarrow> ('w, 'h) nat_backend \<Rightarrow>
    u8 list BResult \<times> ('w, 'h) nat_backend" where
  "nat_recv os sid mx b = (case table_get (nb_table b) sid of
      None \<Rightarrow> (Inl BadSocket, b)
    | Some (Stream h p) \<Rightarrow>
        (let cap = min (unat mx) DATA_CAPACITY in
         case os_read os h cap (nb_world b) of
          (Inl k, w) \<Rightarrow> (Inl (map_io_err k), b\<lparr>nb_world := w\<rparr>)
        | (Inr (n, bs), w) \<Rightarrow> (Inr (buffer_after cap n bs), b\<lparr>nb_world := w\<rparr>))
    | Some _ \<Rightarrow> (Inl NotSupported, b))"

definition nat_close :: "('w, 'h) os \<Rightarrow> u32 \<Rightarrow> ('w, 'h) nat_backend \<Rightarrow>
    unit BResult \<times> ('w, 'h) nat_backend" where
  "nat_close os sid b = (let (old, t) = table_remove sid (nb_table b) in
     (Inr (), b\<lparr>nb_table := t, nb_world := drop_state os old (nb_world b)\<rparr>))"

definition nat_shutdown :: "('w, 'h) os \<Rightarrow> u32 \<Rightarrow> u32 \<Rightarrow> ('w, 'h) nat_backend \<Rightarrow>
    unit BResult \<times> ('w, 'h) nat_backend" where
  "nat_shutdown os sid how b = (case table_get (nb_table b) sid of
      None \<Rightarrow> (Inl BadSocket, b)
    | Some (Stream h p) \<Rightarrow>
        (case os_shutdown os h (if how = 0 then Sh_Read else if how = 1 then Sh_Write else Sh_Both)
            (nb_world b) of
          (Inl k, w) \<Rightarrow> (Inl (map_io_err k), b\<lparr>nb_world := w\<rparr>)
        | (Inr _, w) \<Rightarrow> (Inr (), b\<lparr>nb_world := w\<rparr>))
    | Some _ \<Rightarrow> (Inl NotSupported, b))"

definition nat_get_sock_name :: "('w, 'h) os \<Rightarrow> u32 \<Rightarrow> ('w, 'h) nat_backend \<Rightarrow>
    SockAddrBytes BResult \<times> ('w, 'h) nat_backend" where
  "nat_get_sock_name os sid b = (case table_get (nb_table b) sid of
      None \<Rightarrow> (Inl BadSocket, b)
    | Some (Fresh af typ) \<Rightarrow> (Inr (sa_v4 [0, 0, 0, 0] 0), b)
    | Some (Stream h p) \<Rightarrow> (Inr (sa_v4 (nb_virtual_ipv4 b)
          (case os_local_addr os h (nb_world b) of Inl k \<Rightarrow> 0 | Inr a \<Rightarrow> addr_port a)), b)
    | Some (Listener h v) \<Rightarrow> (Inr v, b)
    | Some (Dgram h v) \<Rightarrow> (Inr v, b))"

definition nat_get_peer_name :: "u32 \<Rightarrow> ('w, 'h) nat_backend \<Rightarrow>
    SockAddrBytes BResult \<times> ('w, 'h) nat_backend" where
  "nat_get_peer_name sid b = (case table_get (nb_table b) sid of
      None \<Rightarrow> (Inl BadSocket, b)
    | Some (Stream h p) \<Rightarrow> (Inr p, b)
    | Some _ \<Rightarrow> (Inl NotSupported, b))"

text \<open>\<open>sendto\<close> binds a fresh datagram socket first, and returns early when that fails.\<close>

definition nat_sendto :: "('w, 'h) os \<Rightarrow> u32 \<Rightarrow> SockAddrBytes \<Rightarrow> u8 list \<Rightarrow> ('w, 'h) nat_backend \<Rightarrow>
    u32 BResult \<times> ('w, 'h) nat_backend" where
  "nat_sendto os sid addr d b0 =
     (let needs_bind = (case table_get (nb_table b0) sid of Some (Fresh af typ) \<Rightarrow> typ = 2 | _ \<Rightarrow> False);
          (r, b) = (if needs_bind then nat_bind os sid (sa_v4 [0, 0, 0, 0] 0) b0 else (Inr (), b0)) in
      case r of Inl e \<Rightarrow> (Inl e, b)
      | Inr _ \<Rightarrow> (case table_get (nb_table b) sid of
          None \<Rightarrow> (Inl BadSocket, b)
        | Some (Dgram h v) \<Rightarrow> (case sockaddr_to_std addr of
              None \<Rightarrow> (Inl AddrNotAvail, b)
            | Some requested \<Rightarrow> (case os_send_to os h d (translate_dest b requested) (nb_world b) of
                  (Inl k, w) \<Rightarrow> (Inl (map_io_err k), b\<lparr>nb_world := w\<rparr>)
                | (Inr n, w) \<Rightarrow> (Inr (of_nat n), b\<lparr>nb_world := w\<rparr>)))
        | Some _ \<Rightarrow> (Inl NotSupported, b)))"

definition nat_recvfrom :: "('w, 'h) os \<Rightarrow> u32 \<Rightarrow> u32 \<Rightarrow> ('w, 'h) nat_backend \<Rightarrow>
    (u8 list \<times> SockAddrBytes) BResult \<times> ('w, 'h) nat_backend" where
  "nat_recvfrom os sid mx b = (case table_get (nb_table b) sid of
      None \<Rightarrow> (Inl BadSocket, b)
    | Some (Dgram h v) \<Rightarrow>
        (let cap = min (unat mx) DATA_CAPACITY in
         case os_recv_from os h cap (nb_world b) of
          (Inl k, w) \<Rightarrow> (Inl (map_io_err k), b\<lparr>nb_world := w\<rparr>)
        | (Inr (n, bs, peer), w) \<Rightarrow>
            (Inr (buffer_after cap n bs, sockaddr_of_std peer), b\<lparr>nb_world := w\<rparr>))
    | Some _ \<Rightarrow> (Inl NotSupported, b))"

definition nat_ops :: "('w, 'h) os \<Rightarrow> ('w, 'h) nat_backend backend" where
  "nat_ops os = \<lparr>be_socket = nat_socket, be_bind = nat_bind os, be_connect = nat_connect os,
     be_listen = nat_listen os, be_accept = nat_accept os, be_send = nat_send os,
     be_recv = nat_recv os, be_close = nat_close os, be_shutdown = nat_shutdown os,
     be_get_sock_name = nat_get_sock_name os, be_get_peer_name = nat_get_peer_name,
     be_sendto = nat_sendto os, be_recvfrom = nat_recvfrom os\<rparr>"

section \<open>The contract of a backend\<close>

text \<open>
  What the daemon relies on. \<open>view\<close> is what a socket id stands for; every operation keeps the
  invariant and touches the view of its own id only, or of an id that was free; addresses are
  well formed; received bytes fit the limit the caller gave and a slot.
\<close>

definition only_id :: "u32 \<Rightarrow> ('b \<Rightarrow> u32 \<Rightarrow> 's option) \<Rightarrow> 'b \<Rightarrow> 'b \<Rightarrow> bool" where
  "only_id i view b b' \<longleftrightarrow> (\<forall>j. j \<noteq> i \<longrightarrow> view b' j = view b j)"

lemma only_id_refl [simp]: "only_id i view b b"
  by (simp add: only_id_def)

lemma only_id_trans: "only_id i view b c \<Longrightarrow> only_id i view c d \<Longrightarrow> only_id i view b d"
  by (simp add: only_id_def)

definition allocates :: "('b \<Rightarrow> u32 \<Rightarrow> 's option) \<Rightarrow> 'b \<Rightarrow> StatusCode + u32 \<Rightarrow> 'b \<Rightarrow> bool" where
  "allocates view b r b' \<longleftrightarrow> (case r of Inl e \<Rightarrow> view b' = view b
     | Inr i \<Rightarrow> i \<noteq> 0 \<and> view b i = None \<and> view b' i \<noteq> None \<and> only_id i view b b')"

locale backend_laws =
  fixes ops :: "'b backend"
    and inv :: "'b \<Rightarrow> bool"
    and view :: "'b \<Rightarrow> u32 \<Rightarrow> 's option"
  assumes socket_law: "inv b \<Longrightarrow> be_socket ops af typ pr b = Some (r, b') \<Longrightarrow>
      inv b' \<and> allocates view b r b'"
    and accept_law: "inv b \<Longrightarrow> be_accept ops i b = Some (q, b') \<Longrightarrow>
      inv b' \<and> allocates view b (map_ok fst q) b' \<and> (\<forall>j a. q = Inr (j, a) \<longrightarrow> wf_addr a)"
    and bind_law: "inv b \<Longrightarrow> be_bind ops i a b = (u, b') \<Longrightarrow> inv b' \<and> only_id i view b b'"
    and connect_law: "inv b \<Longrightarrow> wf_addr a \<Longrightarrow> be_connect ops i a b = (u, b') \<Longrightarrow>
      inv b' \<and> only_id i view b b'"
    and listen_law: "inv b \<Longrightarrow> be_listen ops i n b = (u, b') \<Longrightarrow> inv b' \<and> only_id i view b b'"
    and send_law: "inv b \<Longrightarrow> be_send ops i d b = (k, b') \<Longrightarrow> inv b' \<and> only_id i view b b'"
    and recv_law: "inv b \<Longrightarrow> be_recv ops i n b = (x, b') \<Longrightarrow> inv b' \<and> only_id i view b b' \<and>
      (\<forall>bs. x = Inr bs \<longrightarrow> length bs \<le> min (unat n) DATA_CAPACITY)"
    and close_law: "inv b \<Longrightarrow> be_close ops i b = (u, b') \<Longrightarrow>
      inv b' \<and> only_id i view b b' \<and> view b' i = None"
    and shutdown_law: "inv b \<Longrightarrow> be_shutdown ops i n b = (u, b') \<Longrightarrow> inv b' \<and> only_id i view b b'"
    and sock_name_law: "inv b \<Longrightarrow> be_get_sock_name ops i b = (y, b') \<Longrightarrow>
      inv b' \<and> only_id i view b b' \<and> (\<forall>a. y = Inr a \<longrightarrow> wf_addr a)"
    and peer_name_law: "inv b \<Longrightarrow> be_get_peer_name ops i b = (y, b') \<Longrightarrow>
      inv b' \<and> only_id i view b b' \<and> (\<forall>a. y = Inr a \<longrightarrow> wf_addr a)"
    and sendto_law: "inv b \<Longrightarrow> be_sendto ops i a d b = (k, b') \<Longrightarrow> inv b' \<and> only_id i view b b'"
    and recvfrom_law: "inv b \<Longrightarrow> be_recvfrom ops i n b = (z, b') \<Longrightarrow>
      inv b' \<and> only_id i view b b' \<and>
      (\<forall>bs a. z = Inr (bs, a) \<longrightarrow> length bs \<le> min (unat n) DATA_CAPACITY \<and> wf_addr a)"

section \<open>The NAT backend satisfies the contract\<close>

text \<open>What the container can learn from a socket's state: never a host address.\<close>

fun state_ok :: "u8 list \<Rightarrow> 'h SockState \<Rightarrow> bool" where
  "state_ok vip (Fresh af typ) \<longleftrightarrow> (af = AF_INET_V \<or> af = AF_INET6_V) \<and> (typ = 1 \<or> typ = 2)"
| "state_ok vip (Stream h p) \<longleftrightarrow> wf_addr p"
| "state_ok vip (Listener h v) \<longleftrightarrow> (\<exists>port. v = sa_v4 vip port)"
| "state_ok vip (Dgram h v) \<longleftrightarrow> (\<exists>port. v = sa_v4 vip port)"

definition nat_inv :: "('w, 'h) nat_backend \<Rightarrow> bool" where
  "nat_inv b \<longleftrightarrow> table_inv (nb_table b) \<and>
     (\<forall>i s. table_get (nb_table b) i = Some s \<longrightarrow> state_ok (nb_virtual_ipv4 b) s)"

definition nat_view :: "('w, 'h) nat_backend \<Rightarrow> u32 \<Rightarrow> 'h SockState option" where
  "nat_view b = table_get (nb_table b)"

lemma nat_inv_new [simp]: "nat_inv (nat_new ip w)"
  by (simp add: nat_inv_def nat_new_def)

lemma nat_inv_world [simp]: "nat_inv (b\<lparr>nb_world := w\<rparr>) = nat_inv b"
  "only_id i nat_view b (b\<lparr>nb_world := w\<rparr>)" "nat_view (b\<lparr>nb_world := w\<rparr>) = nat_view b"
  by (simp_all add: nat_inv_def only_id_def nat_view_def)

lemma nat_set:
  assumes "nat_inv b" and "state_ok (nb_virtual_ipv4 b) s"
  shows "nat_inv (b\<lparr>nb_world := w, nb_table := table_set i s (nb_table b)\<rparr>) \<and>
    only_id i nat_view b (b\<lparr>nb_world := w, nb_table := table_set i s (nb_table b)\<rparr>)"
  using assms
  by (auto simp: nat_inv_def only_id_def nat_view_def table_set_inv table_get_set)

lemma virtual_ex [simp]: "\<exists>q. sa_v4 vip p = sa_v4 vip q"
  by blast

lemma nat_insert:
  assumes inv: "nat_inv b" and ok: "state_ok (nb_virtual_ipv4 b) s"
    and ins: "table_insert s (nb_table b) = Some (i, t)"
  shows "nat_inv (b\<lparr>nb_world := w, nb_table := t\<rparr>) \<and>
    allocates nat_view b (Inr i) (b\<lparr>nb_world := w, nb_table := t\<rparr>)"
proof -
  have "table_inv (nb_table b)" using inv by (simp add: nat_inv_def)
  note t = table_insert_Some [OF this ins]
  then show ?thesis
    using inv ok by (auto simp: nat_inv_def allocates_def only_id_def nat_view_def)
qed

lemma nat_state_ok: "nat_inv b \<Longrightarrow> table_get (nb_table b) i = Some s \<Longrightarrow> state_ok (nb_virtual_ipv4 b) s"
  by (simp add: nat_inv_def)

lemma wf_sockaddr_of_std [simp]: "wf_addr (sockaddr_of_std p)"
  by (cases p) (simp_all add: sockaddr_of_std_def)

lemma nat_socket_ok:
  assumes "nat_inv b" and "nat_socket af typ pr b = Some (r, b')"
  shows "nat_inv b' \<and> allocates nat_view b r b'"
proof (cases "(af = AF_INET_V \<or> af = AF_INET6_V) \<and> (typ = 1 \<or> typ = 2)")
  case True
  with assms(2) obtain i t where "table_insert (Fresh af typ) (nb_table b) = Some (i, t)"
    and "r = Inr i" and "b' = b\<lparr>nb_table := t\<rparr>"
    by (auto simp: nat_socket_def)
  moreover have "b\<lparr>nb_world := nb_world b, nb_table := t\<rparr> = b\<lparr>nb_table := t\<rparr>" by simp
  ultimately show ?thesis
    using nat_insert [OF assms(1), of "Fresh af typ" i t "nb_world b"] True by simp
next
  case False
  with assms show ?thesis by (auto simp: nat_socket_def allocates_def split: if_splits)
qed

lemma nat_accept_listener:
  assumes "table_get (nb_table b) i = Some (Listener l p)"
  shows "nat_accept os i b = (case os_accept os l (nb_world b) of
      (Inl k, w) \<Rightarrow> Some (Inl (map_io_err k), b\<lparr>nb_world := w\<rparr>)
    | (Inr (h, peer), w) \<Rightarrow>
        map_option (\<lambda>(i, t). (Inr (i, sockaddr_of_std peer), b\<lparr>nb_world := w, nb_table := t\<rparr>))
          (table_insert (Stream h (sockaddr_of_std peer)) (nb_table b)))"
  using assms by (simp add: nat_accept_def)

lemma nat_accept_other:
  "nat_accept os i b = Some (q, b') \<Longrightarrow>
   (\<And>l p. table_get (nb_table b) i \<noteq> Some (Listener l p)) \<Longrightarrow> b' = b \<and> (\<exists>e. q = Inl e)"
  by (auto simp: nat_accept_def split: option.splits SockState.splits)

lemma nat_accept_ok:
  assumes inv: "nat_inv b" and acc: "nat_accept os i b = Some (q, b')"
  shows "nat_inv b' \<and> allocates nat_view b (map_ok fst q) b' \<and> (\<forall>j a. q = Inr (j, a) \<longrightarrow> wf_addr a)"
proof (cases "\<exists>l p. table_get (nb_table b) i = Some (Listener l p)")
  case False
  then show ?thesis using nat_accept_other [OF acc] inv by (auto simp: allocates_def)
next
  case True
  then obtain l p where l: "table_get (nb_table b) i = Some (Listener l p)" by blast
  obtain r w where os: "os_accept os l (nb_world b) = (r, w)" by fastforce
  show ?thesis
  proof (cases r)
    case (Inl k)
    then show ?thesis
      using acc inv os by (auto simp: nat_accept_listener [OF l] allocates_def)
  next
    case (Inr x)
    obtain h peer where "x = (h, peer)" by (cases x)
    with acc os Inr obtain j t
      where ins: "table_insert (Stream h (sockaddr_of_std peer)) (nb_table b) = Some (j, t)"
        and q: "q = Inr (j, sockaddr_of_std peer)" "b' = b\<lparr>nb_world := w, nb_table := t\<rparr>"
      by (auto simp: nat_accept_listener [OF l])
    then show ?thesis using nat_insert [OF inv _ ins, of w] by simp
  qed
qed

named_theorems nat_defs "definitions of the NAT operations"
declare nat_bind_def [nat_defs] nat_connect_def [nat_defs] nat_listen_def [nat_defs]
  nat_send_def [nat_defs] nat_recv_def [nat_defs] nat_shutdown_def [nat_defs]
  nat_get_sock_name_def [nat_defs] nat_get_peer_name_def [nat_defs] nat_recvfrom_def [nat_defs]

lemma nat_bind_ok:
  assumes "nat_inv b" and "nat_bind os i a b = (u, b')"
  shows "nat_inv b' \<and> only_id i nat_view b b'"
  using assms
  by (auto simp: nat_defs nat_set split: option.splits SockState.splits sum.splits prod.splits if_splits)

lemma nat_connect_ok:
  assumes "nat_inv b" and "wf_addr a" and "nat_connect os i a b = (u, b')"
  shows "nat_inv b' \<and> only_id i nat_view b b'"
  using assms
  by (auto simp: nat_defs nat_set split: option.splits sum.splits prod.splits)

lemma nat_listen_ok:
  assumes "nat_inv b" and "nat_listen os i n b = (u, b')"
  shows "nat_inv b' \<and> only_id i nat_view b b'"
  using assms
  by (auto simp: nat_defs nat_set split: option.splits SockState.splits sum.splits prod.splits)

lemma nat_io_ok:
  assumes "nat_inv b"
  shows "nat_send os i d b = (k, b') \<Longrightarrow> nat_inv b' \<and> only_id i nat_view b b'"
    and "nat_shutdown os i n b = (u, b') \<Longrightarrow> nat_inv b' \<and> only_id i nat_view b b'"
    and "nat_get_sock_name os i b = (y, b') \<Longrightarrow> b' = b"
    and "nat_get_peer_name i b = (y, b') \<Longrightarrow> b' = b"
  using assms
  by (auto simp: nat_defs split: option.splits SockState.splits sum.splits prod.splits)

lemma nat_recv_ok:
  assumes "nat_inv b" and "nat_recv os i n b = (x, b')"
  shows "nat_inv b' \<and> only_id i nat_view b b' \<and>
    (\<forall>bs. x = Inr bs \<longrightarrow> length bs \<le> min (unat n) DATA_CAPACITY)"
  using assms length_buffer_after [of "min (unat n) DATA_CAPACITY"]
  by (auto simp: nat_defs Let_def split: option.splits SockState.splits sum.splits prod.splits)

lemma nat_recvfrom_ok:
  assumes "nat_inv b" and "nat_recvfrom os i n b = (z, b')"
  shows "nat_inv b' \<and> only_id i nat_view b b' \<and>
    (\<forall>bs a. z = Inr (bs, a) \<longrightarrow> length bs \<le> min (unat n) DATA_CAPACITY \<and> wf_addr a)"
  using assms length_buffer_after [of "min (unat n) DATA_CAPACITY"]
  by (auto simp: nat_defs Let_def
      split: option.splits SockState.splits sum.splits prod.splits)

lemma nat_close_ok:
  assumes "nat_inv b" and "nat_close os i b = (u, b')"
  shows "nat_inv b' \<and> only_id i nat_view b b' \<and> nat_view b' i = None"
  using assms
  by (auto simp: nat_close_def nat_inv_def only_id_def nat_view_def split_beta table_remove_inv
      table_get_remove split: if_splits)

lemma nat_sendto_ok:
  assumes "nat_inv b" and "nat_sendto os i a d b = (k, b')"
  shows "nat_inv b' \<and> only_id i nat_view b b'"
proof -
  define r where "r = (if (case table_get (nb_table b) i of Some (Fresh af typ) \<Rightarrow> typ = 2 | _ \<Rightarrow> False)
    then nat_bind os i (sa_v4 [0, 0, 0, 0] 0) b else (Inr (), b))"
  obtain u b1 where r1: "r = (u, b1)" by (cases r)
  have b1: "nat_inv b1 \<and> only_id i nat_view b b1"
    using r1 assms(1) nat_bind_ok [OF assms(1), of os i "sa_v4 [0, 0, 0, 0] 0" u b1]
    by (auto simp: r_def split: if_splits)
  have "b' = b1 \<or> (\<exists>w. b' = b1\<lparr>nb_world := w\<rparr>)"
    using assms(2) r1 unfolding nat_sendto_def r_def [symmetric] Let_def
    by (auto split: sum.splits option.splits SockState.splits prod.splits)
  then show ?thesis using b1 by (auto simp: only_id_def)
qed

lemma nat_names_wf:
  assumes "nat_inv b"
  shows "nat_get_sock_name os i b = (Inr a, b') \<Longrightarrow>
      a = sa_v4 [0, 0, 0, 0] 0 \<or> (\<exists>port. a = sa_v4 (nb_virtual_ipv4 b) port)"
    and "nat_get_peer_name i b = (Inr a, b') \<Longrightarrow> wf_addr a"
  using assms
  by (auto simp: nat_defs nat_inv_def split: option.splits SockState.splits dest!: spec)

lemma nat_ops_sel:
  "be_socket (nat_ops os) = nat_socket" "be_bind (nat_ops os) = nat_bind os"
  "be_connect (nat_ops os) = nat_connect os" "be_listen (nat_ops os) = nat_listen os"
  "be_accept (nat_ops os) = nat_accept os" "be_send (nat_ops os) = nat_send os"
  "be_recv (nat_ops os) = nat_recv os" "be_close (nat_ops os) = nat_close os"
  "be_shutdown (nat_ops os) = nat_shutdown os" "be_get_sock_name (nat_ops os) = nat_get_sock_name os"
  "be_get_peer_name (nat_ops os) = nat_get_peer_name" "be_sendto (nat_ops os) = nat_sendto os"
  "be_recvfrom (nat_ops os) = nat_recvfrom os"
  by (simp_all add: nat_ops_def)

lemma nat_sock_name_ok:
  assumes "nat_inv b" and "nat_get_sock_name os i b = (y, b')"
  shows "nat_inv b' \<and> only_id i nat_view b b' \<and> (\<forall>a. y = Inr a \<longrightarrow> wf_addr a)"
  using assms nat_io_ok(3) [OF assms(1,2)] nat_names_wf(1) [OF assms(1)] by (cases y) fastforce+

lemma nat_peer_name_ok:
  assumes "nat_inv b" and "nat_get_peer_name i b = (y, b')"
  shows "nat_inv b' \<and> only_id i nat_view b b' \<and> (\<forall>a. y = Inr a \<longrightarrow> wf_addr a)"
  using assms nat_io_ok(4) [OF assms(1,2)] nat_names_wf(2) [OF assms(1)] by (cases y) fastforce+

interpretation nat: backend_laws "nat_ops os" nat_inv nat_view for os
  by (unfold_locales; unfold nat_ops_sel;
      (erule (1) nat_socket_ok nat_accept_ok nat_bind_ok nat_listen_ok nat_io_ok(1) nat_io_ok(2)
        nat_recv_ok nat_close_ok nat_sock_name_ok nat_peer_name_ok nat_sendto_ok nat_recvfrom_ok
      | erule (2) nat_connect_ok))

section \<open>Properties\<close>

text \<open>
  The container sees virtual addresses only: \<open>getsockname\<close> reports the unspecified address
  or the container's virtual IP, whatever the host socket is bound to, and after a successful
  \<open>connect\<close> \<open>getpeername\<close> reports the address asked for, although the host connected to its
  translation.
\<close>

theorem nat_shows_virtual_addresses:
  assumes "nat_inv b"
  shows "(\<forall>a b'. nat_get_sock_name os i b = (Inr a, b') \<longrightarrow>
      a = sa_v4 [0, 0, 0, 0] 0 \<or> (\<exists>port. a = sa_v4 (nb_virtual_ipv4 b) port)) \<and>
    (\<forall>peer b'. nat_connect os i peer b = (Inr (), b') \<longrightarrow>
      nat_get_peer_name i b' = (Inr peer, b') \<and>
      (\<exists>dest h. sockaddr_to_std peer = Some dest \<and>
        fst (os_connect os (translate_dest b dest) (nb_world b)) = Inr h))"
proof (intro conjI allI impI)
  fix a b' assume "nat_get_sock_name os i b = (Inr a, b')"
  then show "a = sa_v4 [0, 0, 0, 0] 0 \<or> (\<exists>port. a = sa_v4 (nb_virtual_ipv4 b) port)"
    using nat_names_wf(1) [OF assms] by blast
next
  fix peer b' assume c: "nat_connect os i peer b = (Inr (), b')"
  then show "nat_get_peer_name i b' = (Inr peer, b')"
    by (auto simp: nat_connect_def nat_get_peer_name_def table_get_set
        split: option.splits sum.splits prod.splits)
  show "\<exists>dest h. sockaddr_to_std peer = Some dest \<and>
      fst (os_connect os (translate_dest b dest) (nb_world b)) = Inr h"
    using c by (auto simp: nat_connect_def split: option.splits sum.splits prod.splits)
qed

definition mute_os :: "(nat, nat) os" where
  "mute_os = \<lparr>os_connect = (\<lambda>a w. (Inr w, w + 1)), os_tcp_bind = (\<lambda>a w. (Inr w, w + 1)),
     os_udp_bind = (\<lambda>a w. (Inr w, w + 1)), os_local_addr = (\<lambda>h w. Inr (V4 [127, 0, 0, 1] 4000)),
     os_accept = (\<lambda>h w. (Inl K_WouldBlock, w)), os_write = (\<lambda>h d w. (Inr (length d), w)),
     os_read = (\<lambda>h c w. (Inr (0, []), w)), os_shutdown = (\<lambda>h s w. (Inr (), w)),
     os_send_to = (\<lambda>h d a w. (Inr (length d), w)),
     os_recv_from = (\<lambda>h c w. (Inl K_WouldBlock, w)), os_drop = (\<lambda>h w. w)\<rparr>"

text \<open>A backend with one fresh TCP socket that sends its connections to the loopback address.\<close>

definition demo_nat :: "(nat, nat) nat_backend" where
  "demo_nat = with_translator (\<lambda>a. Some (V4 [127, 0, 0, 1] (addr_port a)))
     ((nat_new [10, 88, 0, 2] 0)\<lparr>nb_table := snd (the (table_insert (Fresh 2 1) table_new))\<rparr>)"

lemma nat_inv_translator [simp]: "nat_inv (with_translator t b) = nat_inv b"
  by (simp add: nat_inv_def with_translator_def)

lemma demo_nat_inv: "nat_inv demo_nat"
proof -
  let ?b = "nat_new [10, 88, 0, 2] (0 :: nat)" and ?t = "snd (the (table_insert (Fresh 2 1) table_new))"
  have "table_insert (Fresh 2 1) (nb_table ?b) = Some (1, ?t)"
    by (simp add: nat_new_def table_insert_def table_new_def)
  from nat_insert [OF nat_inv_new _ this] have "nat_inv (?b\<lparr>nb_world := 0, nb_table := ?t\<rparr>)"
    by (auto simp: AF_INET_V_def)
  then show ?thesis by (simp add: demo_nat_def nat_new_def)
qed

theorem nat_shows_virtual_addresses_witness:
  "\<exists>b'. nat_connect mute_os 1 (sa_v4 [10, 88, 0, 7] 80) demo_nat = (Inr (), b') \<and>
    nat_get_peer_name 1 b' = (Inr (sa_v4 [10, 88, 0, 7] 80), b')"
proof -
  have "\<exists>b'. nat_connect mute_os 1 (sa_v4 [10, 88, 0, 7] 80) demo_nat = (Inr (), b')"
    by (simp add: nat_connect_def sockaddr_to_std_def mute_os_def demo_nat_def nat_new_def
        with_translator_def table_insert_def table_new_def table_get_def)
  then show ?thesis using nat_shows_virtual_addresses [OF demo_nat_inv] by blast
qed

end
