(* ===== verification/Signal.thy ===== *)
theory Signal
  imports Ring
begin

text \<open>
  The sleep/wake protocol of \<open>crates/psroot-netstack-ipc/src/signal.rs\<close> as \<open>channel.rs\<close> uses it:
  \<open>Channel::send\<close> (push, then \<open>post\<close>) against \<open>Channel::recv_blocking\<close> (pop, \<open>park\<close>, pop) on one
  ring and its futex word. \<open>WaitOnAddress\<close> compares and sleeps in one step, \<open>WakeByAddressSingle\<close>
  wakes the sleeper if there is one, and a wait may end by timeout at any time; pushes and pops
  are single steps, as \<open>Ring_Steps\<close> justifies.
\<close>

section \<open>The futex word\<close>

definition FUTEX_IDLE :: u32 where [layout]: "FUTEX_IDLE = 0"
definition FUTEX_SLEEPING :: u32 where [layout]: "FUTEX_SLEEPING = 1"
definition FUTEX_WOKEN :: u32 where [layout]: "FUTEX_WOKEN = 2"

text \<open>\<open>post\<close>: the new word and whether \<open>wake_one\<close> is called.\<close>

definition post_word :: "u32 \<Rightarrow> u32 \<times> bool" where
  "post_word w = (FUTEX_WOKEN, w = FUTEX_SLEEPING)"

text \<open>The swap of \<open>park\<close>: the new word and whether a token was already there.\<close>

definition park_word :: "u32 \<Rightarrow> u32 \<times> bool" where
  "park_word w = (FUTEX_SLEEPING, w = FUTEX_WOKEN)"

section \<open>Steps of the two sides\<close>

datatype sender =
    S_Idle
  | S_Pushed                 \<comment> \<open>pushed, before the swap of \<open>post\<close>\<close>
  | S_Wake                   \<comment> \<open>swapped out SLEEPING, before \<open>wake_one\<close>\<close>

datatype receiver =
    R_Idle
  | R_Empty                  \<comment> \<open>first \<open>try_recv\<close> found nothing\<close>
  | R_Wait                   \<comment> \<open>SLEEPING claimed, before \<open>WaitOnAddress\<close>\<close>
  | R_Asleep                 \<comment> \<open>inside \<open>WaitOnAddress\<close>\<close>
  | R_Clear                  \<comment> \<open>before the store of IDLE\<close>
  | R_Last                   \<comment> \<open>before the second \<open>try_recv\<close>\<close>

record signal_state =
  ss_mem :: ring_mem
  ss_send :: sender
  ss_recv :: receiver

definition set_futex :: "u32 \<Rightarrow> ring_mem \<Rightarrow> ring_mem" where
  "set_futex w m = m\<lparr>rm_futex := w\<rparr>"

definition wake_one :: "receiver \<Rightarrow> receiver" where
  "wake_one p = (if p = R_Asleep then R_Clear else p)"

inductive sig_step :: "ring \<Rightarrow> signal_state \<Rightarrow> signal_state \<Rightarrow> bool" for r where
  send_push: "ss_send s = S_Idle \<Longrightarrow> try_push r (ss_mem s) h d = Inr m \<Longrightarrow>
    sig_step r s (s\<lparr>ss_mem := m, ss_send := S_Pushed\<rparr>)"
| send_refused: "ss_send s = S_Idle \<Longrightarrow> try_push r (ss_mem s) h d = Inl e \<Longrightarrow> sig_step r s s"
| send_post: "ss_send s = S_Pushed \<Longrightarrow> post_word (rm_futex (ss_mem s)) = (w, wake) \<Longrightarrow>
    sig_step r s (s\<lparr>ss_mem := set_futex w (ss_mem s), ss_send := if wake then S_Wake else S_Idle\<rparr>)"
| send_wake: "ss_send s = S_Wake \<Longrightarrow>
    sig_step r s (s\<lparr>ss_recv := wake_one (ss_recv s), ss_send := S_Idle\<rparr>)"
| recv_first: "ss_recv s = R_Idle \<Longrightarrow> try_pop r (ss_mem s) = Inr (x, m) \<Longrightarrow>
    sig_step r s (s\<lparr>ss_mem := m\<rparr>)"
| recv_empty: "ss_recv s = R_Idle \<Longrightarrow> try_pop r (ss_mem s) = Inl e \<Longrightarrow>
    sig_step r s (s\<lparr>ss_recv := R_Empty\<rparr>)"
| recv_claim: "ss_recv s = R_Empty \<Longrightarrow> park_word (rm_futex (ss_mem s)) = (w, token) \<Longrightarrow>
    sig_step r s (s\<lparr>ss_mem := set_futex w (ss_mem s), ss_recv := if token then R_Clear else R_Wait\<rparr>)"
| recv_sleep: "ss_recv s = R_Wait \<Longrightarrow> rm_futex (ss_mem s) = FUTEX_SLEEPING \<Longrightarrow>
    sig_step r s (s\<lparr>ss_recv := R_Asleep\<rparr>)"
| recv_no_sleep: "ss_recv s = R_Wait \<Longrightarrow> rm_futex (ss_mem s) \<noteq> FUTEX_SLEEPING \<Longrightarrow>
    sig_step r s (s\<lparr>ss_recv := R_Clear\<rparr>)"
| recv_timeout: "ss_recv s = R_Asleep \<Longrightarrow> sig_step r s (s\<lparr>ss_recv := R_Clear\<rparr>)"
| recv_clear: "ss_recv s = R_Clear \<Longrightarrow>
    sig_step r s (s\<lparr>ss_mem := set_futex FUTEX_IDLE (ss_mem s), ss_recv := R_Last\<rparr>)"
| recv_last: "ss_recv s = R_Last \<Longrightarrow> try_pop r (ss_mem s) = Inr (x, m) \<Longrightarrow>
    sig_step r s (s\<lparr>ss_mem := m, ss_recv := R_Idle\<rparr>)"
| recv_none: "ss_recv s = R_Last \<Longrightarrow> try_pop r (ss_mem s) = Inl e \<Longrightarrow>
    sig_step r s (s\<lparr>ss_recv := R_Idle\<rparr>)"

inductive sig_reach :: "ring \<Rightarrow> ring_mem \<Rightarrow> signal_state \<Rightarrow> bool" for r m where
  sig_start: "sig_reach r m \<lparr>ss_mem = m, ss_send = S_Idle, ss_recv = R_Idle\<rparr>"
| sig_next: "sig_reach r m s \<Longrightarrow> sig_step r s t \<Longrightarrow> sig_reach r m t"

section \<open>Invariant\<close>

text \<open>
  While the receiver is on its way to sleep or asleep, a pending message is either still to be
  posted, or its token is in the word; and an asleep receiver with the token in the word is
  about to be woken.
\<close>

definition wake_inv :: "ring \<Rightarrow> signal_state \<Rightarrow> bool" where
  "wake_inv r s \<longleftrightarrow> ring_inv r (ss_mem s) \<and>
     (ss_recv s \<in> {R_Empty, R_Wait, R_Asleep} \<and> ring_abs r (ss_mem s) \<noteq> [] \<longrightarrow>
        ss_send s = S_Pushed \<or> rm_futex (ss_mem s) = FUTEX_WOKEN) \<and>
     (ss_recv s = R_Asleep \<and> rm_futex (ss_mem s) \<noteq> FUTEX_SLEEPING \<longrightarrow> ss_send s = S_Wake)"

lemma ring_inv_futex [simp]: "ring_inv r (set_futex w m) = ring_inv r m"
  "ring_abs r (set_futex w m) = ring_abs r m" "rm_futex (set_futex w m) = w"
  by (simp_all add: ring_inv_def ring_abs_def slots_ok_def ring_len_def set_futex_def)

lemma push_keeps_futex: "try_push r m h d = Inr m' \<Longrightarrow> rm_futex m' = rm_futex m"
  by (auto simp: try_push_def Let_def split: if_splits)

lemma pop_keeps_futex: "try_pop r m = Inr (x, m') \<Longrightarrow> rm_futex m' = rm_futex m"
  by (auto simp: try_pop_def Let_def split: if_splits)

lemma sig_step_inv: "sig_step r s t \<Longrightarrow> wake_inv r s \<Longrightarrow> wake_inv r t"
  by (induction rule: sig_step.induct)
    (auto simp: wake_inv_def wake_one_def post_word_def park_word_def layout
      dest: ring_queue.push_Inr ring_queue.pop_Inr ring_queue.pop_Inl push_keeps_futex
        pop_keeps_futex split: if_splits)

lemma sig_reach_inv:
  assumes "sig_reach r m s" and "ring_inv r m"
  shows "wake_inv r s"
  using assms(1)
proof induction
  case sig_start
  show ?case using assms(2) by (simp add: wake_inv_def)
next
  case (sig_next s t)
  then show ?case by (blast intro: sig_step_inv)
qed

section \<open>Properties\<close>


text \<open>The receiver of the small ring falls asleep and the sender then pushes a message.\<close>

definition asleep_then_push :: "signal_state option" where
  "asleep_then_push =
    (case try_push (fst small_ring) (set_futex FUTEX_SLEEPING (snd small_ring)) (header_new Send 0) [] of
       Inl e \<Rightarrow> None | Inr m \<Rightarrow> Some \<lparr>ss_mem = m, ss_send = S_Pushed, ss_recv = R_Asleep\<rparr>)"

lemma asleep_then_push_reach:
  "\<exists>s. asleep_then_push = Some s \<and> sig_reach (fst small_ring) (snd small_ring) s \<and>
       ring_abs (fst small_ring) (ss_mem s) \<noteq> []"
proof -
  let ?r = "fst small_ring" and ?m = "snd small_ring"
  let ?m1 = "set_futex FUTEX_SLEEPING ?m"
  let ?s = "\<lambda>p. \<lparr>ss_mem = ?m1, ss_send = S_Idle, ss_recv = p\<rparr>"
  have f0: "rm_futex ?m = 0" by (simp add: small_ring_def small_region_def)
  have empty: "try_pop ?r ?m = Inl Empty"
    by (rule ring_queue.pop_none [OF small_ring_inv small_ring_abs])
  let ?init = "\<lparr>ss_mem = ?m, ss_send = S_Idle, ss_recv = R_Idle\<rparr>"
  have "sig_reach ?r ?m ?init" by (rule sig_start)
  then have "sig_reach ?r ?m (?init\<lparr>ss_recv := R_Empty\<rparr>)"
    using recv_empty [of ?init ?r Empty] empty by (auto intro: sig_next)
  then have "sig_reach ?r ?m (?s R_Wait)"
    using recv_claim [of "?init\<lparr>ss_recv := R_Empty\<rparr>" FUTEX_SLEEPING False ?r]
    by (auto intro: sig_next simp: park_word_def f0 layout)
  then have asleep: "sig_reach ?r ?m (?s R_Asleep)"
    using recv_sleep [of "?s R_Wait" ?r] by (auto intro: sig_next)
  have "ring_inv ?r ?m1" by (simp add: small_ring_inv)
  then obtain m2 where push: "try_push ?r ?m1 (header_new Send 0) [] = Inr m2"
    and abs: "ring_abs ?r m2 = ring_abs ?r ?m1 @ [(stamp (header_new Send 0) [], [])]"
    using ring_queue.push_room [where q = ?m1 and r = ?r and d = "[]" and h = "header_new Send 0"]
    by (auto simp: small_ring_abs small_ring_cap)
  have "sig_reach ?r ?m \<lparr>ss_mem = m2, ss_send = S_Pushed, ss_recv = R_Asleep\<rparr>"
    using asleep push send_push [of "?s R_Asleep" ?r "header_new Send 0" "[]" m2]
    by (auto intro: sig_next)
  then show ?thesis using push abs by (simp add: asleep_then_push_def)
qed


end
