(* ===== verification/Channel.thy ===== *)
theory Channel
  imports Signal
begin

text \<open>
  The duplex channel of \<open>crates/psroot-netstack-ipc/src/channel.rs\<close>: two rings in one shared
  mapping, host to shim first and shim to host behind it. A mapping is its address, its size
  and, by byte offset, the ring regions inside it; slicing beyond the size and a failed
  \<open>expect\<close> panic, which is \<open>None\<close>. The channel is shown to be a pair of independent bounded
  queues, one per direction.
\<close>

section \<open>Layout\<close>

record ChannelLayout =
  cl_slot_count :: u32
  cl_host_to_shim_offset :: nat
  cl_shim_to_host_offset :: nat
  cl_total_size :: nat

definition layout_new :: "u32 \<Rightarrow> ChannelLayout" where
  "layout_new n =
     (let ring = ring_bytes n; aligned = (ring + 63) div 64 * 64 in
      \<lparr>cl_slot_count = n, cl_host_to_shim_offset = 0, cl_shim_to_host_offset = aligned,
       cl_total_size = aligned * 2\<rparr>)"

definition default_layout :: ChannelLayout where
  "default_layout = layout_new DEFAULT_RING_SLOTS"

text \<open>
  \<open>(x + 63) & !63\<close> rounds up to a multiple of 64, written \<open>div 64 * 64\<close> above; a ring's
  size is one already.
\<close>

lemma round_ring_bytes: "(ring_bytes n + 63) div 64 * 64 = ring_bytes n"
proof -
  have eq: "ring_bytes n = 64 * (1 + 64 * unat n)"
    by (simp add: ring_bytes_def RING_HEADER_SIZE_def SLOT_SIZE_def)
  have "(64 * k + 63) div 64 * 64 = 64 * k" for k :: nat by simp
  then show ?thesis unfolding eq .
qed

lemma layout_new_simps [layout]:
  "cl_slot_count (layout_new n) = n" "cl_host_to_shim_offset (layout_new n) = 0"
  "cl_total_size (layout_new n) = ring_bytes n * 2"
  "cl_shim_to_host_offset (layout_new n) = ring_bytes n"
  by (simp_all only: layout_new_def Let_def round_ring_bytes ChannelLayout.simps)

section \<open>State\<close>

datatype ChannelSide = Host | Shim

record shm =
  sh_addr :: nat
  sh_size :: nat
  sh_at :: "nat \<Rightarrow> ring_mem"

record channel =
  ch_layout :: ChannelLayout
  ch_side :: ChannelSide

definition slice :: "shm \<Rightarrow> nat \<Rightarrow> nat \<Rightarrow> ring_mem option" where
  "slice sh off len =
     (if off + len \<le> sh_size sh
      then Some ((sh_at sh off)\<lparr>rm_addr := sh_addr sh + off, rm_len := len\<rparr>) else None)"

definition store_ring :: "nat \<Rightarrow> ring_mem \<Rightarrow> shm \<Rightarrow> shm" where
  "store_ring off m sh = sh\<lparr>sh_at := (sh_at sh)(off := m)\<rparr>"

definition tx_offset :: "channel \<Rightarrow> nat" where
  "tx_offset c = (case ch_side c of
     Host \<Rightarrow> cl_host_to_shim_offset (ch_layout c) | Shim \<Rightarrow> cl_shim_to_host_offset (ch_layout c))"

definition rx_offset :: "channel \<Rightarrow> nat" where
  "rx_offset c = (case ch_side c of
     Host \<Rightarrow> cl_shim_to_host_offset (ch_layout c) | Shim \<Rightarrow> cl_host_to_shim_offset (ch_layout c))"

section \<open>Operations\<close>

text \<open>\<open>Ring::create\<close> over a slice, with \<open>expect\<close>.\<close>

definition init_ring :: "nat \<Rightarrow> u32 \<Rightarrow> shm \<Rightarrow> shm option" where
  "init_ring off n sh = (case slice sh off (ring_bytes n) of None \<Rightarrow> None
     | Some m \<Rightarrow> (case ring_create m n of Inl e \<Rightarrow> None | Inr (r, m') \<Rightarrow> Some (store_ring off m' sh)))"

definition channel_create :: "shm \<Rightarrow> ChannelLayout \<Rightarrow> ChannelSide \<Rightarrow> (channel \<times> shm) option" where
  "channel_create sh l side =
     (let n = cl_slot_count l in
      if sh_size sh < cl_shim_to_host_offset l \<or>
         cl_shim_to_host_offset l < cl_host_to_shim_offset l + ring_bytes n then None
      else Option.bind (init_ring (cl_host_to_shim_offset l) n sh) (\<lambda>sh1.
           Option.bind (init_ring (cl_shim_to_host_offset l) n sh1) (\<lambda>sh2.
           Some (\<lparr>ch_layout = l, ch_side = side\<rparr>, sh2))))"

definition channel_attach :: "ChannelLayout \<Rightarrow> ChannelSide \<Rightarrow> channel" where
  "channel_attach l side = \<lparr>ch_layout = l, ch_side = side\<rparr>"

text \<open>\<open>tx_ring\<close> and \<open>rx_ring\<close>: re-attach to the ring at the offset on every call.\<close>

definition ring_at :: "channel \<Rightarrow> nat \<Rightarrow> shm \<Rightarrow> (ring \<times> ring_mem) option" where
  "ring_at c off sh = (case slice sh off (ring_bytes (cl_slot_count (ch_layout c))) of
      None \<Rightarrow> None
    | Some m \<Rightarrow> (case ring_attach m of Inl e \<Rightarrow> None | Inr r \<Rightarrow> Some (r, m)))"

definition channel_send :: "channel \<Rightarrow> SlotHeader \<Rightarrow> u8 list \<Rightarrow> shm \<Rightarrow> (RingError + shm) option" where
  "channel_send c h d sh = (case ring_at c (tx_offset c) sh of None \<Rightarrow> None
     | Some (r, m) \<Rightarrow> Some (case try_push r m h d of
          Inl e \<Rightarrow> Inl e
        | Inr m' \<Rightarrow> Inr (store_ring (tx_offset c) (set_futex (fst (post_word (rm_futex m'))) m') sh)))"

definition channel_try_recv ::
  "channel \<Rightarrow> shm \<Rightarrow> (RingError + (SlotHeader \<times> u8 list) \<times> shm) option" where
  "channel_try_recv c sh = (case ring_at c (rx_offset c) sh of None \<Rightarrow> None
     | Some (r, m) \<Rightarrow> Some (case try_pop r m of
          Inl e \<Rightarrow> Inl e
        | Inr (x, m') \<Rightarrow> Inr (x, store_ring (rx_offset c) m' sh)))"

text \<open>
  \<open>recv_blocking\<close>: \<open>park\<close> is what the mapping becomes while the caller is parked (the peer runs
  meanwhile), or the error of \<open>WaitOnAddress\<close>.
\<close>

datatype 'e recv_error = Io 'e | Ring_Error RingError

definition recv_blocking ::
  "(shm \<Rightarrow> 'e + shm) \<Rightarrow> channel \<Rightarrow> shm \<Rightarrow> ('e recv_error + (SlotHeader \<times> u8 list) option \<times> shm) option" where
  "recv_blocking park c sh = (case channel_try_recv c sh of
      None \<Rightarrow> None
    | Some (Inr (x, sh')) \<Rightarrow> Some (Inr (Some x, sh'))
    | Some (Inl e) \<Rightarrow>
        if e \<noteq> Empty then Some (Inl (Ring_Error e))
        else (case park sh of
           Inl io \<Rightarrow> Some (Inl (Io io))
         | Inr sh1 \<Rightarrow> (case channel_try_recv c sh1 of
              None \<Rightarrow> None
            | Some (Inr (x, sh')) \<Rightarrow> Some (Inr (Some x, sh'))
            | Some (Inl e) \<Rightarrow> if e = Empty then Some (Inr (None, sh1)) else Some (Inl (Ring_Error e)))))"

section \<open>Invariant and abstraction\<close>

text \<open>The messages in flight in the direction that \<open>off\<close> holds.\<close>

definition inflight :: "channel \<Rightarrow> nat \<Rightarrow> shm \<Rightarrow> (SlotHeader \<times> u8 list) list" where
  "inflight c off sh = ring_abs (handle_for (cl_slot_count (ch_layout c))) (sh_at sh off)"

definition dir_ok :: "channel \<Rightarrow> nat \<Rightarrow> shm \<Rightarrow> bool" where
  "dir_ok c off sh \<longleftrightarrow> (let n = cl_slot_count (ch_layout c); m = sh_at sh off in
     off + ring_bytes n \<le> sh_size sh \<and> (sh_addr sh + off) mod 64 = 0 \<and>
     rm_magic m = MAGIC \<and> rm_slot_count m = n \<and> ring_inv (handle_for n) m)"

definition channel_inv :: "channel \<Rightarrow> shm \<Rightarrow> bool" where
  "channel_inv c sh \<longleftrightarrow> tx_offset c \<noteq> rx_offset c \<and>
     dir_ok c (tx_offset c) sh \<and> dir_ok c (rx_offset c) sh"

lemma store_ring_simps [simp]:
  "sh_at (store_ring off m sh) = (sh_at sh)(off := m)"
  "sh_size (store_ring off m sh) = sh_size sh" "sh_addr (store_ring off m sh) = sh_addr sh"
  by (simp_all add: store_ring_def)

lemma place_simps [simp]:
  "ring_abs r (m\<lparr>rm_addr := a, rm_len := l\<rparr>) = ring_abs r m"
  "ring_inv r (m\<lparr>rm_addr := a, rm_len := l\<rparr>) = ring_inv r m"
  by (simp_all add: ring_abs_def ring_inv_def slots_ok_def ring_len_def)

lemma ring_at_ok:
  assumes "dir_ok c off sh"
  shows "\<exists>m. ring_at c off sh = Some (handle_for (cl_slot_count (ch_layout c)), m) \<and>
    ring_inv (handle_for (cl_slot_count (ch_layout c))) m \<and>
    ring_abs (handle_for (cl_slot_count (ch_layout c))) m = inflight c off sh \<and>
    rm_magic m = MAGIC \<and> rm_slot_count m = cl_slot_count (ch_layout c)"
proof -
  let ?n = "cl_slot_count (ch_layout c)"
  have "is_power_of_two ?n" and "2 \<le> ?n"
    using assms by (simp_all add: dir_ok_def Let_def ring_inv_def ring_ok_def handle_for_def)
  then have "\<not> ?n < 2" by simp
  with \<open>is_power_of_two ?n\<close> show ?thesis
    using assms
    by (simp add: dir_ok_def ring_at_def slice_def ring_attach_def Let_def inflight_def ring_bytes_def)
qed

lemma push_keeps_shape:
  "try_push r m h d = Inr m' \<Longrightarrow> rm_magic m' = rm_magic m \<and> rm_slot_count m' = rm_slot_count m"
  by (auto simp: try_push_def Let_def split: if_splits)

lemma pop_keeps_shape:
  "try_pop r m = Inr (x, m') \<Longrightarrow> rm_magic m' = rm_magic m \<and> rm_slot_count m' = rm_slot_count m"
  by (auto simp: try_pop_def Let_def split: if_splits)

lemma dir_ok_store:
  assumes "dir_ok c off sh"
    and "rm_magic m = MAGIC" and "rm_slot_count m = cl_slot_count (ch_layout c)"
    and "ring_inv (handle_for (cl_slot_count (ch_layout c))) m"
  shows "dir_ok c off (store_ring off m sh)"
    and "off' \<noteq> off \<Longrightarrow> dir_ok c off' (store_ring off m sh) = dir_ok c off' sh"
    and "inflight c off (store_ring off m sh) = ring_abs (handle_for (cl_slot_count (ch_layout c))) m"
    and "off' \<noteq> off \<Longrightarrow> inflight c off' (store_ring off m sh) = inflight c off' sh"
  using assms by (simp_all add: dir_ok_def Let_def inflight_def)

lemma set_futex_shape [simp]:
  "rm_magic (set_futex w m) = rm_magic m" "rm_slot_count (set_futex w m) = rm_slot_count m"
  by (simp_all add: set_futex_def)

lemma channel_send_cases:
  assumes inv: "channel_inv c sh"
  obtains (refused) e where "channel_send c h d sh = Some (Inl e)"
      "e = TooSmall \<and> DATA_CAPACITY < length d \<or>
       e = Full \<and> length d \<le> DATA_CAPACITY \<and>
         unat (cl_slot_count (ch_layout c)) \<le> length (inflight c (tx_offset c) sh)"
  | (sent) sh' where "channel_send c h d sh = Some (Inr sh')" "channel_inv c sh'"
      "length d \<le> DATA_CAPACITY"
      "length (inflight c (tx_offset c) sh) < unat (cl_slot_count (ch_layout c))"
      "inflight c (tx_offset c) sh' = inflight c (tx_offset c) sh @ [(stamp h d, d)]"
      "inflight c (rx_offset c) sh' = inflight c (rx_offset c) sh"
proof -
  let ?r = "handle_for (cl_slot_count (ch_layout c))" and ?tx = "tx_offset c"
  have tx: "dir_ok c ?tx sh" and rx: "dir_ok c (rx_offset c) sh" and ne: "rx_offset c \<noteq> ?tx"
    using inv by (auto simp: channel_inv_def)
  obtain m where at: "ring_at c ?tx sh = Some (?r, m)" and m: "ring_inv ?r m"
    and abs: "ring_abs ?r m = inflight c ?tx sh"
    and shape: "rm_magic m = MAGIC" "rm_slot_count m = cl_slot_count (ch_layout c)"
    using ring_at_ok [OF tx] by blast
  show thesis
  proof (cases rule: ring_queue.push_cases [OF m, of d h, case_names big full ok])
    case big
    then show ?thesis using refused at by (simp add: channel_send_def)
  next
    case full
    have "unat (cl_slot_count (ch_layout c)) \<le> length (inflight c ?tx sh)"
      using full(2) abs by (simp add: ring_cap_def handle_for_def del: length_ring_abs)
    with full(1,3) show ?thesis using refused at by (simp add: channel_send_def)
  next
    case (ok m')
    let ?m = "set_futex (fst (post_word (rm_futex m'))) m'"
    have "ring_inv ?r ?m" "rm_magic ?m = MAGIC" "rm_slot_count ?m = cl_slot_count (ch_layout c)"
      using ok shape push_keeps_shape [OF ok(3)] by simp_all
    note st = dir_ok_store [OF tx this(2,3,1)]
    have "channel_inv c (store_ring ?tx ?m sh)"
      unfolding channel_inv_def using st(1) st(2) [OF ne] rx ne by metis
    moreover have "channel_send c h d sh = Some (Inr (store_ring ?tx ?m sh))"
      using at ok by (simp add: channel_send_def)
    moreover have "length (inflight c ?tx sh) < unat (cl_slot_count (ch_layout c))"
      using ok(2) abs by (simp add: ring_cap_def handle_for_def del: length_ring_abs)
    ultimately show ?thesis using sent st(3) st(4) [OF ne] ok(1,5) abs by simp
  qed
qed

lemma channel_recv_cases:
  assumes inv: "channel_inv c sh"
  obtains (empty) "channel_try_recv c sh = Some (Inl Empty)" "inflight c (rx_offset c) sh = []"
  | (got) x sh' where "channel_try_recv c sh = Some (Inr (x, sh'))" "channel_inv c sh'"
      "inflight c (rx_offset c) sh = x # inflight c (rx_offset c) sh'"
      "inflight c (tx_offset c) sh' = inflight c (tx_offset c) sh"
proof -
  let ?r = "handle_for (cl_slot_count (ch_layout c))" and ?rx = "rx_offset c"
  have rx: "dir_ok c ?rx sh" and tx: "dir_ok c (tx_offset c) sh" and ne: "tx_offset c \<noteq> ?rx"
    using inv by (auto simp: channel_inv_def)
  obtain m where at: "ring_at c ?rx sh = Some (?r, m)" and m: "ring_inv ?r m"
    and abs: "ring_abs ?r m = inflight c ?rx sh"
    and shape: "rm_magic m = MAGIC" "rm_slot_count m = cl_slot_count (ch_layout c)"
    using ring_at_ok [OF rx] by blast
  show thesis
  proof (cases rule: ring_queue.pop_cases [OF m, case_names none some])
    case none
    then show ?thesis using empty at abs by (simp add: channel_try_recv_def)
  next
    case (some x m')
    have "rm_magic m' = MAGIC" "rm_slot_count m' = cl_slot_count (ch_layout c)"
      using shape pop_keeps_shape [OF some(2)] by simp_all
    note st = dir_ok_store [OF rx this some(3)]
    have "channel_inv c (store_ring ?rx m' sh)"
      unfolding channel_inv_def using st(1) st(2) [OF ne] tx ne by metis
    moreover have "channel_try_recv c sh = Some (Inr (x, store_ring ?rx m' sh))"
      using at some by (simp add: channel_try_recv_def)
    ultimately show ?thesis using got st(3) st(4) [OF ne] some(1) abs by simp
  qed
qed

section \<open>The abstract channel\<close>

text \<open>
  A script of operations by both sides, run on the shared mapping and on the specification: a
  pair of queues of capacity \<open>slot_count\<close>.
\<close>

datatype channel_op = Op_Send SlotHeader "u8 list" | Op_Recv

datatype channel_out = Refused RingError | Sent | Got SlotHeader "u8 list"

definition channel_step ::
  "ChannelLayout \<Rightarrow> ChannelSide \<times> channel_op \<Rightarrow> shm \<Rightarrow> (channel_out \<times> shm) option" where
  "channel_step l a sh = (case a of
      (side, Op_Send h d) \<Rightarrow> (case channel_send (channel_attach l side) h d sh of
          None \<Rightarrow> None | Some (Inl e) \<Rightarrow> Some (Refused e, sh) | Some (Inr sh') \<Rightarrow> Some (Sent, sh'))
    | (side, Op_Recv) \<Rightarrow> (case channel_try_recv (channel_attach l side) sh of
          None \<Rightarrow> None | Some (Inl e) \<Rightarrow> Some (Refused e, sh)
        | Some (Inr ((h, d), sh')) \<Rightarrow> Some (Got h d, sh')))"

fun channel_run ::
  "ChannelLayout \<Rightarrow> (ChannelSide \<times> channel_op) list \<Rightarrow> shm \<Rightarrow> channel_out list option" where
  "channel_run l [] sh = Some []"
| "channel_run l (a # as) sh = (case channel_step l a sh of None \<Rightarrow> None
     | Some (out, sh') \<Rightarrow> map_option ((#) out) (channel_run l as sh'))"

type_synonym queues = "ChannelSide \<Rightarrow> (SlotHeader \<times> u8 list) list"

primrec other_side :: "ChannelSide \<Rightarrow> ChannelSide" where
  "other_side Host = Shim"
| "other_side Shim = Host"

fun queue_step :: "nat \<Rightarrow> ChannelSide \<times> channel_op \<Rightarrow> queues \<Rightarrow> channel_out \<times> queues" where
  "queue_step cap (side, Op_Send h d) q =
     (if DATA_CAPACITY < length d then (Refused TooSmall, q)
      else if cap \<le> length (q side) then (Refused Full, q)
      else (Sent, q(side := q side @ [(stamp h d, d)])))"
| "queue_step cap (side, Op_Recv) q =
     (case q (other_side side) of [] \<Rightarrow> (Refused Empty, q)
      | (h, d) # rest \<Rightarrow> (Got h d, q(other_side side := rest)))"

fun queue_run :: "nat \<Rightarrow> (ChannelSide \<times> channel_op) list \<Rightarrow> queues \<Rightarrow> channel_out list" where
  "queue_run cap [] q = []"
| "queue_run cap (a # as) q = (let (out, q') = queue_step cap a q in out # queue_run cap as q')"

text \<open>\<open>queues_of\<close> reads what each side has in flight.\<close>

definition queues_of :: "ChannelLayout \<Rightarrow> shm \<Rightarrow> queues" where
  "queues_of l sh side = inflight (channel_attach l side) (tx_offset (channel_attach l side)) sh"

lemma other_side_offsets:
  "tx_offset (channel_attach l (other_side s)) = rx_offset (channel_attach l s)"
  "rx_offset (channel_attach l (other_side s)) = tx_offset (channel_attach l s)"
  by (cases s; simp add: tx_offset_def rx_offset_def channel_attach_def)+

lemma inflight_side: "inflight (channel_attach l s) off sh = inflight (channel_attach l t) off sh"
  by (simp add: inflight_def channel_attach_def)

lemma dir_ok_side: "dir_ok (channel_attach l s) off sh = dir_ok (channel_attach l t) off sh"
  by (simp add: dir_ok_def channel_attach_def)

lemma channel_inv_side: "channel_inv (channel_attach l s) sh = channel_inv (channel_attach l t) sh"
  by (cases s; cases t; simp add: channel_inv_def tx_offset_def rx_offset_def)
    (auto simp: channel_attach_def dir_ok_def)

lemma queues_of_rx: "inflight (channel_attach l s) (rx_offset (channel_attach l s)) sh =
    queues_of l sh (other_side s)"
  unfolding queues_of_def other_side_offsets by (rule inflight_side)

lemma queues_eqI: "q s = q' s \<Longrightarrow> q (other_side s) = q' (other_side s) \<Longrightarrow> q = q'"
  by (rule ext, rename_tac x, case_tac x; cases s; simp)

lemma other_side_neq [simp]: "other_side s \<noteq> s" "s \<noteq> other_side s"
  by (cases s; simp)+

lemma channel_step_refines:
  assumes "channel_inv (channel_attach l Host) sh"
  shows "\<exists>sh'. channel_step l a sh =
      Some (fst (queue_step (unat (cl_slot_count l)) a (queues_of l sh)), sh') \<and>
    channel_inv (channel_attach l Host) sh' \<and>
    queues_of l sh' = snd (queue_step (unat (cl_slot_count l)) a (queues_of l sh))"
proof -
  obtain s act where a: "a = (s, act)" by (cases a)
  let ?c = "channel_attach l s"
  have inv: "channel_inv ?c sh" using assms channel_inv_side by blast
  have n: "cl_slot_count (ch_layout ?c) = cl_slot_count l" by (simp add: channel_attach_def)
  show ?thesis
  proof (cases act)
    case (Op_Send h d)
    show ?thesis
    proof (cases rule: channel_send_cases [OF inv, of h d, case_names refused sent])
      case (refused e)
      then show ?thesis using a Op_Send assms n
        by (auto simp: channel_step_def queues_of_def not_less)
    next
      case (sent sh')
      have rx: "queues_of l sh' (other_side s) = queues_of l sh (other_side s)"
        using sent(6) unfolding queues_of_rx .
      have tx: "queues_of l sh' s = queues_of l sh s @ [(stamp h d, d)]"
        using sent(5) by (simp add: queues_of_def)
      have "queues_of l sh' = (queues_of l sh)(s := queues_of l sh s @ [(stamp h d, d)])"
        by (rule queues_eqI [of _ s]) (simp_all add: rx tx)
      moreover have "length (queues_of l sh s) < unat (cl_slot_count l)"
        using sent(4) n by (simp add: queues_of_def)
      ultimately show ?thesis
        using a Op_Send sent(1,2,3) channel_inv_side [of l s sh' Host]
        by (simp add: channel_step_def)
    qed
  next
    case Op_Recv
    show ?thesis
    proof (cases rule: channel_recv_cases [OF inv, case_names empty got])
      case empty
      have "queues_of l sh (other_side s) = []" using empty(2) unfolding queues_of_rx .
      then show ?thesis using a Op_Recv assms empty(1) by (simp add: channel_step_def)
    next
      case (got x sh')
      obtain h d where x: "x = (h, d)" by (cases x)
      have rx: "queues_of l sh (other_side s) = (h, d) # queues_of l sh' (other_side s)"
        using got(3) x unfolding queues_of_rx by simp
      have tx: "queues_of l sh' s = queues_of l sh s"
        using got(4) by (simp add: queues_of_def)
      have "queues_of l sh' = (queues_of l sh)(other_side s := queues_of l sh' (other_side s))"
        by (rule queues_eqI [of _ s]) (simp_all add: tx)
      then show ?thesis
        using a Op_Recv got(1,2) x rx channel_inv_side [of l s sh' Host]
        by (simp add: channel_step_def)
    qed
  qed
qed

lemma channel_run_refines:
  "channel_inv (channel_attach l Host) sh \<Longrightarrow>
   channel_run l as sh = Some (queue_run (unat (cl_slot_count l)) as (queues_of l sh))"
proof (induction as arbitrary: sh)
  case Nil
  then show ?case by simp
next
  case (Cons a as)
  from channel_step_refines [OF Cons.prems, of a] Cons.IH show ?case
    by (auto simp: case_prod_beta Let_def)
qed

lemma init_ring_ok:
  assumes "is_power_of_two n" and "2 \<le> n" and "off + ring_bytes n \<le> sh_size sh"
    and "(sh_addr sh + off) mod 64 = 0" and "slots_ok (sh_at sh off)"
    and n: "n = cl_slot_count (ch_layout c)"
  shows "\<exists>m. init_ring off n sh = Some (store_ring off m sh) \<and>
    dir_ok c off (store_ring off m sh) \<and> inflight c off (store_ring off m sh) = []"
proof -
  let ?m = "(sh_at sh off)\<lparr>rm_addr := sh_addr sh + off, rm_len := ring_bytes n\<rparr>"
  have "\<not> n < 2" using assms(2) by simp
  then obtain m where cr: "ring_create ?m n = Inr (handle_for n, m)"
    and shape: "rm_magic m = MAGIC" "rm_slot_count m = n"
    using assms(1,4) by (simp add: ring_create_def)
  have "slots_ok ?m" using assms(5) by (simp add: slots_ok_def)
  note inv = ring_create_inv [OF cr this]
  have "init_ring off n sh = Some (store_ring off m sh)"
    using assms(3) cr by (simp add: init_ring_def slice_def)
  then show ?thesis
    using assms(3,4) shape inv n by (auto simp: dir_ok_def Let_def inflight_def)
qed

text \<open>A mapping fit for the layout, with zeroed slots.\<close>

definition mapping_ok :: "ChannelLayout \<Rightarrow> shm \<Rightarrow> bool" where
  "mapping_ok l sh \<longleftrightarrow> sh_size sh = cl_total_size l \<and> sh_addr sh mod 64 = 0 \<and>
     (\<forall>off. slots_ok (sh_at sh off))"

lemma channel_create_ok:
  assumes "is_power_of_two n" and "2 \<le> n" and "mapping_ok (layout_new n) sh"
  shows "\<exists>sh'. channel_create sh (layout_new n) side = Some (channel_attach (layout_new n) side, sh') \<and>
    channel_inv (channel_attach (layout_new n) Host) sh' \<and> queues_of (layout_new n) sh' = (\<lambda>s. [])"
proof -
  let ?l = "layout_new n" and ?o = "ring_bytes n"
  let ?c = "channel_attach (layout_new n) Host"
  have n: "n = cl_slot_count (ch_layout ?c)" by (simp add: channel_attach_def layout)
  have size: "sh_size sh = 2 * ?o" and addr: "sh_addr sh mod 64 = 0"
    and slots: "slots_ok (sh_at sh off)" for off
    using assms(3) by (simp_all add: mapping_ok_def layout)
  have o: "0 < ?o" "?o mod 64 = 0"
    by (simp_all add: ring_bytes_def RING_HEADER_SIZE_def SLOT_SIZE_def)
  then have o64: "(sh_addr sh + ?o) mod 64 = 0" using addr by presburger
  have "0 + ring_bytes n \<le> sh_size sh" "(sh_addr sh + 0) mod 64 = 0" using size addr by simp_all
  from init_ring_ok [OF assms(1,2) this slots n] obtain m1
    where s1: "init_ring 0 n sh = Some (store_ring 0 m1 sh)" "dir_ok ?c 0 (store_ring 0 m1 sh)"
      "inflight ?c 0 (store_ring 0 m1 sh) = []" by blast
  let ?sh1 = "store_ring 0 m1 sh"
  have "?o + ring_bytes n \<le> sh_size ?sh1" "(sh_addr ?sh1 + ?o) mod 64 = 0"
    "slots_ok (sh_at ?sh1 ?o)"
    using size o64 slots o by simp_all
  from init_ring_ok [OF assms(1,2) this n] obtain m2
    where s2: "init_ring ?o n ?sh1 = Some (store_ring ?o m2 ?sh1)" "dir_ok ?c ?o (store_ring ?o m2 ?sh1)"
      "inflight ?c ?o (store_ring ?o m2 ?sh1) = []" by blast
  let ?sh2 = "store_ring ?o m2 ?sh1"
  have "dir_ok ?c 0 ?sh2" "inflight ?c 0 ?sh2 = []"
    using s1 o(1) by (simp_all add: dir_ok_def inflight_def)
  moreover have offs: "tx_offset ?c = 0" "rx_offset ?c = ?o"
    by (simp_all add: tx_offset_def rx_offset_def channel_attach_def layout)
  ultimately have "channel_inv ?c ?sh2"
    using s2(2) o(1) by (simp add: channel_inv_def)
  moreover have "queues_of ?l ?sh2 = (\<lambda>s. [])"
    using \<open>inflight ?c 0 ?sh2 = []\<close> s2(3) offs queues_of_rx [of ?l Host ?sh2]
    by (intro queues_eqI [of _ Host]) (simp_all add: queues_of_def)
  moreover have "channel_create sh ?l side = Some (channel_attach ?l side, ?sh2)"
    using s1(1) s2(1) size by (simp add: channel_create_def channel_attach_def layout)
  ultimately show ?thesis by blast
qed

section \<open>Properties\<close>

text \<open>
  C4. A created channel is a pair of independent bounded queues: for every script of sends and
  receives by the two sides, the outcomes on the shared mapping, refusals included, are those of
  the specification with one queue of \<open>slot_count\<close> messages per direction, and no operation panics.
\<close>

theorem channel_is_two_queues:
  assumes "is_power_of_two n" and "2 \<le> n" and "mapping_ok (layout_new n) sh"
  shows "\<exists>sh'. channel_create sh (layout_new n) side = Some (channel_attach (layout_new n) side, sh') \<and>
    (\<forall>script. channel_run (layout_new n) script sh' =
       Some (queue_run (unat n) script (\<lambda>s. [])))"
proof -
  obtain sh' where "channel_create sh (layout_new n) side = Some (channel_attach (layout_new n) side, sh')"
    "channel_inv (channel_attach (layout_new n) Host) sh'" "queues_of (layout_new n) sh' = (\<lambda>s. [])"
    using channel_create_ok [OF assms] by blast
  then show ?thesis using channel_run_refines [of "layout_new n" sh'] by (auto simp: layout)
qed

definition small_mapping :: shm where
  "small_mapping = \<lparr>sh_addr = 65536, sh_size = cl_total_size (layout_new 2),
     sh_at = (\<lambda>off. small_region)\<rparr>"

theorem channel_is_two_queues_witness:
  "\<exists>sh'. channel_create small_mapping (layout_new 2) Host = Some (channel_attach (layout_new 2) Host, sh') \<and>
    channel_run (layout_new 2) [(Shim, Op_Send (header_new Close 4) []), (Shim, Op_Recv),
      (Host, Op_Recv), (Host, Op_Recv)] sh' =
    Some [Sent, Refused Empty, Got (stamp (header_new Close 4) []) [], Refused Empty]"
proof -
  have "mapping_ok (layout_new 2) small_mapping"
    by (simp add: mapping_ok_def small_mapping_def small_region_slots)
  from channel_is_two_queues [OF is_power_of_two_2 order.refl this, of Host]
  obtain sh' where
    cr: "channel_create small_mapping (layout_new 2) Host = Some (channel_attach (layout_new 2) Host, sh')"
    and run: "\<forall>script. channel_run (layout_new 2) script sh' = Some (queue_run (unat (2 :: u32)) script (\<lambda>s. []))"
    by blast
  have "queue_run (unat (2 :: u32)) [(Shim, Op_Send (header_new Close 4) []), (Shim, Op_Recv),
      (Host, Op_Recv), (Host, Op_Recv)] (\<lambda>s. []) =
    [Sent, Refused Empty, Got (stamp (header_new Close 4) []) [], Refused Empty]"
    by simp
  with run [rule_format, of "[(Shim, Op_Send (header_new Close 4) []), (Shim, Op_Recv),
      (Host, Op_Recv), (Host, Op_Recv)]"] cr show ?thesis by (simp only:) blast
qed

end
