(* ===== verification/Daemon.thy ===== *)
theory Daemon
  imports Nat_Backend Channel
begin

text \<open>
  The host daemon, \<open>crates/psroot-netstack-host/src/daemon.rs\<close>: it decodes a request, calls the
  backend and posts the reply. \<open>daemon_handle\<close> is \<open>Daemon::handle\<close> with the posts collected: in
  every branch the backend is called before the first post, so posting afterwards
  (\<open>post_all\<close>, which stops at the first refused post as \<open>?\<close> does) is what the code does. Host
  name resolution is the parameter \<open>getaddrinfo\<close>.
\<close>

section \<open>Socket addresses on the wire\<close>

definition write_sockaddr :: "SockAddrBytes \<Rightarrow> u8 list" where
  "write_sockaddr a =
     put_bytes 24 (to_le 4 (sa_scope a)) (put_bytes 8 (sa_addr a) (put_bytes 4 (to_le 4 (sa_flow a))
       (put_bytes 2 (to_le 2 (sa_port a)) (put_bytes 0 (to_le 2 (sa_family a)) (replicate 28 0)))))"

definition read_sockaddr :: "u8 list \<Rightarrow> SockAddrBytes option" where
  "read_sockaddr d = (if length d < 28 then None else Some
     \<lparr>sa_family = from_le (get_bytes 0 2 d), sa_port = from_le (get_bytes 2 2 d),
      sa_flow = from_le (get_bytes 4 4 d), sa_addr = get_bytes 8 16 d,
      sa_scope = from_le (get_bytes 24 4 d)\<rparr>)"

lemma length_write_sockaddr [simp]: "wf_addr a \<Longrightarrow> length (write_sockaddr a) = 28"
  by (simp add: write_sockaddr_def wf_addr_def)

lemma get_bytes_append [codec, simp]: "i + n \<le> length a \<Longrightarrow> get_bytes i n (a @ b) = get_bytes i n a"
  by (simp add: get_bytes_def)

lemma read_sockaddr_append:
  "28 \<le> length a \<Longrightarrow> read_sockaddr (a @ b) = read_sockaddr a"
  by (simp add: read_sockaddr_def)

lemma read_write_sockaddr [codec, simp]: "wf_addr a \<Longrightarrow> read_sockaddr (write_sockaddr a) = Some a"
  by (simp add: read_sockaddr_def) (simp add: write_sockaddr_def wf_addr_def codec)

lemma read_sockaddr_wf: "read_sockaddr d = Some a \<Longrightarrow> wf_addr a"
  by (auto simp: read_sockaddr_def wf_addr_def get_bytes_def split: if_splits)

section \<open>Host names\<close>

text \<open>\<open>std::str::from_utf8\<close> accepts exactly the well-formed UTF-8 sequences.\<close>

definition cont_byte :: "u8 \<Rightarrow> bool" where
  "cont_byte b \<longleftrightarrow> 0x80 \<le> b \<and> b \<le> 0xBF"

fun utf8_valid :: "u8 list \<Rightarrow> bool" where
  "utf8_valid [] \<longleftrightarrow> True"
| "utf8_valid (b # bs) \<longleftrightarrow>
     (if b < 0x80 then utf8_valid bs
      else if 0xC2 \<le> b \<and> b \<le> 0xDF then (case bs of c # r \<Rightarrow> cont_byte c \<and> utf8_valid r | _ \<Rightarrow> False)
      else if 0xE0 \<le> b \<and> b \<le> 0xEF then (case bs of c # d # r \<Rightarrow>
          cont_byte c \<and> (b = 0xE0 \<longrightarrow> 0xA0 \<le> c) \<and> (b = 0xED \<longrightarrow> c \<le> 0x9F) \<and> cont_byte d \<and> utf8_valid r
        | _ \<Rightarrow> False)
      else if 0xF0 \<le> b \<and> b \<le> 0xF4 then (case bs of c # d # e # r \<Rightarrow>
          cont_byte c \<and> (b = 0xF0 \<longrightarrow> 0x90 \<le> c) \<and> (b = 0xF4 \<longrightarrow> c \<le> 0x8F) \<and>
          cont_byte d \<and> cont_byte e \<and> utf8_valid r
        | _ \<Rightarrow> False)
      else False)"

definition to_socket_addrs_best ::
  "(u8 list \<Rightarrow> SocketAddr list option) \<Rightarrow> u8 list \<Rightarrow> SockAddrBytes option" where
  "to_socket_addrs_best getaddrinfo name =
     (case getaddrinfo name of Some (a # rest) \<Rightarrow> Some (sockaddr_of_std a) | _ \<Rightarrow> None)"

section \<open>Replies\<close>

type_synonym message = "SlotHeader \<times> u8 list"

record 'b daemon =
  dm_backend :: 'b
  dm_stop :: bool

definition reply_err :: "u32 \<Rightarrow> StatusCode \<Rightarrow> message list" where
  "reply_err corr s = [(header_reply_err corr s, [])]"

definition reply_unit :: "u32 \<Rightarrow> u32 \<Rightarrow> unit BResult \<Rightarrow> message list" where
  "reply_unit corr sid r = (case r of Inr _ \<Rightarrow> [(reply_ok corr sid, [])] | Inl s \<Rightarrow> reply_err corr s)"

text \<open>A reply whose payload is decided by the result.\<close>

definition reply_with :: "u32 \<Rightarrow> ('a \<Rightarrow> message list) \<Rightarrow> 'a BResult \<Rightarrow> message list" where
  "reply_with corr f r = (case r of Inr x \<Rightarrow> f x | Inl s \<Rightarrow> reply_err corr s)"

text \<open>The loop that splits a payload into slots, \<open>FLAG_MORE\<close> on all but the last.\<close>

function fragments :: "SlotHeader \<Rightarrow> u8 list \<Rightarrow> message list" where
  "fragments h bs =
     (if bs = [] then []
      else let chunk = min (length bs) DATA_CAPACITY in
        (if chunk = length bs then h else set_more h, take chunk bs) # fragments h (drop chunk bs))"
  by auto
termination
  by (relation "measure (length \<circ> snd)") (auto simp: DATA_CAPACITY_eq)

declare fragments.simps [simp del]

definition recv_replies :: "u32 \<Rightarrow> u32 \<Rightarrow> u8 list \<Rightarrow> message list" where
  "recv_replies corr sid bs =
     (if bs = [] then [(reply_ok corr sid, [])] else fragments (reply_ok corr sid) bs)"

definition recvfrom_replies :: "u32 \<Rightarrow> u32 \<Rightarrow> u8 list \<times> SockAddrBytes \<Rightarrow> message list" where
  "recvfrom_replies corr sid x = (let (bs, peer) = x; h = reply_ok corr sid in
     if 28 + length bs \<le> DATA_CAPACITY then [(h, write_sockaddr peer @ bs)]
     else let n = DATA_CAPACITY - 28 in
       (set_more h, write_sockaddr peer @ take n bs) # fragments h (drop n bs))"

definition set_args :: "u8 list \<Rightarrow> SlotHeader \<Rightarrow> SlotHeader" where
  "set_args a h = h\<lparr>h_args := a\<rparr>"

section \<open>Dispatch\<close>

definition upd_backend :: "'b daemon \<Rightarrow> ('x \<Rightarrow> message list) \<Rightarrow> 'x \<times> 'b \<Rightarrow> message list \<times> 'b daemon" where
  "upd_backend d f rb = (f (fst rb), d\<lparr>dm_backend := snd rb\<rparr>)"

definition with_sockaddr :: "SlotHeader \<Rightarrow> u8 list \<Rightarrow> 'b daemon \<Rightarrow>
    (u32 \<Rightarrow> SockAddrBytes \<Rightarrow> 'b \<Rightarrow> unit BResult \<times> 'b) \<Rightarrow> message list \<times> 'b daemon" where
  "with_sockaddr hdr data d f = (case read_sockaddr data of
      None \<Rightarrow> (reply_err (h_correlation hdr) HostError, d)
    | Some a \<Rightarrow> upd_backend d (reply_unit (h_correlation hdr) (h_socket_id hdr))
        (f (h_socket_id hdr) a (dm_backend d)))"

definition daemon_op :: "'b backend \<Rightarrow> (u8 list \<Rightarrow> SocketAddr list option) \<Rightarrow> OpCode \<Rightarrow> SlotHeader \<Rightarrow>
    u8 list \<Rightarrow> 'b daemon \<Rightarrow> (message list \<times> 'b daemon) option" where
  "daemon_op be getaddrinfo op hdr data d =
     (let c = h_correlation hdr; sid = h_socket_id hdr; args = h_args hdr; b = dm_backend d in
      case op of
        Hello \<Rightarrow> Some ([(set_args (put_bytes 0 (to_le 4 (1 :: u32)) zero_args) (reply_ok c 0), [])], d)
      | Socket \<Rightarrow> (let (af, typ, proto, flags) = unpack_socket_args args in
          map_option (upd_backend d (reply_with c (\<lambda>i. [(reply_ok c i, [])]))) (be_socket be af typ proto b))
      | Bind \<Rightarrow> Some (with_sockaddr hdr data d (be_bind be))
      | Connect \<Rightarrow> Some (with_sockaddr hdr data d (be_connect be))
      | Listen \<Rightarrow> Some (upd_backend d (reply_unit c sid) (be_listen be sid (unpack_u32 args) b))
      | Accept \<Rightarrow> map_option (upd_backend d (reply_with c (\<lambda>(i, peer). [(reply_ok c i, write_sockaddr peer)])))
          (be_accept be sid b)
      | Send \<Rightarrow> Some (upd_backend d (reply_with c (\<lambda>n. [(set_args (pack_u32 n) (reply_ok c sid), [])]))
          (be_send be sid data b))
      | Recv \<Rightarrow> Some (upd_backend d (reply_with c (recv_replies c sid)) (be_recv be sid (unpack_u32 args) b))
      | Close \<Rightarrow> Some (upd_backend d (reply_unit c sid) (be_close be sid b))
      | Shutdown \<Rightarrow> Some (upd_backend d (reply_unit c sid) (be_shutdown be sid (unpack_u32 args) b))
      | GetSockName \<Rightarrow> Some (upd_backend d (reply_with c (\<lambda>a. [(reply_ok c sid, write_sockaddr a)]))
          (be_get_sock_name be sid b))
      | GetPeerName \<Rightarrow> Some (upd_backend d (reply_with c (\<lambda>a. [(reply_ok c sid, write_sockaddr a)]))
          (be_get_peer_name be sid b))
      | SetSockOpt \<Rightarrow> Some ([(reply_ok c sid, [])], d)
      | GetSockOpt \<Rightarrow> Some ([(reply_ok c sid, [])], d)
      | Resolve \<Rightarrow> Some (
          if \<not> utf8_valid data then (reply_err c HostError, d)
          else case to_socket_addrs_best getaddrinfo data of
              Some a \<Rightarrow> ([(reply_ok c 0, write_sockaddr a)], d)
            | None \<Rightarrow> (reply_err c HostError, d))
      | SendTo \<Rightarrow> Some (case read_sockaddr data of
            None \<Rightarrow> (reply_err c HostError, d)
          | Some a \<Rightarrow>
              if length data < 28 then (reply_err c HostError, d)
              else upd_backend d (reply_with c (\<lambda>n. [(set_args (pack_u32 n) (reply_ok c sid), [])]))
                (be_sendto be sid a (drop 28 data) b))
      | RecvFrom \<Rightarrow> Some (upd_backend d (reply_with c (recvfrom_replies c sid))
          (be_recvfrom be sid (unpack_u32 args) b))
      | Bye \<Rightarrow> Some ([], d\<lparr>dm_stop := True\<rparr>))"

definition daemon_handle :: "'b backend \<Rightarrow> (u8 list \<Rightarrow> SocketAddr list option) \<Rightarrow> SlotHeader \<Rightarrow>
    u8 list \<Rightarrow> 'b daemon \<Rightarrow> (message list \<times> 'b daemon) option" where
  "daemon_handle be getaddrinfo hdr data d = (case from_raw (h_opcode hdr) of
      None \<Rightarrow> Some (reply_err (h_correlation hdr) UnknownOp, d)
    | Some op \<Rightarrow> daemon_op be getaddrinfo op hdr data d)"

text \<open>Posting the replies: the flag tells whether every post was accepted.\<close>

fun post_all :: "channel \<Rightarrow> message list \<Rightarrow> shm \<Rightarrow> (bool \<times> shm) option" where
  "post_all c [] sh = Some (True, sh)"
| "post_all c ((h, d) # ms) sh = (case channel_send c h d sh of
      None \<Rightarrow> None | Some (Inl e) \<Rightarrow> Some (False, sh) | Some (Inr sh') \<Rightarrow> post_all c ms sh')"

text \<open>
  One turn of \<open>run\<close>: nothing when the stop flag is set or no request is there; a failed post is
  logged and the loop goes on.
\<close>

definition daemon_turn :: "'b backend \<Rightarrow> (u8 list \<Rightarrow> SocketAddr list option) \<Rightarrow> channel \<Rightarrow>
    'b daemon \<times> shm \<Rightarrow> ('b daemon \<times> shm) option" where
  "daemon_turn be getaddrinfo c s = (let (d, sh) = s in
     if dm_stop d then Some s
     else case channel_try_recv c sh of
         None \<Rightarrow> None
       | Some (Inl e) \<Rightarrow> Some s
       | Some (Inr ((h, data), sh')) \<Rightarrow> (case daemon_handle be getaddrinfo h data d of
             None \<Rightarrow> None
           | Some (rs, d') \<Rightarrow> map_option (\<lambda>(ok, sh''). (d', sh'')) (post_all c rs sh')))"

section \<open>What the replies look like\<close>

text \<open>
  A reply sequence answers correlation \<open>c\<close>: it is not empty, every message carries \<open>c\<close> and fits
  a slot, all but the last are successes marked with \<open>FLAG_MORE\<close>, and the last is not marked.
\<close>

definition answers :: "u32 \<Rightarrow> message list \<Rightarrow> bool" where
  "answers c rs \<longleftrightarrow> rs \<noteq> [] \<and>
     (\<forall>(h, d) \<in> set rs. h_correlation h = c \<and> length d \<le> DATA_CAPACITY) \<and>
     (\<forall>(h, d) \<in> set (butlast rs). is_ok h \<and> has_more h) \<and> \<not> has_more (fst (last rs))"

lemma answers_single [simp]:
  "answers c [(h, d)] \<longleftrightarrow> h_correlation h = c \<and> length d \<le> DATA_CAPACITY \<and> \<not> has_more h"
  by (auto simp: answers_def)

lemma answers_Cons:
  "is_ok h \<Longrightarrow> has_more h \<Longrightarrow> h_correlation h = c \<Longrightarrow> length d \<le> DATA_CAPACITY \<Longrightarrow> answers c rs \<Longrightarrow>
   answers c ((h, d) # rs)"
  by (auto simp: answers_def)

lemma set_args_simps [simp]:
  "h_correlation (set_args a h) = h_correlation h" "h_socket_id (set_args a h) = h_socket_id h"
  "is_ok (set_args a h) = is_ok h" "has_more (set_args a h) = has_more h" "h_args (set_args a h) = a"
  by (simp_all add: set_args_def is_ok_def has_more_def)

lemma fragments_answers: "bs \<noteq> [] \<Longrightarrow> answers c (fragments (reply_ok c sid) bs)"
proof (induction "reply_ok c sid" bs rule: fragments.induct)
  case (1 bs)
  show ?case
  proof (cases "length bs \<le> DATA_CAPACITY")
    case True
    then show ?thesis using 1(2) by (subst fragments.simps) (simp add: fragments.simps Let_def)
  next
    case False
    then have "answers c (fragments (reply_ok c sid) (drop DATA_CAPACITY bs))"
      using 1 by (simp add: min_def)
    then show ?thesis
      using False 1(2) by (subst fragments.simps) (simp add: Let_def min_def answers_Cons)
  qed
qed

lemma concat_fragments: "concat (map snd (fragments h bs)) = bs"
proof (induction h bs rule: fragments.induct)
  case (1 h bs)
  then show ?case by (subst fragments.simps) (simp add: Let_def)
qed

lemma recv_replies_answers: "answers c (recv_replies c sid bs)"
  by (simp add: recv_replies_def fragments_answers)

lemma recvfrom_replies_answers:
  assumes "wf_addr peer"
  shows "answers c (recvfrom_replies c sid (bs, peer))"
  using assms fragments_answers [of "drop (DATA_CAPACITY - 28) bs" c sid]
  by (auto simp: recvfrom_replies_def Let_def DATA_CAPACITY_eq intro!: answers_Cons)

lemma reply_err_answers [simp]: "answers c (reply_err c s)"
  by (simp add: reply_err_def)

lemma reply_unit_answers [simp]: "answers c (reply_unit c sid r)"
  by (simp add: reply_unit_def split: sum.split)

lemma reply_with_answers: "(\<And>x. r = Inr x \<Longrightarrow> answers c (f x)) \<Longrightarrow> answers c (reply_with c f r)"
  by (simp add: reply_with_def split: sum.split)

lemma upd_backend_simps [simp]:
  "fst (upd_backend d f rb) = f (fst rb)" "dm_stop (snd (upd_backend d f rb)) = dm_stop d"
  "dm_backend (snd (upd_backend d f rb)) = snd rb"
  by (simp_all add: upd_backend_def)

section \<open>The daemon over any backend that keeps its contract\<close>

text \<open>
  What one request may change: the view of the socket it names, or of one id that was free.
\<close>

definition touches :: "u32 \<Rightarrow> ('b \<Rightarrow> u32 \<Rightarrow> 's option) \<Rightarrow> 'b \<Rightarrow> 'b \<Rightarrow> bool" where
  "touches i view b b' \<longleftrightarrow> only_id i view b b' \<or> (\<exists>j. view b j = None \<and> only_id j view b b')"

lemma touches_only [intro]: "only_id i view b b' \<Longrightarrow> touches i view b b'"
  by (simp add: touches_def)

lemma touches_allocates: "allocates view b r b' \<Longrightarrow> touches i view b b'"
  by (auto simp: touches_def allocates_def only_id_def split: sum.splits)

context backend_laws
begin

definition step_ok :: "u32 \<Rightarrow> u32 \<Rightarrow> 'b daemon \<Rightarrow> message list \<times> 'b daemon \<Rightarrow> bool" where
  "step_ok c i d x \<longleftrightarrow> answers c (fst x) \<and> inv (dm_backend (snd x)) \<and>
     touches i view (dm_backend d) (dm_backend (snd x)) \<and> dm_stop (snd x) = dm_stop d"

lemma with_ok:
  assumes "inv b'" and "touches i view (dm_backend d) b'" and "\<And>x. r = Inr x \<Longrightarrow> answers c (f x)"
  shows "step_ok c i d (upd_backend d (reply_with c f) (r, b'))"
  using assms by (simp add: step_ok_def reply_with_answers)

lemma unit_ok:
  assumes "inv b'" and "touches i view (dm_backend d) b'"
  shows "step_ok c i d (upd_backend d (reply_unit c sid) (r, b'))"
  using assms by (simp add: step_ok_def)

lemma same_ok: "inv (dm_backend d) \<Longrightarrow> answers c rs \<Longrightarrow> step_ok c i d (rs, d)"
  by (auto simp: step_ok_def)

lemma addr_ok:
  assumes inv: "inv (dm_backend d)"
    and f: "\<And>a u b'. wf_addr a \<Longrightarrow> f (h_socket_id hdr) a (dm_backend d) = (u, b') \<Longrightarrow>
      inv b' \<and> only_id (h_socket_id hdr) view (dm_backend d) b'"
  shows "step_ok (h_correlation hdr) (h_socket_id hdr) d (with_sockaddr hdr data d f)"
proof (cases "read_sockaddr data")
  case None
  then show ?thesis using inv by (simp add: with_sockaddr_def same_ok)
next
  case (Some a)
  obtain u b' where "f (h_socket_id hdr) a (dm_backend d) = (u, b')" by fastforce
  then show ?thesis
    using f [OF read_sockaddr_wf [OF Some]] Some by (simp add: with_sockaddr_def unit_ok touches_only)
qed

lemma op_ok:
  assumes inv: "inv (dm_backend d)" and op: "op \<noteq> Bye"
    and res: "daemon_op ops gai op hdr data d = Some x"
  shows "step_ok (h_correlation hdr) (h_socket_id hdr) d x"
proof -
  let ?c = "h_correlation hdr" and ?i = "h_socket_id hdr" and ?b = "dm_backend d"
  let ?P = "step_ok ?c ?i d"
  show ?thesis
  proof (cases op)
    case Hello
    then show ?thesis using res inv by (auto simp: daemon_op_def Let_def intro!: same_ok)
  next
    case Socket
    obtain af ty pt fl where args: "unpack_socket_args (h_args hdr) = (af, ty, pt, fl)"
      by (cases "unpack_socket_args (h_args hdr)")
    with Socket res obtain r b' where sb: "be_socket ops af ty pt ?b = Some (r, b')"
      and x: "x = upd_backend d (reply_with ?c (\<lambda>i. [(reply_ok ?c i, [])])) (r, b')"
      by (auto simp: daemon_op_def Let_def)
    show ?thesis unfolding x
      using socket_law [OF inv sb] by (intro with_ok) (auto intro: touches_allocates)
  next
    case Bind
    then show ?thesis using res bind_law [OF inv] by (auto simp: daemon_op_def Let_def intro!: addr_ok [OF inv])
  next
    case Connect
    then show ?thesis using res connect_law [OF inv] by (auto simp: daemon_op_def Let_def intro!: addr_ok [OF inv])
  next
    case Accept
    with res obtain r b' where ab: "be_accept ops ?i ?b = Some (r, b')"
      and x: "x = upd_backend d (reply_with ?c (\<lambda>(i, peer). [(reply_ok ?c i, write_sockaddr peer)])) (r, b')"
      by (auto simp: daemon_op_def Let_def)
    show ?thesis unfolding x
      using accept_law [OF inv ab]
      by (intro with_ok) (auto intro: touches_allocates simp: DATA_CAPACITY_eq)
  next
    case Listen
    obtain r b' where rb: "be_listen ops ?i (unpack_u32 (h_args hdr)) ?b = (r, b')" by fastforce
    have "?P (upd_backend d (reply_unit ?c ?i) (r, b'))"
      using listen_law [OF inv rb] by (intro unit_ok) (auto simp: DATA_CAPACITY_eq )
    then show ?thesis using res Listen rb by (simp add: daemon_op_def Let_def)
  next
    case Send
    obtain r b' where rb: "be_send ops ?i data ?b = (r, b')" by fastforce
    have "?P (upd_backend d (reply_with ?c (\<lambda>n. [(set_args (pack_u32 n) (reply_ok ?c ?i), [])])) (r, b'))"
      using send_law [OF inv rb] by (intro with_ok) (auto simp: DATA_CAPACITY_eq )
    then show ?thesis using res Send rb by (simp add: daemon_op_def Let_def)
  next
    case Recv
    obtain r b' where rb: "be_recv ops ?i (unpack_u32 (h_args hdr)) ?b = (r, b')" by fastforce
    have "?P (upd_backend d (reply_with ?c (recv_replies ?c ?i)) (r, b'))"
      using recv_law [OF inv rb] by (intro with_ok) (auto simp: DATA_CAPACITY_eq recv_replies_answers)
    then show ?thesis using res Recv rb by (simp add: daemon_op_def Let_def)
  next
    case Close
    obtain r b' where rb: "be_close ops ?i ?b = (r, b')" by fastforce
    have "?P (upd_backend d (reply_unit ?c ?i) (r, b'))"
      using close_law [OF inv rb] by (intro unit_ok) (auto simp: DATA_CAPACITY_eq )
    then show ?thesis using res Close rb by (simp add: daemon_op_def Let_def)
  next
    case Shutdown
    obtain r b' where rb: "be_shutdown ops ?i (unpack_u32 (h_args hdr)) ?b = (r, b')" by fastforce
    have "?P (upd_backend d (reply_unit ?c ?i) (r, b'))"
      using shutdown_law [OF inv rb] by (intro unit_ok) (auto simp: DATA_CAPACITY_eq )
    then show ?thesis using res Shutdown rb by (simp add: daemon_op_def Let_def)
  next
    case GetSockName
    obtain r b' where rb: "be_get_sock_name ops ?i ?b = (r, b')" by fastforce
    have "?P (upd_backend d (reply_with ?c (\<lambda>a. [(reply_ok ?c ?i, write_sockaddr a)])) (r, b'))"
      using sock_name_law [OF inv rb] by (intro with_ok) (auto simp: DATA_CAPACITY_eq )
    then show ?thesis using res GetSockName rb by (simp add: daemon_op_def Let_def)
  next
    case GetPeerName
    obtain r b' where rb: "be_get_peer_name ops ?i ?b = (r, b')" by fastforce
    have "?P (upd_backend d (reply_with ?c (\<lambda>a. [(reply_ok ?c ?i, write_sockaddr a)])) (r, b'))"
      using peer_name_law [OF inv rb] by (intro with_ok) (auto simp: DATA_CAPACITY_eq )
    then show ?thesis using res GetPeerName rb by (simp add: daemon_op_def Let_def)
  next
    case RecvFrom
    obtain r b' where rb: "be_recvfrom ops ?i (unpack_u32 (h_args hdr)) ?b = (r, b')" by fastforce
    have "?P (upd_backend d (reply_with ?c (recvfrom_replies ?c ?i)) (r, b'))"
      using recvfrom_law [OF inv rb] by (intro with_ok) (auto simp: DATA_CAPACITY_eq recvfrom_replies_answers)
    then show ?thesis using res RecvFrom rb by (simp add: daemon_op_def Let_def)
  next
    case SendTo
    show ?thesis
    proof (cases "read_sockaddr data")
      case None
      then show ?thesis using res SendTo inv by (auto simp: daemon_op_def Let_def intro!: same_ok)
    next
      case (Some a)
      then have "\<not> length data < 28" by (auto simp: read_sockaddr_def split: if_splits)
      obtain r b' where rb: "be_sendto ops ?i a (drop 28 data) ?b = (r, b')" by fastforce
      have "?P (upd_backend d (reply_with ?c (\<lambda>n. [(set_args (pack_u32 n) (reply_ok ?c ?i), [])])) (r, b'))"
        using sendto_law [OF inv rb] by (intro with_ok) auto
      then show ?thesis using res SendTo rb Some \<open>\<not> length data < 28\<close>
        by (simp add: daemon_op_def Let_def)
    qed
  next
    case Resolve
    then show ?thesis using res inv
      by (auto simp: daemon_op_def Let_def to_socket_addrs_best_def DATA_CAPACITY_eq intro!: same_ok
          split: if_splits option.splits list.splits)
  qed (use res inv op in \<open>auto simp: daemon_op_def Let_def intro!: same_ok\<close>)
qed

lemma handle_ok:
  assumes inv: "inv (dm_backend d)" and op: "from_raw (h_opcode hdr) \<noteq> Some Bye"
    and res: "daemon_handle ops gai hdr data d = Some x"
  shows "step_ok (h_correlation hdr) (h_socket_id hdr) d x"
  using assms
  by (cases "from_raw (h_opcode hdr)") (auto simp: daemon_handle_def intro: same_ok op_ok)

end

section \<open>Properties\<close>

text \<open>
  C6. The daemon over the NAT backend answers every request other than \<open>Bye\<close> (unknown opcodes
  included) with exactly one reply sequence: each message echoes the request's correlation and
  fits a slot, the fragments before the last are marked, the last is not; \<open>Bye\<close> gets no reply
  and is the only request that sets the stop flag.
\<close>

theorem daemon_answers_once:
  assumes "nat_inv (dm_backend d)"
    and "daemon_handle (nat_ops os) gai hdr data d = Some (rs, d')"
  shows "(if from_raw (h_opcode hdr) = Some Bye
      then rs = [] \<and> dm_stop d' \<and> dm_backend d' = dm_backend d
      else answers (h_correlation hdr) rs \<and> dm_stop d' = dm_stop d) \<and> nat_inv (dm_backend d')"
proof (cases "from_raw (h_opcode hdr) = Some Bye")
  case True
  then show ?thesis using assms by (auto simp: daemon_handle_def daemon_op_def Let_def)
next
  case False
  from nat.handle_ok [OF assms(1) this assms(2)] show ?thesis
    using False by (simp add: nat.step_ok_def)
qed

text \<open>
  Isolation of logical sockets: a request changes at most what the id in its header stands
  for, or binds one id that was free, whatever bytes the container puts into it.
\<close>

theorem daemon_touches_one_socket:
  assumes "nat_inv (dm_backend d)"
    and "daemon_handle (nat_ops os) gai hdr data d = Some (rs, d')"
  shows "\<exists>i. (i = h_socket_id hdr \<or> nat_view (dm_backend d) i = None) \<and>
    (\<forall>j. j \<noteq> i \<longrightarrow> nat_view (dm_backend d') j = nat_view (dm_backend d) j)"
proof (cases "from_raw (h_opcode hdr) = Some Bye")
  case True
  then show ?thesis using assms by (auto simp: daemon_handle_def daemon_op_def Let_def)
next
  case False
  from nat.handle_ok [OF assms(1) this assms(2)] show ?thesis
    by (auto simp: nat.step_ok_def touches_def only_id_def)
qed

text \<open>A host whose streams deliver the bytes 1 2 3 and accept everything.\<close>

definition demo_os :: "(nat, nat) os" where
  "demo_os = \<lparr>os_connect = (\<lambda>a w. (Inr w, w + 1)), os_tcp_bind = (\<lambda>a w. (Inr w, w + 1)),
     os_udp_bind = (\<lambda>a w. (Inr w, w + 1)), os_local_addr = (\<lambda>h w. Inr (V4 [127, 0, 0, 1] 4000)),
     os_accept = (\<lambda>h w. (Inl K_WouldBlock, w)), os_write = (\<lambda>h d w. (Inr (length d), w)),
     os_read = (\<lambda>h c w. (Inr (3, [1, 2, 3]), w)), os_shutdown = (\<lambda>h s w. (Inr (), w)),
     os_send_to = (\<lambda>h d a w. (Inr (length d), w)),
     os_recv_from = (\<lambda>h c w. (Inr (3, [1, 2, 3], V4 [127, 0, 0, 1] 5000), w)), os_drop = (\<lambda>h w. w)\<rparr>"

definition demo_daemon :: "(nat, nat) nat_backend daemon" where
  "demo_daemon = \<lparr>dm_backend = nat_new [10, 88, 0, 2] 0, dm_stop = False\<rparr>"

definition demo_request :: SlotHeader where
  "demo_request = set_args (pack_socket_args 2 1 6 0) (header_new Socket 9)"

lemma demo_inv: "nat_inv (dm_backend demo_daemon)"
  by (simp add: demo_daemon_def)

lemma demo_request_simps [simp]:
  "from_raw (h_opcode demo_request) = Some Socket" "h_correlation demo_request = 9"
  "h_args demo_request = pack_socket_args 2 1 6 0"
  using from_raw_op_code [of Socket] by (simp_all add: demo_request_def set_args_def)

lemma demo_handle: "\<exists>d'. daemon_handle (nat_ops demo_os) (\<lambda>n. None) demo_request [] demo_daemon =
    Some ([(reply_ok 9 1, [])], d')"
  by (simp add: daemon_handle_def daemon_op_def demo_daemon_def nat_ops_sel nat_socket_def nat_new_def
      table_insert_def table_new_def AF_INET_V_def upd_backend_def reply_with_def)

theorem daemon_answers_once_witness:
  "\<exists>rs d'. daemon_handle (nat_ops demo_os) (\<lambda>n. None) demo_request [] demo_daemon = Some (rs, d') \<and>
    answers 9 rs \<and> \<not> dm_stop d'"
proof -
  obtain d' where h: "daemon_handle (nat_ops demo_os) (\<lambda>n. None) demo_request [] demo_daemon =
    Some ([(reply_ok 9 1, [])], d')" using demo_handle by blast
  from daemon_answers_once [OF demo_inv h] show ?thesis
    using h by (auto simp: demo_daemon_def)
qed

theorem daemon_touches_one_socket_witness:
  "\<exists>rs d' i. daemon_handle (nat_ops demo_os) (\<lambda>n. None) demo_request [] demo_daemon = Some (rs, d') \<and>
    (\<forall>j. j \<noteq> i \<longrightarrow> nat_view (dm_backend d') j = None)"
proof -
  obtain d' where h: "daemon_handle (nat_ops demo_os) (\<lambda>n. None) demo_request [] demo_daemon =
    Some ([(reply_ok 9 1, [])], d')" using demo_handle by blast
  from daemon_touches_one_socket [OF demo_inv h] show ?thesis
    using h by (auto simp: demo_daemon_def nat_view_def nat_new_def)
qed

end
