(* ===== verification/Client.thy ===== *)
theory Client
  imports Daemon
begin

text \<open>
  The shim's side of the protocol, \<open>crates/psroot-netshim/src/client.rs\<close>: one request, then the
  replies with its correlation until one without \<open>FLAG_MORE\<close>. The receive loop consumes a list of
  poll results, what \<open>recv_blocking\<close> returns before the deadline; when the list is used up the
  deadline has passed. The socket calls are written over any exchange function. \<open>link\<close> joins the
  client to the daemon through the reply queue, and the calls are shown to be the backend's
  operations; after a timeout they no longer are.
\<close>

section \<open>Errors and the exchange\<close>

datatype ClientError = E_Io nat | E_Status StatusCode | E_Protocol string | E_Timeout

datatype poll = Poll_None | Poll_Msg SlotHeader "u8 list" | Poll_Io nat

definition decode_status :: "u16 \<Rightarrow> StatusCode option" where
  "decode_status raw =
     (if raw = 1 then Some UnknownOp else if raw = 2 then Some BadSocket
      else if raw = 3 then Some WouldBlock else if raw = 4 then Some ConnRefused
      else if raw = 5 then Some NotSupported else if raw = 6 then Some HostError
      else if raw = 7 then Some ConnReset else if raw = 8 then Some TooLarge
      else if raw = 9 then Some AddrInUse else if raw = 10 then Some AddrNotAvail else None)"

lemma decode_status_code [codec, simp]: "decode_status (status_code s) = Some s"
  by (cases s) (simp_all add: decode_status_def)

fun recv_loop :: "u32 \<Rightarrow> u8 list \<Rightarrow> poll list \<Rightarrow> (ClientError + SlotHeader \<times> u8 list) \<times> poll list" where
  "recv_loop cid combined [] = (Inl E_Timeout, [])"
| "recv_loop cid combined (Poll_Io e # ps) = (Inl (E_Io e), ps)"
| "recv_loop cid combined (Poll_None # ps) = recv_loop cid combined ps"
| "recv_loop cid combined (Poll_Msg rh rd # ps) =
     (if h_correlation rh \<noteq> cid then (Inl (E_Protocol ''correlation mismatch''), ps)
      else if \<not> is_ok rh then
        (case decode_status (h_opcode rh) of
           None \<Rightarrow> (Inl (E_Protocol ''bad status''), ps) | Some s \<Rightarrow> (Inl (E_Status s), ps))
      else if \<not> has_more rh then (Inr (rh, combined @ rd), ps)
      else recv_loop cid (combined @ rd) ps)"

text \<open>
  \<open>exchange\<close> over a transport: \<open>send\<close> delivers the request or refuses it and says what the
  polls up to the deadline return; \<open>unread\<close> puts back what the loop did not consume. The
  correlation counter is advanced first, in any case.
\<close>

record 'w transport =
  tr_send :: "SlotHeader \<Rightarrow> u8 list \<Rightarrow> 'w \<Rightarrow> (RingError + poll list) \<times> 'w"
  tr_unread :: "poll list \<Rightarrow> 'w \<Rightarrow> 'w"

record 'w client =
  cl_next :: u32
  cl_world :: 'w

definition exchange :: "'w transport \<Rightarrow> SlotHeader \<Rightarrow> u8 list \<Rightarrow> 'w client \<Rightarrow>
    (ClientError + SlotHeader \<times> u8 list) \<times> 'w client" where
  "exchange tr hdr d c =
     (let cid = cl_next c in
      case tr_send tr (hdr\<lparr>h_correlation := cid\<rparr>) d (cl_world c) of
        (Inl e, w) \<Rightarrow> (Inl (E_Protocol ''ring error''), \<lparr>cl_next = cid + 1, cl_world = w\<rparr>)
      | (Inr ps, w) \<Rightarrow> (let (r, rest) = recv_loop cid [] ps in
          (r, \<lparr>cl_next = cid + 1, cl_world = tr_unread tr rest w\<rparr>)))"

section \<open>The socket calls\<close>

text \<open>\<open>sockaddr_bytes\<close> and \<open>parse_sockaddr\<close> repeat the daemon's encoding.\<close>

definition sockaddr_bytes :: "SockAddrBytes \<Rightarrow> u8 list" where
  "sockaddr_bytes a =
     put_bytes 24 (to_le 4 (sa_scope a)) (put_bytes 8 (sa_addr a) (put_bytes 4 (to_le 4 (sa_flow a))
       (put_bytes 2 (to_le 2 (sa_port a)) (put_bytes 0 (to_le 2 (sa_family a)) (replicate 28 0)))))"

definition parse_sockaddr :: "u8 list \<Rightarrow> SockAddrBytes option" where
  "parse_sockaddr d = (if length d < 28 then None else Some
     \<lparr>sa_family = from_le (get_bytes 0 2 d), sa_port = from_le (get_bytes 2 2 d),
      sa_flow = from_le (get_bytes 4 4 d), sa_addr = get_bytes 8 16 d,
      sa_scope = from_le (get_bytes 24 4 d)\<rparr>)"

lemma sockaddr_bytes_eq [simp]: "sockaddr_bytes = write_sockaddr"
  by (rule ext) (simp add: sockaddr_bytes_def write_sockaddr_def)

lemma parse_sockaddr_eq [simp]: "parse_sockaddr = read_sockaddr"
  by (rule ext) (simp add: parse_sockaddr_def read_sockaddr_def)

type_synonym 'w xchg = "SlotHeader \<Rightarrow> u8 list \<Rightarrow> 'w \<Rightarrow> (ClientError + SlotHeader \<times> u8 list) \<times> 'w"

text \<open>A call: exchange, and a result read off the reply.\<close>

definition call :: "'w xchg \<Rightarrow> SlotHeader \<Rightarrow> u8 list \<Rightarrow> (SlotHeader \<times> u8 list \<Rightarrow> ClientError + 'a) \<Rightarrow>
    'w \<Rightarrow> (ClientError + 'a) \<times> 'w" where
  "call x hdr d k w = (case x hdr d w of (r, w') \<Rightarrow> (and_then r k, w'))"

definition request :: "OpCode \<Rightarrow> u32 \<Rightarrow> u8 list \<Rightarrow> SlotHeader" where
  "request op sid args = (header_new op 0)\<lparr>h_socket_id := sid, h_args := args\<rparr>"

definition addr_of :: "string \<Rightarrow> u8 list \<Rightarrow> ClientError + SockAddrBytes" where
  "addr_of msg d = ok_or (E_Protocol msg) (parse_sockaddr d)"

definition client_hello :: "'w xchg \<Rightarrow> 'w \<Rightarrow> (ClientError + u32) \<times> 'w" where
  "client_hello x = call x (request Hello 0 zero_args) [] (\<lambda>(h, d). Inr (unpack_u32 (h_args h)))"

definition client_socket :: "'w xchg \<Rightarrow> u16 \<Rightarrow> u16 \<Rightarrow> u32 \<Rightarrow> 'w \<Rightarrow> (ClientError + u32) \<times> 'w" where
  "client_socket x af typ proto =
     call x (request Socket 0 (pack_socket_args af typ proto 0)) [] (\<lambda>(h, d). Inr (h_socket_id h))"

definition client_bind :: "'w xchg \<Rightarrow> u32 \<Rightarrow> SockAddrBytes \<Rightarrow> 'w \<Rightarrow> (ClientError + unit) \<times> 'w" where
  "client_bind x sid a = call x (request Bind sid zero_args) (sockaddr_bytes a) (\<lambda>_. Inr ())"

definition client_connect :: "'w xchg \<Rightarrow> u32 \<Rightarrow> SockAddrBytes \<Rightarrow> 'w \<Rightarrow> (ClientError + unit) \<times> 'w" where
  "client_connect x sid a = call x (request Connect sid zero_args) (sockaddr_bytes a) (\<lambda>_. Inr ())"

definition client_listen :: "'w xchg \<Rightarrow> u32 \<Rightarrow> u32 \<Rightarrow> 'w \<Rightarrow> (ClientError + unit) \<times> 'w" where
  "client_listen x sid backlog = call x (request Listen sid (pack_u32 backlog)) [] (\<lambda>_. Inr ())"

definition client_accept :: "'w xchg \<Rightarrow> u32 \<Rightarrow> 'w \<Rightarrow> (ClientError + u32 \<times> SockAddrBytes) \<times> 'w" where
  "client_accept x sid = call x (request Accept sid zero_args) []
     (\<lambda>(h, d). map_ok (Pair (h_socket_id h)) (addr_of ''bad peer'' d))"

definition client_send :: "'w xchg \<Rightarrow> u32 \<Rightarrow> u8 list \<Rightarrow> 'w \<Rightarrow> (ClientError + u32) \<times> 'w" where
  "client_send x sid d = call x (request Send sid zero_args) d (\<lambda>(h, d). Inr (unpack_u32 (h_args h)))"

definition client_recv :: "'w xchg \<Rightarrow> u32 \<Rightarrow> u32 \<Rightarrow> 'w \<Rightarrow> (ClientError + u8 list) \<times> 'w" where
  "client_recv x sid mx = call x (request Recv sid (pack_u32 mx)) [] (\<lambda>(h, d). Inr d)"

definition client_close :: "'w xchg \<Rightarrow> u32 \<Rightarrow> 'w \<Rightarrow> (ClientError + unit) \<times> 'w" where
  "client_close x sid = call x (request Close sid zero_args) [] (\<lambda>_. Inr ())"

definition client_shutdown :: "'w xchg \<Rightarrow> u32 \<Rightarrow> u32 \<Rightarrow> 'w \<Rightarrow> (ClientError + unit) \<times> 'w" where
  "client_shutdown x sid how = call x (request Shutdown sid (pack_u32 how)) [] (\<lambda>_. Inr ())"

definition client_getsockname :: "'w xchg \<Rightarrow> u32 \<Rightarrow> 'w \<Rightarrow> (ClientError + SockAddrBytes) \<times> 'w" where
  "client_getsockname x sid = call x (request GetSockName sid zero_args) []
     (\<lambda>(h, d). addr_of ''bad sockaddr'' d)"

definition client_getpeername :: "'w xchg \<Rightarrow> u32 \<Rightarrow> 'w \<Rightarrow> (ClientError + SockAddrBytes) \<times> 'w" where
  "client_getpeername x sid = call x (request GetPeerName sid zero_args) []
     (\<lambda>(h, d). addr_of ''bad sockaddr'' d)"

definition client_sendto :: "'w xchg \<Rightarrow> u32 \<Rightarrow> SockAddrBytes \<Rightarrow> u8 list \<Rightarrow> 'w \<Rightarrow> (ClientError + u32) \<times> 'w" where
  "client_sendto x sid a d = call x (request SendTo sid zero_args) (sockaddr_bytes a @ d)
     (\<lambda>(h, d). Inr (unpack_u32 (h_args h)))"

definition client_recvfrom :: "'w xchg \<Rightarrow> u32 \<Rightarrow> u32 \<Rightarrow> 'w \<Rightarrow>
    (ClientError + u8 list \<times> SockAddrBytes) \<times> 'w" where
  "client_recvfrom x sid mx = call x (request RecvFrom sid (pack_u32 mx)) []
     (\<lambda>(h, d). if length d < 28 then Inl (E_Protocol ''recvfrom reply too short'')
        else map_ok (Pair (drop 28 d)) (addr_of ''bad peer'' (take 28 d)))"

section \<open>The client joined to the daemon\<close>

text \<open>
  The reply ring holds at most \<open>lk_cap\<close> messages, as \<open>Channel\<close> shows; the daemon posts until it
  is full. A call is late when the daemon's replies come after the client's deadline: the client
  then polls what was in the ring before. A panic of the daemon leaves the call without reply.
\<close>

record 'b link =
  lk_daemon :: "'b daemon"
  lk_rx :: "message list"
  lk_cap :: nat

definition polls :: "message list \<Rightarrow> poll list" where
  "polls ms = map (\<lambda>(h, d). Poll_Msg h d) ms"

definition unpoll :: "poll list \<Rightarrow> message list" where
  "unpoll ps = concat (map (\<lambda>p. case p of Poll_Msg h d \<Rightarrow> [(h, d)] | _ \<Rightarrow> []) ps)"

definition link_transport :: "'b backend \<Rightarrow> (u8 list \<Rightarrow> SocketAddr list option) \<Rightarrow> bool \<Rightarrow>
    'b link transport" where
  "link_transport be gai late =
     \<lparr>tr_send = (\<lambda>h d l.
        if DATA_CAPACITY < length d then (Inl TooSmall, l)
        else let (rs, dm) = (case daemon_handle be gai (stamp h d) d (lk_daemon l) of
                None \<Rightarrow> ([], lk_daemon l) | Some x \<Rightarrow> x);
              new = map (\<lambda>(h, d). (stamp h d, d)) (take (lk_cap l - length (lk_rx l)) rs) in
          if late then (Inr (polls (lk_rx l)), l\<lparr>lk_daemon := dm, lk_rx := new\<rparr>)
          else (Inr (polls (lk_rx l @ new)), l\<lparr>lk_daemon := dm, lk_rx := []\<rparr>)),
      tr_unread = (\<lambda>ps l. l\<lparr>lk_rx := unpoll ps @ lk_rx l\<rparr>)\<rparr>"

abbreviation link_exchange :: "'b backend \<Rightarrow> (u8 list \<Rightarrow> SocketAddr list option) \<Rightarrow> bool \<Rightarrow>
    'b link client xchg" where
  "link_exchange be gai late \<equiv> exchange (link_transport be gai late)"

lemma unpoll_polls [simp]: "unpoll (polls ms) = ms"
  by (induction ms) (auto simp: unpoll_def polls_def)

lemma unpoll_append: "unpoll (polls ms @ polls ns) = ms @ ns" "unpoll (polls (ms @ ns)) = ms @ ns"
  by (simp_all add: unpoll_def) (metis unpoll_def unpoll_polls map_append concat_append)+

lemma polls_simps [simp]: "polls [] = []" "polls ((h, d) # ms) = Poll_Msg h d # polls ms"
  by (simp_all add: polls_def)

lemma stamp_simps [simp]:
  "h_correlation (stamp h d) = h_correlation h" "h_socket_id (stamp h d) = h_socket_id h"
  "h_opcode (stamp h d) = h_opcode h" "h_args (stamp h d) = h_args h"
  "is_ok (stamp h d) = is_ok h" "has_more (stamp h d) = has_more h"
  by (simp_all add: stamp_def is_ok_def has_more_def)

abbreviation stamped :: "message list \<Rightarrow> message list" where
  "stamped \<equiv> map (\<lambda>(h, d). (stamp h d, d))"

section \<open>The receive loop over an answer\<close>

lemma recv_loop_answers:
  assumes "answers cid rs" and "is_ok (fst (last rs))"
  shows "recv_loop cid acc (polls (stamped rs @ rest)) =
    (Inr (stamp (fst (last rs)) (snd (last rs)), acc @ concat (map snd rs)), polls rest)"
  using assms
proof (induction rs arbitrary: acc)
  case Nil
  then show ?case by (simp add: answers_def)
next
  case (Cons m rs)
  obtain h d where m: "m = (h, d)" by (cases m)
  show ?case
  proof (cases "rs = []")
    case True
    then show ?thesis using Cons.prems m by (simp add: answers_def)
  next
    case False
    then have "answers cid rs" "is_ok h" "has_more h" "h_correlation h = cid"
      using Cons.prems(1) m by (auto simp: answers_def)
    then show ?thesis using Cons.IH Cons.prems(2) False m by simp
  qed
qed

lemma recv_loop_err:
  "recv_loop cid acc (polls (stamped (reply_err cid s) @ rest)) = (Inl (E_Status s), polls rest)"
  by (simp add: reply_err_def header_reply_err_def [symmetric])

section \<open>A call in step is the backend's operation\<close>

definition in_sync :: "'b link client \<Rightarrow> bool" where
  "in_sync c \<longleftrightarrow> lk_rx (cl_world c) = [] \<and> 2 \<le> lk_cap (cl_world c)"

abbreviation the_backend :: "'b link client \<Rightarrow> 'b" where
  "the_backend c \<equiv> dm_backend (lk_daemon (cl_world c))"

text \<open>The state after a call that left the backend in \<open>b\<close>: the counter moved, nothing is unread.\<close>

definition after :: "'b link client \<Rightarrow> 'b \<Rightarrow> 'b link client" where
  "after c b = \<lparr>cl_next = cl_next c + 1,
     cl_world = (cl_world c)\<lparr>lk_daemon := (lk_daemon (cl_world c))\<lparr>dm_backend := b\<rparr>\<rparr>\<rparr>"

definition lift :: "'a BResult \<Rightarrow> ClientError + 'a" where
  "lift r = (case r of Inl s \<Rightarrow> Inl (E_Status s) | Inr x \<Rightarrow> Inr x)"

lemma map_ok_unit [simp]: "map_ok (\<lambda>x. ()) r = r"
  by (simp add: map_ok_def split: sum.split)

lemma map_ok_id [simp]: "map_ok (\<lambda>x. x) r = r"
  by (simp add: map_ok_def split: sum.split)

lemma after_sync: "in_sync c \<Longrightarrow> in_sync (after c b)" "the_backend (after c b) = b"
  by (simp_all add: in_sync_def after_def)

lemma exchange_sync:
  assumes sync: "in_sync c" and d: "length d \<le> DATA_CAPACITY"
    and h: "daemon_handle be gai (stamp (hdr\<lparr>h_correlation := cl_next c\<rparr>) d) d (lk_daemon (cl_world c)) =
      Some (rs, dm)"
    and len: "length rs \<le> 2"
    and loop: "recv_loop (cl_next c) [] (polls (stamped rs)) = (r, [])"
  shows "link_exchange be gai False hdr d c =
    (r, \<lparr>cl_next = cl_next c + 1, cl_world = (cl_world c)\<lparr>lk_daemon := dm\<rparr>\<rparr>)"
proof -
  have "take (lk_cap (cl_world c) - length (lk_rx (cl_world c))) rs = rs" and rx: "lk_rx (cl_world c) = []"
    using sync len by (simp_all add: in_sync_def)
  then show ?thesis
    using d h loop by (simp add: exchange_def link_transport_def Let_def unpoll_def)
qed

lemma rpc:
  assumes sync: "in_sync c" and d: "length d \<le> DATA_CAPACITY"
    and h: "daemon_handle be gai (stamp (hdr\<lparr>h_correlation := cl_next c\<rparr>) d) d (lk_daemon (cl_world c)) =
      Some (upd_backend (lk_daemon (cl_world c)) (reply_with (cl_next c) f) (r, b'))"
    and f: "\<And>x. r = Inr x \<Longrightarrow> answers (cl_next c) (f x) \<and> is_ok (fst (last (f x))) \<and> length (f x) \<le> 2 \<and>
      k (stamp (fst (last (f x))) (snd (last (f x))), concat (map snd (f x))) = Inr (g x)"
  shows "call (link_exchange be gai False) hdr d k c = (map_ok g (lift r), after c b')"
proof -
  let ?rs = "reply_with (cl_next c) f r"
  have h': "daemon_handle be gai (stamp (hdr\<lparr>h_correlation := cl_next c\<rparr>) d) d (lk_daemon (cl_world c)) =
      Some (?rs, (lk_daemon (cl_world c))\<lparr>dm_backend := b'\<rparr>)"
    using h by (simp add: upd_backend_def)
  show ?thesis
  proof (cases r)
    case (Inl s)
    have "recv_loop (cl_next c) [] (polls (stamped ?rs)) = (Inl (E_Status s), [])"
      using recv_loop_err [of "cl_next c" "[]" s "[]"] Inl by (simp add: reply_with_def)
    from exchange_sync [OF sync d h' _ this] Inl show ?thesis
      by (simp add: call_def after_def lift_def reply_with_def reply_err_def)
  next
    case (Inr x)
    have "recv_loop (cl_next c) [] (polls (stamped ?rs)) =
      (Inr (stamp (fst (last (f x))) (snd (last (f x))), concat (map snd (f x))), [])"
      using recv_loop_answers [of "cl_next c" "f x" "[]" "[]"] f [OF Inr] Inr by (simp add: reply_with_def)
    from exchange_sync [OF sync d h' _ this] Inr f [OF Inr] show ?thesis
      by (simp add: call_def after_def lift_def reply_with_def)
  qed
qed

lemma length_fragments_small:
  "length bs \<le> DATA_CAPACITY \<Longrightarrow> bs \<noteq> [] \<Longrightarrow> fragments h bs = [(h, bs)]"
  by (subst fragments.simps) (simp add: fragments.simps Let_def)

lemma recv_replies_small:
  "length bs \<le> DATA_CAPACITY \<Longrightarrow> recv_replies c sid bs = [(reply_ok c sid, bs)]"
  by (simp add: recv_replies_def length_fragments_small)

lemma recvfrom_replies_small:
  assumes "length bs \<le> DATA_CAPACITY"
  shows "recvfrom_replies c sid (bs, peer) =
    (if 28 + length bs \<le> DATA_CAPACITY then [(reply_ok c sid, write_sockaddr peer @ bs)]
     else [(set_more (reply_ok c sid), write_sockaddr peer @ take (DATA_CAPACITY - 28) bs),
           (reply_ok c sid, drop (DATA_CAPACITY - 28) bs)])"
  using assms
  by (auto simp: recvfrom_replies_def Let_def DATA_CAPACITY_eq intro!: length_fragments_small)

lemma recvfrom_reply:
  assumes "length bs \<le> DATA_CAPACITY" and "wf_addr peer"
  shows "is_ok (fst (last (recvfrom_replies c sid (bs, peer))))"
    and "length (recvfrom_replies c sid (bs, peer)) \<le> 2"
    and "concat (map snd (recvfrom_replies c sid (bs, peer))) = write_sockaddr peer @ bs"
  using assms by (simp_all add: recvfrom_replies_small)

lemma reply_unit_with: "reply_unit c sid = reply_with c (\<lambda>_. [(reply_ok c sid, [])])"
  by (rule ext) (simp add: reply_unit_def reply_with_def)

lemma request_simps [simp]:
  "from_raw (h_opcode (request op sid args)) = Some op" "h_socket_id (request op sid args) = sid"
  "h_args (request op sid args) = args"
  by (simp_all add: request_def from_raw_op_code)

lemma request_sent [simp]:
  "from_raw (h_opcode ((request op sid args)\<lparr>h_correlation := c\<rparr>)) = Some op"
  "h_socket_id ((request op sid args)\<lparr>h_correlation := c\<rparr>) = sid"
  "h_args ((request op sid args)\<lparr>h_correlation := c\<rparr>) = args"
  using request_simps [of op sid args] by simp_all

lemma handle_request:
  "daemon_handle be gai (stamp ((request op sid args)\<lparr>h_correlation := c\<rparr>) d) d dm =
   daemon_op be gai op (stamp ((request op sid args)\<lparr>h_correlation := c\<rparr>) d) d dm"
  by (simp add: daemon_handle_def del: select_convs)

context backend_laws
begin

lemma call_socket:
  assumes "in_sync c" and "inv (the_backend c)" and "be_socket ops af ty pt (the_backend c) = Some (r, b')"
  shows "client_socket (link_exchange ops gai False) af ty pt c = (lift r, after c b')"
proof -
  have "client_socket (link_exchange ops gai False) af ty pt c = (map_ok (\<lambda>x. x) (lift r), after c b')"
    unfolding client_socket_def
    by (rule rpc [OF assms(1), where f = "\<lambda>i. [(reply_ok (cl_next c) i, [])]"])
      (use assms  in \<open>auto simp: handle_request daemon_op_def Let_def reply_unit_with \<close>)
  then show ?thesis by simp
qed

lemma call_bind:
  assumes "in_sync c" and "inv (the_backend c)" and "be_bind ops sid a (the_backend c) = (r, b')" and "wf_addr a"
  shows "client_bind (link_exchange ops gai False) sid a c = (lift r, after c b')"
proof -
  have "client_bind (link_exchange ops gai False) sid a c = (map_ok (\<lambda>x. x) (lift r), after c b')"
    unfolding client_bind_def
    by (rule rpc [OF assms(1), where f = "\<lambda>_. [(reply_ok (cl_next c) sid, [])]"])
      (use assms  in \<open>auto simp: handle_request daemon_op_def Let_def reply_unit_with with_sockaddr_def DATA_CAPACITY_eq\<close>)
  then show ?thesis by simp
qed

lemma call_connect:
  assumes "in_sync c" and "inv (the_backend c)" and "be_connect ops sid a (the_backend c) = (r, b')" and "wf_addr a"
  shows "client_connect (link_exchange ops gai False) sid a c = (lift r, after c b')"
proof -
  have "client_connect (link_exchange ops gai False) sid a c = (map_ok (\<lambda>x. x) (lift r), after c b')"
    unfolding client_connect_def
    by (rule rpc [OF assms(1), where f = "\<lambda>_. [(reply_ok (cl_next c) sid, [])]"])
      (use assms  in \<open>auto simp: handle_request daemon_op_def Let_def reply_unit_with with_sockaddr_def DATA_CAPACITY_eq\<close>)
  then show ?thesis by simp
qed

lemma call_listen:
  assumes "in_sync c" and "inv (the_backend c)" and "be_listen ops sid n (the_backend c) = (r, b')"
  shows "client_listen (link_exchange ops gai False) sid n c = (lift r, after c b')"
proof -
  have "client_listen (link_exchange ops gai False) sid n c = (map_ok (\<lambda>x. x) (lift r), after c b')"
    unfolding client_listen_def
    by (rule rpc [OF assms(1), where f = "\<lambda>_. [(reply_ok (cl_next c) sid, [])]"])
      (use assms  in \<open>auto simp: handle_request daemon_op_def Let_def reply_unit_with \<close>)
  then show ?thesis by simp
qed

lemma call_accept:
  assumes "in_sync c" and "inv (the_backend c)" and "be_accept ops sid (the_backend c) = Some (r, b')"
  shows "client_accept (link_exchange ops gai False) sid c = (lift r, after c b')"
proof -
  have "client_accept (link_exchange ops gai False) sid c = (map_ok (\<lambda>x. x) (lift r), after c b')"
    unfolding client_accept_def
    by (rule rpc [OF assms(1), where f = "\<lambda>(i, peer). [(reply_ok (cl_next c) i, write_sockaddr peer)]"])
      (use assms accept_law [OF assms(2,3)] in \<open>auto simp: handle_request daemon_op_def Let_def reply_unit_with addr_of_def DATA_CAPACITY_eq\<close>)
  then show ?thesis by simp
qed

lemma call_send:
  assumes "in_sync c" and "inv (the_backend c)" and "be_send ops sid d (the_backend c) = (r, b')" and "length d \<le> DATA_CAPACITY"
  shows "client_send (link_exchange ops gai False) sid d c = (lift r, after c b')"
proof -
  have "client_send (link_exchange ops gai False) sid d c = (map_ok (\<lambda>x. x) (lift r), after c b')"
    unfolding client_send_def
    by (rule rpc [OF assms(1), where f = "\<lambda>n. [(set_args (pack_u32 n) (reply_ok (cl_next c) sid), [])]"])
      (use assms  in \<open>auto simp: handle_request daemon_op_def Let_def reply_unit_with \<close>)
  then show ?thesis by simp
qed

lemma call_recv:
  assumes "in_sync c" and "inv (the_backend c)" and "be_recv ops sid mx (the_backend c) = (r, b')"
  shows "client_recv (link_exchange ops gai False) sid mx c = (lift r, after c b')"
proof -
  have "client_recv (link_exchange ops gai False) sid mx c = (map_ok (\<lambda>x. x) (lift r), after c b')"
    unfolding client_recv_def
    by (rule rpc [OF assms(1), where f = "recv_replies (cl_next c) sid"])
      (use assms recv_law [OF assms(2,3)] in \<open>auto simp: handle_request daemon_op_def Let_def reply_unit_with recv_replies_small\<close>)
  then show ?thesis by simp
qed

lemma call_close:
  assumes "in_sync c" and "inv (the_backend c)" and "be_close ops sid (the_backend c) = (r, b')"
  shows "client_close (link_exchange ops gai False) sid c = (lift r, after c b')"
proof -
  have "client_close (link_exchange ops gai False) sid c = (map_ok (\<lambda>x. x) (lift r), after c b')"
    unfolding client_close_def
    by (rule rpc [OF assms(1), where f = "\<lambda>_. [(reply_ok (cl_next c) sid, [])]"])
      (use assms  in \<open>auto simp: handle_request daemon_op_def Let_def reply_unit_with \<close>)
  then show ?thesis by simp
qed

lemma call_shutdown:
  assumes "in_sync c" and "inv (the_backend c)" and "be_shutdown ops sid how (the_backend c) = (r, b')"
  shows "client_shutdown (link_exchange ops gai False) sid how c = (lift r, after c b')"
proof -
  have "client_shutdown (link_exchange ops gai False) sid how c = (map_ok (\<lambda>x. x) (lift r), after c b')"
    unfolding client_shutdown_def
    by (rule rpc [OF assms(1), where f = "\<lambda>_. [(reply_ok (cl_next c) sid, [])]"])
      (use assms  in \<open>auto simp: handle_request daemon_op_def Let_def reply_unit_with \<close>)
  then show ?thesis by simp
qed

lemma call_getsockname:
  assumes "in_sync c" and "inv (the_backend c)" and "be_get_sock_name ops sid (the_backend c) = (r, b')"
  shows "client_getsockname (link_exchange ops gai False) sid c = (lift r, after c b')"
proof -
  have "client_getsockname (link_exchange ops gai False) sid c = (map_ok (\<lambda>x. x) (lift r), after c b')"
    unfolding client_getsockname_def
    by (rule rpc [OF assms(1), where f = "\<lambda>a. [(reply_ok (cl_next c) sid, write_sockaddr a)]"])
      (use assms sock_name_law [OF assms(2,3)] in \<open>auto simp: handle_request daemon_op_def Let_def reply_unit_with addr_of_def DATA_CAPACITY_eq\<close>)
  then show ?thesis by simp
qed

lemma call_getpeername:
  assumes "in_sync c" and "inv (the_backend c)" and "be_get_peer_name ops sid (the_backend c) = (r, b')"
  shows "client_getpeername (link_exchange ops gai False) sid c = (lift r, after c b')"
proof -
  have "client_getpeername (link_exchange ops gai False) sid c = (map_ok (\<lambda>x. x) (lift r), after c b')"
    unfolding client_getpeername_def
    by (rule rpc [OF assms(1), where f = "\<lambda>a. [(reply_ok (cl_next c) sid, write_sockaddr a)]"])
      (use assms peer_name_law [OF assms(2,3)] in \<open>auto simp: handle_request daemon_op_def Let_def reply_unit_with addr_of_def DATA_CAPACITY_eq\<close>)
  then show ?thesis by simp
qed

lemma call_sendto:
  assumes "in_sync c" and "inv (the_backend c)" and "be_sendto ops sid a d (the_backend c) = (r, b')" and "wf_addr a \<and> length d \<le> DATA_CAPACITY - 28"
  shows "client_sendto (link_exchange ops gai False) sid a d c = (lift r, after c b')"
proof -
  have "client_sendto (link_exchange ops gai False) sid a d c = (map_ok (\<lambda>x. x) (lift r), after c b')"
    unfolding client_sendto_def
    by (rule rpc [OF assms(1), where f = "\<lambda>n. [(set_args (pack_u32 n) (reply_ok (cl_next c) sid), [])]"])
      (use assms  in \<open>auto simp: handle_request daemon_op_def Let_def reply_unit_with read_sockaddr_append DATA_CAPACITY_eq\<close>)
  then show ?thesis by simp
qed

lemma call_recvfrom:
  assumes "in_sync c" and "inv (the_backend c)" and "be_recvfrom ops sid mx (the_backend c) = (r, b')"
  shows "client_recvfrom (link_exchange ops gai False) sid mx c = (lift r, after c b')"
proof -
  have "client_recvfrom (link_exchange ops gai False) sid mx c = (map_ok (\<lambda>x. x) (lift r), after c b')"
    unfolding client_recvfrom_def
    by (rule rpc [OF assms(1), where f = "recvfrom_replies (cl_next c) sid"])
      (use assms recvfrom_law [OF assms(2,3)] recvfrom_reply in \<open>auto simp: handle_request daemon_op_def Let_def reply_unit_with recvfrom_replies_answers addr_of_def read_sockaddr_append\<close>)
  then show ?thesis by simp
qed

end

section \<open>After a timeout\<close>

text \<open>
  \<open>stale k c\<close>: the reply ring holds messages, and none of them carries one of the next \<open>k\<close>
  correlation ids. Requests considered: they fit a slot, are not \<open>Bye\<close>, and allocate no id.
\<close>

definition stale :: "nat \<Rightarrow> 'b link client \<Rightarrow> bool" where
  "stale k c \<longleftrightarrow> lk_rx (cl_world c) \<noteq> [] \<and> 2 \<le> lk_cap (cl_world c) \<and>
     (\<forall>(h, d) \<in> set (lk_rx (cl_world c)). \<forall>j < k. h_correlation h \<noteq> cl_next c + of_nat j)"

definition plain_request :: "SlotHeader \<Rightarrow> u8 list \<Rightarrow> bool" where
  "plain_request h d \<longleftrightarrow> length d \<le> DATA_CAPACITY \<and>
     from_raw (h_opcode h) \<notin> {Some Bye, Some Socket, Some Accept}"

fun exchanges :: "(bool \<Rightarrow> 'w xchg) \<Rightarrow> (bool \<times> SlotHeader \<times> u8 list) list \<Rightarrow> 'w \<Rightarrow>
    (ClientError + SlotHeader \<times> u8 list) list" where
  "exchanges x [] c = []"
| "exchanges x ((late, h, d) # qs) c = (let (r, c') = x late h d c in r # exchanges x qs c')"

lemma plain_handle_Some:
  assumes "plain_request h d"
  shows "\<exists>x. daemon_handle be gai (stamp (h\<lparr>h_correlation := cid\<rparr>) d) d dm = Some x"
  using assms
  by (cases "from_raw (h_opcode h)")
    (auto simp: daemon_handle_def plain_request_def daemon_op_def Let_def split: OpCode.splits)

lemma nat_handle_plain:
  assumes "plain_request h d" and "nat_inv (dm_backend dm)"
  obtains rs dm' where
    "daemon_handle (nat_ops os) gai (stamp (h\<lparr>h_correlation := cid\<rparr>) d) d dm = Some (rs, dm')"
    "nat_inv (dm_backend dm')" "rs \<noteq> []" "\<forall>(h, d) \<in> set rs. h_correlation h = cid"
proof -
  obtain rs dm' where h: "daemon_handle (nat_ops os) gai (stamp (h\<lparr>h_correlation := cid\<rparr>) d) d dm = Some (rs, dm')"
    using plain_handle_Some [OF assms(1)] by (metis surj_pair)
  have "from_raw (h_opcode (stamp (h\<lparr>h_correlation := cid\<rparr>) d)) \<noteq> Some Bye"
    using assms(1) by (simp add: plain_request_def)
  from nat.handle_ok [OF assms(2) this h] h that show thesis
    by (auto simp: nat.step_ok_def answers_def)
qed

lemma fresh_correlation:
  assumes "Suc k < 2 ^ 32" and "j < k"
  shows "(c :: u32) \<noteq> c + 1 + of_nat j"
proof
  assume "c = c + 1 + of_nat j"
  then have "(of_nat (Suc j) :: u32) = 0" by (simp add: algebra_simps)
  then have "unat (of_nat (Suc j) :: u32) = 0" by simp
  with assms show False by (simp add: unat_of_nat_u32 del: of_nat_Suc)
qed

lemma stale_step:
  assumes stale: "stale (Suc k) c" and k: "Suc k < 2 ^ 32" and req: "plain_request h d"
    and inv: "nat_inv (the_backend c)"
  shows "\<exists>c'. link_exchange (nat_ops os) gai late h d c = (Inl (E_Protocol ''correlation mismatch''), c') \<and>
    stale k c' \<and> nat_inv (the_backend c')"
proof -
  let ?l = "cl_world c" and ?cid = "cl_next c"
  obtain rs dm' where hd: "daemon_handle (nat_ops os) gai (stamp (h\<lparr>h_correlation := ?cid\<rparr>) d) d (lk_daemon ?l) =
      Some (rs, dm')" and inv': "nat_inv (dm_backend dm')" and rs: "rs \<noteq> []"
    "\<forall>(h, d) \<in> set rs. h_correlation h = ?cid"
    using nat_handle_plain [OF req inv] by metis
  obtain h0 d0 ms where rx: "lk_rx ?l = (h0, d0) # ms"
    using stale by (auto simp: stale_def neq_Nil_conv)
  define new where "new = stamped (take (lk_cap ?l - length (lk_rx ?l)) rs)"
  let ?c' = "\<lparr>cl_next = ?cid + 1, cl_world = ?l\<lparr>lk_daemon := dm', lk_rx := ms @ new\<rparr>\<rparr>"
  have "h_correlation h0 \<noteq> ?cid" using stale rx by (force simp: stale_def)
  then have "link_exchange (nat_ops os) gai late h d c = (Inl (E_Protocol ''correlation mismatch''), ?c')"
    using req hd rx
    by (cases late) (simp_all add: exchange_def link_transport_def plain_request_def Let_def new_def unpoll_append)
  moreover have "ms @ new \<noteq> []"
    using stale rx rs(1) by (auto simp: new_def stale_def)
  moreover have "\<forall>(h, d) \<in> set ms. \<forall>j < k. h_correlation h \<noteq> ?cid + 1 + of_nat j"
  proof safe
    fix h1 d1 j assume "(h1, d1) \<in> set ms" and "j < k" and eq: "h_correlation h1 = ?cid + 1 + of_nat j"
    then have "h_correlation h1 \<noteq> ?cid + of_nat (Suc j)"
      using stale rx unfolding stale_def by fastforce
    with eq show False by (simp add: algebra_simps)
  qed
  moreover have "\<forall>(h, d) \<in> set new. \<forall>j < k. h_correlation h \<noteq> ?cid + 1 + of_nat j"
    using rs(2) fresh_correlation [OF k] by (fastforce simp: new_def dest: in_set_takeD)
  ultimately have "stale k ?c'"
    using stale by (auto simp: stale_def)
  then show ?thesis
    using inv' \<open>link_exchange (nat_ops os) gai late h d c = _\<close> by auto
qed

lemma stale_run:
  "stale (length qs) c \<Longrightarrow> length qs < 2 ^ 32 \<Longrightarrow> nat_inv (the_backend c) \<Longrightarrow>
   \<forall>(late, h, d) \<in> set qs. plain_request h d \<Longrightarrow>
   exchanges (link_exchange (nat_ops os) gai) qs c =
     replicate (length qs) (Inl (E_Protocol ''correlation mismatch''))"
proof (induction qs arbitrary: c)
  case Nil
  then show ?case by simp
next
  case (Cons q qs)
  obtain late h d where q: "q = (late, h, d)" by (cases q)
  have "plain_request h d" using Cons.prems(4) q by simp
  with Cons.prems stale_step [of "length qs" c h d os gai late]
  obtain c' where
    "link_exchange (nat_ops os) gai late h d c = (Inl (E_Protocol ''correlation mismatch''), c')"
    "stale (length qs) c'" "nat_inv (the_backend c')" by auto
  then show ?case using Cons.IH [of c'] Cons.prems q by simp
qed

lemma late_exchange:
  assumes sync: "in_sync c" and req: "plain_request h d" and inv: "nat_inv (the_backend c)"
  shows "\<exists>c'. link_exchange (nat_ops os) gai True h d c = (Inl E_Timeout, c') \<and>
    stale (2 ^ 32 - 2) c' \<and> nat_inv (the_backend c')"
proof -
  let ?l = "cl_world c" and ?cid = "cl_next c"
  obtain rs dm' where hd: "daemon_handle (nat_ops os) gai (stamp (h\<lparr>h_correlation := ?cid\<rparr>) d) d (lk_daemon ?l) =
      Some (rs, dm')" and inv': "nat_inv (dm_backend dm')" and rs: "rs \<noteq> []"
    "\<forall>(h, d) \<in> set rs. h_correlation h = ?cid"
    using nat_handle_plain [OF req inv] by metis
  define new where "new = stamped (take (lk_cap ?l) rs)"
  let ?c' = "\<lparr>cl_next = ?cid + 1, cl_world = ?l\<lparr>lk_daemon := dm', lk_rx := new\<rparr>\<rparr>"
  have "link_exchange (nat_ops os) gai True h d c = (Inl E_Timeout, ?c')"
    using req hd sync
    by (simp add: exchange_def link_transport_def plain_request_def Let_def new_def in_sync_def unpoll_def)
  moreover have "new \<noteq> []" using sync rs(1) by (auto simp: new_def in_sync_def)
  moreover have "\<forall>(h, d) \<in> set new. \<forall>j < 2 ^ 32 - 2. h_correlation h \<noteq> ?cid + 1 + of_nat j"
    using rs(2) fresh_correlation [of "2 ^ 32 - 2"] by (fastforce simp: new_def dest: in_set_takeD)
  ultimately show ?thesis using inv' sync by (auto simp: stale_def in_sync_def)
qed

section \<open>Properties\<close>

text \<open>
  C5. End to end, a socket call of the shim that is in step with the daemon has exactly the
  effect and result of the NAT backend's operation: the request survives encoding and framing, the
  reply (fragments included) is reassembled, a status arrives as that status, and the link is in
  step again afterwards.
\<close>

theorem client_calls_are_backend:
  assumes "in_sync c" and "nat_inv (the_backend c)"
  shows "(\<forall>af ty pt r b'. nat_socket af ty pt (the_backend c) = Some (r, b') \<longrightarrow>
      client_socket (link_exchange (nat_ops os) gai False) af ty pt c = (lift r, after c b')) \<and>
    (\<forall>sid a. wf_addr a \<longrightarrow> client_bind (link_exchange (nat_ops os) gai False) sid a c =
      (let (r, b') = nat_bind os sid a (the_backend c) in (lift r, after c b'))) \<and>
    (\<forall>sid a. wf_addr a \<longrightarrow> client_connect (link_exchange (nat_ops os) gai False) sid a c =
      (let (r, b') = nat_connect os sid a (the_backend c) in (lift r, after c b'))) \<and>
    (\<forall>sid n. client_listen (link_exchange (nat_ops os) gai False) sid n c =
      (let (r, b') = nat_listen os sid n (the_backend c) in (lift r, after c b'))) \<and>
    (\<forall>sid r b'. nat_accept os sid (the_backend c) = Some (r, b') \<longrightarrow>
      client_accept (link_exchange (nat_ops os) gai False) sid c = (lift r, after c b')) \<and>
    (\<forall>sid d. length d \<le> DATA_CAPACITY \<longrightarrow> client_send (link_exchange (nat_ops os) gai False) sid d c =
      (let (r, b') = nat_send os sid d (the_backend c) in (lift r, after c b'))) \<and>
    (\<forall>sid mx. client_recv (link_exchange (nat_ops os) gai False) sid mx c =
      (let (r, b') = nat_recv os sid mx (the_backend c) in (lift r, after c b'))) \<and>
    (\<forall>sid. client_close (link_exchange (nat_ops os) gai False) sid c =
      (let (r, b') = nat_close os sid (the_backend c) in (lift r, after c b'))) \<and>
    (\<forall>sid how. client_shutdown (link_exchange (nat_ops os) gai False) sid how c =
      (let (r, b') = nat_shutdown os sid how (the_backend c) in (lift r, after c b'))) \<and>
    (\<forall>sid. client_getsockname (link_exchange (nat_ops os) gai False) sid c =
      (let (r, b') = nat_get_sock_name os sid (the_backend c) in (lift r, after c b'))) \<and>
    (\<forall>sid. client_getpeername (link_exchange (nat_ops os) gai False) sid c =
      (let (r, b') = nat_get_peer_name sid (the_backend c) in (lift r, after c b'))) \<and>
    (\<forall>sid a d. wf_addr a \<and> length d \<le> DATA_CAPACITY - 28 \<longrightarrow> client_sendto (link_exchange (nat_ops os) gai False) sid a d c =
      (let (r, b') = nat_sendto os sid a d (the_backend c) in (lift r, after c b'))) \<and>
    (\<forall>sid mx. client_recvfrom (link_exchange (nat_ops os) gai False) sid mx c =
      (let (r, b') = nat_recvfrom os sid mx (the_backend c) in (lift r, after c b'))) \<and>
    (\<forall>b'. in_sync (after c b') \<and> the_backend (after c b') = b')"
  using assms nat.call_socket [of c, unfolded nat_ops_sel] nat.call_bind [of c, unfolded nat_ops_sel]
    nat.call_connect [of c, unfolded nat_ops_sel] nat.call_listen [of c, unfolded nat_ops_sel]
    nat.call_accept [of c, unfolded nat_ops_sel] nat.call_send [of c, unfolded nat_ops_sel]
    nat.call_recv [of c, unfolded nat_ops_sel] nat.call_close [of c, unfolded nat_ops_sel]
    nat.call_shutdown [of c, unfolded nat_ops_sel] nat.call_getsockname [of c, unfolded nat_ops_sel]
    nat.call_getpeername [of c, unfolded nat_ops_sel] nat.call_sendto [of c, unfolded nat_ops_sel]
    nat.call_recvfrom [of c, unfolded nat_ops_sel]
  by (intro conjI allI impI) (simp_all add: split_beta Let_def after_sync)

text \<open>
  C7. A single timeout desynchronises the client for good: when the daemon's reply to one call
  arrives after the deadline, that call times out and every later call, up to a wrap of the
  correlation counter, fails with a correlation mismatch although the daemon executes it.
\<close>

theorem timeout_desyncs:
  assumes "in_sync c" and "nat_inv (the_backend c)" and "plain_request h d"
    and "\<forall>(late, h, d) \<in> set qs. plain_request h d" and "length qs < 2 ^ 32 - 2"
  shows "exchanges (link_exchange (nat_ops os) gai) ((True, h, d) # qs) c =
    Inl E_Timeout # replicate (length qs) (Inl (E_Protocol ''correlation mismatch''))"
proof -
  obtain c' where c': "link_exchange (nat_ops os) gai True h d c = (Inl E_Timeout, c')"
    "stale (2 ^ 32 - 2) c'" "nat_inv (the_backend c')"
    using late_exchange [OF assms(1,3,2)] by blast
  have "stale (length qs) c'" using c'(2) assms(5) by (fastforce simp: stale_def)
  from stale_run [OF this _ c'(3) assms(4)] show ?thesis using c'(1) assms(5) by simp
qed

definition demo_client :: "(nat, nat) nat_backend link client" where
  "demo_client = \<lparr>cl_next = 1, cl_world = \<lparr>lk_daemon = demo_daemon, lk_rx = [], lk_cap = 256\<rparr>\<rparr>"

lemma demo_sync: "in_sync demo_client" "nat_inv (the_backend demo_client)"
  by (simp_all add: in_sync_def demo_client_def demo_inv)

theorem client_calls_are_backend_witness:
  "fst (client_send (link_exchange (nat_ops demo_os) (\<lambda>n. None) False) 7 [1, 2] demo_client) =
   Inl (E_Status BadSocket)"
proof -
  have two: "length [1 :: u8, 2] \<le> DATA_CAPACITY" by (simp add: DATA_CAPACITY_eq)
  note all = client_calls_are_backend [OF demo_sync, of demo_os "\<lambda>n. None"]
  from all have "\<forall>sid d. length d \<le> DATA_CAPACITY \<longrightarrow>
    client_send (link_exchange (nat_ops demo_os) (\<lambda>n. None) False) sid d demo_client =
      (let (r, b') = nat_send demo_os sid d (the_backend demo_client) in (lift r, after demo_client b'))"
    by (elim conjE)
  from this [rule_format, OF two, of 7] show ?thesis
    by (simp add: nat_send_def demo_client_def demo_daemon_def nat_new_def lift_def)
qed

theorem timeout_desyncs_witness:
  "exchanges (link_exchange (nat_ops demo_os) (\<lambda>n. None))
     [(True, request Hello 0 zero_args, []), (False, request Hello 0 zero_args, [])] demo_client =
   [Inl E_Timeout, Inl (E_Protocol ''correlation mismatch'')]"
proof -
  have plain: "plain_request (request Hello 0 zero_args) []"
    by (simp add: plain_request_def del: header_fields)
  then have "\<forall>(late, h, d) \<in> set [(False, request Hello 0 zero_args, [])]. plain_request h d" by simp
  from timeout_desyncs [OF demo_sync plain this, of demo_os "\<lambda>n. None"] show ?thesis
    by (simp del: exchanges.simps)
qed

end
