(* ===== verification/Hooks.thy ===== *)
theory Hooks
  imports Client
begin

text \<open>
  The Winsock hooks injected into a container process,
  \<open>crates/psroot-netshim/src/hooks.rs\<close>, with the shim's global state, \<open>state.rs\<close>. A pointer
  argument is the memory behind it (\<open>None\<close> for null), a hook returns the memory it leaves. The
  functions captured by the import-table patcher are parameters over a world \<open>'r\<close>. \<open>c_int\<close> is a
  32-bit word read with \<open>sint\<close>. The client is any exchange function, so the hooks compose with
  the link of \<open>Client\<close>.
\<close>

section \<open>State\<close>

type_synonym c_int = "32 word"
type_synonym winsock = u64

record 'r originals =
  o_socket :: "(c_int \<Rightarrow> c_int \<Rightarrow> c_int \<Rightarrow> 'r \<Rightarrow> winsock \<times> 'r) option"
  o_connect :: "(winsock \<Rightarrow> u8 list option \<Rightarrow> c_int \<Rightarrow> 'r \<Rightarrow> c_int \<times> 'r) option"
  o_send :: "(winsock \<Rightarrow> u8 list option \<Rightarrow> c_int \<Rightarrow> c_int \<Rightarrow> 'r \<Rightarrow> c_int \<times> 'r) option"
  o_recv :: "(winsock \<Rightarrow> u8 list option \<Rightarrow> c_int \<Rightarrow> c_int \<Rightarrow> 'r \<Rightarrow> (c_int \<times> u8 list option) \<times> 'r) option"
  o_closesocket :: "(winsock \<Rightarrow> 'r \<Rightarrow> c_int \<times> 'r) option"
  o_bind :: "(winsock \<Rightarrow> u8 list option \<Rightarrow> c_int \<Rightarrow> 'r \<Rightarrow> c_int \<times> 'r) option"
  o_listen :: "(winsock \<Rightarrow> c_int \<Rightarrow> 'r \<Rightarrow> c_int \<times> 'r) option"
  o_getsockname :: "(winsock \<Rightarrow> u8 list option \<Rightarrow> c_int option \<Rightarrow> 'r \<Rightarrow>
      (c_int \<times> u8 list option \<times> c_int option) \<times> 'r) option"
  o_getpeername :: "(winsock \<Rightarrow> u8 list option \<Rightarrow> c_int option \<Rightarrow> 'r \<Rightarrow>
      (c_int \<times> u8 list option \<times> c_int option) \<times> 'r) option"
  o_sendto :: "(winsock \<Rightarrow> u8 list option \<Rightarrow> c_int \<Rightarrow> c_int \<Rightarrow> u8 list option \<Rightarrow> c_int \<Rightarrow> 'r \<Rightarrow>
      c_int \<times> 'r) option"
  o_recvfrom :: "(winsock \<Rightarrow> u8 list option \<Rightarrow> c_int \<Rightarrow> c_int \<Rightarrow> u8 list option \<Rightarrow> c_int option \<Rightarrow> 'r \<Rightarrow>
      (c_int \<times> u8 list option \<times> u8 list option \<times> c_int option) \<times> 'r) option"

record ('c, 'r) shim_state =
  sm_client :: 'c
  sm_sockets :: "winsock \<rightharpoonup> u32"
  sm_next_fake :: u64
  sm_originals :: "'r originals"

text \<open>What a hook sees: its thread's bypass counter and last error, and the process state.\<close>

record ('c, 'r) thread =
  th_bypass :: u32
  th_error :: c_int
  th_state :: "('c, 'r) shim_state option"
  th_real :: 'r

definition shim_new :: "'c \<Rightarrow> 'r originals \<Rightarrow> ('c, 'r) shim_state" where
  "shim_new c os = \<lparr>sm_client = c, sm_sockets = Map.empty, sm_next_fake = 0x100000000, sm_originals = os\<rparr>"

definition bypass_enter :: "('c, 'r) thread \<Rightarrow> ('c, 'r) thread" where
  "bypass_enter t = t\<lparr>th_bypass := th_bypass t + 1\<rparr>"

definition bypass_drop :: "('c, 'r) thread \<Rightarrow> ('c, 'r) thread" where
  "bypass_drop t = t\<lparr>th_bypass := (if th_bypass t = 0 then 0 else th_bypass t - 1)\<rparr>"

definition is_bypassed :: "('c, 'r) thread \<Rightarrow> bool" where
  "is_bypassed t \<longleftrightarrow> 0 < th_bypass t"

definition alloc_fake :: "u32 \<Rightarrow> ('c, 'r) shim_state \<Rightarrow> winsock \<times> ('c, 'r) shim_state" where
  "alloc_fake virt s = (let v = sm_next_fake s in
     (v, s\<lparr>sm_next_fake := v + 1, sm_sockets := (sm_sockets s)(v \<mapsto> virt)\<rparr>))"

definition shim_lookup :: "('c, 'r) shim_state \<Rightarrow> winsock \<Rightarrow> u32 option" where
  "shim_lookup s k = sm_sockets s k"

definition shim_forget :: "winsock \<Rightarrow> ('c, 'r) shim_state \<Rightarrow> u32 option \<times> ('c, 'r) shim_state" where
  "shim_forget k s = (sm_sockets s k, s\<lparr>sm_sockets := (sm_sockets s)(k := None)\<rparr>)"

section \<open>Error codes and raw addresses\<close>

definition WSAEFAULT :: c_int where "WSAEFAULT = 10014"
definition WSAEINVAL :: c_int where "WSAEINVAL = 10022"
definition WSAEWOULDBLOCK :: c_int where "WSAEWOULDBLOCK = 10035"
definition WSAENOTSOCK :: c_int where "WSAENOTSOCK = 10038"
definition WSAECONNABORTED :: c_int where "WSAECONNABORTED = 10053"
definition WSAECONNRESET :: c_int where "WSAECONNRESET = 10054"
definition WSAENOBUFS :: c_int where "WSAENOBUFS = 10055"
definition WSAENOTCONN :: c_int where "WSAENOTCONN = 10057"
definition WSAECONNREFUSED :: c_int where "WSAECONNREFUSED = 10061"
definition SOCKET_ERROR :: c_int where "SOCKET_ERROR = - 1"
definition INVALID_SOCKET :: winsock where "INVALID_SOCKET = - 1"

definition status_to_wsa :: "ClientError \<Rightarrow> c_int" where
  "status_to_wsa e = (case e of
      E_Status s \<Rightarrow> (case s of
          ConnRefused \<Rightarrow> WSAECONNREFUSED | ConnReset \<Rightarrow> WSAECONNRESET | WouldBlock \<Rightarrow> WSAEWOULDBLOCK
        | BadSocket \<Rightarrow> WSAENOTSOCK | NotSupported \<Rightarrow> WSAEINVAL | AddrInUse \<Rightarrow> 10048
        | AddrNotAvail \<Rightarrow> 10049 | _ \<Rightarrow> WSAECONNABORTED)
    | _ \<Rightarrow> WSAECONNABORTED)"

text \<open>
  \<open>SOCKADDR_IN\<close> is 16 bytes: family in host (little-endian) order, port and address in network
  order, eight zero bytes.
\<close>

definition sockaddr_from_raw :: "u8 list option \<Rightarrow> c_int \<Rightarrow> SockAddrBytes option" where
  "sockaddr_from_raw name len = (case name of None \<Rightarrow> None
     | Some mem \<Rightarrow>
         if sint len < 16 then None
         else if from_le (get_bytes 0 2 mem) \<noteq> (2 :: u16) then None
         else Some (sa_v4 (get_bytes 4 4 mem) (from_le (rev (get_bytes 2 2 mem)))))"

definition raw_sockaddr :: "SockAddrBytes \<Rightarrow> u8 list" where
  "raw_sockaddr a = to_le 2 (2 :: u16) @ rev (to_le 2 (sa_port a)) @ take 4 (sa_addr a) @ replicate 8 0"

type_synonym name_out = "c_int \<times> u8 list option \<times> c_int option"

definition set_error :: "c_int \<Rightarrow> ('c, 'r) thread \<Rightarrow> ('c, 'r) thread" where
  "set_error e t = t\<lparr>th_error := e\<rparr>"

definition write_name :: "SockAddrBytes \<Rightarrow> u8 list option \<Rightarrow> c_int option \<Rightarrow> ('c, 'r) thread \<Rightarrow>
    name_out \<times> ('c, 'r) thread" where
  "write_name a out out_len t = (case (out, out_len) of
      (Some mem, Some l) \<Rightarrow>
        if sint l < 16 then ((SOCKET_ERROR, Some mem, Some 16), set_error WSAEFAULT t)
        else ((0, Some (raw_sockaddr a @ drop 16 mem), Some 16), t)
    | _ \<Rightarrow> ((SOCKET_ERROR, out, out_len), set_error WSAEFAULT t))"

section \<open>Passing through to the original function\<close>

definition call_real :: "('r originals \<Rightarrow> ('r \<Rightarrow> 'a \<times> 'r) option) \<Rightarrow> 'a \<Rightarrow> c_int \<Rightarrow> ('c, 'r) thread \<Rightarrow>
    'a \<times> ('c, 'r) thread" where
  "call_real f dflt err t = (case th_state t of
      None \<Rightarrow> (dflt, set_error err t)
    | Some st \<Rightarrow> (case f (sm_originals st) of
          None \<Rightarrow> (dflt, set_error err t)
        | Some g \<Rightarrow> (let (r, w) = g (th_real t) in (r, t\<lparr>th_real := w\<rparr>))))"

definition real_socket :: "c_int \<Rightarrow> c_int \<Rightarrow> c_int \<Rightarrow> ('c, 'r) thread \<Rightarrow> winsock \<times> ('c, 'r) thread" where
  "real_socket af typ proto =
     call_real (\<lambda>os. map_option (\<lambda>g. g af typ proto) (o_socket os)) INVALID_SOCKET WSAEINVAL"

definition real_connect :: "winsock \<Rightarrow> u8 list option \<Rightarrow> c_int \<Rightarrow> ('c, 'r) thread \<Rightarrow> c_int \<times> ('c, 'r) thread" where
  "real_connect s n l = call_real (\<lambda>os. map_option (\<lambda>g. g s n l) (o_connect os)) SOCKET_ERROR WSAEINVAL"

definition real_bind :: "winsock \<Rightarrow> u8 list option \<Rightarrow> c_int \<Rightarrow> ('c, 'r) thread \<Rightarrow> c_int \<times> ('c, 'r) thread" where
  "real_bind s n l = call_real (\<lambda>os. map_option (\<lambda>g. g s n l) (o_bind os)) SOCKET_ERROR WSAEINVAL"

definition real_listen :: "winsock \<Rightarrow> c_int \<Rightarrow> ('c, 'r) thread \<Rightarrow> c_int \<times> ('c, 'r) thread" where
  "real_listen s b = call_real (\<lambda>os. map_option (\<lambda>g. g s b) (o_listen os)) SOCKET_ERROR WSAEINVAL"

definition real_send :: "winsock \<Rightarrow> u8 list option \<Rightarrow> c_int \<Rightarrow> c_int \<Rightarrow> ('c, 'r) thread \<Rightarrow>
    c_int \<times> ('c, 'r) thread" where
  "real_send s b l f = call_real (\<lambda>os. map_option (\<lambda>g. g s b l f) (o_send os)) SOCKET_ERROR WSAENOTCONN"

definition real_recv :: "winsock \<Rightarrow> u8 list option \<Rightarrow> c_int \<Rightarrow> c_int \<Rightarrow> ('c, 'r) thread \<Rightarrow>
    (c_int \<times> u8 list option) \<times> ('c, 'r) thread" where
  "real_recv s b l f =
     call_real (\<lambda>os. map_option (\<lambda>g. g s b l f) (o_recv os)) (SOCKET_ERROR, b) WSAENOTCONN"

text \<open>Without an original, \<open>closesocket\<close> succeeds and leaves the last error alone.\<close>

definition real_closesocket :: "winsock \<Rightarrow> ('c, 'r) thread \<Rightarrow> c_int \<times> ('c, 'r) thread" where
  "real_closesocket s t =
     call_real (\<lambda>os. map_option (\<lambda>g. g s) (o_closesocket os)) 0 (th_error t) t"

definition real_getsockname :: "winsock \<Rightarrow> u8 list option \<Rightarrow> c_int option \<Rightarrow> ('c, 'r) thread \<Rightarrow>
    name_out \<times> ('c, 'r) thread" where
  "real_getsockname s n l = call_real (\<lambda>os. map_option (\<lambda>g. g s n l) (o_getsockname os))
     (SOCKET_ERROR, n, l) WSAENOTSOCK"

definition real_getpeername :: "winsock \<Rightarrow> u8 list option \<Rightarrow> c_int option \<Rightarrow> ('c, 'r) thread \<Rightarrow>
    name_out \<times> ('c, 'r) thread" where
  "real_getpeername s n l = call_real (\<lambda>os. map_option (\<lambda>g. g s n l) (o_getpeername os))
     (SOCKET_ERROR, n, l) WSAENOTSOCK"

definition real_sendto :: "winsock \<Rightarrow> u8 list option \<Rightarrow> c_int \<Rightarrow> c_int \<Rightarrow> u8 list option \<Rightarrow> c_int \<Rightarrow>
    ('c, 'r) thread \<Rightarrow> c_int \<times> ('c, 'r) thread" where
  "real_sendto s b l f a al =
     call_real (\<lambda>os. map_option (\<lambda>g. g s b l f a al) (o_sendto os)) SOCKET_ERROR WSAENOTCONN"

definition real_recvfrom :: "winsock \<Rightarrow> u8 list option \<Rightarrow> c_int \<Rightarrow> c_int \<Rightarrow> u8 list option \<Rightarrow> c_int option \<Rightarrow>
    ('c, 'r) thread \<Rightarrow> (c_int \<times> u8 list option \<times> u8 list option \<times> c_int option) \<times> ('c, 'r) thread" where
  "real_recvfrom s b l f a al =
     call_real (\<lambda>os. map_option (\<lambda>g. g s b l f a al) (o_recvfrom os)) (SOCKET_ERROR, b, a, al) WSAENOTCONN"

section \<open>The hooks\<close>

text \<open>
  The shape all hooks share: a bypassed thread calls the original; otherwise the guard is held
  while the hook runs, and the original is called when the shim is not installed or, for the
  hooks on a socket, does not know the handle.
\<close>

definition guarded :: "(('c, 'r) thread \<Rightarrow> 'a \<times> ('c, 'r) thread) \<Rightarrow>
    (('c, 'r) shim_state \<Rightarrow> ('c, 'r) thread \<Rightarrow> 'a \<times> ('c, 'r) thread) \<Rightarrow> ('c, 'r) thread \<Rightarrow>
    'a \<times> ('c, 'r) thread" where
  "guarded real body t =
     (if is_bypassed t then real t
      else let t1 = bypass_enter t;
               (r, t2) = (case th_state t1 of None \<Rightarrow> real t1 | Some st \<Rightarrow> body st t1) in
           (r, bypass_drop t2))"

definition on_socket :: "winsock \<Rightarrow> (('c, 'r) thread \<Rightarrow> 'a \<times> ('c, 'r) thread) \<Rightarrow>
    (('c, 'r) shim_state \<Rightarrow> u32 \<Rightarrow> ('c, 'r) thread \<Rightarrow> 'a \<times> ('c, 'r) thread) \<Rightarrow> ('c, 'r) thread \<Rightarrow>
    'a \<times> ('c, 'r) thread" where
  "on_socket s real body = guarded real (\<lambda>st t. case shim_lookup st s of
      None \<Rightarrow> real t | Some virt \<Rightarrow> body st virt t)"

text \<open>A client call from a hook: the client's new state is stored, a failure sets the error.\<close>

definition client_call :: "('c \<Rightarrow> (ClientError + 'a) \<times> 'c) \<Rightarrow> ('c, 'r) shim_state \<Rightarrow> ('c, 'r) thread \<Rightarrow>
    (ClientError + 'a) \<times> ('c, 'r) thread" where
  "client_call f st t = (let (r, c) = f (sm_client st) in
     (r, t\<lparr>th_state := Some (st\<lparr>sm_client := c\<rparr>)\<rparr>))"

definition fail_with :: "'b \<Rightarrow> ClientError \<Rightarrow> ('c, 'r) thread \<Rightarrow> 'b \<times> ('c, 'r) thread" where
  "fail_with b e t = (b, set_error (status_to_wsa e) t)"

definition hook_socket :: "'c xchg \<Rightarrow> c_int \<Rightarrow> c_int \<Rightarrow> c_int \<Rightarrow> ('c, 'r) thread \<Rightarrow> winsock \<times> ('c, 'r) thread" where
  "hook_socket x af typ proto = guarded (real_socket af typ proto) (\<lambda>st t.
     if af \<noteq> 2 \<or> (typ \<noteq> 1 \<and> typ \<noteq> 2) then real_socket af typ proto t
     else case client_call (client_socket x AF_INET_V (ucast typ) proto) st t of
         (Inl e, t') \<Rightarrow> (INVALID_SOCKET, set_error WSAENOBUFS t')
       | (Inr virt, t') \<Rightarrow> (case th_state t' of None \<Rightarrow> (INVALID_SOCKET, t')
           | Some st' \<Rightarrow> (let (h, st'') = alloc_fake virt st' in (h, t'\<lparr>th_state := Some st''\<rparr>))))"

definition hook_connect :: "'c xchg \<Rightarrow> winsock \<Rightarrow> u8 list option \<Rightarrow> c_int \<Rightarrow> ('c, 'r) thread \<Rightarrow>
    c_int \<times> ('c, 'r) thread" where
  "hook_connect x s name len = on_socket s (real_connect s name len) (\<lambda>st virt t.
     case sockaddr_from_raw name len of
       None \<Rightarrow> (SOCKET_ERROR, set_error WSAEFAULT t)
     | Some a \<Rightarrow> (case client_call (client_connect x virt a) st t of
          (Inl e, t') \<Rightarrow> fail_with SOCKET_ERROR e t' | (Inr _, t') \<Rightarrow> (0, t')))"

definition hook_bind :: "'c xchg \<Rightarrow> winsock \<Rightarrow> u8 list option \<Rightarrow> c_int \<Rightarrow> ('c, 'r) thread \<Rightarrow>
    c_int \<times> ('c, 'r) thread" where
  "hook_bind x s name len = on_socket s (real_bind s name len) (\<lambda>st virt t.
     case sockaddr_from_raw name len of
       None \<Rightarrow> (SOCKET_ERROR, set_error WSAEFAULT t)
     | Some a \<Rightarrow> (case client_call (client_bind x virt a) st t of
          (Inl e, t') \<Rightarrow> fail_with SOCKET_ERROR e t' | (Inr _, t') \<Rightarrow> (0, t')))"

definition hook_listen :: "'c xchg \<Rightarrow> winsock \<Rightarrow> c_int \<Rightarrow> ('c, 'r) thread \<Rightarrow> c_int \<times> ('c, 'r) thread" where
  "hook_listen x s backlog = on_socket s (real_listen s backlog) (\<lambda>st virt t.
     case client_call (client_listen x virt (if sint backlog < 0 then 0 else backlog)) st t of
       (Inl e, t') \<Rightarrow> fail_with SOCKET_ERROR e t' | (Inr _, t') \<Rightarrow> (0, t'))"

definition hook_send :: "'c xchg \<Rightarrow> winsock \<Rightarrow> u8 list option \<Rightarrow> c_int \<Rightarrow> c_int \<Rightarrow> ('c, 'r) thread \<Rightarrow>
    c_int \<times> ('c, 'r) thread" where
  "hook_send x s buf len flags = on_socket s (real_send s buf len flags) (\<lambda>st virt t.
     case buf of
       None \<Rightarrow> (SOCKET_ERROR, set_error WSAEFAULT t)
     | Some mem \<Rightarrow>
         if sint len < 0 then (SOCKET_ERROR, set_error WSAEFAULT t)
         else let chunk = take DATA_CAPACITY (take (unat len) mem) in
           (case client_call (client_send x virt chunk) st t of
              (Inl e, t') \<Rightarrow> fail_with SOCKET_ERROR e t' | (Inr n, t') \<Rightarrow> (n, t')))"

text \<open>\<open>copy_nonoverlapping\<close> of the first \<open>min |data| len\<close> bytes; the result is that count.\<close>

definition copy_out :: "u8 list \<Rightarrow> c_int \<Rightarrow> u8 list \<Rightarrow> c_int \<times> u8 list" where
  "copy_out d len mem = (let n = min (length d) (unat len) in (of_nat n, take n d @ drop n mem))"

definition hook_recv :: "'c xchg \<Rightarrow> winsock \<Rightarrow> u8 list option \<Rightarrow> c_int \<Rightarrow> c_int \<Rightarrow> ('c, 'r) thread \<Rightarrow>
    (c_int \<times> u8 list option) \<times> ('c, 'r) thread" where
  "hook_recv x s buf len flags = on_socket s (real_recv s buf len flags) (\<lambda>st virt t.
     case buf of
       None \<Rightarrow> ((SOCKET_ERROR, buf), set_error WSAEFAULT t)
     | Some mem \<Rightarrow>
         if sint len \<le> 0 then ((SOCKET_ERROR, buf), set_error WSAEFAULT t)
         else (case client_call (client_recv x virt len) st t of
            (Inl e, t') \<Rightarrow> fail_with (SOCKET_ERROR, buf) e t'
          | (Inr d, t') \<Rightarrow> (let (n, mem') = copy_out d len mem in ((n, Some mem'), t'))))"

text \<open>\<open>closesocket\<close> forgets the handle before it closes, and ignores a failing close.\<close>

definition hook_closesocket :: "'c xchg \<Rightarrow> winsock \<Rightarrow> ('c, 'r) thread \<Rightarrow> c_int \<times> ('c, 'r) thread" where
  "hook_closesocket x s = guarded (real_closesocket s) (\<lambda>st t.
     case shim_forget s st of
       (None, st') \<Rightarrow> real_closesocket s (t\<lparr>th_state := Some st'\<rparr>)
     | (Some virt, st') \<Rightarrow> (case client_call (client_close x virt) st' t of (r, t') \<Rightarrow> (0, t')))"

definition hook_getsockname :: "'c xchg \<Rightarrow> winsock \<Rightarrow> u8 list option \<Rightarrow> c_int option \<Rightarrow> ('c, 'r) thread \<Rightarrow>
    name_out \<times> ('c, 'r) thread" where
  "hook_getsockname x s name len = on_socket s (real_getsockname s name len) (\<lambda>st virt t.
     case client_call (client_getsockname x virt) st t of
       (Inl e, t') \<Rightarrow> fail_with (SOCKET_ERROR, name, len) e t' | (Inr a, t') \<Rightarrow> write_name a name len t')"

definition hook_getpeername :: "'c xchg \<Rightarrow> winsock \<Rightarrow> u8 list option \<Rightarrow> c_int option \<Rightarrow> ('c, 'r) thread \<Rightarrow>
    name_out \<times> ('c, 'r) thread" where
  "hook_getpeername x s name len = on_socket s (real_getpeername s name len) (\<lambda>st virt t.
     case client_call (client_getpeername x virt) st t of
       (Inl e, t') \<Rightarrow> fail_with (SOCKET_ERROR, name, len) e t' | (Inr a, t') \<Rightarrow> write_name a name len t')"

definition hook_sendto :: "'c xchg \<Rightarrow> winsock \<Rightarrow> u8 list option \<Rightarrow> c_int \<Rightarrow> c_int \<Rightarrow> u8 list option \<Rightarrow> c_int \<Rightarrow>
    ('c, 'r) thread \<Rightarrow> c_int \<times> ('c, 'r) thread" where
  "hook_sendto x s buf len flags dest destlen = on_socket s (real_sendto s buf len flags dest destlen)
     (\<lambda>st virt t. case buf of
       None \<Rightarrow> (SOCKET_ERROR, set_error WSAEFAULT t)
     | Some mem \<Rightarrow>
         if sint len < 0 then (SOCKET_ERROR, set_error WSAEFAULT t)
         else (case sockaddr_from_raw dest destlen of
            None \<Rightarrow> (SOCKET_ERROR, set_error WSAEFAULT t)
          | Some a \<Rightarrow> let chunk = take (DATA_CAPACITY - 28) (take (unat len) mem) in
              (case client_call (client_sendto x virt a chunk) st t of
                 (Inl e, t') \<Rightarrow> fail_with SOCKET_ERROR e t' | (Inr n, t') \<Rightarrow> (n, t'))))"

definition hook_recvfrom :: "'c xchg \<Rightarrow> winsock \<Rightarrow> u8 list option \<Rightarrow> c_int \<Rightarrow> c_int \<Rightarrow> u8 list option \<Rightarrow>
    c_int option \<Rightarrow> ('c, 'r) thread \<Rightarrow>
    (c_int \<times> u8 list option \<times> u8 list option \<times> c_int option) \<times> ('c, 'r) thread" where
  "hook_recvfrom x s buf len flags src srclen = on_socket s (real_recvfrom s buf len flags src srclen)
     (\<lambda>st virt t. case buf of
       None \<Rightarrow> ((SOCKET_ERROR, buf, src, srclen), set_error WSAEFAULT t)
     | Some mem \<Rightarrow>
         if sint len \<le> 0 then ((SOCKET_ERROR, buf, src, srclen), set_error WSAEFAULT t)
         else (case client_call (client_recvfrom x virt len) st t of
            (Inl e, t') \<Rightarrow> fail_with (SOCKET_ERROR, buf, src, srclen) e t'
          | (Inr (d, peer), t') \<Rightarrow> (let (n, mem') = copy_out d len mem in
              if src = None \<or> srclen = None then ((n, Some mem', src, srclen), t')
              else (case write_name peer src srclen t' of
                 ((ignored, src', srclen'), t'') \<Rightarrow> ((n, Some mem', src', srclen'), t'')))))"

section \<open>Lemmas\<close>

lemmas hook_defs = hook_socket_def hook_connect_def hook_bind_def hook_listen_def hook_send_def
  hook_recv_def hook_closesocket_def hook_getsockname_def hook_getpeername_def hook_sendto_def
  hook_recvfrom_def

lemma set_error_simps [simp]:
  "th_bypass (set_error e t) = th_bypass t" "th_state (set_error e t) = th_state t"
  "th_real (set_error e t) = th_real t" "th_error (set_error e t) = e"
  by (simp_all add: set_error_def)

lemma fail_with_simps [simp]:
  "fst (fail_with b e t) = b" "snd (fail_with b e t) = set_error (status_to_wsa e) t"
  by (simp_all add: fail_with_def)

lemma call_real_keeps [simp]:
  "th_bypass (snd (call_real f d e t)) = th_bypass t" "th_state (snd (call_real f d e t)) = th_state t"
  by (simp_all add: call_real_def Let_def split_beta split: option.split)

lemma real_keeps [simp]:
  "th_bypass (snd (real_socket af ty pt t)) = th_bypass t"
  "th_bypass (snd (real_connect s n l t)) = th_bypass t"
  "th_bypass (snd (real_bind s n l t)) = th_bypass t"
  "th_bypass (snd (real_listen s b t)) = th_bypass t"
  "th_bypass (snd (real_send s buf len fl t)) = th_bypass t"
  "th_bypass (snd (real_recv s buf len fl t)) = th_bypass t"
  "th_bypass (snd (real_closesocket s t)) = th_bypass t"
  "th_bypass (snd (real_getsockname s n ol t)) = th_bypass t"
  "th_bypass (snd (real_getpeername s n ol t)) = th_bypass t"
  "th_bypass (snd (real_sendto s buf len fl n l t)) = th_bypass t"
  "th_bypass (snd (real_recvfrom s buf len fl n ol t)) = th_bypass t"
  by (simp_all add: real_socket_def real_connect_def real_bind_def real_listen_def real_send_def
      real_recv_def real_closesocket_def real_getsockname_def real_getpeername_def real_sendto_def
      real_recvfrom_def)

lemma real_closesocket_state [simp]: "th_state (snd (real_closesocket s t)) = th_state t"
  by (simp add: real_closesocket_def)

lemma write_name_keeps [simp]:
  "th_bypass (snd (write_name a n l t)) = th_bypass t" "th_state (snd (write_name a n l t)) = th_state t"
  by (simp_all add: write_name_def split: option.split)

lemma client_call_eq: "client_call f st t =
    (fst (f (sm_client st)), t\<lparr>th_state := Some (st\<lparr>sm_client := snd (f (sm_client st))\<rparr>)\<rparr>)"
  by (simp add: client_call_def split_beta)

lemma guarded_keeps:
  assumes "\<And>t. th_bypass (snd (real t)) = th_bypass t"
    and "\<And>st t. th_bypass (snd (body st t)) = th_bypass t"
  shows "th_bypass (snd (guarded real body t)) = th_bypass t"
  using assms
  by (auto simp: guarded_def Let_def is_bypassed_def bypass_enter_def bypass_drop_def split_beta
      word_gt_0 split: option.split)

lemma on_socket_keeps:
  assumes "\<And>t. th_bypass (snd (real t)) = th_bypass t"
    and "\<And>st virt t. th_bypass (snd (body st virt t)) = th_bypass t"
  shows "th_bypass (snd (on_socket s real body t)) = th_bypass t"
  unfolding on_socket_def using assms by (intro guarded_keeps) (auto split: option.split)

lemma guarded_installed:
  assumes "th_bypass t = 0" and "th_state t = Some st"
  shows "guarded real body t = (let (r, t2) = body st (t\<lparr>th_bypass := 1\<rparr>) in (r, bypass_drop t2))"
  using assms by (simp add: guarded_def Let_def is_bypassed_def bypass_enter_def)

lemma on_socket_known:
  assumes "th_bypass t = 0" and "th_state t = Some st" and "shim_lookup st s = Some virt"
  shows "on_socket s real body t =
    (let (r, t2) = body st virt (t\<lparr>th_bypass := 1\<rparr>) in (r, bypass_drop t2))"
  using assms by (simp add: on_socket_def guarded_installed)

lemma sockaddr_raw_write:
  assumes "length (sa_addr a) = 16" and "16 \<le> sint len"
  shows "sockaddr_from_raw (Some (raw_sockaddr a @ mem)) len = Some (sa_v4 (take 4 (sa_addr a)) (sa_port a))"
proof -
  have "get_bytes 0 2 (raw_sockaddr a @ mem) = to_le 2 (2 :: u16)"
    "get_bytes 2 2 (raw_sockaddr a @ mem) = rev (to_le 2 (sa_port a))"
    "get_bytes 4 4 (raw_sockaddr a @ mem) = take 4 (sa_addr a)"
    using assms(1) by (simp_all add: raw_sockaddr_def get_bytes_def)
  then show ?thesis using assms(2) by (simp add: sockaddr_from_raw_def)
qed

section \<open>Handles\<close>

definition fake_inv :: "('c, 'r) shim_state \<Rightarrow> bool" where
  "fake_inv st \<longleftrightarrow> (\<forall>k \<in> dom (sm_sockets st). 0x100000000 \<le> k \<and> k < sm_next_fake st) \<and>
     0x100000000 \<le> sm_next_fake st"

lemma fake_inv_new [simp]: "fake_inv (shim_new c os)"
  by (simp add: fake_inv_def shim_new_def)

lemma alloc_fake_ok:
  assumes inv: "fake_inv st" and room: "sm_next_fake st \<noteq> - 1" and al: "alloc_fake virt st = (h, st')"
  shows "fake_inv st'" and "shim_lookup st h = None" and "sm_sockets st' = (sm_sockets st)(h \<mapsto> virt)"
proof -
  have h: "h = sm_next_fake st"
    and st': "st' = st\<lparr>sm_next_fake := h + 1, sm_sockets := (sm_sockets st)(h \<mapsto> virt)\<rparr>"
    using al by (auto simp: alloc_fake_def Let_def)
  show "shim_lookup st h = None"
    using inv h by (fastforce simp: fake_inv_def shim_lookup_def)
  show "sm_sockets st' = (sm_sockets st)(h \<mapsto> virt)" by (simp add: st')
  have "k < h \<Longrightarrow> k < h + 1" for k
    using word_less_succ_iff [of h k] room h by simp
  moreover have "h < h + 1" using word_less_succ [of h] room h by simp
  ultimately show "fake_inv st'"
    using inv h word_less_succ_iff [of h "0x100000000"] room
    by (auto simp: fake_inv_def st')
qed

section \<open>The guard\<close>

lemma hooks_keep_bypass:
  "th_bypass (snd (hook_socket x af ty pt t)) = th_bypass t"
  "th_bypass (snd (hook_connect x s n l t)) = th_bypass t"
  "th_bypass (snd (hook_bind x s n l t)) = th_bypass t"
  "th_bypass (snd (hook_listen x s bl t)) = th_bypass t"
  "th_bypass (snd (hook_send x s buf l fl t)) = th_bypass t"
  "th_bypass (snd (hook_recv x s buf l fl t)) = th_bypass t"
  "th_bypass (snd (hook_closesocket x s t)) = th_bypass t"
  "th_bypass (snd (hook_getsockname x s n ol t)) = th_bypass t"
  "th_bypass (snd (hook_getpeername x s n ol t)) = th_bypass t"
  "th_bypass (snd (hook_sendto x s buf l fl n nl t)) = th_bypass t"
  "th_bypass (snd (hook_recvfrom x s buf l fl n ol t)) = th_bypass t"
  unfolding hook_defs
  by ((rule guarded_keeps on_socket_keeps;
      simp add: client_call_eq Let_def split_beta split: option.split sum.split prod.split))+

section \<open>A hook over the link\<close>

text \<open>The thread after a client call left the client in \<open>c\<close>, back outside the guard.\<close>

definition left :: "('c, 'r) thread \<Rightarrow> ('c, 'r) shim_state \<Rightarrow> 'c \<Rightarrow> ('c, 'r) thread" where
  "left t st c = t\<lparr>th_state := Some (st\<lparr>sm_client := c\<rparr>)\<rparr>"

section \<open>Properties\<close>

text \<open>
  C10. Every hook releases the bypass guard it took, on every path, and a thread that is inside
  the guard (the daemon's own thread, or a hook) reaches the original function without touching
  the shim: no recursion through the netstack.
\<close>

theorem hooks_bypass:
  "th_bypass (snd (hook_socket x af ty pt t)) = th_bypass t \<and>
   th_bypass (snd (hook_connect x s n l t)) = th_bypass t \<and>
   th_bypass (snd (hook_bind x s n l t)) = th_bypass t \<and>
   th_bypass (snd (hook_listen x s bl t)) = th_bypass t \<and>
   th_bypass (snd (hook_send x s buf l fl t)) = th_bypass t \<and>
   th_bypass (snd (hook_recv x s buf l fl t)) = th_bypass t \<and>
   th_bypass (snd (hook_closesocket x s t)) = th_bypass t \<and>
   th_bypass (snd (hook_getsockname x s n ol t)) = th_bypass t \<and>
   th_bypass (snd (hook_getpeername x s n ol t)) = th_bypass t \<and>
   th_bypass (snd (hook_sendto x s buf l fl n nl t)) = th_bypass t \<and>
   th_bypass (snd (hook_recvfrom x s buf l fl n ol t)) = th_bypass t \<and>
   (is_bypassed t \<longrightarrow>
     hook_socket x af ty pt t = real_socket af ty pt t \<and> hook_connect x s n l t = real_connect s n l t \<and>
     hook_bind x s n l t = real_bind s n l t \<and> hook_listen x s bl t = real_listen s bl t \<and>
     hook_send x s buf l fl t = real_send s buf l fl t \<and> hook_recv x s buf l fl t = real_recv s buf l fl t \<and>
     hook_closesocket x s t = real_closesocket s t \<and>
     hook_getsockname x s n ol t = real_getsockname s n ol t \<and>
     hook_getpeername x s n ol t = real_getpeername s n ol t \<and>
     hook_sendto x s buf l fl n nl t = real_sendto s buf l fl n nl t \<and>
     hook_recvfrom x s buf l fl n ol t = real_recvfrom s buf l fl n ol t)"
  unfolding hooks_keep_bypass by (simp add: hook_defs on_socket_def guarded_def)

text \<open>
  A socket's handle: \<open>socket\<close> hands out a handle that was not in use and maps it to the
  daemon's id, leaving all others; \<open>closesocket\<close> removes exactly that handle, even when the
  daemon's close fails; handles stay above 2^32 and below the counter.
\<close>

theorem hook_socket_lifecycle:
  assumes "th_bypass t = 0" and "th_state t = Some st" and "fake_inv st" and "sm_next_fake st \<noteq> - 1"
    and "client_socket x AF_INET_V (ucast ty) pt (sm_client st) = (Inr virt, c)"
    and "ty = 1 \<or> ty = 2"
  shows "\<exists>h t' st' t'' st''. hook_socket x 2 ty pt t = (h, t') \<and> th_state t' = Some st' \<and> fake_inv st' \<and>
    shim_lookup st h = None \<and> sm_sockets st' = (sm_sockets st)(h \<mapsto> virt) \<and>
    hook_closesocket x h t' = (0, t'') \<and> th_state t'' = Some st'' \<and> sm_sockets st'' = sm_sockets st"
proof -
  let ?st = "st\<lparr>sm_client := c\<rparr>"
  obtain h st' where al: "alloc_fake virt ?st = (h, st')" by fastforce
  have "fake_inv ?st" "sm_next_fake ?st \<noteq> - 1" using assms(3,4) by (simp_all add: fake_inv_def)
  note ok = alloc_fake_ok [OF this al]
  let ?t = "t\<lparr>th_state := Some st'\<rparr>"
  have "hook_socket x 2 ty pt t = (h, ?t)"
    using assms al
    by (auto simp: hook_socket_def guarded_installed client_call_eq bypass_drop_def Let_def)
  moreover have fresh: "sm_sockets st h = None" using ok(2) by (simp add: shim_lookup_def)
  have "\<exists>t'' st''. hook_closesocket x h ?t = (0, t'') \<and> th_state t'' = Some st'' \<and>
      sm_sockets st'' = sm_sockets st"
    using assms(1) ok(3) fresh
    by (simp add: hook_closesocket_def guarded_installed client_call_eq bypass_drop_def Let_def
        shim_forget_def split_beta fun_upd_idem)
  ultimately show ?thesis using ok by (fastforce simp: shim_lookup_def)
qed


text \<open>
  C8. From the application's call to the host socket: on a handle of an in-step shim, \<open>connect\<close>
  with a well-formed IPv4 address performs the backend's connect to that address, \<open>send\<close> writes
  the first slot's worth of the buffer and returns the backend's count, and a failure sets
  the Winsock code of the backend's status.
\<close>

theorem hooks_reach_backend:
  assumes "th_bypass t = 0" and "th_state t = Some st" and "shim_lookup st s = Some virt"
    and "in_sync (sm_client st)" and "nat_inv (the_backend (sm_client st))"
    and "sockaddr_from_raw name nl = Some a" and "0 \<le> sint len"
  shows "hook_connect (link_exchange (nat_ops os) gai False) s name nl t =
      (let (r, b') = nat_connect os virt a (the_backend (sm_client st));
           t' = left t st (after (sm_client st) b') in
       case r of Inl e \<Rightarrow> (SOCKET_ERROR, set_error (status_to_wsa (E_Status e)) t') | Inr _ \<Rightarrow> (0, t')) \<and>
    hook_send (link_exchange (nat_ops os) gai False) s (Some mem) len fl t =
      (let (r, b') = nat_send os virt (take DATA_CAPACITY (take (unat len) mem)) (the_backend (sm_client st));
           t' = left t st (after (sm_client st) b') in
       case r of Inl e \<Rightarrow> (SOCKET_ERROR, set_error (status_to_wsa (E_Status e)) t') | Inr n \<Rightarrow> (n, t'))"
proof
  let ?x = "link_exchange (nat_ops os) gai False" and ?c = "sm_client st"
  let ?chunk = "take DATA_CAPACITY (take (unat len) mem)"
  have wf: "wf_addr a"
    using assms(6) by (auto simp: sockaddr_from_raw_def split: option.splits if_splits)
  obtain r b' where rb: "nat_connect os virt a (the_backend ?c) = (r, b')" by fastforce
  have call: "client_connect ?x virt a ?c = (lift r, after ?c b')"
    using nat.call_connect [OF assms(4,5), unfolded nat_ops_sel] rb wf by blast
  show "hook_connect ?x s name nl t =
      (let (r, b') = nat_connect os virt a (the_backend ?c); t' = left t st (after ?c b') in
       case r of Inl e \<Rightarrow> (SOCKET_ERROR, set_error (status_to_wsa (E_Status e)) t') | Inr _ \<Rightarrow> (0, t'))"
    using assms(1,6)
    by (cases r) (simp_all add: hook_connect_def on_socket_known [OF assms(1-3)] client_call_eq call rb
        Let_def lift_def left_def bypass_drop_def fail_with_def set_error_def)
  obtain k b'' where kb: "nat_send os virt ?chunk (the_backend ?c) = (k, b'')" by fastforce
  have call': "client_send ?x virt ?chunk ?c = (lift k, after ?c b'')"
    using nat.call_send [OF assms(4,5), unfolded nat_ops_sel] kb by simp
  show "hook_send ?x s (Some mem) len fl t =
      (let (r, b') = nat_send os virt ?chunk (the_backend ?c); t' = left t st (after ?c b') in
       case r of Inl e \<Rightarrow> (SOCKET_ERROR, set_error (status_to_wsa (E_Status e)) t') | Inr n \<Rightarrow> (n, t'))"
    using assms(1,7)
    by (cases k) (simp_all add: hook_send_def on_socket_known [OF assms(1-3)] client_call_eq call' kb
        Let_def lift_def left_def bypass_drop_def fail_with_def set_error_def del: take_take)
qed

section \<open>Witnesses\<close>

definition no_originals :: "unit originals" where
  "no_originals = \<lparr>o_socket = None, o_connect = None, o_send = None, o_recv = None,
     o_closesocket = None, o_bind = None, o_listen = None, o_getsockname = None,
     o_getpeername = None, o_sendto = None, o_recvfrom = None\<rparr>"

definition demo_thread :: "((nat, nat) nat_backend link client, unit) thread" where
  "demo_thread = \<lparr>th_bypass = 0, th_error = 0,
     th_state = Some ((shim_new demo_client no_originals)\<lparr>sm_sockets := [0x100000000 \<mapsto> 7],
       sm_next_fake := 0x100000001\<rparr>), th_real = ()\<rparr>"

abbreviation demo_xchg :: "(nat, nat) nat_backend link client xchg" where
  "demo_xchg \<equiv> link_exchange (nat_ops demo_os) (\<lambda>n. None) False"

definition demo_shim :: "((nat, nat) nat_backend link client, unit) shim_state" where
  "demo_shim = the (th_state demo_thread)"

lemma demo_thread_simps:
  "th_bypass demo_thread = 0" "th_state demo_thread = Some demo_shim"
  "shim_lookup demo_shim 0x100000000 = Some 7" "sm_client demo_shim = demo_client"
  "fake_inv demo_shim" "sm_next_fake demo_shim \<noteq> - 1"
  by (simp_all add: demo_thread_def demo_shim_def shim_lookup_def shim_new_def fake_inv_def)

theorem hooks_bypass_witness:
  "hook_listen demo_xchg 5 1 (demo_thread\<lparr>th_bypass := 1\<rparr>) =
   (SOCKET_ERROR, set_error WSAEINVAL (demo_thread\<lparr>th_bypass := 1\<rparr>))"
proof -
  have "is_bypassed (demo_thread\<lparr>th_bypass := 1\<rparr>)" by (simp add: is_bypassed_def)
  with hooks_bypass [where x = demo_xchg and s = 5 and bl = 1 and t = "demo_thread\<lparr>th_bypass := 1\<rparr>"]
  have "hook_listen demo_xchg 5 1 (demo_thread\<lparr>th_bypass := 1\<rparr>) =
      real_listen 5 1 (demo_thread\<lparr>th_bypass := 1\<rparr>)" by blast
  then show ?thesis
    by (simp add: real_listen_def call_real_def demo_thread_def shim_new_def no_originals_def)
qed

lemma demo_client_socket:
  "\<exists>c. client_socket demo_xchg AF_INET_V (ucast (1 :: c_int)) 6 demo_client = (Inr 1, c)"
proof -
  have "\<exists>b'. nat_socket AF_INET_V 1 6 (the_backend demo_client) = Some (Inr 1, b')"
    by (simp add: nat_socket_def demo_client_def demo_daemon_def nat_new_def table_insert_def table_new_def)
  then show ?thesis
    using nat.call_socket [OF demo_sync, unfolded nat_ops_sel, of AF_INET_V 1 6]
    by (fastforce simp: lift_def)
qed

theorem hook_socket_lifecycle_witness:
  "\<exists>h t' st'. hook_socket demo_xchg 2 1 6 demo_thread = (h, t') \<and> th_state t' = Some st' \<and>
    shim_lookup st' h = Some 1 \<and> shim_lookup st' 0x100000000 = Some 7"
proof -
  obtain c where "client_socket demo_xchg AF_INET_V (ucast (1 :: c_int)) 6 (sm_client demo_shim) = (Inr 1, c)"
    using demo_client_socket demo_thread_simps(4) by auto
  from hook_socket_lifecycle [OF demo_thread_simps(1,2,5,6) this] demo_thread_simps(3)
  show ?thesis by (fastforce simp: shim_lookup_def)
qed


theorem hooks_reach_backend_witness:
  "hook_send demo_xchg 0x100000000 (Some [1, 2]) 2 0 demo_thread =
   (SOCKET_ERROR, set_error WSAENOTSOCK (left demo_thread demo_shim (after demo_client (the_backend demo_client))))"
proof -
  have sync: "in_sync (sm_client demo_shim)" "nat_inv (the_backend (sm_client demo_shim))"
    using demo_sync by (simp_all add: demo_thread_simps)
  have name: "sockaddr_from_raw (Some (raw_sockaddr (sa_v4 [10, 88, 0, 7] 80) @ [])) 16 =
      Some (sa_v4 (take 4 (sa_addr (sa_v4 [10, 88, 0, 7] 80))) (sa_port (sa_v4 [10, 88, 0, 7] 80)))"
    by (rule sockaddr_raw_write) (use wf_sa_v4 [of "[10, 88, 0, 7]" 80] in \<open>simp_all add: wf_addr_def\<close>)
  have "0 \<le> sint (2 :: c_int)" by simp
  from hooks_reach_backend [OF demo_thread_simps(1-3) sync name this, of demo_os "\<lambda>n. None" "[1, 2]" 0]
  show ?thesis
    by (simp add: demo_thread_simps nat_send_def demo_client_def demo_daemon_def nat_new_def
        status_to_wsa_def DATA_CAPACITY_eq)
qed

end
