(* ===== verification/Procshim.thy ===== *)
theory Procshim
  imports Prelude
begin

text \<open>
  Process visibility, \<open>crates/psroot-procshim/src/hooks.rs\<close>: \<open>NtQuerySystemInformation\<close> results
  are filtered to the container's process tree, \<open>NtOpenProcess\<close> is denied outside it. The list
  the kernel returns is the byte buffer itself, with entries chained by offset; reading past the
  buffer, undefined in the code, is \<open>None\<close>. The kernel calls are parameters over a world.
\<close>

section \<open>The process list in memory\<close>

definition STATUS_SUCCESS :: u32 where "STATUS_SUCCESS = 0"
definition STATUS_INFO_LENGTH_MISMATCH :: u32 where "STATUS_INFO_LENGTH_MISMATCH = 0xC0000004"
definition STATUS_ACCESS_DENIED :: u32 where "STATUS_ACCESS_DENIED = 0xC0000022"
definition SYSTEM_PROCESS_INFORMATION :: u32 where "SYSTEM_PROCESS_INFORMATION = 5"
definition SYSTEM_EXTENDED_PROCESS_INFORMATION :: u32 where "SYSTEM_EXTENDED_PROCESS_INFORMATION = 57"
definition SYSTEM_FULL_PROCESS_INFORMATION :: u32 where "SYSTEM_FULL_PROCESS_INFORMATION = 148"
definition OFFSET_NEXT_ENTRY :: nat where [layout]: "OFFSET_NEXT_ENTRY = 0x00"
definition OFFSET_UNIQUE_PID :: nat where [layout]: "OFFSET_UNIQUE_PID = 0x50"
definition OFFSET_INHERITED_PID :: nat where [layout]: "OFFSET_INHERITED_PID = 0x58"

text \<open>The part of an entry the code touches ends at offset 0x60.\<close>

definition ENTRY_HEAD :: nat where [layout]: "ENTRY_HEAD = 0x60"

definition read_u32 :: "u8 list \<Rightarrow> nat \<Rightarrow> nat \<Rightarrow> u32" where
  "read_u32 mem p off = from_le (get_bytes (p + off) 4 mem)"

definition read_usize :: "u8 list \<Rightarrow> nat \<Rightarrow> nat \<Rightarrow> u64" where
  "read_usize mem p off = from_le (get_bytes (p + off) 8 mem)"

definition write_u32 :: "nat \<Rightarrow> nat \<Rightarrow> u32 \<Rightarrow> u8 list \<Rightarrow> u8 list" where
  "write_u32 p off v mem = put_bytes (p + off) (to_le 4 v) mem"

definition write_usize :: "nat \<Rightarrow> nat \<Rightarrow> u64 \<Rightarrow> u8 list \<Rightarrow> u8 list" where
  "write_usize p off v mem = put_bytes (p + off) (to_le 8 v) mem"

abbreviation next_at :: "u8 list \<Rightarrow> nat \<Rightarrow> u32" where
  "next_at mem p \<equiv> read_u32 mem p OFFSET_NEXT_ENTRY"

abbreviation pid_at :: "u8 list \<Rightarrow> nat \<Rightarrow> u32" where
  "pid_at mem p \<equiv> ucast (read_usize mem p OFFSET_UNIQUE_PID)"

abbreviation ppid_at :: "u8 list \<Rightarrow> nat \<Rightarrow> u32" where
  "ppid_at mem p \<equiv> ucast (read_usize mem p OFFSET_INHERITED_PID)"

text \<open>The loop that collects the (PID, parent PID) pairs.\<close>

function entries_from :: "u8 list \<Rightarrow> nat \<Rightarrow> (u32 \<times> u32) list option" where
  "entries_from mem off =
     (if length mem < off + ENTRY_HEAD then None
      else let e = (pid_at mem off, ppid_at mem off); next = next_at mem off in
        if next = 0 then Some [e]
        else map_option ((#) e) (entries_from mem (off + unat next)))"
  by auto
termination
  by (relation "measure (\<lambda>(mem, off). length mem - off)") (auto simp: layout unat_gt_0 intro!: diff_less_mono2)

declare entries_from.simps [simp del]

section \<open>The allowed set\<close>

definition add_children :: "(u32 \<times> u32) list \<Rightarrow> u32 set \<Rightarrow> u32 set" where
  "add_children entries allowed =
     fold (\<lambda>(pid, ppid) a. if ppid \<in> a \<and> pid \<notin> a then insert pid a else a) entries allowed"

lemma add_children_mono: "allowed \<subseteq> add_children entries allowed"
  unfolding add_children_def
  by (induction entries arbitrary: allowed) (auto, blast+)

function closure_loop :: "(u32 \<times> u32) list \<Rightarrow> u32 set \<Rightarrow> u32 set" where
  "closure_loop entries allowed =
     (let a = add_children entries allowed in
      if card a = card allowed then a else closure_loop entries a)"
  by auto
termination
proof (relation "measure (\<lambda>(entries, allowed). card (UNIV - allowed))")
  fix entries and allowed a :: "u32 set"
  assume a: "a = add_children entries allowed" and ne: "card a \<noteq> card allowed"
  then have "allowed \<subset> a" using add_children_mono [of allowed entries] by blast
  then show "((entries, a), (entries, allowed)) \<in> measure (\<lambda>(entries, allowed). card (UNIV - allowed))"
    by (auto intro!: psubset_card_mono)
qed simp

declare closure_loop.simps [simp del]

definition build_allowed_pids :: "u8 list \<Rightarrow> u32 \<Rightarrow> u32 set option" where
  "build_allowed_pids mem root =
     map_option (\<lambda>entries. insert 0 (closure_loop entries {root})) (entries_from mem 0)"

section \<open>Unlinking\<close>

text \<open>\<open>prev\<close> is the last entry kept, if any. \<open>n\<close> is the length of the buffer.\<close>

function filter_loop :: "nat \<Rightarrow> u32 set \<Rightarrow> nat \<Rightarrow> nat option \<Rightarrow> u8 list \<Rightarrow> u8 list option" where
  "filter_loop n allowed off prev mem =
     (if n < off + ENTRY_HEAD then None
      else let pid = pid_at mem off; next = next_at mem off;
        (mem', prev') =
          (if pid \<notin> allowed then
             (case prev of
                Some p \<Rightarrow>
                  (if next = 0 then write_u32 p OFFSET_NEXT_ENTRY 0 mem
                   else write_u32 p OFFSET_NEXT_ENTRY (next_at mem p + next) mem, prev)
              | None \<Rightarrow> (write_usize off OFFSET_UNIQUE_PID 0 mem, prev))
           else (mem, Some off)) in
        if next = 0 then Some mem' else filter_loop n allowed (off + unat next) prev' mem')"
  by pat_completeness auto
termination
  by (relation "measure (\<lambda>(n, allowed, off, prev, mem). n - off)") (auto simp: layout unat_gt_0 intro!: diff_less_mono2)

declare filter_loop.simps [simp del]

definition filter_process_list :: "u8 list \<Rightarrow> u32 set \<Rightarrow> u8 list option" where
  "filter_process_list mem allowed = filter_loop (length mem) allowed 0 None mem"

section \<open>The hooks\<close>

record proc_thread =
  pt_bypass :: u32
  pt_root :: "u32 option"      \<comment> \<open>\<open>container_root_pid\<close> of the installed state\<close>

definition proc_bypassed :: "proc_thread \<Rightarrow> bool" where
  "proc_bypassed t \<longleftrightarrow> 0 < pt_bypass t"

text \<open>
  \<open>query\<close> is the captured \<open>NtQuerySystemInformation\<close>: class, buffer (\<open>None\<close> for null), its length;
  it returns the status, the buffer, and the returned length. \<open>get_real_query\<close> panics when the
  shim is not installed.
\<close>

type_synonym 'w query = "u32 \<Rightarrow> u8 list option \<Rightarrow> u32 \<Rightarrow> 'w \<Rightarrow> (u32 \<times> u8 list option \<times> u32) \<times> 'w"

definition hook_nt_query :: "'w query \<Rightarrow> u32 \<Rightarrow> u8 list option \<Rightarrow> u32 \<Rightarrow> proc_thread \<Rightarrow> 'w \<Rightarrow>
    ((u32 \<times> u8 list option \<times> u32) \<times> 'w) option" where
  "hook_nt_query query cls info len t w = (case pt_root t of None \<Rightarrow> None
     | Some root \<Rightarrow>
       let ((status, out, ret), w') = query cls info len w in
       if status \<noteq> STATUS_SUCCESS then Some ((status, out, ret), w')
       else if proc_bypassed t \<or>
         (cls \<noteq> SYSTEM_PROCESS_INFORMATION \<and> cls \<noteq> SYSTEM_EXTENDED_PROCESS_INFORMATION \<and>
          cls \<noteq> SYSTEM_FULL_PROCESS_INFORMATION) then Some ((status, out, ret), w')
       else (case out of None \<Rightarrow> Some ((status, out, ret), w')
         | Some mem \<Rightarrow> (case build_allowed_pids mem root of None \<Rightarrow> None
             | Some allowed \<Rightarrow> (case filter_process_list mem allowed of None \<Rightarrow> None
                 | Some mem' \<Rightarrow> Some ((status, Some mem', ret), w')))))"

text \<open>
  The buffer loop of \<open>is_descendant_of_root\<close>: sizes at least double, 16 MB is the cap. The code
  starts at 256 KB, so the test for size 0, which makes the recursion total, never holds.
\<close>

function query_loop :: "'w query \<Rightarrow> nat \<Rightarrow> 'w \<Rightarrow> u8 list option \<times> 'w" where
  "query_loop query sz w =
     (let ((status, out, ret), w') =
        query SYSTEM_PROCESS_INFORMATION (Some (replicate sz 0)) (of_nat sz) w in
      if status = STATUS_SUCCESS then (out, w')
      else if status = STATUS_INFO_LENGTH_MISMATCH then
        (let sz' = max (unat ret) (sz * 2) in
         if 16 * 1024 * 1024 < sz' \<or> sz = 0 then (None, w') else query_loop query sz' w')
      else (None, w'))"
  by auto
termination
  by (relation "measure (\<lambda>(query, sz, w). 16 * 1024 * 1024 + 1 - sz)") auto

declare query_loop.simps [simp del]

function climb :: "(u32 \<rightharpoonup> u32) \<Rightarrow> u32 \<Rightarrow> u32 \<Rightarrow> u32 set \<Rightarrow> bool" where
  "climb parent root cur visited =
     (if cur = root then True
      else if cur = 0 \<or> cur \<in> visited then False
      else (case parent cur of None \<Rightarrow> False
        | Some p \<Rightarrow> climb parent root p (insert cur visited)))"
  by auto
termination
proof (relation "measure (\<lambda>(parent, root, cur, visited). card (UNIV - visited))")
  fix parent :: "u32 \<rightharpoonup> u32" and root cur p :: u32 and visited :: "u32 set"
  assume "\<not> (cur = 0 \<or> cur \<in> visited)"
  then have "UNIV - insert cur visited \<subset> UNIV - visited" by blast
  then have "card (UNIV - insert cur visited) < card (UNIV - visited)"
    by (intro psubset_card_mono) simp_all
  then show "((parent, root, p, insert cur visited), (parent, root, cur, visited))
      \<in> measure (\<lambda>(parent, root, cur, visited). card (UNIV - visited))"
    by (simp only: in_measure prod.case)
qed simp

declare climb.simps [simp del]

definition is_descendant_of_root :: "'w query \<Rightarrow> u32 \<Rightarrow> u32 \<Rightarrow> 'w \<Rightarrow> (bool \<times> 'w) option" where
  "is_descendant_of_root query target root w =
     (case query_loop query (256 * 1024) w of
        (None, w') \<Rightarrow> Some (False, w')
      | (Some buf, w') \<Rightarrow> (case entries_from buf 0 of None \<Rightarrow> None
          | Some entries \<Rightarrow> Some (climb (map_of (rev entries)) root target {}, w')))"

text \<open>
  \<open>NtOpenProcess\<close>: \<open>client_id\<close> is the process field of \<open>CLIENT_ID\<close> (\<open>None\<close> for a null pointer),
  \<open>real_open\<close> the captured function applied to the other arguments.
\<close>

definition hook_nt_open_process :: "'w query \<Rightarrow> (u64 option \<Rightarrow> 'w \<Rightarrow> u32 \<times> 'w) \<Rightarrow> u64 option \<Rightarrow>
    proc_thread \<Rightarrow> 'w \<Rightarrow> (u32 \<times> 'w) option" where
  "hook_nt_open_process query real_open client_id t w = (case pt_root t of None \<Rightarrow> None
     | Some root \<Rightarrow>
       (if proc_bypassed t then Some (real_open client_id w)
        else case client_id of None \<Rightarrow> Some (real_open client_id w)
        | Some c \<Rightarrow> let target = ucast c in
            if target = 0 \<or> target = 4 \<or> target = root then Some (real_open client_id w)
            else (case is_descendant_of_root query target root w of None \<Rightarrow> None
              | Some (ok, w') \<Rightarrow> if ok then Some (real_open client_id w')
                  else Some (STATUS_ACCESS_DENIED, w'))))"

section \<open>The allowed set is the process tree\<close>

inductive descends :: "(u32 \<times> u32) list \<Rightarrow> u32 \<Rightarrow> u32 \<Rightarrow> bool" for entries root where
  root: "descends entries root root"
| child: "(pid, ppid) \<in> set entries \<Longrightarrow> descends entries root ppid \<Longrightarrow> descends entries root pid"

lemma add_children_sound:
  assumes "\<forall>p \<in> allowed. descends entries root p" and "set es \<subseteq> set entries"
  shows "\<forall>p \<in> add_children es allowed. descends entries root p"
  using assms
proof (induction es arbitrary: allowed)
  case Nil
  then show ?case by (simp add: add_children_def)
next
  case (Cons e es)
  obtain pid ppid where e: "e = (pid, ppid)" by (cases e)
  let ?a = "if ppid \<in> allowed \<and> pid \<notin> allowed then insert pid allowed else allowed"
  have "\<forall>p \<in> ?a. descends entries root p"
    using Cons.prems e by (auto intro: descends.child)
  then have "\<forall>p \<in> add_children es ?a. descends entries root p"
    using Cons.prems(2) by (intro Cons.IH) simp_all
  then show ?case by (simp add: add_children_def e)
qed

lemma add_children_mem:
  assumes "(pid, ppid) \<in> set es" and "ppid \<in> allowed"
  shows "pid \<in> add_children es allowed"
  using assms
proof (induction es arbitrary: allowed)
  case Nil
  then show ?case by simp
next
  case (Cons e es)
  let ?a = "(\<lambda>(pid, ppid) a. if ppid \<in> a \<and> pid \<notin> a then insert pid a else a) e allowed"
  have step: "add_children (e # es) allowed = add_children es ?a"
    by (simp add: add_children_def)
  have mono: "allowed \<subseteq> ?a" by (auto split: prod.splits)
  show ?case
  proof (cases "e = (pid, ppid)")
    case True
    then have "pid \<in> ?a" using Cons.prems(2) by auto
    then show ?thesis using add_children_mono [of ?a es] step by auto
  next
    case False
    then show ?thesis using Cons mono step by auto
  qed
qed

lemma closure_loop_closed:
  assumes "(pid, ppid) \<in> set entries" and "ppid \<in> closure_loop entries allowed"
  shows "pid \<in> closure_loop entries allowed"
  using assms
proof (induction entries allowed rule: closure_loop.induct)
  case (1 entries allowed)
  let ?a = "add_children entries allowed"
  show ?case
  proof (cases "card ?a = card allowed")
    case True
    then have "?a = allowed"
      using add_children_mono [of allowed entries] card_subset_eq [of ?a allowed] by (metis finite)
    then have "closure_loop entries allowed = allowed" by (simp add: closure_loop.simps)
    then show ?thesis using 1(2,3) add_children_mem [of pid ppid entries allowed] \<open>?a = allowed\<close> by simp
  next
    case False
    then show ?thesis using 1 by (simp add: closure_loop.simps [of entries allowed])
  qed
qed

lemma closure_loop_mono: "allowed \<subseteq> closure_loop entries allowed"
proof (induction entries allowed rule: closure_loop.induct)
  case (1 entries allowed)
  then show ?case
    using add_children_mono [of allowed entries] by (subst closure_loop.simps) (auto simp: Let_def)
qed

lemma closure_loop_sound:
  "\<forall>p \<in> allowed. descends entries root p \<Longrightarrow> \<forall>p \<in> closure_loop entries allowed. descends entries root p"
proof (induction entries allowed rule: closure_loop.induct)
  case (1 entries allowed)
  then show ?case
    using add_children_sound [of allowed entries root entries]
    by (subst closure_loop.simps) (auto simp: Let_def)
qed

lemma closure_loop_eq: "closure_loop entries {root} = {p. descends entries root p}"
proof
  show "closure_loop entries {root} \<subseteq> {p. descends entries root p}"
    using closure_loop_sound [of "{root}" entries root] by (auto intro: descends.root)
  have "p \<in> closure_loop entries {root}" if "descends entries root p" for p
    using that closure_loop_mono [of "{root}" entries] closure_loop_closed
    by induction auto
  then show "{p. descends entries root p} \<subseteq> closure_loop entries {root}" by blast
qed

section \<open>What the filtered list shows\<close>

text \<open>
  Entries of a kernel list do not overlap: each is at least as long as the part the code touches.
\<close>

function spaced :: "u8 list \<Rightarrow> nat \<Rightarrow> bool" where
  "spaced mem off =
     (if length mem < off + ENTRY_HEAD then False
      else let next = next_at mem off in
        if next = 0 then True
        else ENTRY_HEAD \<le> unat next \<and> spaced mem (off + unat next))"
  by auto
termination
  by (relation "measure (\<lambda>(mem, off). length mem - off)") (auto simp: layout unat_gt_0 intro!: diff_less_mono2)

declare spaced.simps [simp del]

text \<open>A buffer that agrees from \<open>off\<close> on holds the same list from there.\<close>

lemma get_bytes_drop: "off \<le> i \<Longrightarrow> drop off m = drop off m' \<Longrightarrow> get_bytes i n m = get_bytes i n m'"
  by (metis get_bytes_def drop_drop le_add_diff_inverse2)

lemma agree_fields:
  assumes "drop off m = drop off m'" and "off \<le> p"
  shows "next_at m p = next_at m' p" "pid_at m p = pid_at m' p" "ppid_at m p = ppid_at m' p"
  using get_bytes_drop [of off _ m m'] assms by (simp_all add: read_u32_def read_usize_def)

lemma agree_entries:
  assumes "length m = length m'" and "drop off m = drop off m'"
  shows "entries_from m off = entries_from m' off \<and> spaced m off = spaced m' off"
  using assms
proof (induction m off rule: entries_from.induct)
  case (1 m off)
  note f = agree_fields [OF 1(3) order.refl]
  have d: "drop (off + k) m = drop (off + k) m'" for k
    using 1(3) by (metis drop_drop add.commute)
  show ?case
  proof (cases "length m < off + ENTRY_HEAD \<or> next_at m off = 0")
    case True
    then show ?thesis
      using 1(2) f by (auto simp: entries_from.simps [of _ off] spaced.simps [of _ off] Let_def)
  next
    case False
    then have "entries_from m (off + unat (next_at m off)) = entries_from m' (off + unat (next_at m off)) \<and>
        spaced m (off + unat (next_at m off)) = spaced m' (off + unat (next_at m off))"
      using 1(1) [OF _ refl refl _ 1(2) d] by simp
    then show ?thesis
      using 1(2) f False by (simp add: entries_from.simps [of _ off] spaced.simps [of _ off] Let_def)
  qed
qed

lemma length_write [simp]:
  "p + off + 4 \<le> length mem \<Longrightarrow> length (write_u32 p off v mem) = length mem"
  "p + off + 8 \<le> length mem \<Longrightarrow> length (write_usize p off x mem) = length mem"
  by (simp_all add: write_u32_def write_usize_def)

lemma drop_write_u32:
  assumes "p + off + 4 \<le> k" and "p + off + 4 \<le> length mem"
  shows "drop k (write_u32 p off v mem) = drop k mem"
  using assms by (simp add: write_u32_def put_bytes_def)

lemma read_write_next:
  assumes "p + 4 \<le> length mem"
  shows "next_at (write_u32 p OFFSET_NEXT_ENTRY v mem) p = v"
  using assms by (simp add: write_u32_def read_u32_def layout get_put_same)

lemma read_write_pid:
  assumes "p + ENTRY_HEAD \<le> length mem"
  shows "pid_at (write_u32 p OFFSET_NEXT_ENTRY v mem) p = pid_at mem p"
    "ppid_at (write_u32 p OFFSET_NEXT_ENTRY v mem) p = ppid_at mem p"
  using assms by (simp_all add: write_u32_def read_usize_def layout get_put_below)

lemma get_bytes_take: "i + n \<le> k \<Longrightarrow> take k m = take k m' \<Longrightarrow> get_bytes i n m = get_bytes i n m'"
  by (metis get_bytes_def take_drop take_take min.absorb1 add.commute)

lemma agree_below:
  assumes "take k m = take k m'" and "p + ENTRY_HEAD \<le> k"
  shows "next_at m p = next_at m' p" "pid_at m p = pid_at m' p" "ppid_at m p = ppid_at m' p"
  using get_bytes_take [of _ _ k m m'] assms
  by (simp_all add: read_u32_def read_usize_def layout)

lemma take_write:
  "k \<le> p + off \<Longrightarrow> p + off \<le> length mem \<Longrightarrow> take k (write_u32 p off v mem) = take k mem"
  "k \<le> p + off \<Longrightarrow> p + off \<le> length mem \<Longrightarrow> take k (write_usize p off x mem) = take k mem"
  by (simp_all add: write_u32_def write_usize_def put_bytes_def)

lemma agree_below_le:
  assumes "take k m = take k m'" and "j \<le> k"
  shows "take j m = take j m'"
  using assms by (metis take_take min.absorb1)

definition shown :: "u32 set \<Rightarrow> (u32 \<times> u32) list \<Rightarrow> (u32 \<times> u32) list" where
  "shown allowed es = filter (\<lambda>e. fst e \<in> allowed) es"

lemma entries_from_step:
  "off + ENTRY_HEAD \<le> length mem \<Longrightarrow> next_at mem off = 0 \<Longrightarrow>
     entries_from mem off = Some [(pid_at mem off, ppid_at mem off)]"
  "off + ENTRY_HEAD \<le> length mem \<Longrightarrow> next_at mem off \<noteq> 0 \<Longrightarrow>
     entries_from mem off =
       map_option ((#) (pid_at mem off, ppid_at mem off)) (entries_from mem (off + unat (next_at mem off)))"
  by (simp_all add: entries_from.simps [of mem off] Let_def)

lemma spaced_entries: "spaced mem off \<Longrightarrow> \<exists>es. entries_from mem off = Some es"
proof (induction mem off rule: spaced.induct)
  case (1 mem off)
  then show ?case
    by (subst entries_from.simps) (auto simp: spaced.simps [of mem off] Let_def split: if_splits)
qed

lemma spaced_step:
  assumes "spaced mem off" and "next_at mem off \<noteq> 0"
  shows "ENTRY_HEAD \<le> unat (next_at mem off)" "spaced mem (off + unat (next_at mem off))"
  using assms by (simp_all add: spaced.simps [of mem off] Let_def split: if_splits)

lemma spaced_fits: "spaced mem off \<Longrightarrow> off + ENTRY_HEAD \<le> length mem"
  by (simp add: spaced.simps [of mem off] split: if_splits)

text \<open>The loop once an entry has been kept: what it drops is skipped by the last kept entry.\<close>

lemma filter_loop_kept:
  assumes "spaced mem off" and "length mem = n" and "n < 2 ^ 32"
    and "p + unat (next_at mem p) = off" and "p + ENTRY_HEAD \<le> off"
    and "entries_from mem off = Some es"
  shows "\<exists>mem'. filter_loop n allowed off (Some p) mem = Some mem' \<and> length mem' = n \<and>
    take p mem' = take p mem \<and>
    entries_from mem' p = Some ((pid_at mem p, ppid_at mem p) # shown allowed es)"
  using assms
proof (induction "n - off" arbitrary: off p mem es rule: less_induct)
  case less
  let ?q = "off + unat (next_at mem off)"
  note fits = spaced_fits [OF less.prems(1)]
  have np: "next_at mem p \<noteq> 0" using less.prems(4,5) by (auto simp: layout)
  have size4: "p + 4 \<le> length mem" "p + ENTRY_HEAD \<le> length mem"
    using fits less.prems(5) by (simp_all add: layout)
  have takew: "take p (write_u32 p OFFSET_NEXT_ENTRY v mem) = take p mem" for v
    using size4 by (simp add: take_write layout)
  have lenw: "length (write_u32 p OFFSET_NEXT_ENTRY v mem) = length mem" for v
    using size4 by (simp add: layout)
  show ?case
  proof (cases "next_at mem off = 0")
    case last: True
    have es: "es = [(pid_at mem off, ppid_at mem off)]"
      using less.prems(6) last fits by (simp add: entries_from_step)
    show ?thesis
    proof (cases "pid_at mem off \<in> allowed")
      case True
      then have "filter_loop n allowed off (Some p) mem = Some mem"
        using last fits less.prems(2) by (simp add: filter_loop.simps [of n allowed off])
      moreover have "entries_from mem p = Some ((pid_at mem p, ppid_at mem p) # es)"
        using np size4 less.prems(4,6) by (simp add: entries_from_step)
      ultimately show ?thesis using True es less.prems(2) by (simp add: shown_def)
    next
      case False
      let ?m = "write_u32 p OFFSET_NEXT_ENTRY 0 mem"
      have "filter_loop n allowed off (Some p) mem = Some ?m"
        using False last fits less.prems(2) by (simp add: filter_loop.simps [of n allowed off])
      moreover have "entries_from ?m p = Some [(pid_at mem p, ppid_at mem p)]"
        using size4 lenw by (simp add: entries_from_step read_write_next read_write_pid)
      ultimately show ?thesis using False es less.prems(2) size4 by (simp add: shown_def take_write layout)
    qed
  next
    case more: False
    have q: "ENTRY_HEAD \<le> unat (next_at mem off)" "spaced mem ?q"
      using spaced_step [OF less.prems(1) more] by simp_all
    obtain es' where es': "entries_from mem ?q = Some es'" "es = (pid_at mem off, ppid_at mem off) # es'"
      using less.prems(6) more fits by (auto simp: entries_from_step)
    have smaller: "n - ?q < n - off"
      using q(1) fits less.prems(2) by (simp add: layout)
    show ?thesis
    proof (cases "pid_at mem off \<in> allowed")
      case True
      then have step: "filter_loop n allowed off (Some p) mem = filter_loop n allowed ?q (Some off) mem"
        using more fits less.prems(2) by (simp add: filter_loop.simps [of n allowed off] Let_def)
      obtain mem' where m': "filter_loop n allowed ?q (Some off) mem = Some mem'" "length mem' = n"
          "take off mem' = take off mem"
          "entries_from mem' off = Some ((pid_at mem off, ppid_at mem off) # shown allowed es')"
        using less.hyps [OF smaller q(2) less.prems(2,3) refl _ es'(1)] q(1) by auto
      note at_p = agree_below [OF m'(3) less.prems(5)]
      have "entries_from mem' p = Some ((pid_at mem p, ppid_at mem p) # shown allowed es)"
        using np at_p m'(2,4) size4 less.prems(2,4) True es'(2)
        by (simp add: entries_from_step shown_def)
      moreover have "take p mem' = take p mem"
        using agree_below_le [OF m'(3)] less.prems(5) by simp
      ultimately show ?thesis using step m' by simp
    next
      case False
      let ?m = "write_u32 p OFFSET_NEXT_ENTRY (next_at mem p + next_at mem off) mem"
      have step: "filter_loop n allowed off (Some p) mem = filter_loop n allowed ?q (Some p) ?m"
        using False more fits less.prems(2) by (simp add: filter_loop.simps [of n allowed off] Let_def)
      have len: "length ?m = n" using size4 less.prems(2) by (simp add: layout)
      have "unat (next_at mem p) + unat (next_at mem off) < 2 ^ 32"
        using spaced_fits [OF q(2)] less.prems(2,3,4) by simp
      then have sum: "unat (next_at mem p + next_at mem off) = unat (next_at mem p) + unat (next_at mem off)"
        by (simp add: unat_word_ariths)
      have agree: "drop ?q mem = drop ?q ?m"
        using q(1) less.prems(5) size4 by (intro drop_write_u32 [symmetric]) (simp_all add: layout)
      note same = agree_entries [OF _ agree]
      have at_p: "next_at ?m p = next_at mem p + next_at mem off"
          "pid_at ?m p = pid_at mem p" "ppid_at ?m p = ppid_at mem p"
        using size4 by (simp_all add: read_write_next read_write_pid)
      have "\<exists>mem'. filter_loop n allowed ?q (Some p) ?m = Some mem' \<and> length mem' = n \<and>
          take p mem' = take p ?m \<and>
          entries_from mem' p = Some ((pid_at ?m p, ppid_at ?m p) # shown allowed es')"
      proof (rule less.hyps [OF smaller _ len less.prems(3)])
        show "spaced ?m ?q" using same q(2) len less.prems(2) by simp
        show "p + unat (next_at ?m p) = ?q" using at_p sum less.prems(4) by simp
        show "p + ENTRY_HEAD \<le> ?q" using less.prems(5) by simp
        show "entries_from ?m ?q = Some es'" using same es'(1) len less.prems(2) by simp
      qed
      then show ?thesis
        using step at_p False es'(2) by (simp add: takew shown_def)
    qed
  qed
qed

text \<open>Before an entry is kept, an entry that should be dropped only loses its PID.\<close>

fun hide_leading :: "u32 set \<Rightarrow> (u32 \<times> u32) list \<Rightarrow> (u32 \<times> u32) list" where
  "hide_leading allowed [] = []"
| "hide_leading allowed (e # es) =
     (if fst e \<in> allowed then e # shown allowed es else (0, snd e) # hide_leading allowed es)"

lemma read_write_pid_zero:
  assumes "off + ENTRY_HEAD \<le> length mem"
  shows "length (write_usize off OFFSET_UNIQUE_PID 0 mem) = length mem"
    "next_at (write_usize off OFFSET_UNIQUE_PID 0 mem) off = next_at mem off"
    "pid_at (write_usize off OFFSET_UNIQUE_PID 0 mem) off = 0"
    "ppid_at (write_usize off OFFSET_UNIQUE_PID 0 mem) off = ppid_at mem off"
    "drop (off + ENTRY_HEAD) (write_usize off OFFSET_UNIQUE_PID 0 mem) = drop (off + ENTRY_HEAD) mem"
    "take off (write_usize off OFFSET_UNIQUE_PID 0 mem) = take off mem"
proof -
  have "from_le (to_le 8 (0 :: u64)) = (0 :: u64)" by (rule from_le_to_le) simp
  then show "pid_at (write_usize off OFFSET_UNIQUE_PID 0 mem) off = 0"
    using assms by (simp add: write_usize_def read_usize_def layout get_put_same)
  show "next_at (write_usize off OFFSET_UNIQUE_PID 0 mem) off = next_at mem off"
    "ppid_at (write_usize off OFFSET_UNIQUE_PID 0 mem) off = ppid_at mem off"
    using assms by (simp_all add: write_usize_def read_usize_def read_u32_def layout get_put_above get_put_below)
  show "drop (off + ENTRY_HEAD) (write_usize off OFFSET_UNIQUE_PID 0 mem) = drop (off + ENTRY_HEAD) mem"
    "take off (write_usize off OFFSET_UNIQUE_PID 0 mem) = take off mem"
    using assms by (simp_all add: write_usize_def put_bytes_def layout add.commute)
qed (use assms in \<open>simp add: layout\<close>)

lemma drop_further:
  assumes "drop k m = drop k m'" and "k \<le> j"
  shows "drop j m = drop j m'"
  using assms by (metis drop_drop le_add_diff_inverse2)

lemma filter_loop_first:
  assumes "spaced mem off" and "length mem = n" and "n < 2 ^ 32" and "entries_from mem off = Some es"
  shows "\<exists>mem'. filter_loop n allowed off None mem = Some mem' \<and> length mem' = n \<and>
    take off mem' = take off mem \<and> entries_from mem' off = Some (hide_leading allowed es)"
  using assms
proof (induction "n - off" arbitrary: off mem es rule: less_induct)
  case less
  let ?q = "off + unat (next_at mem off)" and ?m = "write_usize off OFFSET_UNIQUE_PID 0 mem"
  note fits = spaced_fits [OF less.prems(1)]
  note zero = read_write_pid_zero [OF fits]
  show ?case
  proof (cases "next_at mem off = 0")
    case last: True
    have es: "es = [(pid_at mem off, ppid_at mem off)]"
      using less.prems(4) last fits by (simp add: entries_from_step)
    have "filter_loop n allowed off None mem = Some (if pid_at mem off \<in> allowed then mem else ?m)"
      using last fits less.prems(2) by (simp add: filter_loop.simps [of n allowed off])
    moreover have "entries_from ?m off = Some [(0, ppid_at mem off)]"
      using fits last zero by (simp add: entries_from_step)
    ultimately show ?thesis
      using es less.prems(2,4) zero by (simp add: shown_def)
  next
    case more: False
    have q: "ENTRY_HEAD \<le> unat (next_at mem off)" "spaced mem ?q"
      using spaced_step [OF less.prems(1) more] by simp_all
    obtain es' where es': "entries_from mem ?q = Some es'" "es = (pid_at mem off, ppid_at mem off) # es'"
      using less.prems(4) more fits by (auto simp: entries_from_step)
    show ?thesis
    proof (cases "pid_at mem off \<in> allowed")
      case True
      then have "filter_loop n allowed off None mem = filter_loop n allowed ?q (Some off) mem"
        using more fits less.prems(2) by (simp add: filter_loop.simps [of n allowed off] Let_def)
      then show ?thesis
        using filter_loop_kept [OF q(2) less.prems(2,3) refl _ es'(1)] q(1) True es'(2) by simp
    next
      case False
      then have step: "filter_loop n allowed off None mem = filter_loop n allowed ?q None ?m"
        using more fits less.prems(2) by (simp add: filter_loop.simps [of n allowed off] Let_def)
      have agree: "drop ?q mem = drop ?q ?m"
        using drop_further [OF zero(5) [symmetric], of ?q] q(1) by simp
      note same = agree_entries [OF zero(1) [symmetric] agree]
      have same_spaced: "spaced ?m ?q" and same_es: "entries_from ?m ?q = Some es'"
        using same q(2) es'(1) by simp_all
      have len_m: "length ?m = n" using zero(1) less.prems(2) by simp
      have smaller: "n - ?q < n - off"
        using q(1) fits less.prems(2) by (simp add: layout)
      obtain mem' where m': "filter_loop n allowed ?q None ?m = Some mem'" "length mem' = n"
          "take ?q mem' = take ?q ?m" "entries_from mem' ?q = Some (hide_leading allowed es')"
        using less.hyps [OF smaller same_spaced len_m less.prems(3) same_es] by blast
      have "off + ENTRY_HEAD \<le> ?q" using q(1) by simp
      note at_off = agree_below [OF m'(3) this]
      have "entries_from mem' off = Some ((0, ppid_at mem off) # hide_leading allowed es')"
        using at_off zero m'(2,4) more fits less.prems(2) by (simp add: entries_from_step)
      moreover have "take off mem' = take off mem"
        using agree_below_le [OF m'(3), of off] zero(6) by simp
      ultimately show ?thesis using step m'(1,2) False es'(2) by simp
    qed
  qed
qed

section \<open>Climbing agrees with the tree\<close>

primrec climbs :: "(u32 \<rightharpoonup> u32) \<Rightarrow> u32 \<Rightarrow> nat \<Rightarrow> u32 \<Rightarrow> bool" where
  "climbs parent root 0 cur \<longleftrightarrow> cur = root"
| "climbs parent root (Suc n) cur \<longleftrightarrow> cur \<noteq> root \<and> cur \<noteq> 0 \<and>
     (case parent cur of None \<Rightarrow> False | Some p \<Rightarrow> climbs parent root n p)"

lemma climbs_unique: "climbs parent root n cur \<Longrightarrow> climbs parent root m cur \<Longrightarrow> n = m"
proof (induction n arbitrary: m cur)
  case 0
  then show ?case by (cases m) auto
next
  case (Suc n)
  then show ?case by (cases m) (auto split: option.splits)
qed

lemma climb_complete:
  assumes "climbs parent root n cur" and "\<forall>v \<in> visited. \<forall>k. climbs parent root k v \<longrightarrow> n < k"
  shows "climb parent root cur visited"
  using assms
proof (induction n arbitrary: cur visited)
  case 0
  then show ?case by (simp add: climb.simps)
next
  case (Suc n)
  then obtain p where p: "parent cur = Some p" "climbs parent root n p" "cur \<noteq> root" "cur \<noteq> 0"
    by (auto split: option.splits)
  have "\<forall>v \<in> insert cur visited. \<forall>k. climbs parent root k v \<longrightarrow> n < k"
    using Suc.prems climbs_unique [OF Suc.prems(1)] by (metis Suc_lessD insert_iff lessI)
  then have "climb parent root p (insert cur visited)" by (rule Suc.IH [OF p(2)])
  moreover have "cur \<notin> visited" using Suc.prems by blast
  ultimately show ?case using p by (simp add: climb.simps [of parent root cur])
qed

lemma climb_sound:
  "climb (map_of (rev entries)) root cur visited \<Longrightarrow> descends entries root cur"
proof (induction "map_of (rev entries)" root cur visited rule: climb.induct)
  case (1 root cur visited)
  show ?case
  proof (cases "cur = root")
    case True
    then show ?thesis by (simp add: descends.root)
  next
    case False
    then obtain p where "map_of (rev entries) cur = Some p" "cur \<noteq> 0" "cur \<notin> visited"
        "climb (map_of (rev entries)) root p (insert cur visited)"
      using 1(2) by (subst (asm) climb.simps) (auto split: if_splits option.splits)
    then show ?thesis
      using 1(1) False by (auto dest!: map_of_SomeD intro: descends.child)
  qed
qed

lemma climb_iff_descends:
  assumes "distinct (map fst entries)" and "root \<noteq> 0" and "\<forall>x. (0, x) \<in> set entries \<longrightarrow> x = 0"
  shows "climb (map_of (rev entries)) root target {} \<longleftrightarrow> descends entries root target"
proof
  show "climb (map_of (rev entries)) root target {} \<Longrightarrow> descends entries root target"
    by (rule climb_sound)
  have "map_of (rev entries) = map_of entries"
    using assms(1) map_of_inject_set [of "rev entries" entries] by (simp add: rev_map [symmetric])
  moreover have "\<exists>n. climbs (map_of entries) root n target" if "descends entries root target"
    using that
  proof induction
    case root
    show ?case by (rule exI [of _ 0]) simp
  next
    case (child pid ppid)
    then obtain n where n: "climbs (map_of entries) root n ppid" by blast
    have "pid \<noteq> 0" if "pid \<noteq> root"
      using child n assms(2,3) by (cases n) auto
    then have "climbs (map_of entries) root (if pid = root then 0 else Suc n) pid"
      using child(1) n assms(1) by simp
    then show ?case by blast
  qed
  ultimately show "climb (map_of (rev entries)) root target {}" if "descends entries root target"
    using that climb_complete [of "map_of entries" root _ target "{}"] by auto
qed

section \<open>Properties\<close>

definition process_tree :: "(u32 \<times> u32) list \<Rightarrow> u32 \<Rightarrow> u32 set" where
  "process_tree entries root = insert 0 {p. descends entries root p}"

lemma build_allowed_tree:
  "entries_from mem 0 = Some es \<Longrightarrow> build_allowed_pids mem root = Some (process_tree es root)"
  by (simp add: build_allowed_pids_def process_tree_def closure_loop_eq)

lemma hide_leading_visible: "0 \<in> allowed \<Longrightarrow> fst ` set (hide_leading allowed es) \<subseteq> allowed"
  by (induction es) (auto simp: shown_def)

lemma hide_leading_head:
  "es \<noteq> [] \<Longrightarrow> fst (es ! 0) \<in> allowed \<Longrightarrow> hide_leading allowed es = shown allowed es"
  by (cases es) (simp_all add: shown_def)

text \<open>
  C11. A successful process-list query, on a list whose entries do not overlap, returns a list
  that never shows a PID outside the container's process tree and 0; when the first entry is in
  the tree (on Windows it is PID 0) the result is exactly the tree's entries, in order, and
  otherwise the entries before the first kept one stay listed with PID 0.
\<close>

theorem query_shows_process_tree:
  assumes "query cls info len w = ((STATUS_SUCCESS, Some mem, ret), w')"
    and "cls \<in> {SYSTEM_PROCESS_INFORMATION, SYSTEM_EXTENDED_PROCESS_INFORMATION, SYSTEM_FULL_PROCESS_INFORMATION}"
    and "pt_root t = Some root" and "\<not> proc_bypassed t"
    and "spaced mem 0" and "length mem < 2 ^ 32" and "entries_from mem 0 = Some es"
  shows "\<exists>mem' es'. hook_nt_query query cls info len t w = Some ((STATUS_SUCCESS, Some mem', ret), w') \<and>
    length mem' = length mem \<and> entries_from mem' 0 = Some es' \<and>
    fst ` set es' \<subseteq> process_tree es root \<and>
    es' = hide_leading (process_tree es root) es \<and>
    (fst (es ! 0) \<in> process_tree es root \<longrightarrow> es' = filter (\<lambda>e. fst e \<in> process_tree es root) es)"
proof -
  let ?tree = "process_tree es root"
  obtain mem' where m': "filter_process_list mem ?tree = Some mem'" "length mem' = length mem"
      "entries_from mem' 0 = Some (hide_leading ?tree es)"
    using filter_loop_first [OF assms(5) refl assms(6,7), of ?tree] by (auto simp: filter_process_list_def)
  have "hook_nt_query query cls info len t w = Some ((STATUS_SUCCESS, Some mem', ret), w')"
    using assms(1-4) m'(1) build_allowed_tree [OF assms(7), of root] by (auto simp: hook_nt_query_def)
  moreover have "es \<noteq> []"
    using assms(7) by (auto simp: entries_from.simps [of mem 0] Let_def split: if_splits option.splits)
  ultimately show ?thesis
    using m' hide_leading_visible [of ?tree es] hide_leading_head [of es ?tree]
    by (auto simp: process_tree_def shown_def)
qed

definition demo_entry :: "u32 \<Rightarrow> u32 \<Rightarrow> u32 \<Rightarrow> u8 list" where
  "demo_entry next pid ppid = to_le 4 next @ replicate 76 0 @ to_le 8 pid @ to_le 8 ppid"

definition demo_list :: "u8 list" where
  "demo_list = demo_entry 96 0 0 @ demo_entry 96 9 4 @ demo_entry 96 20 10 @ demo_entry 0 30 20"

lemma demo_list_facts:
  "length demo_list = 384" "entries_from demo_list 0 = Some [(0, 0), (9, 4), (20, 10), (30, 20)]"
  "spaced demo_list 0"
  by code_simp+


lemma demo_descends:
  "descends [(0, 0), (9, 4), (20, 10), (30, 20)] 10 = (\<lambda>p. p \<in> {10, 20, 30})"
proof
  fix p
  let ?es = "[(0, 0), (9, 4), (20, 10), (30, 20)] :: (u32 \<times> u32) list"
  have "descends ?es 10 p \<Longrightarrow> p \<in> {10, 20, 30}"
    by (induction rule: descends.induct) auto
  moreover have "descends ?es 10 10" by (rule descends.root)
  moreover have "descends ?es 10 20" by (rule descends.child [of 20 10]) (simp_all add: descends.root)
  moreover have "descends ?es 10 30"
    by (rule descends.child [of 30 20]) (simp_all add: calculation)
  ultimately show "descends ?es 10 p = (p \<in> {10, 20, 30})" by auto
qed

definition demo_query :: "unit query" where
  "demo_query cls info len w = ((STATUS_SUCCESS, Some demo_list, 384), w)"

theorem query_shows_process_tree_witness:
  "\<exists>mem' es'. hook_nt_query demo_query SYSTEM_PROCESS_INFORMATION None 384 \<lparr>pt_bypass = 0, pt_root = Some 10\<rparr> () =
     Some ((STATUS_SUCCESS, Some mem', 384), ()) \<and>
   entries_from mem' 0 = Some es' \<and> es' = [(0, 0), (20, 10), (30, 20)]"
proof -
  let ?t = "\<lparr>pt_bypass = 0, pt_root = Some 10\<rparr>"
  have "filter (\<lambda>e. fst e \<in> process_tree [(0, 0), (9, 4), (20, 10), (30, 20)] 10)
      [(0, 0), (9, 4), (20, 10), (30, 20)] = [(0 :: u32, 0 :: u32), (20, 10), (30, 20)]"
    by (simp add: process_tree_def demo_descends)
  moreover have "0 \<in> process_tree [(0, 0), (9, 4), (20, 10), (30, 20)] 10"
    by (simp add: process_tree_def)
  ultimately show ?thesis
    using query_shows_process_tree [of demo_query SYSTEM_PROCESS_INFORMATION None 384 "()" demo_list 384 "()"
        ?t 10 "[(0, 0), (9, 4), (20, 10), (30, 20)]"] demo_list_facts
    by (auto simp: demo_query_def proc_bypassed_def)
qed

text \<open>
  C12. Opening a process that is not 0, 4 or the container's root asks the kernel for the process
  list; the real \<open>NtOpenProcess\<close> runs exactly when the target descends from the root by parent
  PIDs, and otherwise (also when the list cannot be read) the call is denied without it.
\<close>

theorem open_process_confined:
  assumes "pt_root t = Some root" and "\<not> proc_bypassed t" and "ucast c \<notin> {0, 4, root :: u32}"
    and "root \<noteq> 0"
    and "query_loop query (256 * 1024) w = (out, w')"
    and "\<And>buf. out = Some buf \<Longrightarrow> \<exists>es. entries_from buf 0 = Some es \<and> distinct (map fst es) \<and>
           (\<forall>x. (0, x) \<in> set es \<longrightarrow> x = 0)"
  shows "hook_nt_open_process query real_open (Some c) t w =
    Some (if \<exists>buf es. out = Some buf \<and> entries_from buf 0 = Some es \<and> descends es root (ucast c)
          then real_open (Some c) w' else (STATUS_ACCESS_DENIED, w'))"
proof (cases out)
  case None
  then show ?thesis
    using assms(1-5) by (simp add: hook_nt_open_process_def is_descendant_of_root_def)
next
  case (Some buf)
  from assms(6) [OF this] obtain es where es: "entries_from buf 0 = Some es" "distinct (map fst es)"
    "\<forall>x. (0, x) \<in> set es \<longrightarrow> x = 0" by blast
  have "is_descendant_of_root query (ucast c) root w = Some (descends es root (ucast c), w')"
    using Some es(1) assms(5) climb_iff_descends [OF es(2) assms(4) es(3)]
    by (simp add: is_descendant_of_root_def)
  then show ?thesis
    using assms(1-4) Some es(1) by (simp add: hook_nt_open_process_def)
qed

lemma demo_query_loop: "query_loop demo_query sz () = (Some demo_list, ())"
  by (subst query_loop.simps) (simp add: demo_query_def Let_def)

theorem open_process_confined_witness:
  "let t = \<lparr>pt_bypass = 0, pt_root = Some 10\<rparr>; real = (\<lambda>c w. (STATUS_SUCCESS, w)) in
   hook_nt_open_process demo_query real (Some 30) t () = Some (STATUS_SUCCESS, ()) \<and>
   hook_nt_open_process demo_query real (Some 9) t () = Some (STATUS_ACCESS_DENIED, ())"
proof -
  let ?t = "\<lparr>pt_bypass = 0, pt_root = Some 10\<rparr>"
  let ?real = "\<lambda>c w. (STATUS_SUCCESS, w)"
  have "hook_nt_open_process demo_query ?real (Some 30) ?t () = Some (STATUS_SUCCESS, ())"
    using open_process_confined [of ?t 10 30 demo_query "()" "Some demo_list" "()" ?real] demo_list_facts
    by (simp add: proc_bypassed_def demo_query_loop demo_descends)
  moreover have "hook_nt_open_process demo_query ?real (Some 9) ?t () = Some (STATUS_ACCESS_DENIED, ())"
    using open_process_confined [of ?t 10 9 demo_query "()" "Some demo_list" "()" ?real] demo_list_facts
    by (simp add: proc_bypassed_def demo_query_loop demo_descends)
  ultimately show ?thesis by simp
qed

end
