(* ===== verification/Text.thy ===== *)
theory Text
  imports Prelude
begin

text \<open>
  The part of Rust's string library the program uses, on \<open>string\<close> (the bytes of the UTF-8 text):
  splitting at an ASCII delimiter, prefixes, search, trimming of Unicode white space, ASCII case
  mapping, and decimal numbers as \<open>to_string\<close> prints them and \<open>parse::<uN>\<close> reads them.
\<close>

named_theorems texts "equations that evaluate the string functions"

section \<open>Splitting and joining\<close>

fun split_on :: "char \<Rightarrow> string \<Rightarrow> string list" where
  "split_on d [] = [[]]"
| "split_on d (c # cs) =
     (if c = d then [] # split_on d cs
      else (case split_on d cs of [] \<Rightarrow> [[c]] | p # ps \<Rightarrow> (c # p) # ps))"

fun join_with :: "string \<Rightarrow> string list \<Rightarrow> string" where
  "join_with d [] = []"
| "join_with d [p] = p"
| "join_with d (p # q # ps) = p @ d @ join_with d (q # ps)"

lemma split_on_nonempty [simp]: "split_on d s \<noteq> []"
  by (induction s) (auto split: list.splits)

lemma split_on_piece: "d \<notin> set p \<Longrightarrow> split_on d p = [p]"
  by (induction p) auto

lemma split_on_append: "d \<notin> set p \<Longrightarrow> split_on d (p @ d # s) = p # split_on d s"
  by (induction p) auto

lemma split_join:
  assumes "ps \<noteq> []" and "\<forall>p \<in> set ps. d \<notin> set p"
  shows "split_on d (join_with [d] ps) = ps"
  using assms by (induction "[d]" ps rule: join_with.induct) (simp_all add: split_on_piece split_on_append)

lemma split_on_pieces: "\<forall>p \<in> set (split_on d s). d \<notin> set p"
  by (induction s) (auto split: list.splits)

lemma join_split: "join_with [d] (split_on d s) = s"
proof (induction s)
  case Nil
  show ?case by simp
next
  case (Cons c cs)
  obtain p ps where p: "split_on d cs = p # ps"
    by (cases "split_on d cs") simp_all
  then show ?case using Cons by (cases ps) auto
qed

lemma split_on_inject: "split_on d s = split_on d t \<longleftrightarrow> s = t"
  by (metis join_split)

section \<open>Prefixes and search\<close>

definition strip_prefix :: "string \<Rightarrow> string \<Rightarrow> string option" where
  "strip_prefix p s = (if take (length p) s = p then Some (drop (length p) s) else None)"

definition starts_with :: "string \<Rightarrow> string \<Rightarrow> bool" where
  "starts_with p s \<longleftrightarrow> take (length p) s = p"

definition ends_with :: "string \<Rightarrow> string \<Rightarrow> bool" where
  "ends_with p s \<longleftrightarrow> length p \<le> length s \<and> drop (length s - length p) s = p"

fun contains :: "string \<Rightarrow> string \<Rightarrow> bool" where
  "contains p [] \<longleftrightarrow> p = []"
| "contains p (c # s) \<longleftrightarrow> starts_with p (c # s) \<or> contains p s"

text \<open>\<open>find\<close> of a character: what precedes it and what follows it.\<close>

fun split_first :: "char \<Rightarrow> string \<Rightarrow> (string \<times> string) option" where
  "split_first d [] = None"
| "split_first d (c # cs) =
     (if c = d then Some ([], cs)
      else map_option (\<lambda>(a, b). (c # a, b)) (split_first d cs))"

text \<open>\<open>replace\<close> of a non-empty pattern, left to right without overlaps.\<close>

function replace_all :: "string \<Rightarrow> string \<Rightarrow> string \<Rightarrow> string" where
  "replace_all p new s =
     (case s of [] \<Rightarrow> []
      | c # cs \<Rightarrow> (if p \<noteq> [] \<and> starts_with p s then new @ replace_all p new (drop (length p) s)
                  else c # replace_all p new cs))"
  by auto
termination by (relation "measure (\<lambda>(p, new, s). length s)") auto

declare replace_all.simps [simp del]

text \<open>The order of \<open>str\<close>: bytes, lexicographically.\<close>

fun str_less :: "string \<Rightarrow> string \<Rightarrow> bool" where
  "str_less s [] \<longleftrightarrow> False"
| "str_less [] (d # t) \<longleftrightarrow> True"
| "str_less (c # s) (d # t) \<longleftrightarrow> (of_char c :: nat) < of_char d \<or> c = d \<and> str_less s t"

lemma str_less_irrefl [simp]: "\<not> str_less s s"
  by (induction s) simp_all

lemma str_less_trans: "str_less s t \<Longrightarrow> str_less t u \<Longrightarrow> str_less s u"
proof (induction s t arbitrary: u rule: str_less.induct)
  case (2 d t)
  then show ?case by (cases u) simp_all
next
  case (3 c s d t)
  then show ?case by (cases u) auto
qed simp

lemma str_less_linear: "str_less s t \<or> s = t \<or> str_less t s"
proof (induction s t rule: str_less.induct)
  case (1 s)
  then show ?case by (cases s) simp_all
next
  case (3 c s d t)
  have "(of_char c :: nat) = of_char d \<longleftrightarrow> c = d" by (rule of_char_eq_iff)
  then show ?case using 3 by (metis linorder_neqE_nat str_less.simps(3))
qed simp

lemma strip_prefix_append [simp]: "strip_prefix p (p @ s) = Some s"
  by (simp add: strip_prefix_def)

lemma strip_prefix_SomeD: "strip_prefix p s = Some r \<Longrightarrow> s = p @ r"
  by (auto simp: strip_prefix_def split: if_splits) (metis append_take_drop_id)

lemma strip_prefix_cases: "strip_prefix p s = None \<or> (\<exists>r. s = p @ r \<and> strip_prefix p s = Some r)"
  using strip_prefix_SomeD [of p s] by (cases "strip_prefix p s") auto

lemma starts_with_iff: "starts_with p s \<longleftrightarrow> (\<exists>r. s = p @ r)"
  unfolding starts_with_def by (metis append_eq_conv_conj append_take_drop_id)

lemma starts_with_strip: "starts_with p s \<longleftrightarrow> strip_prefix p s \<noteq> None"
  by (simp add: starts_with_def strip_prefix_def)

lemma contains_iff: "contains p s \<longleftrightarrow> (\<exists>a b. s = a @ p @ b)"
proof (induction s)
  case Nil
  show ?case by auto
next
  case (Cons c s)
  show ?case
  proof
    assume "contains p (c # s)"
    then consider r where "c # s = p @ r" | a b where "s = a @ p @ b"
      using Cons by (auto simp: starts_with_iff)
    then show "\<exists>a b. c # s = a @ p @ b"
    proof cases
      case (1 r)
      then show ?thesis by (metis append_Nil)
    next
      case (2 a b)
      then show ?thesis by (metis append_Cons)
    qed
  next
    assume "\<exists>a b. c # s = a @ p @ b"
    then obtain a b where ab: "c # s = a @ p @ b" by blast
    then show "contains p (c # s)"
    proof (cases a)
      case Nil
      then have "starts_with p (c # s)" using ab by (simp add: starts_with_def)
      then show ?thesis by simp
    next
      case (Cons x xs)
      then show ?thesis using ab \<open>contains p s \<longleftrightarrow> _\<close> by auto
    qed
  qed
qed

lemma split_first_SomeD: "split_first d s = Some (a, b) \<Longrightarrow> s = a @ d # b \<and> d \<notin> set a"
  by (induction s arbitrary: a b) (auto split: if_splits)

lemma split_first_append: "d \<notin> set a \<Longrightarrow> split_first d (a @ d # b) = Some (a, b)"
  by (induction a) auto

lemma split_first_None: "split_first d s = None \<longleftrightarrow> d \<notin> set s"
  by (induction s) auto

lemma split_first_length: "split_first d s = Some (a, b) \<Longrightarrow> length b < length s"
  by (drule split_first_SomeD) auto

section \<open>White space and case\<close>

text \<open>The UTF-8 encodings of the characters with the Unicode property \<open>White_Space\<close>.\<close>

definition white_space :: "string list" where
  "white_space = map (map (char_of :: nat \<Rightarrow> char))
     ([[9], [10], [11], [12], [13], [32], [0xC2, 0x85], [0xC2, 0xA0], [0xE1, 0x9A, 0x80]] @
      map (\<lambda>k. [0xE2, 0x80, 0x80 + k]) [0..<11] @
      [[0xE2, 0x80, 0xA8], [0xE2, 0x80, 0xA9], [0xE2, 0x80, 0xAF], [0xE2, 0x81, 0x9F], [0xE3, 0x80, 0x80]])"

lemma white_space_nonempty: "w \<in> set white_space \<Longrightarrow> w \<noteq> []"
  by (auto simp: white_space_def)

function strip_white :: "string list \<Rightarrow> string \<Rightarrow> string" where
  "strip_white ws s = (case find (\<lambda>w. w \<noteq> [] \<and> starts_with w s) ws of
     None \<Rightarrow> s | Some w \<Rightarrow> strip_white ws (drop (length w) s))"
  by auto
termination
  by (relation "measure (\<lambda>(ws, s). length s)") (auto simp: find_Some_iff starts_with_iff)

declare strip_white.simps [simp del]

definition trim_start :: "string \<Rightarrow> string" where
  "trim_start s = strip_white white_space s"

definition trim_end :: "string \<Rightarrow> string" where
  "trim_end s = rev (strip_white (map rev white_space) (rev s))"

definition trim :: "string \<Rightarrow> string" where
  "trim s = trim_end (trim_start s)"

text \<open>Text whose ends are printable ASCII is left alone.\<close>

definition plain_char :: "char \<Rightarrow> bool" where
  "plain_char c \<longleftrightarrow> 32 < (of_char c :: nat) \<and> (of_char c :: nat) < 128"

lemma white_space_bytes:
  "w \<in> set white_space \<Longrightarrow> \<not> plain_char (w ! 0) \<and> \<not> plain_char (rev w ! 0)"
proof -
  have "list_all (\<lambda>w. \<not> plain_char (w ! 0) \<and> \<not> plain_char (rev w ! 0)) white_space"
    by code_simp
  then show "w \<in> set white_space \<Longrightarrow> \<not> plain_char (w ! 0) \<and> \<not> plain_char (rev w ! 0)"
    by (simp add: list_all_iff)
qed

lemma strip_white_plain:
  assumes "\<forall>w \<in> set ws. \<not> plain_char (w ! 0)" and "s = [] \<or> plain_char (s ! 0)"
  shows "strip_white ws s = s"
proof -
  have "find (\<lambda>w. w \<noteq> [] \<and> starts_with w s) ws = None"
    using assms by (auto simp: find_None_iff starts_with_iff nth_append)
  then show ?thesis by (simp add: strip_white.simps)
qed

lemma trim_plain:
  assumes "s = [] \<or> plain_char (s ! 0) \<and> plain_char (last s)"
  shows "trim s = s"
proof -
  have "trim_start s = s"
    unfolding trim_start_def using assms white_space_bytes by (intro strip_white_plain) auto
  moreover have "strip_white (map rev white_space) (rev s) = rev s"
  proof (rule strip_white_plain)
    show "\<forall>w \<in> set (map rev white_space). \<not> plain_char (w ! 0)" using white_space_bytes by auto
    show "rev s = [] \<or> plain_char (rev s ! 0)"
      using assms by (cases s rule: rev_cases) auto
  qed
  ultimately show ?thesis by (simp add: trim_def trim_end_def)
qed

definition ascii_lower :: "char \<Rightarrow> char" where
  "ascii_lower c = (let n = of_char c :: nat in if 65 \<le> n \<and> n \<le> 90 then char_of (n + 32) else c)"

definition to_ascii_lowercase :: "string \<Rightarrow> string" where
  "to_ascii_lowercase s = map ascii_lower s"

definition eq_ignore_ascii_case :: "string \<Rightarrow> string \<Rightarrow> bool" where
  "eq_ignore_ascii_case s t \<longleftrightarrow> to_ascii_lowercase s = to_ascii_lowercase t"

section \<open>Decimal numbers\<close>

definition digit_char :: "nat \<Rightarrow> char" where
  "digit_char n = char_of (48 + n)"

definition digit_val :: "char \<Rightarrow> nat option" where
  "digit_val c = (let n = of_char c :: nat in if 48 \<le> n \<and> n \<le> 57 then Some (n - 48) else None)"

fun show_nat :: "nat \<Rightarrow> string" where
  "show_nat n = (if n < 10 then [digit_char n] else show_nat (n div 10) @ [digit_char (n mod 10)])"

declare show_nat.simps [simp del]

text \<open>
  \<open>parse::<uN>\<close> for \<open>2^N = lim\<close>: an optional \<open>+\<close>, then one or more digits, checked for overflow
  at each step.
\<close>

fun parse_digits :: "nat \<Rightarrow> nat \<Rightarrow> string \<Rightarrow> nat option" where
  "parse_digits lim acc [] = Some acc"
| "parse_digits lim acc (c # cs) = (case digit_val c of None \<Rightarrow> None
     | Some d \<Rightarrow> if acc * 10 + d < lim then parse_digits lim (acc * 10 + d) cs else None)"

definition parse_uint :: "nat \<Rightarrow> string \<Rightarrow> nat option" where
  "parse_uint lim s = (case s of [] \<Rightarrow> None
     | c # cs \<Rightarrow> if c = CHR ''+'' then (if cs = [] then None else parse_digits lim 0 cs)
                else parse_digits lim 0 s)"

definition parse_u16 :: "string \<Rightarrow> u16 option" where
  "parse_u16 s = map_option of_nat (parse_uint (2 ^ 16) s)"

definition parse_u32 :: "string \<Rightarrow> u32 option" where
  "parse_u32 s = map_option of_nat (parse_uint (2 ^ 32) s)"

lemma digit_chars [texts]:
  "digit_char 0 = CHR ''0''" "digit_char (Suc 0) = CHR ''1''" "digit_char 1 = CHR ''1''" "digit_char 2 = CHR ''2''"
  "digit_char 3 = CHR ''3''" "digit_char 4 = CHR ''4''" "digit_char 5 = CHR ''5''" "digit_char 6 = CHR ''6''"
  "digit_char 7 = CHR ''7''" "digit_char 8 = CHR ''8''" "digit_char 9 = CHR ''9''"
  by code_simp+

lemma digit_val_char [simp]: "n < 10 \<Longrightarrow> digit_val (digit_char n) = Some n"
  by (simp add: digit_val_def digit_char_def of_char_of take_bit_nat_eq_self)

lemma parse_digits_append:
  "parse_digits lim acc (s @ t) =
     (case parse_digits lim acc s of None \<Rightarrow> None | Some a \<Rightarrow> parse_digits lim a t)"
  by (induction lim acc s rule: parse_digits.induct) (auto split: option.splits)

lemma parse_digits_show: "n < lim \<Longrightarrow> parse_digits lim 0 (show_nat n) = Some n"
  by (induction n rule: show_nat.induct)
    (subst show_nat.simps, simp add: parse_digits_append)

lemma digit_char_plain: "n < 10 \<Longrightarrow> plain_char (digit_char n)"
  by (simp add: plain_char_def digit_char_def of_char_of take_bit_nat_eq_self)

lemma show_nat_digits: "c \<in> set (show_nat n) \<Longrightarrow> \<exists>d < 10. c = digit_char d"
proof (induction n rule: show_nat.induct)
  case (1 n)
  have "c \<in> set (show_nat (n div 10)) \<or> c = digit_char (n mod 10)" if "\<not> n < 10"
    using 1(2) that by (subst (asm) show_nat.simps) auto
  moreover have "c = digit_char n" if "n < 10"
    using 1(2) that by (subst (asm) show_nat.simps) auto
  ultimately show ?case
    using 1(1) by (metis mod_less_divisor zero_less_numeral)
qed

lemma show_nat_nonempty [simp]: "show_nat n \<noteq> []"
  by (subst show_nat.simps) simp

lemma digit_char_neq: "n < 10 \<Longrightarrow> (of_char c :: nat) < 48 \<or> 57 < (of_char c :: nat) \<Longrightarrow> digit_char n \<noteq> c"
  by (auto simp: digit_char_def of_char_of take_bit_nat_eq_self)

lemma show_nat_avoids:
  "(of_char c :: nat) < 48 \<or> 57 < (of_char c :: nat) \<Longrightarrow> c \<notin> set (show_nat n)"
  using show_nat_digits digit_char_neq by blast

lemma parse_uint_show: "n < lim \<Longrightarrow> parse_uint lim (show_nat n) = Some n"
proof -
  assume "n < lim"
  moreover have "CHR ''+'' \<notin> set (show_nat n)" by (rule show_nat_avoids) simp
  ultimately show ?thesis
    using parse_digits_show [of n lim] by (cases "show_nat n") (auto simp: parse_uint_def)
qed

lemma parse_digits_bound: "parse_digits lim acc s = Some n \<Longrightarrow> acc < lim \<Longrightarrow> n < lim"
  by (induction lim acc s rule: parse_digits.induct) (auto split: option.splits if_splits)

lemma parse_uint_bound: "parse_uint lim s = Some n \<Longrightarrow> 0 < lim \<Longrightarrow> n < lim"
  unfolding parse_uint_def
  by (auto simp del: parse_digits.simps split: list.splits if_splits dest: parse_digits_bound)

lemma parse_u16_show [texts]: "parse_u16 (show_nat (unat n)) = Some n"
  using unsigned_less [of n, where ?'a = nat] by (simp add: parse_u16_def parse_uint_show)

lemma parse_u32_show [texts]: "parse_u32 (show_nat (unat n)) = Some n"
  using unsigned_less [of n, where ?'a = nat] by (simp add: parse_u32_def parse_uint_show)

lemma show_nat_inject: "show_nat m = show_nat n \<longleftrightarrow> m = n"
  by (metis less_SucI lessI max.cobounded1 max.cobounded2 le_imp_less_Suc option.inject parse_uint_show)

end
