(* ===== verification/Version.thy ===== *)
theory Version
  imports Text
begin

text \<open>
  Version constraints of the shell resolver, \<open>crates/psroot-shell-resolver/src/version.rs\<close>:
  parsing of versions and requirements, the comparison, and matching. Components are \<open>u32\<close>;
  the release profile leaves overflow unchecked, so \<open>+= 1\<close> wraps.
\<close>

section \<open>The code\<close>

datatype Ordering = Less | Equal | Greater

datatype Op = Eq | Ge | Gt | Le | Lt | Tilde

record version_req =
  vr_raw :: string
  vr_op :: Op
  vr_target :: "u32 list"

definition parse_version :: "string \<Rightarrow> u32 list" where
  "parse_version s = List.map_filter parse_u32 (split_on (CHR ''.'') (trim s))"

definition get_or_zero :: "u32 list \<Rightarrow> nat \<Rightarrow> u32" where
  "get_or_zero v i = (if i < length v then v ! i else 0)"

fun cmp_loop :: "u32 list \<Rightarrow> u32 list \<Rightarrow> nat list \<Rightarrow> Ordering" where
  "cmp_loop a b [] = Equal"
| "cmp_loop a b (i # is) =
     (let av = get_or_zero a i; bv = get_or_zero b i in
      if av < bv then Less else if bv < av then Greater else cmp_loop a b is)"

definition cmp_versions :: "u32 list \<Rightarrow> u32 list \<Rightarrow> Ordering" where
  "cmp_versions a b = cmp_loop a b [0..<max (length a) (length b)]"

definition split_op :: "string \<Rightarrow> Op \<times> string" where
  "split_op s = (case strip_prefix ''>='' s of Some r \<Rightarrow> (Ge, r)
     | None \<Rightarrow> (case strip_prefix ''<='' s of Some r \<Rightarrow> (Le, r)
     | None \<Rightarrow> (case strip_prefix ''>'' s of Some r \<Rightarrow> (Gt, r)
     | None \<Rightarrow> (case strip_prefix ''<'' s of Some r \<Rightarrow> (Lt, r)
     | None \<Rightarrow> (case strip_prefix ''~'' s of Some r \<Rightarrow> (Tilde, r)
     | None \<Rightarrow> (case strip_prefix ''='' s of Some r \<Rightarrow> (Eq, r)
     | None \<Rightarrow> (Eq, s)))))))"

definition req_parse :: "string \<Rightarrow> version_req option" where
  "req_parse s0 = (let s = trim s0; (opr, rest) = split_op s; target = parse_version rest in
     if target = [] then None else Some \<lparr>vr_raw = s, vr_op = opr, vr_target = target\<rparr>)"

definition tilde_matches :: "u32 list \<Rightarrow> u32 list \<Rightarrow> bool" where
  "tilde_matches v target =
     (if length v < length target then False
      else if cmp_versions v target = Less then False
      else if 2 \<le> length target then
        (let upper = take 2 target in cmp_versions v (upper[1 := upper ! 1 + 1]) = Less)
      else if length target = 1 then cmp_versions v (target[0 := target ! 0 + 1]) = Less
      else True)"

definition req_matches :: "version_req \<Rightarrow> string \<Rightarrow> bool" where
  "req_matches r version =
     (let v = parse_version version; target = vr_target r; ord = cmp_versions v target in
      case vr_op r of
        Eq \<Rightarrow> ord = Equal \<or> (length target \<le> length v \<and> take (length target) v = target)
      | Ge \<Rightarrow> ord \<noteq> Less
      | Gt \<Rightarrow> ord = Greater
      | Le \<Rightarrow> ord \<noteq> Greater
      | Lt \<Rightarrow> ord = Less
      | Tilde \<Rightarrow> tilde_matches v target)"

section \<open>The comparison is the order of zero-padded sequences\<close>

lemma get_or_zero_simps [simp]:
  "get_or_zero (x # a) 0 = x" "get_or_zero (x # a) (Suc i) = get_or_zero a i"
  by (simp_all add: get_or_zero_def)

lemma get_or_zero_Nil: "get_or_zero [] i = 0"
  by (simp add: get_or_zero_def)

lemma cmp_loop_Suc: "cmp_loop (x # a) (y # b) (map Suc is) = cmp_loop a b is"
  "cmp_loop [] (y # b) (map Suc is) = cmp_loop [] b is"
  "cmp_loop (x # a) [] (map Suc is) = cmp_loop a [] is"
  by (induction "is") (simp_all add: Let_def get_or_zero_Nil)

lemma upt_Suc_Cons: "[0..<Suc n] = 0 # map Suc [0..<n]"
  by (metis map_Suc_upt upt_conv_Cons zero_less_Suc)

lemma cmp_versions_simps [simp]:
  "cmp_versions [] [] = Equal"
  "cmp_versions (x # a) (y # b) =
     (if x < y then Less else if y < x then Greater else cmp_versions a b)"
  "cmp_versions [] (y # b) = (if 0 < y then Less else cmp_versions [] b)"
  "cmp_versions (x # a) [] = (if 0 < x then Greater else cmp_versions a [])"
  by (simp_all add: cmp_versions_def upt_Suc_Cons cmp_loop_Suc Let_def get_or_zero_Nil del: upt_Suc)

definition seq_less :: "(nat \<Rightarrow> u32) \<Rightarrow> (nat \<Rightarrow> u32) \<Rightarrow> bool" where
  "seq_less f g \<longleftrightarrow> (\<exists>i. f i < g i \<and> (\<forall>j < i. f j = g j))"

abbreviation ver_less :: "u32 list \<Rightarrow> u32 list \<Rightarrow> bool" where
  "ver_less a b \<equiv> seq_less (get_or_zero a) (get_or_zero b)"

lemma seq_less_step:
  "seq_less f g \<longleftrightarrow> f 0 < g 0 \<or> f 0 = g 0 \<and> seq_less (\<lambda>i. f (Suc i)) (\<lambda>i. g (Suc i))"
proof
  assume "seq_less f g"
  then obtain i where i: "f i < g i" "\<forall>j < i. f j = g j" by (auto simp: seq_less_def)
  show "f 0 < g 0 \<or> f 0 = g 0 \<and> seq_less (\<lambda>i. f (Suc i)) (\<lambda>i. g (Suc i))"
  proof (cases i)
    case 0
    then show ?thesis using i by simp
  next
    case (Suc k)
    then have "seq_less (\<lambda>i. f (Suc i)) (\<lambda>i. g (Suc i))"
      unfolding seq_less_def using i by (intro exI [of _ k]) simp
    then show ?thesis using i Suc by simp
  qed
next
  assume "f 0 < g 0 \<or> f 0 = g 0 \<and> seq_less (\<lambda>i. f (Suc i)) (\<lambda>i. g (Suc i))"
  then show "seq_less f g"
  proof
    assume "f 0 < g 0"
    then show ?thesis unfolding seq_less_def by (intro exI [of _ 0]) simp
  next
    assume *: "f 0 = g 0 \<and> seq_less (\<lambda>i. f (Suc i)) (\<lambda>i. g (Suc i))"
    then obtain i where "f (Suc i) < g (Suc i)" "\<forall>j < i. f (Suc j) = g (Suc j)"
      by (auto simp: seq_less_def)
    then show ?thesis
      unfolding seq_less_def using * by (intro exI [of _ "Suc i"]) (auto simp: less_Suc_eq_0_disj)
  qed
qed

lemma ver_less_simps [simp]:
  "\<not> ver_less a []"
  "ver_less (x # a) (y # b) \<longleftrightarrow> x < y \<or> x = y \<and> ver_less a b"
  "ver_less [] (y # b) \<longleftrightarrow> 0 < y \<or> y = 0 \<and> ver_less [] b"
  using seq_less_step [of "get_or_zero (x # a)" "get_or_zero (y # b)"]
    seq_less_step [of "get_or_zero []" "get_or_zero (y # b)"]
  by (auto simp: seq_less_def get_or_zero_Nil)

lemma cmp_Less_iff: "cmp_versions a b = Less \<longleftrightarrow> ver_less a b"
proof (induction a b rule: list_induct2')
  case (2 x xs)
  have "cmp_versions v [] \<noteq> Less" for v by (induction v) simp_all
  then show ?case by simp
next
  case (3 y ys)
  have "cmp_versions [] v = Less \<longleftrightarrow> ver_less [] v" for v
    by (induction v) (auto simp: word_gt_0)
  then show ?case by blast
qed (auto simp: not_less_iff_gr_or_eq)

lemma cmp_swap: "cmp_versions a b = Greater \<longleftrightarrow> cmp_versions b a = Less"
proof (induction a b rule: list_induct2')
  case (2 x xs)
  have "cmp_versions v [] = Greater \<longleftrightarrow> cmp_versions [] v = Less" for v by (induction v) simp_all
  then show ?case by blast
next
  case (3 y ys)
  have "cmp_versions v [] \<noteq> Less" "cmp_versions [] v \<noteq> Greater" for v by (induction v) simp_all
  then show ?case by blast
qed auto

lemma seq_less_linear:
  assumes "f \<noteq> g"
  shows "seq_less f g \<or> seq_less g f"
proof -
  obtain k where "f k \<noteq> g k" using assms by blast
  define i where "i = (LEAST i. f i \<noteq> g i)"
  have "f i \<noteq> g i" using \<open>f k \<noteq> g k\<close> unfolding i_def by (rule LeastI)
  moreover have "\<forall>j < i. f j = g j" unfolding i_def using not_less_Least by blast
  ultimately show ?thesis
    unfolding seq_less_def by (metis less_linear)
qed

lemma seq_less_irrefl: "\<not> seq_less f f"
  by (simp add: seq_less_def)

lemma cmp_Equal_iff: "cmp_versions a b = Equal \<longleftrightarrow> get_or_zero a = get_or_zero b"
proof -
  have "cmp_versions a b = Equal \<longleftrightarrow> \<not> ver_less a b \<and> \<not> ver_less b a"
    using cmp_Less_iff [of a b] cmp_Less_iff [of b a] cmp_swap [of a b]
    by (cases "cmp_versions a b") auto
  then show ?thesis using seq_less_linear seq_less_irrefl by metis
qed

section \<open>Printing and parsing\<close>

definition show_version :: "u32 list \<Rightarrow> string" where
  "show_version v = join_with ''.'' (map (\<lambda>c. show_nat (unat c)) v)"

definition op_text :: "Op \<Rightarrow> string" where
  "op_text opr = (case opr of Eq \<Rightarrow> ''='' | Ge \<Rightarrow> ''>='' | Gt \<Rightarrow> ''>'' | Le \<Rightarrow> ''<='' | Lt \<Rightarrow> ''<'' | Tilde \<Rightarrow> ''~'')"

lemma plain_split: "CHR ''.'' \<notin> set (show_nat n)"
  by (rule show_nat_avoids) simp

lemma join_with_set: "set (join_with d ps) \<subseteq> (\<Union>p \<in> set ps. set p) \<union> set d"
  by (induction d ps rule: join_with.induct) auto

lemma show_version_plain: "c \<in> set (show_version v) \<Longrightarrow> plain_char c"
proof -
  assume "c \<in> set (show_version v)"
  then have "(\<exists>n. c \<in> set (show_nat n)) \<or> c = CHR ''.''"
    using join_with_set [of "''.''" "map (\<lambda>c. show_nat (unat c)) v"] by (auto simp: show_version_def)
  then show ?thesis
    using show_nat_digits digit_char_plain by (auto simp: plain_char_def)
qed

lemma trim_all_plain: "(\<forall>c \<in> set s. plain_char c) \<Longrightarrow> trim s = s"
  by (rule trim_plain) (cases s; auto simp: nth_Cons)

lemma parse_show_version [texts]: "parse_version (show_version v) = v"
proof (cases "v = []")
  case True
  then show ?thesis
    by (simp add: parse_version_def show_version_def trim_plain List.map_filter_simps parse_u32_def parse_uint_def)
next
  case False
  have "trim (show_version v) = show_version v"
    using show_version_plain by (intro trim_all_plain) blast
  then have "parse_version (show_version v) = List.map_filter parse_u32 (map (\<lambda>c. show_nat (unat c)) v)"
    using False plain_split by (simp add: parse_version_def show_version_def split_join)
  also have "\<dots> = v"
    by (induction v) (simp_all add: List.map_filter_simps parse_u32_show)
  finally show ?thesis .
qed

lemma show_version_head:
  assumes "v \<noteq> []"
  obtains d s where "show_version v = digit_char d # s" "d < 10"
proof -
  obtain c v' where v: "v = c # v'" using assms by (cases v) simp_all
  obtain x s where x: "show_nat (unat c) = x # s" using show_nat_nonempty by (meson neq_Nil_conv)
  then obtain d where "d < 10" "x = digit_char d" using show_nat_digits [of x "unat c"] by auto
  moreover have "\<exists>s'. show_version v = x # s'"
    using v x by (cases v') (simp_all add: show_version_def)
  ultimately show thesis using that by blast
qed

lemma split_op_text [texts]:
  assumes "v \<noteq> []"
  shows "split_op (op_text opr @ show_version v) = (opr, show_version v)"
proof -
  obtain d s where "show_version v = digit_char d # s" "d < 10" using show_version_head [OF assms] .
  moreover have "digit_char d \<noteq> CHR ''=''" using \<open>d < 10\<close> by (rule digit_char_neq) simp
  ultimately show ?thesis
    by (cases opr) (simp_all add: split_op_def op_text_def strip_prefix_def)
qed

lemma req_parse_text:
  assumes "v \<noteq> []"
  shows "req_parse (op_text opr @ show_version v) =
    Some \<lparr>vr_raw = op_text opr @ show_version v, vr_op = opr, vr_target = v\<rparr>"
proof -
  have "trim (op_text opr @ show_version v) = op_text opr @ show_version v"
    using show_version_plain by (intro trim_all_plain) (auto simp: op_text_def plain_char_def split: Op.splits)
  then show ?thesis
    using assms by (simp add: req_parse_def split_op_text parse_show_version)
qed

section \<open>What a requirement means\<close>

text \<open>
  The promise of the module comment, over zero-padded sequences: \<open>~a.b...\<close> is the band of
  versions from the target on with the same first two components.
\<close>

definition satisfies :: "Op \<Rightarrow> u32 list \<Rightarrow> u32 list \<Rightarrow> bool" where
  "satisfies opr v t \<longleftrightarrow> (case opr of
       Eq \<Rightarrow> get_or_zero v = get_or_zero t \<or> (\<exists>rest. v = t @ rest)
     | Ge \<Rightarrow> \<not> ver_less v t
     | Gt \<Rightarrow> ver_less t v
     | Le \<Rightarrow> \<not> ver_less t v
     | Lt \<Rightarrow> ver_less v t
     | Tilde \<Rightarrow> length t \<le> length v \<and> \<not> ver_less v t \<and> take (min 2 (length t)) v = take 2 t)"

lemma tilde_band:
  assumes "t \<noteq> []" and "t ! (min 1 (length t - 1)) \<noteq> - 1"
  shows "tilde_matches v t \<longleftrightarrow> satisfies Tilde v t"
proof -
  consider a where "t = [a]" | a b t' where "t = a # b # t'"
    using assms(1) by (metis list.exhaust)
  then show ?thesis
  proof cases
    case 1
    show ?thesis
    proof (cases v)
      case (Cons x v')
      have "x < a + 1 \<longleftrightarrow> x < a \<or> x = a" using assms(2) 1 word_less_succ_iff by simp
      then show ?thesis using 1 Cons
        by (auto simp: tilde_matches_def satisfies_def cmp_Less_iff)
    qed (use 1 in \<open>simp add: tilde_matches_def satisfies_def\<close>)
  next
    case 2
    show ?thesis
    proof (cases "length v < length t")
      case False
      then obtain x y v' where v: "v = x # y # v'" using 2 by (cases v; cases "tl v") auto
      have "y < b + 1 \<longleftrightarrow> y < b \<or> y = b" using assms(2) 2 word_less_succ_iff by simp
      then show ?thesis using 2 v False
        by (auto simp: tilde_matches_def satisfies_def cmp_Less_iff)
    qed (simp add: tilde_matches_def satisfies_def)
  qed
qed

text \<open>
  C15. A requirement printed from an operator and a non-empty version parses to that operator
  and version, and matches a printed version exactly when the operator's relation holds between
  the zero-padded component sequences (for \<open>~\<close>, when incrementing its second, or only,
  component does not overflow; for \<open>=\<close>, also every version it is a prefix of).
\<close>

theorem version_req_meaning:
  assumes "t \<noteq> []" and "opr = Tilde \<Longrightarrow> t ! (min 1 (length t - 1)) \<noteq> - 1"
  shows "\<exists>r. req_parse (op_text opr @ show_version t) = Some r \<and>
    (\<forall>v. req_matches r (show_version v) \<longleftrightarrow> satisfies opr v t)"
proof -
  let ?r = "\<lparr>vr_raw = op_text opr @ show_version t, vr_op = opr, vr_target = t\<rparr>"
  have "req_matches ?r (show_version v) \<longleftrightarrow> satisfies opr v t" for v
  proof (cases opr)
    case Eq
    have "(length t \<le> length v \<and> take (length t) v = t) \<longleftrightarrow> (\<exists>rest. v = t @ rest)"
      by (metis append_eq_conv_conj append_take_drop_id le_add1 length_append)
    then show ?thesis
      using Eq by (simp add: req_matches_def parse_show_version satisfies_def cmp_Equal_iff)
  next
    case Tilde
    then show ?thesis
      using tilde_band [OF assms(1) assms(2)] by (simp add: req_matches_def parse_show_version)
  qed (simp_all add: req_matches_def parse_show_version satisfies_def cmp_Less_iff cmp_swap)
  then show ?thesis using req_parse_text [OF assms(1)] by blast
qed

theorem version_req_meaning_witness:
  "\<exists>r. req_parse ''~7.5'' = Some r \<and>
     req_matches r ''7.5.99'' \<and> \<not> req_matches r ''7.6.0'' \<and> \<not> req_matches r ''7.4.99''"
proof -
  have texts_7: "op_text Tilde @ show_version [7, 5] = ''~7.5''" "show_version [7, 5, 99] = ''7.5.99''"
    "show_version [7, 6, 0] = ''7.6.0''" "show_version [7, 4, 99] = ''7.4.99''"
    by code_simp+
  obtain r where r: "req_parse ''~7.5'' = Some r" "\<And>v. req_matches r (show_version v) \<longleftrightarrow> satisfies Tilde v [7, 5]"
    using version_req_meaning [of "[7, 5]" Tilde] texts_7 by auto
  have "req_matches r ''7.5.99''" "\<not> req_matches r ''7.6.0''" "\<not> req_matches r ''7.4.99''"
    using r(2) [of "[7, 5, 99]"] r(2) [of "[7, 6, 0]"] r(2) [of "[7, 4, 99]"] texts_7
    by (simp_all add: satisfies_def)
  then show ?thesis using r(1) by blast
qed

end
