(* ===== verification/Catalog.thy ===== *)
theory Catalog
  imports Text
begin

text \<open>
  The shell catalog, \<open>crates/psroot-shell-resolver/src/catalog\<close>: the schema of an entry, and the
  merged catalog with its index of names and aliases. Two things are parameters: \<open>lower\<close>, Rust's
  Unicode \<open>to_lowercase\<close>, and \<open>parse\<close>, the TOML deserialiser.
\<close>

section \<open>Schema\<close>

datatype ProbeRule =
    Env string
  | Path string
  | Registry string string string

record StageRule =
  sr_op :: string
  sr_src :: "string option"
  sr_dst :: string
  sr_exclude :: "string list"
  sr_content :: "string option"

record AceRule =
  ar_path :: string
  ar_access :: string
  ar_inherit :: bool

record LaunchRule =
  lr_entry :: string
  lr_args :: "string list"
  lr_cwd :: string
  lr_env :: "(string \<times> string) list"   \<comment> \<open>a \<open>BTreeMap\<close> in key order\<close>

record VersionRule =
  ver_detect :: string
  ver_min :: "string option"

record CatalogFile =
  cf_name :: string
  cf_display :: string
  cf_aliases :: "string list"
  cf_prefer_global :: bool
  cf_probe :: "ProbeRule list"
  cf_stage :: "StageRule list"
  cf_ace :: "AceRule list"
  cf_launch :: LaunchRule
  cf_caps_when_outbound :: "string list"
  cf_caps_when_full :: "string list"
  cf_version :: "VersionRule option"

section \<open>The merged catalog\<close>

record catalog =
  cat_entries :: "CatalogFile list"
  cat_by_name :: "string \<rightharpoonup> nat"

definition catalog_default :: catalog where
  "catalog_default = \<lparr>cat_entries = [], cat_by_name = Map.empty\<rparr>"

text \<open>
  \<open>add\<close>. The index is consulted again after the update; a missing key, the \<open>expect\<close> of the code,
  and an index past the end of \<open>entries\<close>, a panic, are \<open>None\<close>.
\<close>

definition catalog_add :: "(string \<Rightarrow> string) \<Rightarrow> CatalogFile \<Rightarrow> catalog \<Rightarrow> catalog option" where
  "catalog_add lower entry c =
     (let key = lower (cf_name entry);
          c1 = (case cat_by_name c key of
              Some idx \<Rightarrow>
                (if idx < length (cat_entries c) then Some (c\<lparr>cat_entries := (cat_entries c)[idx := entry]\<rparr>)
                 else None)
            | None \<Rightarrow> Some (c\<lparr>cat_entries := cat_entries c @ [entry],
                cat_by_name := (cat_by_name c)(key \<mapsto> length (cat_entries c @ [entry]) - 1)\<rparr>))
      in Option.bind c1 (\<lambda>c1. Option.bind (cat_by_name c1 key) (\<lambda>idx.
        Some (c1\<lparr>cat_by_name := fold (\<lambda>a m. m(lower a \<mapsto> idx)) (cf_aliases entry) (cat_by_name c1)\<rparr>))))"

definition catalog_lookup :: "(string \<Rightarrow> string) \<Rightarrow> string \<Rightarrow> catalog \<Rightarrow> CatalogFile option option" where
  "catalog_lookup lower name c = (case cat_by_name c (lower name) of
       None \<Rightarrow> Some None
     | Some i \<Rightarrow> if i < length (cat_entries c) then Some (Some (cat_entries c ! i)) else None)"

definition list_known :: "catalog \<Rightarrow> string list" where
  "list_known c = map cf_name (cat_entries c)"

definition merge_file :: "(string \<Rightarrow> string) \<Rightarrow> (string \<Rightarrow> 'e + CatalogFile) \<Rightarrow> string \<Rightarrow> catalog \<Rightarrow>
    ('e option \<times> catalog) option" where
  "merge_file lower parse src c = (case parse src of
       Inl e \<Rightarrow> Some (Some e, c)
     | Inr entry \<Rightarrow> map_option (Pair None) (catalog_add lower entry c))"

text \<open>
  \<open>merge_dir\<close>: \<open>None\<close> when the directory cannot be read; each file is its extension and, if it
  can be read, its text. Failures are logged and skipped.
\<close>

definition merge_dir_entry :: "(string \<Rightarrow> string) \<Rightarrow> (string \<Rightarrow> 'e + CatalogFile) \<Rightarrow>
    string option \<times> string option \<Rightarrow> catalog \<Rightarrow> catalog option" where
  "merge_dir_entry lower parse = (\<lambda>(ext, text) c.
     if ext \<noteq> Some ''toml'' then Some c
     else (case text of None \<Rightarrow> Some c
       | Some src \<Rightarrow> map_option snd (merge_file lower parse src c)))"

definition merge_dir :: "(string \<Rightarrow> string) \<Rightarrow> (string \<Rightarrow> 'e + CatalogFile) \<Rightarrow>
    (string option \<times> string option) list option \<Rightarrow> catalog \<Rightarrow> catalog option" where
  "merge_dir lower parse files c = (case files of None \<Rightarrow> Some c
     | Some fs \<Rightarrow> fold (\<lambda>f r. Option.bind r (merge_dir_entry lower parse f)) fs (Some c))"

definition catalog_builtin :: "(string \<Rightarrow> string) \<Rightarrow> (string \<Rightarrow> 'e + CatalogFile) \<Rightarrow> string list \<Rightarrow>
    catalog option" where
  "catalog_builtin lower parse srcs =
     fold (\<lambda>src r. Option.bind r (\<lambda>c. case parse src of
         Inr entry \<Rightarrow> catalog_add lower entry c
       | Inl e \<Rightarrow> Some c)) srcs (Some catalog_default)"

section \<open>What a store of named entries promises\<close>

text \<open>
  The contract the resolver needs: adding never fails on a well-formed store, keeps it so, makes
  the entry visible under all its keys, and changes other keys only to show the new entry.
\<close>

locale named_store =
  fixes add :: "'e \<Rightarrow> 's \<Rightarrow> 's option" and get :: "'k \<Rightarrow> 's \<Rightarrow> 'e option"
    and keys :: "'e \<Rightarrow> 'k set" and inv :: "'s \<Rightarrow> bool"
  assumes add_ok: "inv s \<Longrightarrow> \<exists>s'. add e s = Some s' \<and> inv s'"
    and get_added: "inv s \<Longrightarrow> add e s = Some s' \<Longrightarrow> k \<in> keys e \<Longrightarrow> get k s' = Some e"
    and get_other: "inv s \<Longrightarrow> add e s = Some s' \<Longrightarrow> get k s' = get k s \<or> get k s' = Some e"
begin

lemma get_found: "inv s \<Longrightarrow> add e s = Some s' \<Longrightarrow> get k s = Some x \<Longrightarrow> \<exists>y \<in> {x, e}. get k s' = Some y"
  using get_other [of s e s' k] by auto

lemma fold_add:
  assumes "inv s" and "\<And>x r. step x (Some r) = Some r \<or> (\<exists>e. step x (Some r) = add e r)"
  shows "\<exists>s'. fold step xs (Some s) = Some s' \<and> inv s' \<and> (\<forall>k. get k s \<noteq> None \<longrightarrow> get k s' \<noteq> None)"
  using assms(1)
proof (induction xs arbitrary: s)
  case Nil
  then show ?case by simp
next
  case (Cons x xs)
  obtain s1 where s1: "step x (Some s) = Some s1" "inv s1" "\<forall>k. get k s \<noteq> None \<longrightarrow> get k s1 \<noteq> None"
    using assms(2) [of x s] add_ok [OF Cons.prems] get_found [OF Cons.prems] Cons.prems
    by (metis option.distinct(1) option.exhaust)
  then show ?case using Cons.IH [OF s1(2)] by (metis fold_simps(2))
qed

end

section \<open>The catalog is such a store\<close>

definition catalog_ok :: "catalog \<Rightarrow> bool" where
  "catalog_ok c \<longleftrightarrow> (\<forall>i \<in> ran (cat_by_name c). i < length (cat_entries c))"

definition entry_keys :: "(string \<Rightarrow> string) \<Rightarrow> CatalogFile \<Rightarrow> string set" where
  "entry_keys lower e = lower ` insert (cf_name e) (set (cf_aliases e))"

definition catalog_get :: "string \<Rightarrow> catalog \<Rightarrow> CatalogFile option" where
  "catalog_get k c = map_option (\<lambda>i. cat_entries c ! i) (cat_by_name c k)"

lemma fold_aliases:
  "fold (\<lambda>a m. m(lower a \<mapsto> idx)) as m k = (if k \<in> lower ` set as then Some idx else m k)"
  by (induction as arbitrary: m) auto

lemma catalog_add_result:
  assumes "catalog_ok c"
  shows "\<exists>c' idx. catalog_add lower e c = Some c' \<and> idx < length (cat_entries c') \<and>
    cat_entries c' ! idx = e \<and>
    (\<forall>i < length (cat_entries c). i \<noteq> idx \<longrightarrow> cat_entries c' ! i = cat_entries c ! i) \<and>
    length (cat_entries c) \<le> length (cat_entries c') \<and>
    (case cat_by_name c (lower (cf_name e)) of None \<Rightarrow> idx = length (cat_entries c) | Some i \<Rightarrow> idx = i) \<and>
    (\<forall>k. cat_by_name c' k = (if k \<in> entry_keys lower e then Some idx else cat_by_name c k))"
proof (cases "cat_by_name c (lower (cf_name e))")
  case None
  then show ?thesis
    by (auto simp: catalog_add_def fold_aliases entry_keys_def nth_append)
next
  case (Some i)
  then have "i < length (cat_entries c)" using assms by (auto simp: catalog_ok_def ran_def)
  with Some show ?thesis
    by (auto simp: catalog_add_def fold_aliases entry_keys_def)
qed

lemma catalog_ok_index: "catalog_ok c \<Longrightarrow> cat_by_name c k = Some i \<Longrightarrow> i < length (cat_entries c)"
  by (auto simp: catalog_ok_def ran_def)

lemma catalog_ok_add:
  assumes "catalog_ok c"
  shows "\<exists>c'. catalog_add lower e c = Some c' \<and> catalog_ok c'"
proof -
  obtain c' idx where c': "catalog_add lower e c = Some c'" "idx < length (cat_entries c')"
      "length (cat_entries c) \<le> length (cat_entries c')"
      "\<And>k. cat_by_name c' k = (if k \<in> entry_keys lower e then Some idx else cat_by_name c k)"
    using catalog_add_result [OF assms, of lower e] by blast
  have "i < length (cat_entries c')" if "cat_by_name c' k = Some i" for i k
    using that c'(2-4) catalog_ok_index [OF assms, of k i] by (simp split: if_splits)
  then show ?thesis using c'(1) by (auto simp: catalog_ok_def ran_def)
qed

lemma catalog_get_keys:
  assumes "catalog_ok c" and "catalog_add lower e c = Some c'"
  shows "catalog_get k c' =
    (if k \<in> entry_keys lower e \<or>
        cat_by_name c k \<noteq> None \<and> cat_by_name c k = cat_by_name c (lower (cf_name e))
     then Some e else catalog_get k c)"
proof -
  obtain idx where idx: "cat_entries c' ! idx = e"
      "\<forall>i < length (cat_entries c). i \<noteq> idx \<longrightarrow> cat_entries c' ! i = cat_entries c ! i"
      "case cat_by_name c (lower (cf_name e)) of None \<Rightarrow> idx = length (cat_entries c) | Some i \<Rightarrow> idx = i"
      "\<forall>k. cat_by_name c' k = (if k \<in> entry_keys lower e then Some idx else cat_by_name c k)"
    using catalog_add_result [OF assms(1), of lower e] assms(2) by auto
  show ?thesis
  proof (cases "k \<in> entry_keys lower e")
    case False
    show ?thesis
    proof (cases "cat_by_name c k")
      case (Some i)
      then have "i < length (cat_entries c)" using catalog_ok_index [OF assms(1)] by blast
      then have "i = idx \<longleftrightarrow> cat_by_name c (lower (cf_name e)) = Some i"
        using idx(3) by (auto split: option.splits)
      then show ?thesis
        using False Some idx(1,2,4) \<open>i < _\<close> by (auto simp: catalog_get_def)
    qed (use False idx(4) in \<open>simp add: catalog_get_def\<close>)
  qed (use idx(1,4) in \<open>simp add: catalog_get_def\<close>)
qed

interpretation catalog: named_store "catalog_add lower" catalog_get "entry_keys lower" catalog_ok
  for lower
proof
  show "catalog_ok s \<Longrightarrow> \<exists>s'. catalog_add lower e s = Some s' \<and> catalog_ok s'" for s e
    by (rule catalog_ok_add)
  show "catalog_ok s \<Longrightarrow> catalog_add lower e s = Some s' \<Longrightarrow> k \<in> entry_keys lower e \<Longrightarrow>
      catalog_get k s' = Some e" for s e s' k
    by (simp add: catalog_get_keys)
  show "catalog_ok s \<Longrightarrow> catalog_add lower e s = Some s' \<Longrightarrow>
      catalog_get k s' = catalog_get k s \<or> catalog_get k s' = Some e" for s e s' k
    by (simp add: catalog_get_keys)
qed

lemma lookup_get: "catalog_ok c \<Longrightarrow> catalog_lookup lower n c = Some (catalog_get (lower n) c)"
  by (auto simp: catalog_lookup_def catalog_get_def dest: catalog_ok_index split: option.splits)

lemma catalog_default_ok: "catalog_ok catalog_default"
  by (simp add: catalog_ok_def catalog_default_def)

section \<open>Properties\<close>

text \<open>
  Adding an entry to a well-formed catalog succeeds and keeps it well-formed. Afterwards a
  lookup returns the new entry for its own name and aliases and for every key of the entry that
  was indexed under its name (whose record it replaces), and is unchanged for any other name.
\<close>

theorem catalog_add_lookup:
  assumes "catalog_ok c"
  shows "\<exists>c'. catalog_add lower e c = Some c' \<and> catalog_ok c' \<and>
    (\<forall>n. catalog_lookup lower n c' =
      (if lower n \<in> entry_keys lower e \<or>
          cat_by_name c (lower n) \<noteq> None \<and> cat_by_name c (lower n) = cat_by_name c (lower (cf_name e))
       then Some (Some e) else catalog_lookup lower n c))"
proof -
  obtain c' where c': "catalog_add lower e c = Some c'" "catalog_ok c'"
    using catalog.add_ok [OF assms] by blast
  then show ?thesis
    using assms by (auto simp: lookup_get catalog_get_keys)
qed

definition demo_entry :: "string \<Rightarrow> string list \<Rightarrow> CatalogFile" where
  "demo_entry name aliases = \<lparr>cf_name = name, cf_display = '''', cf_aliases = aliases, cf_prefer_global = False,
     cf_probe = [], cf_stage = [], cf_ace = [],
     cf_launch = \<lparr>lr_entry = '''', lr_args = [], lr_cwd = '''', lr_env = []\<rparr>,
     cf_caps_when_outbound = [], cf_caps_when_full = [], cf_version = None\<rparr>"

theorem catalog_add_lookup_witness:
  "\<exists>c'. catalog_add to_ascii_lowercase (demo_entry ''pwsh'' [''PS7'']) catalog_default = Some c' \<and>
     catalog_lookup to_ascii_lowercase ''PwSh'' c' = Some (Some (demo_entry ''pwsh'' [''PS7''])) \<and>
     catalog_lookup to_ascii_lowercase ''ps7'' c' = Some (Some (demo_entry ''pwsh'' [''PS7''])) \<and>
     catalog_lookup to_ascii_lowercase ''cmd'' c' = Some None"
proof -
  let ?e = "demo_entry ''pwsh'' [''PS7'']"
  have "entry_keys to_ascii_lowercase ?e = {''pwsh'', ''ps7''}" by code_simp
  moreover have "to_ascii_lowercase ''PwSh'' = ''pwsh''" "to_ascii_lowercase ''ps7'' = ''ps7''"
    "to_ascii_lowercase ''cmd'' = ''cmd''" by code_simp+
  moreover have empty_facts: "catalog_lookup lower n catalog_default = Some None"
    "cat_by_name catalog_default k = None" for lower n k
    by (simp_all add: catalog_lookup_def catalog_default_def)
  moreover obtain c' where "catalog_add to_ascii_lowercase ?e catalog_default = Some c'"
    and c': "\<And>n. catalog_lookup to_ascii_lowercase n c' =
      (if to_ascii_lowercase n \<in> entry_keys to_ascii_lowercase ?e then Some (Some ?e) else Some None)"
    using catalog_add_lookup [OF catalog_default_ok, of to_ascii_lowercase ?e]
    unfolding empty_facts by auto
  ultimately show ?thesis
    using c' [of "''PwSh''"] c' [of "''ps7''"] c' [of "''cmd''"] by auto
qed

text \<open>
  Loading the builtin catalogs and merging a user directory never panics, whatever the files
  contain and whichever fail to parse or to be read, and every name that could be looked up before
  the merge can be looked up after it.
\<close>

lemma catalog_load_total:
  "\<exists>c c'. catalog_builtin lower parse srcs = Some c \<and> merge_dir lower parse files c = Some c' \<and>
     (\<forall>n e. catalog_lookup lower n c = Some (Some e) \<longrightarrow> (\<exists>e'. catalog_lookup lower n c' = Some (Some e')))"
proof -
  let ?builtin = "\<lambda>src r. Option.bind r (\<lambda>c. case parse src of
         Inr entry \<Rightarrow> catalog_add lower entry c | Inl e \<Rightarrow> Some c)"
  have builtin_step: "?builtin src (Some r) = Some r \<or> (\<exists>e. ?builtin src (Some r) = catalog_add lower e r)"
    for src r
    by (cases "parse src") auto
  obtain c where c: "catalog_builtin lower parse srcs = Some c" "catalog_ok c"
    using catalog.fold_add [where step = ?builtin and xs = srcs, OF catalog_default_ok builtin_step]
    by (auto simp: catalog_builtin_def)
  have step: "Option.bind (Some r) (merge_dir_entry lower parse f) = Some r \<or>
      (\<exists>e. Option.bind (Some r) (merge_dir_entry lower parse f) = catalog_add lower e r)" for f r
    by (auto simp: merge_dir_entry_def merge_file_def option.map_comp comp_def map_option.identity
        split: option.splits sum.splits prod.splits)
  have "\<exists>c'. merge_dir lower parse files c = Some c' \<and> catalog_ok c' \<and>
      (\<forall>k. catalog_get k c \<noteq> None \<longrightarrow> catalog_get k c' \<noteq> None)"
    using catalog.fold_add [where step = "\<lambda>f r. Option.bind r (merge_dir_entry lower parse f)", OF c(2) step] c(2)
    by (cases files) (auto simp: merge_dir_def)
  then obtain c' where c': "merge_dir lower parse files c = Some c'" "catalog_ok c'"
      "\<forall>k. catalog_get k c \<noteq> None \<longrightarrow> catalog_get k c' \<noteq> None"
    by blast
  then have "\<exists>e'. catalog_lookup lower n c' = Some (Some e')" if "catalog_lookup lower n c = Some (Some e)" for n e
    using that by (auto simp: lookup_get c(2))
  with c(1) c'(1) show ?thesis by blast
qed

theorem catalog_load_total_witness:
  "\<exists>c c'. catalog_builtin to_ascii_lowercase (\<lambda>src. if src = '''' then Inl () else Inr (demo_entry src [])) [''cmd'', ''''] = Some c \<and>
     merge_dir to_ascii_lowercase (\<lambda>src. if src = '''' then Inl () else Inr (demo_entry src [])) (Some [(Some ''toml'', Some ''pwsh'')]) c = Some c'"
  using catalog_load_total [of to_ascii_lowercase "\<lambda>src. if src = '''' then Inl () else Inr (demo_entry src [])"
      "[''cmd'', '''']" "Some [(Some ''toml'', Some ''pwsh'')]"]
  by blast

end
