(* ===== verification/Probe.thy ===== *)
theory Probe
  imports Catalog Version
begin

text \<open>
  Discovery of shells on the host, \<open>crates/psroot-shell-resolver/src/probe.rs\<close>: the choice among
  registry subkeys, and the first probe rule whose directory holds the executable. File system,
  environment, registry contents and the version resource are a record of parameters.
\<close>

section \<open>The code\<close>

record HostShell =
  hs_root :: string
  hs_entry :: string
  hs_version :: string

text \<open>
  An open registry key: its subkeys in enumeration order, each with the named value as a
  \<open>REG_SZ\<close> string if it has one, and the value on the key itself. \<open>po_reg\<close> takes the hive (machine
  or user), key and value name, and is \<open>None\<close> when the key cannot be opened.
\<close>

record reg_key =
  rk_subkeys :: "(string \<times> string option) list"
  rk_value :: "string option"

datatype Hive = LocalMachine | CurrentUser

record probe_os =
  po_env :: "string \<Rightarrow> string option"
  po_is_file :: "string \<Rightarrow> bool"
  po_is_dir :: "string \<Rightarrow> bool"
  po_exists :: "string \<Rightarrow> bool"
  po_parent :: "string \<Rightarrow> string option"
  po_file_name :: "string \<Rightarrow> string option"
  po_join :: "string \<Rightarrow> string \<Rightarrow> string"
  po_reg :: "Hive \<Rightarrow> string \<Rightarrow> string \<Rightarrow> reg_key option"
  po_exe_version :: "string \<Rightarrow> string"

definition windows_dir :: string where
  "windows_dir = ''C:'' @ [CHR 0x5C] @ ''Windows''"

definition program_files_dir :: string where
  "program_files_dir = ''C:'' @ [CHR 0x5C] @ ''Program Files''"

definition env_or :: "(string \<Rightarrow> string option) \<Rightarrow> string \<Rightarrow> string \<Rightarrow> string" where
  "env_or env var dflt = (case env var of Some v \<Rightarrow> v | None \<Rightarrow> dflt)"

definition substitute_probe :: "probe_os \<Rightarrow> string \<Rightarrow> string" where
  "substitute_probe os s =
     replace_all ''{program_files}'' (env_or (po_env os) ''ProgramFiles'' program_files_dir)
       (replace_all ''{system_root}'' (env_or (po_env os) ''SystemRoot'' windows_dir) s)"

text \<open>The enumeration loop; the state is \<open>(chosen_subkey, chosen)\<close>.\<close>

fun reg_choose :: "(string \<times> string option) list \<Rightarrow> (string \<times> string) option \<Rightarrow> (string \<times> string) option" where
  "reg_choose [] chosen = chosen"
| "reg_choose ((sub, None) # ks) chosen = reg_choose ks chosen"
| "reg_choose ((sub, Some s) # ks) chosen =
     reg_choose ks (if case chosen of None \<Rightarrow> True | Some (c, _) \<Rightarrow> str_less c sub
                    then Some (sub, s) else chosen)"

definition parse_hive :: "string \<Rightarrow> Hive option" where
  "parse_hive hive =
     (if hive = ''HKLM'' \<or> hive = ''HKEY_LOCAL_MACHINE'' then Some LocalMachine
      else if hive = ''HKCU'' \<or> hive = ''HKEY_CURRENT_USER'' then Some CurrentUser
      else None)"

definition reg_read_string :: "probe_os \<Rightarrow> string \<Rightarrow> string \<Rightarrow> string \<Rightarrow> string option" where
  "reg_read_string os hive key val =
     Option.bind (parse_hive hive) (\<lambda>root.
     Option.bind (po_reg os root key val) (\<lambda>hk.
       case reg_choose (rk_subkeys hk) None of
         Some (_, s) \<Rightarrow> Some s
       | None \<Rightarrow> rk_value hk))"

definition candidate_root :: "probe_os \<Rightarrow> ProbeRule \<Rightarrow> string option" where
  "candidate_root os rule = (case rule of
       Env var \<Rightarrow> Option.bind (po_env os var) (\<lambda>p.
         if po_is_file os p then po_parent os p
         else if po_is_dir os p then Some p
         else None)
     | Path pattern \<Rightarrow> (let p = substitute_probe os pattern in
         if po_is_file os p then po_parent os p else None)
     | Registry hive key val \<Rightarrow> Option.bind (reg_read_string os hive key val) (\<lambda>p.
         if po_is_dir os p then Some p else None))"

definition probe_entry :: "probe_os \<Rightarrow> CatalogFile \<Rightarrow> string \<Rightarrow> string" where
  "probe_entry os cat root = po_join os root
     (case po_file_name os (lr_entry (cf_launch cat)) of Some n \<Rightarrow> n | None \<Rightarrow> ''shell.exe'')"

definition probe_version :: "probe_os \<Rightarrow> CatalogFile \<Rightarrow> string \<Rightarrow> string" where
  "probe_version os cat entry =
     (if map_option ver_detect (cf_version cat) = Some ''none'' then ''0.0.0.0'' else po_exe_version os entry)"

fun probe_rules :: "probe_os \<Rightarrow> CatalogFile \<Rightarrow> ProbeRule list \<Rightarrow> HostShell option" where
  "probe_rules os cat [] = None"
| "probe_rules os cat (rule # rules) = (case candidate_root os rule of
       None \<Rightarrow> probe_rules os cat rules
     | Some root \<Rightarrow> (let entry = probe_entry os cat root in
         if \<not> po_exists os entry then probe_rules os cat rules
         else Some \<lparr>hs_root = root, hs_entry = entry, hs_version = probe_version os cat entry\<rparr>))"

definition real_find :: "probe_os \<Rightarrow> CatalogFile \<Rightarrow> 'e + HostShell option" where
  "real_find os cat = Inr (probe_rules os cat (cf_probe cat))"

section \<open>Properties\<close>

definition reg_best :: "(string \<times> string option) list \<Rightarrow> (string \<times> string) option \<Rightarrow> string \<Rightarrow> bool" where
  "reg_best ks chosen n \<longleftrightarrow>
     (\<forall>m t. (m, Some t) \<in> set ks \<longrightarrow> \<not> str_less n m) \<and> (\<forall>m t. chosen = Some (m, t) \<longrightarrow> \<not> str_less n m)"

lemma reg_choose_max:
  "reg_choose ks chosen = Some (n, s) \<Longrightarrow>
     ((n, Some s) \<in> set ks \<or> chosen = Some (n, s)) \<and> reg_best ks chosen n"
proof (induction ks chosen rule: reg_choose.induct)
  case (1 chosen)
  then show ?case by (simp add: reg_best_def)
next
  case (2 sub ks chosen)
  then show ?case by (simp add: reg_best_def)
next
  case (3 sub s' ks chosen)
  show ?case
  proof (cases "case chosen of None \<Rightarrow> True | Some (c, _) \<Rightarrow> str_less c sub")
    case True
    have IH: "(n, Some s) \<in> set ks \<or> (sub, s') = (n, s)" "reg_best ks (Some (sub, s')) n"
      using 3 True by auto
    have "\<not> str_less n c" if "chosen = Some (c, t)" for c t
      using True that IH(2) str_less_trans [of n c sub] by (auto simp: reg_best_def)
    then show ?thesis using IH by (auto simp: reg_best_def)
  next
    case False
    then obtain c t where c: "chosen = Some (c, t)" "\<not> str_less c sub"
      by (auto split: option.splits)
    have IH: "(n, Some s) \<in> set ks \<or> chosen = Some (n, s)" "reg_best ks chosen n"
      using 3 False by auto
    have "\<not> str_less n sub"
      using c IH(2) str_less_linear [of c sub] str_less_trans [of n sub c] by (auto simp: reg_best_def)
    then show ?thesis using IH by (auto simp: reg_best_def)
  qed
qed

lemma reg_choose_Some: "reg_choose ks (Some c) \<noteq> None"
proof (induction ks arbitrary: c)
  case (Cons k ks)
  show ?case
  proof (cases k)
    case (Pair n v)
    then show ?thesis by (cases v; cases c) (simp_all add: Cons del: not_None_eq)
  qed
qed simp

lemma reg_choose_None: "reg_choose ks None = None \<longleftrightarrow> (\<forall>(n, v) \<in> set ks. v = None)"
proof (induction ks)
  case (Cons k ks)
  show ?case
  proof (cases k)
    case (Pair n v)
    then show ?thesis using Cons by (cases v) (simp_all add: reg_choose_Some del: not_None_eq)
  qed
qed simp

text \<open>
  When some subkey of an opened registry key holds the value, the registry probe returns the
  value of the subkey with the lexicographically greatest name among those; otherwise it returns
  the value on the key itself.
\<close>

lemma registry_choice:
  assumes "parse_hive hive = Some root" and "po_reg os root key val = Some hk"
  shows "if \<forall>(n, v) \<in> set (rk_subkeys hk). v = None then reg_read_string os hive key val = rk_value hk
    else \<exists>n s. (n, Some s) \<in> set (rk_subkeys hk) \<and> reg_read_string os hive key val = Some s \<and>
      (\<forall>m t. (m, Some t) \<in> set (rk_subkeys hk) \<longrightarrow> m = n \<or> str_less m n)"
proof (cases "reg_choose (rk_subkeys hk) None")
  case None
  then show ?thesis using assms reg_choose_None [of "rk_subkeys hk"] by (simp add: reg_read_string_def)
next
  case (Some ns)
  obtain n s where ns: "ns = (n, s)" by (cases ns)
  have "\<not> (\<forall>(n, v) \<in> set (rk_subkeys hk). v = None)"
    using Some reg_choose_None [of "rk_subkeys hk"] by simp
  moreover have "reg_read_string os hive key val = Some s"
    using assms Some ns by (simp add: reg_read_string_def)
  moreover have "(n, Some s) \<in> set (rk_subkeys hk)" "reg_best (rk_subkeys hk) None n"
    using reg_choose_max [of "rk_subkeys hk" None n s] Some ns by auto
  ultimately show ?thesis using str_less_linear by (auto simp: reg_best_def)
qed

definition demo_key :: reg_key where
  "demo_key = \<lparr>rk_subkeys = [(''10.0.0'', Some ''new''), (''9.0.0'', Some ''old'')], rk_value = None\<rparr>"

definition demo_probe :: probe_os where
  "demo_probe = \<lparr>po_env = (\<lambda>v. if v = ''PWSH'' then Some ''gone'' else None), po_is_file = (\<lambda>p. False),
     po_is_dir = (\<lambda>p. True), po_exists = (\<lambda>p. p = ''old/pwsh''), po_parent = (\<lambda>p. None),
     po_file_name = (\<lambda>p. Some ''pwsh''), po_join = (\<lambda>a b. a @ ''/'' @ b),
     po_reg = (\<lambda>h k v. Some demo_key), po_exe_version = (\<lambda>p. ''9.0.0'')\<rparr>"

theorem registry_choice_witness:
  "reg_read_string demo_probe ''HKLM'' ''k'' ''v'' = Some ''old''"
  using registry_choice [of "''HKLM''" LocalMachine demo_probe "''k''" "''v''" demo_key]
  by (auto simp: parse_hive_def demo_probe_def demo_key_def)

text \<open>
  Lexicographic order is not version order: with subkeys \<open>10.0.0\<close> and \<open>9.0.0\<close> the probe picks
  9.0.0, the lower version in the order of the resolver's own comparison.
\<close>

lemma registry_misses_highest:
  "reg_read_string demo_probe ''HKCU'' key val = Some ''old'' \<and>
   (''9.0.0'', Some ''old'') \<in> set (rk_subkeys demo_key) \<and>
   (''10.0.0'', Some ''new'') \<in> set (rk_subkeys demo_key) \<and>
   cmp_versions (parse_version ''9.0.0'') (parse_version ''10.0.0'') = Less"
proof -
  have "show_version [9, 0, 0] = ''9.0.0''" "show_version [10, 0, 0] = ''10.0.0''" by code_simp+
  then have "parse_version ''9.0.0'' = [9, 0, 0]" "parse_version ''10.0.0'' = [10, 0, 0]"
    using parse_show_version [of "[9, 0, 0]"] parse_show_version [of "[10, 0, 0]"] by simp_all
  moreover have "reg_choose (rk_subkeys demo_key) None = Some (''9.0.0'', ''old'')" by code_simp
  ultimately show ?thesis
    by (simp add: reg_read_string_def parse_hive_def demo_probe_def) (simp add: demo_key_def)
qed

lemma first_split_Cons:
  "(\<exists>xs y ys. x # zs = xs @ y # ys \<and> list_all P xs \<and> Q y) \<longleftrightarrow>
     Q x \<or> P x \<and> (\<exists>xs y ys. zs = xs @ y # ys \<and> list_all P xs \<and> Q y)" (is "?l \<longleftrightarrow> ?r")
proof
  assume ?l
  then obtain xs y ys where l: "x # zs = xs @ y # ys" "list_all P xs" "Q y" by blast
  then show ?r by (cases xs) auto
next
  assume ?r
  then consider "Q x" | xs y ys where "P x" "zs = xs @ y # ys" "list_all P xs" "Q y" by blast
  then show ?l
  proof cases
    case 1
    then have "x # zs = [] @ x # zs \<and> list_all P [] \<and> Q x" by simp
    then show ?thesis by blast
  next
    case 2
    then have "x # zs = (x # xs) @ y # ys \<and> list_all P (x # xs) \<and> Q y" by simp
    then show ?thesis by blast
  qed
qed

definition rule_fails :: "probe_os \<Rightarrow> CatalogFile \<Rightarrow> ProbeRule \<Rightarrow> bool" where
  "rule_fails os cat rule \<longleftrightarrow>
     (\<forall>root. candidate_root os rule = Some root \<longrightarrow> \<not> po_exists os (probe_entry os cat root))"

text \<open>
  The probe returns a shell exactly when some rule names a directory in which the executable
  exists, and then it is the one of the first such rule: root, entry and detected version.
\<close>

lemma probe_first_match:
  "real_find os cat = Inr (Some h) \<longleftrightarrow>
     (\<exists>before rule after. cf_probe cat = before @ rule # after \<and>
        list_all (rule_fails os cat) before \<and>
        candidate_root os rule = Some (hs_root h) \<and>
        po_exists os (hs_entry h) \<and>
        hs_entry h = probe_entry os cat (hs_root h) \<and> hs_version h = probe_version os cat (hs_entry h))"
  (is "?found \<longleftrightarrow> ?first (cf_probe cat)")
proof -
  have "probe_rules os cat rules = Some h \<longleftrightarrow> ?first rules" for rules
  proof (induction rules)
    case (Cons rule rules)
    let ?hit = "candidate_root os rule = Some (hs_root h) \<and> po_exists os (hs_entry h) \<and>
      hs_entry h = probe_entry os cat (hs_root h) \<and> hs_version h = probe_version os cat (hs_entry h)"
    have "?first (rule # rules) \<longleftrightarrow> ?hit \<or> rule_fails os cat rule \<and> ?first rules"
      by (rule first_split_Cons)
    moreover have "probe_rules os cat (rule # rules) = Some h \<longleftrightarrow>
        ?hit \<or> rule_fails os cat rule \<and> probe_rules os cat rules = Some h"
      by (cases h) (auto simp: rule_fails_def Let_def split: option.splits)
    ultimately show ?case using Cons by blast
  qed simp
  then show ?thesis by (simp add: real_find_def)
qed

end
