(* ===== verification/Resolve.thy ===== *)
theory Resolve
  imports Version Probe
begin

text \<open>
  Turning a shell request into a launch plan, \<open>crates/psroot-shell-resolver/src/resolve.rs\<close> with
  the types of \<open>plan.rs\<close> and \<open>error.rs\<close>. The host is a record of parameters: the probe, path
  joining, the environment, Unicode lower-casing, and the two embedded module files.
\<close>

section \<open>Plans and errors\<close>

datatype KnownCapability = InternetClient | InternetClientServer | PrivateNetworkClientServer

definition from_name :: "string \<Rightarrow> KnownCapability option" where
  "from_name s =
     (if s = ''internetClient'' then Some InternetClient
      else if s = ''internetClientServer'' then Some InternetClientServer
      else if s = ''privateNetworkClientServer'' then Some PrivateNetworkClientServer
      else None)"

datatype AccessMask = ReadExecute

record AceGrant =
  ag_path :: string
  ag_access :: AccessMask
  ag_inherit :: bool

datatype StageOp =
    EnsureDir string
  | HardlinkTree string string "string list"   \<comment> \<open>source, destination, excluded globs\<close>
  | CopyTree string string "string list"
  | Junction string string
  | Symlink string string
  | WriteText string string

record LaunchPlan =
  lp_shell_name :: string
  lp_host_source_version :: string
  lp_cache_key :: string
  lp_cache_dir :: string
  lp_entry :: string
  lp_args :: "string list"
  lp_cwd :: string
  lp_env :: "(string \<times> string) list"
  lp_stage :: "StageOp list"
  lp_aces :: "AceGrant list"
  lp_caps :: "KnownCapability list"

datatype resolver_error =
    UnknownShell string
  | ShellNotInstalled string string
  | VersionMismatch string string string   \<comment> \<open>shell, wanted, found\<close>
  | CatalogParse string string
  | InvalidCapability string string
  | PlaceholderUnknown string
  | ResolverIo nat

datatype NetworkAccess = NoNetwork | Outbound | Full | Netstack

record ShellRequest =
  rq_name :: string
  rq_version :: "version_req option"
  rq_args :: "string list"
  rq_env :: "(string \<times> string) list"

record ResolveContext =
  rc_container_id :: string
  rc_rootfs :: string
  rc_network :: NetworkAccess
  rc_cache_root :: string
  rc_allow_admin :: bool

record res_host =
  rh_find :: "CatalogFile \<Rightarrow> resolver_error + HostShell option"
  rh_lower :: "string \<Rightarrow> string"
  rh_join :: "string \<Rightarrow> string \<Rightarrow> string"
  rh_env :: "string \<Rightarrow> string option"
  rh_psm1 :: string
  rh_psd1 :: string

definition shell_request_new :: "string \<Rightarrow> ShellRequest" where
  "shell_request_new name = \<lparr>rq_name = name, rq_version = None, rq_args = [], rq_env = []\<rparr>"

definition builtin_module :: "res_host \<Rightarrow> string \<Rightarrow> string option" where
  "builtin_module h key =
     (if key = ''PsrootNet.psm1'' then Some (rh_psm1 h)
      else if key = ''PsrootNet.psd1'' then Some (rh_psd1 h)
      else None)"

section \<open>Substitution\<close>

definition build_vars :: "res_host \<Rightarrow> ResolveContext \<Rightarrow> HostShell \<Rightarrow> string \<Rightarrow> (string \<rightharpoonup> string)" where
  "build_vars h ctx host cache_dir =
     [''rootfs'' \<mapsto> rc_rootfs ctx, ''shell_root'' \<mapsto> hs_root host, ''cache_dir'' \<mapsto> cache_dir,
      ''cache_root'' \<mapsto> rc_cache_root ctx, ''container_id'' \<mapsto> rc_container_id ctx,
      ''system_root'' \<mapsto> env_or (rh_env h) ''SystemRoot'' windows_dir,
      ''program_files'' \<mapsto> env_or (rh_env h) ''ProgramFiles'' program_files_dir]"

function substitute :: "string \<Rightarrow> (string \<rightharpoonup> string) \<Rightarrow> resolver_error + string" where
  "substitute rest vars = (case split_first (CHR ''{'') rest of
       None \<Rightarrow> Inr rest
     | Some (before, after) \<Rightarrow> (case split_first (CHR ''}'') after of
           Some (key, rest') \<Rightarrow> (case vars key of
               Some val \<Rightarrow> map_ok (\<lambda>out. before @ val @ out) (substitute rest' vars)
             | None \<Rightarrow> Inl (PlaceholderUnknown key))
         | None \<Rightarrow> map_ok (\<lambda>out. before @ CHR ''{'' # out) (substitute after vars)))"
  by auto
termination
  by (relation "measure (\<lambda>(rest, vars). length rest)") (auto dest!: split_first_length)

declare substitute.simps [simp del]

definition substitute_opt :: "string option \<Rightarrow> (string \<rightharpoonup> string) \<Rightarrow> resolver_error + string option" where
  "substitute_opt m vars = (case m of None \<Rightarrow> Inr None | Some s \<Rightarrow> map_ok Some (substitute s vars))"

definition stage_content :: "res_host \<Rightarrow> string \<Rightarrow> (string \<rightharpoonup> string) \<Rightarrow> resolver_error + string" where
  "stage_content h raw vars = (case strip_prefix ''@builtin:'' raw of
       Some key \<Rightarrow> ok_or (PlaceholderUnknown (''unknown builtin module: '' @ key)) (builtin_module h key)
     | None \<Rightarrow> substitute raw vars)"

text \<open>\<open>stage_op\<close> is the match on the operation, with its substituted paths.\<close>

definition stage_op :: "res_host \<Rightarrow> (string \<rightharpoonup> string) \<Rightarrow> StageRule \<Rightarrow> string \<Rightarrow> string option \<Rightarrow>
    resolver_error + StageOp" where
  "stage_op h vars rule dst src =
     (let need_src = ok_or (PlaceholderUnknown ''src'') src in
       if sr_op rule = ''ensure_dir'' then Inr (EnsureDir dst)
       else if sr_op rule = ''hardlink_tree'' then map_ok (\<lambda>s. HardlinkTree s dst (sr_exclude rule)) need_src
       else if sr_op rule = ''copy_tree'' then map_ok (\<lambda>s. CopyTree s dst (sr_exclude rule)) need_src
       else if sr_op rule = ''junction'' then map_ok (\<lambda>s. Junction s dst) need_src
       else if sr_op rule = ''symlink'' then map_ok (\<lambda>s. Symlink s dst) need_src
       else if sr_op rule = ''write_text'' then
         and_then (ok_or (PlaceholderUnknown (''write_text requires '' @ [CHR 0x27] @ ''content'' @ [CHR 0x27]))
             (sr_content rule)) (\<lambda>raw.
           map_ok (WriteText dst) (stage_content h raw vars))
       else Inl (PlaceholderUnknown (''stage op '' @ sr_op rule)))"

definition substitute_stage :: "res_host \<Rightarrow> (string \<rightharpoonup> string) \<Rightarrow> StageRule \<Rightarrow> resolver_error + StageOp" where
  "substitute_stage h vars rule =
     and_then (substitute (sr_dst rule) vars) (\<lambda>dst.
     and_then (substitute_opt (sr_src rule) vars) (\<lambda>src. stage_op h vars rule dst src))"

definition substitute_ace :: "(string \<rightharpoonup> string) \<Rightarrow> AceRule \<Rightarrow> resolver_error + AceGrant" where
  "substitute_ace vars a =
     and_then (substitute (ar_path a) vars) (\<lambda>p.
       if ar_access a = ''RX'' \<or> ar_access a = ''rx'' then
         Inr \<lparr>ag_path = p, ag_access = ReadExecute, ag_inherit = ar_inherit a\<rparr>
       else Inl (PlaceholderUnknown (''access mask '' @ ar_access a)))"

section \<open>Resolution\<close>

definition check_version :: "ShellRequest \<Rightarrow> CatalogFile \<Rightarrow> HostShell \<Rightarrow> resolver_error option" where
  "check_version req entry host =
     (case rq_version req of
        Some r \<Rightarrow> if \<not> req_matches r (hs_version host)
          then Some (VersionMismatch (cf_name entry) (vr_raw r) (hs_version host)) else None
      | None \<Rightarrow> None)"

definition check_min :: "CatalogFile \<Rightarrow> HostShell \<Rightarrow> resolver_error option" where
  "check_min entry host = (case Option.bind (cf_version entry) ver_min of None \<Rightarrow> None
     | Some mn \<Rightarrow> (case req_parse (''>='' @ mn) of None \<Rightarrow> None
         | Some r \<Rightarrow> if \<not> req_matches r (hs_version host)
             then Some (VersionMismatch (cf_name entry) (''>='' @ mn) (hs_version host)) else None))"

definition cap_names :: "NetworkAccess \<Rightarrow> CatalogFile \<Rightarrow> string list" where
  "cap_names net entry = (case net of NoNetwork \<Rightarrow> [] | Netstack \<Rightarrow> []
     | Outbound \<Rightarrow> cf_caps_when_outbound entry | Full \<Rightarrow> cf_caps_when_full entry)"

definition select_caps :: "NetworkAccess \<Rightarrow> CatalogFile \<Rightarrow> resolver_error + KnownCapability list" where
  "select_caps net entry =
     collect_results (map (\<lambda>c. ok_or (InvalidCapability (cf_name entry) c) (from_name c)) (cap_names net entry))"

definition resolve_entry :: "res_host \<Rightarrow> ShellRequest \<Rightarrow> ResolveContext \<Rightarrow> CatalogFile \<Rightarrow> HostShell \<Rightarrow>
    resolver_error + LaunchPlan" where
  "resolve_entry h req ctx entry host =
     (let cache_key = cf_name entry @ ''-'' @ hs_version host;
          cache_dir = rh_join h (rc_cache_root ctx) cache_key;
          vars = build_vars h ctx host cache_dir;
          sub = (\<lambda>s. substitute s vars) in
      and_then (collect_results (map (substitute_stage h vars) (cf_stage entry))) (\<lambda>stage.
      and_then (collect_results (map (substitute_ace vars) (cf_ace entry))) (\<lambda>aces.
      and_then (sub (lr_entry (cf_launch entry))) (\<lambda>launch_entry.
      and_then (sub (lr_cwd (cf_launch entry))) (\<lambda>cwd.
      and_then (collect_results (map sub (lr_args (cf_launch entry)))) (\<lambda>args.
      and_then (collect_results (map (\<lambda>(k, v). map_ok (Pair k) (sub v)) (lr_env (cf_launch entry)))) (\<lambda>env.
      and_then (select_caps (rc_network ctx) entry) (\<lambda>caps.
        Inr \<lparr>lp_shell_name = cf_name entry, lp_host_source_version = hs_version host,
             lp_cache_key = cache_key, lp_cache_dir = cache_dir, lp_entry = launch_entry,
             lp_args = args @ rq_args req, lp_cwd = cwd, lp_env = env @ rq_env req,
             lp_stage = stage, lp_aces = aces, lp_caps = caps\<rparr>))))))))"

definition install_hint :: "string \<Rightarrow> string" where
  "install_hint name = ''install it (e.g. `winget install Microsoft.'' @ name @ ''`) or set the env override''"

text \<open>\<open>resolve\<close>; \<open>None\<close> is the index panic of \<open>lookup\<close> on an ill-formed catalog.\<close>

definition resolve :: "res_host \<Rightarrow> catalog \<Rightarrow> ShellRequest \<Rightarrow> ResolveContext \<Rightarrow>
    (resolver_error + LaunchPlan) option" where
  "resolve h cat req ctx = (case catalog_lookup (rh_lower h) (rq_name req) cat of
       None \<Rightarrow> None
     | Some None \<Rightarrow> Some (Inl (UnknownShell (rq_name req)))
     | Some (Some entry) \<Rightarrow> Some (case rh_find h entry of
           Inl e \<Rightarrow> Inl e
         | Inr None \<Rightarrow> Inl (ShellNotInstalled (cf_name entry) (install_hint (cf_name entry)))
         | Inr (Some host) \<Rightarrow> (case check_version req entry host of
               Some e \<Rightarrow> Inl e
             | None \<Rightarrow> (case check_min entry host of
                   Some e \<Rightarrow> Inl e
                 | None \<Rightarrow> resolve_entry h req ctx entry host))))"

text \<open>The resolver with the real probe: the catalog that \<open>Resolver::new\<close> loads.\<close>

definition resolver_catalog :: "(string \<Rightarrow> string) \<Rightarrow> (string \<Rightarrow> 'e + CatalogFile) \<Rightarrow> string list \<Rightarrow>
    (string \<Rightarrow> string option) \<Rightarrow> (string \<Rightarrow> (string option \<times> string option) list option) \<Rightarrow> (string \<Rightarrow> string \<Rightarrow> string) \<Rightarrow>
    catalog option" where
  "resolver_catalog lower parse srcs env list_dir join =
     Option.bind (catalog_builtin lower parse srcs) (\<lambda>cat.
       case (case env ''USERPROFILE'' of Some p \<Rightarrow> Some p | None \<Rightarrow> env ''HOME'') of
         None \<Rightarrow> Some cat
       | Some home \<Rightarrow> merge_dir lower parse (list_dir (join (join home ''.psroot'') ''shell-catalog.d'')) cat)"

section \<open>Templates\<close>

text \<open>A text is literal pieces without an opening brace and placeholders \<open>{key}\<close>.\<close>

datatype piece = Lit string | Var string

fun show_piece :: "piece \<Rightarrow> string" where
  "show_piece (Lit l) = l"
| "show_piece (Var k) = CHR ''{'' # k @ [CHR ''}'']"

fun piece_ok :: "piece \<Rightarrow> bool" where
  "piece_ok (Lit l) \<longleftrightarrow> CHR ''{'' \<notin> set l"
| "piece_ok (Var k) \<longleftrightarrow> CHR ''}'' \<notin> set k"

fun eval_piece :: "(string \<rightharpoonup> string) \<Rightarrow> piece \<Rightarrow> resolver_error + string" where
  "eval_piece vars (Lit l) = Inr l"
| "eval_piece vars (Var k) = ok_or (PlaceholderUnknown k) (vars k)"

lemma substitute_no_close:
  assumes "CHR ''}'' \<notin> set s"
  shows "substitute s vars = Inr s"
  using assms
proof (induction s rule: length_induct)
  case (1 rest)
  show ?case
  proof (cases "split_first (CHR ''{'') rest")
    case None
    then show ?thesis by (simp add: substitute.simps)
  next
    case (Some ba)
    obtain before after where ba: "ba = (before, after)" by (cases ba)
    then have rest: "rest = before @ CHR ''{'' # after" using Some split_first_SomeD by blast
    then have "split_first (CHR ''}'') after = None" "substitute after vars = Inr after"
      using 1 by (simp_all add: split_first_None)
    then show ?thesis
      using Some ba unfolding rest
      by (simp add: substitute.simps [of "before @ CHR ''{'' # after"])
  qed
qed

lemma substitute_literal:
  assumes "CHR ''{'' \<notin> set l"
  shows "substitute (l @ s) vars = map_ok ((@) l) (substitute s vars)"
proof (cases "split_first (CHR ''{'') s")
  case None
  then have "split_first (CHR ''{'') (l @ s) = None" using assms by (simp add: split_first_None)
  then show ?thesis using None by (simp add: substitute.simps [of s] substitute.simps [of "l @ s"])
next
  case (Some ba)
  obtain b a where ba: "ba = (b, a)" by (cases ba)
  then have s: "s = b @ CHR ''{'' # a" "CHR ''{'' \<notin> set b" using Some split_first_SomeD by auto
  then have "split_first (CHR ''{'') (l @ s) = Some (l @ b, a)"
    using split_first_append [of "CHR ''{''" "l @ b" a] assms by simp
  then show ?thesis using Some ba
    by (simp add: substitute.simps [of s] substitute.simps [of "l @ s"] map_ok_def split: option.splits sum.splits)
qed

lemma substitute_placeholder:
  assumes "CHR ''}'' \<notin> set k"
  shows "substitute (CHR ''{'' # k @ CHR ''}'' # s) vars =
    and_then (ok_or (PlaceholderUnknown k) (vars k)) (\<lambda>v. map_ok ((@) v) (substitute s vars))"
  by (simp add: substitute.simps [of "CHR ''{'' # k @ CHR ''}'' # s"] split_first_append [OF assms] split: option.split)

text \<open>
  C14. Substitution is the evaluation of the template: for a text made of literals and
  placeholders, followed by a tail without a closing brace, the result is the literals and the
  variables' values in order and then the tail, values never being expanded again; the first
  unknown placeholder is the error.
\<close>

theorem substitute_evaluates_template:
  assumes "list_all piece_ok ps" and "CHR ''}'' \<notin> set tail"
  shows "substitute (concat (map show_piece ps) @ tail) vars =
    map_ok (\<lambda>vs. concat vs @ tail) (collect_results (map (eval_piece vars) ps))"
  using assms(1)
proof (induction ps)
  case Nil
  then show ?case by (simp add: substitute_no_close [OF assms(2)])
next
  case (Cons p ps)
  then show ?case
    by (cases p) (auto simp: substitute_literal substitute_placeholder ok_or_def map_ok_def
        split: option.splits sum.splits)
qed

theorem substitute_evaluates_template_witness:
  "substitute ''{rootfs}/bin/{x'' [''rootfs'' \<mapsto> ''/{r}''] = Inr ''/{r}/bin/{x''"
proof -
  have "substitute (concat (map show_piece [Var ''rootfs'', Lit ''/bin/'']) @ ''{x'') [''rootfs'' \<mapsto> ''/{r}''] =
      map_ok (\<lambda>vs. concat vs @ ''{x'') (collect_results (map (eval_piece [''rootfs'' \<mapsto> ''/{r}''])
        [Var ''rootfs'', Lit ''/bin/'']))"
    by (rule substitute_evaluates_template) simp_all
  then show ?thesis by simp
qed

section \<open>What a plan contains\<close>

definition is_ok :: "'e + 'a \<Rightarrow> bool" where
  "is_ok r \<longleftrightarrow> (case r of Inl _ \<Rightarrow> False | Inr _ \<Rightarrow> True)"

lemma is_ok_simps [simp]:
  "\<not> is_ok (Inl e)" "is_ok (Inr x)" "is_ok (map_ok f r) = is_ok r"
  "is_ok (ok_or e m) \<longleftrightarrow> m \<noteq> None"
  by (auto simp: is_ok_def map_ok_def ok_or_def split: sum.splits option.splits)

lemma is_ok_Inr: "is_ok r \<longleftrightarrow> (\<exists>x. r = Inr x)"
  by (auto simp: is_ok_def split: sum.splits)

lemma is_ok_collect: "is_ok (collect_results rs) \<longleftrightarrow> list_all is_ok rs"
  by (induction rs rule: collect_results.induct) simp_all

lemma is_ok_and_then:
  assumes "is_ok r = is_ok r'" and "\<And>x y. r = Inr x \<Longrightarrow> r' = Inr y \<Longrightarrow> is_ok (k x) = is_ok (k' y)"
  shows "is_ok (and_then r k) = is_ok (and_then r' k')"
  using assms by (cases r; cases r') auto

text \<open>Whether a text can be substituted depends only on which variables exist.\<close>

lemma substitute_ok_dom:
  assumes "dom vars = dom vars'"
  shows "is_ok (substitute s vars) = is_ok (substitute s vars')"
proof (induction s rule: length_induct)
  case (1 rest)
  show ?case
  proof (cases "split_first (CHR ''{'') rest")
    case None
    then show ?thesis by (simp add: substitute.simps)
  next
    case (Some ba)
    obtain before after where ba: "ba = (before, after)" by (cases ba)
    have shorter: "length after < length rest" using Some ba split_first_length by blast
    show ?thesis
    proof (cases "split_first (CHR ''}'') after")
      case None
      then show ?thesis using Some ba 1 shorter by (simp add: substitute.simps [of rest])
    next
      case close: (Some kr)
      obtain key rest' where kr: "kr = (key, rest')" by (cases kr)
      have "length rest' < length rest" using close kr split_first_length shorter by fastforce
      then have "is_ok (substitute rest' vars) = is_ok (substitute rest' vars')" using 1 by blast
      moreover have "vars key = None \<longleftrightarrow> vars' key = None" using assms by blast
      ultimately show ?thesis
        using Some close ba kr by (cases "vars key"; cases "vars' key") (simp_all add: substitute.simps [of rest])
    qed
  qed
qed

lemma stage_ok_dom:
  assumes "dom vars = dom vars'"
  shows "is_ok (substitute_stage h vars r) = is_ok (substitute_stage h' vars' r)"
proof -
  have opt: "is_ok (substitute_opt m vars) = is_ok (substitute_opt m vars')" for m
    using substitute_ok_dom [OF assms] by (cases m) (simp_all add: substitute_opt_def)
  have content: "is_ok (stage_content h raw vars) = is_ok (stage_content h' raw vars')" for raw
    using substitute_ok_dom [OF assms, of raw]
    by (cases "strip_prefix ''@builtin:'' raw") (simp_all add: stage_content_def builtin_module_def)
  have src: "(x = None) = (y = None)"
    if "substitute_opt m vars = Inr x" "substitute_opt m vars' = Inr y" for m x y
    using that by (cases m) (auto simp: substitute_opt_def map_ok_def split: sum.splits)
  have written: "is_ok (and_then (ok_or e (sr_content r)) (\<lambda>raw. map_ok (WriteText d) (stage_content h raw vars))) =
      is_ok (and_then (ok_or e (sr_content r)) (\<lambda>raw. map_ok (WriteText d') (stage_content h' raw vars')))"
    for e d d'
    using content by (intro is_ok_and_then) auto
  show ?thesis
    unfolding substitute_stage_def
  proof (intro is_ok_and_then substitute_ok_dom [OF assms] opt)
    fix d d' x y
    assume "substitute_opt (sr_src r) vars = Inr x" "substitute_opt (sr_src r) vars' = Inr y"
    then have "(x = None) = (y = None)" by (rule src)
    then show "is_ok (stage_op h vars r d x) = is_ok (stage_op h' vars' r d' y)"
      using written by (simp add: stage_op_def Let_def)
  qed
qed

lemma build_vars_dom: "dom (build_vars h ctx host dir) = dom (build_vars h' ctx' host' dir')"
  by (simp add: build_vars_def)

lemma is_ok_collect_map:
  "(\<And>x. x \<in> set xs \<Longrightarrow> is_ok (f x) = is_ok (g x)) \<Longrightarrow>
     is_ok (collect_results (map f xs)) = is_ok (collect_results (map g xs))"
  by (simp add: is_ok_collect list_all_iff)

text \<open>
  Whether a catalog entry turns into a plan depends only on the entry and the network mode:
  not on the request, the host, the container or the values of the variables. So an entry that
  resolves once never fails later with a placeholder, operation, access or capability error.
\<close>

theorem resolve_entry_uniform:
  assumes "rc_network ctx = rc_network ctx'"
  shows "(\<exists>plan. resolve_entry h req ctx entry host = Inr plan) \<longleftrightarrow>
    (\<exists>plan. resolve_entry h' req' ctx' entry host' = Inr plan)"
proof -
  note dom = build_vars_dom [of h ctx host _ h' ctx' host']
  note sub = substitute_ok_dom [OF dom]
  have ace: "is_ok (substitute_ace vars a) = is_ok (substitute_ace vars' a)"
    if "dom vars = dom vars'" for vars vars' :: "string \<rightharpoonup> string" and a
    unfolding substitute_ace_def using substitute_ok_dom [OF that] by (intro is_ok_and_then) auto
  have pair: "is_ok (case kv of (k, v) \<Rightarrow> map_ok (Pair k) (substitute v (build_vars h ctx host d))) =
      is_ok (case kv of (k, v) \<Rightarrow> map_ok (Pair k) (substitute v (build_vars h' ctx' host' d')))"
    for kv :: "string \<times> string" and d d'
    using substitute_ok_dom [OF build_vars_dom [of h ctx host d h' ctx' host' d']] by (cases kv) simp
  have "is_ok (resolve_entry h req ctx entry host) = is_ok (resolve_entry h' req' ctx' entry host')"
    unfolding resolve_entry_def Let_def
    by (intro is_ok_and_then is_ok_collect_map stage_ok_dom dom ace sub pair) (simp_all add: assms)
  then show ?thesis by (simp add: is_ok_Inr)
qed

lemma collect_map_Inr: "collect_results (map f xs) = Inr ys \<longleftrightarrow> map f xs = map Inr ys"
  using collect_results_InrD [of "map f xs" ys] by (metis collect_results_map_Inr)

lemma map_ok_or: "map (\<lambda>c. ok_or (e c) (f c)) cs = map Inr ys \<longleftrightarrow> map f cs = map Some ys"
proof (induction cs arbitrary: ys)
  case (Cons c cs)
  then show ?case by (cases ys) (auto simp: ok_or_def split: option.splits)
qed auto

lemma map_ok_pairs:
  "map (\<lambda>(k, v). map_ok (Pair k) (f v)) kvs = map Inr env \<Longrightarrow>
     \<exists>vs. map (\<lambda>(k, v). f v) kvs = map Inr vs \<and> env = zip (map fst kvs) vs"
proof (induction kvs arbitrary: env)
  case (Cons kv kvs)
  obtain k v where kv: "kv = (k, v)" by (cases kv)
  obtain e env' where env: "env = e # env'" using Cons.prems by (cases env) simp_all
  then obtain w where w: "f v = Inr w" "e = (k, w)"
    using Cons.prems kv by (auto simp: map_ok_def split: sum.splits)
  obtain vs where "map (\<lambda>(k, v). f v) kvs = map Inr vs" "env' = zip (map fst kvs) vs"
    using Cons.IH [of env'] Cons.prems env by auto
  then show ?case using kv env w by (intro exI [of _ "w # vs"]) simp
qed simp

lemma resolve_entry_Inr:
  assumes "resolve_entry h req ctx entry host = Inr plan"
  shows "let vars = build_vars h ctx host (lp_cache_dir plan) in
    map (substitute_stage h vars) (cf_stage entry) = map Inr (lp_stage plan) \<and>
    (\<exists>args. map (\<lambda>s. substitute s vars) (lr_args (cf_launch entry)) = map Inr args \<and>
       lp_args plan = args @ rq_args req) \<and>
    (\<exists>vs. map (\<lambda>(k, v). substitute v vars) (lr_env (cf_launch entry)) = map Inr vs \<and>
       lp_env plan = zip (map fst (lr_env (cf_launch entry))) vs @ rq_env req) \<and>
    map from_name (cap_names (rc_network ctx) entry) = map Some (lp_caps plan)"
  using assms unfolding resolve_entry_def Let_def and_then_Inr_iff collect_map_Inr select_caps_def map_ok_or
  by (auto dest!: map_ok_pairs)

text \<open>
  C13. A successful resolution is of the entry the catalog has for the name, on the shell the probe
  found, whose version satisfies the request's constraint and the entry's minimum; the plan holds
  the entry's stage operations, arguments and environment substituted, with the request's
  arguments and environment after them, and exactly the capabilities the entry declares for the
  network mode, none without network or with the user-mode stack.
\<close>

theorem resolve_success:
  assumes "resolve h cat req ctx = Some (Inr plan)"
  shows "\<exists>entry host. catalog_lookup (rh_lower h) (rq_name req) cat = Some (Some entry) \<and>
    rh_find h entry = Inr (Some host) \<and>
    (\<forall>r. rq_version req = Some r \<longrightarrow> req_matches r (hs_version host)) \<and>
    (\<forall>mn r. Option.bind (cf_version entry) ver_min = Some mn \<longrightarrow> req_parse (''>='' @ mn) = Some r \<longrightarrow>
       req_matches r (hs_version host)) \<and>
    (let vars = build_vars h ctx host (lp_cache_dir plan) in
       map (substitute_stage h vars) (cf_stage entry) = map Inr (lp_stage plan) \<and>
       (\<exists>args. map (\<lambda>s. substitute s vars) (lr_args (cf_launch entry)) = map Inr args \<and>
          lp_args plan = args @ rq_args req) \<and>
       (\<exists>vs. map (\<lambda>(k, v). substitute v vars) (lr_env (cf_launch entry)) = map Inr vs \<and>
          lp_env plan = zip (map fst (lr_env (cf_launch entry))) vs @ rq_env req)) \<and>
    map from_name (cap_names (rc_network ctx) entry) = map Some (lp_caps plan) \<and>
    (rc_network ctx \<in> {NoNetwork, Netstack} \<longrightarrow> lp_caps plan = [])"
proof -
  obtain entry host where lk: "catalog_lookup (rh_lower h) (rq_name req) cat = Some (Some entry)"
      "rh_find h entry = Inr (Some host)" "check_version req entry host = None"
      "check_min entry host = None" "resolve_entry h req ctx entry host = Inr plan"
    using assms by (auto simp: resolve_def split: option.splits sum.splits)
  have "\<forall>r. rq_version req = Some r \<longrightarrow> req_matches r (hs_version host)"
    using lk(3) by (auto simp: check_version_def split: if_splits)
  moreover have "\<forall>mn r. Option.bind (cf_version entry) ver_min = Some mn \<longrightarrow> req_parse (''>='' @ mn) = Some r \<longrightarrow>
       req_matches r (hs_version host)"
    using lk(4) by (auto simp: check_min_def split: if_splits)
  moreover have "rc_network ctx \<in> {NoNetwork, Netstack} \<longrightarrow> cap_names (rc_network ctx) entry = []"
    by (auto simp: cap_names_def)
  ultimately show ?thesis
    using lk(1,2) resolve_entry_Inr [OF lk(5)] by (auto simp: Let_def)
qed

section \<open>Concrete runs\<close>

definition demo_pwsh :: CatalogFile where
  "demo_pwsh = (demo_entry ''pwsh'' [''ps''])\<lparr>
     cf_stage := [\<lparr>sr_op = ''ensure_dir'', sr_src = None, sr_dst = ''{rootfs}/tmp'', sr_exclude = [], sr_content = None\<rparr>],
     cf_launch := \<lparr>lr_entry = ''{rootfs}/pwsh'', lr_args = [''-NoLogo''], lr_cwd = ''{rootfs}'',
       lr_env = [(''ID'', ''{container_id}'')]\<rparr>,
     cf_caps_when_outbound := [''internetClient'']\<rparr>"

definition demo_host :: res_host where
  "demo_host = \<lparr>rh_find = (\<lambda>e. Inr (Some \<lparr>hs_root = ''p'', hs_entry = ''p/pwsh'', hs_version = ''7.5.1''\<rparr>)),
     rh_lower = to_ascii_lowercase, rh_join = (\<lambda>a b. a @ ''/'' @ b), rh_env = (\<lambda>v. None),
     rh_psm1 = ''m'', rh_psd1 = ''d''\<rparr>"

definition demo_ctx :: "NetworkAccess \<Rightarrow> ResolveContext" where
  "demo_ctx net = \<lparr>rc_container_id = ''c1'', rc_rootfs = ''/r'', rc_network = net, rc_cache_root = ''/k'',
     rc_allow_admin = False\<rparr>"

definition demo_catalog :: catalog where
  "demo_catalog = \<lparr>cat_entries = [demo_pwsh], cat_by_name = [''pwsh'' \<mapsto> 0, ''ps'' \<mapsto> 0]\<rparr>"

definition demo_plan :: LaunchPlan where
  "demo_plan = \<lparr>lp_shell_name = ''pwsh'', lp_host_source_version = ''7.5.1'', lp_cache_key = ''pwsh-7.5.1'',
     lp_cache_dir = ''/k/pwsh-7.5.1'', lp_entry = ''/r/pwsh'', lp_args = [''-NoLogo'', ''-c''], lp_cwd = ''/r'',
     lp_env = [(''ID'', ''c1'')], lp_stage = [EnsureDir ''/r/tmp''], lp_aces = [], lp_caps = [InternetClient]\<rparr>"

definition demo_request :: ShellRequest where
  "demo_request = (shell_request_new ''PS'')\<lparr>rq_args := [''-c'']\<rparr>"

lemma demo_resolve: "resolve demo_host demo_catalog demo_request (demo_ctx Outbound) = Some (Inr demo_plan)"
  by code_simp

theorem resolve_success_witness:
  "\<exists>entry. catalog_lookup to_ascii_lowercase ''PS'' demo_catalog = Some (Some entry) \<and>
     map from_name (cap_names Outbound entry) = map Some [InternetClient]"
  using resolve_success [OF demo_resolve]
  by (auto simp: demo_host_def demo_request_def shell_request_new_def demo_ctx_def demo_plan_def)

theorem resolve_entry_uniform_witness:
  "\<exists>plan. resolve_entry (demo_host\<lparr>rh_psm1 := ''x''\<rparr>) (shell_request_new ''pwsh'') ((demo_ctx Outbound)\<lparr>rc_rootfs := ''{z}''\<rparr>)
     demo_pwsh \<lparr>hs_root = ''q'', hs_entry = ''q/pwsh'', hs_version = ''''\<rparr> = Inr plan"
proof -
  have "resolve_entry demo_host demo_request (demo_ctx Outbound) demo_pwsh
      \<lparr>hs_root = ''p'', hs_entry = ''p/pwsh'', hs_version = ''7.5.1''\<rparr> = Inr demo_plan"
    by code_simp
  then show ?thesis
    using resolve_entry_uniform [of "demo_ctx Outbound" "(demo_ctx Outbound)\<lparr>rc_rootfs := ''{z}''\<rparr>"]
    by (metis ResolveContext.select_convs(3) ResolveContext.update_convs(2) demo_ctx_def)
qed

end
