(* ===== verification/Portmap.thy ===== *)
theory Portmap
  imports Text
begin

text \<open>
  The port mapper, \<open>crates/psroot-portmap/src/lib.rs\<close>: publish specifications, the environment a
  container gets, and the proxies with their accept loops. Sockets and threads are parameters over
  a world; an accept loop is a function of what its \<open>accept\<close> calls and flag reads return.
\<close>

section \<open>Publish specifications\<close>

record PortMapping =
  pm_host_bind :: string
  pm_host_port :: u16
  pm_container_port :: u16
  pm_ephemeral_port :: "u16 option"
  pm_name :: "string option"

definition quoted :: "string \<Rightarrow> string" where
  "quoted s = CHR 0x27 # s @ [CHR 0x27]"

definition parse_port :: "string \<Rightarrow> string + u16" where
  "parse_port s = and_then (ok_or (''invalid port number: '' @ quoted s) (parse_u16 s))
     (\<lambda>p. if p = 0 then Inl ''port 0 is not allowed'' else Inr p)"

definition publish_error :: "string \<Rightarrow> string" where
  "publish_error s = ''invalid publish spec '' @ quoted s @
     '': expected PORT | HOST:CONTAINER | BIND:HOST:CONTAINER''"

definition new_mapping :: "string \<Rightarrow> u16 \<Rightarrow> u16 \<Rightarrow> PortMapping" where
  "new_mapping bind host container = \<lparr>pm_host_bind = bind, pm_host_port = host,
     pm_container_port = container, pm_ephemeral_port = None, pm_name = None\<rparr>"

definition parse_publish :: "string \<Rightarrow> string + PortMapping" where
  "parse_publish s = (case split_on (CHR '':'') s of
       [p] \<Rightarrow> and_then (parse_port p) (\<lambda>h. map_ok (new_mapping ''127.0.0.1'' h) (parse_port p))
     | [h, c] \<Rightarrow> and_then (parse_port h) (\<lambda>h. map_ok (new_mapping ''127.0.0.1'' h) (parse_port c))
     | [b, h, c] \<Rightarrow> and_then (parse_port h) (\<lambda>h. map_ok (new_mapping b h) (parse_port c))
     | _ \<Rightarrow> Inl (publish_error s))"

section \<open>The container's environment\<close>

definition port_var :: "u16 \<Rightarrow> string" where
  "port_var p = ''PSROOT_PORT_'' @ show_nat (unat p)"

fun env_from :: "nat \<Rightarrow> PortMapping list \<Rightarrow> (string \<rightharpoonup> string) \<Rightarrow> (string \<rightharpoonup> string)" where
  "env_from idx [] env = env"
| "env_from idx (m # ms) env = (case pm_ephemeral_port m of
       None \<Rightarrow> env_from (Suc idx) ms env
     | Some eph \<Rightarrow>
       (let env1 = env(port_var (pm_container_port m) \<mapsto> show_nat (unat eph));
            env2 = (if idx = 0 then env1(''PORT'' \<mapsto> show_nat (unat eph)) else env1) in
        env_from (Suc idx) ms env2))"

definition env_for_mappings :: "PortMapping list \<Rightarrow> (string \<rightharpoonup> string)" where
  "env_for_mappings ms =
     (let env = env_from 0 ms Map.empty in
      if ms \<noteq> [] then (case env ''HOST'' of None \<Rightarrow> env(''HOST'' \<mapsto> ''127.0.0.1'') | Some _ \<Rightarrow> env)
      else env)"

section \<open>Proxies\<close>

text \<open>
  What an accept loop sees, one element per \<open>accept\<close>: the flag read after it, the connection
  (\<open>None\<close> on an error), and, for an error, the second flag read.
\<close>

type_synonym 'c accept_event = "bool \<times> 'c option \<times> bool"

text \<open>The connections handed to proxy threads, and whether the loop has returned.\<close>

fun accept_loop :: "'c accept_event list \<Rightarrow> 'c list \<times> bool" where
  "accept_loop [] = ([], False)"
| "accept_loop ((stop, incoming, stop') # evs) =
     (if stop then ([], True)
      else case incoming of
          Some client \<Rightarrow> (let (cs, returned) = accept_loop evs in (client # cs, returned))
        | None \<Rightarrow> if stop' then ([], True) else accept_loop evs)"

text \<open>
  One proxied connection: \<open>connect\<close> is the 5 s connect to the ephemeral port and \<open>clone\<close> the two
  \<open>try_clone\<close> calls. The copies run until end of stream or an error and report how many bytes they
  moved; both write ends are then shut down, whatever the copies returned.
\<close>

datatype ('a, 'e) proxy_result = Refused 'e | Proxied "'a list" "'a list"

definition proxy_connection :: "('e + unit) \<Rightarrow> ('e + unit) \<Rightarrow> 'a list \<Rightarrow> nat \<Rightarrow> 'a list \<Rightarrow> nat \<Rightarrow>
    ('a, 'e) proxy_result" where
  "proxy_connection connect clone from_client moved_c from_server moved_s =
     (case and_then connect (\<lambda>_. clone) of
        Inl e \<Rightarrow> Refused e
      | Inr _ \<Rightarrow> Proxied (take moved_c from_client) (take moved_s from_server))"

text \<open>The mapper: the specification and listener of each running proxy, in the order added.\<close>

record ('l, 'ip, 'w) proxy_os =
  px_parse_ip :: "string \<Rightarrow> 'ip option"
  px_localhost :: 'ip
  px_bind :: "'ip \<Rightarrow> u16 \<Rightarrow> 'w \<Rightarrow> (nat + 'l) \<times> 'w"
  px_local_port :: "'l \<Rightarrow> 'w \<Rightarrow> nat + u16"
  px_drop :: "'l \<Rightarrow> 'w \<Rightarrow> 'w"
  px_spawn :: "'l \<Rightarrow> u16 \<Rightarrow> 'w \<Rightarrow> (nat + unit) \<times> 'w"
  px_stop :: "'l \<Rightarrow> u16 \<Rightarrow> 'w \<Rightarrow> 'w"     \<comment> \<open>set the flag and connect to the listener\<close>
  px_join :: "'l \<Rightarrow> 'w \<Rightarrow> 'w"

datatype mapper_error = InvalidInput | BindFailed nat | SpawnFailed nat

definition allocate_ephemeral :: "('l, 'ip, 'w) proxy_os \<Rightarrow> 'w \<Rightarrow> (nat + u16) \<times> 'w" where
  "allocate_ephemeral os w = (case px_bind os (px_localhost os) 0 w of
       (Inl e, w) \<Rightarrow> (Inl e, w)
     | (Inr l, w) \<Rightarrow> (px_local_port os l w, px_drop os l w))"

definition mapper_add :: "('l, 'ip, 'w) proxy_os \<Rightarrow> PortMapping \<Rightarrow> (PortMapping \<times> 'l) list \<Rightarrow> 'w \<Rightarrow>
    (mapper_error + (PortMapping \<times> 'l) list) \<times> 'w" where
  "mapper_add os spec ms w = (case pm_ephemeral_port spec of
       None \<Rightarrow> (Inl InvalidInput, w)
     | Some eph \<Rightarrow>
       (let ip = (case px_parse_ip os (pm_host_bind spec) of Some ip \<Rightarrow> ip | None \<Rightarrow> px_localhost os) in
        case px_bind os ip (pm_host_port spec) w of
          (Inl e, w) \<Rightarrow> (Inl (BindFailed e), w)
        | (Inr l, w) \<Rightarrow> (case px_spawn os l eph w of
              (Inl e, w) \<Rightarrow> (Inl (SpawnFailed e), px_drop os l w)
            | (Inr _, w) \<Rightarrow> (Inr (ms @ [(spec, l)]), w))))"

definition mapper_shutdown :: "('l, 'ip, 'w) proxy_os \<Rightarrow> (PortMapping \<times> 'l) list \<Rightarrow> 'w \<Rightarrow>
    (PortMapping \<times> 'l) list \<times> 'w" where
  "mapper_shutdown os ms w =
     ([], fold (\<lambda>(spec, l). px_join os l)
       ms (fold (\<lambda>(spec, l). px_stop os l (pm_host_port spec)) ms w))"

definition mapper_describe :: "(PortMapping \<times> 'l) list \<Rightarrow> PortMapping list" where
  "mapper_describe ms = map fst ms"

section \<open>Properties\<close>

lemma parse_port_ok: "parse_port s = Inr p \<longleftrightarrow> parse_u16 s = Some p \<and> p \<noteq> 0"
  by (auto simp: parse_port_def ok_or_def split: option.splits)

lemma colon_free [simp]: "CHR '':'' \<notin> set (show_nat n)"
  by (rule show_nat_avoids) simp

lemma parse_publish_ports:
  assumes m: "parse_publish s = Inr m"
  shows "pm_host_port m \<noteq> 0 \<and> pm_container_port m \<noteq> 0 \<and> CHR '':'' \<notin> set (pm_host_bind m) \<and> pm_ephemeral_port m = None"
proof -
  have pieces: "\<forall>p \<in> set (split_on (CHR '':'') s). CHR '':'' \<notin> set p" by (rule split_on_pieces)
  have local: "CHR '':'' \<notin> set ''127.0.0.1''" by simp
  obtain b h' c' where "m = new_mapping b h' c'" "h' \<noteq> 0" "c' \<noteq> 0" "CHR '':'' \<notin> set b"
    using m pieces local unfolding parse_publish_def
    by (auto simp: and_then_Inr_iff map_ok_Inr_iff parse_port_ok split: list.splits)
  then show ?thesis by (simp add: new_mapping_def)
qed

text \<open>
  The three forms of a publish specification parse to the mapping they print, for every
  non-zero port; and whatever parses has non-zero ports, a bind text without a colon, and no
  ephemeral port yet.
\<close>

theorem publish_forms:
  "h \<noteq> 0 \<Longrightarrow> c \<noteq> 0 \<Longrightarrow> CHR '':'' \<notin> set b \<Longrightarrow>
     parse_publish (show_nat (unat h)) = Inr (new_mapping ''127.0.0.1'' h h) \<and>
     parse_publish (join_with '':'' [show_nat (unat h), show_nat (unat c)]) = Inr (new_mapping ''127.0.0.1'' h c) \<and>
     parse_publish (join_with '':'' [b, show_nat (unat h), show_nat (unat c)]) = Inr (new_mapping b h c) \<and>
     (\<forall>s m. parse_publish s = Inr m \<longrightarrow> pm_host_port m \<noteq> 0 \<and> pm_container_port m \<noteq> 0 \<and>
        CHR '':'' \<notin> set (pm_host_bind m) \<and> pm_ephemeral_port m = None)"
proof (intro conjI allI impI)
  assume ok: "h \<noteq> 0" "c \<noteq> 0" "CHR '':'' \<notin> set b"
  have port: "parse_port (show_nat (unat p)) = Inr p" if "p \<noteq> 0" for p :: u16
    using that by (simp add: parse_port_ok parse_u16_show)
  show "parse_publish (show_nat (unat h)) = Inr (new_mapping ''127.0.0.1'' h h)"
    using ok port by (simp add: parse_publish_def split_on_piece)
  show "parse_publish (join_with '':'' [show_nat (unat h), show_nat (unat c)]) = Inr (new_mapping ''127.0.0.1'' h c)"
    using ok port split_join [of "[show_nat (unat h), show_nat (unat c)]" "CHR '':''"]
    by (simp add: parse_publish_def)
  show "parse_publish (join_with '':'' [b, show_nat (unat h), show_nat (unat c)]) = Inr (new_mapping b h c)"
    using ok port split_join [of "[b, show_nat (unat h), show_nat (unat c)]" "CHR '':''"]
    by (simp add: parse_publish_def)
next
  fix s m
  assume "parse_publish s = Inr m"
  from parse_publish_ports [OF this] show "pm_host_port m \<noteq> 0" "pm_container_port m \<noteq> 0"
      "CHR '':'' \<notin> set (pm_host_bind m)" "pm_ephemeral_port m = None" by auto
qed

theorem publish_forms_witness:
  "parse_publish ''8080:3000'' = Inr (new_mapping ''127.0.0.1'' 8080 3000) \<and>
   parse_publish ''0.0.0.0:8080:3000'' = Inr (new_mapping ''0.0.0.0'' 8080 3000)"
proof -
  have eqs: "show_nat (unat (8080 :: u16)) = ''8080''" "show_nat (unat (3000 :: u16)) = ''3000''"
    by (simp_all add: show_nat.simps texts)
  have joins: "join_with '':'' [''8080'', ''3000''] = ''8080:3000''"
    "join_with '':'' [''0.0.0.0'', ''8080'', ''3000''] = ''0.0.0.0:8080:3000''" by simp_all
  have "(8080 :: u16) \<noteq> 0" "(3000 :: u16) \<noteq> 0" "CHR '':'' \<notin> set ''0.0.0.0''" by simp_all
  from publish_forms [OF this, unfolded eqs joins] show ?thesis by blast
qed

lemma port_var_inject [simp]: "port_var p = port_var q \<longleftrightarrow> p = q"
  by (simp add: port_var_def show_nat_inject word_unat_eq_iff [symmetric])

lemma port_var_other [simp]: "port_var p \<noteq> ''PORT''" "port_var p \<noteq> ''HOST''"
  by (simp_all add: port_var_def)

definition published :: "u16 \<Rightarrow> PortMapping list \<Rightarrow> u16 list" where
  "published p ms = List.map_filter pm_ephemeral_port (filter (\<lambda>m. pm_container_port m = p) ms)"

lemma published_Nil [simp]: "published p [] = []"
  by (simp add: published_def List.map_filter_simps)

lemma env_from_port_var:
  "env_from idx ms env (port_var p) =
     (if published p ms = [] then env (port_var p) else Some (show_nat (unat (last (published p ms)))))"
  by (induction idx ms env rule: env_from.induct)
    (auto simp: published_def List.map_filter_simps Let_def fun_upd_other [OF port_var_other(1)] split: option.splits)

lemma env_from_PORT:
  "env_from (Suc idx) ms env ''PORT'' = env ''PORT''"
  by (induction "Suc idx" ms env arbitrary: idx rule: env_from.induct)
    (auto simp: Let_def port_var_other [symmetric] split: option.splits)

lemma env_from_other:
  "k \<noteq> ''PORT'' \<Longrightarrow> (\<forall>p. k \<noteq> port_var p) \<Longrightarrow> env_from idx ms env k = env k"
  by (induction idx ms env rule: env_from.induct) (auto simp: Let_def split: option.splits)

text \<open>
  The environment of a container: \<open>PSROOT_PORT_p\<close> is the ephemeral port of the last mapping of
  container port \<open>p\<close> that has one; \<open>PORT\<close> is that of the first mapping, and is absent when the first
  mapping has none, whatever the others have; \<open>HOST\<close> is the loopback address as soon as there is a
  mapping; nothing else is set.
\<close>

lemma env_for_mappings_lookup:
  "env_for_mappings ms (port_var p) =
     (if published p ms = [] then None else Some (show_nat (unat (last (published p ms))))) \<and>
   env_for_mappings ms ''PORT'' = (case ms of [] \<Rightarrow> None
      | m # _ \<Rightarrow> map_option (\<lambda>e. show_nat (unat e)) (pm_ephemeral_port m)) \<and>
   env_for_mappings ms ''HOST'' = (if ms = [] then None else Some ''127.0.0.1'') \<and>
   dom (env_for_mappings ms) \<subseteq> {''PORT'', ''HOST''} \<union> range port_var"
proof -
  let ?env = "env_from 0 ms Map.empty"
  have not_port: "''HOST'' \<noteq> port_var q" for q using port_var_other(2) by metis
  have host: "?env ''HOST'' = None"
    using env_from_other [of "''HOST''" 0 ms Map.empty] not_port by simp
  have start: "env_for_mappings ms = (if ms = [] then ?env else ?env(''HOST'' \<mapsto> ''127.0.0.1''))"
    using host by (simp add: env_for_mappings_def Let_def)
  have PORT: "?env ''PORT'' = (case ms of [] \<Rightarrow> None
         | m # _ \<Rightarrow> map_option (\<lambda>e. show_nat (unat e)) (pm_ephemeral_port m))"
    using env_from_PORT [of 0]
    by (cases ms) (auto simp: Let_def port_var_other(1) [symmetric] split: option.splits)
  have "dom ?env \<subseteq> {''PORT''} \<union> range port_var"
  proof
    fix k assume "k \<in> dom ?env"
    then have "?env k \<noteq> Map.empty k" by (simp add: domIff)
    then have "k = ''PORT'' \<or> (\<exists>q. k = port_var q)" using env_from_other by metis
    then show "k \<in> {''PORT''} \<union> range port_var" by blast
  qed
  then have "dom (env_for_mappings ms) \<subseteq> {''PORT'', ''HOST''} \<union> range port_var"
    unfolding start by (auto simp only: dom_fun_upd split: if_split)
  moreover have "env_for_mappings ms (port_var p) =
      (if published p ms = [] then None else Some (show_nat (unat (last (published p ms)))))"
    unfolding start using env_from_port_var [of 0 ms Map.empty p] by (simp add: not_port [symmetric])
  moreover have "env_for_mappings ms ''PORT'' = ?env ''PORT''" unfolding start by simp
  moreover have "env_for_mappings ms ''HOST'' = (if ms = [] then None else Some ''127.0.0.1'')"
    unfolding start by simp
  ultimately show ?thesis using PORT by simp
qed

text \<open>
  C16. The accept loop hands every connection accepted before the shutdown flag is seen to a proxy
  thread, in order and whatever accept errors come between, and returns at the first accept after
  which it reads the flag as set, handing over nothing more.
\<close>

theorem accept_loop_stops:
  assumes "\<forall>(stop, incoming, stop') \<in> set before. \<not> stop \<and> (incoming = None \<longrightarrow> \<not> stop')"
    and "stop \<or> incoming = None \<and> stop'"
  shows "accept_loop (before @ (stop, incoming, stop') # after) =
    (List.map_filter (\<lambda>(_, incoming, _). incoming) before, True)"
  using assms(1)
proof (induction before)
  case Nil
  then show ?case using assms(2) by (auto simp: List.map_filter_simps)
next
  case (Cons ev before)
  then show ?case by (cases ev) (auto simp: List.map_filter_simps split: option.splits)
qed

theorem accept_loop_stops_witness:
  "accept_loop [(False, Some ''a'', False), (False, None, False), (False, Some ''b'', False), (True, Some ''kick'', True)] =
     ([''a'', ''b''], True)"
  using accept_loop_stops [of "[(False, Some ''a'', False), (False, None, False), (False, Some ''b'', False)]"
      True "Some ''kick''" True "[]"]
  by (simp add: List.map_filter_simps)

end
