(* ===== verification/Glob.thy ===== *)
theory Glob
  imports Text
begin

text \<open>
  The two wildcard matchers that decide which files are staged: the backtracking loop of
  \<open>crates/psroot-rootfs-stager/src/lib.rs\<close> and the recursive one of
  \<open>crates/psroot-container/src/app_stage.rs\<close>, with their pattern front ends. Both work on the bytes
  of the UTF-8 text. The stager's Unicode \<open>to_lowercase\<close> is the parameter \<open>lower\<close>.
\<close>

section \<open>The code\<close>

abbreviation star :: char where "star \<equiv> CHR ''*''"
abbreviation any :: char where "any \<equiv> CHR ''?''"

definition same_letter :: "char \<Rightarrow> char \<Rightarrow> bool" where
  "same_letter c d \<longleftrightarrow> ascii_lower c = ascii_lower d"

text \<open>The inner loop that skips a run of stars.\<close>

function skip_stars :: "string \<Rightarrow> nat \<Rightarrow> nat" where
  "skip_stars p i = (if i < length p \<and> p ! i = star then skip_stars p (i + 1) else i)"
  by auto
termination by (relation "measure (\<lambda>(p, i). length p - i)") auto

declare skip_stars.simps [simp del]

text \<open>
  The matcher's loop on positions \<open>pi\<close>, \<open>ti\<close> and the remembered star. Nothing but the invariant of
  its start makes it terminate, so the result is \<open>None\<close> if it does not.
\<close>

partial_function (option) glob_loop ::
    "string \<Rightarrow> string \<Rightarrow> nat \<Rightarrow> nat \<Rightarrow> (nat \<times> nat) option \<Rightarrow> bool option" where
  "glob_loop p t pi ti bk =
     (if ti < length t then
        (if pi < length p \<and> (p ! pi = any \<or> same_letter (p ! pi) (t ! ti)) then
           glob_loop p t (pi + 1) (ti + 1) bk
         else if pi < length p \<and> p ! pi = star then
           (let pi' = skip_stars p pi in
            if pi' = length p then Some True else glob_loop p t pi' ti (Some (pi', ti)))
         else (case bk of
             Some (sp, st) \<Rightarrow> glob_loop p t sp (st + 1) (Some (sp, st + 1))
           | None \<Rightarrow> Some False))
      else Some (skip_stars p pi = length p))"

definition glob_match_inner :: "string \<Rightarrow> string \<Rightarrow> bool option" where
  "glob_match_inner p t = glob_loop p t 0 0 None"

definition to_slashes :: "string \<Rightarrow> string" where
  "to_slashes s = map (\<lambda>c. if c = CHR 0x5C then CHR ''/'' else c) s"

definition stager_glob_match :: "(string \<Rightarrow> string) \<Rightarrow> string \<Rightarrow> string \<Rightarrow> bool option" where
  "stager_glob_match lower pat text = glob_match_inner (lower (to_slashes pat)) (lower text)"

text \<open>\<open>app_stage.rs\<close>: the recursion on the pattern.\<close>

fun glob_recursive :: "string \<Rightarrow> string \<Rightarrow> bool" where
  "glob_recursive [] text \<longleftrightarrow> text = []"
| "glob_recursive (c # p) text \<longleftrightarrow>
     (if c = star then list_ex (\<lambda>i. glob_recursive p (drop i text)) [0..<length text + 1]
      else if c = any then text \<noteq> [] \<and> glob_recursive p (tl text)
      else text \<noteq> [] \<and> ascii_lower (hd text) = ascii_lower c \<and> glob_recursive p (tl text))"

definition simple_glob :: "string \<Rightarrow> string \<Rightarrow> bool" where
  "simple_glob pattern text = glob_recursive pattern text"

text \<open>\<open>find\<close> of a text: what precedes and what follows its first occurrence.\<close>

fun split_first_str :: "string \<Rightarrow> string \<Rightarrow> (string \<times> string) option" where
  "split_first_str p [] = (if p = [] then Some ([], []) else None)"
| "split_first_str p (c # s) =
     (if starts_with p (c # s) then Some ([], drop (length p) (c # s))
      else map_option (\<lambda>(a, b). (c # a, b)) (split_first_str p s))"

lemma split_first_str_SomeD: "split_first_str p s = Some (a, b) \<Longrightarrow> s = a @ p @ b"
  by (induction s arbitrary: a b) (auto simp: starts_with_iff split: if_splits)

text \<open>The last piece of \<open>split\<close>.\<close>

function last_piece :: "string \<Rightarrow> string \<Rightarrow> string" where
  "last_piece p s = (if p = [] then s else (case split_first_str p s of
       None \<Rightarrow> s
     | Some (a, b) \<Rightarrow> last_piece p b))"
  by auto
termination
  by (relation "measure (\<lambda>(p, s). length s)") (auto dest!: split_first_str_SomeD)

declare last_piece.simps [simp del]

text \<open>A byte index is a character boundary unless it is inside a multi-byte character.\<close>

definition char_boundary :: "string \<Rightarrow> nat \<Rightarrow> bool" where
  "char_boundary s i \<longleftrightarrow> i = length s \<or>
     i < length s \<and> \<not> (128 \<le> (of_char (s ! i) :: nat) \<and> (of_char (s ! i) :: nat) < 192)"

text \<open>\<open>None\<close> is the panic of slicing inside a character.\<close>

definition app_glob_match :: "string \<Rightarrow> string \<Rightarrow> bool option" where
  "app_glob_match pattern text =
     (case split_first_str ''**/'' pattern of
        Some (_, after) \<Rightarrow>
          (let suffix = last_piece ''**/'' pattern in
           if suffix = [] then Some True
           else if list_ex (simple_glob suffix) (split_on (CHR ''/'') text) then Some True
           else if length after \<le> length text then
             (if char_boundary text (length text - length after)
              then Some (simple_glob after (drop (length text - length after) text)) else None)
           else Some False)
      | None \<Rightarrow> Some (simple_glob pattern (last (split_on (CHR ''/'') text))))"

fun matches_glob :: "string \<Rightarrow> string list \<Rightarrow> bool option" where
  "matches_glob path [] = Some False"
| "matches_glob path (pattern # patterns) = (case app_glob_match pattern path of
       None \<Rightarrow> None
     | Some True \<Rightarrow> Some True
     | Some False \<Rightarrow> matches_glob path patterns)"

fun matches_any :: "(string \<Rightarrow> string) \<Rightarrow> string \<Rightarrow> string list \<Rightarrow> bool option" where
  "matches_any lower rel [] = Some False"
| "matches_any lower rel (pat # pats) = (case stager_glob_match lower pat rel of
       None \<Rightarrow> None
     | Some True \<Rightarrow> Some True
     | Some False \<Rightarrow> matches_any lower rel pats)"

section \<open>What a pattern means\<close>

inductive wild :: "string \<Rightarrow> string \<Rightarrow> bool" where
  nil: "wild [] []"
| star: "wild p t \<Longrightarrow> wild (star # p) (s @ t)"
| any: "wild p t \<Longrightarrow> wild (any # p) (c # t)"
| lit: "c \<noteq> star \<Longrightarrow> c \<noteq> any \<Longrightarrow> same_letter c d \<Longrightarrow> wild p t \<Longrightarrow> wild (c # p) (d # t)"

inductive_simps wild_Nil [simp]: "wild [] t"
inductive_simps wild_Cons: "wild (c # p) t"

lemma wild_star: "wild (star # p) t \<longleftrightarrow> (\<exists>k \<le> length t. wild p (drop k t))"
proof
  assume "wild (star # p) t"
  then obtain s u where "t = s @ u" "wild p u" by (auto simp: wild_Cons)
  then show "\<exists>k \<le> length t. wild p (drop k t)" by (intro exI [of _ "length s"]) simp
next
  assume "\<exists>k \<le> length t. wild p (drop k t)"
  then obtain k where "wild p (drop k t)" by blast
  then show "wild (star # p) t" using wild.star [of p "drop k t" "take k t"] by simp
qed

lemma wild_any: "wild (any # p) t \<longleftrightarrow> t \<noteq> [] \<and> wild p (tl t)"
  by (cases t) (auto simp: wild_Cons)

lemma wild_lit:
  "c \<noteq> star \<Longrightarrow> c \<noteq> any \<Longrightarrow> wild (c # p) t \<longleftrightarrow> t \<noteq> [] \<and> same_letter c (hd t) \<and> wild p (tl t)"
  by (cases t) (auto simp: wild_Cons)

lemmas wild_simps = wild_star wild_any wild_lit

lemma glob_recursive_wild: "glob_recursive p t \<longleftrightarrow> wild p t"
proof (induction p arbitrary: t)
  case (Cons c p)
  show ?case
  proof (cases "c = star")
    case True
    have "list_ex (\<lambda>i. glob_recursive p (drop i t)) [0..<length t + 1] \<longleftrightarrow> (\<exists>k \<le> length t. wild p (drop k t))"
      unfolding list_ex_iff set_upt using Cons by (auto simp: less_Suc_eq_le)
    then show ?thesis using True by (simp add: wild_star)
  next
    case False
    then show ?thesis
      using Cons by (cases "c = any") (auto simp: wild_any wild_lit same_letter_def)
  qed
qed simp

section \<open>The backtracking loop computes the meaning\<close>

lemma skip_stars_step [simp]:
  "\<not> (i < length p \<and> p ! i = star) \<Longrightarrow> skip_stars p i = i"
  "i < length p \<Longrightarrow> p ! i = star \<Longrightarrow> skip_stars p i = skip_stars p (i + 1)"
  by (subst skip_stars.simps; simp)+

lemma skip_stars_bounds: "i \<le> length p \<Longrightarrow> i \<le> skip_stars p i \<and> skip_stars p i \<le> length p"
proof (induction p i rule: skip_stars.induct)
  case (1 p i)
  then show ?case by (cases "i < length p \<and> p ! i = star") auto
qed

lemma skip_stars_stop: "skip_stars p i < length p \<Longrightarrow> p ! skip_stars p i \<noteq> star"
proof (induction p i rule: skip_stars.induct)
  case (1 p i)
  then show ?case by (cases "i < length p \<and> p ! i = star") auto
qed

lemma skip_stars_gt: "i < length p \<Longrightarrow> p ! i = star \<Longrightarrow> i < skip_stars p i"
  using skip_stars_bounds [of "i + 1" p] by simp

lemma wild_star_star: "wild (star # star # p) t \<longleftrightarrow> wild (star # p) t"
proof
  assume "wild (star # star # p) t"
  then obtain k l where "k \<le> length t" "l \<le> length t - k" "wild p (drop l (drop k t))"
    by (auto simp: wild_star)
  then have "l + k \<le> length t" "wild p (drop (l + k) t)" by simp_all
  then show "wild (star # p) t" unfolding wild_star by blast
next
  assume "wild (star # p) t"
  then have "0 \<le> length t \<and> wild (star # p) (drop 0 t)" by simp
  then show "wild (star # star # p) t" unfolding wild_star [of "star # p"] by blast
qed

lemma wild_star_cong: "(\<And>u. wild p u = wild q u) \<Longrightarrow> wild (star # p) t = wild (star # q) t"
  by (simp add: wild_star)

lemma skip_stars_wild:
  "i < length p \<Longrightarrow> p ! i = star \<Longrightarrow> wild (drop i p) t = wild (star # drop (skip_stars p i) p) t"
proof (induction p i arbitrary: t rule: skip_stars.induct)
  case (1 p i)
  have here: "drop i p = star # drop (i + 1) p" using 1(2,3) by (metis Cons_nth_drop_Suc Suc_eq_plus1)
  show ?case
  proof (cases "i + 1 < length p \<and> p ! (i + 1) = star")
    case True
    then have "wild (star # drop (i + 1) p) t = wild (star # star # drop (skip_stars p (i + 1)) p) t"
      using 1 by (intro wild_star_cong) blast
    then show ?thesis using here 1(2,3) wild_star_star by simp
  next
    case False
    then show ?thesis using here 1(2,3) by simp
  qed
qed

lemma wild_at_end:
  assumes "i \<le> length p" and "i < length p \<Longrightarrow> p ! i \<noteq> star"
  shows "wild (drop i p) [] \<longleftrightarrow> i = length p"
proof (cases "i < length p")
  case True
  then have "drop i p = p ! i # drop (i + 1) p" by (metis Cons_nth_drop_Suc Suc_eq_plus1)
  then show ?thesis using True assms(2) by (cases "p ! i = any") (simp_all add: wild_simps)
qed (use assms(1) in simp)

lemma wild_star_free_prefix:
  assumes "star \<notin> set q" and "wild (q @ r) u"
  shows "length q \<le> length u \<and> wild r (drop (length q) u)"
  using assms
proof (induction q arbitrary: u)
  case (Cons c q)
  then obtain d v where u: "u = d # v" "wild (q @ r) v"
    by (cases "c = any") (auto simp: wild_simps neq_Nil_conv)
  then show ?case using Cons by simp
qed simp

text \<open>Where the loop stands: the part of the pattern after the star has been matched letter by letter.\<close>

definition back_ok :: "string \<Rightarrow> string \<Rightarrow> nat \<Rightarrow> nat \<Rightarrow> (nat \<times> nat) option \<Rightarrow> bool" where
  "back_ok p t pi ti bk \<longleftrightarrow> pi \<le> length p \<and> ti \<le> length t \<and>
     (case bk of None \<Rightarrow> True
      | Some (sp, st) \<Rightarrow> sp \<le> pi \<and> st + (pi - sp) = ti \<and> star \<notin> set (drop sp (take pi p)))"

text \<open>What the loop still has to find: a match from here, or from a later start of the star's rest.\<close>

definition pending :: "string \<Rightarrow> string \<Rightarrow> nat \<Rightarrow> nat \<Rightarrow> (nat \<times> nat) option \<Rightarrow> bool" where
  "pending p t pi ti bk \<longleftrightarrow> wild (drop pi p) (drop ti t) \<or>
     (case bk of None \<Rightarrow> False
      | Some (sp, st) \<Rightarrow> \<exists>k. st < k \<and> k \<le> length t \<and> wild (drop sp p) (drop k t))"

lemma later_start:
  assumes "back_ok p t pi ti (Some (sp, st))" and "st < k" "k \<le> length t" and "wild (drop sp p) (drop k t)"
  shows "ti < k + (pi - sp)" "k + (pi - sp) \<le> length t" "wild (drop pi p) (drop (k + (pi - sp)) t)"
proof -
  have split: "drop sp p = drop sp (take pi p) @ drop pi p" and len: "length (drop sp (take pi p)) = pi - sp"
    using assms(1) by (auto simp: back_ok_def drop_take)
      (metis append_take_drop_id drop_drop le_add_diff_inverse2)
  have "pi - sp \<le> length t - k \<and> wild (drop pi p) (drop (pi - sp) (drop k t))"
    using wild_star_free_prefix [of "drop sp (take pi p)" "drop pi p" "drop k t"] assms(1,4) split len
    by (simp add: back_ok_def)
  then show "ti < k + (pi - sp)" "k + (pi - sp) \<le> length t" "wild (drop pi p) (drop (k + (pi - sp)) t)"
    using assms(1-3) by (auto simp: back_ok_def add.commute)
qed

lemma pending_end:
  assumes "back_ok p t pi (length t) bk"
  shows "pending p t pi (length t) bk \<longleftrightarrow> skip_stars p pi = length p"
proof -
  have "wild (drop pi p) [] \<longleftrightarrow> skip_stars p pi = length p"
  proof (cases "pi < length p \<and> p ! pi = star")
    case True
    then have "wild (drop pi p) [] \<longleftrightarrow> wild (drop (skip_stars p pi) p) []"
      using skip_stars_wild [of pi p "[]"] by (simp add: wild_star)
    also have "\<dots> \<longleftrightarrow> skip_stars p pi = length p"
      using skip_stars_bounds [of pi p] skip_stars_stop [of p pi] True by (intro wild_at_end) auto
    finally show ?thesis .
  next
    case False
    then show ?thesis using assms by (auto simp: wild_at_end back_ok_def)
  qed
  moreover have "\<not> (st < k \<and> k \<le> length t \<and> wild (drop sp p) (drop k t))" if "bk = Some (sp, st)" for sp st k
    using later_start [of p t pi "length t" sp st k] assms that by auto
  ultimately show ?thesis by (auto simp: pending_def split: option.splits)
qed

lemma ex_shift:
  fixes n :: nat
  assumes "j \<le> n"
  shows "(\<exists>k \<le> n - j. P (k + j)) \<longleftrightarrow> (\<exists>k. j \<le> k \<and> k \<le> n \<and> P k)" (is "?l \<longleftrightarrow> ?r")
proof
  assume ?l
  then obtain k where "k \<le> n - j" "P (k + j)" by blast
  then show ?r using assms by (intro exI [of _ "k + j"]) simp
next
  assume ?r
  then obtain k where "j \<le> k" "k \<le> n" "P k" by blast
  then show ?l by (intro exI [of _ "k - j"]) simp
qed

lemma ex_later: "Suc m \<le> n \<Longrightarrow> P (Suc m) \<or> (\<exists>k. Suc m < k \<and> k \<le> n \<and> P k) \<longleftrightarrow> (\<exists>k. m < k \<and> k \<le> n \<and> P k)"
  by (metis Suc_lessD Suc_lessI lessI)

lemma pending_match:
  assumes "back_ok p t pi ti bk" and "ti < length t" "pi < length p" "p ! pi \<noteq> star"
    and "p ! pi = any \<or> same_letter (p ! pi) (t ! ti)"
  shows "back_ok p t (pi + 1) (ti + 1) bk" "pending p t (pi + 1) (ti + 1) bk = pending p t pi ti bk"
proof -
  have p: "drop pi p = p ! pi # drop (pi + 1) p" and t: "drop ti t = t ! ti # drop (ti + 1) t"
    using assms(2,3) by (simp_all add: Cons_nth_drop_Suc)
  have "wild (drop pi p) (drop ti t) = wild (drop (pi + 1) p) (drop (ti + 1) t)"
    unfolding p t using assms(4,5) by (cases "p ! pi = any") (simp_all add: wild_simps)
  then show "pending p t (pi + 1) (ti + 1) bk = pending p t pi ti bk"
    by (simp add: pending_def)
  show "back_ok p t (pi + 1) (ti + 1) bk"
    using assms(1-4) by (auto simp: back_ok_def take_Suc_conv_app_nth split: option.splits)
qed

lemma pending_star:
  assumes "back_ok p t pi ti bk" and "ti < length t" "pi < length p" "p ! pi = star"
  shows "back_ok p t (skip_stars p pi) ti (Some (skip_stars p pi, ti))"
    "pending p t (skip_stars p pi) ti (Some (skip_stars p pi, ti)) = pending p t pi ti bk"
proof -
  let ?q = "skip_stars p pi"
  show "back_ok p t ?q ti (Some (?q, ti))"
    using assms skip_stars_bounds [of pi p] by (simp add: back_ok_def)
  have here: "wild (drop pi p) (drop j t) \<longleftrightarrow> (\<exists>k. j \<le> k \<and> k \<le> length t \<and> wild (drop ?q p) (drop k t))"
    if "j \<le> length t" for j
    using skip_stars_wild [OF assms(3,4), of "drop j t"] ex_shift [OF that, of "\<lambda>k. wild (drop ?q p) (drop k t)"]
    by (simp add: wild_star)
  have "pending p t ?q ti (Some (?q, ti)) \<longleftrightarrow> wild (drop pi p) (drop ti t)"
    using here [of ti] assms(2) by (auto simp: pending_def le_less)
  moreover have "wild (drop pi p) (drop ti t)"
    if "bk = Some (sp, st)" "st < k" "k \<le> length t" "wild (drop sp p) (drop k t)" for sp st k
  proof -
    let ?j = "k + (pi - sp)"
    have "ti < ?j" "?j \<le> length t" "wild (drop pi p) (drop ?j t)"
      using later_start [of p t pi ti sp st k] assms(1) that by simp_all
    then show ?thesis using here [of ?j] here [of ti] assms(2) by (meson le_less less_imp_le_nat order.trans)
  qed
  ultimately show "pending p t ?q ti (Some (?q, ti)) = pending p t pi ti bk"
    by (auto simp: pending_def split: option.splits)
qed

lemma pending_mismatch:
  assumes "ti < length t" "back_ok p t pi ti bk"
    and "\<not> (pi < length p \<and> (p ! pi = any \<or> same_letter (p ! pi) (t ! ti)))" "\<not> (pi < length p \<and> p ! pi = star)"
  shows "\<not> wild (drop pi p) (drop ti t)"
proof (cases "pi < length p")
  case True
  then have "drop pi p = p ! pi # drop (pi + 1) p" "drop ti t = t ! ti # drop (ti + 1) t"
    using assms(1) by (simp_all add: Cons_nth_drop_Suc)
  then show ?thesis using True assms(3,4) by (simp add: wild_lit)
qed (use assms(1) in simp)

lemma pending_back:
  assumes "back_ok p t pi ti (Some (sp, st))" and "ti < length t" and "\<not> wild (drop pi p) (drop ti t)"
  shows "back_ok p t sp (st + 1) (Some (sp, st + 1))"
    "pending p t sp (st + 1) (Some (sp, st + 1)) = pending p t pi ti (Some (sp, st))"
proof -
  show "back_ok p t sp (st + 1) (Some (sp, st + 1))"
    using assms(1,2) by (auto simp: back_ok_def)
  have "st + 1 \<le> length t" using assms(1,2) by (auto simp: back_ok_def)
  then show "pending p t sp (st + 1) (Some (sp, st + 1)) = pending p t pi ti (Some (sp, st))"
    using assms(3) ex_later [of st "length t" "\<lambda>k. wild (drop sp p) (drop k t)"] by (simp add: pending_def)
qed

text \<open>The measure: the star's rest gets shorter, then its start moves right, then the text is consumed.\<close>

definition glob_measure :: "string \<Rightarrow> string \<Rightarrow> nat \<Rightarrow> (nat \<times> nat) option \<Rightarrow> nat \<times> nat \<times> nat" where
  "glob_measure p t ti bk = (case bk of
       None \<Rightarrow> (length p + 1, 0, length t - ti)
     | Some (sp, st) \<Rightarrow> (length p - sp, length t - st, length t - ti))"

lemma same_letter_star: "same_letter star c \<longleftrightarrow> c = star"
proof -
  have "ascii_lower star = star" by code_simp
  moreover have "ascii_lower c = star \<longleftrightarrow> c = star"
    by (auto simp: ascii_lower_def Let_def char_of_eq_iff take_bit_nat_eq_self)
  ultimately show ?thesis by (auto simp: same_letter_def)
qed

lemma wf_glob:
  "wf (inv_image (less_than <*lex*> less_than <*lex*> less_than) (\<lambda>(ti, bk). glob_measure p t ti bk))"
  by auto

lemma glob_loop_pending:
  assumes "star \<notin> set t" and "back_ok p t pi ti bk"
  shows "glob_loop p t pi ti bk = Some (pending p t pi ti bk)"
  using assms(2)
proof (induction "(ti, bk)" arbitrary: pi ti bk rule: wf_induct_rule [OF wf_glob [of p t]])
  case 1
  note ok = 1(2)
  have IH: "glob_loop p t pi' ti' bk' = Some (pending p t pi' ti' bk')"
    if "(glob_measure p t ti' bk', glob_measure p t ti bk) \<in> less_than <*lex*> less_than <*lex*> less_than"
      "back_ok p t pi' ti' bk'" for pi' ti' bk'
    using 1(1) [of ti' bk'] that by simp
  consider "ti = length t" | "ti < length t" using ok by (auto simp: back_ok_def le_less)
  then show ?case
  proof cases
    case 1
    then show ?thesis using pending_end ok by (simp add: glob_loop.simps)
  next
    case more: 2
    consider "pi < length p" "p ! pi = any \<or> same_letter (p ! pi) (t ! ti)"
      | "\<not> (pi < length p \<and> (p ! pi = any \<or> same_letter (p ! pi) (t ! ti)))" "pi < length p" "p ! pi = star"
      | "\<not> (pi < length p \<and> (p ! pi = any \<or> same_letter (p ! pi) (t ! ti)))" "\<not> (pi < length p \<and> p ! pi = star)"
      by blast
    then show ?thesis
    proof cases
      case 1
      have "p ! pi \<noteq> star"
      proof
        assume *: "p ! pi = star"
        moreover have "t ! ti \<noteq> star" using more assms(1) nth_mem by metis
        ultimately show False using 1(2) same_letter_star by auto
      qed
      then have "back_ok p t (pi + 1) (ti + 1) bk" "pending p t (pi + 1) (ti + 1) bk = pending p t pi ti bk"
        using pending_match [OF ok more 1(1) _ 1(2)] by simp_all
      moreover have "glob_loop p t pi ti bk = glob_loop p t (pi + 1) (ti + 1) bk"
        using more 1 by (subst glob_loop.simps) simp
      moreover have "(glob_measure p t (ti + 1) bk, glob_measure p t ti bk) \<in> less_than <*lex*> less_than <*lex*> less_than"
        using more by (cases bk) (auto simp: glob_measure_def)
      ultimately show ?thesis using IH by simp
    next
      case 2
      let ?q = "skip_stars p pi"
      have q: "pi < ?q" "?q \<le> length p" using skip_stars_gt [OF 2(2,3)] skip_stars_bounds [of pi p] 2(2) by simp_all
      have step: "glob_loop p t pi ti bk =
          (if ?q = length p then Some True else glob_loop p t ?q ti (Some (?q, ti)))"
        using more 2 by (subst glob_loop.simps) (simp add: Let_def del: skip_stars_step)
      show ?thesis
      proof (cases "?q = length p")
        case True
        then have "pending p t pi ti bk"
          using skip_stars_wild [OF 2(2,3)] more by (auto simp: pending_def wild_star intro!: exI [of _ "length t - ti"])
        then show ?thesis using step True by simp
      next
        case False
        have "glob_measure p t ti (Some (?q, ti)) = (length p - ?q, length t - ti, length t - ti)"
          by (simp add: glob_measure_def)
        moreover have "length p - ?q < fst (glob_measure p t ti bk)"
          using ok q by (auto simp: glob_measure_def back_ok_def split: option.splits)
        ultimately have "(glob_measure p t ti (Some (?q, ti)), glob_measure p t ti bk) \<in> less_than <*lex*> less_than <*lex*> less_than"
          by (cases "glob_measure p t ti bk") simp
        then show ?thesis
          using IH pending_star [OF ok more 2(2,3)] step False by simp
      qed
    next
      case 3
      have none: "\<not> wild (drop pi p) (drop ti t)" using pending_mismatch [OF more ok 3] .
      show ?thesis
      proof (cases bk)
        case None
        then show ?thesis using more 3 none by (subst glob_loop.simps) (auto simp: pending_def)
      next
        case (Some b)
        obtain sp st where b: "bk = Some (sp, st)" using Some by (cases b) simp
        have "glob_loop p t pi ti bk = glob_loop p t sp (st + 1) (Some (sp, st + 1))"
          using more 3 b by (subst glob_loop.simps) auto
        moreover have "st < length t" using ok b more by (auto simp: back_ok_def)
        moreover note pending_back [OF ok [unfolded b] more none]
        moreover have "(glob_measure p t (st + 1) (Some (sp, st + 1)), glob_measure p t ti bk) \<in>
            less_than <*lex*> less_than <*lex*> less_than"
          using b \<open>st < length t\<close> diff_less_mono2 [of st "st + 1" "length t"] by (simp add: glob_measure_def)
        ultimately show ?thesis using IH b by simp
      qed
    qed
  qed
qed

section \<open>Properties\<close>

lemma glob_match_inner_wild: "star \<notin> set t \<Longrightarrow> glob_match_inner p t = Some (wild p t)"
  using glob_loop_pending [of t p 0 0 None]
  by (simp add: glob_match_inner_def back_ok_def pending_def)



text \<open>
  The default exclusion \<open>**/Installer/**\<close> of the application stager does not exclude what is
  inside an \<open>Installer\<close> directory, whether at the root or deeper, although the stager's matcher
  does for the same pattern and a directory below the root.
\<close>

lemma installer_not_excluded:
  "app_glob_match ''**/Installer/**'' ''Installer/setup.exe'' = Some False \<and>
   app_glob_match ''**/Installer/**'' ''app/Installer/setup.exe'' = Some False \<and>
   stager_glob_match to_ascii_lowercase ''**/Installer/**'' ''app/Installer/setup.exe'' = Some True"
proof (intro conjI)
  have "star \<notin> set ''app/installer/setup.exe''" by simp
  moreover have "glob_recursive ''**/installer/**'' ''app/installer/setup.exe''" by code_simp
  moreover have "to_ascii_lowercase (to_slashes ''**/Installer/**'') = ''**/installer/**''"
    "to_ascii_lowercase ''app/Installer/setup.exe'' = ''app/installer/setup.exe''" by code_simp+
  ultimately show "stager_glob_match to_ascii_lowercase ''**/Installer/**'' ''app/Installer/setup.exe'' = Some True"
    by (simp add: stager_glob_match_def glob_match_inner_wild glob_recursive_wild)
qed code_simp+

end
