(* ===== verification/Config.thy ===== *)
theory Config
  imports Resolve Portmap
begin

text \<open>
  The shared types of \<open>crates/psroot-types\<close> (\<open>config.rs\<close>, \<open>state.rs\<close>, \<open>stats.rs\<close>, \<open>error.rs\<close>):
  resource limits, volumes, the container configuration, lifecycle states and the unified error.
  A \<open>HashMap\<close> of environment variables is the list of its entries in iteration order.
\<close>

section \<open>Errors\<close>

datatype PsrootError =
    Win32 string u32
  | NtStatus string u32
  | HResult string u32
  | InvalidState string string string        \<comment> \<open>container, current state, expected state\<close>
  | NotFound string
  | AdminRequired string
  | Unsupported string
  | IoError nat
  | SerdeError
  | OtherError string

text \<open>\<open>code\<close>: the casts from \<open>u32\<close> to \<open>i32\<close> keep the bits.\<close>

fun error_code :: "PsrootError \<Rightarrow> 32 word" where
  "error_code (Win32 op code) = code"
| "error_code (NtStatus op status) = status"
| "error_code (HResult op hr) = hr"
| "error_code _ = - 1"

section \<open>Configuration\<close>

record ResourceLimits =
  rl_memory :: u64
  rl_cpu_rate :: u32
  rl_max_processes :: u32
  rl_affinity :: u64
  rl_priority_class :: u32

definition default_memory :: u64 where "default_memory = 1073741824"
definition default_cpu_rate :: u32 where "default_cpu_rate = 10000"
definition default_max_processes :: u32 where "default_max_processes = 100"

definition default_limits :: ResourceLimits where
  "default_limits = \<lparr>rl_memory = default_memory, rl_cpu_rate = default_cpu_rate,
     rl_max_processes = default_max_processes, rl_affinity = 0, rl_priority_class = 0\<rparr>"

record VolumeMount =
  vm_host_path :: string
  vm_container_path :: string
  vm_read_only :: bool

datatype SecurityProfile = Minimal | DefaultProfile | Locked

record ContainerConfig =
  cc_name :: "string option"
  cc_rootfs_path :: string
  cc_command :: "string list"
  cc_env :: "(string \<times> string) list"
  cc_resources :: ResourceLimits
  cc_volumes :: "VolumeMount list"
  cc_hostname :: "string option"
  cc_working_directory :: string
  cc_silo :: bool
  cc_tools :: "string list"
  cc_shares :: "string list"
  cc_security_profile :: SecurityProfile
  cc_network :: NetworkAccess
  cc_ports :: "PortMapping list"

definition default_command :: "string list" where
  "default_command = [''cmd.exe'']"

definition default_workdir :: string where
  "default_workdir = ''C:'' @ [CHR 0x5C]"

definition default_host_bind :: string where
  "default_host_bind = ''127.0.0.1''"

text \<open>\<open>HashMap::insert\<close>: an existing key keeps its place.\<close>

fun hm_insert :: "'k \<Rightarrow> 'v \<Rightarrow> ('k \<times> 'v) list \<Rightarrow> ('k \<times> 'v) list" where
  "hm_insert k v [] = [(k, v)]"
| "hm_insert k v ((k', v') # es) = (if k' = k then (k, v) # es else (k', v') # hm_insert k v es)"

lemma map_of_hm_insert [simp]: "map_of (hm_insert k v es) = (map_of es)(k \<mapsto> v)"
  by (induction k v es rule: hm_insert.induct) auto

lemma distinct_hm_insert: "distinct (map fst es) \<Longrightarrow> distinct (map fst (hm_insert k v es))"
proof (induction k v es rule: hm_insert.induct)
  case (2 k v k' v' es)
  have "fst ` set (hm_insert k v es) \<subseteq> insert k (fst ` set es)"
    by (induction k v es rule: hm_insert.induct) auto
  with 2 show ?case by auto
qed simp

section \<open>Lifecycle states and statistics\<close>

datatype ContainerState = Created | Running | Stopped | Removed

fun show_state :: "ContainerState \<Rightarrow> string" where
  "show_state Created = ''created''"
| "show_state Running = ''running''"
| "show_state Stopped = ''stopped''"
| "show_state Removed = ''removed''"

record ContainerStats =
  cs_memory_usage :: u64
  cs_cpu_user_time :: u64
  cs_cpu_kernel_time :: u64
  cs_process_count :: u32
  cs_total_processes :: u32
  cs_io_read_bytes :: u64
  cs_io_write_bytes :: u64

end
