(* ===== verification/Job.thy ===== *)
theory Job
  imports Config
begin

text \<open>
  Job Objects, \<open>crates/psroot-job\<close> (\<open>handle.rs\<close>, \<open>limits.rs\<close>, \<open>accounting.rs\<close>). The kernel is a
  parameter: what a call returns, and the values of the limit flags, which come from
  \<open>windows-sys\<close>. \<open>SetInformationJobObject\<close> replaces the information of the class it names, so a job
  is the extended limits and the CPU rate last set. \<open>usize\<close> is 64 bits wide.
\<close>

section \<open>Limits\<close>

record limit_consts =
  KILL_ON_JOB_CLOSE :: u32
  LIMIT_JOB_MEMORY :: u32
  LIMIT_ACTIVE_PROCESS :: u32
  LIMIT_AFFINITY :: u32
  LIMIT_PRIORITY_CLASS :: u32
  CPU_RATE_ENABLE :: u32
  CPU_RATE_HARD_CAP :: u32

record ext_limit =
  ei_flags :: u32
  ei_memory :: u64
  ei_processes :: u32
  ei_affinity :: u64
  ei_priority :: u32

definition zeroed_ext_limit :: ext_limit where
  "zeroed_ext_limit = \<lparr>ei_flags = 0, ei_memory = 0, ei_processes = 0, ei_affinity = 0, ei_priority = 0\<rparr>"

record cpu_rate_info =
  ci_control :: u32
  ci_rate :: u32

datatype job_info = ExtendedLimit ext_limit | CpuRate cpu_rate_info

record job_obj =
  jo_ext :: ext_limit
  jo_cpu :: "cpu_rate_info option"

text \<open>\<open>ok\<close> says whether the kernel accepts the information, \<open>err\<close> is \<open>GetLastError\<close>.\<close>

type_synonym job_kernel = "job_info \<Rightarrow> u32 option"

definition job_new :: job_obj where
  "job_new = \<lparr>jo_ext = zeroed_ext_limit, jo_cpu = None\<rparr>"

definition set_info :: "job_kernel \<Rightarrow> job_info \<Rightarrow> job_obj \<Rightarrow> (PsrootError + unit) \<times> job_obj" where
  "set_info k info j = (case k info of
       Some err \<Rightarrow> (Inl (Win32 ''SetInformationJobObject'' err), j)
     | None \<Rightarrow> (Inr (), case info of
           ExtendedLimit e \<Rightarrow> j\<lparr>jo_ext := e\<rparr>
         | CpuRate c \<Rightarrow> j\<lparr>jo_cpu := Some c\<rparr>))"

definition enable_kill_on_close :: "limit_consts \<Rightarrow> job_kernel \<Rightarrow> job_obj \<Rightarrow> (PsrootError + unit) \<times> job_obj" where
  "enable_kill_on_close c k = set_info k (ExtendedLimit (zeroed_ext_limit\<lparr>ei_flags := KILL_ON_JOB_CLOSE c\<rparr>))"

definition set_cpu_rate :: "limit_consts \<Rightarrow> job_kernel \<Rightarrow> u32 \<Rightarrow> job_obj \<Rightarrow> (PsrootError + unit) \<times> job_obj" where
  "set_cpu_rate c k rate =
     set_info k (CpuRate \<lparr>ci_control = CPU_RATE_ENABLE c OR CPU_RATE_HARD_CAP c, ci_rate = rate\<rparr>)"

text \<open>The extended limits of a configuration: each limit is set when it is not zero.\<close>

definition limit_info :: "limit_consts \<Rightarrow> ResourceLimits \<Rightarrow> ext_limit" where
  "limit_info c l =
     (let info = zeroed_ext_limit; flags = KILL_ON_JOB_CLOSE c;
          (flags, info) = (if rl_memory l > 0
            then (flags OR LIMIT_JOB_MEMORY c, info\<lparr>ei_memory := rl_memory l\<rparr>) else (flags, info));
          (flags, info) = (if rl_max_processes l > 0
            then (flags OR LIMIT_ACTIVE_PROCESS c, info\<lparr>ei_processes := rl_max_processes l\<rparr>) else (flags, info));
          (flags, info) = (if rl_affinity l > 0
            then (flags OR LIMIT_AFFINITY c, info\<lparr>ei_affinity := rl_affinity l\<rparr>) else (flags, info));
          (flags, info) = (if rl_priority_class l > 0
            then (flags OR LIMIT_PRIORITY_CLASS c, info\<lparr>ei_priority := rl_priority_class l\<rparr>) else (flags, info))
      in info\<lparr>ei_flags := flags\<rparr>)"

definition apply_limits :: "limit_consts \<Rightarrow> job_kernel \<Rightarrow> ResourceLimits \<Rightarrow> job_obj \<Rightarrow>
    (PsrootError + unit) \<times> job_obj" where
  "apply_limits c k l j = (case set_info k (ExtendedLimit (limit_info c l)) j of
       (Inl e, j) \<Rightarrow> (Inl e, j)
     | (Inr _, j) \<Rightarrow>
       if rl_cpu_rate l > 0 \<and> rl_cpu_rate l < 10000 then set_cpu_rate c k (rl_cpu_rate l) j else (Inr (), j))"

definition set_memory_limit :: "limit_consts \<Rightarrow> job_kernel \<Rightarrow> u64 \<Rightarrow> job_obj \<Rightarrow> (PsrootError + unit) \<times> job_obj" where
  "set_memory_limit c k bytes =
     set_info k (ExtendedLimit (zeroed_ext_limit\<lparr>ei_flags := KILL_ON_JOB_CLOSE c OR LIMIT_JOB_MEMORY c,
       ei_memory := bytes\<rparr>))"

definition set_process_limit :: "limit_consts \<Rightarrow> job_kernel \<Rightarrow> u32 \<Rightarrow> job_obj \<Rightarrow> (PsrootError + unit) \<times> job_obj" where
  "set_process_limit c k n =
     set_info k (ExtendedLimit (zeroed_ext_limit\<lparr>ei_flags := KILL_ON_JOB_CLOSE c OR LIMIT_ACTIVE_PROCESS c,
       ei_processes := n\<rparr>))"

section \<open>Accounting\<close>

text \<open>The counters as the kernel reports them; \<open>i64\<close> times are read as \<open>u64\<close>.\<close>

record job_counters =
  jc_user_time :: "64 word"
  jc_kernel_time :: "64 word"
  jc_total_processes :: u32
  jc_active_processes :: u32
  jc_read_transfer :: u64
  jc_write_transfer :: u64

definition query_stats :: "(PsrootError + job_counters) \<Rightarrow> (PsrootError + u64) \<Rightarrow> PsrootError + ContainerStats" where
  "query_stats acct peak = and_then acct (\<lambda>a. and_then peak (\<lambda>p. Inr
     \<lparr>cs_memory_usage = p, cs_cpu_user_time = jc_user_time a, cs_cpu_kernel_time = jc_kernel_time a,
      cs_process_count = jc_active_processes a, cs_total_processes = jc_total_processes a,
      cs_io_read_bytes = jc_read_transfer a, cs_io_write_bytes = jc_write_transfer a\<rparr>))"

section \<open>What the limits guarantee\<close>

datatype job_op = JEnable | JApply ResourceLimits | JCpu u32 | JMemory u64 | JProcesses u32

fun job_step :: "limit_consts \<Rightarrow> job_kernel \<Rightarrow> job_op \<Rightarrow> job_obj \<Rightarrow> (PsrootError + unit) \<times> job_obj" where
  "job_step c k JEnable = enable_kill_on_close c k"
| "job_step c k (JApply l) = apply_limits c k l"
| "job_step c k (JCpu rate) = set_cpu_rate c k rate"
| "job_step c k (JMemory bytes) = set_memory_limit c k bytes"
| "job_step c k (JProcesses n) = set_process_limit c k n"

text \<open>Job operations in any order, each against a kernel that may refuse it.\<close>

inductive job_reach :: "limit_consts \<Rightarrow> job_obj \<Rightarrow> bool" for c where
  made: "enable_kill_on_close c k job_new = (Inr (), j) \<Longrightarrow> job_reach c j"
| step: "job_reach c j \<Longrightarrow> job_reach c (snd (job_step c k op j))"

definition has_flag :: "u32 \<Rightarrow> job_obj \<Rightarrow> bool" where
  "has_flag f j \<longleftrightarrow> ei_flags (jo_ext j) AND f = f"

text \<open>The flags are distinct bits.\<close>

definition single_bits :: "limit_consts \<Rightarrow> bool" where
  "single_bits c \<longleftrightarrow>
     (let fs = [KILL_ON_JOB_CLOSE c, LIMIT_JOB_MEMORY c, LIMIT_ACTIVE_PROCESS c, LIMIT_AFFINITY c,
        LIMIT_PRIORITY_CLASS c] in list_all is_power_of_two fs \<and> distinct fs)"

lemma flag_bit: "k < 32 \<Longrightarrow> (x :: u32) AND 2 ^ k = 2 ^ k \<longleftrightarrow> bit x k"
  unfolding bit_eq_iff by (auto simp: bit_and_iff bit_exp_iff)

lemma bit_exp_u32: "k < 32 \<Longrightarrow> bit (2 ^ j :: u32) k \<longleftrightarrow> j = k"
  by (auto simp: bit_exp_iff)

lemma bit_if: "bit (if b then x else y) k \<longleftrightarrow> (if b then bit x k else bit y k)"
  by simp

lemma flag_keep: "x AND g = g \<Longrightarrow> (x OR f) AND g = (g :: u32)"
  by (auto simp: bit_eq_iff bit_and_iff bit_or_iff)

lemma limit_info_fields:
  "ei_memory (limit_info c l) = rl_memory l"
  "ei_processes (limit_info c l) = rl_max_processes l"
  "ei_affinity (limit_info c l) = rl_affinity l"
  "ei_priority (limit_info c l) = rl_priority_class l"
  by (simp_all add: limit_info_def zeroed_ext_limit_def Let_def word_gt_0)

lemma limit_info_flags:
  "ei_flags (limit_info c l) = KILL_ON_JOB_CLOSE c
     OR (if rl_memory l = 0 then 0 else LIMIT_JOB_MEMORY c)
     OR (if rl_max_processes l = 0 then 0 else LIMIT_ACTIVE_PROCESS c)
     OR (if rl_affinity l = 0 then 0 else LIMIT_AFFINITY c)
     OR (if rl_priority_class l = 0 then 0 else LIMIT_PRIORITY_CLASS c)"
  by (simp add: limit_info_def Let_def word_gt_0 ac_simps)

lemma apply_limits_ext: "apply_limits c k l j = (Inr u, j') \<Longrightarrow> jo_ext j' = limit_info c l"
  by (auto simp: apply_limits_def set_info_def set_cpu_rate_def split: option.splits if_splits)

lemma job_reach_kill: "job_reach c j \<Longrightarrow> has_flag (KILL_ON_JOB_CLOSE c) j"
proof (induction rule: job_reach.induct)
  case (made k j)
  then show ?case
    by (auto simp: enable_kill_on_close_def set_info_def has_flag_def split: option.splits)
next
  case (step j k op)
  have info: "(KILL_ON_JOB_CLOSE c OR x) AND KILL_ON_JOB_CLOSE c = KILL_ON_JOB_CLOSE c" for x
    by (simp add: flag_keep)
  have "ei_flags (limit_info c l) AND KILL_ON_JOB_CLOSE c = KILL_ON_JOB_CLOSE c" for l
    by (simp only: limit_info_flags or.assoc info)
  with step show ?case
    by (cases op) (auto simp: enable_kill_on_close_def apply_limits_def set_cpu_rate_def set_memory_limit_def
      set_process_limit_def set_info_def has_flag_def info split: option.splits)
qed


text \<open>The values of \<open>winnt.h\<close>.\<close>

definition win_limits :: limit_consts where
  "win_limits = \<lparr>KILL_ON_JOB_CLOSE = 0x2000, LIMIT_JOB_MEMORY = 0x200, LIMIT_ACTIVE_PROCESS = 0x8,
     LIMIT_AFFINITY = 0x10, LIMIT_PRIORITY_CLASS = 0x20, CPU_RATE_ENABLE = 1, CPU_RATE_HARD_CAP = 4\<rparr>"


end
