(* ===== verification/Sandbox_Env.thy ===== *)
theory Sandbox_Env
  imports Config
begin

text \<open>
  The environment of a sandboxed process, \<open>crates/psroot-container/src/sandbox.rs\<close>: environment
  blocks, the temporary change of the host process's own environment that a child inherits and its
  restoration, the variables of a launch plan, and command-line quoting. The Windows environment
  is a list of variables whose names are compared through the system's upper-casing \<open>up\<close>; Unicode
  lower-casing and UTF-16 encoding are parameters, \<open>dir_exists\<close> is \<open>Path::exists\<close>.
\<close>

section \<open>The environment of a Windows process\<close>

type_synonym win_env = "(string \<times> string) list"

definition env_var :: "(string \<Rightarrow> string) \<Rightarrow> string \<Rightarrow> win_env \<Rightarrow> string option" where
  "env_var up k e = map_option snd (find (\<lambda>(n, v). up n = up k) e)"

definition remove_var :: "(string \<Rightarrow> string) \<Rightarrow> string \<Rightarrow> win_env \<Rightarrow> win_env" where
  "remove_var up k e = filter (\<lambda>(n, v). up n \<noteq> up k) e"

fun set_var :: "(string \<Rightarrow> string) \<Rightarrow> string \<Rightarrow> string \<Rightarrow> win_env \<Rightarrow> win_env" where
  "set_var up k v [] = [(k, v)]"
| "set_var up k v ((n, w) # e) = (if up n = up k then (n, v) # e else (n, w) # set_var up k v e)"

fun set_vars :: "(string \<Rightarrow> string) \<Rightarrow> (string \<times> string) list \<Rightarrow> win_env \<Rightarrow> win_env" where
  "set_vars up [] e = e"
| "set_vars up ((k, v) # kvs) e = set_vars up kvs (set_var up k v e)"

section \<open>Sanitizing\<close>

definition SANITIZED_VARS :: "string list" where
  "SANITIZED_VARS = [''PATH'', ''PATHEXT'', ''TEMP'', ''TMP'', ''USERPROFILE'', ''HOMEPATH'', ''HOMEDRIVE'',
     ''HOMEDIR'', ''APPDATA'', ''LOCALAPPDATA'', ''PROGRAMDATA'', ''USERNAME'', ''USERDOMAIN'',
     ''USERDOMAIN_ROAMINGPROFILE'', ''SystemRoot'', ''windir'', ''SystemDrive'', ''COMPUTERNAME'',
     ''LOGONSERVER'', ''PROCESSOR_ARCHITECTURE'', ''PROCESSOR_IDENTIFIER'', ''NUMBER_OF_PROCESSORS'', ''OS'',
     ''PROMPT'', ''TERM_PROGRAM'', ''TERM_PROGRAM_VERSION'', ''VSCODE_GIT_IPC_HANDLE'',
     ''VSCODE_GIT_ASKPASS_MAIN'', ''VSCODE_GIT_ASKPASS_NODE'', ''VSCODE_INJECTION'', ''GIT_ASKPASS'',
     ''ELECTRON_RUN_AS_NODE'', ''CHROME_CRASHPAD_PIPE_NAME'', ''PSModulePath'', ''PSMODULEPATH'',
     ''CARGO_HOME'', ''RUSTUP_HOME'', ''NVM_HOME'', ''NVM_SYMLINK'', ''GOPATH'', ''GOROOT'', ''JAVA_HOME'',
     ''PYTHONPATH'', ''PNPM_HOME'', ''npm_config_cache'', ''CONDA_PREFIX'']"

definition bslash :: char where "bslash = CHR 0x5C"

text \<open>A path below another, \<open>format!("{}\\a\\b", root)\<close>.\<close>

fun below :: "string \<Rightarrow> string list \<Rightarrow> string" where
  "below root [] = root"
| "below root (p # ps) = below (root @ bslash # p) ps"

type_synonym saved_env = "(string \<times> string option) list"

text \<open>Phase 1: save and remove the listed variables.\<close>

fun save_listed :: "(string \<Rightarrow> string) \<Rightarrow> string list \<Rightarrow> win_env \<Rightarrow> saved_env \<times> win_env" where
  "save_listed up [] e = ([], e)"
| "save_listed up (k # ks) e =
     (let (saved, e') = save_listed up ks (remove_var up k e) in ((k, env_var up k e) # saved, e'))"

definition host_specific :: "(string \<Rightarrow> string) \<Rightarrow> string \<Rightarrow> string \<Rightarrow> bool" where
  "host_specific lower rootfs val \<longleftrightarrow>
     (let v = lower val in
      contains (bslash # ''users'' @ [bslash]) v \<and> \<not> contains (lower rootfs) v \<or>
      contains (bslash # ''appdata'' @ [bslash]) v \<or> contains ''program files'' v)"

text \<open>The second loop goes over a snapshot of the variables.\<close>

fun save_host :: "(string \<Rightarrow> string) \<Rightarrow> (string \<Rightarrow> string) \<Rightarrow> string \<Rightarrow> win_env \<Rightarrow> win_env \<Rightarrow> saved_env \<times> win_env" where
  "save_host up lower rootfs [] e = ([], e)"
| "save_host up lower rootfs ((key, val) # vars) e =
     (if \<not> list_ex (\<lambda>v. eq_ignore_ascii_case v key) SANITIZED_VARS \<and> host_specific lower rootfs val then
        let (saved, e') = save_host up lower rootfs vars (remove_var up key e) in ((key, Some val) # saved, e')
      else save_host up lower rootfs vars e)"

definition container_user :: "string list" where
  "container_user = [''Users'', ''ContainerUser'']"

definition sandbox_path :: "(string \<Rightarrow> bool) \<Rightarrow> string \<Rightarrow> string" where
  "sandbox_path dir_exists rootfs =
     (let dirs = [below rootfs [''Windows'', ''System32'']];
          dirs = dirs @ (if dir_exists (below rootfs [''bin'']) then [below rootfs [''bin'']] else []);
          dirs = dirs @ (if dir_exists (below rootfs [''nodejs'']) then [below rootfs [''nodejs'']] else [])
      in join_with '';'' dirs)"

definition sandbox_vars :: "(string \<Rightarrow> bool) \<Rightarrow> string \<Rightarrow> (string \<times> string) list" where
  "sandbox_vars dir_exists rootfs =
     [(''PATH'', sandbox_path dir_exists rootfs), (''PATHEXT'', ''.COM;.EXE;.BAT;.CMD;.PS1''),
      (''TEMP'', below rootfs [''Temp'']), (''TMP'', below rootfs [''Temp'']),
      (''USERPROFILE'', below rootfs container_user), (''HOMEPATH'', below [] container_user), (''HOMEDRIVE'', ''C:''),
      (''APPDATA'', below rootfs (container_user @ [''AppData'', ''Roaming''])),
      (''LOCALAPPDATA'', below rootfs (container_user @ [''AppData'', ''Local''])),
      (''SystemRoot'', below rootfs [''Windows'']), (''windir'', below rootfs [''Windows'']),
      (''SystemDrive'', ''C:''), (''USERNAME'', ''ContainerUser''), (''COMPUTERNAME'', ''PSROOT''),
      (''OS'', ''Windows_NT''), (''PROMPT'', ''psroot$G '')]"

record env_os =
  eo_up :: "string \<Rightarrow> string"
  eo_lower :: "string \<Rightarrow> string"
  eo_dir_exists :: "string \<Rightarrow> bool"

definition apply_sandbox_env :: "env_os \<Rightarrow> ContainerConfig \<Rightarrow> win_env \<Rightarrow> saved_env \<times> win_env" where
  "apply_sandbox_env os config e =
     (let up = eo_up os; rootfs = cc_rootfs_path config;
          (saved1, e) = save_listed up SANITIZED_VARS e;
          (saved2, e) = save_host up (eo_lower os) rootfs e e;
          e = set_vars up (sandbox_vars (eo_dir_exists os) rootfs) e;
          e = set_vars up (cc_env config) e
      in (saved1 @ saved2, e))"

definition sandbox_keys :: "string list" where
  "sandbox_keys = [''PATH'', ''PATHEXT'', ''TEMP'', ''TMP'', ''USERPROFILE'', ''HOMEPATH'', ''HOMEDRIVE'', ''APPDATA'',
     ''LOCALAPPDATA'', ''SystemRoot'', ''windir'', ''SystemDrive'', ''USERNAME'', ''COMPUTERNAME'', ''OS'', ''PROMPT'']"

fun remove_vars :: "(string \<Rightarrow> string) \<Rightarrow> string list \<Rightarrow> win_env \<Rightarrow> win_env" where
  "remove_vars up [] e = e"
| "remove_vars up (k # ks) e = remove_vars up ks (remove_var up k e)"

fun restore_saved :: "(string \<Rightarrow> string) \<Rightarrow> saved_env \<Rightarrow> win_env \<Rightarrow> win_env" where
  "restore_saved up [] e = e"
| "restore_saved up ((k, Some v) # saved) e = restore_saved up saved (set_var up k v e)"
| "restore_saved up ((k, None) # saved) e = restore_saved up saved (remove_var up k e)"

definition restore_env :: "(string \<Rightarrow> string) \<Rightarrow> saved_env \<Rightarrow> win_env \<Rightarrow> win_env" where
  "restore_env up saved e = restore_saved up saved (remove_vars up sandbox_keys e)"

section \<open>The variables of a plan\<close>

definition unwrap_or_default :: "string option \<Rightarrow> string" where
  "unwrap_or_default m = (case m of None \<Rightarrow> [] | Some s \<Rightarrow> s)"

fun plan_env :: "(string \<Rightarrow> string) \<Rightarrow> (string \<times> string) list \<Rightarrow> win_env \<Rightarrow> saved_env \<times> win_env" where
  "plan_env up [] e = ([], e)"
| "plan_env up ((k, v) # kvs) e =
     (let (entry, e) =
       (if k = ''PATH_PREPEND'' then
          let cur = unwrap_or_default (env_var up ''PATH'' e) in
          ((''PATH'', Some cur), set_var up ''PATH'' (if cur = [] then v else v @ '';'' @ cur) e)
        else if k = ''PATHEXT_APPEND'' then
          let cur = unwrap_or_default (env_var up ''PATHEXT'' e) in
          ((''PATHEXT'', Some cur), set_var up ''PATHEXT'' (if cur = [] then v else cur @ '';'' @ v) e)
        else ((k, env_var up k e), set_var up k v e));
       (saved, e) = plan_env up kvs e
      in (entry # saved, e))"

definition apply_sandbox_env_with_plan :: "env_os \<Rightarrow> ContainerConfig \<Rightarrow> LaunchPlan \<Rightarrow> win_env \<Rightarrow> saved_env \<times> win_env" where
  "apply_sandbox_env_with_plan os config plan e =
     (let (saved, e) = apply_sandbox_env os config e;
          (saved', e) = plan_env (eo_up os) (lp_env plan) e
      in (saved @ saved', e))"

section \<open>Environment blocks and command lines\<close>

definition essentials :: "string \<Rightarrow> (string \<times> string) list" where
  "essentials rootfs =
     [(''SystemRoot'', below rootfs [''Windows'']), (''SystemDrive'', ''C:''), (''TEMP'', below rootfs [''Temp'']),
      (''TMP'', below rootfs [''Temp'']), (''USERPROFILE'', below rootfs container_user),
      (''PATHEXT'', ''.COM;.EXE;.BAT;.CMD;.PS1''),
      (''PATH'', join_with '';'' [below rootfs [''Windows'', ''System32''], below rootfs [''bin''], below rootfs [''nodejs'']])]"

text \<open>\<open>sort_by\<close> is stable.\<close>

fun insert_entry :: "(string \<Rightarrow> string) \<Rightarrow> string \<Rightarrow> string list \<Rightarrow> string list" where
  "insert_entry lower x [] = [x]"
| "insert_entry lower x (y # ys) = (if str_less (lower y) (lower x) then y # insert_entry lower x ys else x # y # ys)"

definition sort_entries :: "(string \<Rightarrow> string) \<Rightarrow> string list \<Rightarrow> string list" where
  "sort_entries lower xs = foldr (insert_entry lower) xs []"

definition entry_of :: "string \<times> string \<Rightarrow> string" where
  "entry_of kv = fst kv @ ''='' @ snd kv"

definition env_entries :: "(string \<Rightarrow> string) \<Rightarrow> ContainerConfig \<Rightarrow> string list" where
  "env_entries lower config =
     sort_entries lower (map entry_of (cc_env config) @
       map entry_of (filter (\<lambda>(k, v). k \<notin> fst ` set (cc_env config)) (essentials (cc_rootfs_path config))))"

definition block_of :: "(string \<Rightarrow> u16 list) \<Rightarrow> string list \<Rightarrow> u16 list" where
  "block_of utf16 entries = concat (map (\<lambda>s. utf16 s @ [0]) entries) @ [0]"

definition build_env_block :: "(string \<Rightarrow> string) \<Rightarrow> (string \<Rightarrow> u16 list) \<Rightarrow> ContainerConfig \<Rightarrow> u16 list" where
  "build_env_block lower utf16 config = block_of utf16 (env_entries lower config)"

definition build_env_block_w :: "(string \<Rightarrow> u16 list) \<Rightarrow> (string \<times> string) list \<Rightarrow> u16 list" where
  "build_env_block_w utf16 vars = block_of utf16 (map entry_of vars)"

definition dquote :: char where "dquote = CHR 0x22"

fun escape_quotes :: "string \<Rightarrow> string" where
  "escape_quotes [] = []"
| "escape_quotes (c # cs) = (if c = dquote then bslash # c # escape_quotes cs else c # escape_quotes cs)"

definition has_white :: "string \<Rightarrow> bool" where
  "has_white s \<longleftrightarrow> list_ex (\<lambda>w. contains w s) white_space"

definition quote_arg :: "string \<Rightarrow> string" where
  "quote_arg s =
     (if s = [] then [dquote, dquote]
      else if has_white s \<or> dquote \<in> set s then dquote # escape_quotes s @ [dquote]
      else s)"

definition command_line :: "string \<Rightarrow> string list \<Rightarrow> string" where
  "command_line entry args = foldl (\<lambda>cmd a. cmd @ '' '' @ quote_arg a) (quote_arg entry) args"

section \<open>Which container a rootfs belongs to\<close>

definition container_id_of :: "string \<Rightarrow> string \<Rightarrow> string" where
  "container_id_of default_id rootfs = (case rev (split_on bslash rootfs) of
       _ # parent # _ \<Rightarrow> parent
     | _ \<Rightarrow> default_id)"

section \<open>Looking variables up\<close>

definition look :: "(string \<Rightarrow> string) \<Rightarrow> win_env \<Rightarrow> string \<Rightarrow> string option" where
  "look up e u = map_option snd (find (\<lambda>(n, v). up n = u) e)"

lemma env_var_look: "env_var up k e = look up e (up k)"
  by (simp add: env_var_def look_def)

lemma look_simps [simp]:
  "look up [] u = None"
  "look up ((n, v) # e) u = (if up n = u then Some v else look up e u)"
  by (simp_all add: look_def)

lemma look_remove [simp]: "look up (remove_var up k e) u = (if u = up k then None else look up e u)"
  by (induction e) (auto simp: remove_var_def)

lemma look_set [simp]: "look up (set_var up k v e) u = (if u = up k then Some v else look up e u)"
  by (induction up k v e rule: set_var.induct) auto

text \<open>The last assignment to a name in a list of assignments.\<close>

fun final :: "(string \<Rightarrow> string) \<Rightarrow> (string \<times> 'v) list \<Rightarrow> string \<Rightarrow> 'v option" where
  "final up [] u = None"
| "final up ((k, v) # kvs) u = (case final up kvs u of None \<Rightarrow> if up k = u then Some v else None | Some w \<Rightarrow> Some w)"

lemma final_append: "final up (xs @ ys) u = (case final up ys u of None \<Rightarrow> final up xs u | Some v \<Rightarrow> Some v)"
  by (induction up xs u rule: final.induct) (auto split: option.splits)

lemma final_None: "final up kvs u = None \<longleftrightarrow> u \<notin> up ` fst ` set kvs"
  by (induction up kvs u rule: final.induct) (auto split: option.splits)

lemma look_set_vars: "look up (set_vars up kvs e) u = (case final up kvs u of None \<Rightarrow> look up e u | Some v \<Rightarrow> Some v)"
  by (induction up kvs e rule: set_vars.induct) (auto split: option.splits)

lemma look_restore_saved:
  "look up (restore_saved up saved e) u = (case final up saved u of None \<Rightarrow> look up e u | Some r \<Rightarrow> r)"
  by (induction up saved e rule: restore_saved.induct) (auto split: option.splits)

lemma look_remove_vars: "look up (remove_vars up ks e) u = (if u \<in> up ` set ks then None else look up e u)"
  by (induction up ks e rule: remove_vars.induct) auto

definition wf_env :: "(string \<Rightarrow> string) \<Rightarrow> win_env \<Rightarrow> bool" where
  "wf_env up e \<longleftrightarrow> distinct (map (\<lambda>p. up (fst p)) e)"

lemma look_Some_iff: "wf_env up e \<Longrightarrow> look up e u = Some v \<longleftrightarrow> (\<exists>n. (n, v) \<in> set e \<and> up n = u)"
  unfolding wf_env_def by (induction e) force+

lemma look_None_iff: "look up e u = None \<longleftrightarrow> (\<forall>p \<in> set e. up (fst p) \<noteq> u)"
proof (induction e)
  case (Cons p e)
  then show ?case by (cases p) auto
qed simp

lemma wf_env_filter: "wf_env up e \<Longrightarrow> wf_env up (filter P e)"
  by (simp add: wf_env_def distinct_map_filter)

lemma set_remove_vars: "set (remove_vars up ks e) = {p \<in> set e. up (fst p) \<notin> up ` set ks}"
  by (induction up ks e rule: remove_vars.induct) (auto simp: remove_var_def)

lemma wf_env_remove_vars: "wf_env up e \<Longrightarrow> wf_env up (remove_vars up ks e)"
  by (induction up ks e rule: remove_vars.induct) (simp_all add: remove_var_def wf_env_filter)

lemma final_look: "wf_env up e \<Longrightarrow> final up (map (\<lambda>p. (fst p, f (snd p))) e) u = map_option f (look up e u)"
proof (induction e)
  case (Cons p e)
  have "up (fst p) \<notin> (\<lambda>q. up (fst q)) ` set e"
    using Cons.prems by (simp add: wf_env_def)
  moreover have "up (fst p) \<in> (\<lambda>q. up (fst q)) ` set e" if "q \<in> set e" "up (fst q) = up (fst p)" for q
    using that by (intro image_eqI [of _ _ q]) simp_all
  ultimately have "look up e (up (fst p)) = None"
    unfolding look_None_iff by blast
  with Cons show ?case by (cases p) (auto simp: wf_env_def split: option.splits)
qed simp

section \<open>Restoring the environment\<close>

definition dropped :: "(string \<Rightarrow> string) \<Rightarrow> string \<Rightarrow> string \<times> string \<Rightarrow> bool" where
  "dropped lower rootfs = (\<lambda>(key, val).
     \<not> list_ex (\<lambda>v. eq_ignore_ascii_case v key) SANITIZED_VARS \<and> host_specific lower rootfs val)"

lemma save_listed_env: "snd (save_listed up ks e) = remove_vars up ks e"
  by (induction up ks e rule: save_listed.induct) (auto simp: Let_def split: prod.splits)

lemma save_listed_final:
  "final up (fst (save_listed up ks e)) u =
     (if u \<notin> up ` set ks then None
      else if count_list (map up ks) u = 1 then Some (look up e u) else Some None)"
proof (induction up ks e rule: save_listed.induct)
  case (2 up k ks e)
  have "count_list (map up ks) u = 0 \<longleftrightarrow> u \<notin> up ` set ks"
    by (simp add: count_list_0_iff)
  with 2 show ?case
    by (auto simp: Let_def env_var_look split: prod.splits option.splits if_splits)
qed simp

lemma save_host_result:
  "save_host up lower rootfs vars e =
     (map (\<lambda>p. (fst p, Some (snd p))) (filter (dropped lower rootfs) vars),
      remove_vars up (map fst (filter (dropped lower rootfs) vars)) e)"
  by (induction up lower rootfs vars e rule: save_host.induct) (simp_all add: dropped_def)

lemma look_filter:
  assumes "wf_env up e"
  shows "look up (filter P e) u = (if \<exists>p \<in> set e. up (fst p) = u \<and> P p then look up e u else None)"
proof (cases "look up (filter P e) u")
  case None
  then show ?thesis by (force simp: look_None_iff)
next
  case (Some v)
  then obtain n where "(n, v) \<in> set e" "up n = u" "P (n, v)"
    using look_Some_iff [OF wf_env_filter [OF assms]] by auto
  then show ?thesis using Some look_Some_iff [OF assms, of u v] by force
qed

text \<open>The two phases of saving, name by name.\<close>

lemma apply_sandbox_env_parts:
  fixes os config e
  defines "up \<equiv> eo_up os" and "rootfs \<equiv> cc_rootfs_path config"
  defines "host \<equiv> filter (dropped (eo_lower os) rootfs) (remove_vars up SANITIZED_VARS e)"
  shows "apply_sandbox_env os config e =
     (fst (save_listed up SANITIZED_VARS e) @ map (\<lambda>p. (fst p, Some (snd p))) host,
      set_vars up (cc_env config) (set_vars up (sandbox_vars (eo_dir_exists os) rootfs)
        (remove_vars up (map fst host) (remove_vars up SANITIZED_VARS e))))"
  unfolding apply_sandbox_env_def assms
  by (simp add: Let_def save_host_result save_listed_env [symmetric] split: prod.split)

definition ascii_upper :: "char \<Rightarrow> char" where
  "ascii_upper c = (let n = of_char c :: nat in if 97 \<le> n \<and> n \<le> 122 then char_of (n - 32) else c)"

text \<open>The system's upper-casing agrees with ASCII's on ASCII names.\<close>

definition upcases :: "(string \<Rightarrow> string) \<Rightarrow> bool" where
  "upcases up \<longleftrightarrow> (\<forall>s. (\<forall>c \<in> set s. (of_char c :: nat) < 128) \<longrightarrow> up s = map ascii_upper s)"

lemma sandbox_names:
  "set sandbox_keys \<subseteq> set SANITIZED_VARS" "fst ` set (sandbox_vars dir_exists rootfs) = set sandbox_keys"
proof -
  have "list_all (\<lambda>k. k \<in> set SANITIZED_VARS) sandbox_keys" by code_simp
  then show "set sandbox_keys \<subseteq> set SANITIZED_VARS" by (auto simp: list_all_iff)
  have "map fst (sandbox_vars dir_exists rootfs) = sandbox_keys"
    by (simp add: sandbox_vars_def sandbox_keys_def)
  then show "fst ` set (sandbox_vars dir_exists rootfs) = set sandbox_keys"
    by (metis list.set_map)
qed

lemma upcases_sanitized: "upcases up \<Longrightarrow> map up SANITIZED_VARS = map (map ascii_upper) SANITIZED_VARS"
proof -
  have "list_all (\<lambda>s. list_all (\<lambda>c. (of_char c :: nat) < 128) s) SANITIZED_VARS" by code_simp
  then show "upcases up \<Longrightarrow> map up SANITIZED_VARS = map (map ascii_upper) SANITIZED_VARS"
    by (auto simp: upcases_def list_all_iff)
qed

lemma sanitized_once:
  assumes "upcases up" and "u \<in> up ` set SANITIZED_VARS"
  shows "count_list (map up SANITIZED_VARS) u = 1 \<longleftrightarrow> u \<noteq> ''PSMODULEPATH''"
proof -
  let ?us = "map (map ascii_upper) SANITIZED_VARS"
  have "list_all (\<lambda>u. (count_list ?us u = 1) \<longleftrightarrow> u \<noteq> ''PSMODULEPATH'') ?us" by code_simp
  moreover have "u \<in> set ?us"
    using assms by (simp add: upcases_sanitized [symmetric])
  ultimately show ?thesis unfolding upcases_sanitized [OF assms(1)] list_all_iff by blast
qed

definition saved_var :: "env_os \<Rightarrow> ContainerConfig \<Rightarrow> win_env \<Rightarrow> string \<Rightarrow> bool" where
  "saved_var os config e u \<longleftrightarrow> u \<in> eo_up os ` set SANITIZED_VARS \<or>
     (\<exists>p \<in> set e. eo_up os (fst p) = u \<and> dropped (eo_lower os) (cc_rootfs_path config) p)"

lemma sandbox_saved:
  assumes "upcases (eo_up os)" and "wf_env (eo_up os) e"
  shows "final (eo_up os) (fst (apply_sandbox_env os config e)) u =
     (if \<not> saved_var os config e u then None else if u = ''PSMODULEPATH'' \<and> u \<in> eo_up os ` set SANITIZED_VARS then Some None
      else Some (look (eo_up os) e u))"
proof -
  let ?up = "eo_up os" and ?d = "dropped (eo_lower os) (cc_rootfs_path config)"
  let ?e1 = "remove_vars ?up SANITIZED_VARS e"
  have wf1: "wf_env ?up ?e1" using assms(2) by (rule wf_env_remove_vars)
  have listed: "look ?up ?e1 u = (if u \<in> ?up ` set SANITIZED_VARS then None else look ?up e u)"
    by (rule look_remove_vars)
  have host: "final ?up (map (\<lambda>p. (fst p, Some (snd p))) (filter ?d ?e1)) u =
      map_option Some (look ?up (filter ?d ?e1) u)"
    by (rule final_look [OF wf_env_filter [OF wf1]])
  show ?thesis
  proof (cases "u \<in> ?up ` set SANITIZED_VARS")
    case True
    then have "final ?up (map (\<lambda>p. (fst p, Some (snd p))) (filter ?d ?e1)) u = None"
      by (simp add: host look_filter [OF wf1] listed)
    then show ?thesis
      using True save_listed_final [of ?up SANITIZED_VARS e u] sanitized_once [OF assms(1) True]
      by (simp add: apply_sandbox_env_parts final_append saved_var_def)
  next
    case False
    then have dropped: "(\<exists>p \<in> set ?e1. ?up (fst p) = u \<and> ?d p) \<longleftrightarrow> saved_var os config e u"
      by (force simp: saved_var_def set_remove_vars)
    have present: "\<exists>v. look ?up e u = Some v" if "saved_var os config e u"
      using that False look_None_iff [of ?up e u] by (cases "look ?up e u") (auto simp: saved_var_def)
    have "final ?up (map (\<lambda>p. (fst p, Some (snd p))) (filter ?d ?e1)) u =
        (if saved_var os config e u then Some (look ?up e u) else None)"
      using False present by (auto simp: host look_filter [OF wf1] dropped listed)
    then show ?thesis
      using False save_listed_final [of ?up SANITIZED_VARS e u]
      by (simp add: apply_sandbox_env_parts final_append)
  qed
qed

lemma sandbox_kept:
  assumes "\<not> saved_var os config e u"
  shows "look (eo_up os) (snd (apply_sandbox_env os config e)) u =
     (case final (eo_up os) (cc_env config) u of None \<Rightarrow> look (eo_up os) e u | Some v \<Rightarrow> Some v)"
proof -
  have "u \<notin> eo_up os ` fst ` set (sandbox_vars (eo_dir_exists os) (cc_rootfs_path config))"
    using assms sandbox_names(1) unfolding sandbox_names(2) saved_var_def by blast
  then have none: "final (eo_up os) (sandbox_vars (eo_dir_exists os) (cc_rootfs_path config)) u = None"
    by (simp add: final_None)
  show ?thesis
    using assms
    by (auto simp: apply_sandbox_env_parts look_set_vars none look_remove_vars saved_var_def set_remove_vars
        split: option.split)
qed

fun plan_target :: "string \<Rightarrow> string" where
  "plan_target k = (if k = ''PATH_PREPEND'' then ''PATH'' else if k = ''PATHEXT_APPEND'' then ''PATHEXT'' else k)"

definition plan_names :: "(string \<Rightarrow> string) \<Rightarrow> (string \<times> string) list \<Rightarrow> string list" where
  "plan_names up kvs = map (\<lambda>kv. up (plan_target (fst kv))) kvs"

lemma plan_names_simps [simp]:
  "plan_names up [] = []" "plan_names up (kv # kvs) = up (plan_target (fst kv)) # plan_names up kvs"
  by (simp_all add: plan_names_def)

declare plan_target.simps [simp del]

lemma plan_env_step:
  assumes "look up e (up ''PATH'') \<noteq> None" and "look up e (up ''PATHEXT'') \<noteq> None"
  shows "\<exists>v'. plan_env up ((k, v) # kvs) e =
     (let (saved, e') = plan_env up kvs (set_var up (plan_target k) v' e)
      in ((plan_target k, look up e (up (plan_target k))) # saved, e'))"
proof -
  obtain p x where px: "look up e (up ''PATH'') = Some p" "look up e (up ''PATHEXT'') = Some x"
    using assms by blast
  consider "k = ''PATH_PREPEND''" | "k = ''PATHEXT_APPEND''" | "k \<noteq> ''PATH_PREPEND''" "k \<noteq> ''PATHEXT_APPEND''"
    by blast
  then show ?thesis
  proof cases
    case 1
    show ?thesis
      by (rule exI [of _ "if p = [] then v else v @ '';'' @ p"])
        (simp add: 1 Let_def env_var_look unwrap_or_default_def plan_target.simps px)
  next
    case 2
    show ?thesis
      by (rule exI [of _ "if x = [] then v else x @ '';'' @ v"])
        (simp add: 2 Let_def env_var_look unwrap_or_default_def plan_target.simps px)
  next
    case 3
    then show ?thesis
      by (intro exI [of _ v]) (simp add: Let_def env_var_look plan_target.simps)
  qed
qed

lemma plan_env_result:
  "distinct (plan_names up kvs) \<Longrightarrow> look up e (up ''PATH'') \<noteq> None \<Longrightarrow> look up e (up ''PATHEXT'') \<noteq> None \<Longrightarrow>
     final up (fst (plan_env up kvs e)) u = (if u \<in> set (plan_names up kvs) then Some (look up e u) else None) \<and>
     (u \<notin> set (plan_names up kvs) \<longrightarrow> look up (snd (plan_env up kvs e)) u = look up e u)"
proof (induction kvs arbitrary: e)
  case (Cons kv kvs)
  obtain k v where kv: "kv = (k, v)" by fastforce
  obtain v' where step: "plan_env up ((k, v) # kvs) e =
     (let (saved, e') = plan_env up kvs (set_var up (plan_target k) v' e)
      in ((plan_target k, look up e (up (plan_target k))) # saved, e'))"
    using plan_env_step [OF Cons.prems(2,3)] by blast
  let ?e = "set_var up (plan_target k) v' e"
  have "look up ?e (up ''PATH'') \<noteq> None" "look up ?e (up ''PATHEXT'') \<noteq> None"
    using Cons.prems(2,3) by auto
  with Cons have IH: "final up (fst (plan_env up kvs ?e)) u =
        (if u \<in> set (plan_names up kvs) then Some (look up ?e u) else None) \<and>
      (u \<notin> set (plan_names up kvs) \<longrightarrow> look up (snd (plan_env up kvs ?e)) u = look up ?e u)"
    by (auto simp: kv)
  show ?case
    using Cons.prems(1) IH unfolding kv step
    by (auto simp: Let_def split: prod.split)
qed simp

lemma sandbox_paths:
  assumes "k = ''PATH'' \<or> k = ''PATHEXT''"
  shows "look (eo_up os) (snd (apply_sandbox_env os config e)) (eo_up os k) \<noteq> None"
proof -
  have "k \<in> fst ` set (sandbox_vars (eo_dir_exists os) (cc_rootfs_path config))"
    using assms by (auto simp: sandbox_vars_def)
  then have "final (eo_up os) (sandbox_vars (eo_dir_exists os) (cc_rootfs_path config)) (eo_up os k) \<noteq> None"
    by (auto simp: final_None)
  then show ?thesis
    by (auto simp: apply_sandbox_env_parts look_set_vars split: option.split)
qed

lemma sandbox_vars_wf: "upcases up \<Longrightarrow> wf_env up (sandbox_vars dir_exists rootfs)"
proof -
  assume "upcases up"
  moreover have "list_all (\<lambda>s. list_all (\<lambda>c. (of_char c :: nat) < 128) s) sandbox_keys" by code_simp
  ultimately have "map up sandbox_keys = map (map ascii_upper) sandbox_keys"
    by (auto simp: upcases_def list_all_iff)
  moreover have "distinct (map (map ascii_upper) sandbox_keys)" by code_simp
  moreover have "map (\<lambda>p. up (fst p)) (sandbox_vars dir_exists rootfs) = map up sandbox_keys"
    by (simp add: sandbox_vars_def sandbox_keys_def)
  ultimately show "wf_env up (sandbox_vars dir_exists rootfs)" by (simp only: wf_env_def)
qed

lemma sandbox_value:
  assumes "upcases (eo_up os)" and "(k, v) \<in> set (sandbox_vars (eo_dir_exists os) (cc_rootfs_path config))"
    and "eo_up os k \<notin> eo_up os ` fst ` set (cc_env config)"
  shows "env_var (eo_up os) k (snd (apply_sandbox_env os config e)) = Some v"
proof -
  let ?vars = "sandbox_vars (eo_dir_exists os) (cc_rootfs_path config)"
  have wf: "wf_env (eo_up os) ?vars" by (rule sandbox_vars_wf [OF assms(1)])
  have "look (eo_up os) ?vars (eo_up os k) = Some v"
    unfolding look_Some_iff [OF wf] using assms(2) by blast
  then have "final (eo_up os) ?vars (eo_up os k) = Some v"
    using final_look [OF wf, of "\<lambda>v. v" "eo_up os k"] by simp
  moreover have "final (eo_up os) (cc_env config) (eo_up os k) = None"
    using assms(3) by (simp add: final_None)
  ultimately show ?thesis
    by (simp add: env_var_look apply_sandbox_env_parts look_set_vars)
qed

text \<open>
  C21. What a sandboxed spawn leaves of the host process's own environment, exactly. A variable is
  back to what it was, with three exceptions: a variable the plan touches keeps its sandbox value
  (so \<open>PATH\<close> does after \<open>PATH_PREPEND\<close>), a configured variable that was not saved keeps the
  configured value, and \<open>PSModulePath\<close>, saved under two spellings, is lost.
\<close>

theorem restore_env_exact:
  assumes "upcases (eo_up os)" and "wf_env (eo_up os) e"
    and "distinct (plan_names (eo_up os) (lp_env plan))"
    and "apply_sandbox_env_with_plan os config plan e = (saved, e')"
  shows "env_var (eo_up os) k (restore_env (eo_up os) saved e') =
    (if eo_up os k \<in> set (plan_names (eo_up os) (lp_env plan)) \<or>
        eo_up os k \<in> eo_up os ` fst ` set (cc_env config) \<and> \<not> saved_var os config e (eo_up os k)
     then env_var (eo_up os) k (snd (apply_sandbox_env os config e))
     else if eo_up os k = ''PSMODULEPATH'' \<and> saved_var os config e (eo_up os k) then None
     else env_var (eo_up os) k e)"
proof -
  let ?up = "eo_up os" and ?u = "eo_up os k"
  obtain s1 e1 where sandbox: "apply_sandbox_env os config e = (s1, e1)" by fastforce
  obtain s2 where plan: "plan_env ?up (lp_env plan) e1 = (s2, e')" and saved: "saved = s1 @ s2"
    using assms(4) sandbox by (auto simp: apply_sandbox_env_with_plan_def Let_def split: prod.splits)
  have paths: "look ?up e1 (?up ''PATH'') \<noteq> None" "look ?up e1 (?up ''PATHEXT'') \<noteq> None"
    using sandbox_paths [of _ os config e] by (simp_all add: sandbox)
  note by_plan = plan_env_result [OF assms(3) paths, of ?u, unfolded plan, simplified]
  note by_sandbox = sandbox_saved [OF assms(1,2), of config ?u, unfolded sandbox, simplified]
  note kept = sandbox_kept [of os config e ?u, unfolded sandbox, simplified]
  have psm: "''PSMODULEPATH'' \<in> ?up ` set SANITIZED_VARS"
  proof -
    have "''PSMODULEPATH'' \<in> set (map (map ascii_upper) SANITIZED_VARS)" by code_simp
    then show ?thesis unfolding upcases_sanitized [OF assms(1), symmetric] by simp
  qed
  have names: "?u \<notin> ?up ` set sandbox_keys" if "\<not> saved_var os config e ?u"
    using that sandbox_names(1) by (auto simp: saved_var_def)
  have restored: "look ?up (restore_env ?up saved e') ?u =
      (case final ?up s2 ?u of Some r \<Rightarrow> r | None \<Rightarrow> (case final ?up s1 ?u of Some r \<Rightarrow> r
        | None \<Rightarrow> if ?u \<in> ?up ` set sandbox_keys then None else look ?up e' ?u))"
    by (simp add: restore_env_def look_restore_saved saved final_append look_remove_vars split: option.split)
  have config: "?u \<in> ?up ` fst ` set (cc_env config) \<longleftrightarrow> final ?up (cc_env config) ?u \<noteq> None"
    by (simp add: final_None)
  show ?thesis
  proof (cases "?u \<in> set (plan_names ?up (lp_env plan))")
    case True
    then show ?thesis using by_plan by (simp add: env_var_look restored sandbox)
  next
    case planless: False
    show ?thesis
    proof (cases "saved_var os config e ?u")
      case True
      then show ?thesis using planless by_plan by_sandbox psm by (auto simp: env_var_look restored)
    next
      case False
      then show ?thesis
        using planless by_plan by_sandbox kept names config
        by (cases "final ?up (cc_env config) ?u") (simp_all add: env_var_look restored sandbox)
    qed
  qed
qed

text \<open>A host, a container with its rootfs under the user's profile, and a plan that prepends to \<open>PATH\<close>.\<close>

definition demo_env_os :: env_os where
  "demo_env_os = \<lparr>eo_up = map ascii_upper, eo_lower = to_ascii_lowercase, eo_dir_exists = \<lambda>_. False\<rparr>"

definition demo_config :: ContainerConfig where
  "demo_config = \<lparr>cc_name = None, cc_rootfs_path = ''R'', cc_command = default_command,
     cc_env = [(''MODE'', ''test'')], cc_resources = default_limits, cc_volumes = [], cc_hostname = None,
     cc_working_directory = default_workdir, cc_silo = False, cc_tools = [], cc_shares = [],
     cc_security_profile = DefaultProfile, cc_network = NoNetwork, cc_ports = []\<rparr>"

definition demo_env :: win_env where
  "demo_env = [(''Path'', ''H''), (''EDITOR'', ''vi''), (''SDK'', ''X:/Program Files/sdk'')]"

definition demo_env_plan :: LaunchPlan where
  "demo_env_plan = \<lparr>lp_shell_name = ''pwsh'', lp_host_source_version = ''7.5'', lp_cache_key = ''pwsh-7.5'',
     lp_cache_dir = ''C'', lp_entry = ''pwsh.exe'', lp_args = [], lp_cwd = ''R'',
     lp_env = [(''PATH_PREPEND'', ''P'')], lp_stage = [], lp_aces = [], lp_caps = []\<rparr>"

lemma demo_upcases: "upcases (eo_up demo_env_os)"
  by (simp add: upcases_def demo_env_os_def)

lemma demo_wf: "wf_env (eo_up demo_env_os) demo_env"
  by code_simp

lemma demo_path:
  "(''PATH'', below ''R'' [''Windows'', ''System32'']) \<in> set (sandbox_vars (eo_dir_exists demo_env_os) (cc_rootfs_path demo_config))"
  by (simp add: sandbox_vars_def sandbox_path_def demo_env_os_def demo_config_def)

lemma demo_names: "fst ` set (cc_env demo_config) = {''MODE''}"
  by (simp add: demo_config_def)

theorem restore_env_exact_witness:
  "\<exists>saved e'. apply_sandbox_env_with_plan demo_env_os demo_config demo_env_plan demo_env = (saved, e') \<and>
     env_var (eo_up demo_env_os) ''PATH'' (restore_env (eo_up demo_env_os) saved e') = Some (below ''R'' [''Windows'', ''System32'']) \<and>
     env_var (eo_up demo_env_os) ''SDK'' (restore_env (eo_up demo_env_os) saved e') = Some ''X:/Program Files/sdk''"
proof -
  obtain saved e' where run: "apply_sandbox_env_with_plan demo_env_os demo_config demo_env_plan demo_env = (saved, e')"
    by fastforce
  have dist: "distinct (plan_names (eo_up demo_env_os) (lp_env demo_env_plan))"
    by code_simp
  note exact = restore_env_exact [OF demo_upcases demo_wf dist run]
  have path: "eo_up demo_env_os ''PATH'' \<in> set (plan_names (eo_up demo_env_os) (lp_env demo_env_plan))"
    "env_var (eo_up demo_env_os) ''PATH'' (snd (apply_sandbox_env demo_env_os demo_config demo_env)) =
       Some (below ''R'' [''Windows'', ''System32''])"
    subgoal by code_simp
    subgoal by (rule sandbox_value [OF demo_upcases]; simp add: demo_path demo_names; code_simp)
    done
  have sdk: "eo_up demo_env_os ''SDK'' \<notin> set (plan_names (eo_up demo_env_os) (lp_env demo_env_plan))"
    "eo_up demo_env_os ''SDK'' \<notin> eo_up demo_env_os ` fst ` set (cc_env demo_config)"
    "eo_up demo_env_os ''SDK'' \<noteq> ''PSMODULEPATH''"
    "env_var (eo_up demo_env_os) ''SDK'' demo_env = Some ''X:/Program Files/sdk''"
    subgoal by code_simp
    subgoal unfolding demo_names by code_simp
    subgoal by code_simp
    subgoal by code_simp
    done
  show ?thesis
    using run exact [of "''PATH''"] exact [of "''SDK''"] path sdk by simp
qed



end
