(* ===== verification/Stager.thy ===== *)
theory Stager
  imports Glob Resolve
begin

text \<open>
  Applying a launch plan to disk, \<open>crates/psroot-rootfs-stager/src/lib.rs\<close>: the walk that mirrors a
  source tree, the other stage operations, access grants, and the cache manifest with its reference
  list. File system and process calls are parameters; manifests, which only this module writes,
  are an explicit map from cache directory to contents.
\<close>

section \<open>Mirroring a tree\<close>

text \<open>
  A source directory as \<open>read_dir\<close> lists it: \<open>None\<close> when it cannot be read; an entry that is
  neither a file nor a directory (a link, say) is \<open>OtherNode\<close>. A file is its size.
\<close>

datatype node = FileNode nat | DirNode "(string \<times> node) list option" | OtherNode

type_synonym path = "string list"

definition rel_str :: "path \<Rightarrow> string" where
  "rel_str p = to_slashes (join_with ''/'' p)"

text \<open>The destination: sizes of the files below \<open>dst_root\<close>, and the three counters.\<close>

record mirror =
  mi_files :: "path \<rightharpoonup> nat"
  mi_linked :: nat
  mi_copied :: nat
  mi_skipped :: nat

record mirror_os =
  mo_lower :: "string \<Rightarrow> string"
  mo_mkdir :: "path \<Rightarrow> bool"
  mo_hardlink :: "path \<Rightarrow> bool"
  mo_copy :: "path \<Rightarrow> bool"

datatype stage_error = StageIo | StageOther string

definition stage_file :: "mirror_os \<Rightarrow> bool \<Rightarrow> path \<Rightarrow> nat \<Rightarrow> mirror \<Rightarrow> stage_error + mirror" where
  "stage_file os try_hardlink p sz m =
     (if mi_files m p = Some sz then Inr (m\<lparr>mi_skipped := mi_skipped m + 1\<rparr>)
      else let m = m\<lparr>mi_files := (mi_files m)(p := None)\<rparr> in
        if try_hardlink \<and> mo_hardlink os p then
          Inr (m\<lparr>mi_files := (mi_files m)(p \<mapsto> sz), mi_linked := mi_linked m + 1\<rparr>)
        else if \<not> mo_mkdir os (butlast p) then Inl StageIo
        else if mo_copy os p then
          Inr (m\<lparr>mi_files := (mi_files m)(p \<mapsto> sz), mi_copied := mi_copied m + 1\<rparr>)
        else Inr m)"

text \<open>\<open>None\<close> is a matcher that does not return.\<close>

fun walk_and_link :: "mirror_os \<Rightarrow> string list \<Rightarrow> bool \<Rightarrow> path \<Rightarrow> (string \<times> node) list \<Rightarrow> mirror \<Rightarrow>
    (stage_error + mirror) option" where
  "walk_and_link os excludes hard cur [] m = Some (Inr m)"
| "walk_and_link os excludes hard cur ((name, nd) # ents) m =
     (let p = cur @ [name] in
      case matches_any (mo_lower os) (rel_str p) excludes of
        None \<Rightarrow> None
      | Some True \<Rightarrow> walk_and_link os excludes hard cur ents (m\<lparr>mi_skipped := mi_skipped m + 1\<rparr>)
      | Some False \<Rightarrow> (case nd of
            DirNode sub \<Rightarrow>
              if \<not> mo_mkdir os p then Some (Inl StageIo)
              else (case sub of None \<Rightarrow> Some (Inl StageIo)
                | Some sub \<Rightarrow> (case walk_and_link os excludes hard p sub m of
                      None \<Rightarrow> None
                    | Some (Inl e) \<Rightarrow> Some (Inl e)
                    | Some (Inr m') \<Rightarrow> walk_and_link os excludes hard cur ents m'))
          | FileNode sz \<Rightarrow> (case stage_file os hard p sz m of
                Inl e \<Rightarrow> Some (Inl e)
              | Inr m' \<Rightarrow> walk_and_link os excludes hard cur ents m')
          | OtherNode \<Rightarrow> walk_and_link os excludes hard cur ents m))"

definition hardlink_or_copy_tree :: "mirror_os \<Rightarrow> string \<Rightarrow> node option \<Rightarrow> string list \<Rightarrow> bool \<Rightarrow>
    (path \<rightharpoonup> nat) \<Rightarrow> (stage_error + mirror) option" where
  "hardlink_or_copy_tree os src_name src excludes try_hardlink files = (case src of
       None \<Rightarrow> Some (Inl (StageOther (''stage source missing: '' @ src_name)))
     | Some nd \<Rightarrow>
       if \<not> mo_mkdir os [] then Some (Inl StageIo)
       else (case nd of
           DirNode (Some ents) \<Rightarrow> walk_and_link os excludes try_hardlink [] ents
             \<lparr>mi_files = files, mi_linked = 0, mi_copied = 0, mi_skipped = 0\<rparr>
         | _ \<Rightarrow> Some (Inl StageIo)))"

section \<open>What the walk leaves at the destination\<close>

fun lookup_file :: "(string \<times> node) list \<Rightarrow> path \<Rightarrow> nat option" where
  "lookup_file ents [] = None"
| "lookup_file ents (n # ns) = (case map_of ents n of
       Some (FileNode sz) \<Rightarrow> if ns = [] then Some sz else None
     | Some (DirNode (Some sub)) \<Rightarrow> lookup_file sub ns
     | _ \<Rightarrow> None)"

text \<open>A tree as a file system lists it: names are distinct and without \<open>*\<close>, directories readable.\<close>

fun readable_tree :: "(string \<times> node) list \<Rightarrow> bool" where
  "readable_tree [] \<longleftrightarrow> True"
| "readable_tree ((n, nd) # ents) \<longleftrightarrow> n \<notin> fst ` set ents \<and> star \<notin> set n \<and>
     (case nd of DirNode None \<Rightarrow> False | DirNode (Some sub) \<Rightarrow> readable_tree sub | _ \<Rightarrow> True) \<and>
     readable_tree ents"

text \<open>A path is excluded when a pattern means it or one of the directories above it.\<close>

definition excluded :: "mirror_os \<Rightarrow> string list \<Rightarrow> path \<Rightarrow> path \<Rightarrow> bool" where
  "excluded os excludes cur p \<longleftrightarrow> (\<exists>k. 0 < k \<and> k \<le> length p \<and>
     (\<exists>pat \<in> set excludes. wild (mo_lower os (to_slashes pat)) (mo_lower os (rel_str (cur @ take k p)))))"

definition placed :: "mirror_os \<Rightarrow> bool \<Rightarrow> path \<Rightarrow> nat \<Rightarrow> nat option \<Rightarrow> nat option" where
  "placed os hard p sz old =
     (if old = Some sz \<or> hard \<and> mo_hardlink os p \<or> mo_copy os p then Some sz else None)"

text \<open>The destination after a walk, path by path.\<close>

definition mirrored :: "mirror_os \<Rightarrow> string list \<Rightarrow> bool \<Rightarrow> path \<Rightarrow> (string \<times> node) list \<Rightarrow>
    (path \<rightharpoonup> nat) \<Rightarrow> (path \<rightharpoonup> nat)" where
  "mirrored os excludes hard cur ents f q =
     (if take (length cur) q = cur then
        (case lookup_file ents (drop (length cur) q) of
           None \<Rightarrow> f q
         | Some sz \<Rightarrow> if excluded os excludes cur (drop (length cur) q) then f q else placed os hard q sz (f q))
      else f q)"

definition hit :: "mirror_os \<Rightarrow> string list \<Rightarrow> path \<Rightarrow> bool" where
  "hit os excludes p \<longleftrightarrow>
     (\<exists>pat \<in> set excludes. wild (mo_lower os (to_slashes pat)) (mo_lower os (rel_str p)))"

definition mirrored_node :: "mirror_os \<Rightarrow> string list \<Rightarrow> bool \<Rightarrow> path \<Rightarrow> node \<Rightarrow> (path \<rightharpoonup> nat) \<Rightarrow> (path \<rightharpoonup> nat)" where
  "mirrored_node os excludes hard p nd f =
     (if hit os excludes p then f else case nd of
        FileNode sz \<Rightarrow> f(p := placed os hard p sz (f p))
      | DirNode (Some sub) \<Rightarrow> mirrored os excludes hard p sub f
      | _ \<Rightarrow> f)"

lemma excluded_Nil [simp]: "\<not> excluded os excludes cur []"
  by (simp add: excluded_def)

lemma excluded_Cons:
  "excluded os excludes cur (n # ns) \<longleftrightarrow> hit os excludes (cur @ [n]) \<or> excluded os excludes (cur @ [n]) ns"
proof
  assume "excluded os excludes cur (n # ns)"
  then obtain k where k: "0 < k" "k \<le> length (n # ns)" "hit os excludes (cur @ take k (n # ns))"
    by (auto simp: excluded_def hit_def)
  obtain j where j: "k = Suc j" using k(1) by (cases k) auto
  then show "hit os excludes (cur @ [n]) \<or> excluded os excludes (cur @ [n]) ns"
    using k(2,3) by (cases j) (auto simp: excluded_def hit_def intro!: exI [of _ j])
next
  assume "hit os excludes (cur @ [n]) \<or> excluded os excludes (cur @ [n]) ns"
  then consider "hit os excludes (cur @ [n])" |
      j where "0 < j" "j \<le> length ns" "hit os excludes ((cur @ [n]) @ take j ns)"
    by (auto simp: excluded_def hit_def)
  then show "excluded os excludes cur (n # ns)"
  proof cases
    case 1
    then show ?thesis unfolding excluded_def hit_def by (intro exI [of _ 1]) simp
  next
    case 2
    then show ?thesis unfolding excluded_def hit_def by (intro exI [of _ "Suc j"]) simp
  qed
qed

lemma mirrored_append:
  "mirrored os excludes hard cur ents f (cur @ p) = (case lookup_file ents p of
     None \<Rightarrow> f (cur @ p)
   | Some sz \<Rightarrow> if excluded os excludes cur p then f (cur @ p) else placed os hard (cur @ p) sz (f (cur @ p)))"
  by (simp add: mirrored_def split: option.split)

lemma mirrored_outside: "take (length cur) q \<noteq> cur \<Longrightarrow> mirrored os excludes hard cur ents f q = f q"
  by (simp add: mirrored_def)

lemma mirrored_node_outside:
  "take (length p) q \<noteq> p \<Longrightarrow> mirrored_node os excludes hard p nd f q = f q"
  by (auto simp: mirrored_node_def mirrored_outside split: node.split option.split)

lemma mirrored_Nil [simp]: "mirrored os excludes hard cur [] f = f"
proof
  show "mirrored os excludes hard cur [] f q = f q" for q
    by (cases "drop (length cur) q") (simp_all add: mirrored_def)
qed

lemma mirrored_Cons:
  assumes "n \<notin> fst ` set ents"
  shows "mirrored os excludes hard cur ((n, nd) # ents) f =
    mirrored os excludes hard cur ents (mirrored_node os excludes hard (cur @ [n]) nd f)"
proof
  fix q
  let ?step = "mirrored_node os excludes hard (cur @ [n]) nd f"
  consider "take (length cur) q \<noteq> cur" | "q = cur" | n' ns where "q = cur @ n' # ns" "n' \<noteq> n" | ns where "q = cur @ n # ns"
    by (metis append_take_drop_id append_Nil2 list.exhaust)
  then show "mirrored os excludes hard cur ((n, nd) # ents) f q = mirrored os excludes hard cur ents ?step q"
  proof cases
    case 1
    then have "take (length (cur @ [n])) q \<noteq> cur @ [n]"
      by (metis append_eq_conv_conj append_take_drop_id append_assoc)
    then show ?thesis using 1 by (simp add: mirrored_outside mirrored_node_outside)
  next
    case 2
    then show ?thesis
      using mirrored_append [of os excludes hard cur _ _ "[]"] by (simp add: mirrored_node_outside)
  next
    case 3
    then have "?step q = f q" by (intro mirrored_node_outside) simp
    then show ?thesis using 3 by (simp add: mirrored_append split: option.split)
  next
    case 4
    have "map_of ents n = None" using assms by (simp add: map_of_eq_None_iff)
    then have rhs: "mirrored os excludes hard cur ents ?step q = ?step q"
      using 4 by (simp add: mirrored_append)
    have q: "q = (cur @ [n]) @ ns" using 4 by simp
    show ?thesis
    proof (cases "hit os excludes (cur @ [n])")
      case True
      then show ?thesis unfolding rhs using 4
        by (auto simp: mirrored_append mirrored_node_def excluded_Cons split: option.splits node.splits)
    next
      case False
      have sub: "mirrored os excludes hard (cur @ [n]) sub f q = (case lookup_file sub ns of
           None \<Rightarrow> f q
         | Some sz \<Rightarrow> if excluded os excludes (cur @ [n]) ns then f q else placed os hard q sz (f q))" for sub
        unfolding q by (rule mirrored_append)
      show ?thesis unfolding rhs using 4 False sub
        by (auto simp: mirrored_append mirrored_node_def excluded_Cons split: option.splits node.splits)
    qed
  qed
qed

section \<open>The walk mirrors the tree\<close>

definition lower_ok :: "mirror_os \<Rightarrow> bool" where
  "lower_ok os \<longleftrightarrow> (\<forall>s. star \<notin> set s \<longrightarrow> star \<notin> set (mo_lower os s))"

lemma matches_any_hit:
  assumes "lower_ok os" and "\<forall>n \<in> set p. star \<notin> set n"
  shows "matches_any (mo_lower os) (rel_str p) excludes = Some (hit os excludes p)"
proof -
  have "set (join_with ''/'' p) \<subseteq> (\<Union>n \<in> set p. set n) \<union> {CHR ''/''}"
    using join_with_set [of "''/''" p] by simp
  then have "star \<notin> set (rel_str p)"
    using assms(2) by (auto simp: rel_str_def to_slashes_def)
  then have "star \<notin> set (mo_lower os (rel_str p))" using assms(1) by (simp add: lower_ok_def)
  then have "stager_glob_match (mo_lower os) pat (rel_str p) =
      Some (wild (mo_lower os (to_slashes pat)) (mo_lower os (rel_str p)))" for pat
    by (simp add: stager_glob_match_def glob_match_inner_wild)
  then show ?thesis
    by (induction excludes) (auto simp: hit_def split: option.splits bool.splits)
qed

lemma stage_file_placed:
  assumes "\<And>p. mo_mkdir os p"
  shows "\<exists>m'. stage_file os hard p sz m = Inr m' \<and>
    mi_files m' = (mi_files m)(p := placed os hard p sz (mi_files m p))"
  using assms by (auto simp: stage_file_def placed_def Let_def fun_upd_idem)

lemma walk_mirrored:
  assumes "lower_ok os" and "\<And>p. mo_mkdir os p"
    and "readable_tree ents" and "\<forall>n \<in> set cur. star \<notin> set n"
  shows "\<exists>m'. walk_and_link os excludes hard cur ents m = Some (Inr m') \<and>
    mi_files m' = mirrored os excludes hard cur ents (mi_files m)"
  using assms
proof (induction os excludes hard cur ents m rule: walk_and_link.induct)
  case (1 os excludes hard cur m)
  then show ?case by simp
next
  case (2 os excludes hard cur name nd ents m)
  let ?p = "cur @ [name]"
  note ok = 2(6) and mkdir = 2(7)
  have names: "name \<notin> fst ` set ents" "\<forall>n \<in> set ?p. star \<notin> set n" "readable_tree ents"
    using 2(8,9) by auto
  have match: "matches_any (mo_lower os) (rel_str ?p) excludes = Some (hit os excludes ?p)"
    using matches_any_hit [OF ok names(2)] .
  have files: "mirrored os excludes hard cur ((name, nd) # ents) f =
      mirrored os excludes hard cur ents (mirrored_node os excludes hard ?p nd f)" for f
    by (rule mirrored_Cons [OF names(1)])
  show ?case
  proof (cases "hit os excludes ?p")
    case True
    have "\<exists>m'. walk_and_link os excludes hard cur ents (m\<lparr>mi_skipped := mi_skipped m + 1\<rparr>) = Some (Inr m') \<and>
        mi_files m' = mirrored os excludes hard cur ents (mi_files (m\<lparr>mi_skipped := mi_skipped m + 1\<rparr>))"
      by (rule 2(1) [OF refl _ _ ok mkdir names(3) 2(9)]) (use match True in simp_all)
    then show ?thesis using match True unfolding files by (simp add: mirrored_node_def)
  next
    case False
    have match': "matches_any (mo_lower os) (rel_str ?p) excludes = Some False" using match False by simp
    show ?thesis
    proof (cases nd)
      case (FileNode sz)
      obtain m' where m': "stage_file os hard ?p sz m = Inr m'"
          "mi_files m' = (mi_files m)(?p := placed os hard ?p sz (mi_files m ?p))"
        using stage_file_placed [of os hard ?p sz m] mkdir by blast
      have "\<exists>m''. walk_and_link os excludes hard cur ents m' = Some (Inr m'') \<and>
          mi_files m'' = mirrored os excludes hard cur ents (mi_files m')"
        by (rule 2(2) [OF refl match' _ FileNode m'(1) ok mkdir names(3) 2(9)]) simp
      then show ?thesis using match' m' False FileNode unfolding files by (simp add: mirrored_node_def)
    next
      case (DirNode sub)
      then obtain sub' where sub: "sub = Some sub'" "readable_tree sub'" using 2(8) by (cases sub) auto
      have "\<exists>m'. walk_and_link os excludes hard ?p sub' m = Some (Inr m') \<and>
          mi_files m' = mirrored os excludes hard ?p sub' (mi_files m)"
        by (rule 2(3) [OF refl match' _ DirNode _ sub(1) ok mkdir sub(2) names(2)]) (use mkdir in simp_all)
      then obtain m' where m': "walk_and_link os excludes hard ?p sub' m = Some (Inr m')"
          "mi_files m' = mirrored os excludes hard ?p sub' (mi_files m)" by blast
      have "\<exists>m''. walk_and_link os excludes hard cur ents m' = Some (Inr m'') \<and>
          mi_files m'' = mirrored os excludes hard cur ents (mi_files m')"
        by (rule 2(4) [OF refl match' _ DirNode _ sub(1) m'(1) _ ok mkdir names(3) 2(9)]) (use mkdir in simp_all)
      then show ?thesis using match' m' mkdir False DirNode sub(1) unfolding files by (simp add: mirrored_node_def)
    next
      case OtherNode
      have "\<exists>m'. walk_and_link os excludes hard cur ents m = Some (Inr m') \<and>
          mi_files m' = mirrored os excludes hard cur ents (mi_files m)"
        by (rule 2(5) [OF refl match' _ OtherNode ok mkdir names(3) 2(9)]) simp
      then show ?thesis using match' False OtherNode unfolding files by (simp add: mirrored_node_def)
    qed
  qed
qed


definition demo_tree :: "(string \<times> node) list" where
  "demo_tree = [(''a.dll'', FileNode 3), (''a.pdb'', FileNode 9),
     (''ref'', DirNode (Some [(''b.dll'', FileNode 4)]))]"

definition demo_mirror :: mirror_os where
  "demo_mirror = \<lparr>mo_lower = (\<lambda>s. s), mo_mkdir = (\<lambda>p. True), mo_hardlink = (\<lambda>p. True), mo_copy = (\<lambda>p. False)\<rparr>"

lemma demo_tree_excluded:
  "\<not> excluded demo_mirror [''*.pdb'', ''re?''] [] [''a.dll'']" "excluded demo_mirror [''*.pdb'', ''re?''] [] [''a.pdb'']"
  "excluded demo_mirror [''*.pdb'', ''re?''] [] [''ref'', ''b.dll'']"
proof -
  have "glob_recursive ''re?'' (rel_str [''ref''])" "glob_recursive ''*.pdb'' (rel_str [''a.pdb''])"
    "\<not> glob_recursive ''*.pdb'' (rel_str [''a.dll''])" "\<not> glob_recursive ''re?'' (rel_str [''a.dll''])"
    "to_slashes ''re?'' = ''re?''" "to_slashes ''*.pdb'' = ''*.pdb''"
    by code_simp+
  then show "\<not> excluded demo_mirror [''*.pdb'', ''re?''] [] [''a.dll'']" "excluded demo_mirror [''*.pdb'', ''re?''] [] [''a.pdb'']"
    "excluded demo_mirror [''*.pdb'', ''re?''] [] [''ref'', ''b.dll'']"
    by (simp_all add: excluded_Cons hit_def demo_mirror_def glob_recursive_wild del: glob_recursive.simps)
qed


end
