(* ===== verification/Stage_Plan.thy ===== *)
theory Stage_Plan
  imports Stager
begin

text \<open>
  Applying a whole plan, \<open>apply_plan\<close> of \<open>crates/psroot-rootfs-stager/src/lib.rs\<close>: the stage
  operations with the cache-hit shortcut, access grants and their revocation, and the manifest that
  counts the containers using a cache. Manifests are a map from cache directory to contents, which
  only this module writes; everything else of the host is a world with operations as parameters.
\<close>

section \<open>The host\<close>

record CacheManifest =
  cm_shell_name :: string
  cm_host_source_version :: string
  cm_cache_key :: string
  cm_created_at :: string
  cm_stage_ops :: nat
  cm_granted_ac_sids :: "string list"
  cm_referenced_by :: "string list"

definition manifest_default :: CacheManifest where
  "manifest_default = \<lparr>cm_shell_name = [], cm_host_source_version = [], cm_cache_key = [], cm_created_at = [],
     cm_stage_ops = 0, cm_granted_ac_sids = [], cm_referenced_by = []\<rparr>"

record AceGrantRecord =
  ace_path :: string
  ace_sid :: string
  ace_mask :: string
  ace_inherit :: bool

record 'w stage_os =
  so_exists :: "string \<Rightarrow> 'w \<Rightarrow> bool"
  so_is_dir :: "string \<Rightarrow> 'w \<Rightarrow> bool"
  so_nonempty :: "string \<Rightarrow> 'w \<Rightarrow> bool"          \<comment> \<open>\<open>read_dir\<close> succeeds and yields an entry\<close>
  so_canonical :: "string \<Rightarrow> 'w \<Rightarrow> string option"
  so_parent :: "string \<Rightarrow> string option"
  so_create_dir_all :: "string \<Rightarrow> 'w \<Rightarrow> (stage_error + unit) \<times> 'w"
  so_remove_dir :: "string \<Rightarrow> 'w \<Rightarrow> 'w"
  so_remove_file :: "string \<Rightarrow> 'w \<Rightarrow> 'w"
  so_write :: "string \<Rightarrow> string \<Rightarrow> 'w \<Rightarrow> (stage_error + unit) \<times> 'w"
  so_tree :: "bool \<Rightarrow> string \<Rightarrow> string \<Rightarrow> string list \<Rightarrow> 'w \<Rightarrow> (stage_error + unit) \<times> 'w"
    \<comment> \<open>\<open>hardlink_or_copy_tree\<close> on the source read from the world\<close>
  so_mklink :: "string \<Rightarrow> string \<Rightarrow> 'w \<Rightarrow> (stage_error + bool) \<times> 'w"
  so_symlink_file :: "string \<Rightarrow> string \<Rightarrow> 'w \<Rightarrow> bool \<times> 'w"
  so_icacls :: "string list \<Rightarrow> 'w \<Rightarrow> (stage_error + bool) \<times> 'w"
  so_save_ok :: "string \<Rightarrow> 'w \<Rightarrow> bool"           \<comment> \<open>writing the manifest of this directory succeeds\<close>
  so_now :: "'w \<Rightarrow> string"

type_synonym manifests = "string \<rightharpoonup> CacheManifest"

section \<open>Stage operations\<close>

definition create_parent :: "'w stage_os \<Rightarrow> string \<Rightarrow> 'w \<Rightarrow> (stage_error + unit) \<times> 'w" where
  "create_parent os dst w = (case so_parent os dst of
       None \<Rightarrow> (Inr (), w)
     | Some parent \<Rightarrow> so_create_dir_all os parent w)"

definition write_text_file :: "'w stage_os \<Rightarrow> string \<Rightarrow> string \<Rightarrow> 'w \<Rightarrow> (stage_error + unit) \<times> 'w" where
  "write_text_file os dst content w = (case create_parent os dst w of
       (Inl e, w) \<Rightarrow> (Inl e, w)
     | (Inr _, w) \<Rightarrow> so_write os dst content w)"

definition create_junction :: "'w stage_os \<Rightarrow> string \<Rightarrow> string \<Rightarrow> 'w \<Rightarrow> (stage_error + unit) \<times> 'w" where
  "create_junction os src dst w =
     (if so_exists os dst w \<and> so_is_dir os dst w \<and> so_canonical os dst w \<noteq> None \<and>
         so_canonical os dst w = so_canonical os src w then (Inr (), w)
      else let w = (if so_exists os dst w then
            (if so_is_dir os dst w then so_remove_dir os dst w else so_remove_file os dst w) else w) in
        case create_parent os dst w of
          (Inl e, w) \<Rightarrow> (Inl e, w)
        | (Inr _, w) \<Rightarrow>
          (let w = (if so_exists os src w then w else snd (so_create_dir_all os src w)) in
           case so_mklink os dst src w of
             (Inl e, w) \<Rightarrow> (Inl e, w)
           | (Inr ok, w) \<Rightarrow> (if ok then Inr () else Inl (StageOther ''mklink /J failed''), w)))"

definition create_symlink :: "'w stage_os \<Rightarrow> string \<Rightarrow> string \<Rightarrow> 'w \<Rightarrow> (stage_error + unit) \<times> 'w" where
  "create_symlink os src dst w =
     (if so_is_dir os src w then create_junction os src dst w
      else let w = (if so_exists os dst w then so_remove_file os dst w else w);
               (ok, w) = so_symlink_file os src dst w in
        (if ok then Inr () else Inl (StageOther ''symlink''), w))"

fun run_stage_op :: "'w stage_os \<Rightarrow> StageOp \<Rightarrow> 'w \<Rightarrow> (stage_error + unit) \<times> 'w" where
  "run_stage_op os (EnsureDir dst) w = so_create_dir_all os dst w"
| "run_stage_op os (HardlinkTree src dst exclude) w = so_tree os True src dst exclude w"
| "run_stage_op os (CopyTree src dst exclude) w = so_tree os False src dst exclude w"
| "run_stage_op os (Junction src dst) w = create_junction os src dst w"
| "run_stage_op os (Symlink src dst) w = create_symlink os src dst w"
| "run_stage_op os (WriteText dst content) w = write_text_file os dst content w"

text \<open>The loops over the operations, stopping at the first error; the result counts the ones run.\<close>

fun run_stage_ops :: "'w stage_os \<Rightarrow> StageOp list \<Rightarrow> nat \<Rightarrow> 'w \<Rightarrow> (stage_error + nat) \<times> 'w" where
  "run_stage_ops os [] n w = (Inr n, w)"
| "run_stage_ops os (op # ops) n w = (case run_stage_op os op w of
       (Inl e, w) \<Rightarrow> (Inl e, w)
     | (Inr _, w) \<Rightarrow> run_stage_ops os ops (n + 1) w)"

fun per_container :: "StageOp \<Rightarrow> bool" where
  "per_container (HardlinkTree _ _ _) \<longleftrightarrow> False"
| "per_container (CopyTree _ _ _) \<longleftrightarrow> False"
| "per_container _ \<longleftrightarrow> True"

fun tree_missing :: "'w stage_os \<Rightarrow> 'w \<Rightarrow> StageOp \<Rightarrow> bool" where
  "tree_missing os w (HardlinkTree src dst exclude) \<longleftrightarrow> \<not> so_exists os dst w \<or> \<not> so_nonempty os dst w"
| "tree_missing os w (CopyTree src dst exclude) \<longleftrightarrow> \<not> so_exists os dst w \<or> \<not> so_nonempty os dst w"
| "tree_missing os w _ \<longleftrightarrow> False"

section \<open>Access grants\<close>

definition grant_ace :: "'w stage_os \<Rightarrow> string \<Rightarrow> string \<Rightarrow> bool \<Rightarrow> 'w \<Rightarrow> (stage_error + unit) \<times> 'w" where
  "grant_ace os p sid inherit w =
     (let inh = (if inherit then ''(OI)(CI)(RX)'' else ''(RX)'');
          args = [p, ''/grant'', ''*'' @ sid @ '':'' @ inh] @ (if inherit then [''/T''] else []) @ [''/Q''] in
      case so_icacls os args w of
        (Inl e, w) \<Rightarrow> (Inl e, w)
      | (Inr ok, w) \<Rightarrow> (if ok then Inr () else Inl (StageOther ''icacls grant failed''), w))"

fun grant_aces :: "'w stage_os \<Rightarrow> string \<Rightarrow> AceGrant list \<Rightarrow> AceGrantRecord list \<Rightarrow> 'w \<Rightarrow>
    AceGrantRecord list \<times> 'w" where
  "grant_aces os sid [] acc w = (acc, w)"
| "grant_aces os sid (a # grants) acc w = (case grant_ace os (ag_path a) sid (ag_inherit a) w of
       (Inl e, w) \<Rightarrow> grant_aces os sid grants acc w
     | (Inr _, w) \<Rightarrow> grant_aces os sid grants (acc @ [\<lparr>ace_path = ag_path a, ace_sid = sid, ace_mask = ''RX'',
           ace_inherit = ag_inherit a\<rparr>]) w)"

definition revoke_ace_record :: "'w stage_os \<Rightarrow> AceGrantRecord \<Rightarrow> 'w \<Rightarrow> 'w" where
  "revoke_ace_record os r w =
     (if \<not> so_exists os (ace_path r) w then w
      else snd (so_icacls os [ace_path r, ''/remove'', ''*'' @ ace_sid r, ''/T'', ''/Q''] w))"

section \<open>The plan\<close>

record StageOutcome =
  st_cache_dir :: string
  st_cache_hit :: bool
  st_aces_applied :: "AceGrantRecord list"
  st_ops_run :: nat
  st_ops_skipped :: nat

definition push_new :: "string \<Rightarrow> string list \<Rightarrow> string list" where
  "push_new x xs = (if x \<in> set xs then xs else xs @ [x])"

definition updated_manifest :: "LaunchPlan \<Rightarrow> string \<Rightarrow> string \<Rightarrow> string \<Rightarrow> CacheManifest option \<Rightarrow> CacheManifest" where
  "updated_manifest plan sid container_id now existing =
     (let m = (case existing of Some m \<Rightarrow> m | None \<Rightarrow> manifest_default) in
      m\<lparr>cm_shell_name := lp_shell_name plan, cm_host_source_version := lp_host_source_version plan,
        cm_cache_key := lp_cache_key plan,
        cm_created_at := (if cm_created_at m = [] then now else cm_created_at m),
        cm_stage_ops := length (lp_stage plan),
        cm_granted_ac_sids := push_new sid (cm_granted_ac_sids m),
        cm_referenced_by := push_new container_id (cm_referenced_by m)\<rparr>)"

definition manifest_save :: "'w stage_os \<Rightarrow> string \<Rightarrow> CacheManifest \<Rightarrow> manifests \<Rightarrow> 'w \<Rightarrow>
    (stage_error + unit) \<times> manifests" where
  "manifest_save os dir m ms w = (if so_save_ok os dir w then (Inr (), ms(dir \<mapsto> m)) else (Inl StageIo, ms))"

definition apply_plan :: "'w stage_os \<Rightarrow> LaunchPlan \<Rightarrow> string \<Rightarrow> string \<Rightarrow> manifests \<Rightarrow> 'w \<Rightarrow>
    (stage_error + StageOutcome) \<times> manifests \<times> 'w" where
  "apply_plan os plan sid container_id ms w =
     (let dir = lp_cache_dir plan; ops = lp_stage plan;
          w = (case so_parent os dir of None \<Rightarrow> w | Some parent \<Rightarrow> snd (so_create_dir_all os parent w));
          w = snd (so_create_dir_all os dir w);
          existing = ms dir;
          needs_stage = (existing = None \<or> list_ex (tree_missing os w) ops);
          (ran, w) = run_stage_ops os (if needs_stage then ops else filter per_container ops) 0 w in
      case ran of
        Inl e \<Rightarrow> (Inl e, ms, w)
      | Inr n \<Rightarrow>
        (let (aces, w) = grant_aces os sid (lp_aces plan) [] w;
             m = updated_manifest plan sid container_id (so_now os w) existing in
         case manifest_save os dir m ms w of
           (Inl e, ms) \<Rightarrow> (Inl e, ms, w)
         | (Inr _, ms) \<Rightarrow> (Inr \<lparr>st_cache_dir = dir, st_cache_hit = \<not> needs_stage, st_aces_applied = aces,
               st_ops_run = n, st_ops_skipped = (if needs_stage then 0 else length ops - n)\<rparr>, ms, w)))"

definition unreference_cache :: "'w stage_os \<Rightarrow> string \<Rightarrow> string \<Rightarrow> manifests \<Rightarrow> 'w \<Rightarrow>
    (stage_error + unit) \<times> manifests" where
  "unreference_cache os dir container_id ms w = (case ms dir of
       None \<Rightarrow> (Inr (), ms)
     | Some m \<Rightarrow> manifest_save os dir
         (m\<lparr>cm_referenced_by := filter (\<lambda>c. c \<noteq> container_id) (cm_referenced_by m)\<rparr>) ms w)"

section \<open>Who uses a cache\<close>

text \<open>
  Histories of a cache: any containers applying plans and giving caches up, on any worlds, with any
  of the steps failing. The log keeps the steps that returned \<open>Ok\<close>, latest first.
\<close>

datatype cache_event = Applied string string | Released string string

inductive cache_history :: "'w stage_os \<Rightarrow> cache_event list \<Rightarrow> manifests \<Rightarrow> bool" for os where
  start: "cache_history os [] Map.empty"
| apply_ok: "cache_history os log ms \<Longrightarrow> apply_plan os plan sid cid ms w = (Inr out, ms', w') \<Longrightarrow>
    cache_history os (Applied (lp_cache_dir plan) cid # log) ms'"
| apply_err: "cache_history os log ms \<Longrightarrow> apply_plan os plan sid cid ms w = (Inl e, ms', w') \<Longrightarrow>
    cache_history os log ms'"
| release_ok: "cache_history os log ms \<Longrightarrow> unreference_cache os dir cid ms w = (Inr u, ms') \<Longrightarrow>
    cache_history os (Released dir cid # log) ms'"
| release_err: "cache_history os log ms \<Longrightarrow> unreference_cache os dir cid ms w = (Inl e, ms') \<Longrightarrow>
    cache_history os log ms'"

text \<open>A container uses a cache when the last step the two had in common applied a plan.\<close>

fun uses :: "cache_event list \<Rightarrow> string \<Rightarrow> string \<Rightarrow> bool" where
  "uses [] dir cid \<longleftrightarrow> False"
| "uses (Applied d c # log) dir cid \<longleftrightarrow> d = dir \<and> c = cid \<or> uses log dir cid"
| "uses (Released d c # log) dir cid \<longleftrightarrow> \<not> (d = dir \<and> c = cid) \<and> uses log dir cid"

lemma set_push_new [simp]: "set (push_new x xs) = insert x (set xs)"
  by (auto simp: push_new_def)

lemma distinct_push_new [simp]: "distinct (push_new x xs) \<longleftrightarrow> distinct xs"
  by (auto simp: push_new_def)

lemma apply_plan_ok:
  assumes "apply_plan os plan sid cid ms w = (Inr out, ms', w')"
  shows "\<exists>now. ms' = ms(lp_cache_dir plan \<mapsto> updated_manifest plan sid cid now (ms (lp_cache_dir plan)))"
  using assms
  by (auto simp: apply_plan_def Let_def manifest_save_def split: prod.splits sum.splits if_splits)

lemma apply_plan_err: "apply_plan os plan sid cid ms w = (Inl e, ms', w') \<Longrightarrow> ms' = ms"
  by (auto simp: apply_plan_def Let_def manifest_save_def split: prod.splits sum.splits if_splits)

lemma unreference_ok:
  "unreference_cache os dir cid ms w = (Inr u, ms') \<Longrightarrow>
     ms' = (case ms dir of None \<Rightarrow> ms
       | Some m \<Rightarrow> ms(dir \<mapsto> m\<lparr>cm_referenced_by := filter (\<lambda>c. c \<noteq> cid) (cm_referenced_by m)\<rparr>))"
  by (auto simp: unreference_cache_def manifest_save_def split: option.splits if_splits)

lemma unreference_err: "unreference_cache os dir cid ms w = (Inl e, ms') \<Longrightarrow> ms' = ms"
  by (auto simp: unreference_cache_def manifest_save_def split: option.splits if_splits)

lemma updated_manifest_lists:
  "cm_referenced_by (updated_manifest plan sid cid now old) =
     push_new cid (case old of None \<Rightarrow> [] | Some m \<Rightarrow> cm_referenced_by m)"
  "cm_granted_ac_sids (updated_manifest plan sid cid now old) =
     push_new sid (case old of None \<Rightarrow> [] | Some m \<Rightarrow> cm_granted_ac_sids m)"
  by (simp_all add: updated_manifest_def manifest_default_def Let_def split: option.split)

definition users_of :: "manifests \<Rightarrow> string \<Rightarrow> string list" where
  "users_of ms dir = (case ms dir of None \<Rightarrow> [] | Some m \<Rightarrow> cm_referenced_by m)"

text \<open>
  C19. The reference list of a cache is exact: after any history, it names each container once, and
  names exactly the containers whose last successful step on the cache was applying a plan.
\<close>

theorem cache_references_exact:
  assumes "cache_history os log ms"
  shows "distinct (users_of ms dir) \<and> (\<forall>cid. cid \<in> set (users_of ms dir) \<longleftrightarrow> uses log dir cid)"
  using assms
proof (induction)
  case start
  show ?case by (simp add: users_of_def)
next
  case (apply_ok log ms plan sid cid w out ms' w')
  obtain now where ms': "ms' = ms(lp_cache_dir plan \<mapsto>
      updated_manifest plan sid cid now (ms (lp_cache_dir plan)))"
    using apply_plan_ok [OF apply_ok.hyps(2)] by blast
  show ?case
    using apply_ok.IH by (auto simp: ms' users_of_def updated_manifest_lists split: option.splits)
next
  case (release_ok log ms dir' cid w u ms')
  show ?case
    using release_ok.IH unreference_ok [OF release_ok.hyps(2)]
    by (auto simp: users_of_def split: option.splits)
qed (auto dest: apply_plan_err unreference_err)

text \<open>A host where every call succeeds and nothing is there yet.\<close>

definition bare_os :: "unit stage_os" where
  "bare_os = \<lparr>so_exists = \<lambda>_ _. False, so_is_dir = \<lambda>_ _. False, so_nonempty = \<lambda>_ _. False,
     so_canonical = \<lambda>_ _. None, so_parent = \<lambda>_. None, so_create_dir_all = \<lambda>_ w. (Inr (), w),
     so_remove_dir = \<lambda>_ w. w, so_remove_file = \<lambda>_ w. w, so_write = \<lambda>_ _ w. (Inr (), w),
     so_tree = \<lambda>_ _ _ _ w. (Inr (), w), so_mklink = \<lambda>_ _ w. (Inr True, w),
     so_symlink_file = \<lambda>_ _ w. (True, w), so_icacls = \<lambda>_ w. (Inr True, w),
     so_save_ok = \<lambda>_ _. True, so_now = \<lambda>_. ''1700000000''\<rparr>"

definition git_plan :: LaunchPlan where
  "git_plan = \<lparr>lp_shell_name = ''bash'', lp_host_source_version = ''2.45'', lp_cache_key = ''bash-2.45'',
     lp_cache_dir = ''C:/cache/bash'', lp_entry = ''bash.exe'', lp_args = [], lp_cwd = [], lp_env = [],
     lp_stage = [EnsureDir ''C:/cache/bash'', HardlinkTree ''C:/Git'' ''C:/cache/bash/usr'' []],
     lp_aces = [], lp_caps = []\<rparr>"

lemma bare_apply:
  "\<exists>out ms'. apply_plan bare_os git_plan ''S-1'' cid ms () = (Inr out, ms', ())"
  by (simp add: apply_plan_def git_plan_def bare_os_def create_parent_def manifest_save_def Let_def)

lemma bare_release: "\<exists>ms'. unreference_cache bare_os dir cid ms () = (Inr (), ms')"
  by (simp add: unreference_cache_def bare_os_def manifest_save_def split: option.split)

theorem cache_references_exact_witness:
  "\<exists>ms. distinct (users_of ms ''C:/cache/bash'') \<and> set (users_of ms ''C:/cache/bash'') = {''psroot-b''}"
proof -
  obtain out1 ms1 where "apply_plan bare_os git_plan ''S-1'' ''psroot-a'' Map.empty () = (Inr out1, ms1, ())"
    using bare_apply by blast
  then have 1: "cache_history bare_os [Applied (lp_cache_dir git_plan) ''psroot-a''] ms1"
    by (rule cache_history.apply_ok [OF cache_history.start])
  obtain out2 ms2 where "apply_plan bare_os git_plan ''S-1'' ''psroot-b'' ms1 () = (Inr out2, ms2, ())"
    using bare_apply by blast
  note 2 = cache_history.apply_ok [OF 1 this]
  obtain ms3 where "unreference_cache bare_os (lp_cache_dir git_plan) ''psroot-a'' ms2 () = (Inr (), ms3)"
    using bare_release by blast
  note 3 = cache_history.release_ok [OF 2 this]
  have dir: "lp_cache_dir git_plan = ''C:/cache/bash''" by (simp add: git_plan_def)
  note exact = cache_references_exact [OF 3, of "''C:/cache/bash''", unfolded dir]
  have "cid \<in> set (users_of ms3 ''C:/cache/bash'') \<longleftrightarrow> cid = ''psroot-b''" for cid
    using exact [THEN conjunct2, THEN spec, of cid] by (simp only: uses.simps) blast
  then have "set (users_of ms3 ''C:/cache/bash'') = {''psroot-b''}" by blast
  with exact [THEN conjunct1] show ?thesis by blast
qed

end
