(* ===== verification/Sandbox.thy ===== *)
theory Sandbox
  imports Sandbox_Env Stage_Plan Job
begin

text \<open>
  Spawning sandboxed processes, \<open>crates/psroot-container/src/sandbox.rs\<close> with \<open>detect.rs\<close>. What the
  code manages itself is explicit state: the environment of the host process, the AppContainer
  profiles and loopback exemptions in force, the registry of inbound sessions, the isolated desktops
  and the cache manifests. Every system call is a parameter over the rest of the world.
\<close>

section \<open>What the host offers\<close>

record Capabilities =
  cp_job_objects :: bool
  cp_bind_filter :: bool
  cp_server_silos :: bool
  cp_is_admin :: bool
  cp_build_number :: u32

definition detect_caps :: "u32 \<Rightarrow> bool \<Rightarrow> Capabilities" where
  "detect_caps build admin = \<lparr>cp_job_objects = True, cp_bind_filter = build \<ge> 26100 \<and> admin,
     cp_server_silos = build \<ge> 17763 \<and> admin, cp_is_admin = admin, cp_build_number = build\<rparr>"

record IsolationLevel =
  il_appcontainer :: bool
  il_env_sanitized :: bool
  il_bind_filter :: bool
  il_server_silo :: bool
  il_is_admin :: bool
  il_build_number :: u32

definition isolation_detect :: "bool \<Rightarrow> Capabilities \<Rightarrow> IsolationLevel" where
  "isolation_detect ac caps = \<lparr>il_appcontainer = ac, il_env_sanitized = True, il_bind_filter = cp_bind_filter caps,
     il_server_silo = cp_server_silos caps, il_is_admin = cp_is_admin caps, il_build_number = cp_build_number caps\<rparr>"

definition tier_name :: "IsolationLevel \<Rightarrow> string" where
  "tier_name l =
     (if il_server_silo l then ''Full (Silo + AppContainer + Env)''
      else if il_bind_filter l then ''Enhanced (AppContainer + BindFilter + Env)''
      else if il_appcontainer l then ''Standard (AppContainer + Env)''
      else ''Basic (Restricted Token + Env)'')"

record dir_ent =
  ent_path :: "string option"              \<comment> \<open>\<open>to_str\<close>\<close>
  ent_symlink :: "bool option"             \<comment> \<open>\<open>file_type\<close>, \<open>None\<close> when it fails\<close>
  ent_meta :: "(bool \<times> bool) option"       \<comment> \<open>reparse point, directory\<close>

record process_info =
  pi_process :: nat
  pi_thread :: nat
  pi_pid :: u32

record launch =
  la_op :: string
  la_cmd :: string
  la_cwd :: string
  la_inherit :: bool
  la_suspended :: bool
  la_desktop :: "string option"
  la_caps :: "string list"
  la_sid :: "string option"

record 'w sbox_os =
  bo_env :: env_os
  bo_stage :: "'w stage_os"
  bo_available :: bool
  bo_caps :: Capabilities
  bo_create_profile :: "string \<Rightarrow> 'w \<Rightarrow> (u32 \<times> string option) \<times> 'w"
  bo_derive_sid :: "string \<Rightarrow> 'w \<Rightarrow> (u32 \<times> string option) \<times> 'w"
  bo_delete_profile :: "string \<Rightarrow> 'w \<Rightarrow> 'w"
  bo_sid_string :: "string \<Rightarrow> 'w \<Rightarrow> PsrootError + string"
  bo_well_known :: "nat \<Rightarrow> PsrootError + string"
  bo_icacls :: "string list \<Rightarrow> 'w \<Rightarrow> (nat + bool \<times> string) \<times> 'w"
  bo_exists :: "string \<Rightarrow> 'w \<Rightarrow> bool"
  bo_read_dir :: "string \<Rightarrow> 'w \<Rightarrow> dir_ent list option"
  bo_check_net :: "string list \<Rightarrow> 'w \<Rightarrow> (nat + bool) \<times> 'w"
  bo_spawn_session :: "string list \<Rightarrow> 'w \<Rightarrow> (nat + nat) \<times> 'w"
  bo_kill :: "nat \<Rightarrow> 'w \<Rightarrow> 'w"
  bo_attr_init :: "'w \<Rightarrow> u32 option"
  bo_attr_update :: "'w \<Rightarrow> u32 option"
  bo_open_desktop :: "string \<Rightarrow> 'w \<Rightarrow> (PsrootError + unit) \<times> 'w"
  bo_create_process :: "launch \<Rightarrow> win_env \<Rightarrow> 'w \<Rightarrow> (u32 + process_info) \<times> 'w"
  bo_wait :: "process_info \<Rightarrow> 'w \<Rightarrow> u32 \<times> 'w"       \<comment> \<open>wait, read the exit code, close both handles\<close>
  bo_assign :: "nat \<Rightarrow> process_info \<Rightarrow> 'w \<Rightarrow> (PsrootError + unit) \<times> 'w"
  bo_discard :: "process_info \<Rightarrow> 'w \<Rightarrow> 'w"          \<comment> \<open>terminate and close both handles\<close>
  bo_resume :: "process_info \<Rightarrow> 'w \<Rightarrow> 'w"           \<comment> \<open>resume and close both handles\<close>
  bo_restricted_token :: "'w \<Rightarrow> (PsrootError + nat) \<times> 'w"
  bo_create_as_user :: "nat \<Rightarrow> launch \<Rightarrow> string list \<Rightarrow> 'w \<Rightarrow> (u32 + process_info) \<times> 'w"
  bo_close :: "nat \<Rightarrow> 'w \<Rightarrow> 'w"

record 'w sbox =
  sx_env :: win_env
  sx_profiles :: "string set"
  sx_exempt :: "string set"
  sx_sessions :: "string \<rightharpoonup> nat"
  sx_desktops :: "string list"
  sx_manifests :: manifests
  sx_world :: 'w

definition world :: "('w \<Rightarrow> 'w) \<Rightarrow> 'w sbox \<Rightarrow> 'w sbox" where
  "world f s = s\<lparr>sx_world := f (sx_world s)\<rparr>"

definition call :: "('w \<Rightarrow> 'a \<times> 'w) \<Rightarrow> 'w sbox \<Rightarrow> 'a \<times> 'w sbox" where
  "call f s = (let (r, w) = f (sx_world s) in (r, s\<lparr>sx_world := w\<rparr>))"

section \<open>AppContainer profiles\<close>

definition create_profile_call :: "'w sbox_os \<Rightarrow> string \<Rightarrow> 'w sbox \<Rightarrow> (u32 \<times> string option) \<times> 'w sbox" where
  "create_profile_call os name s =
     (let ((hr, sid), s) = call (bo_create_profile os name) s in
      ((hr, sid), if hr = 0 then s\<lparr>sx_profiles := insert name (sx_profiles s)\<rparr> else s))"

definition delete_profile :: "'w sbox_os \<Rightarrow> string \<Rightarrow> 'w sbox \<Rightarrow> 'w sbox" where
  "delete_profile os name s = world (bo_delete_profile os name) (s\<lparr>sx_profiles := sx_profiles s - {name}\<rparr>)"

definition profile_name :: "string \<Rightarrow> string" where
  "profile_name cid = ''psroot.container.'' @ cid"

text \<open>The name and SID of the profile; \<open>free_sid\<close> only frees memory.\<close>

definition profile_create :: "'w sbox_os \<Rightarrow> string \<Rightarrow> 'w sbox \<Rightarrow> (PsrootError + string \<times> string) \<times> 'w sbox" where
  "profile_create os cid s =
     (if \<not> bo_available os then (Inl (OtherError ''AppContainer APIs not available''), s)
      else let name = profile_name cid;
               ((hr, sid), s) = create_profile_call os name s;
               (r, s) = (if hr = 0 then (Inr sid, s)
                 else let ((hr2, sid2), s) = call (bo_derive_sid os name) s in
                   if hr2 = 0 then (Inr sid2, s)
                   else let ((hr3, sid3), s) = create_profile_call os name (delete_profile os name s) in
                     (if hr3 \<noteq> 0 then Inl (HResult ''CreateAppContainerProfile'' hr3) else Inr sid3, s))
           in (case r of Inl e \<Rightarrow> (Inl e, s)
               | Inr None \<Rightarrow> (Inl (OtherError ''AppContainer SID is null''), s)
               | Inr (Some sid) \<Rightarrow> (Inr (name, sid), s)))"

section \<open>Capabilities and the loopback exemption\<close>

definition build_network_capabilities :: "'w sbox_os \<Rightarrow> NetworkAccess \<Rightarrow> PsrootError + string list" where
  "build_network_capabilities os network = collect_results (map (bo_well_known os) (case network of
       NoNetwork \<Rightarrow> []
     | Outbound \<Rightarrow> [86]
     | Full \<Rightarrow> [86, 87, 88]
     | Netstack \<Rightarrow> [86]))"

definition register_inbound_session :: "'w sbox_os \<Rightarrow> string \<Rightarrow> nat \<Rightarrow> 'w sbox \<Rightarrow> 'w sbox" where
  "register_inbound_session os profile child s =
     (let prev = sx_sessions s profile; s = s\<lparr>sx_sessions := (sx_sessions s)(profile \<mapsto> child)\<rparr> in
      case prev of None \<Rightarrow> s | Some p \<Rightarrow> world (bo_kill os p) s)"

definition kill_inbound_session :: "'w sbox_os \<Rightarrow> string \<Rightarrow> 'w sbox \<Rightarrow> 'w sbox" where
  "kill_inbound_session os profile s = (case sx_sessions s profile of
       None \<Rightarrow> s
     | Some child \<Rightarrow> world (bo_kill os child) (s\<lparr>sx_sessions := (sx_sessions s)(profile := None)\<rparr>))"

definition add_loopback_exemption :: "'w sbox_os \<Rightarrow> string \<Rightarrow> 'w sbox \<Rightarrow> (PsrootError + unit) \<times> 'w sbox" where
  "add_loopback_exemption os profile s =
     (case call (bo_check_net os [''LoopbackExempt'', ''-a'', ''-n='' @ profile]) s of
        (Inl e, s) \<Rightarrow> (Inr (), s)
      | (Inr ok, s) \<Rightarrow>
        (let s = (if ok then s\<lparr>sx_exempt := insert profile (sx_exempt s)\<rparr> else s) in
         case call (bo_spawn_session os [''LoopbackExempt'', ''-is'', ''-n='' @ profile]) s of
           (Inl e, s) \<Rightarrow> (Inr (), s)
         | (Inr child, s) \<Rightarrow> (Inr (), register_inbound_session os profile child s)))"

definition remove_loopback_exemption :: "'w sbox_os \<Rightarrow> string \<Rightarrow> 'w sbox \<Rightarrow> 'w sbox" where
  "remove_loopback_exemption os profile s =
     (let s = kill_inbound_session os profile s;
          (r, s) = call (bo_check_net os [''LoopbackExempt'', ''-d'', ''-n='' @ profile]) s in
      if r = Inr True then s\<lparr>sx_exempt := sx_exempt s - {profile}\<rparr> else s)"

section \<open>Access to the rootfs\<close>

definition icacls_full :: "string \<Rightarrow> string" where
  "icacls_full sid = ''*'' @ sid @ '':(OI)(CI)(F)''"

fun grant_children :: "'w sbox_os \<Rightarrow> string \<Rightarrow> dir_ent list \<Rightarrow> 'w \<Rightarrow> 'w" where
  "grant_children os sid [] w = w"
| "grant_children os sid (d # ds) w =
     (case (ent_symlink d, ent_meta d, ent_path d) of
        (Some False, Some (False, True), Some child) \<Rightarrow>
          grant_children os sid ds (snd (bo_icacls os [child, ''/grant'', icacls_full sid, ''/T'', ''/C'', ''/Q''] w))
      | _ \<Rightarrow> grant_children os sid ds w)"

definition grant_appcontainer_access :: "'w sbox_os \<Rightarrow> string \<Rightarrow> string \<Rightarrow> 'w sbox \<Rightarrow> (PsrootError + unit) \<times> 'w sbox" where
  "grant_appcontainer_access os dir sid s = (case bo_sid_string os sid (sx_world s) of
       Inl e \<Rightarrow> (Inl e, s)
     | Inr sid_string \<Rightarrow> (case call (bo_icacls os [dir, ''/grant'', icacls_full sid_string, ''/Q'']) s of
           (Inl e, s) \<Rightarrow> (Inl (IoError e), s)
         | (Inr (False, stderr), s) \<Rightarrow>
             (Inl (OtherError (''icacls failed to grant AppContainer access to '' @ dir @ '': '' @ trim stderr)), s)
         | (Inr (True, _), s) \<Rightarrow>
             (Inr (), (case bo_read_dir os dir (sx_world s) of
                 None \<Rightarrow> s
               | Some ents \<Rightarrow> world (grant_children os sid_string ents) s))))"

fun grant_volumes :: "'w sbox_os \<Rightarrow> string \<Rightarrow> VolumeMount list \<Rightarrow> 'w sbox \<Rightarrow> 'w sbox" where
  "grant_volumes os sid [] s = s"
| "grant_volumes os sid (vm # vms) s =
     grant_volumes os sid vms (if bo_exists os (vm_host_path vm) (sx_world s)
       then snd (grant_appcontainer_access os (vm_host_path vm) sid s) else s)"

section \<open>Spawning inside an AppContainer\<close>

definition exempt :: "'w sbox_os \<Rightarrow> ContainerConfig \<Rightarrow> string \<Rightarrow> 'w sbox \<Rightarrow> (PsrootError + unit) \<times> 'w sbox" where
  "exempt os config name s = (if cc_network config = Full then add_loopback_exemption os name s else (Inr (), s))"

definition unexempt :: "'w sbox_os \<Rightarrow> ContainerConfig \<Rightarrow> string \<Rightarrow> 'w sbox \<Rightarrow> 'w sbox" where
  "unexempt os config name s = (if cc_network config = Full then remove_loopback_exemption os name s else s)"

definition attr_list :: "string \<Rightarrow> 'w sbox_os \<Rightarrow> 'w sbox \<Rightarrow> (PsrootError + unit) \<times> 'w sbox" where
  "attr_list update_op os s = (case bo_attr_init os (sx_world s) of
       Some err \<Rightarrow> (Inl (Win32 ''InitializeProcThreadAttributeList'' err), s)
     | None \<Rightarrow> (case bo_attr_update os (sx_world s) of
           Some err \<Rightarrow> (Inl (Win32 update_op err), s)
         | None \<Rightarrow> (Inr (), s)))"

definition open_desktop :: "'w sbox_os \<Rightarrow> string option \<Rightarrow> 'w sbox \<Rightarrow> (PsrootError + unit) \<times> 'w sbox" where
  "open_desktop os desktop s = (case desktop of
       None \<Rightarrow> (Inr (), s)
     | Some d \<Rightarrow> st_bind (call (bo_open_desktop os d) s) (\<lambda>_ s. (Inr (), s\<lparr>sx_desktops := d # sx_desktops s\<rparr>)))"

definition close_desktop :: "string option \<Rightarrow> 'w sbox \<Rightarrow> 'w sbox" where
  "close_desktop desktop s = (case desktop of
       None \<Rightarrow> s | Some d \<Rightarrow> s\<lparr>sx_desktops := remove1 d (sx_desktops s)\<rparr>)"

text \<open>The child inherits the environment the process has during the call.\<close>

definition create_process :: "'w sbox_os \<Rightarrow> (win_env \<Rightarrow> saved_env \<times> win_env) \<Rightarrow> launch \<Rightarrow> 'w sbox \<Rightarrow>
    (u32 + process_info) \<times> 'w sbox" where
  "create_process os change la s =
     (let (saved, env) = change (sx_env s);
          (r, s) = call (bo_create_process os la env) (s\<lparr>sx_env := env\<rparr>)
      in (r, s\<lparr>sx_env := restore_env (eo_up (bo_env os)) saved (sx_env s)\<rparr>))"

text \<open>From the exemption to the created process, the part the spawning functions share.\<close>

definition ac_launch :: "'w sbox_os \<Rightarrow> ContainerConfig \<Rightarrow> string \<Rightarrow> (win_env \<Rightarrow> saved_env \<times> win_env) \<Rightarrow> launch \<Rightarrow>
    'w sbox \<Rightarrow> (PsrootError + process_info) \<times> 'w sbox" where
  "ac_launch os config name change la s =
     st_bind (exempt os config name s) (\<lambda>_ s.
     st_bind (attr_list ''UpdateProcThreadAttribute'' os s) (\<lambda>_ s.
     st_bind (open_desktop os (la_desktop la) s) (\<lambda>_ s.
       case create_process os change la s of
         (Inl err, s) \<Rightarrow> (Inl (Win32 (la_op la) err), close_desktop (la_desktop la) (unexempt os config name s))
       | (Inr child, s) \<Rightarrow> (Inr child, s))))"

definition ac_finish :: "'w sbox_os \<Rightarrow> ContainerConfig \<Rightarrow> string \<Rightarrow> launch \<Rightarrow> process_info \<Rightarrow> 'w sbox \<Rightarrow> u32 \<times> 'w sbox" where
  "ac_finish os config name la child s =
     (let (code, s) = call (bo_wait os child) s in (code, close_desktop (la_desktop la) (unexempt os config name s)))"

text \<open>\<open>ac_profile\<close> is dropped on every way out.\<close>

definition with_profile :: "'w sbox_os \<Rightarrow> string \<Rightarrow> (string \<Rightarrow> 'w sbox \<Rightarrow> (PsrootError + 'a) \<times> 'w sbox) \<Rightarrow> 'w sbox \<Rightarrow>
    (PsrootError + 'a) \<times> 'w sbox" where
  "with_profile os cid body s = st_bind (profile_create os cid s) (\<lambda>(name, sid) s.
     let (r, s) = body sid s in (r, delete_profile os name s))"

definition no_appcontainer :: "string \<Rightarrow> PsrootError" where
  "no_appcontainer what = OtherError (what @ '' requires AppContainer support'')"

definition config_env :: "'w sbox_os \<Rightarrow> ContainerConfig \<Rightarrow> win_env \<Rightarrow> saved_env \<times> win_env" where
  "config_env os config = apply_sandbox_env (bo_env os) config"

definition config_plan_env :: "'w sbox_os \<Rightarrow> ContainerConfig \<Rightarrow> LaunchPlan \<Rightarrow> win_env \<Rightarrow> saved_env \<times> win_env" where
  "config_plan_env os config plan = apply_sandbox_env_with_plan (bo_env os) config plan"

definition spawn_interactive :: "'w sbox_os \<Rightarrow> string \<Rightarrow> ContainerConfig \<Rightarrow> 'w sbox \<Rightarrow> (PsrootError + u32) \<times> 'w sbox" where
  "spawn_interactive os cmd config s =
     (if \<not> bo_available os then (Inl (no_appcontainer ''Interactive shell''), s)
      else let cid = container_id_of ''unknown'' (cc_rootfs_path config) in
        with_profile os cid (\<lambda>sid s.
          st_bind (grant_appcontainer_access os (cc_rootfs_path config) sid s) (\<lambda>_ s.
          let s = grant_volumes os sid (cc_volumes config) s in
          st_bind (build_network_capabilities os (cc_network config), s) (\<lambda>caps s.
          let name = profile_name cid;
              la = \<lparr>la_op = ''CreateProcessW(interactive)'', la_cmd = cmd, la_cwd = cc_rootfs_path config,
                la_inherit = True, la_suspended = False, la_desktop = None, la_caps = caps, la_sid = Some sid\<rparr> in
          st_bind (ac_launch os config name (config_env os config) la s) (\<lambda>child s.
          let (code, s) = ac_finish os config name la child s in (Inr code, s))))) s)"

text \<open>The GUI functions exempt the name \<open>psroot.gui.<id>\<close>, not the profile's.\<close>

definition gui_name :: "string \<Rightarrow> string" where
  "gui_name cid = ''psroot.gui.'' @ cid"

definition spawn_gui_isolated :: "'w sbox_os \<Rightarrow> string \<Rightarrow> ContainerConfig \<Rightarrow> 'w sbox \<Rightarrow>
    (PsrootError + string \<times> u32) \<times> 'w sbox" where
  "spawn_gui_isolated os cmd config s =
     (if \<not> bo_available os then (Inl (no_appcontainer ''GUI isolation''), s)
      else let cid = container_id_of ''gui-unknown'' (cc_rootfs_path config) in
        with_profile os cid (\<lambda>sid s.
          st_bind (grant_appcontainer_access os (cc_rootfs_path config) sid s) (\<lambda>_ s.
          st_bind (build_network_capabilities os (cc_network config), s) (\<lambda>caps s.
          let name = gui_name cid;
              la = \<lparr>la_op = ''CreateProcessW(gui_isolated)'', la_cmd = cmd, la_cwd = cc_rootfs_path config,
                la_inherit = False, la_suspended = False, la_desktop = Some cid, la_caps = caps, la_sid = Some sid\<rparr> in
          st_bind (ac_launch os config name (config_env os config) la s) (\<lambda>child s.
          case bo_sid_string os sid (sx_world s) of
            Inl e \<Rightarrow> (Inl e, close_desktop (Some cid) s)
          | Inr sid_str \<Rightarrow> (let (code, s) = ac_finish os config name la child s in (Inr (sid_str, code), s)))))) s)"

text \<open>The variant that does not wait keeps the profile and hands the desktop to the caller.\<close>

definition spawn_gui_isolated_async :: "'w sbox_os \<Rightarrow> string \<Rightarrow> ContainerConfig \<Rightarrow> 'w sbox \<Rightarrow>
    (PsrootError + string \<times> string \<times> u32) \<times> 'w sbox" where
  "spawn_gui_isolated_async os cmd config s =
     (if \<not> bo_available os then (Inl (no_appcontainer ''GUI isolation''), s)
      else let cid = container_id_of ''gui-unknown'' (cc_rootfs_path config) in
        st_bind (profile_create os cid s) (\<lambda>(pname, sid) s.
        let (r, s) =
          st_bind (grant_appcontainer_access os (cc_rootfs_path config) sid s) (\<lambda>_ s.
          st_bind (build_network_capabilities os (cc_network config), s) (\<lambda>caps s.
          let name = gui_name cid;
              la = \<lparr>la_op = ''CreateProcessW(gui_isolated_async)'', la_cmd = cmd, la_cwd = cc_rootfs_path config,
                la_inherit = False, la_suspended = False, la_desktop = Some cid, la_caps = caps, la_sid = Some sid\<rparr> in
          st_bind (ac_launch os config name (config_env os config) la s) (\<lambda>child s.
          case bo_sid_string os sid (sx_world s) of
            Inl e \<Rightarrow> (Inl e, close_desktop (Some cid) s)
          | Inr sid_str \<Rightarrow> (Inr (sid_str, cid, pi_pid child), world (bo_close os (pi_thread child)) s))))
        in (r, case r of Inl e \<Rightarrow> delete_profile os pname s | Inr _ \<Rightarrow> s)))"

text \<open>Staging inside a spawn.\<close>

definition stage_plan :: "'w sbox_os \<Rightarrow> (stage_error \<Rightarrow> string) \<Rightarrow> LaunchPlan \<Rightarrow> string \<Rightarrow> string \<Rightarrow> 'w sbox \<Rightarrow>
    (PsrootError + StageOutcome) \<times> 'w sbox" where
  "stage_plan os show_err plan sid cid s =
     (case apply_plan (bo_stage os) plan sid cid (sx_manifests s) (sx_world s) of (r, ms, w) \<Rightarrow>
        (case r of Inl e \<Rightarrow> Inl (OtherError (''stager.apply_plan: '' @ show_err e)) | Inr out \<Rightarrow> Inr out,
         s\<lparr>sx_manifests := ms, sx_world := w\<rparr>))"

definition spawn_gui_plan :: "'w sbox_os \<Rightarrow> (stage_error \<Rightarrow> string) \<Rightarrow> LaunchPlan \<Rightarrow> ContainerConfig \<Rightarrow> 'w sbox \<Rightarrow>
    (PsrootError + string \<times> u32) \<times> 'w sbox" where
  "spawn_gui_plan os show_err plan config s =
     (if \<not> bo_available os then (Inl (no_appcontainer ''GUI isolation''), s)
      else let cid = container_id_of ''gui-unknown'' (cc_rootfs_path config) in
        with_profile os cid (\<lambda>sid s.
          st_bind (bo_sid_string os sid (sx_world s), s) (\<lambda>sid_str s.
          st_bind (grant_appcontainer_access os (cc_rootfs_path config) sid s) (\<lambda>_ s.
          st_bind (stage_plan os show_err plan sid_str cid s) (\<lambda>_ s.
          st_bind (build_network_capabilities os (cc_network config), s) (\<lambda>caps s.
          let name = gui_name cid;
              la = \<lparr>la_op = ''CreateProcessW(gui_plan)'', la_cmd = command_line (lp_entry plan) (lp_args plan),
                la_cwd = lp_cwd plan, la_inherit = False, la_suspended = False, la_desktop = Some cid,
                la_caps = caps, la_sid = Some sid\<rparr> in
          st_bind (ac_launch os config name (config_plan_env os config plan) la s) (\<lambda>child s.
          let (code, s) = ac_finish os config name la child s in (Inr (sid_str, code), s))))))) s)"

definition spawn_interactive_plan :: "'w sbox_os \<Rightarrow> (stage_error \<Rightarrow> string) \<Rightarrow> LaunchPlan \<Rightarrow> ContainerConfig \<Rightarrow> 'w sbox \<Rightarrow>
    (PsrootError + string \<times> u32) \<times> 'w sbox" where
  "spawn_interactive_plan os show_err plan config s =
     (if \<not> bo_available os then (Inl (no_appcontainer ''Interactive shell''), s)
      else let cid = container_id_of ''unknown'' (cc_rootfs_path config) in
        with_profile os cid (\<lambda>sid s.
          st_bind (bo_sid_string os sid (sx_world s), s) (\<lambda>sid_str s.
          st_bind (grant_appcontainer_access os (cc_rootfs_path config) sid s) (\<lambda>_ s.
          st_bind (stage_plan os show_err plan sid_str cid s) (\<lambda>_ s.
          st_bind (build_network_capabilities os (cc_network config), s) (\<lambda>caps s.
          let name = profile_name cid;
              la = \<lparr>la_op = ''CreateProcessW(interactive_plan)'', la_cmd = command_line (lp_entry plan) (lp_args plan),
                la_cwd = lp_cwd plan, la_inherit = True, la_suspended = False, la_desktop = None,
                la_caps = caps, la_sid = Some sid\<rparr> in
          st_bind (ac_launch os config name (config_plan_env os config plan) la s) (\<lambda>child s.
          let (code, s) = ac_finish os config name la child s in (Inr (sid_str, code), s))))))) s)"

section \<open>Spawning into a job\<close>

definition job_cwd :: "ContainerConfig \<Rightarrow> string" where
  "job_cwd config =
     (if starts_with (cc_rootfs_path config) (cc_working_directory config) then cc_working_directory config
      else below (cc_rootfs_path config) [''Temp''])"

definition assign_and_resume :: "'w sbox_os \<Rightarrow> nat \<Rightarrow> process_info \<Rightarrow> 'w sbox \<Rightarrow> (PsrootError + u32) \<times> 'w sbox" where
  "assign_and_resume os job child s = (case call (bo_assign os job child) s of
       (Inl e, s) \<Rightarrow> (Inl e, world (bo_discard os child) s)
     | (Inr _, s) \<Rightarrow> (Inr (pi_pid child), world (bo_resume os child) s))"

text \<open>\<open>bo_create_as_user\<close> takes the entries of the environment block in their sorted order.\<close>

definition spawn_with_restricted_token :: "'w sbox_os \<Rightarrow> string \<Rightarrow> ContainerConfig \<Rightarrow> nat \<Rightarrow> 'w sbox \<Rightarrow>
    (PsrootError + u32) \<times> 'w sbox" where
  "spawn_with_restricted_token os cmd config job s =
     st_bind (call (bo_restricted_token os) s) (\<lambda>token s.
     let la = \<lparr>la_op = ''CreateProcessAsUserW'', la_cmd = cmd, la_cwd = job_cwd config, la_inherit = False,
           la_suspended = True, la_desktop = None, la_caps = [], la_sid = None\<rparr>;
         (r, s) = call (bo_create_as_user os token la (env_entries (eo_lower (bo_env os)) config)) s;
         s = world (bo_close os token) s
     in case r of Inl err \<Rightarrow> (Inl (Win32 ''CreateProcessAsUserW'' err), s)
        | Inr child \<Rightarrow> assign_and_resume os job child s)"

definition spawn_with_appcontainer :: "'w sbox_os \<Rightarrow> string \<Rightarrow> ContainerConfig \<Rightarrow> nat \<Rightarrow> 'w sbox \<Rightarrow>
    (PsrootError + u32) \<times> 'w sbox" where
  "spawn_with_appcontainer os cmd config job s =
     (let cid = container_id_of ''unknown'' (cc_rootfs_path config); name = profile_name cid in
      st_bind (profile_create os cid s) (\<lambda>(pname, sid) s.
      let (r, s) =
        st_bind (grant_appcontainer_access os (cc_rootfs_path config) sid s) (\<lambda>_ s.
        st_bind (build_network_capabilities os (cc_network config), s) (\<lambda>caps s.
        st_bind (exempt os config name s) (\<lambda>_ s.
        st_bind (attr_list ''UpdateProcThreadAttribute(SECURITY_CAPABILITIES)'' os s) (\<lambda>_ s.
        let la = \<lparr>la_op = ''CreateProcessW(AppContainer)'', la_cmd = cmd, la_cwd = job_cwd config, la_inherit = False,
              la_suspended = True, la_desktop = None, la_caps = caps, la_sid = Some sid\<rparr> in
        case create_process os (config_env os config) la s of
          (Inl err, s) \<Rightarrow>
            if err \<noteq> 0 then (Inr None, unexempt os config name s)
            else (Inl (Win32 (la_op la) err), s)
        | (Inr child, s) \<Rightarrow> (case assign_and_resume os job child s of
              (Inl e, s) \<Rightarrow> (Inl e, unexempt os config name s)
            | (Inr pid, s) \<Rightarrow> (Inr (Some pid), s))))))
      in case r of
        Inl e \<Rightarrow> (Inl e, delete_profile os pname s)
      | Inr None \<Rightarrow> spawn_with_restricted_token os cmd config job (delete_profile os pname s)
      | Inr (Some pid) \<Rightarrow> (Inr pid, s)))"

definition spawn_sandboxed :: "'w sbox_os \<Rightarrow> string \<Rightarrow> ContainerConfig \<Rightarrow> nat \<Rightarrow> 'w sbox \<Rightarrow> (PsrootError + u32) \<times> 'w sbox" where
  "spawn_sandboxed os cmd config job s =
     (if bo_available os then spawn_with_appcontainer os cmd config job s
      else spawn_with_restricted_token os cmd config job s)"

section \<open>Hard links instead of a junction\<close>

text \<open>What \<open>materialize_psh_via_hardlinks\<close> needs from the file system.\<close>

record 'w link_os =
  ln_exists :: "string \<Rightarrow> 'w \<Rightarrow> bool"
  ln_meta_ok :: "string \<Rightarrow> 'w \<Rightarrow> bool"          \<comment> \<open>\<open>symlink_metadata\<close> succeeds\<close>
  ln_remove_dir :: "string \<Rightarrow> 'w \<Rightarrow> 'w"
  ln_remove_all :: "string \<Rightarrow> 'w \<Rightarrow> (nat + unit) \<times> 'w"
  ln_create_all :: "string \<Rightarrow> 'w \<Rightarrow> (nat + unit) \<times> 'w"
  ln_link :: "string \<Rightarrow> string \<Rightarrow> 'w \<Rightarrow> bool \<times> 'w"
  ln_copy :: "string \<Rightarrow> string \<Rightarrow> 'w \<Rightarrow> (nat + unit) \<times> 'w"

text \<open>A directory as \<open>read_dir\<close> yields it; \<open>None\<close> is a directory that cannot be read.\<close>

datatype psh_node = PshDir "(string \<times> psh_node) list option" | PshFile | PshLink | PshOther

fun psh_walk :: "'w link_os \<Rightarrow> string \<Rightarrow> string \<Rightarrow> (string \<times> psh_node) list \<Rightarrow> 'w \<Rightarrow> (nat + unit) \<times> 'w" where
  "psh_walk os src dst [] w = (Inr (), w)"
| "psh_walk os src dst ((name, nd) # ents) w =
     (let s = below src [name]; d = below dst [name] in
      case nd of
        PshDir sub \<Rightarrow> (case ln_create_all os d w of
            (Inl e, w) \<Rightarrow> (Inl e, w)
          | (Inr _, w) \<Rightarrow> (case sub of None \<Rightarrow> (Inl 0, w)
              | Some sub \<Rightarrow> (case psh_walk os s d sub w of
                    (Inl e, w) \<Rightarrow> (Inl e, w)
                  | (Inr _, w) \<Rightarrow> psh_walk os src dst ents w)))
      | PshFile \<Rightarrow> (case ln_link os s d w of
            (True, w) \<Rightarrow> psh_walk os src dst ents w
          | (False, w) \<Rightarrow> (case ln_copy os s d w of
                (Inl e, w) \<Rightarrow> (Inl e, w)
              | (Inr _, w) \<Rightarrow> psh_walk os src dst ents w))
      | PshLink \<Rightarrow> psh_walk os src dst ents (snd (ln_copy os s d w))
      | PshOther \<Rightarrow> psh_walk os src dst ents w)"

definition materialize_psh :: "'w link_os \<Rightarrow> string \<Rightarrow> (string \<times> psh_node) list option \<Rightarrow> string \<Rightarrow> 'w \<Rightarrow>
    (nat + unit) \<times> 'w" where
  "materialize_psh os cache_dir cache psh w =
     (let (r, w) = (if ln_exists os psh w \<or> ln_meta_ok os psh w then
            let w = ln_remove_dir os psh w in
            if ln_exists os psh w then ln_remove_all os psh w else (Inr (), w)
          else (Inr (), w)) in
      case r of Inl e \<Rightarrow> (Inl e, w)
      | Inr _ \<Rightarrow> (case ln_create_all os psh w of
            (Inl e, w) \<Rightarrow> (Inl e, w)
          | (Inr _, w) \<Rightarrow> (case cache of None \<Rightarrow> (Inl 0, w) | Some ents \<Rightarrow> psh_walk os cache_dir psh ents w)))"

section \<open>Paths as the container sees them\<close>

definition or_root :: "string \<Rightarrow> string" where
  "or_root suffix = (if suffix = [] then [bslash] else suffix)"

definition devicemap_translate :: "string \<Rightarrow> string \<Rightarrow> string" where
  "devicemap_translate rootfs s = (case strip_prefix rootfs s of
       Some suffix \<Rightarrow> ''C:'' @ or_root suffix | None \<Rightarrow> s)"

definition silo_translate :: "string \<Rightarrow> string \<Rightarrow> string \<Rightarrow> string \<Rightarrow> string" where
  "silo_translate rootfs cache_dir cache_parent s = (case strip_prefix (below rootfs [''PSH'']) s of
       Some suffix \<Rightarrow> (case strip_prefix cache_parent (cache_dir @ suffix) of
           Some p \<Rightarrow> ''P:'' @ or_root p | None \<Rightarrow> cache_dir @ suffix)
     | None \<Rightarrow> (case strip_prefix cache_parent s of
           Some suffix \<Rightarrow> ''P:'' @ or_root suffix
         | None \<Rightarrow> devicemap_translate rootfs s))"

text \<open>The variables a silo child gets: the cache's parent becomes \<open>P:\<close>, then the rootfs \<open>C:\<close>.\<close>

definition silo_env :: "string \<Rightarrow> string \<Rightarrow> win_env \<Rightarrow> (string \<times> string) list" where
  "silo_env cache_parent rootfs e = map (\<lambda>(k, v). (k, replace_all rootfs ''C:'' (replace_all cache_parent ''P:'' v))) e"

definition ascii_alpha :: "char \<Rightarrow> bool" where
  "ascii_alpha c \<longleftrightarrow> (let n = of_char c :: nat in 65 \<le> n \<and> n \<le> 90 \<or> 97 \<le> n \<and> n \<le> 122)"

text \<open>A bind mount: a drive letter of its own, or a junction below the rootfs.\<close>

datatype bind_target = DriveLetter string | RootfsPath string

definition bind_target :: "string \<Rightarrow> bind_target" where
  "bind_target container_path =
     (let cp = trim container_path; n = length cp in
      if n = 2 \<and> ascii_alpha (cp ! 0) \<and> cp ! 1 = CHR '':'' \<or>
         n = 3 \<and> ascii_alpha (cp ! 0) \<and> cp ! 1 = CHR '':'' \<and> (cp ! 2 = bslash \<or> cp ! 2 = CHR ''/'')
      then DriveLetter (take 2 cp)
      else let suffix = (if n \<ge> 2 \<and> cp ! 1 = CHR '':'' then drop 2 cp else cp) in
        RootfsPath (dropWhile (\<lambda>c. c = CHR ''/'') (dropWhile (\<lambda>c. c = bslash) suffix)))"

end
