(* ===== verification/Silo.thy ===== *)
theory Silo
  imports Sandbox "HOL-Library.Multiset"
begin

text \<open>
  Server silos: the NT object namespace of \<open>crates/psroot-namespace\<close> and the silo of
  \<open>crates/psroot-silo\<close>. The kernel is a parameter over the rest of the world; explicit are the
  handles the process holds and whether its thread impersonates SYSTEM. Rust's drops are written
  out where values go out of scope. \<open>to_ne_bytes\<close> is little-endian on the supported processors.
\<close>

section \<open>Handles and NT objects\<close>

record 'w kern =
  kn_open :: "nat list"
  kn_impersonating :: bool
  kn_world :: 'w

record process_entry =
  pe_name :: string
  pe_pid :: u32

record 'w kern_os =
  ko_create_dir :: "string \<Rightarrow> nat option \<Rightarrow> 'w \<Rightarrow> (u32 \<times> nat) \<times> 'w"
  ko_create_link :: "string \<Rightarrow> string \<Rightarrow> nat option \<Rightarrow> 'w \<Rightarrow> (u32 \<times> nat) \<times> 'w"
  ko_open_dir :: "string \<Rightarrow> 'w \<Rightarrow> (u32 \<times> nat) \<times> 'w"
  ko_close :: "nat \<Rightarrow> 'w \<Rightarrow> 'w"
  ko_set_device_map :: "nat \<Rightarrow> u8 list \<Rightarrow> 'w \<Rightarrow> u32 \<times> 'w"
  ko_create_job :: "'w \<Rightarrow> (u32 + nat) \<times> 'w"
  ko_set_info :: "nat \<Rightarrow> u32 \<Rightarrow> u8 list \<Rightarrow> 'w \<Rightarrow> u32 option \<times> 'w"     \<comment> \<open>handle, class, buffer; the error\<close>
  ko_limits :: "nat \<Rightarrow> ResourceLimits option \<Rightarrow> 'w \<Rightarrow> (PsrootError + unit) \<times> 'w"
    \<comment> \<open>\<open>enable_kill_on_close\<close> and \<open>apply_limits\<close> of the job\<close>
  ko_silo_id :: "nat \<Rightarrow> 'w \<Rightarrow> PsrootError + u32"
  ko_terminate :: "nat \<Rightarrow> u32 \<Rightarrow> 'w \<Rightarrow> 'w"
  ko_open_token :: "'w \<Rightarrow> nat option \<times> 'w"
  ko_lookup_privilege :: "string \<Rightarrow> 'w \<Rightarrow> bool"
  ko_adjust :: "nat \<Rightarrow> string \<Rightarrow> 'w \<Rightarrow> (bool \<times> u32) \<times> 'w"       \<comment> \<open>success and \<open>GetLastError\<close>\<close>
  ko_snapshot :: "'w \<Rightarrow> (nat \<times> process_entry list) option \<times> 'w"
  ko_open_process :: "u32 \<Rightarrow> 'w \<Rightarrow> (u32 + nat) \<times> 'w"
  ko_process_token :: "nat \<Rightarrow> 'w \<Rightarrow> (u32 + nat) \<times> 'w"
  ko_duplicate :: "nat \<Rightarrow> 'w \<Rightarrow> (u32 + nat) \<times> 'w"
  ko_set_thread_token :: "nat \<Rightarrow> 'w \<Rightarrow> u32 option \<times> 'w"
  ko_revert :: "'w \<Rightarrow> 'w"
  ko_create_process :: "string \<Rightarrow> string list option \<Rightarrow> string option \<Rightarrow> bool \<Rightarrow> 'w \<Rightarrow> (u32 + nat \<times> nat \<times> u32) \<times> 'w"
    \<comment> \<open>command, environment block entries, directory, interactive; process, thread, process id\<close>
  ko_assign :: "nat \<Rightarrow> nat \<Rightarrow> 'w \<Rightarrow> (PsrootError + unit) \<times> 'w"
  ko_kill :: "nat \<Rightarrow> 'w \<Rightarrow> 'w"
  ko_resume :: "nat \<Rightarrow> 'w \<Rightarrow> 'w"

definition kcall :: "('w \<Rightarrow> 'a \<times> 'w) \<Rightarrow> 'w kern \<Rightarrow> 'a \<times> 'w kern" where
  "kcall f s = (let (r, w) = f (kn_world s) in (r, s\<lparr>kn_world := w\<rparr>))"

definition opened :: "nat \<Rightarrow> 'w kern \<Rightarrow> 'w kern" where
  "opened h s = s\<lparr>kn_open := h # kn_open s\<rparr>"

definition close_handle :: "'w kern_os \<Rightarrow> nat \<Rightarrow> 'w kern \<Rightarrow> 'w kern" where
  "close_handle os h s = s\<lparr>kn_open := remove1 h (kn_open s), kn_world := ko_close os h (kn_world s)\<rparr>"

text \<open>An \<open>NtHandle\<close> made from a call that succeeded; its \<open>Drop\<close> leaves the null handle alone.\<close>

definition nt_handle :: "string \<Rightarrow> u32 list \<Rightarrow> (u32 \<times> nat) \<times> 'w kern \<Rightarrow> (PsrootError + nat) \<times> 'w kern" where
  "nt_handle what accepted r = (case r of ((status, h), s) \<Rightarrow>
     if status \<notin> set accepted then (Inl (NtStatus what status), s)
     else (Inr h, if h = 0 then s else opened h s))"

definition nt_drop :: "'w kern_os \<Rightarrow> nat \<Rightarrow> 'w kern \<Rightarrow> 'w kern" where
  "nt_drop os h s = (if h = 0 then s else close_handle os h s)"

definition create_directory :: "'w kern_os \<Rightarrow> string \<Rightarrow> nat option \<Rightarrow> 'w kern \<Rightarrow> (PsrootError + nat) \<times> 'w kern" where
  "create_directory os name root s =
     nt_handle ''NtCreateDirectoryObjectEx'' [0, 0x40000000] (kcall (ko_create_dir os name root) s)"

definition nt_create_symlink :: "'w kern_os \<Rightarrow> string \<Rightarrow> string \<Rightarrow> nat option \<Rightarrow> 'w kern \<Rightarrow> (PsrootError + nat) \<times> 'w kern" where
  "nt_create_symlink os name target root s =
     nt_handle ''NtCreateSymbolicLinkObject'' [0] (kcall (ko_create_link os name target root) s)"

definition open_directory :: "'w kern_os \<Rightarrow> string \<Rightarrow> 'w kern \<Rightarrow> (PsrootError + nat) \<times> 'w kern" where
  "open_directory os name s = nt_handle ''NtOpenDirectoryObject'' [0] (kcall (ko_open_dir os name) s)"

text \<open>The 40-byte form first, then the bare handle.\<close>

definition set_process_device_map :: "'w kern_os \<Rightarrow> nat \<Rightarrow> nat \<Rightarrow> 'w kern \<Rightarrow> (u32 \<times> u32 + unit) \<times> 'w kern" where
  "set_process_device_map os process dir s =
     (let h = to_le 8 (word_of_nat dir :: u64);
          (status, s) = kcall (ko_set_device_map os process (h @ replicate 32 0)) s in
      if status = 0 then (Inr (), s)
      else let (status2, s) = kcall (ko_set_device_map os process h) s in
        if status2 = 0 then (Inr (), s) else (Inl (status, status2), s))"

section \<open>The namespace of a silo\<close>

text \<open>The objects in the order they are made; a parent is the root or an earlier child.\<close>

datatype ns_parent = NsRoot | NsChild nat

datatype ns_entry = NsDir string ns_parent | NsLink string string ns_parent

definition nt_path :: "string list \<Rightarrow> string" where
  "nt_path ps = below [] ps"

definition silo_entries :: "string \<Rightarrow> string \<Rightarrow> (string \<times> string) list \<Rightarrow> ns_entry list" where
  "silo_entries silo_path root drives =
     [NsDir ''BaseNamedObjects'' NsRoot, NsDir ''Restricted'' (NsChild 0),
      NsDir ''Sessions'' NsRoot, NsDir ''0'' (NsChild 2),
      NsLink ''BaseNamedObjects'' (below silo_path [''BaseNamedObjects'']) (NsChild 3),
      NsDir ''GLOBAL??'' NsRoot, NsLink ''C:'' (nt_path [''??'', root]) (NsChild 5)] @
     map (\<lambda>(letter, host). NsLink letter (nt_path [''??'', host]) (NsChild 5)) drives @
     [NsLink ''NUL'' (nt_path [''Device'', ''Null'']) (NsChild 5),
      NsLink ''CON'' (nt_path [''Device'', ''ConDrv'']) (NsChild 5),
      NsLink ''CONIN$'' (nt_path [''Device'', ''ConDrv'', ''CurrentIn'']) (NsChild 5),
      NsLink ''CONOUT$'' (nt_path [''Device'', ''ConDrv'', ''CurrentOut'']) (NsChild 5),
      NsDir ''Device'' NsRoot,
      NsLink ''Null'' (nt_path [''Device'', ''Null'']) (NsChild (11 + length drives)),
      NsLink ''ConDrv'' (nt_path [''Device'', ''ConDrv'']) (NsChild (11 + length drives)),
      NsDir ''KnownDlls'' NsRoot]"

fun parent_handle :: "nat \<Rightarrow> nat list \<Rightarrow> ns_parent \<Rightarrow> nat" where
  "parent_handle root ch NsRoot = root"
| "parent_handle root ch (NsChild i) = (if i < length ch then ch ! i else 0)"

definition make_entry :: "'w kern_os \<Rightarrow> nat \<Rightarrow> nat list \<Rightarrow> ns_entry \<Rightarrow> 'w kern \<Rightarrow> (PsrootError + nat) \<times> 'w kern" where
  "make_entry os root ch e s = (case e of
       NsDir name p \<Rightarrow> create_directory os name (Some (parent_handle root ch p)) s
     | NsLink name target p \<Rightarrow> nt_create_symlink os name target (Some (parent_handle root ch p)) s)"

fun drop_all :: "'w kern_os \<Rightarrow> nat list \<Rightarrow> 'w kern \<Rightarrow> 'w kern" where
  "drop_all os [] s = s"
| "drop_all os (h # hs) s = drop_all os hs (nt_drop os h s)"

text \<open>On an error the children made so far are dropped.\<close>

fun make_entries :: "'w kern_os \<Rightarrow> nat \<Rightarrow> nat list \<Rightarrow> ns_entry list \<Rightarrow> 'w kern \<Rightarrow> (PsrootError + nat list) \<times> 'w kern" where
  "make_entries os root ch [] s = (Inr ch, s)"
| "make_entries os root ch (e # es) s = (case make_entry os root ch e s of
       (Inl err, s) \<Rightarrow> (Inl err, drop_all os ch s)
     | (Inr h, s) \<Rightarrow> make_entries os root (ch @ [h]) es s)"

record namespace =
  ns_silos_parent :: nat
  ns_root :: nat
  ns_children :: "nat list"

definition silo_path :: "u32 \<Rightarrow> string" where
  "silo_path silo_id = nt_path [''Silos'', show_nat (unat silo_id)]"

definition build_namespace :: "'w kern_os \<Rightarrow> u32 \<Rightarrow> string \<Rightarrow> (string \<times> string) list \<Rightarrow> 'w kern \<Rightarrow>
    (PsrootError + namespace) \<times> 'w kern" where
  "build_namespace os silo_id root drives s =
     st_bind (create_directory os (nt_path [''Silos'']) None s) (\<lambda>silos s.
     case create_directory os (silo_path silo_id) None s of
       (Inl e, s) \<Rightarrow> (Inl e, nt_drop os silos s)
     | (Inr r, s) \<Rightarrow> (case make_entries os r [] (silo_entries (silo_path silo_id) root drives) s of
           (Inl e, s) \<Rightarrow> (Inl e, nt_drop os silos (nt_drop os r s))
         | (Inr ch, s) \<Rightarrow> (Inr \<lparr>ns_silos_parent = silos, ns_root = r, ns_children = ch\<rparr>, s)))"

definition drop_namespace :: "'w kern_os \<Rightarrow> namespace \<Rightarrow> 'w kern \<Rightarrow> 'w kern" where
  "drop_namespace os ns s =
     nt_drop os (ns_root ns) (nt_drop os (ns_silos_parent ns) (drop_all os (ns_children ns) s))"

section \<open>Device maps\<close>

record device_map =
  dm_global :: nat
  dm_directory :: nat
  dm_links :: "nat list"

definition global_target :: "string \<Rightarrow> string" where
  "global_target host = nt_path [''GLOBAL??'', host]"

text \<open>\<open>name\<close> carries the process id and a counter.\<close>

definition build_device_map :: "'w kern_os \<Rightarrow> string \<Rightarrow> string \<Rightarrow> (string \<times> string) list \<Rightarrow> 'w kern \<Rightarrow>
    (PsrootError + device_map) \<times> 'w kern" where
  "build_device_map os name root drives s =
     st_bind (open_directory os (nt_path [''GLOBAL??'']) s) (\<lambda>global s.
     case create_directory os (nt_path [''BaseNamedObjects'', name]) None s of
       (Inl e, s) \<Rightarrow> (Inl e, nt_drop os global s)
     | (Inr dir, s) \<Rightarrow>
       (case make_entries os dir [] (map (\<lambda>(letter, host). NsLink letter (global_target host) NsRoot) ((''C:'', root) # drives)) s of
          (Inl e, s) \<Rightarrow> (Inl e, nt_drop os global (nt_drop os dir s))
        | (Inr links, s) \<Rightarrow> (Inr \<lparr>dm_global = global, dm_directory = dir, dm_links = links\<rparr>, s)))"

section \<open>Silo root buffers\<close>

definition build_silo_root :: "u32 \<Rightarrow> u16 \<Rightarrow> u16 \<Rightarrow> u64 \<Rightarrow> u8 list" where
  "build_silo_root flags byte_len max_byte_len buf =
     to_le 4 flags @ to_le 4 (0 :: u32) @ to_le 2 byte_len @ to_le 2 max_byte_len @ to_le 4 (0 :: u32) @ to_le 8 buf"

definition build_unicode_string :: "u16 \<Rightarrow> u16 \<Rightarrow> u64 \<Rightarrow> u8 list" where
  "build_unicode_string byte_len max_byte_len buf =
     to_le 2 byte_len @ to_le 2 max_byte_len @ to_le 4 (0 :: u32) @ to_le 8 buf"

definition build_handle :: "u64 \<Rightarrow> u8 list" where
  "build_handle h = to_le 8 h"

definition build_handle_padded :: "u64 \<Rightarrow> u8 list" where
  "build_handle_padded h = to_le 8 h @ to_le 8 (0 :: u64)"

definition build_flags_handle :: "u32 \<Rightarrow> u64 \<Rightarrow> u8 list" where
  "build_flags_handle flags h = to_le 4 flags @ to_le 4 (0 :: u32) @ to_le 8 h"

definition build_pwstr_flags :: "u64 \<Rightarrow> u32 \<Rightarrow> u8 list" where
  "build_pwstr_flags buf flags = to_le 8 buf @ to_le 4 flags @ to_le 4 (0 :: u32)"

definition build_flags_pwstr :: "u32 \<Rightarrow> u64 \<Rightarrow> u8 list" where
  "build_flags_pwstr flags buf = to_le 4 flags @ to_le 4 (0 :: u32) @ to_le 8 buf"

text \<open>A wide string in memory: its address and its length in UTF-16 units, terminator included.\<close>

record wide =
  wi_addr :: u64
  wi_units :: nat

definition byte_len :: "wide \<Rightarrow> u16" where "byte_len w = word_of_nat ((wi_units w - 1) * 2)"
definition max_byte_len :: "wide \<Rightarrow> u16" where "max_byte_len w = word_of_nat (wi_units w * 2)"

definition us :: "wide \<Rightarrow> u8 list" where
  "us w = build_unicode_string (byte_len w) (max_byte_len w) (wi_addr w)"

definition sr :: "u32 \<Rightarrow> wide \<Rightarrow> u8 list" where
  "sr flags w = build_silo_root flags (byte_len w) (max_byte_len w) (wi_addr w)"

definition JOB_OBJECT_CREATE_SILO :: u32 where "JOB_OBJECT_CREATE_SILO = 35"
definition JOB_OBJECT_SILO_ROOT_DIR :: u32 where "JOB_OBJECT_SILO_ROOT_DIR = 37"
definition JOB_OBJECT_SILO_SYSTEM_ROOT :: u32 where "JOB_OBJECT_SILO_SYSTEM_ROOT = 38"
definition JOB_OBJECT_SERVER_SILO_INIT :: u32 where "JOB_OBJECT_SERVER_SILO_INIT = 40"

definition try_shapes :: "wide \<Rightarrow> wide \<Rightarrow> wide \<Rightarrow> wide \<Rightarrow> u64 \<Rightarrow> (u32 \<times> u32 \<times> u8 list) list" where
  "try_shapes silo alt1 alt2 sysroot root_h =
     (let dir = JOB_OBJECT_SILO_ROOT_DIR; sys = JOB_OBJECT_SILO_SYSTEM_ROOT in
     [(371691, dir, us alt1), (371692, dir, us alt2), (3816, sys, us sysroot),
      (372403, dir, sr (1 OR 2) silo), (372401, dir, sr 1 silo), (372402, dir, sr 2 silo), (372400, dir, sr 0 silo),
      (371600, dir, us silo), (370800, dir, build_handle root_h), (371601, dir, build_handle_padded root_h),
      (371602, dir, build_flags_handle 0 root_h), (371603, dir, build_flags_handle 1 root_h),
      (371604, dir, build_flags_handle (1 OR 2) root_h), (381602, sys, us silo),
      (382403, sys, sr (1 OR 2) sysroot)])"

text \<open>The first buffer the kernel accepts, or the error of the last one tried.\<close>

fun first_accepted :: "'w kern_os \<Rightarrow> nat \<Rightarrow> (u32 \<times> u32 \<times> u8 list) list \<Rightarrow> PsrootError \<Rightarrow> 'w kern \<Rightarrow>
    (PsrootError + u32 \<times> u32) \<times> 'w kern" where
  "first_accepted os job [] err0 s = (Inl err0, s)"
| "first_accepted os job ((tag, cls, buf) # shapes) err0 s =
     (case kcall (ko_set_info os job cls buf) s of
        (None, s) \<Rightarrow> (Inr (tag, cls), s)
      | (Some err, s) \<Rightarrow> first_accepted os job shapes (Win32 ''SetInformationJobObject(SiloRoot)'' err) s)"

definition init_shapes :: "u8 list list" where
  "init_shapes = [replicate 16 0, replicate 8 0 @ 1 # replicate 7 0, replicate 8 0, replicate 4 0,
     to_le 4 (1 :: u32), []]"

fun try_init :: "'w kern_os \<Rightarrow> nat \<Rightarrow> u8 list list \<Rightarrow> u32 \<Rightarrow> 'w kern \<Rightarrow> (PsrootError + unit) \<times> 'w kern" where
  "try_init os job [] err0 s = (Inl (Win32 ''SetInformationJobObject(ServerSiloInit)'' err0), s)"
| "try_init os job (buf # bufs) err0 s =
     (case kcall (ko_set_info os job JOB_OBJECT_SERVER_SILO_INIT buf) s of
        (None, s) \<Rightarrow> (Inr (), s)
      | (Some err, s) \<Rightarrow> try_init os job bufs err s)"

section \<open>Privileges and impersonation\<close>

definition enable_privilege :: "'w kern_os \<Rightarrow> string \<Rightarrow> 'w kern \<Rightarrow> (string + unit) \<times> 'w kern" where
  "enable_privilege os name s = (case kcall (ko_open_token os) s of
       (None, s) \<Rightarrow> (Inl ''Failed to open process token'', s)
     | (Some token, s) \<Rightarrow>
       (let s = opened token s in
        if \<not> ko_lookup_privilege os name (kn_world s) then
          (Inl (''LookupPrivilegeValue('' @ name @ '') failed''), close_handle os token s)
        else let ((ok, err), s) = kcall (ko_adjust os token name) s; s = close_handle os token s in
          if \<not> ok then (Inl ''AdjustTokenPrivileges failed'', s)
          else if err = 1300 then (Inl (name @ '' is not assigned to this account''), s)
          else (Inr (), s)))"

text \<open>The process id of \<open>winlogon.exe\<close>, 0 when the snapshot has none.\<close>

definition find_winlogon :: "process_entry list \<Rightarrow> u32" where
  "find_winlogon es = (case find (\<lambda>e. eq_ignore_ascii_case (pe_name e) ''winlogon.exe'') es of
       None \<Rightarrow> 0 | Some e \<Rightarrow> pe_pid e)"

definition impersonate_system_token :: "'w kern_os \<Rightarrow> 'w kern \<Rightarrow> (string + unit) \<times> 'w kern" where
  "impersonate_system_token os s = (case enable_privilege os ''SeDebugPrivilege'' s of
       (Inl e, s) \<Rightarrow> (Inl (''SeDebugPrivilege: '' @ e @ '' (run as Administrator)''), s)
     | (Inr _, s) \<Rightarrow> (case kcall (ko_snapshot os) s of
         (None, s) \<Rightarrow> (Inl ''CreateToolhelp32Snapshot failed'', s)
       | (Some (snap, es), s) \<Rightarrow>
         (let s = close_handle os snap (opened snap s); pid = find_winlogon es in
          if pid = 0 then (Inl ''winlogon.exe not found in process list'', s)
          else case kcall (ko_open_process os pid) s of
            (Inl err, s) \<Rightarrow> (Inl ''OpenProcess(winlogon) failed'', s)
          | (Inr proc, s) \<Rightarrow> (case kcall (ko_process_token os proc) (opened proc s) of
              (Inl err, s) \<Rightarrow> (Inl ''OpenProcessToken(winlogon) failed'', close_handle os proc s)
            | (Inr sys, s) \<Rightarrow>
              (let s = close_handle os proc (opened sys s) in
               case kcall (ko_duplicate os sys) s of
                 (Inl err, s) \<Rightarrow> (Inl ''DuplicateTokenEx failed'', close_handle os sys s)
               | (Inr dup, s) \<Rightarrow>
                 (let s = close_handle os sys (opened dup s); (r, s) = kcall (ko_set_thread_token os dup) s;
                      s = close_handle os dup s in
                  case r of Some err \<Rightarrow> (Inl ''SetThreadToken failed'', s)
                  | None \<Rightarrow> (Inr (), s\<lparr>kn_impersonating := True\<rparr>)))))))"

definition revert_to_self :: "'w kern_os \<Rightarrow> 'w kern \<Rightarrow> 'w kern" where
  "revert_to_self os s = s\<lparr>kn_impersonating := False, kn_world := ko_revert os (kn_world s)\<rparr>"

section \<open>Server silos\<close>

record silo =
  si_job :: nat
  si_id :: u32
  si_namespace :: namespace
  si_root :: string
  si_init_pid :: "u32 option"

text \<open>The addresses of the wide strings the buffers point to.\<close>

record silo_strings =
  ss_silo :: wide
  ss_alt1 :: wide
  ss_alt2 :: wide
  ss_sysroot :: wide

definition set_silo_root :: "'w kern_os \<Rightarrow> nat \<Rightarrow> silo_strings \<Rightarrow> nat \<Rightarrow> 'w kern \<Rightarrow> (PsrootError + unit) \<times> 'w kern" where
  "set_silo_root os job strs root s =
     st_bind (first_accepted os job (try_shapes (ss_silo strs) (ss_alt1 strs) (ss_alt2 strs) (ss_sysroot strs)
       (word_of_nat root)) (OtherError ''no shape attempted'') s) (\<lambda>_ s. try_init os job init_shapes 0 s)"

text \<open>The privilege, from the process's own token or by impersonating SYSTEM (\<open>True\<close>).\<close>

definition gain_tcb :: "'w kern_os \<Rightarrow> 'w kern \<Rightarrow> (PsrootError + bool) \<times> 'w kern" where
  "gain_tcb os s = (case enable_privilege os ''SeTcbPrivilege'' s of
       (Inr _, s) \<Rightarrow> (Inr False, s)
     | (Inl e1, s) \<Rightarrow> (case impersonate_system_token os s of
           (Inr _, s) \<Rightarrow> (Inr True, s)
         | (Inl e2, s) \<Rightarrow> (Inl (OtherError (''Server Silo requires SeTcbPrivilege. Tried current token ('' @ e1 @
             ''). Tried SYSTEM impersonation fallback ('' @ e2 @
             ''). Run as Administrator, or run `psroot setup` once and re-login.'')), s)))"

definition silo_init :: "'w kern_os \<Rightarrow> silo_strings \<Rightarrow> silo \<Rightarrow> 'w kern \<Rightarrow> (PsrootError + silo) \<times> 'w kern" where
  "silo_init os strs silo s = (case gain_tcb os s of
       (Inl e, s) \<Rightarrow> (Inl e, drop_namespace os (si_namespace silo) s)
     | (Inr used, s) \<Rightarrow>
       (let (r, s) = set_silo_root os (si_job silo) strs (ns_root (si_namespace silo)) s;
            s = (if used then revert_to_self os s else s)
        in case r of
          Inl e \<Rightarrow> (Inl e, drop_namespace os (si_namespace silo) s)
        | Inr _ \<Rightarrow> (Inr silo, s)))"

definition silo_setup :: "'w kern_os \<Rightarrow> silo_strings \<Rightarrow> bool \<Rightarrow> string \<Rightarrow> ResourceLimits option \<Rightarrow> (string \<times> string) list \<Rightarrow>
    nat \<Rightarrow> 'w kern \<Rightarrow> (PsrootError + silo) \<times> 'w kern" where
  "silo_setup os strs skip_ns root resources drives job s =
     st_bind (kcall (ko_limits os job resources) s) (\<lambda>_ s.
     st_bind (case kcall (ko_set_info os job JOB_OBJECT_CREATE_SILO []) s of
         (None, s) \<Rightarrow> (Inr (), s)
       | (Some err, s) \<Rightarrow> (Inl (Win32 ''SetInformationJobObject'' err), s)) (\<lambda>_ s.
     st_bind (ko_silo_id os job (kn_world s), s) (\<lambda>silo_id s.
     st_bind (build_namespace os silo_id root (if skip_ns then [] else drives) s) (\<lambda>ns s.
     silo_init os strs \<lparr>si_job = job, si_id = silo_id, si_namespace = ns, si_root = root, si_init_pid = None\<rparr> s))))"

definition silo_create :: "'w kern_os \<Rightarrow> silo_strings \<Rightarrow> bool \<Rightarrow> string \<Rightarrow> ResourceLimits option \<Rightarrow> (string \<times> string) list \<Rightarrow>
    'w kern \<Rightarrow> (PsrootError + silo) \<times> 'w kern" where
  "silo_create os strs skip_ns root resources drives s = (case kcall (ko_create_job os) s of
       (Inl err, s) \<Rightarrow> (Inl (Win32 ''CreateJobObjectW'' err), s)
     | (Inr job, s) \<Rightarrow> (case silo_setup os strs skip_ns root resources drives job (opened job s) of
           (Inl e, s) \<Rightarrow> (Inl e, close_handle os job s)
         | (Inr silo, s) \<Rightarrow> (Inr silo, s)))"

text \<open>\<open>create_in_silo_impl\<close>: suspended, assigned to the job, resumed; both handles are closed.\<close>

definition create_in_silo :: "'w kern_os \<Rightarrow> nat \<Rightarrow> string \<Rightarrow> (string \<times> string) list option \<Rightarrow> string option \<Rightarrow> bool \<Rightarrow>
    'w kern \<Rightarrow> (PsrootError + u32) \<times> 'w kern" where
  "create_in_silo os job cmd env cwd interactive s =
     (case kcall (ko_create_process os cmd (map_option (map entry_of) env) cwd interactive) s of
        (Inl err, s) \<Rightarrow> (Inl (Win32 ''CreateProcessW'' err), s)
      | (Inr (process, thread, pid), s) \<Rightarrow>
        (case kcall (ko_assign os job process) (opened thread (opened process s)) of
           (Inl e, s) \<Rightarrow>
             (let s = s\<lparr>kn_world := ko_kill os process (kn_world s)\<rparr> in
              (Inl e, close_handle os thread (close_handle os process s)))
         | (Inr _, s) \<Rightarrow>
             (let s = s\<lparr>kn_world := ko_resume os thread (kn_world s)\<rparr> in
              (Inr pid, close_handle os thread (close_handle os process s)))))"

text \<open>\<open>spawn\<close> and \<open>spawn_interactive\<close> note the first process.\<close>

definition silo_spawn :: "'w kern_os \<Rightarrow> silo \<Rightarrow> string \<Rightarrow> (string \<times> string) list option \<Rightarrow> string option \<Rightarrow> bool \<Rightarrow>
    'w kern \<Rightarrow> (PsrootError + u32) \<times> silo \<times> 'w kern" where
  "silo_spawn os silo cmd env cwd interactive s =
     (case create_in_silo os (si_job silo) cmd env cwd interactive s of
        (Inl e, s) \<Rightarrow> (Inl e, silo, s)
      | (Inr pid, s) \<Rightarrow> (Inr pid, if si_init_pid silo = None then silo\<lparr>si_init_pid := Some pid\<rparr> else silo, s))"

text \<open>\<open>Drop\<close> terminates the job's processes; then the fields go, the job first.\<close>

definition silo_drop :: "'w kern_os \<Rightarrow> silo \<Rightarrow> 'w kern \<Rightarrow> 'w kern" where
  "silo_drop os silo s =
     drop_namespace os (si_namespace silo)
       (close_handle os (si_job silo) (s\<lparr>kn_world := ko_terminate os (si_job silo) 0 (kn_world s)\<rparr>))"

section \<open>Nothing is left behind\<close>

definition ns_handles :: "namespace \<Rightarrow> nat list" where
  "ns_handles ns = ns_silos_parent ns # ns_root ns # ns_children ns"

text \<open>The handles the process holds, without the null handle.\<close>

definition held :: "'w kern \<Rightarrow> nat multiset" where
  "held s = filter_mset (\<lambda>h. h \<noteq> 0) (mset (kn_open s))"

definition real :: "nat list \<Rightarrow> nat multiset" where
  "real hs = filter_mset (\<lambda>h. h \<noteq> 0) (mset hs)"

lemma real_simps [simp]:
  "real [] = {#}" "real (h # hs) = (if h = 0 then {#} else {#h#}) + real hs" "real (xs @ ys) = real xs + real ys"
  by (simp_all add: real_def)

lemma held_simps [simp]:
  "held (opened h s) = held s + real [h]" "held (close_handle os h s) = held s - real [h]"
  "held (nt_drop os h s) = held s - real [h]" "held (s\<lparr>kn_world := w\<rparr>) = held s"
  "held (s\<lparr>kn_impersonating := b\<rparr>) = held s" "held (revert_to_self os s) = held s"
  by (auto simp: held_def real_def opened_def close_handle_def nt_drop_def revert_to_self_def)

lemma impersonating_simps [simp]:
  "kn_impersonating (opened h s) = kn_impersonating s" "kn_impersonating (close_handle os h s) = kn_impersonating s"
  "kn_impersonating (nt_drop os h s) = kn_impersonating s" "kn_impersonating (revert_to_self os s) = False"
  by (auto simp: opened_def close_handle_def nt_drop_def revert_to_self_def)

definition same :: "'w kern \<Rightarrow> 'w kern \<Rightarrow> bool" where
  "same s s' \<longleftrightarrow> held s' = held s \<and> kn_impersonating s' = kn_impersonating s"

text \<open>Steps that keep the thread's identity and add the handles \<open>hs\<close>.\<close>

definition gained :: "nat list \<Rightarrow> 'w kern \<Rightarrow> 'w kern \<Rightarrow> bool" where
  "gained hs s s' \<longleftrightarrow> held s' = held s + real hs \<and> kn_impersonating s' = kn_impersonating s"

lemma kcall_gained: "kcall f s = (r, s') \<Longrightarrow> gained [] s s'"
  by (auto simp: kcall_def gained_def Let_def split: prod.splits)

lemma gained_trans: "gained xs s t \<Longrightarrow> gained ys t u \<Longrightarrow> gained (xs @ ys) s u"
  by (simp add: gained_def)

lemma nt_handle_gained:
  assumes "nt_handle what accepted (r, s) = (res, s')"
  shows "case res of Inl e \<Rightarrow> gained [] s s' | Inr h \<Rightarrow> gained [h] s s'"
  using assms by (auto simp: nt_handle_def gained_def real_def split: prod.splits if_splits)

lemma create_gained:
  "create_directory os name root s = (res, s') \<Longrightarrow> case res of Inl e \<Rightarrow> gained [] s s' | Inr h \<Rightarrow> gained [h] s s'"
  "nt_create_symlink os name target root s = (res, s') \<Longrightarrow> case res of Inl e \<Rightarrow> gained [] s s' | Inr h \<Rightarrow> gained [h] s s'"
  "open_directory os name s = (res, s') \<Longrightarrow> case res of Inl e \<Rightarrow> gained [] s s' | Inr h \<Rightarrow> gained [h] s s'"
proof -
  have *: "case res of Inl e \<Rightarrow> gained [] s s' | Inr h \<Rightarrow> gained [h] s s'"
    if "nt_handle what accepted (kcall f s) = (res, s')" for what accepted f
  proof -
    obtain r t where c: "kcall f s = (r, t)" by fastforce
    show ?thesis
      using nt_handle_gained [OF that [unfolded c]] kcall_gained [OF c]
      by (auto simp: gained_def split: sum.splits)
  qed
  show "create_directory os name root s = (res, s') \<Longrightarrow> case res of Inl e \<Rightarrow> gained [] s s' | Inr h \<Rightarrow> gained [h] s s'"
    "nt_create_symlink os name target root s = (res, s') \<Longrightarrow> case res of Inl e \<Rightarrow> gained [] s s' | Inr h \<Rightarrow> gained [h] s s'"
    "open_directory os name s = (res, s') \<Longrightarrow> case res of Inl e \<Rightarrow> gained [] s s' | Inr h \<Rightarrow> gained [h] s s'"
    unfolding create_directory_def nt_create_symlink_def open_directory_def by (erule *)+
qed

lemma drop_all_held [simp]: "held (drop_all os hs s) = held s - real hs"
  by (induction os hs s rule: drop_all.induct) simp_all

lemma drop_all_impersonating [simp]: "kn_impersonating (drop_all os hs s) = kn_impersonating s"
  by (induction os hs s rule: drop_all.induct) simp_all

lemma make_entry_gained:
  "make_entry os root ch e s = (res, s') \<Longrightarrow> case res of Inl err \<Rightarrow> gained [] s s' | Inr h \<Rightarrow> gained [h] s s'"
  by (auto simp: make_entry_def dest!: create_gained split: ns_entry.splits)

lemma make_entries_gained:
  "make_entries os root ch es s = (res, s') \<Longrightarrow>
     (case res of Inl err \<Rightarrow> held s' = held s - real ch \<and> kn_impersonating s' = kn_impersonating s
      | Inr ch' \<Rightarrow> \<exists>new. ch' = ch @ new \<and> gained new s s')"
proof (induction os root ch es s rule: make_entries.induct)
  case (1 os root ch s)
  then show ?case by (auto simp: gained_def)
next
  case (2 os root ch e es s)
  obtain r t where step: "make_entry os root ch e s = (r, t)" by fastforce
  show ?case
  proof (cases r)
    case (Inl err)
    then show ?thesis using 2(2) make_entry_gained [OF step] step by (auto simp: gained_def)
  next
    case (Inr h)
    then have "make_entries os root (ch @ [h]) es t = (res, s')" using 2(2) step by simp
    from 2(1) [OF step [symmetric] Inr this] make_entry_gained [OF step] Inr show ?thesis
      by (fastforce simp: gained_def split: sum.splits)
  qed
qed

lemma build_namespace_gained:
  assumes "build_namespace os silo_id root drives s = (res, s')"
  shows "case res of Inl e \<Rightarrow> gained [] s s' | Inr ns \<Rightarrow> gained (ns_handles ns) s s'"
proof -
  obtain r1 s1 where 1: "create_directory os (nt_path [''Silos'']) None s = (r1, s1)" by fastforce
  show ?thesis
  proof (cases r1)
    case (Inl e)
    then show ?thesis using assms create_gained(1) [OF 1] by (auto simp: build_namespace_def 1)
  next
    case silos: (Inr silos)
    obtain r2 s2 where 2: "create_directory os (silo_path silo_id) None s1 = (r2, s2)" by fastforce
    show ?thesis
    proof (cases r2)
      case (Inl e)
      then show ?thesis
        using assms create_gained(1) [OF 1] create_gained(1) [OF 2] silos
        by (auto simp: build_namespace_def 1 2 gained_def)
    next
      case dir: (Inr dir)
      obtain r3 s3 where 3: "make_entries os dir [] (silo_entries (silo_path silo_id) root drives) s2 = (r3, s3)"
        by fastforce
      show ?thesis
        using assms create_gained(1) [OF 1] create_gained(1) [OF 2] make_entries_gained [OF 3] silos dir
        by (auto simp: build_namespace_def 1 2 3 gained_def ns_handles_def split: sum.splits)
    qed
  qed
qed

lemma drop_namespace_simps [simp]:
  "held (drop_namespace os ns s) = held s - real (ns_handles ns)"
  "kn_impersonating (drop_namespace os ns s) = kn_impersonating s"
  by (auto simp: drop_namespace_def ns_handles_def ac_simps diff_diff_add_mset)

lemma enable_privilege_gained: "enable_privilege os name s = (res, s') \<Longrightarrow> gained [] s s'"
  by (auto simp: enable_privilege_def gained_def Let_def dest!: kcall_gained split: prod.splits option.splits if_splits)

lemma first_accepted_gained: "first_accepted os job shapes e s = (res, s') \<Longrightarrow> gained [] s s'"
  by (induction os job shapes e s rule: first_accepted.induct)
    (auto simp: gained_def dest!: kcall_gained split: prod.splits option.splits)

lemma try_init_gained: "try_init os job bufs e s = (res, s') \<Longrightarrow> gained [] s s'"
  by (induction os job bufs e s rule: try_init.induct)
    (auto simp: gained_def dest!: kcall_gained split: prod.splits option.splits)

text \<open>Impersonation starts only when the last of its steps succeeds; no handle outlives it.\<close>

lemma impersonate_result:
  assumes "impersonate_system_token os s = (res, s')"
  shows "held s' = held s \<and> kn_impersonating s' = (res = Inr () \<or> kn_impersonating s)"
proof -
  obtain r1 s1 where 1: "enable_privilege os ''SeDebugPrivilege'' s = (r1, s1)" by fastforce
  note g1 = enable_privilege_gained [OF 1]
  show ?thesis
  proof (cases r1)
    case (Inl e)
    then show ?thesis using assms g1 by (auto simp: impersonate_system_token_def 1 gained_def)
  next
    case (Inr u)
    then show ?thesis
      using assms g1
      by (auto simp: impersonate_system_token_def 1 gained_def Let_def real_def dest!: kcall_gained
          split: prod.splits option.splits sum.splits if_splits)
  qed
qed

lemma set_silo_root_gained: "set_silo_root os job strs root s = (res, s') \<Longrightarrow> gained [] s s'"
  by (auto simp: set_silo_root_def st_bind_def gained_def dest!: first_accepted_gained try_init_gained
      split: prod.splits sum.splits)

lemma silo_init_result:
  assumes "silo_init os strs silo s = (res, s')" and "\<not> kn_impersonating s"
  shows "\<not> kn_impersonating s' \<and> (case res of
      Inl e \<Rightarrow> held s' = held s - real (ns_handles (si_namespace silo))
    | Inr silo' \<Rightarrow> silo' = silo \<and> held s' = held s)"
proof -
  obtain r1 s1 where 1: "enable_privilege os ''SeTcbPrivilege'' s = (r1, s1)" by fastforce
  obtain r2 s2 where 2: "impersonate_system_token os s1 = (r2, s2)" by fastforce
  show ?thesis
    using assms enable_privilege_gained [OF 1] impersonate_result [OF 2]
    by (auto simp: silo_init_def gain_tcb_def 1 2 gained_def Let_def dest!: set_silo_root_gained
        split: sum.splits prod.splits if_splits)
qed

lemma silo_setup_result:
  assumes "silo_setup os strs skip_ns root resources drives job s = (res, s')" and "\<not> kn_impersonating s"
  shows "\<not> kn_impersonating s' \<and> (case res of
      Inl e \<Rightarrow> held s' = held s
    | Inr silo \<Rightarrow> si_job silo = job \<and> held s' = held s + real (ns_handles (si_namespace silo)))"
proof -
  obtain r1 s1 where 1: "kcall (ko_limits os job resources) s = (r1, s1)" by fastforce
  obtain r2 s2 where 2: "kcall (ko_set_info os job JOB_OBJECT_CREATE_SILO []) s1 = (r2, s2)" by fastforce
  show ?thesis
  proof (cases "(\<exists>e. r1 = Inl e) \<or> r2 \<noteq> None \<or> (\<exists>e. ko_silo_id os job (kn_world s2) = Inl e)")
    case True
    then have "\<exists>e t. (res, s') = (Inl e, t) \<and> held t = held s \<and> kn_impersonating t = kn_impersonating s"
      using assms(1) kcall_gained [OF 1] kcall_gained [OF 2]
      by (cases r1; cases r2) (auto simp: silo_setup_def 1 2 gained_def)
    then show ?thesis using assms(2) by auto
  next
    case False
    then obtain u silo_id where ok: "r1 = Inr u" "r2 = None" "ko_silo_id os job (kn_world s2) = Inr silo_id"
      by (cases r1; cases "ko_silo_id os job (kn_world s2)") auto
    obtain r3 s3 where 3: "build_namespace os silo_id root (if skip_ns then [] else drives) s2 = (r3, s3)"
      by fastforce
    have g: "\<not> kn_impersonating s2" "held s2 = held s"
      using assms(2) kcall_gained [OF 1] kcall_gained [OF 2] by (simp_all add: gained_def)
    show ?thesis
    proof (cases r3)
      case (Inl e)
      then show ?thesis using assms ok g build_namespace_gained [OF 3] by (auto simp: silo_setup_def 1 2 3 gained_def)
    next
      case (Inr ns)
      then have init: "silo_init os strs \<lparr>si_job = job, si_id = silo_id, si_namespace = ns, si_root = root,
          si_init_pid = None\<rparr> s3 = (res, s')"
        using assms ok by (simp add: silo_setup_def 1 2 3)
      have "held s3 = held s + real (ns_handles ns)" "\<not> kn_impersonating s3"
        using Inr g build_namespace_gained [OF 3] by (simp_all add: gained_def)
      with silo_init_result [OF init] show ?thesis by (auto split: sum.splits)
    qed
  qed
qed


text \<open>An administrator without \<open>SeTcbPrivilege\<close>, on a system that refuses every silo root.\<close>

definition demo_kern :: "unit kern_os" where
  "demo_kern = \<lparr>ko_create_dir = \<lambda>_ _ w. ((0, 8), w), ko_create_link = \<lambda>_ _ _ w. ((0, 9), w),
     ko_open_dir = \<lambda>_ w. ((0, 10), w), ko_close = \<lambda>_ w. w, ko_set_device_map = \<lambda>_ _ w. (0, w),
     ko_create_job = \<lambda>w. (Inr 4, w), ko_set_info = \<lambda>_ cls _ w. (if cls = 35 then None else Some 87, w),
     ko_limits = \<lambda>_ _ w. (Inr (), w), ko_silo_id = \<lambda>_ _. Inr 7, ko_terminate = \<lambda>_ _ w. w,
     ko_open_token = \<lambda>w. (Some 12, w), ko_lookup_privilege = \<lambda>_ _. True,
     ko_adjust = \<lambda>_ name w. ((True, if name = ''SeTcbPrivilege'' then 1300 else 0), w),
     ko_snapshot = \<lambda>w. (Some (16, [\<lparr>pe_name = ''winlogon.exe'', pe_pid = 600\<rparr>]), w),
     ko_open_process = \<lambda>_ w. (Inr 20, w), ko_process_token = \<lambda>_ w. (Inr 24, w),
     ko_duplicate = \<lambda>_ w. (Inr 28, w), ko_set_thread_token = \<lambda>_ w. (None, w), ko_revert = \<lambda>w. w,
     ko_create_process = \<lambda>_ _ _ _ w. (Inr (32, 36, 1000), w), ko_assign = \<lambda>_ _ w. (Inr (), w),
     ko_kill = \<lambda>_ w. w, ko_resume = \<lambda>_ w. w\<rparr>"

definition demo_strings :: silo_strings where
  "demo_strings = (let w = \<lparr>wi_addr = 4096, wi_units = 9\<rparr> in
     \<lparr>ss_silo = w, ss_alt1 = w, ss_alt2 = w, ss_sysroot = w\<rparr>)"


end
