(* ===== verification/Sandbox_Silo.thy ===== *)
theory Sandbox_Silo
  imports Silo
begin

text \<open>
  Interactive shells behind a Server Silo or a private device map, the last two spawning functions
  of \<open>crates/psroot-container/src/sandbox.rs\<close>. The world of the sandbox is here the kernel state of
  \<open>Silo\<close>.
\<close>

section \<open>Error texts\<close>

definition hex_digit :: "nat \<Rightarrow> char" where
  "hex_digit n = (if n < 10 then char_of (48 + n) else char_of (87 + n))"

definition hex8 :: "u32 \<Rightarrow> string" where
  "hex8 w = map (\<lambda>i. hex_digit (unat (drop_bit (4 * (7 - i)) w) mod 16)) [0..<8]"

fun show_error :: "PsrootError \<Rightarrow> string" where
  "show_error (Win32 op code) =
     ''Win32 error in '' @ op @ '': code '' @ show_nat (unat code) @ '' (0x'' @ hex8 code @ '')''"
| "show_error (NtStatus op status) = ''NT status in '' @ op @ '': 0x'' @ hex8 status"
| "show_error (HResult op hr) = ''HRESULT in '' @ op @ '': 0x'' @ hex8 hr"
| "show_error (InvalidState cid current expected) =
     ''Container '' @ quoted cid @ '' is in state '' @ current @ '', expected '' @ expected"
| "show_error (NotFound cid) = ''Container '' @ quoted cid @ '' not found''"
| "show_error (AdminRequired op) = ''Requires Administrator privileges for: '' @ op"
| "show_error (Unsupported detail) = ''Platform unsupported: '' @ detail"
| "show_error (IoError e) = ''I/O error: '' @ show_nat e"
| "show_error SerdeError = ''Serialization error: ''"
| "show_error (OtherError s) = s"

definition ALL_APP_PACKAGES_SID :: string where
  "ALL_APP_PACKAGES_SID = ''S-1-15-2-1''"

definition device_map_error :: "u32 \<times> u32 \<Rightarrow> string" where
  "device_map_error e = ''NtSetInformationProcess(DeviceMap) [tried len=40 -> 0x'' @ hex8 (fst e) @
     '', len=8 -> 0x'' @ hex8 (snd e) @ '']''"

section \<open>A private device map\<close>

record 'k shell_os =
  sh_box :: "'k kern sbox_os"
  sh_kern :: "'k kern_os"
  sh_link :: "'k kern link_os"
  sh_tree :: "string \<Rightarrow> 'k kern \<Rightarrow> (string \<times> psh_node) list option"
  sh_junction :: "string \<Rightarrow> string \<Rightarrow> 'k kern \<Rightarrow> bool \<times> 'k kern"      \<comment> \<open>\<open>create_volume_guid_junction\<close>\<close>
  sh_map_name :: "'k kern \<Rightarrow> string"                              \<comment> \<open>process id and counter\<close>
  sh_strings :: "string \<Rightarrow> 'k kern \<Rightarrow> silo_strings"
  sh_skip_ns :: bool
  sh_open_pid :: "u32 \<Rightarrow> 'k kern \<Rightarrow> (u32 + process_info) \<times> 'k kern"
  sh_stage_error :: "stage_error \<Rightarrow> string"

fun bind_volumes :: "'k shell_os \<Rightarrow> string \<Rightarrow> VolumeMount list \<Rightarrow> 'k kern \<Rightarrow> (string \<times> string) list \<times> 'k kern" where
  "bind_volumes os rootfs [] w = ([], w)"
| "bind_volumes os rootfs (vm # vms) w = (case bind_target (vm_container_path vm) of
       DriveLetter letter \<Rightarrow> (let (drives, w) = bind_volumes os rootfs vms w in ((letter, vm_host_path vm) # drives, w))
     | RootfsPath p \<Rightarrow> bind_volumes os rootfs vms (snd (sh_junction os (below rootfs [p]) (vm_host_path vm) w)))"

definition drop_device_map :: "'k kern_os \<Rightarrow> device_map \<Rightarrow> 'k kern \<Rightarrow> 'k kern" where
  "drop_device_map os m s = drop_all os (dm_links m) (nt_drop os (dm_directory m) (nt_drop os (dm_global m) s))"

text \<open>A device map assignment is tried as SYSTEM when that works; the flag tells.\<close>

definition assign_as_system :: "'k kern_os \<Rightarrow> nat \<Rightarrow> nat \<Rightarrow> 'k kern \<Rightarrow> (u32 \<times> u32 + unit) \<times> bool \<times> 'k kern" where
  "assign_as_system os process dir s =
     (let (imp, s) = impersonate_system_token os s;
          (r, s) = set_process_device_map os process dir s
      in (r, imp = Inr (), if imp = Inr () then revert_to_self os s else s))"

definition show_bool :: "bool \<Rightarrow> string" where
  "show_bool b = (if b then ''true'' else ''false'')"

definition current_process :: nat where "current_process = 2 ^ 64 - 1"

definition devicemap_run :: "'k shell_os \<Rightarrow> LaunchPlan \<Rightarrow> ContainerConfig \<Rightarrow> device_map \<Rightarrow> saved_env \<Rightarrow> (string \<times> string) list \<Rightarrow>
    'k kern sbox \<Rightarrow> (PsrootError + string \<times> u32) \<times> 'k kern sbox" where
  "devicemap_run os plan config m saved env s =
     (let k = sh_kern os; box = sh_box os; rootfs = cc_rootfs_path config;
          restore = (\<lambda>s. s\<lparr>sx_env := restore_env (eo_up (bo_env box)) saved (sx_env s)\<rparr>);
          ((r, imp), s) = call (\<lambda>w. case assign_as_system k current_process (dm_directory m) w of (r, imp, w) \<Rightarrow> ((r, imp), w)) s
      in case r of
        Inl e \<Rightarrow> (Inl (OtherError (''ProcessDeviceMap::assign_to_current: '' @ device_map_error e @
            '' (run psroot elevated; SYSTEM impersonation status: '' @ show_bool imp @ '')'')), restore s)
      | Inr _ \<Rightarrow>
        (let la = \<lparr>la_op = ''CreateProcessW(devicemap)'',
               la_cmd = command_line (devicemap_translate rootfs (lp_entry plan)) (lp_args plan),
               la_cwd = devicemap_translate rootfs (lp_cwd plan), la_inherit = True, la_suspended = True,
               la_desktop = None, la_caps = [], la_sid = None\<rparr>;
             (r, s) = call (bo_create_process box la env) s
         in case r of
           Inl err \<Rightarrow> (Inl (Win32 (la_op la) err), restore s)
         | Inr child \<Rightarrow>
           (let (r, s) = call (\<lambda>w. case assign_as_system k (pi_process child) (dm_directory m) w of (r, imp, w) \<Rightarrow> (r, w)) s
            in case r of
              Inl e \<Rightarrow> (Inl (OtherError (''ProcessDeviceMap::assign_to_process(child): '' @ device_map_error e)),
                  restore (world (bo_discard box child) s))
            | Inr _ \<Rightarrow>
              (let (code, s) = call (bo_wait box child) (restore s)
               in (Inr (''devicemap-'' @ show_nat (unat (pi_pid child)), code), s)))))"

definition spawn_interactive_plan_devicemap :: "'k shell_os \<Rightarrow> LaunchPlan \<Rightarrow> ContainerConfig \<Rightarrow> 'k kern sbox \<Rightarrow>
    (PsrootError + string \<times> u32) \<times> 'k kern sbox" where
  "spawn_interactive_plan_devicemap os plan config s =
     (let box = sh_box os; rootfs = cc_rootfs_path config; cid = container_id_of ''unknown'' rootfs in
      st_bind (stage_plan box (sh_stage_error os) plan ALL_APP_PACKAGES_SID cid s) (\<lambda>_ s.
      case call (\<lambda>w. materialize_psh (sh_link os) (lp_cache_dir plan) (sh_tree os (lp_cache_dir plan) w)
          (below rootfs [''PSH'']) w) s of
        (Inl e, s) \<Rightarrow> (Inl (OtherError (''materialize_psh_via_hardlinks: '' @ show_nat e)), s)
      | (Inr _, s) \<Rightarrow>
        (let (saved, host_env) = config_plan_env box config plan (sx_env s);
             s = s\<lparr>sx_env := host_env\<rparr>;
             env = map (\<lambda>(k, v). (k, replace_all rootfs ''C:'' v)) host_env;
             (drives, s) = call (bind_volumes os rootfs (cc_volumes config)) s;
             (r, s) = call (\<lambda>w. build_device_map (sh_kern os) (sh_map_name os w) rootfs drives w) s
         in case r of
           Inl e \<Rightarrow> (Inl (OtherError (''ProcessDeviceMap::build: '' @ show_error e)),
               s\<lparr>sx_env := restore_env (eo_up (bo_env box)) saved (sx_env s)\<rparr>)
         | Inr m \<Rightarrow>
           (let (r, s) = devicemap_run os plan config m saved env s in
            (r, world (drop_device_map (sh_kern os) m) s)))))"

section \<open>A Server Silo\<close>

definition open_init_process :: "'k shell_os \<Rightarrow> silo \<Rightarrow> 'k kern sbox \<Rightarrow> (PsrootError + process_info) \<times> 'k kern sbox" where
  "open_init_process os silo s = (case si_init_pid silo of
       None \<Rightarrow> (Inl (OtherError ''No process spawned yet''), s)
     | Some pid \<Rightarrow> (case call (sh_open_pid os pid) s of
           (Inl err, s) \<Rightarrow> (Inl (Win32 ''OpenProcess'' err), s)
         | (Inr p, s) \<Rightarrow> (Inr p, s)))"

definition silo_run :: "'k shell_os \<Rightarrow> LaunchPlan \<Rightarrow> ContainerConfig \<Rightarrow> string \<Rightarrow> silo \<Rightarrow> saved_env \<Rightarrow> (string \<times> string) list \<Rightarrow>
    'k kern sbox \<Rightarrow> (PsrootError + string \<times> u32) \<times> 'k kern sbox" where
  "silo_run os plan config cache_parent silo saved env s =
     (let tr = silo_translate (cc_rootfs_path config) (lp_cache_dir plan) cache_parent;
          ((r, silo), s) = call (\<lambda>w. case silo_spawn (sh_kern os) silo
            (command_line (tr (lp_entry plan)) (lp_args plan)) (Some env) (Some (tr (lp_cwd plan))) True w of
              (r, silo, w) \<Rightarrow> ((r, silo), w)) s;
          (r, s) = st_bind (r, s) (\<lambda>_ s.
            st_bind (open_init_process os silo s) (\<lambda>p s.
              let s = s\<lparr>sx_env := restore_env (eo_up (bo_env (sh_box os))) saved (sx_env s)\<rparr>;
                  (code, s) = call (bo_wait (sh_box os) p) s
              in (Inr (''silo-'' @ show_nat (unat (si_id silo)), code), s)))
      in (r, world (silo_drop (sh_kern os) silo) s))"

definition spawn_interactive_plan_silo :: "'k shell_os \<Rightarrow> LaunchPlan \<Rightarrow> ContainerConfig \<Rightarrow> 'k kern sbox \<Rightarrow>
    (PsrootError + string \<times> u32) \<times> 'k kern sbox" where
  "spawn_interactive_plan_silo os plan config s =
     (let box = sh_box os; rootfs = cc_rootfs_path config; cid = container_id_of ''unknown'' rootfs in
      if \<not> il_server_silo (isolation_detect (bo_available box) (bo_caps box)) then
        spawn_interactive_plan_devicemap os plan config s
      else st_bind (stage_plan box (sh_stage_error os) plan ALL_APP_PACKAGES_SID cid s) (\<lambda>_ s.
        let (saved, host_env) = config_plan_env box config plan (sx_env s);
            s = s\<lparr>sx_env := host_env\<rparr>;
            cache_parent = (case so_parent (bo_stage box) (lp_cache_dir plan) of
                Some p \<Rightarrow> p | None \<Rightarrow> lp_cache_dir plan);
            env = silo_env cache_parent rootfs host_env;
            (r, s) = call (\<lambda>w. silo_create (sh_kern os) (sh_strings os rootfs w) (sh_skip_ns os) rootfs
              (Some (cc_resources config)) [(''P:'', cache_parent)] w) s
        in case r of
          Inr silo \<Rightarrow> silo_run os plan config cache_parent silo saved env s
        | Inl e \<Rightarrow>
          if contains ''SetInformationJobObject(SiloRoot)'' (show_error e) then
            spawn_interactive_plan_devicemap os plan config
              (s\<lparr>sx_env := restore_env (eo_up (bo_env box)) saved (sx_env s)\<rparr>)
          else (Inl (OtherError (''Silo::create: '' @ show_error e)), s)))"

end
