(* ===== verification/Bindlink.thy ===== *)
theory Bindlink
  imports Config
begin

text \<open>
  Bind links, \<open>crates/psroot-bindlink/src/lib.rs\<close>: a collection of links that is removed in reverse
  order. The API is loaded from a DLL and may be missing; its calls are parameters over a world.
\<close>

record 'w bind_apis =
  ba_create :: "string \<Rightarrow> string \<Rightarrow> u32 \<Rightarrow> 'w \<Rightarrow> u32 \<times> 'w"     \<comment> \<open>virtual path, backing path, flags; HRESULT\<close>
  ba_remove :: "string \<Rightarrow> 'w \<Rightarrow> u32 \<times> 'w"

text \<open>
  \<open>load_apis\<close>: a library is the procedures it has, \<open>None\<close> when it cannot be loaded.
  \<open>kernel32.dll\<close> is asked only when \<open>bindfltapi.dll\<close> is missing.
\<close>

definition both_procs :: "('c option \<times> 'r option) \<Rightarrow> ('c \<times> 'r) option" where
  "both_procs procs = (case procs of (Some c, Some r) \<Rightarrow> Some (c, r) | _ \<Rightarrow> None)"

definition load_apis :: "(string \<Rightarrow> ('c option \<times> 'r option) option) \<Rightarrow> ('c \<times> 'r) option" where
  "load_apis library = (case library ''bindfltapi.dll'' of
       Some procs \<Rightarrow> both_procs procs
     | None \<Rightarrow> (case library ''kernel32.dll'' of None \<Rightarrow> None | Some procs \<Rightarrow> both_procs procs))"

definition FLAG_NONE :: u32 where "FLAG_NONE = 0"
definition FLAG_READ_ONLY :: u32 where "FLAG_READ_ONLY = 1"
definition FLAG_MERGED :: u32 where "FLAG_MERGED = 2"

record BindLinkOptions =
  blo_read_only :: bool
  blo_merged :: bool

type_synonym bind_filter = "(string \<times> string) list"

definition bind_create :: "'w bind_apis option \<Rightarrow> string \<Rightarrow> string \<Rightarrow> BindLinkOptions \<Rightarrow> bind_filter \<Rightarrow> 'w \<Rightarrow>
    (PsrootError + unit) \<times> bind_filter \<times> 'w" where
  "bind_create apis vp bp opts links w =
     (let flags = FLAG_NONE;
          flags = (if blo_read_only opts then flags OR FLAG_READ_ONLY else flags);
          flags = (if blo_merged opts then flags OR FLAG_MERGED else flags) in
      case apis of
        None \<Rightarrow> (Inl (Unsupported ''CreateBindLink not available on this system''), links, w)
      | Some a \<Rightarrow>
        (let (hr, w) = ba_create a vp bp flags w in
         if hr \<noteq> 0 then (Inl (HResult ''CreateBindLink'' hr), links, w)
         else (Inr (), links @ [(vp, bp)], w)))"

definition bind_remove :: "'w bind_apis option \<Rightarrow> string \<Rightarrow> bind_filter \<Rightarrow> 'w \<Rightarrow>
    (PsrootError + unit) \<times> bind_filter \<times> 'w" where
  "bind_remove apis vp links w = (case apis of
       None \<Rightarrow> (Inl (Unsupported ''RemoveBindLink not available on this system''), links, w)
     | Some a \<Rightarrow>
       (let (hr, w) = ba_remove a vp w in
        if hr \<noteq> 0 then (Inl (HResult ''RemoveBindLink'' hr), links, w)
        else (Inr (), filter (\<lambda>(v, b). v \<noteq> vp) links, w)))"

text \<open>\<open>remove_all\<close>, which \<open>Drop\<close> calls too.\<close>

fun remove_links :: "'w bind_apis \<Rightarrow> bind_filter \<Rightarrow> 'w \<Rightarrow> 'w" where
  "remove_links a [] w = w"
| "remove_links a ((vp, bp) # links) w = remove_links a links (snd (ba_remove a vp w))"

definition bind_remove_all :: "'w bind_apis option \<Rightarrow> bind_filter \<Rightarrow> 'w \<Rightarrow> bind_filter \<times> 'w" where
  "bind_remove_all apis links w = (case apis of
       None \<Rightarrow> ([], w) | Some a \<Rightarrow> ([], remove_links a (rev links) w))"

definition os_version_string :: "u32 \<Rightarrow> u32 \<Rightarrow> u32 \<Rightarrow> string" where
  "os_version_string major minor build =
     join_with ''.'' [show_nat (unat major), show_nat (unat minor), show_nat (unat build)]"

definition os_build_number :: "string \<Rightarrow> u32" where
  "os_build_number ver = (case split_on (CHR ''.'') ver of
       _ # _ # b # _ \<Rightarrow> (case parse_u32 b of Some n \<Rightarrow> n | None \<Rightarrow> 0)
     | _ \<Rightarrow> 0)"

definition bind_available :: "u32 \<Rightarrow> u32 \<Rightarrow> u32 \<Rightarrow> bool" where
  "bind_available major minor build \<longleftrightarrow> os_build_number (os_version_string major minor build) \<ge> 26100"

text \<open>The build number survives the detour over the version text.\<close>

lemma os_build_number_version: "os_build_number (os_version_string major minor build) = build"
proof -
  have "CHR ''.'' \<notin> set (show_nat n)" for n by (rule show_nat_avoids) simp
  then have "split_on (CHR ''.'') (os_version_string major minor build) =
      [show_nat (unat major), show_nat (unat minor), show_nat (unat build)]"
    unfolding os_version_string_def by (intro split_join) auto
  then show ?thesis by (simp add: os_build_number_def parse_u32_show)
qed

end
