(* ===== verification/Netstack_Runtime.thy ===== *)
theory Netstack_Runtime
  imports Channel Nat_Backend Text
begin

text \<open>
  Starting the per-container network daemon and getting the shim DLLs into a process:
  \<open>crates/psroot-container/src/netstack_runtime.rs\<close>, \<open>procshim_runtime.rs\<close> and
  \<open>crates/psroot-netinject/src/lib.rs\<close>. System calls are parameters over a world.
\<close>

section \<open>Injecting a DLL\<close>

datatype InjectError = KernelNotLoaded | LoadLibraryNotFound | PathHasNul | InjWin32 string | LoadLibraryFailed

record 'w inject_os =
  in_kernel32 :: "nat option"
  in_proc_address :: "nat \<Rightarrow> string \<Rightarrow> nat option"
  in_wide :: "string \<Rightarrow> u16 list"
  in_alloc :: "nat \<Rightarrow> nat \<Rightarrow> 'w \<Rightarrow> nat option \<times> 'w"               \<comment> \<open>process, bytes\<close>
  in_free :: "nat \<Rightarrow> nat \<Rightarrow> 'w \<Rightarrow> 'w"
  in_write :: "nat \<Rightarrow> nat \<Rightarrow> u16 list \<Rightarrow> 'w \<Rightarrow> (bool \<times> nat) \<times> 'w"  \<comment> \<open>success, bytes written\<close>
  in_thread :: "nat \<Rightarrow> nat \<Rightarrow> nat \<Rightarrow> 'w \<Rightarrow> nat option \<times> 'w"       \<comment> \<open>process, start address, argument\<close>
  in_wait :: "nat \<Rightarrow> 'w \<Rightarrow> bool \<times> 'w"
  in_exit_code :: "nat \<Rightarrow> 'w \<Rightarrow> u32 option"
  in_close :: "nat \<Rightarrow> 'w \<Rightarrow> 'w"

text \<open>The steps after the path buffer exists; \<open>inject_dll\<close> frees it on every way out.\<close>

definition run_remote :: "'w inject_os \<Rightarrow> nat \<Rightarrow> nat \<Rightarrow> nat \<Rightarrow> u16 list \<Rightarrow> 'w \<Rightarrow> (InjectError + unit) \<times> 'w" where
  "run_remote os process start buf wide w =
     (let ((ok, written), w) = in_write os process buf wide w in
      if \<not> ok \<or> written \<noteq> length wide * 2 then (Inl (InjWin32 ''WriteProcessMemory''), w)
      else case in_thread os process start buf w of
        (None, w) \<Rightarrow> (Inl (InjWin32 ''CreateRemoteThread''), w)
      | (Some thread, w) \<Rightarrow>
        (let (done, w) = in_wait os thread w in
         if \<not> done then (Inl (InjWin32 ''WaitForSingleObject''), in_close os thread w)
         else let code = in_exit_code os thread w; w = in_close os thread w in
           case code of
             None \<Rightarrow> (Inl (InjWin32 ''GetExitCodeThread''), w)
           | Some c \<Rightarrow> (if c = 0 then Inl LoadLibraryFailed else Inr (), w)))"

definition inject_dll :: "'w inject_os \<Rightarrow> nat \<Rightarrow> string \<Rightarrow> 'w \<Rightarrow> (InjectError + unit) \<times> 'w" where
  "inject_dll os process dll w = (case in_kernel32 os of
       None \<Rightarrow> (Inl KernelNotLoaded, w)
     | Some k \<Rightarrow> (case in_proc_address os k ''LoadLibraryW'' of
           None \<Rightarrow> (Inl LoadLibraryNotFound, w)
         | Some start \<Rightarrow>
           (let wide = in_wide os dll in
            if 0 \<in> set wide then (Inl PathHasNul, w)
            else let wide = wide @ [0] in
              case in_alloc os process (length wide * 2) w of
                (None, w) \<Rightarrow> (Inl (InjWin32 ''VirtualAllocEx''), w)
              | (Some buf, w) \<Rightarrow>
                (let (r, w) = run_remote os process start buf wide w in (r, in_free os process buf w)))))"

section \<open>The runtime of a container's network\<close>

datatype NetstackError = Shm nat | Inject InjectError | DllMissing string

record netstack_runtime =
  nr_shm_name :: string
  nr_layout_size :: nat
  nr_virtual_ip :: "u8 list"
  nr_dll_path :: string
  nr_daemon :: nat               \<comment> \<open>the daemon thread with its stop flag\<close>

record 'w netstack_os =
  no_exists :: "string \<Rightarrow> 'w \<Rightarrow> bool"
  no_pid :: nat
  no_nanos :: "'w \<Rightarrow> nat"
  no_create_shm :: "string \<Rightarrow> nat \<Rightarrow> 'w \<Rightarrow> (nat + nat) \<times> 'w"
  no_spawn_daemon :: "nat \<Rightarrow> ChannelLayout \<Rightarrow> u8 list \<Rightarrow> 'w \<Rightarrow> nat \<times> 'w"    \<comment> \<open>on the host side of the channel\<close>
  no_stop_and_join :: "nat \<Rightarrow> 'w \<Rightarrow> 'w"
  no_inject :: "'w inject_os"

definition unique_shm_name :: "string \<Rightarrow> nat \<Rightarrow> nat \<Rightarrow> string" where
  "unique_shm_name tag pid nanos =
     ''Local'' @ [CHR 0x5C] @ ''psroot-ns-'' @ tag @ ''-'' @ show_nat pid @ ''-'' @ show_nat nanos"

definition runtime_spawn :: "'w netstack_os \<Rightarrow> string \<Rightarrow> string \<Rightarrow> u8 list \<Rightarrow> 'w \<Rightarrow>
    (NetstackError + netstack_runtime) \<times> 'w" where
  "runtime_spawn os tag dll ip w =
     (if \<not> no_exists os dll w then (Inl (DllMissing dll), w)
      else let layout = layout_new DEFAULT_RING_SLOTS;
               name = unique_shm_name tag (no_pid os) (no_nanos os w) in
        case no_create_shm os name (cl_total_size layout) w of
          (Inl e, w) \<Rightarrow> (Inl (Shm e), w)
        | (Inr shm, w) \<Rightarrow>
          (let (daemon, w) = no_spawn_daemon os shm layout ip w in
           (Inr \<lparr>nr_shm_name = name, nr_layout_size = cl_total_size layout, nr_virtual_ip = ip,
              nr_dll_path = dll, nr_daemon = daemon\<rparr>, w)))"

definition child_env :: "netstack_runtime \<Rightarrow> (string \<times> string) list" where
  "child_env r = [(''PSROOT_NS_NAME'', nr_shm_name r), (''PSROOT_NS_SIZE'', show_nat (nr_layout_size r))]"

definition inject_into :: "'w netstack_os \<Rightarrow> netstack_runtime \<Rightarrow> nat \<Rightarrow> 'w \<Rightarrow> (NetstackError + unit) \<times> 'w" where
  "inject_into os r process w = (case inject_dll (no_inject os) process (nr_dll_path r) w of
       (Inl e, w) \<Rightarrow> (Inl (Inject e), w) | (Inr _, w) \<Rightarrow> (Inr (), w))"

definition runtime_drop :: "'w netstack_os \<Rightarrow> netstack_runtime \<Rightarrow> 'w \<Rightarrow> 'w" where
  "runtime_drop os r w = no_stop_and_join os (nr_daemon r) w"

text \<open>The address of a container: a hash of its id in \<open>10.88.0.2\<close> to \<open>10.88.0.251\<close>.\<close>

definition id_hash :: "string \<Rightarrow> u32" where
  "id_hash s = foldl (\<lambda>acc b. acc * 31 + word_of_nat (of_char b)) 0 s"

definition virtual_ip_for :: "string \<Rightarrow> u8 list" where
  "virtual_ip_for cid = [10, 88, 0, word_of_nat (unat (id_hash cid) mod 250 + 2)]"

definition loopback_translator :: "u8 list \<Rightarrow> SocketAddr \<Rightarrow> SocketAddr option" where
  "loopback_translator ip addr = (case addr of
       V4 octets p \<Rightarrow> if octets = ip then Some (V4 [127, 0, 0, 1] p) else None
     | V6 _ _ _ _ \<Rightarrow> None)"

text \<open>The host octet is never a network, gateway or broadcast address.\<close>

lemma virtual_ip_octet: "2 \<le> unat (virtual_ip_for cid ! 3) \<and> unat (virtual_ip_for cid ! 3) \<le> 251"
proof -
  obtain m where m: "unat (id_hash cid) mod 250 = m" "m < 250" by simp
  have "unat (word_of_nat (m + 2) :: u8) = m + 2"
    using m(2) by (subst unat_of_nat) simp
  moreover have "virtual_ip_for cid ! 3 = word_of_nat (m + 2)"
    unfolding virtual_ip_for_def m(1) by (simp only: nth_Cons_numeral) simp
  ultimately show ?thesis using m(2) by presburger
qed

section \<open>Where the shim DLLs come from\<close>

text \<open>\<open>default_dll_path\<close> and \<open>default_procshim_path\<close>: next to the executable.\<close>

definition dll_beside :: "(string \<Rightarrow> bool) \<Rightarrow> string option \<Rightarrow> string \<Rightarrow> string option" where
  "dll_beside exists exe_dir name = (case exe_dir of
       None \<Rightarrow> None
     | Some d \<Rightarrow> (let c = d @ [CHR 0x5C] @ name in if exists c then Some c else None))"

definition stage_into_rootfs :: "(string \<Rightarrow> 'w \<Rightarrow> 'w) \<Rightarrow> (string \<Rightarrow> string \<Rightarrow> 'w \<Rightarrow> bool \<times> 'w) \<Rightarrow> string \<Rightarrow> string \<Rightarrow> 'w \<Rightarrow>
    string option \<times> 'w" where
  "stage_into_rootfs mkdir copy source rootfs w =
     (let sep = [CHR 0x5C]; parent = join_with sep [rootfs, ''Windows'', ''System32''];
          dest = join_with sep [parent, ''psroot_procshim.dll''];
          (ok, w) = copy source dest (mkdir parent w)
      in (if ok then Some dest else None, w))"

end
