(* ===== verification/Container.thy ===== *)
theory Container
  imports Sandbox_Silo Bindlink Netstack_Runtime
begin

text \<open>
  The container lifecycle, \<open>crates/psroot-container/src/container.rs\<close>: create, start, exec, shell,
  stop, remove, load and list, over the port mapper, silos and jobs, bind links, the sandbox and the
  stager. Explicit are the container directories on disk (their two files) and the state of the
  sandbox; a consumed or overwritten value is dropped where Rust drops it.
\<close>

section \<open>State\<close>

record StateFile =
  sf_status :: ContainerState
  sf_created :: string
  sf_pid :: "u32 option"
  sf_silo_id :: "u32 option"
  sf_ports :: "PortMapping list"
  sf_aces :: "AceGrantRecord list"
  sf_cache_refs :: "string list"

text \<open>A container directory: what reading and parsing its two files yields.\<close>

record cdisk =
  cd_config :: "PsrootError + ContainerConfig"
  cd_state :: "PsrootError + StateFile"

record Runtime =
  rt_job :: "nat option"
  rt_silo :: "silo option"
  rt_bind :: "bind_filter option"
  rt_mapper :: "(PortMapping \<times> nat) list option"
  rt_netstack :: "netstack_runtime option"

record Container =
  ct_id :: string
  ct_config :: ContainerConfig
  ct_state :: ContainerState
  ct_created :: string
  ct_runtime :: Runtime

definition no_runtime :: Runtime where
  "no_runtime = \<lparr>rt_job = None, rt_silo = None, rt_bind = None, rt_mapper = None, rt_netstack = None\<rparr>"

record 'k csys =
  cy_box :: "'k kern sbox"
  cy_dirs :: "string \<rightharpoonup> cdisk"

record 'k container_os =
  co_shell :: "'k shell_os"
  co_proxy :: "(nat, nat, 'k kern) proxy_os"
  co_proxy_error :: "mapper_error \<Rightarrow> string"
  co_bind :: "'k kern bind_apis option"
  co_net :: "'k kern netstack_os"
  co_root :: string
  co_uuid :: "'k kern \<Rightarrow> string \<times> 'k kern"
  co_mkdir :: "string \<Rightarrow> 'k kern \<Rightarrow> bool"
  co_prepare :: "ContainerConfig \<Rightarrow> 'k kern \<Rightarrow> (PsrootError + unit) \<times> 'k kern"   \<comment> \<open>\<open>rootfs::prepare_rootfs*\<close>\<close>
  co_save :: "string \<Rightarrow> 'k kern \<Rightarrow> bool"                \<comment> \<open>writing this file succeeds\<close>
  co_now :: "'k kern \<Rightarrow> string"
  co_remove_dir :: "nat \<Rightarrow> cdisk \<Rightarrow> 'k kern \<Rightarrow> cdisk option \<times> 'k kern"   \<comment> \<open>what an attempt leaves\<close>
  co_exe_dir :: "string option"
  co_exists :: "string \<Rightarrow> bool"
  co_open_process :: "u32 \<Rightarrow> 'k kern \<Rightarrow> nat option \<times> 'k kern"
  co_mkdir_all :: "string \<Rightarrow> 'k kern \<Rightarrow> 'k kern"
  co_copy :: "string \<Rightarrow> string \<Rightarrow> 'k kern \<Rightarrow> bool \<times> 'k kern"
  co_stats :: "nat \<Rightarrow> 'k kern \<Rightarrow> PsrootError + ContainerStats"

abbreviation co_box :: "'k container_os \<Rightarrow> 'k kern sbox_os" where
  "co_box os \<equiv> sh_box (co_shell os)"

abbreviation co_kern :: "'k container_os \<Rightarrow> 'k kern_os" where
  "co_kern os \<equiv> sh_kern (co_shell os)"

definition psroot_root :: "(string \<Rightarrow> string option) \<Rightarrow> string" where
  "psroot_root env = (case env ''PSROOT_ROOT'' of
       Some p \<Rightarrow> p
     | None \<Rightarrow> below (case env ''LOCALAPPDATA'' of Some d \<Rightarrow> d | None \<Rightarrow> ''C:'' @ bslash # ''PsrootData'') [''Psroot''])"

text \<open>\<open>co_root\<close> is \<open>psroot_root()\<close> with \<open>containers\<close> below it.\<close>

definition container_dir :: "'k container_os \<Rightarrow> string \<Rightarrow> string" where
  "container_dir os cid = below (co_root os) [cid]"

definition on_box :: "('k kern sbox \<Rightarrow> 'a \<times> 'k kern sbox) \<Rightarrow> 'k csys \<Rightarrow> 'a \<times> 'k csys" where
  "on_box f s = (let (r, b) = f (cy_box s) in (r, s\<lparr>cy_box := b\<rparr>))"

definition on_kern :: "('k kern \<Rightarrow> 'a \<times> 'k kern) \<Rightarrow> 'k csys \<Rightarrow> 'a \<times> 'k csys" where
  "on_kern f = on_box (call f)"

definition kern_do :: "('k kern \<Rightarrow> 'k kern) \<Rightarrow> 'k csys \<Rightarrow> 'k csys" where
  "kern_do f s = snd (on_kern (\<lambda>w. ((), f w)) s)"

definition kern_of :: "'k csys \<Rightarrow> 'k kern" where
  "kern_of s = sx_world (cy_box s)"

section \<open>The state file\<close>

definition read_state :: "'k csys \<Rightarrow> string \<Rightarrow> StateFile option" where
  "read_state s cid = (case cy_dirs s cid of
       None \<Rightarrow> None
     | Some d \<Rightarrow> (case cd_state d of Inl _ \<Rightarrow> None | Inr sf \<Rightarrow> Some sf))"

definition write_state :: "'k container_os \<Rightarrow> Container \<Rightarrow> 'k csys \<Rightarrow> (PsrootError + unit) \<times> 'k csys" where
  "write_state os c s =
     (let cid = ct_id c;
          (aces, refs) = (case read_state s cid of
              Some sf \<Rightarrow> (sf_aces sf, sf_cache_refs sf) | None \<Rightarrow> ([], []));
          silo = rt_silo (ct_runtime c);
          sf = \<lparr>sf_status = ct_state c, sf_created = ct_created c,
            sf_pid = (case silo of None \<Rightarrow> None | Some si \<Rightarrow> si_init_pid si), sf_silo_id = map_option si_id silo,
            sf_ports = cc_ports (ct_config c), sf_aces = aces, sf_cache_refs = refs\<rparr> in
      case cy_dirs s cid of
        None \<Rightarrow> (Inl (IoError 0), s)
      | Some d \<Rightarrow>
        if co_save os (below (container_dir os cid) [''state.json'']) (kern_of s) then
          (Inr (), s\<lparr>cy_dirs := (cy_dirs s)(cid \<mapsto> d\<lparr>cd_state := Inr sf\<rparr>)\<rparr>)
        else (Inl (IoError 0), s))"

section \<open>create\<close>

definition create :: "'k container_os \<Rightarrow> ContainerConfig \<Rightarrow> 'k csys \<Rightarrow> (PsrootError + Container) \<times> 'k csys" where
  "create os config s =
     (let (uuid, s) = on_kern (co_uuid os) s; cid = ''psroot-'' @ take 8 uuid; dir = container_dir os cid in
      if \<not> co_mkdir os dir (kern_of s) then (Inl (IoError 0), s)
      else let d = (case cy_dirs s cid of Some d \<Rightarrow> d | None \<Rightarrow> \<lparr>cd_config = Inl (IoError 0), cd_state = Inl (IoError 0)\<rparr>);
               s = s\<lparr>cy_dirs := (cy_dirs s)(cid \<mapsto> d)\<rparr>;
               config = (if cc_rootfs_path config = [] then config\<lparr>cc_rootfs_path := below dir [''rootfs'']\<rparr> else config) in
        st_bind (on_kern (co_prepare os config) s) (\<lambda>_ s.
        if \<not> co_save os (below dir [''config.json'']) (kern_of s) then (Inl (IoError 0), s)
        else let d = d\<lparr>cd_config := Inr config\<rparr>; s = s\<lparr>cy_dirs := (cy_dirs s)(cid \<mapsto> d)\<rparr>;
                 created = co_now os (kern_of s);
                 sf = \<lparr>sf_status = Created, sf_created = created, sf_pid = None, sf_silo_id = None,
                   sf_ports = cc_ports config, sf_aces = [], sf_cache_refs = []\<rparr> in
          if \<not> co_save os (below dir [''state.json'']) (kern_of s) then (Inl (IoError 0), s)
          else (Inr \<lparr>ct_id = cid, ct_config = config, ct_state = Created, ct_created = created, ct_runtime = no_runtime\<rparr>,
                s\<lparr>cy_dirs := (cy_dirs s)(cid \<mapsto> d\<lparr>cd_state := Inr sf\<rparr>)\<rparr>)))"

section \<open>Ports\<close>

text \<open>The ports are updated in place, so an error leaves those before it allocated.\<close>

fun allocate_ports :: "'k container_os \<Rightarrow> PortMapping list \<Rightarrow> 'k kern \<Rightarrow> ((PsrootError + unit) \<times> PortMapping list) \<times> 'k kern" where
  "allocate_ports os [] w = ((Inr (), []), w)"
| "allocate_ports os (m # ms) w = (case pm_ephemeral_port m of
       Some _ \<Rightarrow> (let ((r, ms'), w) = allocate_ports os ms w in ((r, m # ms'), w))
     | None \<Rightarrow> (case allocate_ephemeral (co_proxy os) w of
           (Inl e, w) \<Rightarrow> ((Inl (OtherError (''allocate ephemeral port: '' @ show_nat e)), m # ms), w)
         | (Inr eph, w) \<Rightarrow>
           (let ((r, ms'), w) = allocate_ports os ms w in ((r, m\<lparr>pm_ephemeral_port := Some eph\<rparr> # ms'), w))))"

definition publish_text :: "'k container_os \<Rightarrow> PortMapping \<Rightarrow> mapper_error \<Rightarrow> string" where
  "publish_text os m e = ''publish '' @ pm_host_bind m @ '':'' @ show_nat (unat (pm_host_port m)) @ '' -> '' @
     show_nat (unat (pm_container_port m)) @ '': '' @ co_proxy_error os e"

text \<open>On an error the mapper goes out of scope and shuts down.\<close>

fun add_mappings :: "'k container_os \<Rightarrow> PortMapping list \<Rightarrow> (PortMapping \<times> nat) list \<Rightarrow> 'k kern \<Rightarrow>
    (PsrootError + (PortMapping \<times> nat) list) \<times> 'k kern" where
  "add_mappings os [] mapper w = (Inr mapper, w)"
| "add_mappings os (m # ms) mapper w = (case mapper_add (co_proxy os) m mapper w of
       (Inl e, w) \<Rightarrow> (Inl (OtherError (publish_text os m e)), snd (mapper_shutdown (co_proxy os) mapper w))
     | (Inr mapper, w) \<Rightarrow> add_mappings os ms mapper w)"

definition env_names :: "PortMapping list \<Rightarrow> string list" where
  "env_names ms = remdups (map (\<lambda>m. port_var (pm_container_port m)) ms) @ [''PORT'', ''HOST'']"

text \<open>The new variables in one of the orders a \<open>HashMap\<close> may yield them.\<close>

definition add_port_env :: "ContainerConfig \<Rightarrow> ContainerConfig" where
  "add_port_env config =
     (let env = env_for_mappings (cc_ports config) in
      config\<lparr>cc_env := fold (\<lambda>k e. case env k of None \<Rightarrow> e | Some v \<Rightarrow> hm_insert k v e)
        (env_names (cc_ports config)) (cc_env config)\<rparr>)"

definition set_config :: "(ContainerConfig \<Rightarrow> ContainerConfig) \<Rightarrow> Container \<Rightarrow> Container" where
  "set_config f c = c\<lparr>ct_config := f (ct_config c)\<rparr>"

definition set_runtime :: "(Runtime \<Rightarrow> Runtime) \<Rightarrow> Container \<Rightarrow> Container" where
  "set_runtime f c = c\<lparr>ct_runtime := f (ct_runtime c)\<rparr>"

definition drop_mapper :: "'k container_os \<Rightarrow> (PortMapping \<times> nat) list option \<Rightarrow> 'k csys \<Rightarrow> 'k csys" where
  "drop_mapper os m s = (case m of None \<Rightarrow> s | Some ms \<Rightarrow> kern_do (\<lambda>w. snd (mapper_shutdown (co_proxy os) ms w)) s)"

text \<open>Storing the new mapper drops the one it replaces.\<close>

definition start_mapper :: "'k container_os \<Rightarrow> Container \<Rightarrow> 'k csys \<Rightarrow> (PsrootError + unit) \<times> Container \<times> 'k csys" where
  "start_mapper os c s = (case on_kern (add_mappings os (cc_ports (ct_config c)) []) s of
       (Inl e, s) \<Rightarrow> (Inl e, c, s)
     | (Inr mapper, s) \<Rightarrow>
       (let old = rt_mapper (ct_runtime c) in
        (Inr (), set_config add_port_env (set_runtime (rt_mapper_update (\<lambda>_. Some mapper)) c), drop_mapper os old s)))"

definition publish_ports :: "'k container_os \<Rightarrow> Container \<Rightarrow> 'k csys \<Rightarrow> (PsrootError + unit) \<times> Container \<times> 'k csys" where
  "publish_ports os c s =
     (if cc_ports (ct_config c) = [] then (Inr (), c, s)
      else let ((r, ports), s) = on_kern (allocate_ports os (cc_ports (ct_config c))) s;
               c = set_config (cc_ports_update (\<lambda>_. ports)) c in
        case r of Inl e \<Rightarrow> (Inl e, c, s) | Inr _ \<Rightarrow> start_mapper os c s)"

definition own_port :: "PortMapping \<Rightarrow> PortMapping" where
  "own_port m = (case pm_ephemeral_port m of
       Some _ \<Rightarrow> m | None \<Rightarrow> m\<lparr>pm_ephemeral_port := Some (pm_container_port m)\<rparr>)"

definition setup_port_mappings_for_shell :: "'k container_os \<Rightarrow> Container \<Rightarrow> 'k csys \<Rightarrow>
    (PsrootError + unit) \<times> Container \<times> 'k csys" where
  "setup_port_mappings_for_shell os c s =
     (if cc_ports (ct_config c) = [] \<or> rt_mapper (ct_runtime c) \<noteq> None then (Inr (), c, s)
      else start_mapper os (set_config (cc_ports_update (map own_port)) c) s)"

definition teardown_port_mappings :: "'k container_os \<Rightarrow> Container \<Rightarrow> 'k csys \<Rightarrow> Container \<times> 'k csys" where
  "teardown_port_mappings os c s =
     (set_runtime (rt_mapper_update (\<lambda>_. None)) c, drop_mapper os (rt_mapper (ct_runtime c)) s)"

section \<open>start\<close>

text \<open>On an error the links made so far are removed with the filter.\<close>

fun link_volumes :: "'k container_os \<Rightarrow> VolumeMount list \<Rightarrow> bind_filter \<Rightarrow> 'k kern \<Rightarrow>
    (PsrootError + bind_filter) \<times> 'k kern" where
  "link_volumes os [] bf w = (Inr bf, w)"
| "link_volumes os (vm # vms) bf w =
     (case bind_create (co_bind os) (vm_container_path vm) (vm_host_path vm)
         \<lparr>blo_read_only = vm_read_only vm, blo_merged = False\<rparr> bf w of
        (Inl e, bf, w) \<Rightarrow> (Inl e, snd (bind_remove_all (co_bind os) bf w))
      | (Inr _, bf, w) \<Rightarrow> link_volumes os vms bf w)"

definition setup_bind_links :: "'k container_os \<Rightarrow> Container \<Rightarrow> Capabilities \<Rightarrow> 'k csys \<Rightarrow>
    (PsrootError + bind_filter option) \<times> 'k csys" where
  "setup_bind_links os c caps s =
     (if cc_volumes (ct_config c) = [] \<or> \<not> cp_bind_filter caps then (Inr None, s)
      else st_bind (on_kern (link_volumes os (cc_volumes (ct_config c)) []) s) (\<lambda>bf s. (Inr (Some bf), s)))"

definition drop_bind :: "'k container_os \<Rightarrow> bind_filter option \<Rightarrow> 'k csys \<Rightarrow> 'k csys" where
  "drop_bind os b s = (case b of None \<Rightarrow> s | Some bf \<Rightarrow> kern_do (\<lambda>w. snd (bind_remove_all (co_bind os) bf w)) s)"

definition set_bind :: "'k container_os \<Rightarrow> bind_filter option \<Rightarrow> Container \<Rightarrow> 'k csys \<Rightarrow> Container \<times> 'k csys" where
  "set_bind os bf c s = (set_runtime (rt_bind_update (\<lambda>_. bf)) c, drop_bind os (rt_bind (ct_runtime c)) s)"

definition drop_netstack :: "'k container_os \<Rightarrow> netstack_runtime option \<Rightarrow> 'k csys \<Rightarrow> 'k csys" where
  "drop_netstack os n s = (case n of None \<Rightarrow> s | Some r \<Rightarrow> kern_do (runtime_drop (co_net os) r) s)"

definition try_start_netstack :: "'k container_os \<Rightarrow> Container \<Rightarrow> 'k csys \<Rightarrow> netstack_runtime option \<times> 'k csys" where
  "try_start_netstack os c s =
     (if cc_network (ct_config c) \<noteq> Netstack then (None, s)
      else case dll_beside (co_exists os) (co_exe_dir os) ''psroot_netshim.dll'' of
        None \<Rightarrow> (None, s)
      | Some dll \<Rightarrow> (case on_kern (runtime_spawn (co_net os) (ct_id c) dll (virtual_ip_for (ct_id c))) s of
            (Inl e, s) \<Rightarrow> (None, s)
          | (Inr ns, s) \<Rightarrow> (Some ns, s)))"

definition try_inject_netstack :: "'k container_os \<Rightarrow> u32 \<Rightarrow> netstack_runtime \<Rightarrow> Container \<Rightarrow> 'k csys \<Rightarrow> Container \<times> 'k csys" where
  "try_inject_netstack os pid ns c s =
     (let keep = (\<lambda>s. (set_runtime (rt_netstack_update (\<lambda>_. Some ns)) c, drop_netstack os (rt_netstack (ct_runtime c)) s)) in
      case on_kern (co_open_process os pid) s of
        (None, s) \<Rightarrow> keep s
      | (Some h, s) \<Rightarrow>
        (let (r, s) = on_kern (inject_into (co_net os) ns h) s;
             s = kern_do (in_close (no_inject (co_net os)) h) s
         in case r of Inr _ \<Rightarrow> keep s | Inl e \<Rightarrow> (c, drop_netstack os (Some ns) s)))"

definition try_inject_procshim :: "'k container_os \<Rightarrow> u32 \<Rightarrow> Container \<Rightarrow> 'k csys \<Rightarrow> 'k csys" where
  "try_inject_procshim os pid c s = (case dll_beside (co_exists os) (co_exe_dir os) ''psroot_procshim.dll'' of
       None \<Rightarrow> s
     | Some dll \<Rightarrow>
       (let (staged, s) = on_kern (stage_into_rootfs (co_mkdir_all os) (co_copy os) dll (cc_rootfs_path (ct_config c))) s;
            path = (case staged of Some p \<Rightarrow> p | None \<Rightarrow> dll) in
        case on_kern (co_open_process os pid) s of
          (None, s) \<Rightarrow> s
        | (Some h, s) \<Rightarrow>
          (let (r, s) = on_kern (inject_dll (no_inject (co_net os)) h path) s in
           kern_do (in_close (no_inject (co_net os)) h) s)))"

definition env_arg :: "(string \<times> string) list \<Rightarrow> (string \<times> string) list option" where
  "env_arg env = (if env = [] then None else Some env)"

definition spawn_in_silo :: "'k container_os \<Rightarrow> ContainerConfig \<Rightarrow> string \<Rightarrow> silo \<Rightarrow> 'k csys \<Rightarrow>
    (PsrootError + u32) \<times> silo \<times> 'k csys" where
  "spawn_in_silo os config cmd silo s =
     (let ((r, silo), s) = on_kern (\<lambda>w. case silo_spawn (co_kern os) silo cmd (env_arg (cc_env config))
          (Some (cc_working_directory config)) False w of (r, silo, w) \<Rightarrow> ((r, silo), w)) s
      in (r, silo, s))"

definition drop_silo :: "'k container_os \<Rightarrow> silo \<Rightarrow> 'k csys \<Rightarrow> 'k csys" where
  "drop_silo os silo s = kern_do (silo_drop (co_kern os) silo) s"

definition start_silo :: "'k container_os \<Rightarrow> Capabilities \<Rightarrow> Container \<Rightarrow> 'k csys \<Rightarrow> (PsrootError + unit) \<times> Container \<times> 'k csys" where
  "start_silo os caps c s =
     (let config = ct_config c in
      case on_kern (\<lambda>w. silo_create (co_kern os) (sh_strings (co_shell os) (cc_rootfs_path config) w)
          (sh_skip_ns (co_shell os)) (cc_rootfs_path config) (Some (cc_resources config)) [] w) s of
        (Inl e, s) \<Rightarrow> (Inl e, c, s)
      | (Inr silo, s) \<Rightarrow> (case setup_bind_links os c caps s of
          (Inl e, s) \<Rightarrow> (Inl e, c, drop_silo os silo (kern_do (kn_world_update (ko_terminate (co_kern os) (si_job silo) 1)) s))
        | (Inr bf, s) \<Rightarrow>
          (let (c, s) = set_bind os bf c s in
           case spawn_in_silo os config (join_with '' '' (cc_command config)) silo s of
             (Inl e, silo, s) \<Rightarrow> (Inl e, c, drop_silo os silo s)
           | (Inr pid, silo, s) \<Rightarrow>
             (Inr (), set_runtime (rt_silo_update (\<lambda>_. Some silo)) c, try_inject_procshim os pid c s))))"

definition drop_job :: "'k container_os \<Rightarrow> nat \<Rightarrow> 'k csys \<Rightarrow> 'k csys" where
  "drop_job os job s = kern_do (close_handle (co_kern os) job) s"

definition create_job :: "'k container_os \<Rightarrow> ContainerConfig \<Rightarrow> 'k csys \<Rightarrow> (PsrootError + nat) \<times> 'k csys" where
  "create_job os config s = (case on_kern (kcall (ko_create_job (co_kern os))) s of
       (Inl err, s) \<Rightarrow> (Inl (Win32 ''CreateJobObjectW'' err), s)
     | (Inr job, s) \<Rightarrow>
       (let s = kern_do (opened job) s in
        case on_kern (kcall (ko_limits (co_kern os) job (Some (cc_resources config)))) s of
          (Inl e, s) \<Rightarrow> (Inl e, drop_job os job s)
        | (Inr _, s) \<Rightarrow> (Inr job, s)))"

definition add_env :: "(string \<times> string) list \<Rightarrow> ContainerConfig \<Rightarrow> ContainerConfig" where
  "add_env kvs config = config\<lparr>cc_env := fold (\<lambda>(k, v). hm_insert k v) kvs (cc_env config)\<rparr>"

definition start_job :: "'k container_os \<Rightarrow> Capabilities \<Rightarrow> Container \<Rightarrow> 'k csys \<Rightarrow> (PsrootError + unit) \<times> Container \<times> 'k csys" where
  "start_job os caps c s = (case create_job os (ct_config c) s of
       (Inl e, s) \<Rightarrow> (Inl e, c, s)
     | (Inr job, s) \<Rightarrow> (case setup_bind_links os c caps s of
         (Inl e, s) \<Rightarrow> (Inl e, c, drop_job os job s)
       | (Inr bf, s) \<Rightarrow>
         (let (c, s) = set_bind os bf c s; (netstack, s) = try_start_netstack os c s;
              c = (case netstack of None \<Rightarrow> c | Some ns \<Rightarrow> set_config (add_env (child_env ns)) c) in
          case on_box (spawn_sandboxed (co_box os) (join_with '' '' (cc_command (ct_config c))) (ct_config c) job) s of
            (Inl e, s) \<Rightarrow> (Inl e, c, drop_job os job (drop_netstack os netstack s))
          | (Inr pid, s) \<Rightarrow>
            (let (c, s) = (case netstack of None \<Rightarrow> (c, s) | Some ns \<Rightarrow> try_inject_netstack os pid ns c s) in
             (Inr (), set_runtime (rt_job_update (\<lambda>_. Some job)) c, try_inject_procshim os pid c s)))))"

definition wrong_state :: "Container \<Rightarrow> string \<Rightarrow> PsrootError" where
  "wrong_state c expected = InvalidState (ct_id c) (show_state (ct_state c)) expected"

definition start :: "'k container_os \<Rightarrow> Container \<Rightarrow> 'k csys \<Rightarrow> (PsrootError + unit) \<times> Container \<times> 'k csys" where
  "start os c s =
     (if ct_state c \<noteq> Created then (Inl (wrong_state c ''created''), c, s)
      else let caps = bo_caps (co_box os) in
        case publish_ports os c s of
          (Inl e, c, s) \<Rightarrow> (Inl e, c, s)
        | (Inr _, c, s) \<Rightarrow>
          (case (if cc_silo (ct_config c) \<and> cp_server_silos caps then start_silo os caps c s
                 else start_job os caps c s) of
             (Inl e, c, s) \<Rightarrow> (Inl e, c, s)
           | (Inr _, c, s) \<Rightarrow>
             (let c = c\<lparr>ct_state := Running\<rparr>; (r, s) = write_state os c s in (r, c, s))))"

section \<open>exec, shell and stats\<close>

definition exec :: "'k container_os \<Rightarrow> string \<Rightarrow> Container \<Rightarrow> 'k csys \<Rightarrow> (PsrootError + u32) \<times> Container \<times> 'k csys" where
  "exec os cmd c s =
     (if ct_state c \<noteq> Running then (Inl (wrong_state c ''running''), c, s)
      else case rt_silo (ct_runtime c) of
        Some silo \<Rightarrow>
          (let (r, silo, s) = spawn_in_silo os (ct_config c) cmd silo s in
           (r, set_runtime (rt_silo_update (\<lambda>_. Some silo)) c, s))
      | None \<Rightarrow> (case rt_job (ct_runtime c) of
            Some job \<Rightarrow> (let (r, s) = on_box (spawn_sandboxed (co_box os) cmd (ct_config c) job) s in (r, c, s))
          | None \<Rightarrow> (Inl (OtherError ''No runtime available''), c, s)))"

definition shell :: "'k container_os \<Rightarrow> string \<Rightarrow> Container \<Rightarrow> 'k csys \<Rightarrow> (PsrootError + u32) \<times> 'k csys" where
  "shell os cmd c s = on_box (spawn_interactive (co_box os) cmd (ct_config c)) s"

definition ace_records :: "string \<Rightarrow> AceGrant list \<Rightarrow> AceGrantRecord list" where
  "ace_records sid aces = map (\<lambda>a. \<lparr>ace_path = ag_path a, ace_sid = sid,
     ace_mask = (case ag_access a of ReadExecute \<Rightarrow> ''RX''), ace_inherit = ag_inherit a\<rparr>) aces"

definition record_plan :: "'k container_os \<Rightarrow> LaunchPlan \<Rightarrow> string \<Rightarrow> Container \<Rightarrow> 'k csys \<Rightarrow> 'k csys" where
  "record_plan os plan sid c s = (case cy_dirs s (ct_id c) of
       None \<Rightarrow> s
     | Some d \<Rightarrow> (case cd_state d of
         Inl _ \<Rightarrow> s
       | Inr sf \<Rightarrow>
         (let sf = sf\<lparr>sf_aces := sf_aces sf @ ace_records sid (lp_aces plan),
                sf_cache_refs := push_new (lp_cache_dir plan) (sf_cache_refs sf)\<rparr> in
          if co_save os (below (container_dir os (ct_id c)) [''state.json'']) (kern_of s) then
            s\<lparr>cy_dirs := (cy_dirs s)(ct_id c \<mapsto> d\<lparr>cd_state := Inr sf\<rparr>)\<rparr>
          else s)))"

definition shell_with_plan :: "'k container_os \<Rightarrow> LaunchPlan \<Rightarrow> bool \<Rightarrow> Container \<Rightarrow> 'k csys \<Rightarrow> (PsrootError + u32) \<times> 'k csys" where
  "shell_with_plan os plan use_silo c s =
     (case (if use_silo then on_box (spawn_interactive_plan_silo (co_shell os) plan (ct_config c)) s
            else on_box (spawn_interactive_plan (co_box os) (sh_stage_error (co_shell os)) plan (ct_config c)) s) of
        (Inl e, s) \<Rightarrow> (Inl e, s)
      | (Inr (sid, code), s) \<Rightarrow> (Inr code, record_plan os plan sid c s))"

definition stats :: "'k container_os \<Rightarrow> Container \<Rightarrow> 'k csys \<Rightarrow> PsrootError + ContainerStats" where
  "stats os c s =
     (if ct_state c \<noteq> Running then Inl (wrong_state c ''running'')
      else case rt_silo (ct_runtime c) of
        Some silo \<Rightarrow> co_stats os (si_job silo) (kern_of s)
      | None \<Rightarrow> (case rt_job (ct_runtime c) of
            Some job \<Rightarrow> co_stats os job (kern_of s)
          | None \<Rightarrow> Inl (OtherError ''No runtime'')))"

section \<open>stop\<close>

definition drop_runtime :: "'k container_os \<Rightarrow> Runtime \<Rightarrow> 'k csys \<Rightarrow> 'k csys" where
  "drop_runtime os r s =
     (let s = (case rt_job r of None \<Rightarrow> s | Some job \<Rightarrow> drop_job os job s);
          s = (case rt_silo r of None \<Rightarrow> s | Some silo \<Rightarrow> drop_silo os silo s);
          s = drop_bind os (rt_bind r) s;
          s = drop_mapper os (rt_mapper r) s
      in drop_netstack os (rt_netstack r) s)"

definition stop :: "'k container_os \<Rightarrow> Container \<Rightarrow> 'k csys \<Rightarrow> (PsrootError + unit) \<times> Container \<times> 'k csys" where
  "stop os c s =
     (if ct_state c \<noteq> Running then (Inr (), c, s)
      else let r = ct_runtime c;
               s = (case rt_silo r of None \<Rightarrow> s | Some silo \<Rightarrow> drop_silo os silo s);
               s = (case rt_job r of None \<Rightarrow> s
                 | Some job \<Rightarrow> drop_job os job (kern_do (kn_world_update (ko_terminate (co_kern os) job 0)) s));
               s = drop_bind os (rt_bind r) s;
               s = drop_mapper os (rt_mapper r) s;
               s = drop_netstack os (rt_netstack r) s;
               c = c\<lparr>ct_runtime := no_runtime, ct_state := Stopped\<rparr>;
               (res, s) = write_state os c s
        in (res, c, s))"

text \<open>\<open>Drop\<close> of a container: stopped when running, then its runtime goes.\<close>

definition container_drop :: "'k container_os \<Rightarrow> Container \<Rightarrow> 'k csys \<Rightarrow> 'k csys" where
  "container_drop os c s =
     (let (r, c, s) = stop os c s in drop_runtime os (ct_runtime c) s)"

section \<open>remove\<close>

fun revoke_all :: "'k container_os \<Rightarrow> AceGrantRecord list \<Rightarrow> 'k kern \<Rightarrow> 'k kern" where
  "revoke_all os [] w = w"
| "revoke_all os (r # rs) w = revoke_all os rs (revoke_ace_record (bo_stage (co_box os)) r w)"

fun unreference_all :: "'k container_os \<Rightarrow> string \<Rightarrow> string list \<Rightarrow> 'k kern sbox \<Rightarrow> 'k kern sbox" where
  "unreference_all os cid [] b = b"
| "unreference_all os cid (dir # dirs) b = unreference_all os cid dirs
     (b\<lparr>sx_manifests := snd (unreference_cache (bo_stage (co_box os)) dir cid (sx_manifests b) (sx_world b))\<rparr>)"

definition release_records :: "'k container_os \<Rightarrow> string \<Rightarrow> 'k csys \<Rightarrow> 'k csys" where
  "release_records os cid s = (case read_state s cid of
       None \<Rightarrow> s
     | Some sf \<Rightarrow> s\<lparr>cy_box := unreference_all os cid (sf_cache_refs sf)
         (world (revoke_all os (sf_aces sf)) (cy_box s))\<rparr>)"

text \<open>Up to three attempts; \<open>n\<close> is the number of the attempt.\<close>

fun remove_dir_tries :: "'k container_os \<Rightarrow> string \<Rightarrow> nat list \<Rightarrow> 'k csys \<Rightarrow> (PsrootError + unit) \<times> 'k csys" where
  "remove_dir_tries os cid [] s = (Inl (IoError 0), s)"
| "remove_dir_tries os cid (n # ns) s = (case cy_dirs s cid of
       None \<Rightarrow> remove_dir_tries os cid ns s
     | Some d \<Rightarrow> (case on_kern (co_remove_dir os n d) s of
           (None, s) \<Rightarrow> (Inr (), s\<lparr>cy_dirs := (cy_dirs s)(cid := None)\<rparr>)
         | (Some d, s) \<Rightarrow> remove_dir_tries os cid ns (s\<lparr>cy_dirs := (cy_dirs s)(cid \<mapsto> d)\<rparr>)))"

definition remove_stopped :: "'k container_os \<Rightarrow> Container \<Rightarrow> 'k csys \<Rightarrow> (PsrootError + unit) \<times> 'k csys" where
  "remove_stopped os c s =
     (let s = release_records os (ct_id c) s in
      if cy_dirs s (ct_id c) = None then (Inr (), s) else remove_dir_tries os (ct_id c) [0, 1, 2] s)"

text \<open>\<open>remove\<close> consumes the container, so it is dropped on every way out.\<close>

definition remove :: "'k container_os \<Rightarrow> Container \<Rightarrow> bool \<Rightarrow> 'k csys \<Rightarrow> (PsrootError + unit) \<times> 'k csys" where
  "remove os c force s =
     (let (r, c, s) =
        (if ct_state c = Running then
           if force then (case stop os c s of
               (Inl e, c, s) \<Rightarrow> (Inl e, c, s)
             | (Inr _, c, s) \<Rightarrow> (let (r, s) = remove_stopped os c s in (r, c, s)))
           else (Inl (InvalidState (ct_id c) ''running'' ''stopped or created''), c, s)
         else let (r, s) = remove_stopped os c s in (r, c, s))
      in (r, container_drop os c s))"

section \<open>load and list\<close>

definition load :: "string \<Rightarrow> 'k csys \<Rightarrow> PsrootError + Container" where
  "load cid s = (case cy_dirs s cid of
       None \<Rightarrow> Inl (NotFound cid)
     | Some d \<Rightarrow> (case cd_config d of
         Inl e \<Rightarrow> Inl e
       | Inr config \<Rightarrow> (case cd_state d of
           Inl e \<Rightarrow> Inl e
         | Inr sf \<Rightarrow> Inr \<lparr>ct_id = cid, ct_config = config,
             ct_state = (if sf_status sf = Running then Stopped else sf_status sf),
             ct_created = sf_created sf, ct_runtime = no_runtime\<rparr>)))"

text \<open>\<open>names\<close> are the directories \<open>read_dir\<close> yields, in its order.\<close>

definition list_with_ports :: "string list \<Rightarrow> 'k csys \<Rightarrow> (string \<times> ContainerState \<times> string \<times> PortMapping list) list" where
  "list_with_ports names s = List.map_filter (\<lambda>cid.
     map_option (\<lambda>sf. (cid, sf_status sf, sf_created sf, sf_ports sf)) (read_state s cid)) names"

definition list_containers :: "string list \<Rightarrow> 'k csys \<Rightarrow> (string \<times> ContainerState \<times> string) list" where
  "list_containers names s = List.map_filter (\<lambda>cid.
     map_option (\<lambda>sf. (cid, sf_status sf, sf_created sf)) (read_state s cid)) names"

end
