(* ===== verification/Container_Props.thy ===== *)
theory Container_Props
  imports Container
begin

text \<open>
  What the container lifecycle guarantees: the state machine with its invariant, and what a
  shell session followed by \<open>remove\<close> leaves in the caches and on disk.
\<close>

section \<open>What the helpers leave alone\<close>

definition core :: "Container \<Rightarrow> string \<times> ContainerState \<times> nat option \<times> silo option" where
  "core c = (ct_id c, ct_state c, rt_job (ct_runtime c), rt_silo (ct_runtime c))"

definition links :: "Container \<Rightarrow> bind_filter option \<times> netstack_runtime option" where
  "links c = (rt_bind (ct_runtime c), rt_netstack (ct_runtime c))"

lemma core_simps [simp]:
  "core (set_config f c) = core c" "core (set_runtime (rt_mapper_update g) c) = core c"
  "core (set_runtime (rt_bind_update h) c) = core c" "core (set_runtime (rt_netstack_update i) c) = core c"
  "links (set_config f c) = links c" "links (set_runtime (rt_mapper_update g) c) = links c"
  "links (set_runtime (rt_job_update j) c) = links c" "links (set_runtime (rt_silo_update k) c) = links c"
  by (simp_all add: core_def links_def set_config_def set_runtime_def)

lemma core_start_mapper: "start_mapper os c s = (r, c', s') \<Longrightarrow> core c' = core c \<and> links c' = links c"
  by (auto simp: start_mapper_def Let_def split: prod.splits sum.splits)

lemma core_publish: "publish_ports os c s = (r, c', s') \<Longrightarrow> core c' = core c \<and> links c' = links c"
  by (auto simp: publish_ports_def Let_def dest!: core_start_mapper split: prod.splits sum.splits if_splits)

lemma core_setup_ports: "setup_port_mappings_for_shell os c s = (r, c', s') \<Longrightarrow> core c' = core c \<and> links c' = links c"
  by (auto simp: setup_port_mappings_for_shell_def dest!: core_start_mapper split: if_splits)

lemma core_teardown: "teardown_port_mappings os c s = (c', s') \<Longrightarrow> core c' = core c \<and> links c' = links c"
  by (auto simp: teardown_port_mappings_def)

lemma core_set_bind: "set_bind os bf c s = (c', s') \<Longrightarrow> core c' = core c"
  by (auto simp: set_bind_def)

lemma core_inject: "try_inject_netstack os pid ns c s = (c', s') \<Longrightarrow> core c' = core c"
  by (auto simp: try_inject_netstack_def Let_def split: prod.splits option.splits sum.splits)

lemma set_job_core: "core (set_runtime (rt_job_update (\<lambda>_. Some job)) c) =
    (ct_id c, ct_state c, Some job, rt_silo (ct_runtime c))"
  by (simp add: core_def set_runtime_def)

lemma set_silo_core: "core (set_runtime (rt_silo_update (\<lambda>_. Some silo)) c) =
    (ct_id c, ct_state c, rt_job (ct_runtime c), Some silo)"
  by (simp add: core_def set_runtime_def)

lemma core_eqD:
  "core c' = core c \<Longrightarrow> ct_id c' = ct_id c \<and> ct_state c' = ct_state c \<and>
     rt_job (ct_runtime c') = rt_job (ct_runtime c) \<and> rt_silo (ct_runtime c') = rt_silo (ct_runtime c)"
  by (simp add: core_def)

lemma field_simps [simp]:
  "ct_id (set_config f c) = ct_id c" "ct_state (set_config f c) = ct_state c"
  "ct_runtime (set_config f c) = ct_runtime c" "ct_id (set_runtime g c) = ct_id c"
  "ct_state (set_runtime g c) = ct_state c" "ct_runtime (set_runtime g c) = g (ct_runtime c)"
  by (simp_all add: set_config_def set_runtime_def)

lemma start_silo_core:
  "start_silo os caps c s = (r, c', s') \<Longrightarrow>
     (case r of Inl e \<Rightarrow> core c' = core c
      | Inr _ \<Rightarrow> \<exists>silo. core c' = (ct_id c, ct_state c, rt_job (ct_runtime c), Some silo))"
  by (auto simp: start_silo_def Let_def core_def dest!: core_set_bind core_eqD
      split: prod.splits sum.splits)

lemma start_job_core:
  "start_job os caps c s = (r, c', s') \<Longrightarrow>
     (case r of Inl e \<Rightarrow> core c' = core c
      | Inr _ \<Rightarrow> \<exists>job. core c' = (ct_id c, ct_state c, Some job, rt_silo (ct_runtime c)))"
  by (auto simp: start_job_def Let_def core_def dest!: core_set_bind core_inject core_eqD
      split: prod.splits sum.splits option.splits)

lemma start_result:
  assumes "start os c s = (r, c', s')"
  shows "ct_state c \<noteq> Created \<and> c' = c \<and> (\<exists>e. r = Inl e) \<or>
    ct_state c = Created \<and> core c' = core c \<and> (\<exists>e. r = Inl e) \<or>
    ct_state c = Created \<and> (\<exists>silo. core c' = (ct_id c, Running, rt_job (ct_runtime c), Some silo)) \<or>
    ct_state c = Created \<and> (\<exists>job. core c' = (ct_id c, Running, Some job, rt_silo (ct_runtime c)))"
proof (cases "ct_state c = Created")
  case False
  then show ?thesis using assms by (auto simp: start_def)
next
  case created: True
  obtain r1 c1 s1 where pub: "publish_ports os c s = (r1, c1, s1)" by (metis prod_cases3)
  note same = core_publish [OF pub, THEN conjunct1]
  show ?thesis
  proof (cases r1)
    case (Inl e)
    then show ?thesis using assms created same by (auto simp: start_def pub)
  next
    case (Inr u)
    let ?caps = "bo_caps (co_box os)"
    obtain r2 c2 s2 where spawn: "(if cc_silo (ct_config c1) \<and> cp_server_silos ?caps then start_silo os ?caps c1 s1
        else start_job os ?caps c1 s1) = (r2, c2, s2)" by (metis prod_cases3)
    have step: "case r2 of Inl e \<Rightarrow> core c2 = core c1
      | Inr _ \<Rightarrow> (\<exists>silo. core c2 = (ct_id c1, ct_state c1, rt_job (ct_runtime c1), Some silo)) \<or>
          (\<exists>job. core c2 = (ct_id c1, ct_state c1, Some job, rt_silo (ct_runtime c1)))"
      using spawn start_silo_core [of os ?caps c1 s1 r2 c2 s2] start_job_core [of os ?caps c1 s1 r2 c2 s2]
      by (auto split: if_splits sum.splits)
    show ?thesis
    proof (cases r2)
      case (Inl e)
      then show ?thesis using assms created Inr same step spawn by (auto simp: start_def pub Let_def)
    next
      case ok: (Inr v)
      obtain r3 s3 where "write_state os (c2\<lparr>ct_state := Running\<rparr>) s2 = (r3, s3)" by fastforce
      then have "c' = c2\<lparr>ct_state := Running\<rparr>" using assms created Inr ok spawn by (simp add: start_def pub Let_def)
      then show ?thesis using created same step ok by (auto simp: core_def)
    qed
  qed
qed

section \<open>The state machine\<close>

text \<open>
  The container values a program can hold: created or loaded, then changed by any operations, each
  in whatever state the rest of the system is by then.
\<close>

inductive ctr :: "'k container_os \<Rightarrow> Container \<Rightarrow> bool" for os where
  made: "create os config s = (Inr c, s') \<Longrightarrow> ctr os c"
| loaded: "load cid (s :: 'k csys) = Inr c \<Longrightarrow> ctr os c"
| started: "ctr os c \<Longrightarrow> start os c s = (r, c', s') \<Longrightarrow> ctr os c'"
| execed: "ctr os c \<Longrightarrow> exec os cmd c s = (r, c', s') \<Longrightarrow> ctr os c'"
| ports: "ctr os c \<Longrightarrow> setup_port_mappings_for_shell os c s = (r, c', s') \<Longrightarrow> ctr os c'"
| torn: "ctr os c \<Longrightarrow> teardown_port_mappings os c s = (c', s') \<Longrightarrow> ctr os c'"
| stopped: "ctr os c \<Longrightarrow> stop os c s = (r, c', s') \<Longrightarrow> ctr os c'"

definition ctr_ok :: "Container \<Rightarrow> bool" where
  "ctr_ok c \<longleftrightarrow>
     (ct_state c = Running \<longrightarrow> (rt_job (ct_runtime c) = None) \<noteq> (rt_silo (ct_runtime c) = None)) \<and>
     (ct_state c \<noteq> Running \<longrightarrow> rt_job (ct_runtime c) = None \<and> rt_silo (ct_runtime c) = None) \<and>
     (ct_state c = Stopped \<longrightarrow> links c = (None, None))"

lemma links_no_runtime [simp]: "ct_runtime c = no_runtime \<Longrightarrow> links c = (None, None)"
  by (simp add: links_def no_runtime_def)

lemma exec_result:
  "exec os cmd c s = (r, c', s') \<Longrightarrow> ct_id c' = ct_id c \<and> ct_state c' = ct_state c \<and>
     rt_job (ct_runtime c') = rt_job (ct_runtime c) \<and> links c' = links c \<and>
     (rt_silo (ct_runtime c') = None \<longleftrightarrow> rt_silo (ct_runtime c) = None)"
  by (auto simp: exec_def Let_def links_def split: prod.splits option.splits if_splits)

lemma stop_result:
  "stop os c s = (r, c', s') \<Longrightarrow> (ct_state c \<noteq> Running \<and> c' = c \<and> s' = s \<and> r = Inr ()) \<or>
     (ct_state c = Running \<and> c' = c\<lparr>ct_runtime := no_runtime, ct_state := Stopped\<rparr>)"
  by (auto simp: stop_def Let_def split: prod.splits option.splits if_splits)

lemma create_result:
  "create os config s = (Inr c, s') \<Longrightarrow> ct_state c = Created \<and> ct_runtime c = no_runtime \<and>
     cc_rootfs_path (ct_config c) = (if cc_rootfs_path config = [] then below (container_dir os (ct_id c)) [''rootfs'']
       else cc_rootfs_path config) \<and>
     (\<exists>sf. read_state s' (ct_id c) = Some sf \<and> sf_status sf = Created \<and> sf_aces sf = [] \<and> sf_cache_refs sf = [])"
  by (auto simp: create_def Let_def st_bind_def read_state_def split: prod.splits sum.splits if_splits)

lemma ctr_invariant: "ctr os c \<Longrightarrow> ctr_ok c"
proof (induction rule: ctr.induct)
  case (made config s c s')
  then show ?case by (auto simp: ctr_ok_def no_runtime_def dest!: create_result)
next
  case (loaded cid s c)
  then show ?case
    by (auto simp: load_def ctr_ok_def no_runtime_def links_def split: option.splits sum.splits if_splits)
next
  case (started c s r c' s')
  have ok: "ctr_ok c" by (rule started.IH)
  show ?case
    using start_result [OF started.hyps(2)] ok by (auto simp: ctr_ok_def core_def)
next
  case (execed c cmd s r c' s')
  then show ?case using exec_result [OF execed.hyps(2)] by (auto simp: ctr_ok_def)
next
  case (ports c s r c' s')
  then show ?case using core_setup_ports [OF ports.hyps(2)] by (auto simp: ctr_ok_def core_def)
next
  case (torn c s c' s')
  then show ?case using core_teardown [OF torn.hyps(2)] by (auto simp: ctr_ok_def core_def)
next
  case (stopped c s r c' s')
  then show ?case using stop_result [OF stopped.hyps(2)] by (auto simp: ctr_ok_def no_runtime_def links_def)
qed

section \<open>The files on disk\<close>

lemma dirs_simps:
  "on_box f s = (r, s') \<Longrightarrow> cy_dirs s' = cy_dirs s" "on_kern g s = (q, s') \<Longrightarrow> cy_dirs s' = cy_dirs s"
  "cy_dirs (kern_do h s) = cy_dirs s"
  by (auto simp: on_box_def on_kern_def kern_do_def Let_def split: prod.splits)

lemma dirs_drop [simp]:
  "cy_dirs (drop_mapper os m s) = cy_dirs s" "cy_dirs (drop_bind os b s) = cy_dirs s"
  "cy_dirs (drop_netstack os n s) = cy_dirs s" "cy_dirs (drop_silo os si s) = cy_dirs s"
  "cy_dirs (drop_job os j s) = cy_dirs s" "cy_dirs (drop_runtime os rt s) = cy_dirs s"
  by (simp_all add: drop_mapper_def drop_bind_def drop_netstack_def drop_silo_def drop_job_def drop_runtime_def
      dirs_simps(3) Let_def split: option.split)

lemmas dirs_dest = dirs_simps(1,2)

lemma dirs_start_mapper: "start_mapper os c s = (r, c', s') \<Longrightarrow> cy_dirs s' = cy_dirs s"
  by (auto simp: start_mapper_def Let_def dest!: dirs_dest split: prod.splits sum.splits)

lemma dirs_publish: "publish_ports os c s = (r, c', s') \<Longrightarrow> cy_dirs s' = cy_dirs s"
  by (auto simp: publish_ports_def Let_def dest!: dirs_start_mapper dirs_dest split: prod.splits sum.splits if_splits)

lemma dirs_bind: "setup_bind_links os c caps s = (r, s') \<Longrightarrow> cy_dirs s' = cy_dirs s"
  by (auto simp: setup_bind_links_def st_bind_def dest!: dirs_dest split: prod.splits sum.splits if_splits)

lemma dirs_set_bind: "set_bind os bf c s = (c', s') \<Longrightarrow> cy_dirs s' = cy_dirs s"
  by (auto simp: set_bind_def)

lemma dirs_procshim [simp]: "cy_dirs (try_inject_procshim os pid c s) = cy_dirs s"
  by (auto simp: try_inject_procshim_def Let_def dirs_simps(3) dest!: dirs_dest split: prod.splits option.splits)

lemma dirs_inject: "try_inject_netstack os pid ns c s = (c', s') \<Longrightarrow> cy_dirs s' = cy_dirs s"
  by (auto simp: try_inject_netstack_def Let_def dirs_simps(3) dest!: dirs_dest split: prod.splits option.splits sum.splits)

lemma dirs_netstack: "try_start_netstack os c s = (n, s') \<Longrightarrow> cy_dirs s' = cy_dirs s"
  by (auto simp: try_start_netstack_def dest!: dirs_dest split: prod.splits option.splits sum.splits if_splits)

lemma dirs_spawn: "spawn_in_silo os config cmd silo s = (r, silo', s') \<Longrightarrow> cy_dirs s' = cy_dirs s"
  by (auto simp: spawn_in_silo_def Let_def dest!: dirs_dest split: prod.splits)

lemma dirs_create_job: "create_job os config s = (r, s') \<Longrightarrow> cy_dirs s' = cy_dirs s"
  by (auto simp: create_job_def Let_def dirs_simps(3) dest!: dirs_dest split: prod.splits sum.splits)

lemma dirs_start_silo: "start_silo os caps c s = (r, c', s') \<Longrightarrow> cy_dirs s' = cy_dirs s"
  by (auto simp: start_silo_def Let_def dirs_simps(3) dest!: dirs_dest dirs_bind dirs_set_bind dirs_spawn
      split: prod.splits sum.splits)

lemma dirs_start_job: "start_job os caps c s = (r, c', s') \<Longrightarrow> cy_dirs s' = cy_dirs s"
  by (auto simp: start_job_def Let_def dest!: dirs_dest dirs_bind dirs_set_bind dirs_netstack dirs_inject dirs_create_job
      split: prod.splits sum.splits option.splits)

text \<open>What must be given back when the container goes: access grants and cache references.\<close>

definition ledger :: "'k csys \<Rightarrow> string \<Rightarrow> AceGrantRecord list \<times> string list" where
  "ledger s cid = (case read_state s cid of None \<Rightarrow> ([], []) | Some sf \<Rightarrow> (sf_aces sf, sf_cache_refs sf))"

definition status_on_disk :: "'k csys \<Rightarrow> string \<Rightarrow> ContainerState option" where
  "status_on_disk s cid = map_option sf_status (read_state s cid)"

lemma write_state_ok:
  "write_state os c s = (Inr u, s') \<Longrightarrow> status_on_disk s' (ct_id c) = Some (ct_state c) \<and>
     ledger s' (ct_id c) = ledger s (ct_id c)"
  by (auto simp: write_state_def Let_def status_on_disk_def ledger_def read_state_def
      split: option.splits sum.splits prod.splits if_splits)

lemma ledger_dirs: "cy_dirs s' = cy_dirs s \<Longrightarrow> ledger s' cid = ledger s cid"
  by (simp add: ledger_def read_state_def)

lemma start_disk:
  assumes "start os c s = (Inr u, c', s')"
  shows "ct_state c = Created \<and> ct_state c' = Running \<and> status_on_disk s' (ct_id c) = Some Running \<and>
    ledger s' (ct_id c) = ledger s (ct_id c)"
proof -
  let ?caps = "bo_caps (co_box os)"
  have created: "ct_state c = Created" using assms by (auto simp: start_def split: if_splits)
  obtain r1 c1 s1 where pub: "publish_ports os c s = (r1, c1, s1)" by (metis prod_cases3)
  obtain r2 c2 s2 where spawn: "(if cc_silo (ct_config c1) \<and> cp_server_silos ?caps then start_silo os ?caps c1 s1
      else start_job os ?caps c1 s1) = (r2, c2, s2)" by (metis prod_cases3)
  obtain r3 s3 where wr: "write_state os (c2\<lparr>ct_state := Running\<rparr>) s2 = (r3, s3)" by fastforce
  have ok: "r1 = Inr ()" "r2 = Inr ()" "r3 = Inr u" "c' = c2\<lparr>ct_state := Running\<rparr>" "s' = s3"
    using assms created spawn wr by (auto simp: start_def pub Let_def split: sum.splits if_splits prod.splits)
  have "ct_id c2 = ct_id c1"
    using spawn ok(2) start_silo_core [of os ?caps c1 s1 r2 c2 s2] start_job_core [of os ?caps c1 s1 r2 c2 s2]
    by (auto simp: core_def split: if_splits)
  moreover have "ct_id c1 = ct_id c" using core_publish [OF pub] by (simp add: core_def)
  moreover have "cy_dirs s2 = cy_dirs s"
    using spawn dirs_publish [OF pub] by (auto dest!: dirs_start_silo dirs_start_job split: if_splits)
  ultimately show ?thesis
    using write_state_ok [OF wr [unfolded ok(3)]] created ok ledger_dirs [of s2 s] by auto
qed

lemma stop_disk:
  assumes "stop os c s = (Inr u, c', s')" and "ct_state c = Running"
  shows "status_on_disk s' (ct_id c) = Some Stopped \<and> ledger s' (ct_id c) = ledger s (ct_id c)"
proof -
  obtain s1 where wr: "write_state os (c\<lparr>ct_runtime := no_runtime, ct_state := Stopped\<rparr>) s1 = (Inr u, s')"
    and "cy_dirs s1 = cy_dirs s"
    using assms by (auto simp: stop_def Let_def dirs_simps(3) split: prod.splits option.splits)
  with write_state_ok [OF wr] show ?thesis using ledger_dirs [of s1 s] by auto
qed

text \<open>
  C24. The lifecycle of a container value, through any operations with any failures: exactly one of
  job and silo is held while it runs, none otherwise, and a stopped one holds no bind links and no
  network; \<open>start\<close> succeeds only from \<open>created\<close>, \<open>exec\<close> only while running, nothing leaves
  \<open>stopped\<close>; after a successful start or stop the state file has the new status, and the grants and
  cache references recorded in it are kept.
\<close>

theorem container_lifecycle:
  assumes "ctr os c"
  shows "ctr_ok c \<and>
    (\<forall>s r c' s'. start os c s = (r, c', s') \<longrightarrow>
      (ct_state c' = ct_state c \<or> ct_state c = Created \<and> ct_state c' = Running) \<and>
      (r = Inr () \<longrightarrow> ct_state c = Created \<and> ct_state c' = Running \<and>
        status_on_disk s' (ct_id c) = Some Running \<and> ledger s' (ct_id c) = ledger s (ct_id c))) \<and>
    (\<forall>cmd s r c' s'. exec os cmd c s = (r, c', s') \<longrightarrow>
      ct_state c' = ct_state c \<and> (Resolve.is_ok r \<longrightarrow> ct_state c = Running)) \<and>
    (\<forall>s r c' s'. stop os c s = (r, c', s') \<longrightarrow>
      ct_state c' = (if ct_state c = Running then Stopped else ct_state c) \<and>
      (r = Inr () \<and> ct_state c = Running \<longrightarrow>
        status_on_disk s' (ct_id c) = Some Stopped \<and> ledger s' (ct_id c) = ledger s (ct_id c)))"
proof (intro conjI allI impI)
  show "ctr_ok c" using assms by (rule ctr_invariant)
next
  fix s r c' s'
  assume "start os c s = (r, c', s')"
  from start_result [OF this]
  show "ct_state c' = ct_state c \<or> ct_state c = Created \<and> ct_state c' = Running"
    by (auto simp: core_def)
next
  fix s r c' s'
  assume run: "start os c s = (r, c', s')" and "r = Inr ()"
  then have "start os c s = (Inr (), c', s')" by simp
  from start_disk [OF this] show "ct_state c = Created" "ct_state c' = Running"
    "status_on_disk s' (ct_id c) = Some Running" "ledger s' (ct_id c) = ledger s (ct_id c)" by auto
next
  fix cmd s r c' s'
  assume run: "exec os cmd c s = (r, c', s')"
  show "ct_state c' = ct_state c" using exec_result [OF run] by simp
  show "Resolve.is_ok r \<Longrightarrow> ct_state c = Running"
    using run by (auto simp: exec_def split: if_splits)
next
  fix s r c' s'
  assume run: "stop os c s = (r, c', s')"
  show "ct_state c' = (if ct_state c = Running then Stopped else ct_state c)"
    using stop_result [OF run] by auto
  assume "r = Inr () \<and> ct_state c = Running"
  with run stop_disk [of os c s "()" c' s']
  show "status_on_disk s' (ct_id c) = Some Stopped" "ledger s' (ct_id c) = ledger s (ct_id c)" by auto
qed

definition demo_config :: ContainerConfig where
  "demo_config = \<lparr>cc_name = None, cc_rootfs_path = ''C:'' @ bslash # ''root'', cc_command = [''cmd.exe''], cc_env = [],
     cc_resources = default_limits, cc_volumes = [], cc_hostname = None, cc_working_directory = [],
     cc_silo = True, cc_tools = [], cc_shares = [], cc_security_profile = DefaultProfile, cc_network = NoNetwork,
     cc_ports = []\<rparr>"

definition demo_sys :: "unit csys" where
  "demo_sys = \<lparr>cy_box = \<lparr>sx_env = [], sx_profiles = {}, sx_exempt = {}, sx_sessions = Map.empty, sx_desktops = [],
       sx_manifests = Map.empty, sx_world = \<lparr>kn_open = [], kn_impersonating = False, kn_world = ()\<rparr>\<rparr>,
     cy_dirs = [''psroot-1'' \<mapsto> \<lparr>cd_config = Inr demo_config,
       cd_state = Inr \<lparr>sf_status = Running, sf_created = ''2025'', sf_pid = None, sf_silo_id = None, sf_ports = [],
         sf_aces = [], sf_cache_refs = [''C:/cache/bash'']\<rparr>\<rparr>]\<rparr>"

text \<open>A container recorded as running is loaded as stopped: stopping it changes nothing.\<close>

theorem container_lifecycle_witness:
  "case load ''psroot-1'' demo_sys of Inl e \<Rightarrow> False
   | Inr c \<Rightarrow> ctr_ok c \<and> ct_state c = Stopped \<and>
       (\<forall>os :: unit container_os. ct_state (fst (snd (start os c demo_sys))) = Stopped \<and>
          ct_state (fst (snd (stop os c demo_sys))) = Stopped)"
proof -
  obtain c where c: "load ''psroot-1'' demo_sys = Inr c" and st: "ct_state c = Stopped"
    by (simp add: load_def demo_sys_def)
  note life = container_lifecycle [OF ctr.loaded [OF c]]
  have "ct_state (fst (snd (start os c demo_sys))) = Stopped \<and> ct_state (fst (snd (stop os c demo_sys))) = Stopped"
    for os :: "unit container_os"
  proof -
    obtain r1 c1 s1 where start: "start os c demo_sys = (r1, c1, s1)" by (metis prod_cases3)
    obtain r2 c2 s2 where stop: "stop os c demo_sys = (r2, c2, s2)" by (metis prod_cases3)
    note facts = life [of os, THEN conjunct2]
    have "ct_state c1 = Stopped" using facts [THEN conjunct1, rule_format, OF start] st by simp
    moreover have "ct_state c2 = Stopped"
      using facts [THEN conjunct2, THEN conjunct2, rule_format, OF stop] st by simp
    ultimately show ?thesis by (simp add: start stop)
  qed
  moreover have "ctr_ok c" using life [THEN conjunct1] .
  ultimately show ?thesis using c st by simp
qed

end
