(* ===== verification/Container_Session.thy ===== *)
theory Container_Session
  imports Container_Props
begin

text \<open>
  What a shell session followed by \<open>remove\<close> leaves behind: the reference lists of the shell caches,
  the grants recorded for revocation, and the container's directory.
\<close>

section \<open>Only staging touches the manifests\<close>

lemma sx_call [simp]: "call f s = (r, s') \<Longrightarrow> sx_manifests s' = sx_manifests s"
  by (auto simp: call_def split: prod.splits)

lemma sx_world [simp]: "sx_manifests (world f s) = sx_manifests s"
  by (simp add: world_def)

lemma sx_delete_profile [simp]: "sx_manifests (delete_profile os n s) = sx_manifests s"
  by (simp add: delete_profile_def)

lemma sx_create_profile: "create_profile_call os n s = (r, s') \<Longrightarrow> sx_manifests s' = sx_manifests s"
  by (auto simp: create_profile_call_def Let_def dest!: sx_call split: prod.splits if_splits)

lemma sx_profile_create: "profile_create os cid s = (r, s') \<Longrightarrow> sx_manifests s' = sx_manifests s"
  by (auto simp: profile_create_def Let_def dest!: sx_call sx_create_profile
      split: prod.splits if_splits option.splits sum.splits)

lemma sx_grant: "grant_appcontainer_access os d sid s = (r, s') \<Longrightarrow> sx_manifests s' = sx_manifests s"
  by (auto simp: grant_appcontainer_access_def dest!: sx_call
      split: prod.splits if_splits option.splits sum.splits bool.splits)

lemma sx_register [simp]: "sx_manifests (register_inbound_session os p c s) = sx_manifests s"
  by (simp add: register_inbound_session_def Let_def split: option.split)

lemma sx_exempt_call: "exempt os config n s = (r, s') \<Longrightarrow> sx_manifests s' = sx_manifests s"
  by (auto simp: exempt_def add_loopback_exemption_def Let_def dest!: sx_call
      split: prod.splits if_splits sum.splits)

lemma sx_unexempt [simp]: "sx_manifests (unexempt os config n s) = sx_manifests s"
  by (auto simp: unexempt_def remove_loopback_exemption_def kill_inbound_session_def Let_def dest!: sx_call
      split: prod.splits option.splits)

lemma sx_attr: "attr_list op os s = (r, s') \<Longrightarrow> sx_manifests s' = sx_manifests s"
  by (auto simp: attr_list_def split: option.splits)

lemma sx_open_desktop: "open_desktop os d s = (r, s') \<Longrightarrow> sx_manifests s' = sx_manifests s"
  by (auto simp: open_desktop_def st_bind_def dest!: sx_call split: option.splits prod.splits sum.splits)

lemma sx_close_desktop [simp]: "sx_manifests (close_desktop d s) = sx_manifests s"
  by (simp add: close_desktop_def split: option.split)

lemma sx_create_process: "create_process os change la s = (r, s') \<Longrightarrow> sx_manifests s' = sx_manifests s"
  by (auto simp: create_process_def Let_def dest!: sx_call split: prod.splits)

lemma sx_launch: "ac_launch os config n change la s = (r, s') \<Longrightarrow> sx_manifests s' = sx_manifests s"
  by (auto simp: ac_launch_def st_bind_def dest!: sx_exempt_call sx_attr sx_open_desktop sx_create_process
      split: prod.splits sum.splits)

lemma sx_finish: "ac_finish os config n la child s = (r, s') \<Longrightarrow> sx_manifests s' = sx_manifests s"
  by (auto simp: ac_finish_def Let_def dest!: sx_call split: prod.splits)

lemma stage_plan_ok:
  assumes "stage_plan os err plan sid cid s = (Inr out, s')"
  shows "\<exists>now. sx_manifests s' = (sx_manifests s)(lp_cache_dir plan \<mapsto>
    updated_manifest plan sid cid now (sx_manifests s (lp_cache_dir plan)))"
  using assms by (auto simp: stage_plan_def dest!: apply_plan_ok split: prod.splits sum.splits)

lemma st_bind_InrD: "st_bind x k = (Inr b, s') \<Longrightarrow> \<exists>a s. x = (Inr a, s) \<and> k a s = (Inr b, s')"
  by (auto simp: st_bind_def split: prod.splits sum.splits)

lemma with_profile_InrD:
  assumes "with_profile os cid body s = (Inr x, s')"
  shows "\<exists>sid s1 s2 name. sx_manifests s1 = sx_manifests s \<and> body sid s1 = (Inr x, s2) \<and> s' = delete_profile os name s2"
  using assms
  by (auto simp: with_profile_def Let_def dest!: st_bind_InrD sx_profile_create split: prod.splits) blast

text \<open>What a successful shell leaves in the manifests: one update, of the plan's cache.\<close>

definition staged :: "LaunchPlan \<Rightarrow> string \<Rightarrow> string \<Rightarrow> manifests \<Rightarrow> manifests \<Rightarrow> bool" where
  "staged plan sid cid ms ms' \<longleftrightarrow>
     (\<exists>now. ms' = ms(lp_cache_dir plan \<mapsto> updated_manifest plan sid cid now (ms (lp_cache_dir plan))))"

lemma interactive_plan_staged:
  assumes "spawn_interactive_plan os err plan config s = (Inr (sid, code), s')"
  shows "staged plan sid (container_id_of ''unknown'' (cc_rootfs_path config)) (sx_manifests s) (sx_manifests s')"
proof -
  let ?cid = "container_id_of ''unknown'' (cc_rootfs_path config)"
  from assms have avail: "bo_available os" by (auto simp: spawn_interactive_plan_def split: if_splits)
  from assms obtain acsid s1 s2 name where s1: "sx_manifests s1 = sx_manifests s"
    and s': "s' = delete_profile os name s2"
    and body: "st_bind (bo_sid_string os acsid (sx_world s1), s1) (\<lambda>sid_str s.
          st_bind (grant_appcontainer_access os (cc_rootfs_path config) acsid s) (\<lambda>_ s.
          st_bind (stage_plan os err plan sid_str ?cid s) (\<lambda>_ s.
          st_bind (build_network_capabilities os (cc_network config), s) (\<lambda>caps s.
          let name = profile_name ?cid;
              la = \<lparr>la_op = ''CreateProcessW(interactive_plan)'', la_cmd = command_line (lp_entry plan) (lp_args plan),
                la_cwd = lp_cwd plan, la_inherit = True, la_suspended = False, la_desktop = None,
                la_caps = caps, la_sid = Some acsid\<rparr> in
          st_bind (ac_launch os config name (config_plan_env os config plan) la s) (\<lambda>child s.
          let (code, s) = ac_finish os config name la child s in (Inr (sid_str, code), s)))))) = (Inr (sid, code), s2)"
    using avail by (auto simp: spawn_interactive_plan_def Let_def dest!: with_profile_InrD)
  from body obtain out g s3 s4 s5 where grant: "grant_appcontainer_access os (cc_rootfs_path config) acsid s1 = (g, s3)"
    and stage: "stage_plan os err plan sid ?cid s3 = (Inr out, s4)" and fin: "sx_manifests s2 = sx_manifests s4"
    by (auto simp: Let_def dest!: st_bind_InrD sx_launch sx_finish split: prod.splits)
  show ?thesis using stage_plan_ok [OF stage] sx_grant [OF grant] s1 fin s' by (simp add: staged_def)
qed


text \<open>The two readings of that update that later steps need, stable under staging again.\<close>

definition granted_to :: "manifests \<Rightarrow> string \<Rightarrow> string set" where
  "granted_to ms dir = (case ms dir of None \<Rightarrow> {} | Some m \<Rightarrow> set (cm_granted_ac_sids m))"

definition used :: "LaunchPlan \<Rightarrow> string \<Rightarrow> string \<Rightarrow> manifests \<Rightarrow> manifests \<Rightarrow> bool" where
  "used plan sid cid ms ms' \<longleftrightarrow> sid \<in> granted_to ms' (lp_cache_dir plan) \<and>
     (\<forall>d. set (users_of ms' d) = (if d = lp_cache_dir plan then insert cid (set (users_of ms d)) else set (users_of ms d)))"

lemma staged_used: "staged plan sid cid ms ms' \<Longrightarrow> used plan sid cid ms ms'"
  by (auto simp: staged_def used_def granted_to_def users_of_def updated_manifest_lists split: option.split)

lemma used_again: "used plan sid cid ms ms1 \<Longrightarrow> used plan sid' cid ms1 ms2 \<Longrightarrow> used plan sid' cid ms ms2"
  by (simp add: used_def)

lemma devicemap_run_sid:
  assumes "devicemap_run os plan config m saved env s = (Inr (sid, code), s')"
  shows "sx_manifests s' = sx_manifests s \<and> (\<exists>pid. sid = ''devicemap-'' @ show_nat pid)"
  using assms by (auto simp: devicemap_run_def Let_def dest!: sx_call split: prod.splits sum.splits)

lemma devicemap_used:
  assumes "spawn_interactive_plan_devicemap os plan config s = (Inr (sid, code), s')"
  shows "used plan ALL_APP_PACKAGES_SID (container_id_of ''unknown'' (cc_rootfs_path config))
      (sx_manifests s) (sx_manifests s') \<and> (\<exists>pid. sid = ''devicemap-'' @ show_nat pid)"
proof -
  let ?cid = "container_id_of ''unknown'' (cc_rootfs_path config)"
  from assms obtain out s1 m saved env s2 s3 where
    stage: "stage_plan (sh_box os) (sh_stage_error os) plan ALL_APP_PACKAGES_SID ?cid s = (Inr out, s1)"
    and same: "sx_manifests s2 = sx_manifests s1"
    and run: "devicemap_run os plan config m saved env s2 = (Inr (sid, code), s3)"
    and s': "sx_manifests s' = sx_manifests s3"
    by (auto simp: spawn_interactive_plan_devicemap_def Let_def dest!: st_bind_InrD sx_call
        split: prod.splits sum.splits)
  show ?thesis
    using stage_plan_ok [OF stage] same devicemap_run_sid [OF run] s' by (auto simp: staged_def intro!: staged_used)
qed

lemma silo_run_sid:
  assumes "silo_run os plan config parent silo saved env s = (Inr (sid, code), s')"
  shows "sx_manifests s' = sx_manifests s \<and> (\<exists>n. sid = ''silo-'' @ show_nat n)"
  using assms
  by (auto simp: silo_run_def open_init_process_def Let_def dest!: st_bind_InrD sx_call
      split: prod.splits sum.splits option.splits)

lemma silo_used:
  assumes "spawn_interactive_plan_silo os plan config s = (Inr (sid, code), s')"
  shows "used plan ALL_APP_PACKAGES_SID (container_id_of ''unknown'' (cc_rootfs_path config))
      (sx_manifests s) (sx_manifests s') \<and>
    ((\<exists>n. sid = ''silo-'' @ show_nat n) \<or> (\<exists>n. sid = ''devicemap-'' @ show_nat n))"
proof (cases "il_server_silo (isolation_detect (bo_available (sh_box os)) (bo_caps (sh_box os)))")
  case False
  then have "spawn_interactive_plan_devicemap os plan config s = (Inr (sid, code), s')"
    using assms by (simp add: spawn_interactive_plan_silo_def Let_def)
  from devicemap_used [OF this] show ?thesis by blast
next
  case True
  let ?cid = "container_id_of ''unknown'' (cc_rootfs_path config)"
  from assms True obtain out s1 where
    stage: "stage_plan (sh_box os) (sh_stage_error os) plan ALL_APP_PACKAGES_SID ?cid s = (Inr out, s1)"
    and rest: "(\<exists>parent silo saved env s2. sx_manifests s2 = sx_manifests s1 \<and>
          silo_run os plan config parent silo saved env s2 = (Inr (sid, code), s')) \<or>
        (\<exists>s2. sx_manifests s2 = sx_manifests s1 \<and>
          spawn_interactive_plan_devicemap os plan config s2 = (Inr (sid, code), s'))"
    by (fastforce simp: spawn_interactive_plan_silo_def Let_def dest!: st_bind_InrD sx_call
        split: prod.splits sum.splits if_splits)
  have first: "used plan ALL_APP_PACKAGES_SID ?cid (sx_manifests s) (sx_manifests s1)"
    using stage_plan_ok [OF stage] by (auto simp: staged_def intro!: staged_used)
  from rest show ?thesis
  proof (elim disjE exE conjE)
    fix parent silo saved env s2
    assume "sx_manifests s2 = sx_manifests s1" "silo_run os plan config parent silo saved env s2 = (Inr (sid, code), s')"
    with silo_run_sid show ?thesis using first by fastforce
  next
    fix s2
    assume "sx_manifests s2 = sx_manifests s1" "spawn_interactive_plan_devicemap os plan config s2 = (Inr (sid, code), s')"
    with devicemap_used [of os plan config s2] show ?thesis using used_again [OF first] by fastforce
  qed
qed

section \<open>What the session records\<close>

lemma on_box_result: "on_box f s = (r, s') \<Longrightarrow> \<exists>b. f (cy_box s) = (r, b) \<and> s' = s\<lparr>cy_box := b\<rparr>"
  by (auto simp: on_box_def split: prod.splits)

lemma record_plan_box [simp]: "cy_box (record_plan os plan sid c s) = cy_box s"
  by (simp add: record_plan_def Let_def split: option.split sum.split)

lemma record_plan_ledger:
  assumes "read_state s (ct_id c) = Some sf"
    and "co_save os (below (container_dir os (ct_id c)) [''state.json'']) (kern_of s)"
  shows "ledger (record_plan os plan sid c s) (ct_id c) =
    (sf_aces sf @ ace_records sid (lp_aces plan), push_new (lp_cache_dir plan) (sf_cache_refs sf))"
  using assms
  by (auto simp: record_plan_def Let_def read_state_def ledger_def split: option.splits sum.splits)

abbreviation cache_users :: "'k csys \<Rightarrow> string \<Rightarrow> string list" where
  "cache_users s \<equiv> users_of (sx_manifests (cy_box s))"

abbreviation cache_sids :: "'k csys \<Rightarrow> string \<Rightarrow> string set" where
  "cache_sids s \<equiv> granted_to (sx_manifests (cy_box s))"

lemma shell_with_plan_effect:
  assumes shell: "shell_with_plan os plan use_silo c s = (Inr code, s')"
    and saves: "\<And>p w. co_save os p w" and st: "read_state s (ct_id c) = Some sf"
  shows "\<exists>sid sid'. ledger s' (ct_id c) =
        (sf_aces sf @ ace_records sid (lp_aces plan), push_new (lp_cache_dir plan) (sf_cache_refs sf)) \<and>
      used plan sid' (container_id_of ''unknown'' (cc_rootfs_path (ct_config c)))
        (sx_manifests (cy_box s)) (sx_manifests (cy_box s')) \<and>
      (if use_silo then sid' = ALL_APP_PACKAGES_SID \<and>
          ((\<exists>n. sid = ''silo-'' @ show_nat n) \<or> (\<exists>n. sid = ''devicemap-'' @ show_nat n))
        else sid' = sid)"
proof -
  obtain sid b where run: "(if use_silo then spawn_interactive_plan_silo (co_shell os) plan (ct_config c) (cy_box s)
      else spawn_interactive_plan (co_box os) (sh_stage_error (co_shell os)) plan (ct_config c) (cy_box s)) =
        (Inr (sid, code), b)"
    and s': "s' = record_plan os plan sid c (s\<lparr>cy_box := b\<rparr>)"
    using shell by (auto simp: shell_with_plan_def dest!: on_box_result split: prod.splits sum.splits if_splits)
  have "ledger s' (ct_id c) = (sf_aces sf @ ace_records sid (lp_aces plan), push_new (lp_cache_dir plan) (sf_cache_refs sf))"
    using st saves unfolding s' by (intro record_plan_ledger) (simp_all add: read_state_def)
  moreover have "cy_box s' = b" by (simp add: s')
  ultimately show ?thesis
    using run silo_used [of "co_shell os" plan "ct_config c" "cy_box s" sid code b]
      staged_used [OF interactive_plan_staged [of "co_box os" "sh_stage_error (co_shell os)" plan "ct_config c" "cy_box s" sid code b]]
    by (auto split: if_splits)
qed

section \<open>What remove gives back\<close>

lemma unreference_all_users:
  assumes "\<And>d w. so_save_ok (bo_stage (co_box os)) d w"
  shows "set (users_of (sx_manifests (unreference_all os cid refs b)) d) =
    (if d \<in> set refs then set (users_of (sx_manifests b) d) - {cid} else set (users_of (sx_manifests b) d))"
  using assms
  by (induction os cid refs b rule: unreference_all.induct)
    (auto simp: unreference_cache_def manifest_save_def users_of_def split: option.splits)

lemma sx_on_box_world: "on_kern f s = (r, s') \<Longrightarrow> sx_manifests (cy_box s') = sx_manifests (cy_box s)"
  by (auto simp: on_kern_def dest!: on_box_result)

lemma sx_kern_do [simp]: "sx_manifests (cy_box (kern_do f s)) = sx_manifests (cy_box s)"
  by (auto simp: kern_do_def on_kern_def on_box_def call_def)

lemma sx_drop_runtime [simp]: "sx_manifests (cy_box (drop_runtime os rt s)) = sx_manifests (cy_box s)"
  by (simp add: drop_runtime_def drop_mapper_def drop_bind_def drop_netstack_def drop_silo_def drop_job_def Let_def
      split: option.split)

lemma remove_tries_ok:
  "remove_dir_tries os cid ns s = (Inr u, s') \<Longrightarrow>
     cy_dirs s' = (cy_dirs s)(cid := None) \<and> sx_manifests (cy_box s') = sx_manifests (cy_box s)"
proof (induction os cid ns s arbitrary: s' rule: remove_dir_tries.induct)
  case (2 os cid n ns s)
  show ?case
  proof (cases "cy_dirs s cid")
    case None
    then have "remove_dir_tries os cid ns s = (Inr u, s')" using 2(3) by (simp only: remove_dir_tries.simps option.case)
    from 2(1) [OF None this] show ?thesis .
  next
    case (Some d)
    obtain left s1 where rm: "on_kern (co_remove_dir os n d) s = (left, s1)" by fastforce
    note same = dirs_simps(2) [OF rm] sx_on_box_world [OF rm]
    show ?thesis
    proof (cases left)
      case None
      then have "s' = s1\<lparr>cy_dirs := (cy_dirs s1)(cid := None)\<rparr>"
        using 2(3) by (simp only: remove_dir_tries.simps Some option.case rm prod.case) simp
      then show ?thesis using same by simp
    next
      case left: (Some d')
      then have "remove_dir_tries os cid ns (s1\<lparr>cy_dirs := (cy_dirs s1)(cid \<mapsto> d')\<rparr>) = (Inr u, s')"
        using 2(3) by (simp only: remove_dir_tries.simps Some option.case rm prod.case)
      from 2(2) [OF Some rm [symmetric] left this] show ?thesis using same by (simp add: fun_eq_iff)
    qed
  qed
qed simp

lemma release_records_dirs [simp]: "cy_dirs (release_records os cid s) = cy_dirs s"
  by (simp add: release_records_def split: option.split)

lemma release_records_users:
  assumes "\<And>d w. so_save_ok (bo_stage (co_box os)) d w"
  shows "set (cache_users (release_records os cid s) d) =
    (if d \<in> set (snd (ledger s cid)) then set (cache_users s d) - {cid} else set (cache_users s d))"
  using unreference_all_users [OF assms] by (simp add: release_records_def ledger_def split: option.split)

lemma remove_effect:
  assumes "remove os c force s = (Inr u, s')" and "ct_state c \<noteq> Running"
    and saves: "\<And>d w. so_save_ok (bo_stage (co_box os)) d w"
  shows "cy_dirs s' = (cy_dirs s)(ct_id c := None) \<and>
    (\<forall>d. set (cache_users s' d) =
      (if d \<in> set (snd (ledger s (ct_id c))) then set (cache_users s d) - {ct_id c} else set (cache_users s d)))"
proof -
  obtain s1 where rem: "remove_stopped os c s = (Inr u, s1)" and s': "s' = drop_runtime os (ct_runtime c) s1"
    using assms(1,2) by (auto simp: remove_def container_drop_def stop_def Let_def split: prod.splits)
  have "cy_dirs s1 = (cy_dirs s)(ct_id c := None) \<and>
      sx_manifests (cy_box s1) = sx_manifests (cy_box (release_records os (ct_id c) s))"
    using rem by (auto simp: remove_stopped_def Let_def simp del: remove_dir_tries.simps dest!: remove_tries_ok split: if_splits)
  then show ?thesis using release_records_users [OF saves] by (simp add: s')
qed

lemma default_rootfs_id:
  assumes "bslash \<notin> set cid"
  shows "container_id_of d (below (container_dir os cid) [''rootfs'']) = cid"
proof -
  have "split_on bslash (root @ bslash # cid @ bslash # ''rootfs'') = split_on bslash root @ [cid, ''rootfs'']" for root
  proof (induction root)
    case Nil
    have "bslash \<notin> set ''rootfs''" by (simp add: bslash_def)
    from split_on_append [OF assms] split_on_piece [OF this]
    have "split_on bslash (cid @ bslash # ''rootfs'') = [cid, ''rootfs'']" by (simp only:)
    then show ?case by (simp only: append_Nil append_Cons split_on.simps(1) split_on.simps(2) [of bslash bslash] if_True refl)
  next
    case (Cons a root)
    then show ?case by (cases "split_on bslash root") auto
  qed
  then show ?thesis by (simp add: container_id_of_def container_dir_def)
qed

text \<open>
  C25. A shell session followed by \<open>remove\<close>, in either mode, for a container that is not running and
  when the files can be saved: the session adds the grants and the cache of the plan to what the
  container must give back and one user to the cache's reference list; the removal deletes the
  container's directory and no other, takes the container's id off every recorded cache and changes
  no other reference list. So with the default rootfs the container uses the cache no more, and every
  other user stays; with a rootfs whose parent directory has another name, that name stays for ever.
\<close>

theorem shell_then_remove:
  assumes "shell_with_plan os plan use_silo c s = (Inr code, s1)"
    and "remove os c force s1 = (Inr u, s2)"
    and "ct_state c \<noteq> Running" and "read_state s (ct_id c) = Some sf"
    and "\<And>p w. co_save os p w" and "\<And>d w. so_save_ok (bo_stage (co_box os)) d w"
  shows "(\<exists>sid. ledger s1 (ct_id c) =
      (sf_aces sf @ ace_records sid (lp_aces plan), push_new (lp_cache_dir plan) (sf_cache_refs sf))) \<and>
    cy_dirs s2 = (cy_dirs s1)(ct_id c := None) \<and>
    (\<forall>d. set (cache_users s2 d) =
      (let user = container_id_of ''unknown'' (cc_rootfs_path (ct_config c));
           before = (if d = lp_cache_dir plan then {user} else {}) \<union> set (cache_users s d)
       in if d = lp_cache_dir plan \<or> d \<in> set (sf_cache_refs sf) then before - {ct_id c} else before)) \<and>
    (cc_rootfs_path (ct_config c) = below (container_dir os (ct_id c)) [''rootfs''] \<and> bslash \<notin> set (ct_id c) \<longrightarrow>
      set (cache_users s2 (lp_cache_dir plan)) = set (cache_users s (lp_cache_dir plan)) - {ct_id c})"
proof -
  let ?user = "container_id_of ''unknown'' (cc_rootfs_path (ct_config c))"
  from shell_with_plan_effect [OF assms(1,5,4)] obtain sid sid' where
    led: "ledger s1 (ct_id c) = (sf_aces sf @ ace_records sid (lp_aces plan), push_new (lp_cache_dir plan) (sf_cache_refs sf))"
    and use: "used plan sid' ?user (sx_manifests (cy_box s)) (sx_manifests (cy_box s1))" by blast
  note rem = remove_effect [OF assms(2,3,6)]
  have users: "set (cache_users s2 d) =
      (let before = (if d = lp_cache_dir plan then {?user} else {}) \<union> set (cache_users s d)
       in if d = lp_cache_dir plan \<or> d \<in> set (sf_cache_refs sf) then before - {ct_id c} else before)" for d
    using rem [THEN conjunct2, THEN spec, of d] use led by (auto simp: used_def)
  have "?user = ct_id c"
    if "cc_rootfs_path (ct_config c) = below (container_dir os (ct_id c)) [''rootfs'']" "bslash \<notin> set (ct_id c)"
    using that default_rootfs_id [of "ct_id c" "''unknown''" os] by simp
  then show ?thesis using led rem users users [of "lp_cache_dir plan"] by auto
qed

section \<open>A session\<close>

text \<open>A host on which every call the session makes succeeds.\<close>

definition calm_stage :: "'w stage_os" where
  "calm_stage = \<lparr>so_exists = \<lambda>_ _. False, so_is_dir = \<lambda>_ _. False, so_nonempty = \<lambda>_ _. False,
     so_canonical = \<lambda>_ _. None, so_parent = \<lambda>_. None, so_create_dir_all = \<lambda>_ w. (Inr (), w),
     so_remove_dir = \<lambda>_ w. w, so_remove_file = \<lambda>_ w. w, so_write = \<lambda>_ _ w. (Inr (), w),
     so_tree = \<lambda>_ _ _ _ w. (Inr (), w), so_mklink = \<lambda>_ _ w. (Inr True, w),
     so_symlink_file = \<lambda>_ _ w. (True, w), so_icacls = \<lambda>_ w. (Inr True, w),
     so_save_ok = \<lambda>_ _. True, so_now = \<lambda>_. ''1700000000''\<rparr>"

definition calm_box :: "'w sbox_os" where
  "calm_box = \<lparr>bo_env = \<lparr>eo_up = id, eo_lower = id, eo_dir_exists = \<lambda>_. False\<rparr>, bo_stage = calm_stage,
     bo_available = True, bo_caps = detect_caps 26100 False,
     bo_create_profile = \<lambda>_ w. ((0, Some ''ac''), w), bo_derive_sid = \<lambda>_ w. ((0, Some ''ac''), w),
     bo_delete_profile = \<lambda>_ w. w, bo_sid_string = \<lambda>_ _. Inr ''S-1-15-2-77'', bo_well_known = \<lambda>_. Inr ''S-1-15-3-1'',
     bo_icacls = \<lambda>_ w. (Inr (True, []), w), bo_exists = \<lambda>_ _. True, bo_read_dir = \<lambda>_ _. None,
     bo_check_net = \<lambda>_ w. (Inr True, w), bo_spawn_session = \<lambda>_ w. (Inr 1, w), bo_kill = \<lambda>_ w. w,
     bo_attr_init = \<lambda>_. None, bo_attr_update = \<lambda>_. None, bo_open_desktop = \<lambda>_ w. (Inr (), w),
     bo_create_process = \<lambda>_ _ w. (Inr \<lparr>pi_process = 1, pi_thread = 2, pi_pid = 3\<rparr>, w), bo_wait = \<lambda>_ w. (0, w),
     bo_assign = \<lambda>_ _ w. (Inr (), w), bo_discard = \<lambda>_ w. w, bo_resume = \<lambda>_ w. w,
     bo_restricted_token = \<lambda>w. (Inr 1, w), bo_create_as_user = \<lambda>_ _ _ w. (Inr \<lparr>pi_process = 1, pi_thread = 2, pi_pid = 3\<rparr>, w),
     bo_close = \<lambda>_ w. w\<rparr>"

text \<open>The rest of the host, which the session does not use, is any.\<close>

definition calm_host :: "'k container_os \<Rightarrow> 'k container_os" where
  "calm_host os = os\<lparr>co_shell := (co_shell os)\<lparr>sh_box := calm_box\<rparr>, co_root := ''C:'' @ bslash # ''ps'',
     co_save := \<lambda>_ _. True, co_remove_dir := \<lambda>_ _ w. (None, w)\<rparr>"

definition session_container :: Container where
  "session_container = \<lparr>ct_id = ''psroot-1'',
     ct_config = demo_config\<lparr>cc_rootfs_path := below (''C:'' @ bslash # ''ps'') [''psroot-1'', ''rootfs'']\<rparr>,
     ct_state = Stopped, ct_created = ''2025'', ct_runtime = no_runtime\<rparr>"

text \<open>Another container uses the cache already.\<close>

definition session_sys :: "unit csys" where
  "session_sys = demo_sys\<lparr>cy_box := (cy_box demo_sys)\<lparr>sx_manifests :=
     [''C:/cache/bash'' \<mapsto> manifest_default\<lparr>cm_referenced_by := [''psroot-2'']\<rparr>]\<rparr>\<rparr>"

lemma calm_profile: "\<exists>s'. profile_create calm_box cid s = (Inr (profile_name cid, ''ac''), s')"
  by (simp add: profile_create_def create_profile_call_def call_def calm_box_def Let_def)

lemma calm_grant: "\<exists>s'. grant_appcontainer_access calm_box d sid s = (Inr (), s')"
  by (simp add: grant_appcontainer_access_def call_def calm_box_def)

lemma calm_apply: "\<exists>out ms'. apply_plan calm_stage git_plan sid cid ms w = (Inr out, ms', w)"
  by (simp add: apply_plan_def git_plan_def calm_stage_def create_parent_def manifest_save_def Let_def)

lemma calm_staging: "\<exists>out s'. stage_plan calm_box err git_plan sid cid s = (Inr out, s')"
  using calm_apply [of sid cid "sx_manifests s" "sx_world s"] by (auto simp: stage_plan_def calm_box_def)

lemma calm_launch:
  assumes "cc_network config = NoNetwork" and "la_desktop la = None"
  shows "\<exists>child s'. ac_launch calm_box config name change la s = (Inr child, s')"
  using assms
  by (simp add: ac_launch_def exempt_def attr_list_def open_desktop_def create_process_def call_def calm_box_def
      Let_def split_beta)

lemma calm_finish: "\<exists>s'. ac_finish calm_box config name la child s = (0, s')"
  by (simp add: ac_finish_def call_def calm_box_def Let_def)

lemma calm_interactive:
  fixes s :: "'k sbox"
  assumes net: "cc_network config = NoNetwork"
  shows "\<exists>s'. spawn_interactive_plan calm_box err git_plan config s = (Inr (''S-1-15-2-77'', 0), s')"
proof -
  let ?cid = "container_id_of ''unknown'' (cc_rootfs_path config)"
  let ?la = "\<lparr>la_op = ''CreateProcessW(interactive_plan)'', la_cmd = command_line (lp_entry git_plan) (lp_args git_plan),
    la_cwd = lp_cwd git_plan, la_inherit = True, la_suspended = False, la_desktop = None, la_caps = [], la_sid = Some ''ac''\<rparr>"
  let ?change = "config_plan_env (calm_box :: 'k sbox_os) config git_plan"
  obtain s1 where 1: "profile_create calm_box ?cid s = (Inr (profile_name ?cid, ''ac''), s1)"
    using calm_profile by blast
  obtain s2 where 2: "grant_appcontainer_access calm_box (cc_rootfs_path config) ''ac'' s1 = (Inr (), s2)"
    using calm_grant by blast
  obtain out s3 where 3: "stage_plan calm_box err git_plan ''S-1-15-2-77'' ?cid s2 = (Inr out, s3)"
    using calm_staging by blast
  obtain child s4 where 4: "ac_launch calm_box config (profile_name ?cid) ?change ?la s3 = (Inr child, s4)"
    using calm_launch [OF net, of ?la "profile_name ?cid" ?change s3] by (simp del: split_paired_Ex) blast
  obtain s5 where 5: "ac_finish calm_box config (profile_name ?cid) ?la child s4 = (0, s5)"
    using calm_finish by blast
  have "bo_available (calm_box :: 'k sbox_os)" "bo_sid_string calm_box ''ac'' w = Inr ''S-1-15-2-77''"
    "build_network_capabilities (calm_box :: 'k sbox_os) (cc_network config) = Inr []" for w :: 'k
    using net by (simp_all add: calm_box_def build_network_capabilities_def)
  then show ?thesis by (simp add: spawn_interactive_plan_def with_profile_def Let_def 1 2 3 4 5)
qed

lemma calm_shell: "\<exists>s1. shell_with_plan (calm_host os) git_plan False session_container session_sys = (Inr 0, s1)"
proof -
  let ?config = "ct_config session_container"
  have "cc_network ?config = NoNetwork" by (simp add: session_container_def demo_config_def)
  from calm_interactive [OF this] obtain b where
    "spawn_interactive_plan calm_box (sh_stage_error (co_shell (calm_host os))) git_plan ?config (cy_box session_sys) =
       (Inr (''S-1-15-2-77'', 0), b)" by blast
  moreover have "co_box (calm_host os) = calm_box" by (simp add: calm_host_def)
  ultimately show ?thesis by (simp add: shell_with_plan_def on_box_def)
qed

lemma calm_remove:
  "ct_state c \<noteq> Running \<Longrightarrow> \<exists>s2. remove (calm_host os) c force s = (Inr (), s2)"
  by (auto simp: remove_def remove_stopped_def container_drop_def stop_def Let_def calm_host_def on_kern_def
      on_box_def call_def split_beta split: option.split)

text \<open>The session adds the container to the users of the cache, its removal takes it off again.\<close>

theorem shell_then_remove_witness:
  "\<forall>os :: unit container_os. \<exists>s1 s2.
     shell_with_plan (calm_host os) git_plan False session_container session_sys = (Inr 0, s1) \<and>
     remove (calm_host os) session_container False s1 = (Inr (), s2) \<and>
     cy_dirs s2 ''psroot-1'' = None \<and> set (cache_users s2 ''C:/cache/bash'') = {''psroot-2''}"
proof
  fix os :: "unit container_os"
  let ?os = "calm_host os" and ?c = session_container and ?s = session_sys
  obtain s1 where shell: "shell_with_plan ?os git_plan False ?c ?s = (Inr 0, s1)" using calm_shell by blast
  have idle: "ct_state ?c \<noteq> Running" by (simp add: session_container_def)
  obtain s2 where remove: "remove ?os ?c False s1 = (Inr (), s2)" using calm_remove [OF idle] by blast
  obtain sf where read: "read_state ?s (ct_id ?c) = Some sf"
    by (simp add: read_state_def session_sys_def demo_sys_def session_container_def)
  have saves: "co_save ?os p w" "so_save_ok (bo_stage (co_box ?os)) d w" for p w d
    by (simp_all add: calm_host_def calm_box_def calm_stage_def)
  note fin = shell_then_remove [OF shell remove idle read saves]
  have "cy_dirs s2 ''psroot-1'' = None"
    using fin [THEN conjunct2, THEN conjunct1] by (simp add: session_container_def)
  moreover have "cc_rootfs_path (ct_config ?c) = below (container_dir ?os (ct_id ?c)) [''rootfs''] \<and> bslash \<notin> set (ct_id ?c)"
    by (simp add: session_container_def calm_host_def container_dir_def bslash_def)
  with fin [THEN conjunct2, THEN conjunct2, THEN conjunct2]
  have "set (cache_users s2 ''C:/cache/bash'') = set (cache_users ?s ''C:/cache/bash'') - {''psroot-1''}"
    by (simp add: git_plan_def session_container_def)
  ultimately show "\<exists>s1 s2. shell_with_plan ?os git_plan False ?c ?s = (Inr 0, s1) \<and> remove ?os ?c False s1 = (Inr (), s2) \<and>
      cy_dirs s2 ''psroot-1'' = None \<and> set (cache_users s2 ''C:/cache/bash'') = {''psroot-2''}"
    using shell remove by (auto simp: session_sys_def demo_sys_def users_of_def manifest_default_def)
qed

end
