(* ===== verification/Unix_Net.thy ===== *)
theory Unix_Net
  imports Text Prelude
begin

text \<open>
  Networking of Linux containers, \<open>crates/psroot-unix/src/net\<close>: running the host's tools
  (\<open>mod.rs\<close>), the address leases (\<open>ipam.rs\<close>), the bridge, the interface pairs and the port rules
  (\<open>bridge.rs\<close>, \<open>veth.rs\<close>, \<open>nat.rs\<close>). The tools and the file system are parameters over a world;
  the set in the lease file is explicit.
\<close>

section \<open>Running a tool\<close>

record 'w net_os =
  nt_euid :: nat
  nt_path :: string                                     \<comment> \<open>\<open>PATH\<close>, empty when unset\<close>
  nt_is_file :: "string \<Rightarrow> 'w \<Rightarrow> bool"
  nt_output :: "string \<Rightarrow> string list \<Rightarrow> 'w \<Rightarrow> (string + nat option \<times> string \<times> string) \<times> 'w"
    \<comment> \<open>the error of the spawn, or exit code, stdout and stderr\<close>
  nt_write :: "string \<Rightarrow> string \<Rightarrow> 'w \<Rightarrow> (string + unit) \<times> 'w"
  nt_lower :: "string \<Rightarrow> string"
  nt_lease_error :: "'w \<Rightarrow> string option"                \<comment> \<open>writing the lease file fails\<close>

record 'w net_sys =
  ns_leases :: "u32 set option"                         \<comment> \<open>the lease file, \<open>None\<close> when missing or malformed\<close>
  ns_world :: 'w

definition path_join :: "string \<Rightarrow> string \<Rightarrow> string" where
  "path_join dir name = (if dir = [] then name else if last dir = CHR ''/'' then dir @ name else dir @ CHR ''/'' # name)"

definition which :: "'w net_os \<Rightarrow> string \<Rightarrow> 'w \<Rightarrow> string option" where
  "which os name w = find (\<lambda>p. nt_is_file os p w) (map (\<lambda>dir. path_join dir name)
     (split_on (CHR '':'') (nt_path os) @ [''/sbin'', ''/usr/sbin'', ''/usr/local/sbin'', ''/bin'', ''/usr/bin'']))"

definition net_available :: "'w net_os \<Rightarrow> 'w \<Rightarrow> bool" where
  "net_available os w \<longleftrightarrow> nt_euid os = 0 \<and> which os ''ip'' w \<noteq> None \<and>
     (which os ''iptables'' w \<noteq> None \<or> which os ''nft'' w \<noteq> None)"

definition show_code :: "nat option \<Rightarrow> string" where
  "show_code c = (case c of None \<Rightarrow> ''None'' | Some n \<Rightarrow> ''Some('' @ show_nat n @ '')'')"

definition run_tool :: "'w net_os \<Rightarrow> string \<Rightarrow> string list \<Rightarrow> 'w net_sys \<Rightarrow> (string + string) \<times> 'w net_sys" where
  "run_tool os prog args s =
     (let bin = (case which os prog (ns_world s) of Some p \<Rightarrow> p | None \<Rightarrow> prog);
          (r, w) = nt_output os bin args (ns_world s); s = s\<lparr>ns_world := w\<rparr>
      in case r of
        Inl e \<Rightarrow> (Inl (''spawn '' @ prog @ '' failed: '' @ e), s)
      | Inr (code, out, err) \<Rightarrow>
        if code = Some 0 then (Inr out, s)
        else (Inl (prog @ '' '' @ join_with '' '' args @ '' -> exit '' @ show_code code @ '': '' @ trim err), s))"

definition tolerated :: "string list" where
  "tolerated = [''file exists'', ''already exists'', ''already a member'', ''rule already exists'',
     ''chain already exists'', ''already assigned'']"

definition run_idempotent :: "'w net_os \<Rightarrow> string \<Rightarrow> string list \<Rightarrow> 'w net_sys \<Rightarrow> (string + unit) \<times> 'w net_sys" where
  "run_idempotent os prog args s = (case run_tool os prog args s of
       (Inr _, s) \<Rightarrow> (Inr (), s)
     | (Inl msg, s) \<Rightarrow>
       if list_ex (\<lambda>t. contains t (nt_lower os msg)) tolerated then (Inr (), s) else (Inl msg, s))"

text \<open>\<open>map_err\<close> with a prefix, the value dropped.\<close>

definition run_or :: "'w net_os \<Rightarrow> string \<Rightarrow> string list \<Rightarrow> string \<Rightarrow> 'w net_sys \<Rightarrow> (string + unit) \<times> 'w net_sys" where
  "run_or os prog args what s = (case run_tool os prog args s of
       (Inr _, s) \<Rightarrow> (Inr (), s)
     | (Inl e, s) \<Rightarrow> (Inl (what @ '': '' @ e), s))"

section \<open>Address leases\<close>

definition FIRST_HOST :: u32 where "FIRST_HOST = 2"
definition LAST_HOST :: u32 where "LAST_HOST = 65534"

definition host_to_dotted :: "u32 \<Rightarrow> string" where
  "host_to_dotted host =
     ''10.88.'' @ show_nat (unat (drop_bit 8 host AND 0xff)) @ ''.'' @ show_nat (unat (host AND 0xff))"

definition dotted_to_host :: "string \<Rightarrow> u32 option" where
  "dotted_to_host addr = (case split_on (CHR ''.'') addr of
       [a, b, c, d] \<Rightarrow>
         if a \<noteq> ''10'' \<or> b \<noteq> ''88'' then None
         else (case parse_u32 c of None \<Rightarrow> None
           | Some hi \<Rightarrow> (case parse_u32 d of None \<Rightarrow> None
               | Some lo \<Rightarrow> Some (push_bit 8 hi OR lo)))
     | _ \<Rightarrow> None)"

definition load_leases :: "u32 set option \<Rightarrow> u32 set" where
  "load_leases file = (case file of Some l \<Rightarrow> l | None \<Rightarrow> {})"

definition save_leases :: "'w net_os \<Rightarrow> u32 set \<Rightarrow> 'w net_sys \<Rightarrow> (string + unit) \<times> 'w net_sys" where
  "save_leases os l s = (case nt_lease_error os (ns_world s) of
       Some e \<Rightarrow> (Inl e, s) | None \<Rightarrow> (Inr (), s\<lparr>ns_leases := Some l\<rparr>))"

text \<open>The loop over \<open>FIRST_HOST..=LAST_HOST - 1\<close>; \<open>n\<close> hosts are left.\<close>

function first_free :: "nat \<Rightarrow> u32 \<Rightarrow> u32 set \<Rightarrow> u32 option" where
  "first_free n host l = (if n = 0 then None else if host \<notin> l then Some host else first_free (n - 1) (host + 1) l)"
  by auto
termination by (relation "measure fst") auto

declare first_free.simps [simp del]

definition pool_size :: nat where
  "pool_size = unat LAST_HOST - unat FIRST_HOST"

definition alloc :: "'w net_os \<Rightarrow> 'w net_sys \<Rightarrow> (string + string) \<times> 'w net_sys" where
  "alloc os s = (let l = load_leases (ns_leases s) in
     case first_free pool_size FIRST_HOST l of
       None \<Rightarrow> (Inl ''psroot: IP pool exhausted'', s)
     | Some host \<Rightarrow> (case save_leases os (insert host l) s of
           (Inl e, s) \<Rightarrow> (Inl (''save lease: '' @ e), s)
         | (Inr _, s) \<Rightarrow> (Inr (host_to_dotted host), s)))"

definition release :: "'w net_os \<Rightarrow> string \<Rightarrow> 'w net_sys \<Rightarrow> 'w net_sys" where
  "release os addr s = (case dotted_to_host addr of
       None \<Rightarrow> s
     | Some host \<Rightarrow> snd (save_leases os (load_leases (ns_leases s) - {host}) s))"

section \<open>Interface pairs\<close>

definition BRIDGE_NAME :: string where "BRIDGE_NAME = ''psroot0''"
definition BRIDGE_CIDR :: string where "BRIDGE_CIDR = ''10.88.0.0/16''"
definition BRIDGE_GATEWAY :: string where "BRIDGE_GATEWAY = ''10.88.0.1''"
definition BRIDGE_NETMASK_BITS :: nat where "BRIDGE_NETMASK_BITS = 16"

definition ascii_alnum :: "char \<Rightarrow> bool" where
  "ascii_alnum c \<longleftrightarrow> (let n = of_char c :: nat in 48 \<le> n \<and> n \<le> 57 \<or> 65 \<le> n \<and> n \<le> 90 \<or> 97 \<le> n \<and> n \<le> 122)"

definition iface_names :: "string \<Rightarrow> string \<times> string" where
  "iface_names cid = (let short = take 8 (filter ascii_alnum cid) in (''psh'' @ short, ''psc'' @ short))"

definition create_pair :: "'w net_os \<Rightarrow> string \<Rightarrow> 'w net_sys \<Rightarrow> (string + string \<times> string) \<times> 'w net_sys" where
  "create_pair os cid s =
     (let (host_if, peer_if) = iface_names cid;
          s = snd (run_tool os ''ip'' [''link'', ''del'', host_if] s) in
      st_bind (run_or os ''ip'' [''link'', ''add'', host_if, ''type'', ''veth'', ''peer'', ''name'', peer_if] ''create veth'' s) (\<lambda>_ s.
      st_bind (run_or os ''ip'' [''link'', ''set'', host_if, ''master'', BRIDGE_NAME] ''attach to bridge'' s) (\<lambda>_ s.
      st_bind (run_or os ''ip'' [''link'', ''set'', host_if, ''up''] ''host veth up'' s) (\<lambda>_ s.
      (Inr (host_if, peer_if), s)))))"

definition move_peer_into_netns :: "'w net_os \<Rightarrow> string \<Rightarrow> nat \<Rightarrow> 'w net_sys \<Rightarrow> (string + unit) \<times> 'w net_sys" where
  "move_peer_into_netns os peer_if pid s =
     run_or os ''ip'' [''link'', ''set'', peer_if, ''netns'', show_nat pid]
       (''move '' @ peer_if @ '' into netns '' @ show_nat pid) s"

definition with_mask :: "string \<Rightarrow> string" where
  "with_mask addr = addr @ ''/'' @ show_nat BRIDGE_NETMASK_BITS"

definition configure_inside :: "'w net_os \<Rightarrow> string \<Rightarrow> string \<Rightarrow> 'w net_sys \<Rightarrow> (string + unit) \<times> 'w net_sys" where
  "configure_inside os peer_if addr s =
     st_bind (run_or os ''ip'' [''link'', ''set'', ''lo'', ''up''] ''lo up'' s) (\<lambda>_ s.
     let s = snd (run_tool os ''ip'' [''link'', ''set'', peer_if, ''down''] s) in
     st_bind (run_or os ''ip'' [''link'', ''set'', peer_if, ''name'', ''eth0''] (''rename '' @ peer_if @ ''->eth0'') s) (\<lambda>_ s.
     st_bind (run_or os ''ip'' [''addr'', ''add'', with_mask addr, ''dev'', ''eth0''] ''assign addr'' s) (\<lambda>_ s.
     st_bind (run_or os ''ip'' [''link'', ''set'', ''eth0'', ''up''] ''eth0 up'' s) (\<lambda>_ s.
     run_or os ''ip'' [''route'', ''add'', ''default'', ''via'', BRIDGE_GATEWAY] ''default route'' s))))"

definition destroy :: "'w net_os \<Rightarrow> string \<Rightarrow> 'w net_sys \<Rightarrow> 'w net_sys" where
  "destroy os host_if s = snd (run_tool os ''ip'' [''link'', ''del'', host_if] s)"

section \<open>The bridge\<close>

text \<open>Check for a rule with \<open>-C\<close>, add it with \<open>-A\<close> when it is missing.\<close>

definition ensure_rule :: "'w net_os \<Rightarrow> string list \<Rightarrow> string list \<Rightarrow> string \<Rightarrow> 'w net_sys \<Rightarrow> (string + unit) \<times> 'w net_sys" where
  "ensure_rule os before spec what s = (case run_tool os ''iptables'' (before @ ''-C'' # spec) s of
       (Inr _, s) \<Rightarrow> (Inr (), s)
     | (Inl _, s) \<Rightarrow> run_or os ''iptables'' (before @ ''-A'' # spec) what s)"

definition write_file :: "'w net_os \<Rightarrow> string \<Rightarrow> string \<Rightarrow> 'w net_sys \<Rightarrow> (string + unit) \<times> 'w net_sys" where
  "write_file os path text s = (let (r, w) = nt_write os path text (ns_world s) in (r, s\<lparr>ns_world := w\<rparr>))"

definition route_localnet :: "string \<Rightarrow> string" where
  "route_localnet dev = ''/proc/sys/net/ipv4/conf/'' @ dev @ ''/route_localnet''"

definition one_line :: string where
  "one_line = ''1'' @ [CHR 0x0A]"

definition bridge_ensure :: "'w net_os \<Rightarrow> 'w net_sys \<Rightarrow> (string + unit) \<times> 'w net_sys" where
  "bridge_ensure os s =
     st_bind (run_idempotent os ''ip'' [''link'', ''add'', ''name'', BRIDGE_NAME, ''type'', ''bridge''] s) (\<lambda>_ s.
     st_bind (run_idempotent os ''ip'' [''addr'', ''add'', with_mask BRIDGE_GATEWAY, ''dev'', BRIDGE_NAME] s) (\<lambda>_ s.
     st_bind (run_or os ''ip'' [''link'', ''set'', BRIDGE_NAME, ''up''] ''bridge up'' s) (\<lambda>_ s.
     case write_file os ''/proc/sys/net/ipv4/ip_forward'' one_line s of
       (Inl e, s) \<Rightarrow> (Inl (''enable ip_forward: '' @ e), s)
     | (Inr _, s) \<Rightarrow>
       let s = snd (write_file os (route_localnet ''lo'') one_line s);
           s = snd (write_file os (route_localnet ''all'') one_line s);
           s = snd (write_file os (route_localnet BRIDGE_NAME) one_line s) in
       st_bind (ensure_rule os [''-t'', ''nat'']
         [''POSTROUTING'', ''-s'', ''127.0.0.0/8'', ''-d'', BRIDGE_CIDR, ''-j'', ''MASQUERADE''] ''install loopback SNAT'' s) (\<lambda>_ s.
       st_bind (ensure_rule os [''-t'', ''nat'']
         [''POSTROUTING'', ''-s'', BRIDGE_CIDR, ''!'', ''-o'', BRIDGE_NAME, ''-j'', ''MASQUERADE''] ''install MASQUERADE'' s) (\<lambda>_ s.
       st_bind (ensure_rule os [] [''FORWARD'', ''-i'', BRIDGE_NAME, ''-j'', ''ACCEPT''] ''install FORWARD'' s) (\<lambda>_ s.
       ensure_rule os [] [''FORWARD'', ''-o'', BRIDGE_NAME, ''-j'', ''ACCEPT''] ''install FORWARD'' s))))))"

section \<open>Port rules\<close>

definition rule_comment :: "string \<Rightarrow> string" where
  "rule_comment cid = ''psroot:'' @ cid"

definition rule_spec :: "string \<Rightarrow> string \<Rightarrow> u16 \<Rightarrow> string \<Rightarrow> u16 \<Rightarrow> string list" where
  "rule_spec cid host_bind host_port ip port =
     [''-p'', ''tcp''] @ (if host_bind = ''0.0.0.0'' \<or> host_bind = [] then [] else [''-d'', host_bind]) @
     [''--dport'', show_nat (unat host_port), ''-m'', ''comment'', ''--comment'', rule_comment cid,
      ''-j'', ''DNAT'', ''--to-destination'', ip @ '':'' @ show_nat (unat port)]"

definition nat_install :: "'w net_os \<Rightarrow> string \<Rightarrow> string \<Rightarrow> u16 \<Rightarrow> string \<Rightarrow> u16 \<Rightarrow> 'w net_sys \<Rightarrow> (string + unit) \<times> 'w net_sys" where
  "nat_install os cid host_bind host_port ip port s =
     (let add = (\<lambda>chain. run_or os ''iptables'' ([''-t'', ''nat'', ''-A'', chain] @ rule_spec cid host_bind host_port ip port)
            (''DNAT install ('' @ chain @ '')'')) in
      st_bind (add ''PREROUTING'' s) (\<lambda>_ s. add ''OUTPUT'' s))"

text \<open>\<open>str::lines\<close> and \<open>split_whitespace\<close>.\<close>

definition chomp_cr :: "string \<Rightarrow> string" where
  "chomp_cr l = (if l \<noteq> [] \<and> last l = CHR 0x0D then butlast l else l)"

definition text_lines :: "string \<Rightarrow> string list" where
  "text_lines s = (let ls = split_on (CHR 0x0A) s in
     map chomp_cr (butlast ls) @ (if last ls = [] then [] else [last ls]))"

function white_pieces :: "string \<Rightarrow> string list" where
  "white_pieces [] = [[]]"
| "white_pieces (c # cs) = (case find (\<lambda>w. starts_with w (c # cs)) white_space of
       Some w \<Rightarrow> [] # white_pieces (drop (length w - 1) cs)
     | None \<Rightarrow> (case white_pieces cs of [] \<Rightarrow> [[c]] | p # ps \<Rightarrow> (c # p) # ps))"
  by pat_completeness auto
termination by (relation "measure length") auto

definition split_whitespace :: "string \<Rightarrow> string list" where
  "split_whitespace s = filter (\<lambda>p. p \<noteq> []) (white_pieces s)"

text \<open>The deletion for one line of \<open>iptables-save\<close>.\<close>

definition delete_args :: "string \<Rightarrow> string \<Rightarrow> string list option" where
  "delete_args cid line =
     (if \<not> contains (rule_comment cid) line then None
      else case strip_prefix ''-A '' line of
        None \<Rightarrow> None
      | Some rest \<Rightarrow> (case split_whitespace rest of
            [] \<Rightarrow> None
          | chain # parts \<Rightarrow> Some ([''-t'', ''nat'', ''-D'', chain] @ parts)))"

fun delete_lines :: "'w net_os \<Rightarrow> string \<Rightarrow> string list \<Rightarrow> 'w net_sys \<Rightarrow> 'w net_sys" where
  "delete_lines os cid [] s = s"
| "delete_lines os cid (line # ls) s = delete_lines os cid ls
     (case delete_args cid line of None \<Rightarrow> s | Some args \<Rightarrow> snd (run_tool os ''iptables'' args s))"

definition nat_cleanup :: "'w net_os \<Rightarrow> string \<Rightarrow> 'w net_sys \<Rightarrow> 'w net_sys" where
  "nat_cleanup os cid s = (case run_tool os ''iptables-save'' [''-t'', ''nat''] s of
       (Inl _, s) \<Rightarrow> s
     | (Inr dump, s) \<Rightarrow> delete_lines os cid (text_lines dump) s)"

end
