(* ===== verification/Unix_Container.thy ===== *)
theory Unix_Container
  imports Unix_Net Config
begin

text \<open>
  Containers on Linux and macOS, \<open>crates/psroot-unix\<close>: the records on disk (\<open>state.rs\<close>,
  \<open>paths.rs\<close>), the lifecycle (\<open>lib.rs\<close>), the rootfs skeleton, and the host's side of a run on Linux
  (\<open>backend_linux.rs\<close>). Explicit are the record files and the lease file; everything else is a
  world behind the parameters. A forked child acts in its own right: the parent sees what its calls
  return.
\<close>

section \<open>Types\<close>

datatype UError = UIo string | UNix string | UJson string | UNotFound string | UInvalid string
  | UUnsupported string | UOther string

datatype Isolation = IsoMinimal | IsoStandard | IsoFull

fun show_isolation :: "Isolation \<Rightarrow> string" where
  "show_isolation IsoMinimal = ''minimal''"
| "show_isolation IsoStandard = ''standard''"
| "show_isolation IsoFull = ''full''"

definition isolation_of :: "string \<Rightarrow> Isolation" where
  "isolation_of s = (if s = ''minimal'' then IsoMinimal else if s = ''full'' then IsoFull else IsoStandard)"

datatype target = Linux | MacOs

record UCapabilities =
  uc_is_root :: bool
  uc_user_namespaces :: bool
  uc_cgroups_v2 :: bool
  uc_sandbox_exec :: bool
  uc_max_isolation :: Isolation

definition unix_capabilities :: "target \<Rightarrow> nat \<Rightarrow> (string \<Rightarrow> bool) \<Rightarrow> UCapabilities" where
  "unix_capabilities target euid exists =
     (let userns = (target = Linux \<and> exists ''/proc/self/ns/user'');
          sbx = (target = MacOs \<and> exists ''/usr/bin/sandbox-exec'') in
      \<lparr>uc_is_root = (euid = 0), uc_user_namespaces = userns,
       uc_cgroups_v2 = (target = Linux \<and> exists ''/sys/fs/cgroup/cgroup.controllers''), uc_sandbox_exec = sbx,
       uc_max_isolation = (if target = Linux \<and> userns then IsoFull
         else if target = MacOs \<and> sbx then IsoFull else IsoStandard)\<rparr>)"

record ContainerRecord =
  cr_id :: string
  cr_name :: "string option"
  cr_config :: ContainerConfig
  cr_state :: ContainerState
  cr_created_at :: string
  cr_started_at :: "string option"
  cr_stopped_at :: "string option"
  cr_exit_code :: "int option"
  cr_host_pid :: "nat option"
  cr_container_ip :: "string option"
  cr_isolation :: string
  cr_dir :: string

record ContainerInfo =
  in_id :: string
  in_name :: "string option"
  in_state :: ContainerState
  in_command :: "string list"
  in_created_at :: string
  in_container_ip :: "string option"

datatype wait_status = WExited nat | WSignaled nat | WOther

record 'w unix_os =
  uo_net :: "'w net_os"
  uo_state_root :: "'w \<Rightarrow> UError + string"
  uo_uuid :: "'w \<Rightarrow> string \<times> 'w"
  uo_mkdir :: "string \<Rightarrow> 'w \<Rightarrow> (UError + unit) \<times> 'w"
  uo_exists :: "string \<Rightarrow> 'w \<Rightarrow> bool"
  uo_symlink :: "string \<Rightarrow> 'w \<Rightarrow> bool"
  uo_write :: "string \<Rightarrow> string \<Rightarrow> 'w \<Rightarrow> (UError + unit) \<times> 'w"
  uo_remove_file :: "string \<Rightarrow> 'w \<Rightarrow> 'w"
  uo_remove_all :: "string \<Rightarrow> 'w \<Rightarrow> bool \<times> 'w"         \<comment> \<open>whether the directory is gone\<close>
  uo_save :: "string \<Rightarrow> 'w \<Rightarrow> UError option"             \<comment> \<open>saving the record of this id fails\<close>
  uo_dirs :: "'w \<Rightarrow> UError + string list"                \<comment> \<open>\<open>read_dir\<close> of the state root\<close>
  uo_now :: "'w \<Rightarrow> string"
  uo_shell :: "string option"                             \<comment> \<open>the variable \<open>SHELL\<close>\<close>
  uo_pid :: nat
  uo_pipes :: "'w \<Rightarrow> UError option"
  uo_fork :: "'w \<Rightarrow> (UError + nat) \<times> 'w"
  uo_forkpty :: "'w \<Rightarrow> (UError + nat) \<times> 'w"
  uo_await_ready :: "nat \<Rightarrow> 'w \<Rightarrow> 'w"
  uo_send_go :: "nat \<Rightarrow> 'w \<Rightarrow> 'w"
  uo_wait :: "nat \<Rightarrow> 'w \<Rightarrow> (UError + wait_status) \<times> 'w"
  uo_forward :: "nat \<Rightarrow> 'w \<Rightarrow> (UError + int) \<times> 'w"
  uo_kill :: "nat \<Rightarrow> 'w \<Rightarrow> 'w"

type_synonym records = "string \<rightharpoonup> (UError + ContainerRecord)"   \<comment> \<open>what reading each \<open>container.json\<close> yields\<close>

record 'w usys =
  us_net :: "'w net_sys"
  us_records :: records

definition on_net :: "('w net_sys \<Rightarrow> 'a \<times> 'w net_sys) \<Rightarrow> 'w usys \<Rightarrow> 'a \<times> 'w usys" where
  "on_net f s = (let (r, n) = f (us_net s) in (r, s\<lparr>us_net := n\<rparr>))"

definition net_do :: "('w net_sys \<Rightarrow> 'w net_sys) \<Rightarrow> 'w usys \<Rightarrow> 'w usys" where
  "net_do f s = s\<lparr>us_net := f (us_net s)\<rparr>"

definition uworld :: "'w usys \<Rightarrow> 'w" where
  "uworld s = ns_world (us_net s)"

definition ucall :: "('w \<Rightarrow> 'a \<times> 'w) \<Rightarrow> 'w usys \<Rightarrow> 'a \<times> 'w usys" where
  "ucall f = on_net (\<lambda>n. let (r, w) = f (ns_world n) in (r, n\<lparr>ns_world := w\<rparr>))"

definition udo :: "('w \<Rightarrow> 'w) \<Rightarrow> 'w usys \<Rightarrow> 'w usys" where
  "udo f = net_do (\<lambda>n. n\<lparr>ns_world := f (ns_world n)\<rparr>)"

section \<open>Records on disk\<close>

definition unix_container_dir :: "'w unix_os \<Rightarrow> string \<Rightarrow> 'w usys \<Rightarrow> UError + string" where
  "unix_container_dir os cid s = map_ok (\<lambda>root. path_join root cid) (uo_state_root os (uworld s))"

definition record_save :: "'w unix_os \<Rightarrow> ContainerRecord \<Rightarrow> 'w usys \<Rightarrow> (UError + unit) \<times> 'w usys" where
  "record_save os r s = (case uo_state_root os (uworld s) of
       Inl e \<Rightarrow> (Inl e, s)
     | Inr _ \<Rightarrow> (case uo_save os (cr_id r) (uworld s) of
           Some e \<Rightarrow> (Inl e, s)
         | None \<Rightarrow> (Inr (), s\<lparr>us_records := (us_records s)(cr_id r \<mapsto> Inr r)\<rparr>)))"

definition info_of :: "ContainerRecord \<Rightarrow> ContainerInfo" where
  "info_of r = \<lparr>in_id = cr_id r, in_name = cr_name r, in_state = cr_state r, in_command = cc_command (cr_config r),
     in_created_at = cr_created_at r, in_container_ip = cr_container_ip r\<rparr>"

fun list_from :: "records \<Rightarrow> string list \<Rightarrow> UError + ContainerInfo list" where
  "list_from rs [] = Inr []"
| "list_from rs (n # ns) = (case rs n of
       None \<Rightarrow> list_from rs ns
     | Some (Inr r) \<Rightarrow> map_ok ((#) (info_of r)) (list_from rs ns)
     | Some (Inl e) \<Rightarrow> (case e of UJson _ \<Rightarrow> list_from rs ns | _ \<Rightarrow> Inl e))"

definition record_list :: "'w unix_os \<Rightarrow> 'w usys \<Rightarrow> UError + ContainerInfo list" where
  "record_list os s = and_then (uo_state_root os (uworld s)) (\<lambda>_.
     and_then (uo_dirs os (uworld s)) (list_from (us_records s)))"

definition record_load :: "'w unix_os \<Rightarrow> string \<Rightarrow> 'w usys \<Rightarrow> UError + ContainerRecord" where
  "record_load os key s = and_then (uo_state_root os (uworld s)) (\<lambda>_.
     case us_records s key of
       Some r \<Rightarrow> r
     | None \<Rightarrow> and_then (record_list os s) (\<lambda>infos.
         case find (\<lambda>i. in_name i = Some key \<or> starts_with key (in_id i)) infos of
           None \<Rightarrow> Inl (UNotFound key)
         | Some i \<Rightarrow> (case us_records s (in_id i) of
               Some r \<Rightarrow> r | None \<Rightarrow> Inl (UIo ''entity not found''))))"

section \<open>The rootfs skeleton\<close>

definition self_contained :: "'w unix_os \<Rightarrow> string \<Rightarrow> 'w \<Rightarrow> bool" where
  "self_contained os rootfs w \<longleftrightarrow> uo_exists os (path_join rootfs ''usr/bin/env'') w \<or>
     uo_symlink os (path_join rootfs ''bin/sh'') w \<or> uo_exists os (path_join rootfs ''bin/sh'') w"

fun make_subdirs :: "'w unix_os \<Rightarrow> string \<Rightarrow> string list \<Rightarrow> 'w \<Rightarrow> (UError + unit) \<times> 'w" where
  "make_subdirs os rootfs [] w = (Inr (), w)"
| "make_subdirs os rootfs (d # ds) w =
     (let p = path_join rootfs d in
      if uo_exists os p w then make_subdirs os rootfs ds w
      else st_bind (uo_mkdir os p w) (\<lambda>_ w. make_subdirs os rootfs ds w))"

definition newline :: string where "newline = [CHR 0x0A]"

definition populate :: "'w unix_os \<Rightarrow> string \<Rightarrow> 'w \<Rightarrow> (UError + unit) \<times> 'w" where
  "populate os rootfs w =
     (let sc = self_contained os rootfs w; etc = path_join rootfs ''etc'' in
      st_bind (make_subdirs os rootfs [''home/container'', ''tmp'', ''etc'', ''var'', ''run'', ''dev'', ''proc'', ''sys'',
        ''usr'', ''bin''] w) (\<lambda>_ w.
      let resolv = path_join etc ''resolv.conf''; w = uo_remove_file os resolv w in
      st_bind (uo_write os resolv (''nameserver 1.1.1.1'' @ newline @ ''nameserver 8.8.8.8'' @ newline) w) (\<lambda>_ w.
      let hosts = path_join etc ''hosts'' in
      if sc \<or> uo_exists os hosts w then (Inr (), w)
      else uo_write os hosts (''127.0.0.1 localhost psroot'' @ newline @ ''::1 localhost psroot'' @ newline) w)))"

section \<open>Bridged networking of a run\<close>

record BridgedNet =
  bn_host_if :: string
  bn_peer_if :: string
  bn_ip :: string

definition try_prepare_bridged_net :: "'w unix_os \<Rightarrow> ContainerRecord \<Rightarrow> 'w usys \<Rightarrow> BridgedNet option \<times> 'w usys" where
  "try_prepare_bridged_net os r s =
     (let n = uo_net os in
      if cc_network (cr_config r) = NoNetwork \<or> \<not> net_available n (uworld s) then (None, s)
      else case on_net (bridge_ensure n) s of
        (Inl _, s) \<Rightarrow> (None, s)
      | (Inr _, s) \<Rightarrow> (case on_net (alloc n) s of
            (Inl _, s) \<Rightarrow> (None, s)
          | (Inr ip, s) \<Rightarrow> (case on_net (create_pair n (cr_id r)) s of
                (Inl _, s) \<Rightarrow> (None, net_do (release n ip) s)
              | (Inr (host_if, peer_if), s) \<Rightarrow>
                  (Some \<lparr>bn_host_if = host_if, bn_peer_if = peer_if, bn_ip = ip\<rparr>, s))))"

fun install_port_dnat :: "'w unix_os \<Rightarrow> string \<Rightarrow> string \<Rightarrow> PortMapping list \<Rightarrow> 'w usys \<Rightarrow> 'w usys" where
  "install_port_dnat os cid ip [] s = s"
| "install_port_dnat os cid ip (pm # pms) s = install_port_dnat os cid ip pms
     (snd (on_net (nat_install (uo_net os) cid (pm_host_bind pm) (pm_host_port pm) ip (pm_container_port pm)) s))"

definition store_ip :: "'w unix_os \<Rightarrow> string \<Rightarrow> string option \<Rightarrow> 'w usys \<Rightarrow> 'w usys" where
  "store_ip os cid ip s = (case record_load os cid s of
       Inl _ \<Rightarrow> s | Inr r \<Rightarrow> snd (record_save os (r\<lparr>cr_container_ip := ip\<rparr>) s))"

definition host_finalize_net :: "'w unix_os \<Rightarrow> BridgedNet option \<Rightarrow> nat \<Rightarrow> ContainerRecord \<Rightarrow> 'w usys \<Rightarrow> 'w usys" where
  "host_finalize_net os bnet child r s =
     (let s = udo (uo_await_ready os child) s;
          s = (case bnet of None \<Rightarrow> s
            | Some b \<Rightarrow>
              (let s = snd (on_net (move_peer_into_netns (uo_net os) (bn_peer_if b) child) s);
                   s = install_port_dnat os (cr_id r) (bn_ip b) (cc_ports (cr_config r)) s
               in store_ip os (cr_id r) (Some (bn_ip b)) s))
      in udo (uo_send_go os child) s)"

definition cleanup_bridged_net :: "'w unix_os \<Rightarrow> BridgedNet option \<Rightarrow> ContainerRecord \<Rightarrow> 'w usys \<Rightarrow> 'w usys" where
  "cleanup_bridged_net os bnet r s = (case bnet of None \<Rightarrow> s
     | Some b \<Rightarrow>
       (let n = uo_net os; s = net_do (nat_cleanup n (cr_id r)) s; s = net_do (destroy n (bn_host_if b)) s;
            s = net_do (release n (bn_ip b)) s
        in store_ip os (cr_id r) None s))"

section \<open>A run on Linux\<close>

text \<open>The files below the container's cgroup, in the order they are written.\<close>

definition cgroup_files :: "ResourceLimits \<Rightarrow> nat \<Rightarrow> (string \<times> string) list" where
  "cgroup_files l pid =
     (if rl_memory l > 0 then [(''memory.max'', show_nat (unat (rl_memory l)))] else []) @
     (if rl_max_processes l > 0 then [(''pids.max'', show_nat (unat (rl_max_processes l)))] else []) @
     (if rl_cpu_rate l > 0 \<and> rl_cpu_rate l < 10000
      then [(''cpu.max'', show_nat (unat (ucast (rl_cpu_rate l) * 10 :: u64)) @ '' 100000'')] else []) @
     [(''cgroup.procs'', show_nat pid)]"

fun write_all :: "'w unix_os \<Rightarrow> string \<Rightarrow> (string \<times> string) list \<Rightarrow> 'w \<Rightarrow> 'w" where
  "write_all os dir [] w = w"
| "write_all os dir ((name, text) # fs) w = write_all os dir fs (snd (uo_write os (path_join dir name) text w))"

definition setup_cgroup :: "'w unix_os \<Rightarrow> ContainerRecord \<Rightarrow> 'w \<Rightarrow> 'w" where
  "setup_cgroup os r w =
     (if \<not> uo_exists os ''/sys/fs/cgroup/cgroup.controllers'' w then w
      else let dir = ''/sys/fs/cgroup/psroot/'' @ cr_id r in
        case uo_mkdir os dir w of
          (Inl _, w) \<Rightarrow> w
        | (Inr _, w) \<Rightarrow> write_all os dir (cgroup_files (cc_resources (cr_config r)) (uo_pid os)) w)"

definition exit_code_of :: "wait_status \<Rightarrow> int" where
  "exit_code_of st = (case st of WExited c \<Rightarrow> int c | WSignaled sig \<Rightarrow> 128 + int sig | WOther \<Rightarrow> 0)"

text \<open>Only the wait of the non-interactive run has a \<open>?\<close>; \<open>forward\<close> is followed by the cleanup.\<close>

definition linux_spawn :: "'w unix_os \<Rightarrow> ContainerRecord \<Rightarrow> bool \<Rightarrow> 'w usys \<Rightarrow> (UError + int) \<times> 'w usys" where
  "linux_spawn os r interactive s =
     (let (bnet, s) = try_prepare_bridged_net os r s in
      case uo_pipes os (uworld s) of
        Some e \<Rightarrow> (Inl e, s)
      | None \<Rightarrow> (case ucall (if interactive then uo_forkpty os else uo_fork os) s of
            (Inl e, s) \<Rightarrow> (Inl e, s)
          | (Inr child, s) \<Rightarrow>
            (let s = host_finalize_net os bnet child r s in
             if interactive then
               let (res, s) = ucall (uo_forward os child) s in (res, cleanup_bridged_net os bnet r s)
             else case ucall (uo_wait os child) s of
               (Inl e, s) \<Rightarrow> (Inl e, s)
             | (Inr st, s) \<Rightarrow> (Inr (exit_code_of st), cleanup_bridged_net os bnet r s))))"

definition linux_run :: "'w unix_os \<Rightarrow> ContainerRecord \<Rightarrow> bool \<Rightarrow> 'w usys \<Rightarrow> (UError + int) \<times> 'w usys" where
  "linux_run os r interactive s =
     (let rootfs = cc_rootfs_path (cr_config r) in
      if \<not> uo_exists os rootfs (uworld s) then (Inl (UNotFound (''rootfs missing: '' @ rootfs)), s)
      else linux_spawn os r interactive (udo (setup_cgroup os r) s))"

section \<open>The lifecycle\<close>

record ucontainer =
  uc_record :: ContainerRecord
  uc_isolation :: Isolation

definition unix_create :: "'w unix_os \<Rightarrow> ContainerConfig \<Rightarrow> Isolation \<Rightarrow> 'w usys \<Rightarrow> (UError + ucontainer) \<times> 'w usys" where
  "unix_create os config isol s =
     (let (cid, s) = ucall (uo_uuid os) s in
      st_bind (unix_container_dir os cid s, s) (\<lambda>dir s.
      st_bind (ucall (uo_mkdir os dir) s) (\<lambda>_ s.
      let rootfs = (if cc_rootfs_path config = [] then path_join dir ''rootfs'' else cc_rootfs_path config) in
      st_bind (ucall (uo_mkdir os rootfs) s) (\<lambda>_ s.
      st_bind (ucall (populate os rootfs) s) (\<lambda>_ s.
      let r = \<lparr>cr_id = cid, cr_name = cc_name config, cr_config = config\<lparr>cc_rootfs_path := rootfs\<rparr>, cr_state = Created,
            cr_created_at = uo_now os (uworld s), cr_started_at = None, cr_stopped_at = None, cr_exit_code = None,
            cr_host_pid = None, cr_container_ip = None, cr_isolation = show_isolation isol, cr_dir = dir\<rparr> in
      st_bind (record_save os r s) (\<lambda>_ s. (Inr \<lparr>uc_record = r, uc_isolation = isol\<rparr>, s)))))))"

definition unix_load :: "'w unix_os \<Rightarrow> string \<Rightarrow> 'w usys \<Rightarrow> UError + ucontainer" where
  "unix_load os key s = map_ok (\<lambda>r. \<lparr>uc_record = r, uc_isolation = isolation_of (cr_isolation r)\<rparr>) (record_load os key s)"

text \<open>\<open>sandbox::run_synchronously\<close> of the platform is the parameter \<open>run_sync\<close>; on Linux it is \<open>linux_run\<close>.\<close>

type_synonym 'w runner = "ContainerRecord \<Rightarrow> bool \<Rightarrow> 'w usys \<Rightarrow> (UError + int) \<times> 'w usys"

definition running_record :: "string list \<Rightarrow> string \<Rightarrow> ContainerRecord \<Rightarrow> ContainerRecord" where
  "running_record cmd now r =
     (let r = (if cmd = [] then r else r\<lparr>cr_config := (cr_config r)\<lparr>cc_command := cmd\<rparr>\<rparr>) in
      r\<lparr>cr_state := Running, cr_started_at := Some now\<rparr>)"

definition stopped_record :: "string \<Rightarrow> (UError + int) \<Rightarrow> ContainerRecord \<Rightarrow> ContainerRecord" where
  "stopped_record now result r =
     (let r = r\<lparr>cr_state := Stopped, cr_stopped_at := Some now\<rparr> in
      case result of Inl _ \<Rightarrow> r | Inr code \<Rightarrow> r\<lparr>cr_exit_code := Some code\<rparr>)"

definition set_record :: "ContainerRecord \<Rightarrow> ucontainer \<Rightarrow> ucontainer" where
  "set_record r c = c\<lparr>uc_record := r\<rparr>"

definition unix_run :: "'w unix_os \<Rightarrow> 'w runner \<Rightarrow> string list \<Rightarrow> bool \<Rightarrow> ucontainer \<Rightarrow> 'w usys \<Rightarrow>
    (UError + int) \<times> ucontainer \<times> 'w usys" where
  "unix_run os run_sync cmd interactive c s =
     (let r = running_record cmd (uo_now os (uworld s)) (uc_record c) in
      case record_save os r s of
        (Inl e, s) \<Rightarrow> (Inl e, set_record r c, s)
      | (Inr _, s) \<Rightarrow>
        (let (result, s) = run_sync r interactive s;
             r = stopped_record (uo_now os (uworld s)) result r;
             (saved, s) = record_save os r s
         in (case saved of Inl e \<Rightarrow> Inl e | Inr _ \<Rightarrow> result, set_record r c, s)))"

definition default_shell_command :: "'w unix_os \<Rightarrow> string list" where
  "default_shell_command os = [case uo_shell os of Some sh \<Rightarrow> sh | None \<Rightarrow> ''/bin/sh'', ''-i'']"

definition unix_shell :: "'w unix_os \<Rightarrow> 'w runner \<Rightarrow> ucontainer \<Rightarrow> 'w usys \<Rightarrow> (UError + int) \<times> ucontainer \<times> 'w usys" where
  "unix_shell os run_sync c s =
     (let command = cc_command (cr_config (uc_record c)) in
      unix_run os run_sync (if command = [] \<or> command = [''cmd.exe''] then default_shell_command os else command)
        True c s)"

text \<open>The parent's half of \<open>start_detached\<close>; the child runs \<open>unix_run\<close> on its own copy and exits.\<close>

definition parent_record :: "nat \<Rightarrow> string \<Rightarrow> ContainerRecord \<Rightarrow> ContainerRecord" where
  "parent_record child now r = r\<lparr>cr_host_pid := Some child, cr_state := Running, cr_started_at := Some now\<rparr>"

definition start_detached :: "'w unix_os \<Rightarrow> ucontainer \<Rightarrow> 'w usys \<Rightarrow> (UError + unit) \<times> ucontainer \<times> 'w usys" where
  "start_detached os c s = (case ucall (uo_fork os) s of
       (Inl e, s) \<Rightarrow> (Inl e, c, s)
     | (Inr child, s) \<Rightarrow>
       (let r = parent_record child (uo_now os (uworld s)) (uc_record c); (saved, s) = record_save os r s in
        (saved, set_record r c, s)))"

definition unix_exec :: "'w runner \<Rightarrow> string list \<Rightarrow> ucontainer \<Rightarrow> 'w usys \<Rightarrow> (UError + int) \<times> 'w usys" where
  "unix_exec run_sync cmd c s =
     (let r = uc_record c in run_sync (r\<lparr>cr_config := (cr_config r)\<lparr>cc_command := cmd\<rparr>\<rparr>) False s)"

definition unix_stop :: "'w unix_os \<Rightarrow> ucontainer \<Rightarrow> 'w usys \<Rightarrow> (UError + unit) \<times> ucontainer \<times> 'w usys" where
  "unix_stop os c s =
     (let r = uc_record c;
          s = (case cr_host_pid r of None \<Rightarrow> s | Some pid \<Rightarrow> udo (uo_kill os pid) s);
          r = r\<lparr>cr_state := Stopped, cr_stopped_at := Some (uo_now os (uworld s))\<rparr>;
          (saved, s) = record_save os r s
      in (saved, set_record r c, s))"

text \<open>On Linux the network leftovers go first; a directory that cannot be removed stays.\<close>

definition remove_net :: "'w unix_os \<Rightarrow> ContainerRecord \<Rightarrow> 'w usys \<Rightarrow> 'w usys" where
  "remove_net os r s =
     (let n = uo_net os; s = net_do (nat_cleanup n (cr_id r)) s;
          s = net_do (destroy n (fst (iface_names (cr_id r)))) s
      in case cr_container_ip r of None \<Rightarrow> s | Some ip \<Rightarrow> net_do (release n ip) s)"

definition unix_remove :: "'w unix_os \<Rightarrow> target \<Rightarrow> ucontainer \<Rightarrow> 'w usys \<Rightarrow> (UError + unit) \<times> 'w usys" where
  "unix_remove os target c s =
     (let r = uc_record c; s = (if target = Linux then remove_net os r s else s) in
      if uo_exists os (cr_dir r) (uworld s) then
        let (gone, s) = ucall (uo_remove_all os (cr_dir r)) s in
        (Inr (), if gone then s\<lparr>us_records := (us_records s)(cr_id r := None)\<rparr> else s)
      else (Inr (), s))"

record ustats =
  ust_state :: ContainerState
  ust_host_pid :: "nat option"
  ust_exit_code :: "int option"
  ust_memory_bytes :: u64
  ust_cpu_user_us :: u64
  ust_cpu_system_us :: u64

definition unix_stats :: "ucontainer \<Rightarrow> ustats" where
  "unix_stats c = (let r = uc_record c in \<lparr>ust_state = cr_state r, ust_host_pid = cr_host_pid r,
     ust_exit_code = cr_exit_code r, ust_memory_bytes = 0, ust_cpu_user_us = 0, ust_cpu_system_us = 0\<rparr>)"

end
