(* ===== verification/Unix_Profile.thy ===== *)
theory Unix_Profile
  imports Unix_Container
begin

text \<open>
  The macOS side of \<open>crates/psroot-unix\<close> and what both platforms share before a child starts: sizes
  (\<open>parse.rs\<close>), the environment and the limits (\<open>sandbox.rs\<close>), the profile for \<open>sandbox-exec\<close> and the run
  (\<open>backend_macos.rs\<close>). A profile is a list of rules and its text; enforcing a text is Apple's, a
  parameter.
\<close>

section \<open>Sizes\<close>

definition size_unit :: "char \<Rightarrow> nat option" where
  "size_unit c = (if c \<in> {CHR ''k'', CHR ''K''} then Some 1024
     else if c \<in> {CHR ''m'', CHR ''M''} then Some (1024 * 1024)
     else if c \<in> {CHR ''g'', CHR ''G''} then Some (1024 * 1024 * 1024) else None)"

definition saturating_mul :: "nat \<Rightarrow> nat \<Rightarrow> u64" where
  "saturating_mul n m = of_nat (min (n * m) (2 ^ 64 - 1))"

definition parse_size :: "string \<Rightarrow> UError + u64" where
  "parse_size text = (let s = trim text in
     if s = [] then Inl (UInvalid ''empty size'')
     else let (num, mult) = (case size_unit (last s) of Some m \<Rightarrow> (butlast s, m) | None \<Rightarrow> (s, 1)) in
       case parse_uint (2 ^ 64) (trim num) of
         None \<Rightarrow> Inl (UInvalid (''bad size: '' @ s))
       | Some n \<Rightarrow> Inr (saturating_mul n mult))"

section \<open>The environment and the limits of the child\<close>

definition build_env :: "string option \<Rightarrow> ContainerRecord \<Rightarrow> string \<Rightarrow> (string \<times> string) list" where
  "build_env term r home =
     (let env = fold (\<lambda>(k, v). hm_insert k v)
        [(''HOME'', home), (''USER'', ''container''), (''LOGNAME'', ''container''), (''SHELL'', ''/bin/sh''),
         (''PATH'', ''/usr/local/bin:/usr/bin:/bin:/usr/sbin:/sbin''), (''PWD'', home), (''PS1'', ''psroot> ''),
         (''TERM'', case term of Some t \<Rightarrow> t | None \<Rightarrow> ''xterm-256color''), (''LANG'', ''C.UTF-8''),
         (''PSROOT_CONTAINER_ID'', cr_id r)] [];
          env = (case cr_name r of None \<Rightarrow> env | Some name \<Rightarrow> hm_insert ''PSROOT_CONTAINER_NAME'' name env)
      in fold (\<lambda>(k, v). hm_insert k v) (cc_env (cr_config r)) env)"

datatype rlimit = RLIMIT_AS | RLIMIT_DATA | RLIMIT_NPROC

text \<open>The calls of \<open>setrlimit\<close>, soft and hard limit alike; their failures are ignored.\<close>

definition apply_rlimits :: "target \<Rightarrow> ResourceLimits \<Rightarrow> (rlimit \<times> nat) list" where
  "apply_rlimits target l = (case target of
       Linux \<Rightarrow>
         (if rl_memory l > 0 then [(RLIMIT_AS, unat (rl_memory l)), (RLIMIT_DATA, unat (rl_memory l))] else []) @
         (if rl_max_processes l > 0 then [(RLIMIT_NPROC, unat (rl_max_processes l))] else [])
     | MacOs \<Rightarrow> [])"

section \<open>The profile\<close>

datatype path_filter = Subpath string | Literal string | SinglePath string | TtyRegex

datatype rule =
    Version
  | DenyDefault
  | Allow string                    \<comment> \<open>an operation without a filter\<close>
  | AllowSelf                       \<comment> \<open>signals to oneself\<close>
  | AllowPath string path_filter
  | DenyPath string path_filter

definition in_quotes :: "string \<Rightarrow> string" where
  "in_quotes s = CHR 0x22 # s @ [CHR 0x22]"

fun show_filter :: "path_filter \<Rightarrow> string" where
  "show_filter (Subpath p) = ''(subpath '' @ in_quotes p @ '')''"
| "show_filter (Literal p) = ''(literal '' @ in_quotes p @ '')''"
| "show_filter (SinglePath p) = ''(path '' @ in_quotes p @ '')''"
| "show_filter TtyRegex = ''(regex #'' @ in_quotes ''^/dev/tty[a-z0-9]+$'' @ '')''"

fun show_rule :: "rule \<Rightarrow> string" where
  "show_rule Version = ''(version 1)'' @ newline"
| "show_rule DenyDefault = ''(deny default)'' @ newline"
| "show_rule (Allow op) = ''(allow '' @ op @ '')'' @ newline"
| "show_rule AllowSelf = ''(allow signal (target self))'' @ newline"
| "show_rule (AllowPath op f) = ''(allow '' @ op @ '' '' @ show_filter f @ '')'' @ newline"
| "show_rule (DenyPath op f) = ''(deny '' @ op @ '' '' @ show_filter f @ '')'' @ newline"

definition MACOS_SYSTEM_READ_PATHS :: "string list" where
  "MACOS_SYSTEM_READ_PATHS = [''/usr'', ''/bin'', ''/sbin'', ''/System'', ''/Library'', ''/private/etc'',
     ''/private/var/db/timezone'', ''/private/var/db/dyld'', ''/private/var/select'', ''/dev/null'', ''/dev/zero'',
     ''/dev/random'', ''/dev/urandom'', ''/dev/tty'']"

definition third_party :: "string list" where
  "third_party = [''/opt/homebrew'', ''/opt/local'', ''/usr/local'']"

definition literal_reads :: "string list" where
  "literal_reads = [''/'', ''/private'', ''/private/var'', ''/private/var/db'', ''/private/var/folders'']"

definition shell_devices :: "string list" where
  "shell_devices = [''/dev/null'', ''/dev/zero'', ''/dev/random'', ''/dev/urandom'', ''/dev/tty'', ''/dev/dtracehelper'',
     ''/dev/stdin'', ''/dev/stdout'', ''/dev/stderr'']"

fun network_rules :: "NetworkAccess \<Rightarrow> rule list" where
  "network_rules NoNetwork = []"
| "network_rules Full = [Allow ''network*'', Allow ''system-socket'']"
| "network_rules _ = [Allow ''network-outbound'', Allow ''system-socket'', Allow ''network*'']"

definition profile_rules :: "(string \<Rightarrow> bool) \<Rightarrow> string option \<Rightarrow> NetworkAccess \<Rightarrow> string \<Rightarrow> rule list" where
  "profile_rules exists home network rootfs =
     [Version, DenyDefault, Allow ''process-fork'', Allow ''process-exec'', AllowSelf, Allow ''sysctl-read'',
      Allow ''mach-lookup'', Allow ''ipc-posix-shm'', Allow ''file-read-metadata''] @
     map (\<lambda>p. AllowPath ''file-read*'' (Subpath p)) MACOS_SYSTEM_READ_PATHS @
     concat (map (\<lambda>p. [AllowPath ''file-read*'' (Subpath p), AllowPath ''file*'' (Subpath p)]) (filter exists third_party)) @
     map (\<lambda>p. AllowPath ''file-read*'' (Literal p)) literal_reads @
     (case home of None \<Rightarrow> [] | Some h \<Rightarrow> [DenyPath ''file*'' (Subpath h)]) @
     [DenyPath ''file*'' (Subpath ''/Users''), DenyPath ''file*'' (Subpath ''/Volumes''),
      AllowPath ''file*'' (Subpath rootfs)] @
     map (\<lambda>d. AllowPath ''file*'' (SinglePath d)) shell_devices @
     [AllowPath ''file*'' (Subpath ''/dev/ptmx''), AllowPath ''file*'' TtyRegex] @
     network_rules network"

definition generate_profile :: "(string \<Rightarrow> bool) \<Rightarrow> string option \<Rightarrow> ContainerConfig \<Rightarrow> string \<Rightarrow> string" where
  "generate_profile exists home config rootfs = concat (map show_rule (profile_rules exists home (cc_network config) rootfs))"

section \<open>A run on macOS\<close>

record 'w mac_os =
  mo_unix :: "'w unix_os"
  mo_home :: "string option"                                   \<comment> \<open>\<open>dirs::home_dir\<close>\<close>
  mo_term :: "string option"
  mo_spawn :: "string list \<Rightarrow> (string \<times> string) list \<Rightarrow> string \<Rightarrow> 'w \<Rightarrow> (UError + wait_status) \<times> 'w"
    \<comment> \<open>a command with its environment and directory, and the status it ends with\<close>
  mo_spawn_pty :: "string list \<Rightarrow> (string \<times> string) list \<Rightarrow> string \<Rightarrow> 'w \<Rightarrow> (UError + nat) \<times> 'w"

definition status_code :: "wait_status \<Rightarrow> int" where
  "status_code st = (case st of WExited c \<Rightarrow> int c | WSignaled sig \<Rightarrow> 128 + int sig | WOther \<Rightarrow> 128)"

definition command_or_shell :: "'w unix_os \<Rightarrow> ContainerRecord \<Rightarrow> string list" where
  "command_or_shell os r = (if cc_command (cr_config r) = [] then default_shell_command os else cc_command (cr_config r))"

definition sandboxed :: "'w unix_os \<Rightarrow> Isolation \<Rightarrow> 'w \<Rightarrow> bool" where
  "sandboxed os isol w \<longleftrightarrow> isol \<noteq> IsoMinimal \<and> uo_exists os ''/usr/bin/sandbox-exec'' w"

definition macos_argv :: "'w unix_os \<Rightarrow> Isolation \<Rightarrow> string \<Rightarrow> ContainerRecord \<Rightarrow> 'w \<Rightarrow> string list" where
  "macos_argv os isol profile_path r w =
     (if sandboxed os isol w then [''/usr/bin/sandbox-exec'', ''-f'', profile_path] else []) @ command_or_shell os r"

definition run_argv :: "'w mac_os \<Rightarrow> string list \<Rightarrow> (string \<times> string) list \<Rightarrow> string \<Rightarrow> bool \<Rightarrow> 'w usys \<Rightarrow> (UError + int) \<times> 'w usys" where
  "run_argv mo argv env cwd interactive s =
     (if interactive then
        st_bind (ucall (mo_spawn_pty mo argv env cwd) s) (\<lambda>child s. ucall (uo_forward (mo_unix mo) child) s)
      else st_bind (ucall (mo_spawn mo argv env cwd) s) (\<lambda>st s. (Inr (status_code st), s)))"

definition macos_run :: "'w mac_os \<Rightarrow> ContainerRecord \<Rightarrow> Isolation \<Rightarrow> bool \<Rightarrow> 'w usys \<Rightarrow> (UError + int) \<times> 'w usys" where
  "macos_run mo r isol interactive s =
     (let os = mo_unix mo; rootfs = cc_rootfs_path (cr_config r); home = path_join rootfs ''home/container'' in
      if \<not> uo_exists os rootfs (uworld s) then (Inl (UNotFound (''rootfs missing: '' @ rootfs)), s)
      else st_bind (ucall (uo_mkdir os home) s) (\<lambda>_ s.
        st_bind (unix_container_dir os (cr_id r) s, s) (\<lambda>dir s.
        let profile_path = path_join dir ''sandbox.sb'';
            profile = generate_profile (\<lambda>p. uo_exists os p (uworld s)) (mo_home mo) (cr_config r) rootfs in
        st_bind (ucall (uo_write os profile_path profile) s) (\<lambda>_ s.
        run_argv mo (macos_argv os isol profile_path r (uworld s)) (build_env (mo_term mo) r home) home interactive s))))"

end
