(* ===== verification/Unix_Confine.thy ===== *)
theory Unix_Confine
  imports Unix_Profile
begin

text \<open>
  What the profile of a macOS container permits, with rules decided as the comment in
  \<open>generate_profile\<close> says: the last rule that matches wins.
\<close>

section \<open>Deciding a request\<close>

datatype request = ReadData string | ReadMeta string | WriteData string | Network

fun request_path :: "request \<Rightarrow> string option" where
  "request_path (ReadData p) = Some p"
| "request_path (ReadMeta p) = Some p"
| "request_path (WriteData p) = Some p"
| "request_path Network = None"

fun op_covers :: "string \<Rightarrow> request \<Rightarrow> bool" where
  "op_covers op (ReadData p) \<longleftrightarrow> op \<in> {''file*'', ''file-read*'', ''file-read-data''}"
| "op_covers op (ReadMeta p) \<longleftrightarrow> op \<in> {''file*'', ''file-read*'', ''file-read-metadata''}"
| "op_covers op (WriteData p) \<longleftrightarrow> op \<in> {''file*'', ''file-write*'', ''file-write-data''}"
| "op_covers op Network \<longleftrightarrow> op \<in> {''network*'', ''network-outbound''}"

definition below :: "string \<Rightarrow> string \<Rightarrow> bool" where
  "below dir p \<longleftrightarrow> p = dir \<or> starts_with (path_join dir '''') p"

fun filter_covers :: "path_filter \<Rightarrow> string \<Rightarrow> bool" where
  "filter_covers (Subpath d) p \<longleftrightarrow> below d p"
| "filter_covers (Literal d) p \<longleftrightarrow> p = d"
| "filter_covers (SinglePath d) p \<longleftrightarrow> p = d"
| "filter_covers TtyRegex p \<longleftrightarrow> (case strip_prefix ''/dev/tty'' p of None \<Rightarrow> False
     | Some rest \<Rightarrow> rest \<noteq> [] \<and> list_all (\<lambda>c. ascii_alnum c \<and> ascii_lower c = c) rest)"

fun covers :: "rule \<Rightarrow> request \<Rightarrow> bool" where
  "covers (Allow op) q \<longleftrightarrow> op_covers op q"
| "covers (AllowPath op f) q \<longleftrightarrow> op_covers op q \<and> (case request_path q of None \<Rightarrow> False | Some p \<Rightarrow> filter_covers f p)"
| "covers (DenyPath op f) q \<longleftrightarrow> op_covers op q \<and> (case request_path q of None \<Rightarrow> False | Some p \<Rightarrow> filter_covers f p)"
| "covers DenyDefault q \<longleftrightarrow> True"
| "covers Version q \<longleftrightarrow> False"
| "covers AllowSelf q \<longleftrightarrow> False"

fun permits :: "rule \<Rightarrow> bool" where
  "permits (Allow op) = True"
| "permits (AllowPath op f) = True"
| "permits AllowSelf = True"
| "permits _ = False"

definition last_match :: "rule list \<Rightarrow> request \<Rightarrow> bool" where
  "last_match rules q = (case find (\<lambda>r. covers r q) (rev rules) of None \<Rightarrow> False | Some r \<Rightarrow> permits r)"

text \<open>Where no rule of the later part matches, the earlier part decides.\<close>

lemma last_match_append:
  "last_match (rs @ rs') q =
     (if \<exists>r \<in> set rs'. covers r q then last_match rs' q else last_match rs q)"
proof (cases "\<exists>r \<in> set rs'. covers r q")
  case True
  then obtain r where "find (\<lambda>r. covers r q) (rev rs') = Some r"
    by (metis find_None_iff not_Some_eq set_rev)
  moreover have "find P (xs @ ys) = (case find P xs of None \<Rightarrow> find P ys | Some x \<Rightarrow> Some x)" for P and xs ys :: "rule list"
    by (induction xs) auto
  ultimately show ?thesis using True by (simp add: last_match_def)
next
  case False
  then have "find (\<lambda>r. covers r q) (rev rs') = None" by (simp add: find_None_iff)
  moreover have "find P (xs @ ys) = (case find P xs of None \<Rightarrow> find P ys | Some x \<Rightarrow> Some x)" for P and xs ys :: "rule list"
    by (induction xs) auto
  ultimately show ?thesis using False by (simp add: last_match_def)
qed

lemma last_match_Nil [simp]: "last_match [] q = False"
  by (simp add: last_match_def)

lemma last_match_Cons:
  "last_match (r # rs) q = (if \<exists>r' \<in> set rs. covers r' q then last_match rs q else covers r q \<and> permits r)"
  using last_match_append [of "[r]" rs q] by (auto simp: last_match_def)

lemma last_match_all_permit:
  "\<forall>r \<in> set rs. permits r \<Longrightarrow> last_match rs q \<longleftrightarrow> (\<exists>r \<in> set rs. covers r q)"
  by (induction rs) (auto simp: last_match_Cons)

lemma last_match_all_deny: "\<forall>r \<in> set rs. \<not> permits r \<Longrightarrow> \<not> last_match rs q"
  by (induction rs) (auto simp: last_match_Cons)

section \<open>The parts of the profile\<close>

definition base_rules :: "(string \<Rightarrow> bool) \<Rightarrow> rule list" where
  "base_rules exists =
     [Allow ''process-fork'', Allow ''process-exec'', AllowSelf, Allow ''sysctl-read'',
      Allow ''mach-lookup'', Allow ''ipc-posix-shm'', Allow ''file-read-metadata''] @
     map (\<lambda>p. AllowPath ''file-read*'' (Subpath p)) MACOS_SYSTEM_READ_PATHS @
     concat (map (\<lambda>p. [AllowPath ''file-read*'' (Subpath p), AllowPath ''file*'' (Subpath p)]) (filter exists third_party)) @
     map (\<lambda>p. AllowPath ''file-read*'' (Literal p)) literal_reads"

definition deny_rules :: "string option \<Rightarrow> rule list" where
  "deny_rules home = map (\<lambda>d. DenyPath ''file*'' (Subpath d)) (case home of None \<Rightarrow> [] | Some h \<Rightarrow> [h]) @
     [DenyPath ''file*'' (Subpath ''/Users''), DenyPath ''file*'' (Subpath ''/Volumes'')]"

definition own_rules :: "NetworkAccess \<Rightarrow> string \<Rightarrow> rule list" where
  "own_rules network rootfs =
     [AllowPath ''file*'' (Subpath rootfs)] @ map (\<lambda>d. AllowPath ''file*'' (SinglePath d)) shell_devices @
     [AllowPath ''file*'' (Subpath ''/dev/ptmx''), AllowPath ''file*'' TtyRegex] @ network_rules network"

lemma profile_parts:
  "profile_rules exists home network rootfs =
     [Version, DenyDefault] @ base_rules exists @ deny_rules home @ own_rules network rootfs"
  by (simp add: profile_rules_def base_rules_def deny_rules_def own_rules_def split: option.split)

text \<open>The devices a shell may use.\<close>

definition device :: "string \<Rightarrow> bool" where
  "device p \<longleftrightarrow> p \<in> set shell_devices \<or> below ''/dev/ptmx'' p \<or> filter_covers TtyRegex p"

definition host_private :: "string option \<Rightarrow> string \<Rightarrow> bool" where
  "host_private home p \<longleftrightarrow> (case home of None \<Rightarrow> False | Some h \<Rightarrow> below h p) \<or> below ''/Users'' p \<or> below ''/Volumes'' p"

lemma own_permit: "\<forall>r \<in> set (own_rules network rootfs). permits r"
  by (cases network) (auto simp: own_rules_def)

lemma base_permit: "\<forall>r \<in> set (base_rules exists). permits r"
  by (auto simp: base_rules_def)

lemma deny_deny: "\<forall>r \<in> set (deny_rules home). \<not> permits r"
  by (auto simp: deny_rules_def split: option.splits)

lemma file_op: "request_path q = Some p \<Longrightarrow> op_covers ''file*'' q"
  by (cases q) auto

lemma own_covers:
  assumes "request_path q = Some p"
  shows "(\<exists>r \<in> set (own_rules network rootfs). covers r q) \<longleftrightarrow> below rootfs p \<or> device p"
proof -
  have "\<not> (\<exists>r \<in> set (network_rules network). covers r q)"
    using assms by (cases network; cases q) auto
  then show ?thesis
    using assms file_op [OF assms] by (auto simp: own_rules_def device_def bex_Un simp del: filter_covers.simps(4))
qed

lemma deny_covers:
  assumes "request_path q = Some p"
  shows "(\<exists>r \<in> set (deny_rules home). covers r q) \<longleftrightarrow> host_private home p"
  using assms file_op [OF assms] by (auto simp: deny_rules_def host_private_def split: option.splits)

lemma base_covers_write:
  "(\<exists>r \<in> set (base_rules exists). covers r (WriteData p)) \<longleftrightarrow> (\<exists>d \<in> set third_party. exists d \<and> below d p)"
  by (auto simp: base_rules_def bex_Un)

lemma base_covers_read:
  "(\<exists>r \<in> set (base_rules exists). covers r (ReadData p)) \<longleftrightarrow>
     (\<exists>d \<in> set MACOS_SYSTEM_READ_PATHS. below d p) \<or> (\<exists>d \<in> set third_party. exists d \<and> below d p) \<or> p \<in> set literal_reads"
  by (auto simp: base_rules_def bex_Un)

lemma profile_decides:
  assumes "request_path q = Some p"
  shows "last_match (profile_rules exists home network rootfs) q \<longleftrightarrow>
    below rootfs p \<or> device p \<or> \<not> host_private home p \<and> (\<exists>r \<in> set (base_rules exists). covers r q)"
proof -
  have base: "last_match ([Version, DenyDefault] @ base_rules exists) q \<longleftrightarrow> (\<exists>r \<in> set (base_rules exists). covers r q)"
    using last_match_all_permit [OF base_permit] by (auto simp: last_match_append last_match_Cons)
  have "last_match ([Version, DenyDefault] @ base_rules exists @ deny_rules home) q \<longleftrightarrow>
      \<not> host_private home p \<and> (\<exists>r \<in> set (base_rules exists). covers r q)"
    using base last_match_all_deny [OF deny_deny, of home q] deny_covers [OF assms, of home]
      last_match_append [of "[Version, DenyDefault] @ base_rules exists" "deny_rules home" q] by auto
  then show ?thesis
    using last_match_all_permit [OF own_permit, of network rootfs q] own_covers [OF assms, of network rootfs]
      last_match_append [of "[Version, DenyDefault] @ base_rules exists @ deny_rules home" "own_rules network rootfs" q]
    unfolding profile_parts by auto
qed

lemma profile_network:
  "last_match (profile_rules exists home network rootfs) Network \<longleftrightarrow> network \<noteq> NoNetwork"
proof -
  have "\<not> (\<exists>r \<in> set (base_rules exists). covers r Network)" "\<not> (\<exists>r \<in> set (deny_rules home). covers r Network)"
    by (auto simp: base_rules_def deny_rules_def split: option.splits)
  moreover have "(\<exists>r \<in> set (own_rules network rootfs). covers r Network) \<longleftrightarrow> network \<noteq> NoNetwork"
    by (cases network) (auto simp: own_rules_def)
  ultimately show ?thesis
    using last_match_all_permit [OF own_permit, of network rootfs Network]
    unfolding profile_parts last_match_append by (auto simp: last_match_Cons)
qed

section \<open>What a sandboxed child may do\<close>

lemma profile_write:
  "last_match (profile_rules exists home network rootfs) (WriteData p) \<longleftrightarrow>
     below rootfs p \<or> device p \<or> \<not> host_private home p \<and> (\<exists>d \<in> set third_party. exists d \<and> below d p)"
  by (simp add: profile_decides base_covers_write)

lemma profile_read:
  "last_match (profile_rules exists home network rootfs) (ReadData p) \<longleftrightarrow>
     below rootfs p \<or> device p \<or> \<not> host_private home p \<and>
       ((\<exists>d \<in> set MACOS_SYSTEM_READ_PATHS. below d p) \<or> (\<exists>d \<in> set third_party. exists d \<and> below d p) \<or> p \<in> set literal_reads)"
  by (simp add: profile_decides base_covers_read)

lemma profile_meta:
  "last_match (profile_rules exists home network rootfs) (ReadMeta p) \<longleftrightarrow> below rootfs p \<or> device p \<or> \<not> host_private home p"
proof -
  have "\<exists>r \<in> set (base_rules exists). covers r (ReadMeta p)" by (simp add: base_rules_def)
  then show ?thesis by (simp add: profile_decides)
qed

text \<open>
  \<open>sandbox-exec\<close> reads the text as the rules it was printed from. Nothing escapes a quote in a path, so
  this fails for paths with one.
\<close>

definition reads_rules :: "(string \<Rightarrow> request \<Rightarrow> bool) \<Rightarrow> rule list \<Rightarrow> bool" where
  "reads_rules enforce rules \<longleftrightarrow> (\<forall>q. enforce (concat (map show_rule rules)) q = last_match rules q)"


definition demo_enforce :: "string \<Rightarrow> request \<Rightarrow> bool" where
  "demo_enforce contents = last_match (profile_rules (\<lambda>_. False) (Some ''/Users/me'') NoNetwork ''/Users/me/c'')"

definition demo_mac_config :: ContainerConfig where
  "demo_mac_config = \<lparr>cc_name = None, cc_rootfs_path = ''/Users/me/c'', cc_command = [], cc_env = [], cc_resources = default_limits,
     cc_volumes = [], cc_hostname = None, cc_working_directory = [], cc_silo = False, cc_tools = [], cc_shares = [],
     cc_security_profile = DefaultProfile, cc_network = NoNetwork, cc_ports = []\<rparr>"


end
