(* ===== verification/Unix_Child.thy ===== *)
theory Unix_Child
  imports Unix_Profile
begin

text \<open>
  The child of a run on Linux, \<open>child_setup_and_exec\<close> of \<open>crates/psroot-unix/src/backend_linux.rs\<close>:
  namespaces, the handshake with the parent, the second fork, mounts, \<open>pivot_root\<close>, devices and
  \<open>exec\<close>. The system calls are a datatype; whether one succeeds is the kernel's, a parameter over a
  world.
\<close>

section \<open>System calls\<close>

datatype clone_flag = CLONE_NEWNS | CLONE_NEWUTS | CLONE_NEWIPC | CLONE_NEWPID | CLONE_NEWNET | CLONE_NEWUSER

datatype mount_flag = MS_REC | MS_PRIVATE | MS_BIND | MS_RDONLY | MS_REMOUNT | MS_NOSUID | MS_NOEXEC

datatype syscall =
    Unshare "clone_flag list"
  | WriteFile string string
  | Ready                           \<comment> \<open>to the parent\<close>
  | AwaitGo
  | Mount "string option" string "string option" "mount_flag list" "string option"
  | MkdirAll string
  | PivotRoot string string
  | Chdir string
  | UmountDetach string
  | RemoveDir string
  | RemoveFile string
  | Symlink string string
  | Umask nat
  | Mknod string nat nat nat        \<comment> \<open>mode, major and minor\<close>
  | Chmod string nat
  | SetHostname string
  | SetRlimit rlimit nat

datatype forked = ForkFails | InParent nat | InChild

record 'w kernel =
  k_call :: "syscall \<Rightarrow> 'w \<Rightarrow> bool \<times> 'w"
  k_net :: "'w net_os"
  k_exists :: "string \<Rightarrow> 'w \<Rightarrow> bool"
  k_is_dir :: "string \<Rightarrow> 'w \<Rightarrow> bool"
  k_symlink :: "string \<Rightarrow> 'w \<Rightarrow> bool"
  k_euid :: "'w \<Rightarrow> nat"
  k_uid :: "'w \<Rightarrow> nat"
  k_gid :: "'w \<Rightarrow> nat"
  k_fork :: "'w \<Rightarrow> forked \<times> 'w"
  k_wait :: "nat \<Rightarrow> 'w \<Rightarrow> wait_status option \<times> 'w"
  k_exec :: "string list \<Rightarrow> (string \<times> string) list \<Rightarrow> 'w \<Rightarrow> bool"
  k_term :: "string option"

datatype child_end =
    Runs "string list" "(string \<times> string) list"     \<comment> \<open>what \<open>exec\<close> started, with its environment\<close>
  | Exits int
  | ChildPanics

text \<open>Most results are ignored.\<close>

definition sys :: "'w kernel \<Rightarrow> syscall \<Rightarrow> 'w net_sys \<Rightarrow> 'w net_sys" where
  "sys k c s = s\<lparr>ns_world := snd (k_call k c (ns_world s))\<rparr>"

definition sys_ok :: "'w kernel \<Rightarrow> syscall \<Rightarrow> 'w net_sys \<Rightarrow> bool \<times> 'w net_sys" where
  "sys_ok k c s = (let (r, w) = k_call k c (ns_world s) in (r, s\<lparr>ns_world := w\<rparr>))"

definition sys_all :: "'w kernel \<Rightarrow> syscall list \<Rightarrow> 'w net_sys \<Rightarrow> 'w net_sys" where
  "sys_all k cs s = fold (sys k) cs s"

section \<open>Namespaces\<close>

definition clone_flags :: "Isolation \<Rightarrow> bool \<Rightarrow> NetworkAccess \<Rightarrow> nat \<Rightarrow> clone_flag list" where
  "clone_flags isol bridged network euid =
     [CLONE_NEWNS, CLONE_NEWUTS, CLONE_NEWIPC] @
     (if isol = IsoMinimal then []
      else [CLONE_NEWPID] @ (if bridged \<or> network = NoNetwork \<or> isol = IsoFull then [CLONE_NEWNET] else []) @
           (if euid \<noteq> 0 then [CLONE_NEWUSER] else []))"

definition write_uid_gid_maps :: "'w kernel \<Rightarrow> 'w net_sys \<Rightarrow> 'w net_sys" where
  "write_uid_gid_maps k s = (let uid = k_uid k (ns_world s); gid = k_gid k (ns_world s) in
     sys_all k [WriteFile ''/proc/self/setgroups'' ''deny'',
       WriteFile ''/proc/self/uid_map'' (''0 '' @ show_nat uid @ '' 1''),
       WriteFile ''/proc/self/gid_map'' (''0 '' @ show_nat gid @ '' 1'')] s)"

definition enter_namespaces :: "'w kernel \<Rightarrow> clone_flag list \<Rightarrow> 'w net_sys \<Rightarrow> 'w net_sys" where
  "enter_namespaces k flags s = (let (entered, s) = sys_ok k (Unshare flags) s;
       s = (if entered \<and> CLONE_NEWUSER \<in> set flags then write_uid_gid_maps k s else s)
     in sys_all k [Ready, AwaitGo] s)"

definition inner_code :: "wait_status option \<Rightarrow> int" where
  "inner_code st = (case st of Some (WExited c) \<Rightarrow> int c | Some (WSignaled sig) \<Rightarrow> 128 + int sig | _ \<Rightarrow> 0)"

section \<open>The file system\<close>

definition host_dirs :: "string list" where
  "host_dirs = [''/bin'', ''/sbin'', ''/usr'', ''/lib'', ''/lib64'', ''/lib32'', ''/libx32'', ''/etc/ssl'', ''/etc/alternatives'',
     ''/etc/ld.so.cache'', ''/etc/ld.so.conf'', ''/etc/ld.so.conf.d'', ''/etc/nsswitch.conf'', ''/etc/passwd'', ''/etc/group'',
     ''/etc/shadow'']"

definition parent_path :: "string \<Rightarrow> string" where
  "parent_path p = (case dropWhile (\<lambda>c. c \<noteq> CHR ''/'') (rev p) of [] \<Rightarrow> [] | _ # cs \<Rightarrow> rev cs)"

definition bind_host :: "'w kernel \<Rightarrow> string \<Rightarrow> string \<Rightarrow> 'w net_sys \<Rightarrow> 'w net_sys" where
  "bind_host k rs src s =
     (if \<not> k_exists k src (ns_world s) then s
      else let dst = rs @ src in
        sys_all k
          ((if k_is_dir k src (ns_world s) then [MkdirAll dst] else [MkdirAll (parent_path dst), WriteFile dst []]) @
           [Mount (Some src) dst (Some ''none'') [MS_BIND, MS_REC, MS_RDONLY] None,
            Mount None dst None [MS_BIND, MS_REMOUNT, MS_RDONLY] None]) s)"

fun bind_hosts :: "'w kernel \<Rightarrow> string \<Rightarrow> string list \<Rightarrow> 'w net_sys \<Rightarrow> 'w net_sys" where
  "bind_hosts k rs [] s = s"
| "bind_hosts k rs (src # srcs) s = bind_hosts k rs srcs (bind_host k rs src s)"

definition child_self_contained :: "'w kernel \<Rightarrow> string \<Rightarrow> 'w \<Rightarrow> bool" where
  "child_self_contained k rootfs w \<longleftrightarrow> k_exists k (path_join rootfs ''usr/bin/env'') w \<or>
     k_symlink k (path_join rootfs ''bin/sh'') w \<or> k_exists k (path_join rootfs ''bin/sh'') w"

definition pivot :: "'w kernel \<Rightarrow> string \<Rightarrow> 'w net_sys \<Rightarrow> 'w net_sys" where
  "pivot k rs s = (let put_old = rs @ ''/.psroot_old''; s = sys k (MkdirAll put_old) s;
       (moved, s) = sys_ok k (PivotRoot rs put_old) s
     in if moved then sys_all k [Chdir ''/'', UmountDetach ''/.psroot_old'', RemoveDir ''/.psroot_old''] s else s)"

definition enter_rootfs :: "'w kernel \<Rightarrow> string \<Rightarrow> 'w net_sys \<Rightarrow> 'w net_sys" where
  "enter_rootfs k rs s =
     (let s = sys k (Mount (Some ''none'') ''/'' None [MS_REC, MS_PRIVATE] None) s;
          s = sys k (Mount (Some rs) rs (Some ''none'') [MS_BIND, MS_REC] None) s;
          s = (if child_self_contained k rs (ns_world s) then s else bind_hosts k rs host_dirs s);
          s = sys k (MkdirAll (rs @ ''/etc'')) s
      in pivot k rs s)"

definition standard_mounts :: "syscall list" where
  "standard_mounts =
     [MkdirAll ''/proc'', Mount (Some ''proc'') ''/proc'' (Some ''proc'') [] None,
      Mount (Some ''tmpfs'') ''/tmp'' (Some ''tmpfs'') [] None,
      MkdirAll ''/dev'', Mount (Some ''tmpfs'') ''/dev'' (Some ''tmpfs'') [MS_NOSUID] (Some ''mode=755'')] @
     map (\<lambda>n. WriteFile (''/dev/'' @ n) []) [''null'', ''zero'', ''random'', ''urandom'', ''tty'', ''full''] @
     [MkdirAll ''/dev/pts'',
      Mount (Some ''devpts'') ''/dev/pts'' (Some ''devpts'') [MS_NOSUID, MS_NOEXEC] (Some ''newinstance,ptmxmode=0666,mode=620''),
      Symlink ''/dev/pts/ptmx'' ''/dev/ptmx'']"

text \<open>\<open>S_IFCHR | 0o666\<close>, and \<open>0o666\<close>.\<close>

definition device_mode :: nat where "device_mode = 8192 + 438"
definition rw_for_all :: nat where "rw_for_all = 438"

definition device_nodes :: "(string \<times> nat) list" where
  "device_nodes = [(''/dev/null'', 3), (''/dev/zero'', 5), (''/dev/full'', 7), (''/dev/random'', 8), (''/dev/urandom'', 9)]"

definition make_node :: "'w kernel \<Rightarrow> string \<times> nat \<Rightarrow> 'w net_sys \<Rightarrow> 'w net_sys" where
  "make_node k node s = (let (path, minor) = node; s = sys k (RemoveFile path) s;
       (made, s) = sys_ok k (Mknod path device_mode 1 minor) s
     in if made then sys k (Chmod path rw_for_all) s else s)"

text \<open>\<open>prev\<close> is the mask before.\<close>

definition make_nodes :: "'w kernel \<Rightarrow> nat \<Rightarrow> 'w net_sys \<Rightarrow> 'w net_sys" where
  "make_nodes k prev s =
     (if k_euid k (ns_world s) = 0
      then sys k (Umask prev) (fold (make_node k) device_nodes (sys k (Umask 0) s)) else s)"

section \<open>The program\<close>

text \<open>\<open>set_var\<close> panics on an empty name, one with \<open>=\<close>, and on NUL; so does a \<open>CString\<close> on NUL.\<close>

definition settable :: "string \<times> string \<Rightarrow> bool" where
  "settable kv \<longleftrightarrow> (case kv of (key, v) \<Rightarrow>
     key \<noteq> [] \<and> CHR ''='' \<notin> set key \<and> CHR 0x00 \<notin> set key \<and> CHR 0x00 \<notin> set v)"

definition exec_child :: "'w kernel \<Rightarrow> string list \<Rightarrow> (string \<times> string) list \<Rightarrow> 'w net_sys \<Rightarrow> child_end" where
  "exec_child k cmd env s =
     (if \<not> list_all settable env \<or> \<not> list_all (\<lambda>a. CHR 0x00 \<notin> set a) cmd then ChildPanics
      else if k_exec k cmd env (ns_world s) then Runs cmd env else Exits 127)"

text \<open>From the inner process on; \<open>umask\<close> is the mask it has.\<close>

definition inner_setup :: "'w kernel \<Rightarrow> nat \<Rightarrow> ContainerRecord \<Rightarrow> BridgedNet option \<Rightarrow> 'w net_sys \<Rightarrow> 'w net_sys" where
  "inner_setup k umask r bnet s =
     (let s = (case bnet of None \<Rightarrow> s | Some b \<Rightarrow> snd (configure_inside (k_net k) (bn_peer_if b) (bn_ip b) s));
          s = enter_rootfs k (cc_rootfs_path (cr_config r)) s;
          s = sys_all k standard_mounts s;
          s = make_nodes k umask s;
          s = sys k (SetHostname (case cc_hostname (cr_config r) of Some h \<Rightarrow> h | None \<Rightarrow> ''psroot'')) s;
          s = sys_all k (map (\<lambda>(l, v). SetRlimit l v) (apply_rlimits Linux (cc_resources (cr_config r)))) s
      in sys k (Chdir ''/home/container'') s)"

definition child_setup_and_exec :: "'w kernel \<Rightarrow> nat \<Rightarrow> ContainerRecord \<Rightarrow> string list \<Rightarrow> Isolation \<Rightarrow> BridgedNet option \<Rightarrow>
    'w net_sys \<Rightarrow> child_end \<times> 'w net_sys" where
  "child_setup_and_exec k umask r cmd isol bnet s =
     (let flags = clone_flags isol (bnet \<noteq> None) (cc_network (cr_config r)) (k_euid k (ns_world s));
          s = enter_namespaces k flags s;
          go = (\<lambda>s. let s = inner_setup k umask r bnet s in
            (exec_child k cmd (build_env (k_term k) r ''/home/container'') s, s))
      in if CLONE_NEWPID \<notin> set flags then go s
         else let (f, w) = k_fork k (ns_world s); s = s\<lparr>ns_world := w\<rparr> in
           case f of
             ForkFails \<Rightarrow> (Exits 125, s)
           | InParent child \<Rightarrow> (let (st, w) = k_wait k child (ns_world s) in (Exits (inner_code st), s\<lparr>ns_world := w\<rparr>))
           | InChild \<Rightarrow> go s)"

section \<open>What the program starts with\<close>

lemma map_of_fold_insert: "map_of (fold (\<lambda>(k, v). hm_insert k v) kvs env) key =
    (case map_of (rev kvs) key of Some v \<Rightarrow> Some v | None \<Rightarrow> map_of env key)"
  by (induction kvs arbitrary: env) (auto simp: map_of_append map_add_def split: option.splits)

definition fixed_env :: "string option \<Rightarrow> ContainerRecord \<Rightarrow> string \<Rightarrow> string \<rightharpoonup> string" where
  "fixed_env term r home = [''HOME'' \<mapsto> home, ''USER'' \<mapsto> ''container'', ''LOGNAME'' \<mapsto> ''container'', ''SHELL'' \<mapsto> ''/bin/sh'',
     ''PATH'' \<mapsto> ''/usr/local/bin:/usr/bin:/bin:/usr/sbin:/sbin'', ''PWD'' \<mapsto> home, ''PS1'' \<mapsto> ''psroot> '',
     ''TERM'' \<mapsto> (case term of Some t \<Rightarrow> t | None \<Rightarrow> ''xterm-256color''), ''LANG'' \<mapsto> ''C.UTF-8'',
     ''PSROOT_CONTAINER_ID'' \<mapsto> cr_id r]"

lemma build_env_lookup:
  "map_of (build_env term r home) key = (case map_of (rev (cc_env (cr_config r))) key of
      Some v \<Rightarrow> Some v
    | None \<Rightarrow> if key = ''PSROOT_CONTAINER_NAME'' then cr_name r else fixed_env term r home key)"
  by (cases "cr_name r")
    (auto simp: build_env_def Let_def map_of_fold_insert fixed_env_def simp del: fold_simps split: option.split)

lemma runs_configured:
  "child_setup_and_exec k umask r cmd isol bnet s = (Runs c env, t) \<Longrightarrow>
     c = cmd \<and> env = build_env (k_term k) r ''/home/container'' \<and> list_all settable env"
  by (auto simp: child_setup_and_exec_def exec_child_def Let_def split: if_splits prod.splits forked.splits)

text \<open>
  A kernel that refuses every call but the fork does not stop the child: the program then runs in the
  root and the namespaces of the host.
\<close>

definition refusing_kernel :: "syscall list kernel" where
  "refusing_kernel = \<lparr>k_call = (\<lambda>c w. (False, w @ [c])),
     k_net = \<lparr>nt_euid = 1000, nt_path = [], nt_is_file = (\<lambda>_ _. False), nt_output = (\<lambda>_ _ w. (Inl ''EPERM'', w)),
       nt_write = (\<lambda>_ _ w. (Inl ''EPERM'', w)), nt_lower = to_ascii_lowercase, nt_lease_error = (\<lambda>_. None)\<rparr>,
     k_exists = (\<lambda>_ _. True), k_is_dir = (\<lambda>_ _. True), k_symlink = (\<lambda>_ _. False), k_euid = (\<lambda>_. 1000), k_uid = (\<lambda>_. 1000),
     k_gid = (\<lambda>_. 1000), k_fork = (\<lambda>w. (InChild, w)), k_wait = (\<lambda>_ w. (None, w)), k_exec = (\<lambda>_ _ _. True), k_term = None\<rparr>"

lemma runs_unconfined:
  assumes "list_all (\<lambda>a. CHR 0x00 \<notin> set a) cmd" "list_all settable (build_env None r ''/home/container'')"
  shows "fst (child_setup_and_exec refusing_kernel umask r cmd isol bnet s) = Runs cmd (build_env None r ''/home/container'')"
proof -
  have k: "k_exec refusing_kernel c e w" "k_fork refusing_kernel w = (InChild, w)" "k_term refusing_kernel = None" for c e w
    by (simp_all add: refusing_kernel_def)
  show ?thesis using assms by (simp add: child_setup_and_exec_def Let_def k exec_child_def)
qed

end
