(* ===== verification/Unix_Pty.thy ===== *)
theory Unix_Pty
  imports Unix_Container
begin

text \<open>
  The terminal loop and the port proxy of \<open>crates/psroot-unix\<close>: \<open>forward\<close> of \<open>pty.rs\<close> over what each
  round observes, and the pump of \<open>ports.rs\<close> over what its two connections deliver.
\<close>

section \<open>The terminal\<close>

datatype poll_wait = Ended wait_status | StillRunning | NoChild | WaitFails string

datatype poll_read = NotReady | Got string | Eof | ReadFails

text \<open>One round of the loop: \<open>waitpid\<close> with \<open>WNOHANG\<close>, the two descriptors, and the last \<open>waitpid\<close>.\<close>

record round =
  rd_wait :: poll_wait
  rd_master :: poll_read
  rd_stdin :: poll_read
  rd_last :: "wait_status option"
  rd_taken :: nat                   \<comment> \<open>how many bytes the write to the master takes; the rest is dropped\<close>

record terminal =
  tm_stdout :: string
  tm_master :: string

definition ended_code :: "wait_status \<Rightarrow> int option" where
  "ended_code st = (case st of WExited c \<Rightarrow> Some (int c) | WSignaled sig \<Rightarrow> Some (128 + int sig) | WOther \<Rightarrow> None)"

definition check_child :: "poll_wait \<Rightarrow> (UError + int) option" where
  "check_child w = (case w of
       Ended st \<Rightarrow> map_option Inr (ended_code st)
     | StillRunning \<Rightarrow> None
     | NoChild \<Rightarrow> Some (Inr 0)
     | WaitFails e \<Rightarrow> Some (Inl (UNix e)))"

definition eof_code :: "wait_status option \<Rightarrow> int" where
  "eof_code st = (case st of Some (WExited c) \<Rightarrow> int c | _ \<Rightarrow> 0)"

definition stdin_to_master :: "round \<Rightarrow> terminal \<Rightarrow> terminal" where
  "stdin_to_master r t = (case rd_stdin r of Got bs \<Rightarrow> t\<lparr>tm_master := tm_master t @ take (rd_taken r) bs\<rparr> | _ \<Rightarrow> t)"

definition forward_round :: "round \<Rightarrow> terminal \<Rightarrow> (UError + int) option \<times> terminal" where
  "forward_round r t = (case check_child (rd_wait r) of
       Some res \<Rightarrow> (Some res, t)
     | None \<Rightarrow> (case rd_master r of
           Got bs \<Rightarrow> (None, stdin_to_master r (t\<lparr>tm_stdout := tm_stdout t @ bs\<rparr>))
         | Eof \<Rightarrow> (Some (Inr (eof_code (rd_last r))), t)
         | _ \<Rightarrow> (None, stdin_to_master r t)))"

text \<open>\<open>None\<close>: the rounds observed do not end the loop.\<close>

fun forward :: "round list \<Rightarrow> terminal \<Rightarrow> (UError + int) option \<times> terminal" where
  "forward [] t = (None, t)"
| "forward (r # rs) t = (case forward_round r t of (None, t) \<Rightarrow> forward rs t | end \<Rightarrow> end)"

text \<open>Until the loop ends every byte read is passed on, in order, but for input the terminal does not take.\<close>

definition read_bytes :: "poll_read \<Rightarrow> string" where
  "read_bytes r = (case r of Got bs \<Rightarrow> bs | _ \<Rightarrow> [])"

lemma forward_bytes:
  "fst (forward rs t) = None \<Longrightarrow>
     tm_stdout (snd (forward rs t)) = tm_stdout t @ concat (map (\<lambda>r. read_bytes (rd_master r)) rs) \<and>
     tm_master (snd (forward rs t)) = tm_master t @ concat (map (\<lambda>r. take (rd_taken r) (read_bytes (rd_stdin r))) rs)"
proof (induction rs arbitrary: t)
  case (Cons r rs)
  show ?case
  proof (cases "check_child (rd_wait r)")
    case None
    with Cons show ?thesis
      by (cases "rd_master r"; cases "rd_stdin r") (auto simp: forward_round_def stdin_to_master_def read_bytes_def)
  next
    case (Some res)
    with Cons.prems show ?thesis by (simp add: forward_round_def)
  qed
qed simp

text \<open>The loop asks for the child before it reads: what the child wrote last is not shown.\<close>

lemma forward_drops_output:
  "rd_wait r = Ended (WExited c) \<Longrightarrow> forward (r # rs) t = (Some (Inr (int c)), t)"
  by (simp add: forward_round_def check_child_def ended_code_def)

section \<open>The port proxy\<close>

text \<open>One direction, over the chunks a connection delivers; the second component says whether it shut the other side down.\<close>

datatype chunk = Chunk string | ChunkEnd | ChunkError

fun copy_stream :: "chunk list \<Rightarrow> (string \<Rightarrow> bool) \<Rightarrow> string \<Rightarrow> string \<times> bool" where
  "copy_stream [] takes sent = (sent, False)"
| "copy_stream (ChunkEnd # cs) takes sent = (sent, True)"
| "copy_stream (ChunkError # cs) takes sent = (sent, False)"
| "copy_stream (Chunk bs # cs) takes sent = (if takes bs then copy_stream cs takes (sent @ bs) else (sent, False))"

lemma copy_stream_delivers:
  "\<forall>bs. takes bs \<Longrightarrow> copy_stream (map Chunk bss @ ChunkEnd # cs) takes sent = (sent @ concat bss, True)"
  by (induction bss arbitrary: sent) auto

end
