(* ===== verification/Unix_Leases.thy ===== *)
theory Unix_Leases
  imports Unix_Net
begin

text \<open>
  The address leases of \<open>crates/psroot-unix/src/net/ipam.rs\<close>: what \<open>alloc\<close> picks, that an address
  survives the trip through its dotted form, and that a sequence of allocations and releases never
  hands out an address that is held, whatever saves fail on the way.
\<close>

section \<open>The pool\<close>

definition in_pool :: "u32 \<Rightarrow> bool" where
  "in_pool h \<longleftrightarrow> FIRST_HOST \<le> h \<and> h < LAST_HOST"

lemma pool_size_eq: "pool_size = 65532"
  by (simp add: pool_size_def FIRST_HOST_def LAST_HOST_def)

lemma in_pool_bounds: "in_pool h \<Longrightarrow> 2 \<le> unat h \<and> unat h < 65534"
  by (simp add: in_pool_def FIRST_HOST_def LAST_HOST_def word_le_nat_alt word_less_nat_alt)

lemma unat_offset: "k < pool_size \<Longrightarrow> unat (FIRST_HOST + of_nat k) = 2 + k"
  by (subst unat_plus_if') (simp add: pool_size_eq FIRST_HOST_def unat_of_nat_u32)

lemma in_pool_offset: "k < pool_size \<Longrightarrow> in_pool (FIRST_HOST + of_nat k)"
  using unat_offset [of k]
  by (simp add: in_pool_def LAST_HOST_def FIRST_HOST_def pool_size_eq word_le_nat_alt word_less_nat_alt)

lemma in_pool_iff: "in_pool h \<longleftrightarrow> (\<exists>k<pool_size. h = FIRST_HOST + of_nat k)"
proof
  assume h: "in_pool h"
  from in_pool_bounds [OF h] have "unat h - 2 < 65532" "2 + (unat h - 2) = unat h" by auto
  moreover have "FIRST_HOST + of_nat (unat h - 2) = h"
  proof -
    have "FIRST_HOST + of_nat (unat h - 2) = (of_nat (2 + (unat h - 2)) :: u32)"
      by (simp add: FIRST_HOST_def)
    then show ?thesis using \<open>2 + (unat h - 2) = unat h\<close> by simp
  qed
  ultimately show "\<exists>k<pool_size. h = FIRST_HOST + of_nat k"
    by (intro exI [of _ "unat h - 2"]) (simp add: pool_size_eq)
qed (auto intro: in_pool_offset)

lemma first_free_SomeD:
  "first_free n host l = Some h \<Longrightarrow> h \<notin> l \<and> (\<exists>k<n. h = host + of_nat k \<and> (\<forall>j<k. host + of_nat j \<in> l))"
proof (induction n host l rule: first_free.induct)
  case (1 n host l)
  show ?case
  proof (cases "n = 0 \<or> host \<notin> l")
    case True
    with "1.prems" show ?thesis by (auto simp: first_free.simps [of n] split: if_splits intro!: exI [of _ 0])
  next
    case False
    with "1.prems" have "first_free (n - 1) (host + 1) l = Some h" by (simp add: first_free.simps [of n])
    with "1.IH" False obtain k where k: "h \<notin> l" "k < n - 1" "h = host + 1 + of_nat k"
      and below: "\<forall>j<k. host + 1 + of_nat j \<in> l" by auto
    have "host + of_nat j \<in> l" if "j < Suc k" for j
      using that False below by (cases j) (auto simp: add.assoc)
    with k show ?thesis by (intro conjI exI [of _ "Suc k"]) (auto simp: add.assoc)
  qed
qed

lemma first_free_None: "first_free n host l = None \<longleftrightarrow> (\<forall>k<n. host + of_nat k \<in> l)"
proof (induction n host l rule: first_free.induct)
  case (1 n host l)
  show ?case
  proof (cases "n = 0 \<or> host \<notin> l")
    case True
    then show ?thesis by (auto simp: first_free.simps [of n] intro!: exI [of _ 0])
  next
    case False
    then obtain m where m: "n = Suc m" by (cases n) auto
    have "(\<forall>k<m. host + 1 + of_nat k \<in> l) \<longleftrightarrow> (\<forall>k<Suc m. host + of_nat k \<in> l)"
      using False by (auto simp: add.assoc less_Suc_eq_0_disj)
    moreover have "first_free n host l = first_free m (host + 1) l" using False unfolding m by (subst first_free.simps) simp
    moreover have "first_free m (host + 1) l = None \<longleftrightarrow> (\<forall>k<m. host + 1 + of_nat k \<in> l)"
      using False 1 [simplified m] by simp
    ultimately show ?thesis using m by simp
  qed
qed

lemma first_free_pool:
  "first_free pool_size FIRST_HOST l = Some h \<Longrightarrow> in_pool h \<and> h \<notin> l"
  "first_free pool_size FIRST_HOST l = None \<longleftrightarrow> (\<forall>h. in_pool h \<longrightarrow> h \<in> l)"
  by (auto dest!: first_free_SomeD simp: first_free_None in_pool_iff)

section \<open>The dotted form\<close>

lemma byte_parts:
  fixes h :: u32
  assumes "h < 0x10000"
  shows "push_bit 8 (drop_bit 8 h AND 0xff) OR (h AND 0xff) = h"
proof (rule bit_word_eqI)
  fix n assume n: "n < LENGTH(32)"
  have mask: "(0xff :: u32) = mask 8" by (simp add: mask_eq_exp_minus_1)
  have "take_bit 16 h = h" using assms by (simp add: take_bit_eq_mod mod_word_less)
  then have high: "\<not> bit h m" if "16 \<le> m" for m
    using that by (metis bit_take_bit_iff leD)
  show "bit (push_bit 8 (drop_bit 8 h AND 0xff) OR (h AND 0xff)) n = bit h n"
    using n high [of n] unfolding mask by (cases "16 \<le> n") (auto simp: bit_simps)
qed

lemma host_of_dotted:
  assumes "h < 0x10000"
  shows "dotted_to_host (host_to_dotted h) = Some h"
proof -
  have no_dot: "CHR ''.'' \<notin> set (show_nat n)" for n by (simp add: show_nat_avoids)
  have "split_on (CHR ''.'') (host_to_dotted h) =
      [''10'', ''88'', show_nat (unat (drop_bit 8 h AND 0xff)), show_nat (unat (h AND 0xff))]"
    using split_on_append [of "CHR ''.''" "''10''"] split_on_append [of "CHR ''.''" "''88''"]
      split_on_append [OF no_dot] split_on_piece [OF no_dot]
    by (simp add: host_to_dotted_def)
  then show ?thesis using byte_parts [OF assms] by (simp add: dotted_to_host_def parse_u32_show)
qed

lemma in_pool_small: "in_pool h \<Longrightarrow> h < 0x10000"
  by (drule in_pool_bounds) (simp add: word_less_nat_alt)

lemma in_pool_dotted [simp]: "in_pool h \<Longrightarrow> dotted_to_host (host_to_dotted h) = Some h"
  by (simp add: host_of_dotted in_pool_small)

text \<open>The other direction is not injective: an octet above 255 spills into the other byte.\<close>

lemma dotted_alias: "dotted_to_host ''10.88.0.258'' = dotted_to_host ''10.88.1.2''"
  by (simp add: dotted_to_host_def parse_u32_def parse_uint_def digit_val_def)

section \<open>One call\<close>

abbreviation leased :: "'w net_sys \<Rightarrow> u32 set" where
  "leased s \<equiv> load_leases (ns_leases s)"

lemma save_leases_cases:
  "save_leases os l s = (case nt_lease_error os (ns_world s) of None \<Rightarrow> (Inr (), s\<lparr>ns_leases := Some l\<rparr>) | Some e \<Rightarrow> (Inl e, s))"
  by (simp add: save_leases_def split: option.split)

lemma alloc_InrD:
  assumes "alloc os s = (Inr a, s')"
  obtains h where "in_pool h" "h \<notin> leased s" "a = host_to_dotted h" "leased s' = insert h (leased s)"
    "ns_world s' = ns_world s"
  using assms first_free_pool(1) [of "leased s"]
  by (auto simp: alloc_def Let_def save_leases_cases load_leases_def [of "Some _"] split: option.splits sum.splits)

lemma alloc_InlD:
  "alloc os s = (Inl e, s') \<Longrightarrow> s' = s \<and> (nt_lease_error os (ns_world s) \<noteq> None \<or>
     e = ''psroot: IP pool exhausted'' \<and> (\<forall>h. in_pool h \<longrightarrow> h \<in> leased s))"
  using first_free_pool(2) [of "leased s"]
  by (auto simp: alloc_def Let_def save_leases_cases split: option.splits sum.splits)

lemma release_leased:
  "dotted_to_host a = Some h \<Longrightarrow>
   leased (release os a s) = (if nt_lease_error os (ns_world s) = None then leased s - {h} else leased s)"
  by (auto simp: release_def save_leases_cases load_leases_def [of "Some _"] split: option.splits)

lemma release_world [simp]: "ns_world (release os a s) = ns_world s"
  by (auto simp: release_def save_leases_cases split: option.splits)

section \<open>Sequences of calls\<close>

text \<open>
  What the callers do, one call after the other: \<open>alloc\<close>, and \<open>release\<close> of an address that is held.
  Between two calls the world, and with it whether saving works, may change.
\<close>

inductive ipam_reach :: "'w net_os \<Rightarrow> string list \<Rightarrow> 'w net_sys \<Rightarrow> bool" for os where
  Start: "leased s = {} \<Longrightarrow> ipam_reach os [] s"
| World: "ipam_reach os held s \<Longrightarrow> ipam_reach os held (s\<lparr>ns_world := w\<rparr>)"
| Alloc: "ipam_reach os held s \<Longrightarrow> alloc os s = (Inr a, s') \<Longrightarrow> ipam_reach os (a # held) s'"
| Alloc_error: "ipam_reach os held s \<Longrightarrow> alloc os s = (Inl e, s') \<Longrightarrow> ipam_reach os held s'"
| Release: "ipam_reach os held s \<Longrightarrow> a \<in> set held \<Longrightarrow> ipam_reach os (remove1 a held) (release os a s)"

definition held_ok :: "string list \<Rightarrow> u32 set \<Rightarrow> bool" where
  "held_ok held l \<longleftrightarrow> distinct held \<and> (\<forall>a \<in> set held. \<exists>h \<in> l. in_pool h \<and> a = host_to_dotted h) \<and> (\<forall>h \<in> l. in_pool h)"

lemma held_ok_alloc:
  assumes "held_ok held l" "in_pool h" "h \<notin> l"
  shows "held_ok (host_to_dotted h # held) (insert h l)"
proof -
  have "host_to_dotted h \<noteq> host_to_dotted k" if "k \<in> l" "in_pool k" for k
    using that assms(2,3) in_pool_dotted by (metis option.inject)
  with assms show ?thesis by (fastforce simp: held_ok_def)
qed

lemma held_ok_release:
  assumes "held_ok held l" "a \<in> set held" "dotted_to_host a = Some h"
  shows "held_ok (remove1 a held) (l - {h})"
proof -
  have "h' \<noteq> h" if "host_to_dotted h' \<noteq> a" "in_pool h'" for h'
  proof
    assume "h' = h"
    moreover from assms obtain k where "in_pool k" "a = host_to_dotted k" by (auto simp: held_ok_def)
    ultimately show False using assms(3) that by simp
  qed
  with assms show ?thesis unfolding held_ok_def by fastforce
qed

lemma held_ok_subset: "held_ok held l \<Longrightarrow> held_ok (remove1 a held) l"
  by (auto simp: held_ok_def dest: notin_set_remove1)

lemma ipam_held_ok: "ipam_reach os held s \<Longrightarrow> held_ok held (leased s)"
proof (induction rule: ipam_reach.induct)
  case (Start s) then show ?case by (simp add: held_ok_def)
next
  case (World held s w) then show ?case by simp
next
  case (Alloc held s a s') then show ?case by (elim alloc_InrD) (simp add: held_ok_alloc)
next
  case (Alloc_error held s e s') then show ?case by (auto dest: alloc_InlD)
next
  case (Release held s a)
  then obtain h where "dotted_to_host a = Some h" by (auto simp: held_ok_def)
  with Release show ?case by (simp add: release_leased held_ok_release held_ok_subset)
qed

lemma finite_pool: "finite {h. in_pool h}" "card {h. in_pool h} = pool_size"
proof -
  have inj: "inj_on (\<lambda>k. FIRST_HOST + of_nat k) {..<pool_size}"
  proof (rule inj_onI)
    fix j k assume "j \<in> {..<pool_size}" "k \<in> {..<pool_size}" "FIRST_HOST + of_nat j = FIRST_HOST + of_nat k"
    then show "j = k" by (metis add_left_cancel lessThan_iff unat_offset)
  qed
  have img: "{h. in_pool h} = (\<lambda>k. FIRST_HOST + of_nat k) ` {..<pool_size}" by (auto simp: in_pool_iff)
  show "finite {h. in_pool h}" by (simp add: img)
  show "card {h. in_pool h} = pool_size" using card_image [OF inj] by (simp add: img)
qed

lemma ipam_no_leak:
  assumes saves: "\<And>w. nt_lease_error os w = None"
  shows "ipam_reach os held s \<Longrightarrow> leased s = {h. in_pool h \<and> host_to_dotted h \<in> set held}"
proof (induction rule: ipam_reach.induct)
  case (Alloc held s a s')
  then obtain h where h: "in_pool h" "a = host_to_dotted h" "leased s' = insert h (leased s)"
    by (elim alloc_InrD)
  have "k = h" if "in_pool k" "host_to_dotted k = host_to_dotted h" for k
    using that h(1) in_pool_dotted by (metis option.inject)
  with h Alloc.IH show ?case by auto
next
  case (Alloc_error held s e s') then show ?case by (auto dest: alloc_InlD)
next
  case (Release held s a)
  then obtain h where h: "in_pool h" "a = host_to_dotted h" and d: "distinct held"
    using ipam_held_ok [OF Release.hyps(1)] by (auto simp: held_ok_def)
  have "k = h" if "in_pool k" "host_to_dotted k = host_to_dotted h" for k
    using that h(1) in_pool_dotted by (metis option.inject)
  with h d Release.IH saves show ?case by (auto simp: release_leased)
qed auto

lemma card_held:
  assumes "held_ok held l" "l = {h. in_pool h \<and> host_to_dotted h \<in> set held}"
  shows "card l = length held"
proof -
  have "inj_on host_to_dotted l"
    using assms(2) by (intro inj_onI) (metis (mono_tags, lifting) in_pool_dotted mem_Collect_eq option.inject)
  moreover have "host_to_dotted ` l = set held" using assms by (fastforce simp: held_ok_def)
  ultimately show ?thesis using assms(1) by (metis card_image distinct_card held_ok_def)
qed

text \<open>
  C26. Address leases: after any sequence of \<open>alloc\<close> and of \<open>release\<close> of held addresses, starting from
  an empty lease file and with failing saves in between, the addresses held are distinct, each is the
  dotted form of a leased host from 2 to 65533 and parses back to it, a further \<open>alloc\<close> returns an
  address nobody holds or an error that means a failed save or a full pool, and when saves do not
  fail exactly the held addresses are leased.
\<close>

theorem ipam_exclusive:
  assumes "ipam_reach os held s"
  shows "distinct held \<and>
    (\<forall>a \<in> set held. \<exists>h \<in> leased s. 2 \<le> unat h \<and> unat h \<le> 65533 \<and> a = host_to_dotted h \<and> dotted_to_host a = Some h) \<and>
    (case fst (alloc os s) of
       Inr a \<Rightarrow> a \<notin> set held
     | Inl e \<Rightarrow> nt_lease_error os (ns_world s) \<noteq> None \<or> e = ''psroot: IP pool exhausted'' \<and> card (leased s) = 65532) \<and>
    ((\<forall>w. nt_lease_error os w = None) \<longrightarrow> card (leased s) = length held)"
proof (intro conjI impI)
  note ok = ipam_held_ok [OF assms]
  show "distinct held" using ok by (simp add: held_ok_def)
  show "\<forall>a \<in> set held. \<exists>h \<in> leased s. 2 \<le> unat h \<and> unat h \<le> 65533 \<and> a = host_to_dotted h \<and> dotted_to_host a = Some h"
    using ok in_pool_bounds by (fastforce simp: held_ok_def)
  obtain r s' where al: "alloc os s = (r, s')" by (cases "alloc os s")
  show "case fst (alloc os s) of Inr a \<Rightarrow> a \<notin> set held
     | Inl e \<Rightarrow> nt_lease_error os (ns_world s) \<noteq> None \<or> e = ''psroot: IP pool exhausted'' \<and> card (leased s) = 65532"
  proof (cases r)
    case (Inl e)
    have "leased s = {h. in_pool h}" if "\<forall>h. in_pool h \<longrightarrow> h \<in> leased s" using that ok by (auto simp: held_ok_def)
    with alloc_InlD [OF al [unfolded Inl]] show ?thesis by (auto simp: al Inl finite_pool pool_size_eq)
  next
    case (Inr a)
    with al ok show ?thesis by (auto elim!: alloc_InrD dest: held_ok_alloc simp: held_ok_def [of "_ # _"])
  qed
  assume "\<forall>w. nt_lease_error os w = None"
  then show "card (leased s) = length held" using card_held [OF ok] ipam_no_leak [OF _ assms] by simp
qed

definition quiet_net :: "unit net_os" where
  "quiet_net = \<lparr>nt_euid = 0, nt_path = [], nt_is_file = (\<lambda>_ _. False), nt_output = (\<lambda>_ _ w. (Inr (Some 0, [], []), w)),
     nt_write = (\<lambda>_ _ w. (Inr (), w)), nt_lower = to_ascii_lowercase, nt_lease_error = (\<lambda>_. None)\<rparr>"

lemma quiet_alloc:
  "alloc quiet_net s = (case first_free pool_size FIRST_HOST (leased s) of
     None \<Rightarrow> (Inl ''psroot: IP pool exhausted'', s)
   | Some h \<Rightarrow> (Inr (host_to_dotted h), s\<lparr>ns_leases := Some (insert h (leased s))\<rparr>))"
  by (simp add: alloc_def Let_def save_leases_def quiet_net_def split: option.split)

lemma some_leases [simp]: "load_leases (Some l) = l" "load_leases None = {}"
  by (simp_all add: load_leases_def)

lemma quiet_release:
  "release quiet_net a s = (case dotted_to_host a of None \<Rightarrow> s | Some h \<Rightarrow> s\<lparr>ns_leases := Some (leased s - {h})\<rparr>)"
  by (simp add: release_def save_leases_def quiet_net_def split: option.split)

lemma dotted_two: "dotted_to_host ''10.88.0.2'' = Some 2"
  by (simp add: dotted_to_host_def parse_u32_def parse_uint_def digit_val_def)

lemma first_hosts:
  "first_free pool_size FIRST_HOST {} = Some 2" "first_free pool_size FIRST_HOST {2} = Some 3"
  "first_free pool_size FIRST_HOST {3} = Some 2"
  "host_to_dotted 2 = ''10.88.0.2''" "host_to_dotted 3 = ''10.88.0.3''"
  by (simp_all add: first_free.simps FIRST_HOST_def pool_size_eq host_to_dotted_def show_nat.simps texts)

lemma reach_three:
  "ipam_reach quiet_net [''10.88.0.3''] \<lparr>ns_leases = Some {3}, ns_world = ()\<rparr>"
proof -
  have "ipam_reach quiet_net [] \<lparr>ns_leases = None, ns_world = ()\<rparr>" by (rule Start) simp
  then have "ipam_reach quiet_net [''10.88.0.2''] \<lparr>ns_leases = Some {2}, ns_world = ()\<rparr>"
    by (rule Alloc) (simp add: quiet_alloc first_hosts)
  then have "ipam_reach quiet_net [''10.88.0.3'', ''10.88.0.2''] \<lparr>ns_leases = Some {3, 2}, ns_world = ()\<rparr>"
    by (rule Alloc) (simp add: quiet_alloc first_hosts)
  from Release [OF this, of "''10.88.0.2''"] show ?thesis
    by (simp add: insert_Diff_if quiet_release dotted_two)
qed

lemma ipam_exclusive_witness:
  "let s = \<lparr>ns_leases = Some {3}, ns_world = ()\<rparr> in
   distinct [''10.88.0.3''] \<and> card (leased s) = 1 \<and> fst (alloc quiet_net s) = Inr ''10.88.0.2'' \<and> ''10.88.0.2'' \<notin> {''10.88.0.3''}"
  using ipam_exclusive [OF reach_three] by (simp add: quiet_alloc first_hosts)

end
