(* ===== verification/Unix_Run.thy ===== *)
theory Unix_Run
  imports Unix_Container Unix_Leases
begin

text \<open>
  What a run on Linux leaves behind. No tool the host runs touches the lease file, so the leases after
  \<open>linux_run\<close> are decided by its own \<open>alloc\<close> and \<open>release\<close>: given back when the child was waited for,
  kept when the run ends with an error before that.
\<close>

named_theorems frame

section \<open>Tools and the lease file\<close>

definition keeps_leases :: "('w net_sys \<Rightarrow> 'a \<times> 'w net_sys) \<Rightarrow> bool" where
  "keeps_leases f \<longleftrightarrow> (\<forall>s. ns_leases (snd (f s)) = ns_leases s)"

lemma keeps_leasesD: "keeps_leases f \<Longrightarrow> ns_leases (snd (f s)) = ns_leases s"
  by (simp add: keeps_leases_def)

lemma keeps_st_bind [frame]:
  assumes "keeps_leases f" "\<And>x. keeps_leases (k x)"
  shows "keeps_leases (\<lambda>s. st_bind (f s) k)"
  unfolding keeps_leases_def
proof
  fix s
  obtain r t where f: "f s = (r, t)" by (cases "f s")
  then have "ns_leases t = ns_leases s" using keeps_leasesD [OF assms(1), of s] by simp
  with f assms(2) [THEN keeps_leasesD] show "ns_leases (snd (st_bind (f s) k)) = ns_leases s"
    by (cases r) auto
qed

lemma keeps_ok [frame]: "keeps_leases (\<lambda>s. (r, s))"
  by (simp add: keeps_leases_def)

lemma keeps_run_tool [frame]: "keeps_leases (run_tool os prog args)"
  by (auto simp: keeps_leases_def run_tool_def Let_def split: prod.splits sum.splits)

lemma leases_run_tool [simp]: "ns_leases (snd (run_tool os prog args s)) = ns_leases s"
  by (rule keeps_leasesD [OF keeps_run_tool])

lemma run_tool_frameD: "run_tool os prog args s = (r, t) \<Longrightarrow> ns_leases t = ns_leases s"
  using leases_run_tool [of os prog args s] by simp

lemma keeps_run_or [frame]: "keeps_leases (run_or os prog args what)"
  by (auto simp: keeps_leases_def run_or_def dest!: run_tool_frameD split: prod.splits sum.splits)

lemma keeps_run_idempotent [frame]: "keeps_leases (run_idempotent os prog args)"
  by (auto simp: keeps_leases_def run_idempotent_def dest!: run_tool_frameD split: prod.splits sum.splits)

lemma keeps_before [frame]: "keeps_leases f \<Longrightarrow> keeps_leases (\<lambda>s. f (snd (run_tool os prog args s)))"
  by (simp add: keeps_leases_def)

lemma keeps_ensure_rule [frame]: "keeps_leases (ensure_rule os before spec what)"
  by (auto simp: keeps_run_or [THEN keeps_leasesD] keeps_leases_def ensure_rule_def dest!: run_tool_frameD split: prod.splits sum.splits)

lemma leases_write_file [simp]: "ns_leases (snd (write_file os path contents s)) = ns_leases s"
  by (simp add: write_file_def Let_def split: prod.split)

lemma write_file_frameD: "write_file os path contents s = (r, t) \<Longrightarrow> ns_leases t = ns_leases s"
  using leases_write_file [of os path contents s] by simp

lemma keeps_create_pair [frame]: "keeps_leases (create_pair os cid)"
  unfolding create_pair_def Let_def split_def by (intro frame)

lemma keeps_move [frame]: "keeps_leases (move_peer_into_netns os peer_if pid)"
  unfolding move_peer_into_netns_def by (intro frame)

lemma keeps_nat_install [frame]: "keeps_leases (nat_install os cid host_bind host_port ip port)"
  unfolding nat_install_def Let_def by (intro frame)

lemma leases_rules_end:
  "keeps_leases (\<lambda>s. st_bind (ensure_rule os b1 r1 w1 s) (\<lambda>_ s. st_bind (ensure_rule os b2 r2 w2 s) (\<lambda>_ s.
     st_bind (ensure_rule os b3 r3 w3 s) (\<lambda>_. ensure_rule os b4 r4 w4))))"
  by (intro frame)

lemma keeps_bridge_ensure [frame]: "keeps_leases (bridge_ensure os)"
  unfolding bridge_ensure_def
proof (intro frame)
  fix s
  show "keeps_leases (\<lambda>s. case write_file os ''/proc/sys/net/ipv4/ip_forward'' one_line s of
       (Inl e, s) \<Rightarrow> (Inl (''enable ip_forward: '' @ e), s)
     | (Inr _, s) \<Rightarrow>
       let s = snd (write_file os (route_localnet ''lo'') one_line s);
           s = snd (write_file os (route_localnet ''all'') one_line s);
           s = snd (write_file os (route_localnet BRIDGE_NAME) one_line s) in
       st_bind (ensure_rule os [''-t'', ''nat'']
         [''POSTROUTING'', ''-s'', ''127.0.0.0/8'', ''-d'', BRIDGE_CIDR, ''-j'', ''MASQUERADE''] ''install loopback SNAT'' s) (\<lambda>_ s.
       st_bind (ensure_rule os [''-t'', ''nat'']
         [''POSTROUTING'', ''-s'', BRIDGE_CIDR, ''!'', ''-o'', BRIDGE_NAME, ''-j'', ''MASQUERADE''] ''install MASQUERADE'' s) (\<lambda>_ s.
       st_bind (ensure_rule os [] [''FORWARD'', ''-i'', BRIDGE_NAME, ''-j'', ''ACCEPT''] ''install FORWARD'' s) (\<lambda>_ s.
       ensure_rule os [] [''FORWARD'', ''-o'', BRIDGE_NAME, ''-j'', ''ACCEPT''] ''install FORWARD'' s))))"
    unfolding keeps_leases_def Let_def
    by (auto simp: leases_rules_end [THEN keeps_leasesD] dest!: write_file_frameD split: prod.splits sum.splits)
qed

lemma leases_delete_lines [simp]: "ns_leases (delete_lines os cid ls s) = ns_leases s"
  by (induction ls arbitrary: s) (auto split: option.splits)

lemma leases_nat_cleanup [simp]: "ns_leases (nat_cleanup os cid s) = ns_leases s"
  by (auto simp: nat_cleanup_def dest!: run_tool_frameD split: prod.splits sum.splits)

lemma leases_destroy [simp]: "ns_leases (destroy os host_if s) = ns_leases s"
  by (simp add: destroy_def)

section \<open>The steps of a run\<close>

abbreviation uleased :: "'w usys \<Rightarrow> u32 set" where
  "uleased s \<equiv> load_leases (ns_leases (us_net s))"

lemma on_net_leases: "keeps_leases f \<Longrightarrow> on_net f s = (r, t) \<Longrightarrow> ns_leases (us_net t) = ns_leases (us_net s)"
  by (auto simp: on_net_def keeps_leases_def Let_def split: prod.splits) (metis snd_conv)

lemma snd_on_net [simp]: "keeps_leases f \<Longrightarrow> ns_leases (us_net (snd (on_net f s))) = ns_leases (us_net s)"
  by (auto simp: on_net_def keeps_leases_def Let_def split: prod.splits) (metis snd_conv)

lemma ucall_leases: "ucall f s = (r, t) \<Longrightarrow> ns_leases (us_net t) = ns_leases (us_net s)"
  by (auto simp: ucall_def on_net_def Let_def split: prod.splits)

lemma udo_leases [simp]: "ns_leases (us_net (udo f s)) = ns_leases (us_net s)"
  by (simp add: udo_def net_do_def)

lemma us_net_do [simp]: "us_net (net_do f s) = f (us_net s)"
  by (simp add: net_do_def)

lemma record_save_net: "us_net (snd (record_save os r s)) = us_net s"
  by (auto simp: record_save_def split: sum.splits option.splits)

lemma store_ip_net [simp]: "us_net (store_ip os cid ip s) = us_net s"
  by (simp add: store_ip_def record_save_net split: sum.split)

lemma leases_install_port_dnat [simp]: "ns_leases (us_net (install_port_dnat os cid ip pms s)) = ns_leases (us_net s)"
  by (induction pms arbitrary: s) (simp_all add: keeps_nat_install)

lemma leases_finalize [simp]: "ns_leases (us_net (host_finalize_net os bnet child r s)) = ns_leases (us_net s)"
  by (simp add: host_finalize_net_def Let_def keeps_move split: option.split)

text \<open>The address of the plan is a fresh lease; without a plan nothing is leased.\<close>

definition plan_leased :: "BridgedNet option \<Rightarrow> u32 set \<Rightarrow> u32 set \<Rightarrow> bool" where
  "plan_leased bnet l l' \<longleftrightarrow> (case bnet of None \<Rightarrow> l' = l
     | Some b \<Rightarrow> \<exists>h. in_pool h \<and> h \<notin> l \<and> bn_ip b = host_to_dotted h \<and> l' = insert h l)"

lemma release_undoes:
  assumes "\<And>w. nt_lease_error os w = None" "in_pool h" "h \<notin> l" "leased s = insert h l"
  shows "leased (release os (host_to_dotted h) s) = l"
  using assms by (simp add: release_leased)

lemma prepare_leases:
  assumes saves: "\<And>w. nt_lease_error (uo_net os) w = None" and "try_prepare_bridged_net os r s = (bnet, t)"
  shows "plan_leased bnet (uleased s) (uleased t)"
proof (cases "cc_network (cr_config r) = NoNetwork \<or> \<not> net_available (uo_net os) (uworld s)")
  case True
  with assms(2) show ?thesis by (auto simp: try_prepare_bridged_net_def plan_leased_def)
next
  case False
  obtain r1 s1 where s1: "on_net (bridge_ensure (uo_net os)) s = (r1, s1)" by (cases "on_net (bridge_ensure (uo_net os)) s")
  obtain r2 s2 where s2: "on_net (alloc (uo_net os)) s1 = (r2, s2)" by (cases "on_net (alloc (uo_net os)) s1")
  obtain r3 s3 where s3: "on_net (create_pair (uo_net os) (cr_id r)) s2 = (r3, s3)"
    by (cases "on_net (create_pair (uo_net os) (cr_id r)) s2")
  have l1: "uleased s1 = uleased s" using on_net_leases [OF keeps_bridge_ensure s1] by simp
  have l3: "uleased s3 = uleased s2" using on_net_leases [OF keeps_create_pair s3] by simp
  have al: "alloc (uo_net os) (us_net s1) = (r2, us_net s2)" using s2 by (auto simp: on_net_def Let_def split: prod.splits)
  have error: "uleased s2 = uleased s1" if "r2 = Inl e" for e
    using that al by (auto dest: alloc_InlD)
  have fresh: "\<exists>h. in_pool h \<and> h \<notin> uleased s \<and> ip = host_to_dotted h \<and> uleased s2 = insert h (uleased s)" if "r2 = Inr ip" for ip
    using that al l1 by (auto elim!: alloc_InrD)
  show ?thesis
    using assms(2) False l1 l3 fresh error
    by (auto simp: try_prepare_bridged_net_def Let_def s1 s2 s3 plan_leased_def release_undoes [OF saves]
        split: sum.splits prod.splits)
qed

lemma cleanup_leases:
  assumes "\<And>w. nt_lease_error (uo_net os) w = None" "plan_leased bnet l (uleased s)"
  shows "uleased (cleanup_bridged_net os bnet r s) = l"
  using assms by (auto simp: cleanup_bridged_net_def Let_def plan_leased_def release_leased split: option.splits)

lemma plan_leased_leak: "plan_leased bnet l l' \<Longrightarrow> l' = l \<or> (\<exists>h. in_pool h \<and> h \<notin> l \<and> l' = insert h l)"
  by (auto simp: plan_leased_def split: option.splits)

section \<open>Runs\<close>

lemma spawn_leases:
  assumes saves: "\<And>w. nt_lease_error (uo_net os) w = None" and run: "linux_spawn os r interactive s = (res, t)"
  shows "uleased t = uleased s \<or> (\<exists>e h. res = Inl e \<and> in_pool h \<and> h \<notin> uleased s \<and> uleased t = insert h (uleased s))"
proof -
  obtain bnet s1 where s1: "try_prepare_bridged_net os r s = (bnet, s1)" by (cases "try_prepare_bridged_net os r s")
  obtain c s2 where s2: "ucall (if interactive then uo_forkpty os else uo_fork os) s1 = (c, s2)"
    by (cases "ucall (if interactive then uo_forkpty os else uo_fork os) s1")
  have p1: "plan_leased bnet (uleased s) (uleased s1)" by (rule prepare_leases [OF saves s1])
  then have p2: "plan_leased bnet (uleased s) (uleased s2)" by (simp add: ucall_leases [OF s2])
  have kept: "?thesis" if "res = Inl e" "plan_leased bnet (uleased s) (uleased t)" for e
    using plan_leased_leak [OF that(2)] that(1) by auto
  have clean: "uleased (cleanup_bridged_net os bnet r u) = uleased s" if "ns_leases (us_net u) = ns_leases (us_net s2)" for u
    using p2 that cleanup_leases [OF saves, of bnet "uleased s" u] by simp
  show ?thesis
  proof (cases "uo_pipes os (uworld s1)")
    case (Some e)
    with run s1 have "res = Inl e" "t = s1" by (simp_all add: linux_spawn_def)
    then show ?thesis using p1 by (intro kept [where e = e]) simp_all
  next
    case None
    show ?thesis
    proof (cases c)
      case (Inl e)
      with None run s1 s2 have "res = Inl e" "t = s2" by (simp_all add: linux_spawn_def)
      then show ?thesis using p2 by (intro kept [where e = e]) simp_all
    next
      case (Inr child)
      let ?s3 = "host_finalize_net os bnet child r s2"
      obtain w s4 where w: "ucall (uo_wait os child) ?s3 = (w, s4)" by (cases "ucall (uo_wait os child) ?s3")
      obtain f s5 where f: "ucall (uo_forward os child) ?s3 = (f, s5)" by (cases "ucall (uo_forward os child) ?s3")
      have l4: "ns_leases (us_net s4) = ns_leases (us_net s2)" and l5: "ns_leases (us_net s5) = ns_leases (us_net s2)"
        using ucall_leases [OF w] ucall_leases [OF f] by simp_all
      show ?thesis
      proof (cases interactive)
        case True
        with run s1 s2 None Inr f have "t = cleanup_bridged_net os bnet r s5"
          by (simp add: linux_spawn_def)
        then show ?thesis using clean [OF l5] by simp
      next
        case False
        show ?thesis
        proof (cases w)
          case (Inl e)
          with False run s1 s2 None Inr w have "res = Inl e" "t = s4" by (simp_all add: linux_spawn_def Let_def)
          with l4 p2 show ?thesis by (intro kept [where e = e]) simp_all
        next
          case (Inr st)
          with False run s1 s2 None \<open>c = Inr child\<close> w have "t = cleanup_bridged_net os bnet r s4"
            by (simp add: linux_spawn_def Let_def)
          then show ?thesis using clean [OF l4] by simp
        qed
      qed
    qed
  qed
qed

text \<open>
  A run on Linux gives its address back: when saving the lease file works, after a run that ends
  with an exit code the leases are what they were; after one that ends with an error they are that,
  or one fresh address of the pool stays leased.
\<close>

theorem linux_run_releases:
  assumes "\<And>w. nt_lease_error (uo_net os) w = None" "linux_run os r interactive s = (res, t)"
  shows "(case res of
      Inr code \<Rightarrow> uleased t = uleased s
    | Inl e \<Rightarrow> uleased t = uleased s \<or> (\<exists>h. in_pool h \<and> h \<notin> uleased s \<and> uleased t = insert h (uleased s)))"
proof (cases "uo_exists os (cc_rootfs_path (cr_config r)) (uworld s)")
  case True
  then show ?thesis using assms(2) spawn_leases [OF assms(1), of r interactive "udo (setup_cgroup os r) s" res t]
    by (auto simp: linux_run_def Let_def split: sum.splits)
next
  case False
  with assms(2) show ?thesis by (auto simp: linux_run_def Let_def)
qed

text \<open>A machine where every tool works; \<open>broken\<close> says whether making the pipes fails.\<close>

definition bridged_net :: "unit net_os" where
  "bridged_net = quiet_net\<lparr>nt_is_file := \<lambda>_ _. True\<rparr>"

definition demo_unix :: "bool \<Rightarrow> unit unix_os" where
  "demo_unix broken = \<lparr>uo_net = bridged_net, uo_state_root = (\<lambda>_. Inr ''/s''), uo_uuid = (\<lambda>w. (''ab-1'', w)),
     uo_mkdir = (\<lambda>_ w. (Inr (), w)), uo_exists = (\<lambda>_ _. True), uo_symlink = (\<lambda>_ _. False),
     uo_write = (\<lambda>_ _ w. (Inr (), w)), uo_remove_file = (\<lambda>_ w. w), uo_remove_all = (\<lambda>_ w. (True, w)),
     uo_save = (\<lambda>_ _. None), uo_dirs = (\<lambda>_. Inr []), uo_now = (\<lambda>_. ''epoch:0''), uo_shell = None, uo_pid = 1,
     uo_pipes = (\<lambda>_. if broken then Some (UNix ''EMFILE'') else None), uo_fork = (\<lambda>w. (Inr 7, w)),
     uo_forkpty = (\<lambda>w. (Inr 7, w)), uo_await_ready = (\<lambda>_ w. w), uo_send_go = (\<lambda>_ w. w),
     uo_wait = (\<lambda>_ w. (Inr (WExited 3), w)), uo_forward = (\<lambda>_ w. (Inr 3, w)), uo_kill = (\<lambda>_ w. w)\<rparr>"

definition demo_uconfig :: ContainerConfig where
  "demo_uconfig = \<lparr>cc_name = None, cc_rootfs_path = ''/r'', cc_command = [''sh''], cc_env = [], cc_resources = default_limits,
     cc_volumes = [], cc_hostname = None, cc_working_directory = [], cc_silo = False, cc_tools = [], cc_shares = [],
     cc_security_profile = DefaultProfile, cc_network = Full, cc_ports = []\<rparr>"

definition demo_urecord :: ContainerRecord where
  "demo_urecord = \<lparr>cr_id = ''ab-1'', cr_name = None, cr_config = demo_uconfig,
     cr_state = Created, cr_created_at = ''epoch:0'', cr_started_at = None, cr_stopped_at = None, cr_exit_code = None,
     cr_host_pid = None, cr_container_ip = None, cr_isolation = ''full'', cr_dir = ''/s/ab-1''\<rparr>"

lemma bridged_tools [simp]:
  "nt_lease_error bridged_net w = None" "net_available bridged_net w"
  "run_tool bridged_net prog args s = (Inr [], s)" "write_file bridged_net path contents s = (Inr (), s)"
  "alloc bridged_net s = alloc quiet_net s" "release bridged_net a s = release quiet_net a s"
  by (simp_all add: bridged_net_def quiet_net_def net_available_def which_def run_tool_def Let_def write_file_def
      alloc_def release_def save_leases_def split: option.split)

lemma bridged_calls [simp]:
  "run_or bridged_net prog args what s = (Inr (), s)" "run_idempotent bridged_net prog args s = (Inr (), s)"
  "ensure_rule bridged_net before spec what s = (Inr (), s)"
  by (simp_all add: run_or_def run_idempotent_def ensure_rule_def)

lemma bridged_steps [simp]:
  "bridge_ensure bridged_net s = (Inr (), s)" "create_pair bridged_net cid s = (Inr (iface_names cid), s)"
  "move_peer_into_netns bridged_net peer_if pid s = (Inr (), s)" "nat_cleanup bridged_net cid s = s"
  "destroy bridged_net host_if s = s"
  by (simp_all add: bridge_ensure_def create_pair_def move_peer_into_netns_def nat_cleanup_def destroy_def text_lines_def
      split: prod.split)

definition demo_usys :: "unit usys" where
  "demo_usys = \<lparr>us_net = \<lparr>ns_leases = None, ns_world = ()\<rparr>, us_records = Map.empty\<rparr>"

lemma demo_run:
  "linux_run (demo_unix True) demo_urecord False demo_usys =
     (Inl (UNix ''EMFILE''), demo_usys\<lparr>us_net := \<lparr>ns_leases = Some {2}, ns_world = ()\<rparr>\<rparr>)"
  "linux_run (demo_unix False) demo_urecord False demo_usys =
     (Inr 3, demo_usys\<lparr>us_net := \<lparr>ns_leases = Some {}, ns_world = ()\<rparr>\<rparr>)"
proof -
  have set_up: "udo (setup_cgroup (demo_unix b) demo_urecord) demo_usys = demo_usys" for b
    by (simp add: udo_def net_do_def demo_usys_def)
  have ifaces: "iface_names ''ab-1'' = (''pshab1'', ''pscab1'')"
    by (simp add: iface_names_def ascii_alnum_def Let_def)
  have net: "uo_net (demo_unix b) = bridged_net" for b by (simp add: demo_unix_def)
  show "linux_run (demo_unix True) demo_urecord False demo_usys =
     (Inl (UNix ''EMFILE''), demo_usys\<lparr>us_net := \<lparr>ns_leases = Some {2}, ns_world = ()\<rparr>\<rparr>)"
    unfolding linux_run_def linux_spawn_def try_prepare_bridged_net_def Let_def set_up net
    by (simp add: on_net_def demo_usys_def demo_urecord_def demo_uconfig_def quiet_alloc first_hosts demo_unix_def split: prod.split)
  show "linux_run (demo_unix False) demo_urecord False demo_usys =
     (Inr 3, demo_usys\<lparr>us_net := \<lparr>ns_leases = Some {}, ns_world = ()\<rparr>\<rparr>)"
    unfolding linux_run_def linux_spawn_def try_prepare_bridged_net_def Let_def set_up net
    by (simp add: on_net_def demo_usys_def demo_urecord_def demo_uconfig_def quiet_alloc first_hosts demo_unix_def ifaces
        ucall_def udo_def net_do_def host_finalize_net_def cleanup_bridged_net_def store_ip_def record_load_def record_list_def
        quiet_release dotted_two exit_code_of_def Let_def)
qed

lemma linux_run_releases_witness:
  "let ok = linux_run (demo_unix False) demo_urecord False demo_usys; broken = linux_run (demo_unix True) demo_urecord False demo_usys in
   fst ok = Inr 3 \<and> uleased (snd ok) = uleased demo_usys \<and>
   fst broken = Inl (UNix ''EMFILE'') \<and> uleased (snd broken) = {2}"
proof -
  have saves: "\<And>w. nt_lease_error (uo_net (demo_unix b)) w = None" for b by (simp add: demo_unix_def)
  from linux_run_releases [OF saves demo_run(2)] linux_run_releases [OF saves demo_run(1)] show ?thesis
    by (simp add: demo_run)
qed

end
