(* ===== verification/Unix_Lifecycle.thy ===== *)
theory Unix_Lifecycle
  imports Unix_Run
begin

text \<open>
  The records a container of \<open>crates/psroot-unix\<close> leaves on disk: \<open>create\<close>, \<open>run\<close>, \<open>stop\<close> and
  \<open>remove\<close>, what \<open>load\<close> finds afterwards, and the two writers of a detached start.
\<close>

text \<open>The state directory can be found and records can be written.\<close>

definition disk_works :: "'w unix_os \<Rightarrow> bool" where
  "disk_works os \<longleftrightarrow> (\<forall>w. \<exists>root. uo_state_root os w = Inr root) \<and> (\<forall>cid w. uo_save os cid w = None)"

lemma works_root: "disk_works os \<Longrightarrow> \<exists>root. uo_state_root os w = Inr root"
  by (simp add: disk_works_def)

lemma save_works: "disk_works os \<Longrightarrow> record_save os r s = (Inr (), s\<lparr>us_records := (us_records s)(cr_id r \<mapsto> Inr r)\<rparr>)"
proof -
  assume disk: "disk_works os"
  from works_root [OF disk, of "uworld s"] obtain root where "uo_state_root os (uworld s) = Inr root" ..
  moreover have "uo_save os (cr_id r) (uworld s) = None" using disk unfolding disk_works_def by blast
  ultimately show ?thesis by (simp add: record_save_def)
qed

lemma load_by_id: "disk_works os \<Longrightarrow> us_records s cid = Some (Inr r) \<Longrightarrow> record_load os cid s = Inr r"
  using works_root [of os "uworld s"] by (auto simp: record_load_def)

lemma load_after_save: "disk_works os \<Longrightarrow> record_save os r s = (res, t) \<Longrightarrow> record_load os (cr_id r) t = Inr r"
  by (auto simp: save_works intro: load_by_id)

lemma running_record_id [simp]:
  "cr_id (running_record cmd now r) = cr_id r" "cr_state (running_record cmd now r) = Running"
  "cr_host_pid (running_record cmd now r) = cr_host_pid r" "cr_isolation (running_record cmd now r) = cr_isolation r"
  by (simp_all add: running_record_def Let_def)

lemma stopped_record_id [simp]:
  "cr_id (stopped_record now res r) = cr_id r" "cr_state (stopped_record now res r) = Stopped"
  "cr_host_pid (stopped_record now res r) = cr_host_pid r" "cr_config (stopped_record now res r) = cr_config r"
  "cr_isolation (stopped_record now res r) = cr_isolation r" "cr_container_ip (stopped_record now res r) = cr_container_ip r"
  by (simp_all add: stopped_record_def Let_def split: sum.split)

lemma stopped_record_code: "cr_exit_code (stopped_record now res r) = (case res of Inl _ \<Rightarrow> cr_exit_code r | Inr code \<Rightarrow> Some code)"
  by (simp add: stopped_record_def Let_def split: sum.split)

lemma running_record_command:
  "cc_command (cr_config (running_record cmd now r)) = (if cmd = [] then cc_command (cr_config r) else cmd)"
  by (simp add: running_record_def Let_def)

lemma show_isolation_inverse [simp]: "isolation_of (show_isolation i) = i"
  by (cases i) (simp_all add: isolation_of_def)


lemma demo_disk: "disk_works (demo_unix b)"
  by (simp add: disk_works_def demo_unix_def)

definition demo_ucontainer :: ucontainer where
  "demo_ucontainer = \<lparr>uc_record = demo_urecord, uc_isolation = IsoFull\<rparr>"


section \<open>Detached containers\<close>

text \<open>
  The child of a detached start works on the record from before the fork: once it has saved that, the
  process id the parent stored is gone, and a \<open>stop\<close> that loads the record signals nobody.
\<close>

lemma detached_loses_pid:
  assumes "disk_works os" "cr_host_pid (uc_record c) = None" "start_detached os c s = (Inr (), c', s1)"
    and "record_save os (running_record cmd now (uc_record c)) s1 = (Inr (), s2)"
  shows "\<exists>c2. unix_load os (cr_id (uc_record c)) s2 = Inr c2 \<and> cr_state (uc_record c2) = Running \<and>
    cr_host_pid (uc_record c2) = None \<and> uworld (snd (snd (unix_stop os c2 s2))) = uworld s2"
proof -
  have "record_load os (cr_id (uc_record c)) s2 = Inr (running_record cmd now (uc_record c))"
    using load_after_save [OF assms(1,4)] by simp
  then show ?thesis using assms(2)
    by (auto simp: unix_load_def unix_stop_def Let_def save_works [OF assms(1)] uworld_def split: prod.split)
qed

text \<open>When the child has finished before the parent saves, the record says running for ever.\<close>

lemma detached_runs_for_ever:
  assumes "disk_works os" "unix_run os run_sync cmd False c s = (res, c', s1)"
    and "record_save os (parent_record child now (uc_record c)) s1 = (Inr (), s2)"
  shows "\<exists>c2. unix_load os (cr_id (uc_record c)) s2 = Inr c2 \<and> cr_state (uc_record c2) = Running \<and> cr_exit_code (uc_record c2) = cr_exit_code (uc_record c)"
  using load_after_save [OF assms(1,3)] by (simp add: unix_load_def parent_record_def)

text \<open>A key that is a prefix of several ids, and so the empty key, finds the first container listed.\<close>

lemma load_by_prefix:
  "record_load os [] s = (case uo_state_root os (uworld s) of Inl e \<Rightarrow> Inl e | Inr _ \<Rightarrow> (case us_records s [] of Some r \<Rightarrow> r
     | None \<Rightarrow> (case record_list os s of Inl e \<Rightarrow> Inl e | Inr [] \<Rightarrow> Inl (UNotFound [])
         | Inr (i # _) \<Rightarrow> (case us_records s (in_id i) of Some r \<Rightarrow> r | None \<Rightarrow> Inl (UIo ''entity not found'')))))"
  by (auto simp: record_load_def starts_with_iff split: sum.split option.split list.split)

end
