(* ===== verification/Rootfs.thy ===== *)
theory Rootfs
  imports Stager Config
begin

text \<open>
  Preparing a container's root, \<open>crates/psroot-container/src/rootfs.rs\<close>: the directories, the
  junctions to shared host directories, the mirror of system files, and the tools. A path is a base,
  the rootfs or a host directory, and components. The calls that change the file system are logged
  with their success; the log is only for statements.
\<close>

section \<open>The file system\<close>

datatype base = InRoot | HostAt string

type_synonym place = "base \<times> string list"

definition into :: "place \<Rightarrow> string \<Rightarrow> place" where
  "into p name = (fst p, snd p @ [name])"

datatype fsop =
    MakeDirs place
  | Junction place place              \<comment> \<open>the link and what it leads to\<close>
  | CopyFile place place
  | HardLink place place
  | LowIntegrity place                \<comment> \<open>\<open>icacls /setintegritylevel (OI)(CI)low\<close>\<close>
  | WriteText place string

record 'w rootfs_os =
  ro_call :: "fsop \<Rightarrow> 'w \<Rightarrow> (nat + unit) \<times> 'w"      \<comment> \<open>the error number, or success\<close>
  ro_exists :: "place \<Rightarrow> 'w \<Rightarrow> bool"
  ro_is_dir :: "place \<Rightarrow> 'w \<Rightarrow> bool"
  ro_list :: "place \<Rightarrow> 'w \<Rightarrow> (string \<times> node) list option"     \<comment> \<open>what \<open>read_dir\<close> lists, with the trees below\<close>
  ro_env :: "string \<Rightarrow> string option"
  ro_node_dir :: "'w \<Rightarrow> string option"                        \<comment> \<open>directory of the first hit of \<open>where node.exe\<close>\<close>
  ro_errno :: nat                                             \<comment> \<open>of a failed \<open>read_dir\<close>\<close>

record 'w rfs =
  rf_log :: "(fsop \<times> bool) list"
  rf_world :: 'w

definition fs_call :: "'w rootfs_os \<Rightarrow> fsop \<Rightarrow> 'w rfs \<Rightarrow> (PsrootError + unit) \<times> 'w rfs" where
  "fs_call os op s = (case ro_call os op (rf_world s) of
       (Inl n, w) \<Rightarrow> (Inl (IoError n), s\<lparr>rf_log := rf_log s @ [(op, False)], rf_world := w\<rparr>)
     | (Inr _, w) \<Rightarrow> (Inr (), s\<lparr>rf_log := rf_log s @ [(op, True)], rf_world := w\<rparr>))"

definition fs_do :: "'w rootfs_os \<Rightarrow> fsop \<Rightarrow> 'w rfs \<Rightarrow> 'w rfs" where
  "fs_do os op s = snd (fs_call os op s)"

fun make_dirs :: "'w rootfs_os \<Rightarrow> place list \<Rightarrow> 'w rfs \<Rightarrow> (PsrootError + unit) \<times> 'w rfs" where
  "make_dirs os [] s = (Inr (), s)"
| "make_dirs os (d # ds) s = st_bind (fs_call os (MakeDirs d) s) (\<lambda>_ s. make_dirs os ds s)"

definition set_low_integrity_dir :: "'w rootfs_os \<Rightarrow> place \<Rightarrow> 'w rfs \<Rightarrow> 'w rfs" where
  "set_low_integrity_dir os dir s = (if ro_exists os dir (rf_world s) then fs_do os (LowIntegrity dir) s else s)"

section \<open>Copying trees\<close>

text \<open>\<open>?\<close> on everything but the copy of a file.\<close>

fun copy_entries :: "'w rootfs_os \<Rightarrow> place \<Rightarrow> place \<Rightarrow> (string \<times> node) list \<Rightarrow> 'w rfs \<Rightarrow> (PsrootError + unit) \<times> 'w rfs" where
  "copy_entries os src dst [] s = (Inr (), s)"
| "copy_entries os src dst ((name, DirNode None) # es) s =
     st_bind (fs_call os (MakeDirs (into dst name)) s) (\<lambda>_ s. (Inl (IoError (ro_errno os)), s))"
| "copy_entries os src dst ((name, DirNode (Some ents)) # es) s =
     st_bind (fs_call os (MakeDirs (into dst name)) s) (\<lambda>_ s.
     st_bind (copy_entries os (into src name) (into dst name) ents s) (\<lambda>_ s. copy_entries os src dst es s))"
| "copy_entries os src dst ((name, nd) # es) s =
     copy_entries os src dst es (fs_do os (CopyFile (into src name) (into dst name)) s)"

definition copy_dir_recursive :: "'w rootfs_os \<Rightarrow> place \<Rightarrow> place \<Rightarrow> (string \<times> node) list option \<Rightarrow> 'w rfs \<Rightarrow> (PsrootError + unit) \<times> 'w rfs" where
  "copy_dir_recursive os src dst ents s = st_bind (fs_call os (MakeDirs dst) s) (\<lambda>_ s.
     case ents of None \<Rightarrow> (Inl (IoError (ro_errno os)), s) | Some es \<Rightarrow> copy_entries os src dst es s)"

text \<open>The best-effort copy links where it can and ignores every error.\<close>

definition link_or_copy :: "'w rootfs_os \<Rightarrow> place \<Rightarrow> place \<Rightarrow> 'w rfs \<Rightarrow> 'w rfs" where
  "link_or_copy os src dst s = (case fs_call os (HardLink src dst) s of
       (Inr _, s) \<Rightarrow> s | (Inl _, s) \<Rightarrow> fs_do os (CopyFile src dst) s)"

fun copy_besteffort_entries :: "'w rootfs_os \<Rightarrow> place \<Rightarrow> place \<Rightarrow> (string \<times> node) list \<Rightarrow> 'w rfs \<Rightarrow> 'w rfs" where
  "copy_besteffort_entries os src dst [] s = s"
| "copy_besteffort_entries os src dst ((name, DirNode None) # es) s =
     copy_besteffort_entries os src dst es (fs_do os (MakeDirs (into dst name)) s)"
| "copy_besteffort_entries os src dst ((name, DirNode (Some ents)) # es) s =
     copy_besteffort_entries os src dst es (case fs_call os (MakeDirs (into dst name)) s of
         (Inl _, s) \<Rightarrow> s
       | (Inr _, s) \<Rightarrow> copy_besteffort_entries os (into src name) (into dst name) ents s)"
| "copy_besteffort_entries os src dst ((name, FileNode n) # es) s =
     copy_besteffort_entries os src dst es (link_or_copy os (into src name) (into dst name) s)"
| "copy_besteffort_entries os src dst ((name, OtherNode) # es) s = copy_besteffort_entries os src dst es s"

definition copy_besteffort :: "'w rootfs_os \<Rightarrow> place \<Rightarrow> place \<Rightarrow> (string \<times> node) list option \<Rightarrow> 'w rfs \<Rightarrow> 'w rfs" where
  "copy_besteffort os src dst ents s = (case fs_call os (MakeDirs dst) s of
       (Inl _, s) \<Rightarrow> s
     | (Inr _, s) \<Rightarrow> (case ents of None \<Rightarrow> s | Some es \<Rightarrow> copy_besteffort_entries os src dst es s))"

section \<open>Shares\<close>

definition env_or :: "'w rootfs_os \<Rightarrow> string \<Rightarrow> string \<Rightarrow> string" where
  "env_or os var fallback = (case ro_env os var of Some v \<Rightarrow> v | None \<Rightarrow> fallback)"

definition under :: "string list \<Rightarrow> place" where
  "under names = (InRoot, names)"

definition win :: "string \<Rightarrow> string" where
  "win = map (\<lambda>c. if c = CHR ''/'' then CHR 0x5C else c)"

definition system_root :: "'w rootfs_os \<Rightarrow> string" where
  "system_root os = env_or os ''SystemRoot'' (win ''C:/Windows'')"

definition program_data :: "'w rootfs_os \<Rightarrow> string" where
  "program_data os = env_or os ''ProgramData'' (win ''C:/ProgramData'')"

definition program_files :: "'w rootfs_os \<Rightarrow> string" where
  "program_files os = env_or os ''ProgramFiles'' (win ''C:/Program Files'')"

definition program_files_x86 :: "'w rootfs_os \<Rightarrow> string" where
  "program_files_x86 os = env_or os ''ProgramFiles(x86)'' (win ''C:/Program Files (x86)'')"

text \<open>A junction that fails is a warning.\<close>

definition junction_if :: "'w rootfs_os \<Rightarrow> bool \<Rightarrow> string list \<Rightarrow> string \<Rightarrow> 'w rfs \<Rightarrow> 'w rfs" where
  "junction_if os cond names host s = (if cond then fs_do os (Junction (under names) (HostAt host, [])) s else s)"

definition share_windowsapps :: "'w rootfs_os \<Rightarrow> 'w rfs \<Rightarrow> 'w rfs" where
  "share_windowsapps os s =
     (let s = fs_do os (MakeDirs (under [''Program Files''])) s in
      fs_do os (Junction (under [''Program Files'', ''WindowsApps'']) (HostAt (program_files os), [''WindowsApps''])) s)"

definition share_all :: "'w rootfs_os \<Rightarrow> string list \<Rightarrow> 'w rfs \<Rightarrow> 'w rfs" where
  "share_all os shares s =
     (let s = junction_if os (''windows'' \<in> set shares) [''Windows''] (system_root os) s;
          s = junction_if os (''programdata'' \<in> set shares) [''ProgramData''] (program_data os) s;
          s = junction_if os (''programfiles'' \<in> set shares) [''Program Files''] (program_files os) s;
          s = junction_if os (''programfilesx86'' \<in> set shares) [''Program Files (x86)''] (program_files_x86 os) s
      in if ''windowsapps'' \<in> set shares \<and> ''programfiles'' \<notin> set shares then share_windowsapps os s else s)"

section \<open>The mirror of the system\<close>

definition ESSENTIAL_BINARIES :: "string list" where
  "ESSENTIAL_BINARIES =
    [''ntdll.dll'', ''kernel32.dll'', ''kernelbase.dll'', ''ucrtbase.dll'', ''msvcrt.dll'', ''cmd.exe'', ''conhost.exe'',
     ''advapi32.dll'', ''sechost.dll'', ''rpcrt4.dll'', ''bcryptprimitives.dll'', ''user32.dll'', ''win32u.dll'', ''gdi32.dll'',
     ''gdi32full.dll'', ''msvcp_win.dll'', ''combase.dll'', ''oleaut32.dll'', ''shell32.dll'', ''shlwapi.dll'', ''ole32.dll'',
     ''imm32.dll'', ''ws2_32.dll'', ''nsi.dll'', ''iphlpapi.dll'', ''powershell.exe'', ''netapi32.dll'', ''winhttp.dll'',
     ''wininet.dll'', ''crypt32.dll'', ''wintrust.dll'', ''bcrypt.dll'', ''ncrypt.dll'', ''setupapi.dll'', ''cfgmgr32.dll'',
     ''version.dll'', ''wldp.dll'', ''profapi.dll'', ''userenv.dll'', ''whoami.exe'', ''netutils.dll'', ''samlib.dll'',
     ''samcli.dll'', ''logoncli.dll'', ''sspicli.dll'', ''cryptbase.dll'', ''secur32.dll'', ''schannel.dll'', ''mswsock.dll'',
     ''dnsapi.dll'', ''winnsi.dll'', ''fwpuclnt.dll'', ''rasadhlp.dll'', ''msv1_0.dll'', ''kerberos.dll'', ''msasn1.dll'',
     ''cryptsp.dll'', ''rsaenh.dll'', ''dpapi.dll'', ''icu.dll'', ''icuuc.dll'', ''icuin.dll'', ''powrprof.dll'', ''umpdc.dll'',
     ''winmm.dll'', ''msacm32.dll'', ''comctl32.dll'', ''ncryptsslp.dll'', ''ncryptprov.dll'', ''gpapi.dll'', ''msvcp140.dll'',
     ''vcruntime140.dll'', ''vcruntime140_1.dll'', ''curl.exe'', ''tar.exe'']"

text \<open>Copy each file that exists; a failed copy is a warning or nothing.\<close>

fun copy_existing :: "'w rootfs_os \<Rightarrow> place \<Rightarrow> place \<Rightarrow> string list \<Rightarrow> 'w rfs \<Rightarrow> 'w rfs" where
  "copy_existing os src dst [] s = s"
| "copy_existing os src dst (f # fs) s = copy_existing os src dst fs
     (if ro_exists os (into src f) (rf_world s) then fs_do os (CopyFile (into src f) (into dst f)) s else s)"

definition locale_name :: "string \<Rightarrow> bool" where
  "locale_name n \<longleftrightarrow> CHR ''-'' \<in> set n \<and> length n \<le> 8"

fun copy_locales :: "'w rootfs_os \<Rightarrow> place \<Rightarrow> place \<Rightarrow> (string \<times> node) list \<Rightarrow> 'w rfs \<Rightarrow> 'w rfs" where
  "copy_locales os src dst [] s = s"
| "copy_locales os src dst ((n, nd) # es) s = copy_locales os src dst es
     (if \<not> locale_name n \<or> \<not> ro_is_dir os (into src n) (rf_world s) then s
      else case fs_call os (MakeDirs (into dst n)) s of
        (Inl _, s) \<Rightarrow> s
      | (Inr _, s) \<Rightarrow> copy_existing os (into src n) (into dst n) (map (\<lambda>b. b @ ''.mui'') ESSENTIAL_BINARIES) s)"

definition mirror_system :: "'w rootfs_os \<Rightarrow> 'w rfs \<Rightarrow> 'w rfs" where
  "mirror_system os s =
     (let sys32 = (HostAt (system_root os), [''System32'']); dest = under [''Windows'', ''System32''];
          s = copy_existing os sys32 dest ESSENTIAL_BINARIES s
      in case ro_list os sys32 (rf_world s) of None \<Rightarrow> s | Some es \<Rightarrow> copy_locales os sys32 dest es s)"

definition mirror_globalization :: "'w rootfs_os \<Rightarrow> 'w rfs \<Rightarrow> 'w rfs" where
  "mirror_globalization os s = (let src = (HostAt (system_root os), [''Globalization'']) in
     if ro_exists os src (rf_world s)
     then snd (copy_dir_recursive os src (under [''Windows'', ''Globalization'']) (ro_list os src (rf_world s)) s) else s)"

definition mirror_crypto :: "'w rootfs_os \<Rightarrow> 'w rfs \<Rightarrow> 'w rfs" where
  "mirror_crypto os s = (let src = (HostAt (program_data os), [''Microsoft'', ''Crypto'']) in
     if ro_exists os src (rf_world s)
     then copy_besteffort os src (under [''ProgramData'', ''Microsoft'', ''Crypto'']) (ro_list os src (rf_world s)) s else s)"

section \<open>Preparing\<close>

definition skeleton :: "string list \<Rightarrow> place list" where
  "skeleton shares = [under [''Users'', ''ContainerUser''], under [''Temp'']] @
     (if ''windows'' \<in> set shares then [] else [under [''Windows'', ''System32''], under [''Windows'', ''Temp'']]) @
     (if ''programdata'' \<in> set shares then [] else [under [''ProgramData'']])"

definition prepare_rootfs_with_shares :: "'w rootfs_os \<Rightarrow> string list \<Rightarrow> 'w rfs \<Rightarrow> (PsrootError + unit) \<times> 'w rfs" where
  "prepare_rootfs_with_shares os shares s =
     st_bind (make_dirs os (skeleton shares) s) (\<lambda>_ s.
     let s = share_all os shares s; low = set_low_integrity_dir os in
     if ''windows'' \<in> set shares then
       let s = low (under [''Temp'']) s; s = low (under [''Users'', ''ContainerUser'']) s;
           s = (if ''programdata'' \<in> set shares then s else low (under [''ProgramData'']) s)
       in (Inr (), s)
     else
       let s = mirror_system os s;
           s = low (under [''Temp'']) s; s = low (under [''Windows'', ''Temp'']) s;
           s = low (under [''Users'', ''ContainerUser'']) s; s = low (under [''ProgramData'']) s;
           s = mirror_globalization os s; s = mirror_crypto os s
       in (Inr (), s))"

definition prepare_rootfs :: "'w rootfs_os \<Rightarrow> 'w rfs \<Rightarrow> (PsrootError + unit) \<times> 'w rfs" where
  "prepare_rootfs os s = prepare_rootfs_with_shares os [] s"

section \<open>Tools\<close>

definition needed_by_winget :: "string list" where
  "needed_by_winget = [''windows'', ''programfiles'', ''programdata'', ''windowsapps'']"

definition push_new_share :: "string \<Rightarrow> string list \<Rightarrow> string list" where
  "push_new_share n shares = (if n \<in> set shares then shares else shares @ [n])"

definition effective_shares :: "string list \<Rightarrow> string list \<Rightarrow> string list" where
  "effective_shares tools shares =
     fold (\<lambda>tool sh. if tool = ''winget'' then fold push_new_share needed_by_winget sh else sh) tools shares"

text \<open>The files of the directory, and \<open>node_modules\<close> when it exists.\<close>

fun copy_files :: "'w rootfs_os \<Rightarrow> place \<Rightarrow> place \<Rightarrow> (string \<times> node) list \<Rightarrow> 'w rfs \<Rightarrow> 'w rfs" where
  "copy_files os src dst [] s = s"
| "copy_files os src dst ((n, FileNode m) # es) s = copy_files os src dst es (fs_do os (CopyFile (into src n) (into dst n)) s)"
| "copy_files os src dst (e # es) s = copy_files os src dst es s"

definition install_node :: "'w rootfs_os \<Rightarrow> 'w rfs \<Rightarrow> (PsrootError + unit) \<times> 'w rfs" where
  "install_node os s = (case ro_node_dir os (rf_world s) of
       None \<Rightarrow> (Inr (), s)
     | Some dir \<Rightarrow>
       let src = (HostAt dir, []); dest = under [''nodejs''] in
       st_bind (fs_call os (MakeDirs dest) s) (\<lambda>_ s.
       case ro_list os src (rf_world s) of
         None \<Rightarrow> (Inl (IoError (ro_errno os)), s)
       | Some es \<Rightarrow>
         let s = copy_files os src dest es s; nm = into src ''node_modules'' in
         if ro_exists os nm (rf_world s)
         then copy_dir_recursive os nm (into dest ''node_modules'') (ro_list os nm (rf_world s)) s else (Inr (), s)))"

definition crlf :: string where "crlf = [CHR 0x0D, CHR 0x0A]"

definition text_of :: "string list \<Rightarrow> string" where
  "text_of ls = concat (map (\<lambda>l. l @ crlf) ls)"

definition winget_ps1 :: "string \<Rightarrow> string" where
  "winget_ps1 profile = text_of
     [''# psroot winget shim - invokes winget via the host'' @ [CHR 0x27] @ ''s'',
      ''# AppExecutionAlias so AppXSvc grants package identity'',
      ''# (required for MRT/PRI resource loading).'',
      ''$env:USERPROFILE = '' @ [CHR 0x27] @ profile @ [CHR 0x27],
      ''$env:LOCALAPPDATA = $env:USERPROFILE + '' @ [CHR 0x27] @ win ''/AppData/Local'' @ [CHR 0x27],
      ''$env:APPDATA = $env:USERPROFILE + '' @ [CHR 0x27] @ win ''/AppData/Roaming'' @ [CHR 0x27],
      ''$alias = $env:LOCALAPPDATA + '' @ [CHR 0x27] @ win ''/Microsoft/WindowsApps/winget.exe'' @ [CHR 0x27],
      ''& $alias @args'', ''exit $LASTEXITCODE'']"

definition winget_alias :: "string \<Rightarrow> string" where
  "winget_alias profile = profile @ win ''/AppData/Local/Microsoft/WindowsApps/winget.exe''"

definition winget_cmd :: "string \<Rightarrow> string" where
  "winget_cmd profile = text_of
     [''@echo off'', ''REM psroot winget shim - calls host AppExecutionAlias'',
      ''set '' @ [CHR 0x22] @ ''USERPROFILE='' @ profile @ [CHR 0x22],
      ''set '' @ [CHR 0x22] @ ''LOCALAPPDATA=%USERPROFILE%'' @ win ''/AppData/Local'' @ [CHR 0x22],
      ''set '' @ [CHR 0x22] @ ''APPDATA=%USERPROFILE%'' @ win ''/AppData/Roaming'' @ [CHR 0x22],
      [CHR 0x22] @ winget_alias profile @ [CHR 0x22] @ '' %*'']"

definition install_winget_shim :: "'w rootfs_os \<Rightarrow> 'w rfs \<Rightarrow> (PsrootError + unit) \<times> 'w rfs" where
  "install_winget_shim os s = (case ro_env os ''USERNAME'' of
       None \<Rightarrow> (Inr (), s)
     | Some user \<Rightarrow>
       let profile = win ''C:/Users/'' @ user; bin = under [''bin''] in
       if user = [] \<or> \<not> ro_exists os (HostAt profile, []) (rf_world s) \<or> \<not> ro_exists os (HostAt (winget_alias profile), []) (rf_world s)
       then (Inr (), s)
       else
         st_bind (fs_call os (MakeDirs bin) s) (\<lambda>_ s.
         st_bind (fs_call os (WriteText (into bin ''winget.ps1'') (winget_ps1 profile)) s) (\<lambda>_ s.
         fs_call os (WriteText (into bin ''winget.cmd'') (winget_cmd profile)) s)))"

definition RUST_BIN_ALLOWLIST :: "string list" where
  "RUST_BIN_ALLOWLIST = [''pstop.exe'', ''psmux.exe'', ''psnet.exe'', ''htop.exe'', ''weathr.exe'']"

text \<open>Counts what was copied.\<close>

fun copy_listed :: "'w rootfs_os \<Rightarrow> place \<Rightarrow> place \<Rightarrow> string list \<Rightarrow> nat \<Rightarrow> 'w rfs \<Rightarrow> nat \<times> 'w rfs" where
  "copy_listed os src dst [] n s = (n, s)"
| "copy_listed os src dst (f # fs) n s =
     (if ro_exists os (into src f) (rf_world s)
      then (case fs_call os (CopyFile (into src f) (into dst f)) s of
          (Inr _, s) \<Rightarrow> copy_listed os src dst fs (n + 1) s
        | (Inl _, s) \<Rightarrow> copy_listed os src dst fs n s)
      else copy_listed os src dst fs n s)"

definition cargo_home :: "'w rootfs_os \<Rightarrow> string" where
  "cargo_home os = env_or os ''CARGO_HOME'' (env_or os ''USERPROFILE'' (win ''C:/Users/Default'') @ win ''/.cargo'')"

definition install_rust_binaries :: "'w rootfs_os \<Rightarrow> 'w rfs \<Rightarrow> (PsrootError + unit) \<times> 'w rfs" where
  "install_rust_binaries os s = (let src = (HostAt (cargo_home os), [''bin'']); dest = under [''bin''] in
     if \<not> ro_exists os src (rf_world s) then (Inr (), s)
     else st_bind (fs_call os (MakeDirs dest) s) (\<lambda>_ s.
       let (copied, s) = copy_listed os src dest RUST_BIN_ALLOWLIST 0 s in
       (Inr (), if copied > 0 then set_low_integrity_dir os dest s else s)))"

definition install_tool :: "'w rootfs_os \<Rightarrow> string \<Rightarrow> 'w rfs \<Rightarrow> (PsrootError + unit) \<times> 'w rfs" where
  "install_tool os tool s =
     (if tool \<in> {''node'', ''nodejs''} then install_node os s
      else if tool = ''winget'' then install_winget_shim os s
      else if tool \<in> {''rust-bin'', ''cargo-bin''} then install_rust_binaries os s
      else (Inr (), s))"

fun install_tools :: "'w rootfs_os \<Rightarrow> string list \<Rightarrow> 'w rfs \<Rightarrow> (PsrootError + unit) \<times> 'w rfs" where
  "install_tools os [] s = (Inr (), s)"
| "install_tools os (t # ts) s = st_bind (install_tool os t s) (\<lambda>_ s. install_tools os ts s)"

definition prepare_rootfs_with_tools_and_shares :: "'w rootfs_os \<Rightarrow> string list \<Rightarrow> string list \<Rightarrow> 'w rfs \<Rightarrow>
    (PsrootError + unit) \<times> 'w rfs" where
  "prepare_rootfs_with_tools_and_shares os tools shares s =
     st_bind (prepare_rootfs_with_shares os (effective_shares tools shares) s) (\<lambda>_ s. install_tools os tools s)"

definition prepare_rootfs_with_tools :: "'w rootfs_os \<Rightarrow> string list \<Rightarrow> 'w rfs \<Rightarrow> (PsrootError + unit) \<times> 'w rfs" where
  "prepare_rootfs_with_tools os tools s = prepare_rootfs_with_tools_and_shares os tools [] s"

end
