(* ===== verification/Rootfs_Props.thy ===== *)
theory Rootfs_Props
  imports Rootfs "HOL-Library.Sublist"
begin

text \<open>
  What preparing a rootfs touches: only places in the rootfs, and, with one combination of shares
  excepted, nothing at or below a link to a shared host directory.
\<close>

section \<open>Logged calls\<close>

fun target_of :: "fsop \<Rightarrow> place" where
  "target_of (MakeDirs p) = p"
| "target_of (Junction l h) = l"
| "target_of (CopyFile a b) = b"
| "target_of (HardLink a b) = b"
| "target_of (LowIntegrity p) = p"
| "target_of (WriteText p c) = p"

fun is_junction :: "fsop \<Rightarrow> bool" where
  "is_junction (Junction l h) = True"
| "is_junction _ = False"

definition logs :: "(fsop \<Rightarrow> bool) \<Rightarrow> 'w rfs \<Rightarrow> 'w rfs \<Rightarrow> bool" where
  "logs P s t \<longleftrightarrow> (\<exists>es. rf_log t = rf_log s @ es \<and> (\<forall>e \<in> set es. P (fst e)))"

named_theorems logging

lemma logs_refl [logging, simp]: "logs P s s"
  by (simp add: logs_def)

lemma logs_trans: "logs P s t \<Longrightarrow> logs P t u \<Longrightarrow> logs P s u"
  by (force simp: logs_def)

lemma logs_call: "P op \<Longrightarrow> fs_call os op s = (r, t) \<Longrightarrow> logs P s t"
  by (auto simp: fs_call_def logs_def split: prod.splits sum.splits)

lemma logs_called: "fs_call os op s = (r, t) \<Longrightarrow> P op \<Longrightarrow> logs P s t"
  by (rule logs_call)

lemma logs_call_snd [logging]: "P op \<Longrightarrow> logs P s (snd (fs_call os op s))"
  by (rule logs_call [where r = "fst (fs_call os op s)"]) simp_all

lemma logs_do [logging]: "P op \<Longrightarrow> logs P s (fs_do os op s)"
  by (simp add: fs_do_def logs_call_snd)

text \<open>One more call in front.\<close>

lemma logs_before: "logs P (fs_do os op s) t \<Longrightarrow> P op \<Longrightarrow> logs P s t"
  by (rule logs_trans [OF logs_do])

lemma logs_bind [logging]:
  assumes "logs P s (snd m)" "\<And>x u. logs P u (snd (k x u))"
  shows "logs P s (snd (st_bind m k))"
proof -
  obtain r t where m: "m = (r, t)" by (cases m)
  then show ?thesis using assms(1) assms(2) [of t] by (cases r) (auto intro: logs_trans)
qed

lemma logs_if [logging]: "logs P s a \<Longrightarrow> logs P s b \<Longrightarrow> logs P s (if c then a else b)"
  by simp

lemma logs_make_dirs [logging]: "\<forall>d \<in> set ds. P (MakeDirs d) \<Longrightarrow> logs P s (snd (make_dirs os ds s))"
  by (induction ds arbitrary: s) (auto intro!: logging)

lemma logs_low [logging]: "P (LowIntegrity d) \<Longrightarrow> logs P s (set_low_integrity_dir os d s)"
  by (simp add: set_low_integrity_dir_def logs_do)

text \<open>A predicate on calls that holds for everything written below a place.\<close>

definition below_ok :: "(fsop \<Rightarrow> bool) \<Rightarrow> place \<Rightarrow> bool" where
  "below_ok P p \<longleftrightarrow> (\<forall>op rest. \<not> is_junction op \<longrightarrow> target_of op = (fst p, snd p @ rest) \<longrightarrow> P op)"

lemma below_ok_into [simp, intro]: "below_ok P p \<Longrightarrow> below_ok P (into p n)"
  by (auto simp: below_ok_def into_def)

lemma below_okD: "below_ok P p \<Longrightarrow> \<not> is_junction op \<Longrightarrow> target_of op = p \<Longrightarrow> P op"
  unfolding below_ok_def by (metis append_Nil2 prod.collapse)

lemma below_ok_ops [simp]:
  assumes "below_ok P p"
  shows "P (MakeDirs p)" "P (CopyFile a p)" "P (HardLink a p)" "P (LowIntegrity p)" "P (WriteText p c)"
  by (rule below_okD [OF assms]; simp)+

lemma logs_copy_entries [logging]: "below_ok P dst \<Longrightarrow> logs P s (snd (copy_entries os src dst es s))"
proof (induction os src dst es s rule: copy_entries.induct)
  case (3 os src dst name ents es s)
  then show ?case by (auto intro!: logs_bind logs_call_snd)
next
  case (2 os src dst name es s)
  then show ?case by (auto intro!: logs_bind logs_call_snd)
qed (simp_all add: logs_before)

lemma logs_copy_dir [logging]: "below_ok P dst \<Longrightarrow> logs P s (snd (copy_dir_recursive os src dst ents s))"
  by (auto simp: copy_dir_recursive_def intro!: logs_bind logs_call_snd logs_copy_entries split: option.split)

lemma logs_link_or_copy:
  assumes "below_ok P dst"
  shows "logs P s (link_or_copy os src dst s)"
proof -
  obtain r t where c: "fs_call os (HardLink src dst) s = (r, t)" by (cases "fs_call os (HardLink src dst) s")
  from logs_called [OF c] assms have "logs P s t" by simp
  then show ?thesis using c assms by (auto simp: link_or_copy_def split: sum.split intro: logs_trans [OF _ logs_do])
qed

lemma logs_besteffort_entries: "below_ok P dst \<Longrightarrow> logs P s (copy_besteffort_entries os src dst es s)"
proof (induction os src dst es s rule: copy_besteffort_entries.induct)
  case (2 os src dst name es s)
  then show ?case by (simp add: logs_before [OF "2.IH"])
next
  case (3 os src dst name ents es s)
  have sub: "below_ok P (into dst name)" using 3 by simp
  obtain r t where c: "fs_call os (MakeDirs (into dst name)) s = (r, t)" by (cases "fs_call os (MakeDirs (into dst name)) s")
  from logs_called [OF c] sub have t: "logs P s t" by simp
  show ?case
  proof (cases r)
    case (Inl e)
    with 3(2,3) c t show ?thesis by (auto intro: logs_trans)
  next
    case (Inr u)
    have "logs P s (copy_besteffort_entries os (into src name) (into dst name) ents t)"
      using t 3(1) c Inr sub by (auto intro: logs_trans)
    then show ?thesis using 3(2,3) c Inr by (auto intro: logs_trans)
  qed
next
  case (4 os src dst name n es s)
  then show ?case by (auto intro: logs_trans [OF logs_link_or_copy])
qed simp_all

lemma logs_besteffort [logging]:
  assumes "below_ok P dst"
  shows "logs P s (copy_besteffort os src dst ents s)"
proof -
  obtain r t where c: "fs_call os (MakeDirs dst) s = (r, t)" by (cases "fs_call os (MakeDirs dst) s")
  from logs_called [OF c] assms have "logs P s t" by simp
  then show ?thesis using c assms
    by (auto simp: copy_besteffort_def split: sum.split option.split intro: logs_trans [OF _ logs_besteffort_entries])
qed

lemma logs_copy_existing [logging]: "below_ok P dst \<Longrightarrow> logs P s (copy_existing os src dst fs s)"
proof (induction fs arbitrary: s)
  case (Cons f fs)
  then show ?case by (simp add: logs_before [OF Cons.IH])
qed simp

lemma logs_copy_locales [logging]: "below_ok P dst \<Longrightarrow> logs P s (copy_locales os src dst es s)"
proof (induction es arbitrary: s)
  case (Cons e es)
  obtain n nd where e: "e = (n, nd)" by (cases e)
  obtain r t where c: "fs_call os (MakeDirs (into dst n)) s = (r, t)" by (cases "fs_call os (MakeDirs (into dst n)) s")
  from logs_called [OF c] Cons.prems have t: "logs P s t" by simp
  then have "logs P s (copy_existing os (into src n) (into dst n) bs t)" for bs
    using Cons.prems by (auto intro: logs_trans [OF _ logs_copy_existing])
  with Cons t show ?case by (auto simp: e c split: sum.split intro: logs_trans)
qed simp

lemma logs_copy_files [logging]: "below_ok P dst \<Longrightarrow> logs P s (copy_files os src dst es s)"
proof (induction es arbitrary: s)
  case (Cons e es)
  obtain n nd where e: "e = (n, nd)" by (cases e)
  show ?case using Cons by (cases nd) (simp_all add: e logs_before [OF Cons.IH])
qed simp

lemma logs_copy_listed: "below_ok P dst \<Longrightarrow> logs P s (snd (copy_listed os src dst fs n s))"
proof (induction fs arbitrary: n s)
  case (Cons f fs)
  obtain r t where c: "fs_call os (CopyFile (into src f) (into dst f)) s = (r, t)"
    by (cases "fs_call os (CopyFile (into src f) (into dst f)) s")
  from logs_called [OF c] Cons.prems have "logs P s t" by simp
  with Cons c show ?case by (auto split: sum.split intro: logs_trans)
qed simp

section \<open>Links to the host\<close>

definition links :: "string list \<Rightarrow> string list list" where
  "links shares =
     (if ''windows'' \<in> set shares then [[''Windows'']] else []) @
     (if ''programdata'' \<in> set shares then [[''ProgramData'']] else []) @
     (if ''programfiles'' \<in> set shares then [[''Program Files'']] else []) @
     (if ''programfilesx86'' \<in> set shares then [[''Program Files (x86)'']] else []) @
     (if ''windowsapps'' \<in> set shares \<and> ''programfiles'' \<notin> set shares then [[''Program Files'', ''WindowsApps'']] else [])"

definition spares :: "string list \<Rightarrow> fsop \<Rightarrow> bool" where
  "spares shares op \<longleftrightarrow> fst (target_of op) = InRoot \<and>
     (if is_junction op then snd (target_of op) \<in> set (links shares)
      else \<forall>l \<in> set (links shares). \<not> prefix l (snd (target_of op)))"

lemma links_apart: "l \<in> set (links shares) \<Longrightarrow> l' \<in> set (links shares) \<Longrightarrow> prefix l l' \<Longrightarrow> l = l'"
  by (auto simp: links_def split: if_splits)

lemma below_spared:
  assumes "\<forall>l \<in> set (links shares). l \<noteq> [] \<and> hd l \<noteq> h"
  shows "below_ok (spares shares) (under (h # xs))"
proof -
  have "\<not> prefix l (h # ys)" if "l \<in> set (links shares)" for l ys
    using assms that by (cases l) auto
  then show ?thesis by (auto simp: below_ok_def spares_def under_def)
qed

lemma spared_dirs [simp]:
  "below_ok (spares shares) (under (''Temp'' # xs))" "below_ok (spares shares) (under (''Users'' # xs))"
  "below_ok (spares shares) (under (''nodejs'' # xs))" "below_ok (spares shares) (under (''bin'' # xs))"
  "''windows'' \<notin> set shares \<Longrightarrow> below_ok (spares shares) (under (''Windows'' # xs))"
  "''programdata'' \<notin> set shares \<Longrightarrow> below_ok (spares shares) (under (''ProgramData'' # xs))"
  by (rule below_spared, auto simp: links_def)+

lemma spares_link: "l \<in> set (links shares) \<Longrightarrow> spares shares (Junction (under l) h)"
  by (simp add: spares_def under_def)

lemma logs_junction_if: "(cond \<Longrightarrow> l \<in> set (links shares)) \<Longrightarrow> logs (spares shares) s (junction_if os cond l host s)"
  by (simp add: junction_if_def logs_do spares_link)

lemma logs_windowsapps:
  assumes "''windowsapps'' \<in> set shares" "''programfiles'' \<notin> set shares"
  shows "logs (spares shares) s (share_windowsapps os s)"
proof -
  have "spares shares (MakeDirs (under [''Program Files'']))"
    using assms by (auto simp: spares_def under_def links_def)
  moreover have "spares shares (Junction (under [''Program Files'', ''WindowsApps'']) h)" for h
    using assms by (intro spares_link) (simp add: links_def)
  ultimately show ?thesis by (auto simp: share_windowsapps_def Let_def intro: logs_trans [OF logs_do logs_do])
qed

lemma logs_windowsapps_if:
  "logs (spares shares) s (if ''windowsapps'' \<in> set shares \<and> ''programfiles'' \<notin> set shares then share_windowsapps os s else s)"
  by (simp add: logs_windowsapps)

lemma logs_share_all: "logs (spares shares) s (share_all os shares s)"
proof -
  have junctions: "logs (spares shares) u (junction_if os (n \<in> set shares) l host u)"
    if "n \<in> set shares \<longrightarrow> l \<in> set (links shares)" for n l host u
    using that by (simp add: logs_junction_if)
  show ?thesis unfolding share_all_def Let_def
    by (intro logs_trans [OF _ logs_windowsapps_if] logs_trans [OF _ junctions] logs_refl) (auto simp: links_def)
qed

lemma logs_mirror_system: "''windows'' \<notin> set shares \<Longrightarrow> logs (spares shares) s (mirror_system os s)"
  by (auto simp: mirror_system_def Let_def split: option.split
      intro!: logs_copy_existing logs_trans [OF logs_copy_existing logs_copy_locales])

lemma logs_globalization: "''windows'' \<notin> set shares \<Longrightarrow> logs (spares shares) s (mirror_globalization os s)"
  by (simp add: mirror_globalization_def Let_def logs_copy_dir)

lemma logs_crypto: "''programdata'' \<notin> set shares \<Longrightarrow> logs (spares shares) s (mirror_crypto os s)"
  by (simp add: mirror_crypto_def Let_def logs_besteffort)

lemma logs_skeleton: "logs (spares shares) s (snd (make_dirs os (skeleton shares) s))"
  by (rule logs_make_dirs) (auto simp: skeleton_def)

lemma logs_prepare:
  assumes "''programdata'' \<in> set shares \<longrightarrow> ''windows'' \<in> set shares"
  shows "logs (spares shares) s (snd (prepare_rootfs_with_shares os shares s))"
  unfolding prepare_rootfs_with_shares_def
proof (rule logs_bind [OF logs_skeleton])
  fix x u
  have low: "logs (spares shares) v (set_low_integrity_dir os d v)" if "below_ok (spares shares) d" for d v
    using that by (simp add: logs_low)
  show "logs (spares shares) u (snd
      (let s = share_all os shares u; low = set_low_integrity_dir os in
       if ''windows'' \<in> set shares then
         let s = low (under [''Temp'']) s; s = low (under [''Users'', ''ContainerUser'']) s;
             s = (if ''programdata'' \<in> set shares then s else low (under [''ProgramData'']) s)
         in (Inr (), s)
       else
         let s = mirror_system os s;
             s = low (under [''Temp'']) s; s = low (under [''Windows'', ''Temp'']) s;
             s = low (under [''Users'', ''ContainerUser'']) s; s = low (under [''ProgramData'']) s;
             s = mirror_globalization os s; s = mirror_crypto os s
         in (Inr (), s)))"
  proof (cases "''windows'' \<in> set shares")
    case True
    then show ?thesis
      by (simp add: Let_def) (intro conjI impI logs_trans [OF _ low] logs_share_all; simp)
  next
    case False
    with assms have "''programdata'' \<notin> set shares" by simp
    with False show ?thesis
      by (simp add: Let_def)
        (intro logs_trans [OF _ low] logs_trans [OF _ logs_crypto] logs_trans [OF _ logs_globalization]
          logs_trans [OF _ logs_mirror_system] logs_share_all; simp)
  qed
qed

lemma logs_install_tool: "logs (spares shares) s (snd (install_tool os tool s))"
proof -
  have "logs (spares shares) s (snd (install_node os s))"
    by (auto simp: install_node_def Let_def split: option.split
        intro!: logs_bind logs_call_snd logs_copy_files logs_trans [OF logs_copy_files logs_copy_dir])
  moreover have "logs (spares shares) s (snd (install_winget_shim os s))"
    by (auto simp: install_winget_shim_def Let_def split: option.split intro!: logs_bind logs_call_snd)
  moreover have "logs (spares shares) s (snd (install_rust_binaries os s))"
    unfolding install_rust_binaries_def Let_def
    by (auto intro!: logs_bind logs_call_snd simp: split_def)
      (auto intro: logs_copy_listed logs_trans [OF logs_copy_listed logs_low])
  ultimately show ?thesis by (simp add: install_tool_def)
qed

lemma logs_install_tools: "logs (spares shares) s (snd (install_tools os tools s))"
  by (induction tools arbitrary: s) (auto intro!: logs_bind logs_install_tool)

lemma logs_prepare_tools:
  fixes tools shares
  defines "sh \<equiv> effective_shares tools shares"
  assumes "''programdata'' \<in> set sh \<longrightarrow> ''windows'' \<in> set sh"
  shows "logs (spares sh) s (snd (prepare_rootfs_with_tools_and_shares os tools shares s))"
  using assms by (auto simp: prepare_rootfs_with_tools_and_shares_def intro!: logs_bind logs_prepare logs_install_tools)

text \<open>
  C29. Preparing a rootfs spares the host: whatever succeeds, fails or exists, every call that changes
  the file system is aimed into the rootfs; and unless \<open>programdata\<close> is shared without \<open>windows\<close>, no
  directory is made, file copied or linked, text written or integrity level lowered at or below a
  junction to a shared host directory, and junctions are not nested.
\<close>

theorem rootfs_spares_shares:
  assumes "rf_log s = []" "prepare_rootfs_with_tools_and_shares os tools shares s = (r, t)"
    and "''programdata'' \<in> set (effective_shares tools shares) \<longrightarrow> ''windows'' \<in> set (effective_shares tools shares)"
  shows "(\<forall>(op, ok) \<in> set (rf_log t). fst (target_of op) = InRoot) \<and>
    (\<forall>(op, ok) \<in> set (rf_log t). \<forall>(link, ok') \<in> set (rf_log t).
       is_junction link \<and> prefix (snd (target_of link)) (snd (target_of op)) \<longrightarrow> is_junction op \<and> target_of op = target_of link)"
proof -
  let ?sh = "effective_shares tools shares"
  have spared: "spares ?sh op" if "(op, ok) \<in> set (rf_log t)" for op ok
    using logs_prepare_tools [OF assms(3), of s os] assms(1,2) that by (force simp: logs_def)
  have "is_junction op \<and> target_of op = target_of link"
    if "(op, ok) \<in> set (rf_log t)" "(link, ok') \<in> set (rf_log t)" "is_junction link"
      "prefix (snd (target_of link)) (snd (target_of op))" for op ok link ok'
  proof -
    have "snd (target_of link) \<in> set (links ?sh)" using spared [OF that(2)] that(3) by (simp add: spares_def)
    moreover from this have "is_junction op" using spared [OF that(1)] that(4) by (cases "is_junction op") (auto simp: spares_def)
    moreover have "fst (target_of op) = fst (target_of link)" using spared [OF that(1)] spared [OF that(2)] by (simp add: spares_def)
    moreover from calculation have "snd (target_of op) \<in> set (links ?sh)" using spared [OF that(1)] by (simp add: spares_def)
    ultimately show ?thesis using links_apart [of "snd (target_of link)" ?sh "snd (target_of op)"] that(4)
      by (simp add: prod_eq_iff)
  qed
  moreover have "fst (target_of op) = InRoot" if "(op, ok) \<in> set (rf_log t)" for op ok
    using spared [OF that] by (simp add: spares_def)
  ultimately show ?thesis by blast
qed

text \<open>A machine on which everything exists and succeeds.\<close>

definition demo_rootfs :: "unit rootfs_os" where
  "demo_rootfs = \<lparr>ro_call = (\<lambda>_ w. (Inr (), w)), ro_exists = (\<lambda>_ _. True), ro_is_dir = (\<lambda>_ _. True), ro_list = (\<lambda>_ _. Some []),
     ro_env = (\<lambda>_. None), ro_node_dir = (\<lambda>_. None), ro_errno = 5\<rparr>"

lemma demo_calls:
  "fs_do demo_rootfs op s = s\<lparr>rf_log := rf_log s @ [(op, True)]\<rparr>"
  "fs_call demo_rootfs op s = (Inr (), s\<lparr>rf_log := rf_log s @ [(op, True)]\<rparr>)"
  by (simp_all add: fs_do_def fs_call_def demo_rootfs_def)

lemma demo_low: "set_low_integrity_dir demo_rootfs d s = s\<lparr>rf_log := rf_log s @ [(LowIntegrity d, True)]\<rparr>"
  by (simp add: set_low_integrity_dir_def demo_calls) (simp add: demo_rootfs_def)

lemma rootfs_spares_shares_witness:
  "let t = snd (prepare_rootfs_with_tools_and_shares demo_rootfs [] [''windows''] \<lparr>rf_log = [], rf_world = ()\<rparr>) in
     (Junction (under [''Windows'']) (HostAt (win ''C:/Windows''), []), True) \<in> set (rf_log t) \<and>
     (\<forall>(op, ok) \<in> set (rf_log t). fst (target_of op) = InRoot)"
proof -
  let ?s = "\<lparr>rf_log = [], rf_world = ()\<rparr>"
  obtain r t where run: "prepare_rootfs_with_tools_and_shares demo_rootfs [] [''windows''] ?s = (r, t)"
    by (cases "prepare_rootfs_with_tools_and_shares demo_rootfs [] [''windows''] ?s")
  have "system_root demo_rootfs = win ''C:/Windows''" by (simp add: system_root_def env_or_def demo_rootfs_def)
  then have "(Junction (under [''Windows'']) (HostAt (win ''C:/Windows''), []), True) \<in> set (rf_log t)"
    using run by (auto simp: prepare_rootfs_with_tools_and_shares_def prepare_rootfs_with_shares_def effective_shares_def
        skeleton_def share_all_def junction_if_def demo_calls demo_low Let_def)
  moreover have "\<forall>(op, ok) \<in> set (rf_log t). fst (target_of op) = InRoot"
    using rootfs_spares_shares [OF _ run] by (simp add: effective_shares_def)
  ultimately show ?thesis by (simp add: run)
qed

text \<open>The exception: with \<open>programdata\<close> alone the host's own directory is given low integrity through the junction.\<close>

lemma logs_kept: "logs P s t \<Longrightarrow> e \<in> set (rf_log s) \<Longrightarrow> e \<in> set (rf_log t)"
  by (auto simp: logs_def)

lemma everywhere [simp]: "below_ok (\<lambda>_. True) p"
  by (simp add: below_ok_def)

lemma logs_any: 
  "logs (\<lambda>_. True) s (mirror_globalization os s)" "logs (\<lambda>_. True) s (mirror_crypto os s)"
  "logs (\<lambda>_. True) s (mirror_system os s)" "logs (\<lambda>_. True) s (set_low_integrity_dir os d s)"
  by (auto simp: mirror_globalization_def mirror_crypto_def mirror_system_def Let_def logs_low split: option.split
      intro!: logs_copy_dir logs_besteffort logs_copy_existing logs_trans [OF logs_copy_existing logs_copy_locales])

lemma programdata_lowered:
  fixes t
  defines "t \<equiv> snd (prepare_rootfs_with_shares demo_rootfs [''programdata''] \<lparr>rf_log = [], rf_world = ()\<rparr>)"
  shows "(Junction (under [''ProgramData'']) (HostAt (win ''C:/ProgramData''), []), True) \<in> set (rf_log t)"
    "(LowIntegrity (under [''ProgramData'']), True) \<in> set (rf_log t)"
proof -
  have pd: "program_data demo_rootfs = win ''C:/ProgramData''" by (simp add: program_data_def env_or_def demo_rootfs_def)
  note kept = logs_kept [OF logs_any(1)] logs_kept [OF logs_any(2)] logs_kept [OF logs_any(3)]
  show "(Junction (under [''ProgramData'']) (HostAt (win ''C:/ProgramData''), []), True) \<in> set (rf_log t)"
    by (simp add: t_def prepare_rootfs_with_shares_def skeleton_def share_all_def junction_if_def demo_calls demo_low Let_def pd)
      (intro kept; simp; intro disjI1 kept; simp)
  show "(LowIntegrity (under [''ProgramData'']), True) \<in> set (rf_log t)"
    by (simp add: t_def prepare_rootfs_with_shares_def skeleton_def share_all_def junction_if_def demo_calls demo_low Let_def pd)
      (intro kept; simp)
qed

end
