(* ===== verification/Setup.thy ===== *)
theory Setup
  imports Text Config
begin

text \<open>
  One-time machine setup, \<open>crates/psroot-container/src/setup.rs\<close>: which paths lack the entry for all
  application packages, granting it, and the privilege for silos. \<open>icacls\<close> and the security authority
  are parameters over a world.
\<close>

section \<open>The machine\<close>

record 'w setup_os =
  so_icacls :: "string list \<Rightarrow> 'w \<Rightarrow> (nat + bool \<times> string \<times> string) \<times> 'w"
    \<comment> \<open>the error of the spawn, or success, stdout and stderr\<close>
  so_exists :: "string \<Rightarrow> 'w \<Rightarrow> bool"
  so_mkdir :: "string \<Rightarrow> 'w \<Rightarrow> (nat + unit) \<times> 'w"
  so_open_token :: "'w \<Rightarrow> (PsrootError + unit) \<times> 'w"
  so_token_user :: "'w \<Rightarrow> PsrootError + string"                  \<comment> \<open>\<open>GetTokenInformation(TokenUser)\<close>\<close>
  so_lsa_open :: "'w \<Rightarrow> (PsrootError + unit) \<times> 'w"
  so_lsa_rights :: "string \<Rightarrow> 'w \<Rightarrow> string list option"          \<comment> \<open>\<open>None\<close> when the call fails\<close>
  so_lsa_add :: "string \<Rightarrow> string \<Rightarrow> 'w \<Rightarrow> (PsrootError + unit) \<times> 'w"
  so_lower :: "string \<Rightarrow> string"

record setup_check =
  sc_path :: string
  sc_has :: bool
  sc_note :: string

definition ALL_APP_PACKAGES :: string where
  "ALL_APP_PACKAGES = ''S-1-15-2-1''"

section \<open>Access entries\<close>

definition text_grants :: "string \<Rightarrow> bool" where
  "text_grants out \<longleftrightarrow> contains ''ALL APPLICATION PACKAGES'' out \<or> contains ALL_APP_PACKAGES out"

definition path_grants :: "'w setup_os \<Rightarrow> string \<Rightarrow> 'w \<Rightarrow> bool \<times> 'w" where
  "path_grants os path w = (case so_icacls os [path] w of
       (Inr (True, out, err), w) \<Rightarrow> (text_grants out, w)
     | (_, w) \<Rightarrow> (False, w))"

definition grant_args :: "string \<Rightarrow> string \<Rightarrow> string \<Rightarrow> bool \<Rightarrow> string list" where
  "grant_args path sid perms recurse =
     [path, ''/grant'', ''*'' @ sid @ '':'' @ perms, ''/Q''] @ (if recurse then [''/T''] else [])"

definition grant_ace :: "'w setup_os \<Rightarrow> string \<Rightarrow> string \<Rightarrow> string \<Rightarrow> bool \<Rightarrow> 'w \<Rightarrow> (PsrootError + unit) \<times> 'w" where
  "grant_ace os path sid perms recurse w = (case so_icacls os (grant_args path sid perms recurse) w of
       (Inl n, w) \<Rightarrow> (Inl (IoError n), w)
     | (Inr (success, out, err), w) \<Rightarrow>
       if success then (Inr (), w)
       else (Inl (OtherError (''icacls grant failed for '' @ path @ '': '' @ trim (trim out @ '' '' @ trim err))), w))"

definition drive_root :: "char \<Rightarrow> string" where
  "drive_root c = [c, CHR '':'', CHR 0x5C]"

text \<open>The scan over the letters keeps only \<open>C\<close>.\<close>

definition enumerate_fixed_drive_roots :: "'w setup_os \<Rightarrow> 'w \<Rightarrow> string list" where
  "enumerate_fixed_drive_roots os w =
     map drive_root (filter (\<lambda>c. so_exists os (drive_root c) w \<and> c = CHR ''C'') (map char_of [65..<91::nat]))"

section \<open>Checking\<close>

fun check_drives :: "'w setup_os \<Rightarrow> string list \<Rightarrow> 'w \<Rightarrow> setup_check list \<times> 'w" where
  "check_drives os [] w = ([], w)"
| "check_drives os (d # ds) w = (let (has, w) = path_grants os d w; (cs, w) = check_drives os ds w in
     (\<lparr>sc_path = d, sc_has = has,
       sc_note = if has then ''ok'' else ''needed for DriveInfo.IsReady '' @ map char_of [0xE2, 0x86, 0x92 :: nat] @ '' enables PSDrive C: in pwsh''\<rparr> # cs, w))"

definition cache_grants :: "'w setup_os \<Rightarrow> string \<Rightarrow> 'w \<Rightarrow> bool \<times> 'w" where
  "cache_grants os cache w = (if so_exists os cache w then path_grants os cache w else (False, w))"

definition check_status :: "'w setup_os \<Rightarrow> string \<Rightarrow> 'w \<Rightarrow> setup_check list \<times> 'w" where
  "check_status os cache w =
     (let (ds, w) = check_drives os (enumerate_fixed_drive_roots os w) w; (has, w) = cache_grants os cache w in
      (ds @ [\<lparr>sc_path = cache, sc_has = has,
         sc_note = if has then ''ok'' else ''needed so cached shells (pwsh, etc.) are readable inside containers''\<rparr>], w))"

definition line_end :: string where "line_end = [CHR 0x0A]"

definition require_ready :: "'w setup_os \<Rightarrow> string \<Rightarrow> 'w \<Rightarrow> (PsrootError + unit) \<times> 'w" where
  "require_ready os cache w =
     (let (checks, w) = check_status os cache w; missing = filter (\<lambda>c. \<not> sc_has c) checks in
      if missing = [] then (Inr (), w)
      else (Inl (OtherError (''psroot setup required (one-time, needs admin):'' @ line_end @
        concat (map (\<lambda>c. ''  - '' @ sc_path c @ '' : '' @ sc_note c @ line_end) missing) @ line_end @
        ''Run (in elevated pwsh):  psroot setup'' @ line_end)), w))"

section \<open>The privilege\<close>

definition check_account_has_privilege :: "'w setup_os \<Rightarrow> string \<Rightarrow> string \<Rightarrow> 'w \<Rightarrow> bool" where
  "check_account_has_privilege os sid name w = (case so_lsa_rights os sid w of None \<Rightarrow> False
     | Some rights \<Rightarrow> list_ex (\<lambda>r. so_lower os r = so_lower os name) rights)"

definition grant_se_tcb :: "'w setup_os \<Rightarrow> 'w \<Rightarrow> (PsrootError + bool) \<times> 'w" where
  "grant_se_tcb os w =
     st_bind (so_open_token os w) (\<lambda>_ w.
     st_bind (so_token_user os w, w) (\<lambda>sid w.
     st_bind (so_lsa_open os w) (\<lambda>_ w.
     if check_account_has_privilege os sid ''SeTcbPrivilege'' w then (Inr False, w)
     else st_bind (so_lsa_add os sid ''SeTcbPrivilege'' w) (\<lambda>_ w. (Inr True, w)))))"

section \<open>Applying\<close>

fun apply_drives :: "'w setup_os \<Rightarrow> string list \<Rightarrow> 'w \<Rightarrow> (PsrootError + string list) \<times> 'w" where
  "apply_drives os [] w = (Inr [], w)"
| "apply_drives os (d # ds) w = (let (has, w) = path_grants os d w in
     if has then apply_drives os ds w
     else st_bind (grant_ace os d ALL_APP_PACKAGES ''(R)'' False w) (\<lambda>_ w.
       st_bind (apply_drives os ds w) (\<lambda>applied w. (Inr (d # applied), w))))"

definition ensure_dir :: "'w setup_os \<Rightarrow> string \<Rightarrow> 'w \<Rightarrow> (PsrootError + unit) \<times> 'w" where
  "ensure_dir os dir w = (if so_exists os dir w then (Inr (), w)
     else case so_mkdir os dir w of (Inl n, w) \<Rightarrow> (Inl (IoError n), w) | (Inr _, w) \<Rightarrow> (Inr (), w))"

definition apply_cache :: "'w setup_os \<Rightarrow> string \<Rightarrow> 'w \<Rightarrow> (PsrootError + string list) \<times> 'w" where
  "apply_cache os cache w = st_bind (ensure_dir os cache w) (\<lambda>_ w. let (has, w) = path_grants os cache w in
     if has then (Inr [], w)
     else st_bind (grant_ace os cache ALL_APP_PACKAGES ''(OI)(CI)(RX)'' True w) (\<lambda>_ w. (Inr [cache], w)))"

text \<open>A privilege that cannot be granted is a warning.\<close>

definition setup_apply :: "'w setup_os \<Rightarrow> string \<Rightarrow> 'w \<Rightarrow> (PsrootError + string list) \<times> 'w" where
  "setup_apply os cache w =
     st_bind (apply_drives os (enumerate_fixed_drive_roots os w) w) (\<lambda>drives w.
     st_bind (apply_cache os cache w) (\<lambda>caches w. case grant_se_tcb os w of
         (Inr True, w) \<Rightarrow> (Inr (drives @ caches @ [''SeTcbPrivilege (LSA)'']), w)
       | (_, w) \<Rightarrow> (Inr (drives @ caches), w)))"

text \<open>
  The text of \<open>icacls\<close> is searched for the SID, which begins those of many single packages: an entry
  for one of them counts as the one for all.
\<close>

lemma package_taken_for_all: "text_grants ''S-1-15-2-1430448594-2639229838-973813799:(OI)(CI)(RX)''"
  by (simp add: text_grants_def ALL_APP_PACKAGES_def starts_with_def strip_prefix_def)

section \<open>Setup makes the machine ready\<close>

text \<open>
  What the code relies on: listing a path shows whether it is granted and changes nothing; a grant that
  succeeds holds from then on, and what was granted stays so; a directory made exists and the drives
  stay; the security authority touches neither.
\<close>

definition kept :: "(string \<Rightarrow> 'w \<Rightarrow> bool) \<Rightarrow> 'w setup_os \<Rightarrow> 'w \<Rightarrow> 'w \<Rightarrow> bool" where
  "kept granted os w w' \<longleftrightarrow> (\<forall>p. granted p w \<longrightarrow> granted p w') \<and> (\<forall>p. so_exists os p w \<longrightarrow> so_exists os p w') \<and>
     (\<forall>c. so_exists os (drive_root c) w' \<longrightarrow> so_exists os (drive_root c) w)"

definition setup_laws :: "(string \<Rightarrow> 'w \<Rightarrow> bool) \<Rightarrow> 'w setup_os \<Rightarrow> bool" where
  "setup_laws granted os \<longleftrightarrow>
     (\<forall>p w r w'. so_icacls os [p] w = (r, w') \<longrightarrow> kept granted os w w' \<and>
        (granted p w \<longleftrightarrow> (case r of Inl _ \<Rightarrow> False | Inr (ok, out, err) \<Rightarrow> ok \<and> text_grants out))) \<and>
     (\<forall>p perms rec w r w'. so_icacls os (grant_args p ALL_APP_PACKAGES perms rec) w = (r, w') \<longrightarrow> kept granted os w w' \<and>
        (\<forall>out err. r = Inr (True, out, err) \<longrightarrow> granted p w')) \<and>
     (\<forall>d w r w'. so_mkdir os d w = (r, w') \<longrightarrow> kept granted os w w' \<and> (r = Inr () \<longrightarrow> so_exists os d w')) \<and>
     (\<forall>w r w'. so_open_token os w = (r, w') \<longrightarrow> kept granted os w w') \<and>
     (\<forall>w r w'. so_lsa_open os w = (r, w') \<longrightarrow> kept granted os w w') \<and>
     (\<forall>sid name w r w'. so_lsa_add os sid name w = (r, w') \<longrightarrow> kept granted os w w')"

lemma kept_refl [simp]: "kept granted os w w"
  by (simp add: kept_def)

lemma kept_trans: "kept granted os w w' \<Longrightarrow> kept granted os w' w'' \<Longrightarrow> kept granted os w w''"
  unfolding kept_def by blast

lemma kept_granted: "kept granted os w w' \<Longrightarrow> granted p w \<Longrightarrow> granted p w'"
  unfolding kept_def by blast

lemma kept_exists: "kept granted os w w' \<Longrightarrow> so_exists os p w \<Longrightarrow> so_exists os p w'"
  unfolding kept_def by blast

lemma kept_drive: "kept granted os w w' \<Longrightarrow> so_exists os (drive_root c) w' \<longleftrightarrow> so_exists os (drive_root c) w"
  unfolding kept_def by blast

lemma kept_roots: "kept granted os w w' \<Longrightarrow> enumerate_fixed_drive_roots os w' = enumerate_fixed_drive_roots os w"
  by (simp add: enumerate_fixed_drive_roots_def kept_drive cong: filter_cong)

lemma law_list:
  assumes "setup_laws granted os" "path_grants os p w = (has, w')"
  shows "kept granted os w w'" "has \<longleftrightarrow> granted p w"
proof -
  obtain r u where r: "so_icacls os [p] w = (r, u)" by (cases "so_icacls os [p] w")
  then have law: "kept granted os w u" "granted p w \<longleftrightarrow> (case r of Inl _ \<Rightarrow> False | Inr (ok, out, err) \<Rightarrow> ok \<and> text_grants out)"
    using assms(1) [unfolded setup_laws_def, THEN conjunct1, rule_format, OF r] by simp_all
  show "kept granted os w w'" "has \<longleftrightarrow> granted p w"
    using assms(2) r law by (auto simp: path_grants_def split: sum.splits prod.splits bool.splits)
qed

lemma law_grant:
  assumes "setup_laws granted os" "grant_ace os p ALL_APP_PACKAGES perms rec w = (r, w')"
  shows "kept granted os w w'" "r = Inr () \<Longrightarrow> granted p w'"
proof -
  obtain q u where q: "so_icacls os (grant_args p ALL_APP_PACKAGES perms rec) w = (q, u)"
    by (cases "so_icacls os (grant_args p ALL_APP_PACKAGES perms rec) w")
  then have law: "kept granted os w u" "\<And>out err. q = Inr (True, out, err) \<Longrightarrow> granted p u"
    using assms(1) [unfolded setup_laws_def, THEN conjunct2, THEN conjunct1, rule_format, OF q] by simp_all
  show "kept granted os w w'" "r = Inr () \<Longrightarrow> granted p w'"
    using assms(2) q law by (auto simp: grant_ace_def split: sum.splits prod.splits if_splits)
qed

lemma st_bind_InrE:
  assumes "st_bind m k = (Inr y, t)"
  obtains x u where "m = (Inr x, u)" "k x u = (Inr y, t)"
  using assms by (cases m; cases "fst m") auto

lemma apply_drives_grants:
  "setup_laws granted os \<Longrightarrow> apply_drives os ds w = (Inr applied, w') \<Longrightarrow>
     kept granted os w w' \<and> (\<forall>d \<in> set ds. granted d w')"
proof (induction ds arbitrary: w applied)
  case (Cons d ds)
  obtain has u where u: "path_grants os d w = (has, u)" by (cases "path_grants os d w")
  note list = law_list [OF Cons.prems(1) u]
  show ?case
  proof (cases has)
    case True
    with Cons.prems(2) u have run: "apply_drives os ds u = (Inr applied, w')" by simp
    from Cons.IH [OF Cons.prems(1) run] list True show ?thesis by (auto intro: kept_trans kept_granted)
  next
    case False
    with Cons.prems(2) u obtain v applied' where v: "grant_ace os d ALL_APP_PACKAGES ''(R)'' False u = (Inr (), v)"
      "apply_drives os ds v = (Inr applied', w')" by (auto elim!: st_bind_InrE)
    have "kept granted os v w' \<and> (\<forall>d \<in> set ds. granted d w')" using Cons.IH [OF Cons.prems(1) v(2)] .
    then show ?thesis using law_grant [OF Cons.prems(1) v(1)] list by (auto intro: kept_trans kept_granted)
  qed
qed simp

lemma ensure_dir_made:
  assumes laws: "setup_laws granted os" and v: "ensure_dir os cache w = (Inr (), v)"
  shows "kept granted os w v \<and> so_exists os cache v"
proof (cases "so_exists os cache w")
  case True with v show ?thesis by (simp add: ensure_dir_def)
next
  case False
  then have "so_mkdir os cache w = (Inr (), v)" using v by (auto simp: ensure_dir_def split: prod.splits sum.splits)
  with laws show ?thesis unfolding setup_laws_def by blast
qed

lemma apply_cache_grants:
  assumes laws: "setup_laws granted os" and run: "apply_cache os cache w = (Inr applied, w')"
  shows "kept granted os w w' \<and> so_exists os cache w' \<and> granted cache w'"
proof -
  from run obtain v where v: "ensure_dir os cache w = (Inr (), v)"
    and rest: "(let (has, w) = path_grants os cache v in
     if has then (Inr [], w)
     else st_bind (grant_ace os cache ALL_APP_PACKAGES ''(OI)(CI)(RX)'' True w) (\<lambda>_ w. (Inr [cache], w))) = (Inr applied, w')"
    unfolding apply_cache_def by (elim st_bind_InrE) auto
  note made = ensure_dir_made [OF laws v]
  obtain has u where u: "path_grants os cache v = (has, u)" by (cases "path_grants os cache v")
  note list = law_list [OF laws u]
  have "kept granted os v w' \<and> granted cache w'"
  proof (cases has)
    case True
    with rest u have "w' = u" by simp
    with list True show ?thesis by (auto intro: kept_granted)
  next
    case False
    with rest u have "grant_ace os cache ALL_APP_PACKAGES ''(OI)(CI)(RX)'' True u = (Inr (), w')"
      by (auto elim!: st_bind_InrE)
    from law_grant [OF laws this] list(1) show ?thesis by (auto intro: kept_trans)
  qed
  with made show ?thesis by (blast intro: kept_trans kept_exists)
qed

lemma law_lsa:
  assumes "setup_laws granted os"
  shows "so_open_token os w = (r, w') \<Longrightarrow> kept granted os w w'" "so_lsa_open os w = (r, w') \<Longrightarrow> kept granted os w w'"
    "so_lsa_add os sid name w = (r, w') \<Longrightarrow> kept granted os w w'"
  using assms unfolding setup_laws_def by blast+

lemma grant_se_tcb_kept:
  assumes laws: "setup_laws granted os" and run: "grant_se_tcb os w = (r, w')"
  shows "kept granted os w w'"
proof -
  obtain r1 w1 where s1: "so_open_token os w = (r1, w1)" by (cases "so_open_token os w")
  obtain r2 w2 where s2: "so_lsa_open os w1 = (r2, w2)" by (cases "so_lsa_open os w1")
  obtain r3 w3 where s3: "so_lsa_add os (projr (so_token_user os w1)) ''SeTcbPrivilege'' w2 = (r3, w3)"
    by (cases "so_lsa_add os (projr (so_token_user os w1)) ''SeTcbPrivilege'' w2")
  have "w' \<in> {w1, w2, w3}"
    using run s1 s2 s3 by (cases r1; cases "so_token_user os w1"; cases r2; cases r3) (auto simp: grant_se_tcb_def split: if_splits)
  then show ?thesis
    using law_lsa(1) [OF laws s1] law_lsa(2) [OF laws s2] law_lsa(3) [OF laws s3] by (auto intro: kept_trans)
qed

lemma check_drives_ready:
  "setup_laws granted os \<Longrightarrow> \<forall>d \<in> set ds. granted d w \<Longrightarrow> check_drives os ds w = (cs, w') \<Longrightarrow>
     kept granted os w w' \<and> (\<forall>c \<in> set cs. sc_has c)"
proof (induction ds arbitrary: w cs w')
  case (Cons d ds)
  obtain has u where u: "path_grants os d w = (has, u)" by (cases "path_grants os d w")
  obtain cs' v where v: "check_drives os ds u = (cs', v)" by (cases "check_drives os ds u")
  note list = law_list [OF Cons.prems(1) u]
  have "kept granted os u v \<and> (\<forall>c \<in> set cs'. sc_has c)"
    using Cons.IH [OF Cons.prems(1) _ v] list(1) Cons.prems(2) by (auto intro: kept_granted)
  with Cons.prems u v list show ?case by (auto intro: kept_trans)
qed auto


text \<open>A machine whose world is the list of granted paths.\<close>

definition demo_icacls :: "string list \<Rightarrow> string list \<Rightarrow> (nat + bool \<times> string \<times> string) \<times> string list" where
  "demo_icacls args w = (case args of
       [p] \<Rightarrow> (Inr (True, if p \<in> set w then ''ALL APPLICATION PACKAGES'' else [], []), w)
     | p # _ \<Rightarrow> (Inr (True, [], []), p # w)
     | [] \<Rightarrow> (Inr (False, [], []), w))"

definition demo_setup :: "string list setup_os" where
  "demo_setup = \<lparr>so_icacls = demo_icacls, so_exists = (\<lambda>p w. True), so_mkdir = (\<lambda>_ w. (Inr (), w)),
     so_open_token = (\<lambda>w. (Inr (), w)), so_token_user = (\<lambda>_. Inr ''me''), so_lsa_open = (\<lambda>w. (Inr (), w)),
     so_lsa_rights = (\<lambda>_ _. None), so_lsa_add = (\<lambda>_ _ w. (Inl (OtherError ''denied''), w)), so_lower = id\<rparr>"

lemma demo_setup_laws: "setup_laws (\<lambda>p w. p \<in> set w) demo_setup"
  by (auto simp: setup_laws_def demo_setup_def demo_icacls_def kept_def grant_args_def text_grants_def starts_with_def
      strip_prefix_def ALL_APP_PACKAGES_def)


end
