(* ===== verification/App_Stage.thy ===== *)
theory App_Stage
  imports Stager Config
begin

text \<open>
  Running any installed program from a staged copy, \<open>crates/psroot-container/src/app_stage.rs\<close>: the
  directory to stage, the walk that links or copies it, and the run on a desktop of its own. What lies
  below each destination is explicit; \<open>None\<close> is a panic.
\<close>

section \<open>Configuration\<close>

record app_config =
  ac_exe_path :: string
  ac_app_root :: string
  ac_container_name :: string
  ac_args :: "string list"
  ac_rootfs_base :: string
  ac_exclude :: "string list"
  ac_network :: bool
  ac_extra_dirs :: "(string \<times> string) list"

record 'w app_os =
  ap_exists :: "string \<Rightarrow> bool"
  ap_is_file :: "string \<Rightarrow> bool"
  ap_parent :: "string \<Rightarrow> string option"
  ap_file_name :: "string \<Rightarrow> string option"
  ap_file_stem :: "string \<Rightarrow> string option"
  ap_join :: "string \<Rightarrow> string \<Rightarrow> string"
  ap_strip_prefix :: "string \<Rightarrow> string \<Rightarrow> string option"
  ap_lower :: "string \<Rightarrow> string"
  ap_temp_dir :: string
  ap_pid :: nat
  ap_mkdir :: "string \<Rightarrow> 'w \<Rightarrow> (string + unit) \<times> 'w"
  ap_link :: "string \<Rightarrow> string \<Rightarrow> 'w \<Rightarrow> bool \<times> 'w"
  ap_copy :: "string \<Rightarrow> string \<Rightarrow> 'w \<Rightarrow> (string + unit) \<times> 'w"
  ap_tree :: "string \<Rightarrow> 'w \<Rightarrow> (string \<times> node) list option"
  ap_mirror :: "string \<Rightarrow> mirror_os"                        \<comment> \<open>the calls below a destination\<close>
  ap_desktop :: "string \<Rightarrow> 'w \<Rightarrow> (PsrootError + nat) \<times> 'w"
  ap_close_desktop :: "nat \<Rightarrow> 'w \<Rightarrow> 'w"
  ap_spawn :: "nat \<Rightarrow> string \<Rightarrow> string \<Rightarrow> 'w \<Rightarrow> (PsrootError + nat) \<times> 'w"
  ap_wait :: "nat \<Rightarrow> 'w \<Rightarrow> u32 \<times> 'w"
  ap_remove_all :: "string \<Rightarrow> 'w \<Rightarrow> 'w"

record 'w app_sys =
  as_dirs :: "string \<Rightarrow> path \<rightharpoonup> nat"
  as_world :: 'w

definition backslashes :: "string \<Rightarrow> string" where
  "backslashes = map (\<lambda>c. if c = CHR ''/'' then CHR 0x5C else c)"

definition is_system_dir :: "string \<Rightarrow> bool" where
  "is_system_dir p \<longleftrightarrow> list_ex (\<lambda>m. contains (backslashes m) p)
     [''/windows/system32'', ''/windows/syswow64'', ''/windows/system'', ''/windows/winsxs'']"

definition parent_or_self :: "'w app_os \<Rightarrow> string \<Rightarrow> string" where
  "parent_or_self os p = (case ap_parent os p of Some d \<Rightarrow> d | None \<Rightarrow> p)"

definition detect_app_root :: "'w app_os \<Rightarrow> string \<Rightarrow> string" where
  "detect_app_root os exe = (let parent = parent_or_self os exe in
     if is_system_dir (ap_lower os parent) then parent
     else case ap_file_name os parent of
       None \<Rightarrow> parent
     | Some name \<Rightarrow>
       if ap_lower os name \<in> {''bin'', ''app'', ''cli''}
       then (case ap_parent os parent of Some grandparent \<Rightarrow> grandparent | None \<Rightarrow> parent)
       else parent)"

definition default_excludes :: "string list" where
  "default_excludes = [''*.pdb'', ''**/Installer/**'', ''**/*.log'', ''**/SetupMetrics/**'']"

definition from_exe :: "'w app_os \<Rightarrow> string \<Rightarrow> PsrootError + app_config" where
  "from_exe os exe =
     (if \<not> ap_exists os exe then Inl (OtherError (''Executable not found: '' @ exe))
      else if \<not> ap_is_file os exe then Inl (OtherError (''Not a file: '' @ exe))
      else Inr \<lparr>ac_exe_path = exe, ac_app_root = detect_app_root os exe,
        ac_container_name = (case ap_file_stem os exe of Some n \<Rightarrow> n | None \<Rightarrow> []) @ ''-'' @ show_nat (ap_pid os),
        ac_args = [], ac_rootfs_base = ap_join os (ap_temp_dir os) ''psroot-containers'', ac_exclude = default_excludes,
        ac_network = True, ac_extra_dirs = []\<rparr>)"

definition with_args :: "string list \<Rightarrow> app_config \<Rightarrow> app_config" where
  "with_args args c = c\<lparr>ac_args := args\<rparr>"

definition with_app_root :: "string \<Rightarrow> app_config \<Rightarrow> app_config" where
  "with_app_root root c = c\<lparr>ac_app_root := root\<rparr>"

definition with_extra_dir :: "string \<Rightarrow> string \<Rightarrow> app_config \<Rightarrow> app_config" where
  "with_extra_dir host name c = c\<lparr>ac_extra_dirs := ac_extra_dirs c @ [(host, name)]\<rparr>"

definition with_excludes :: "string list \<Rightarrow> app_config \<Rightarrow> app_config" where
  "with_excludes ex c = c\<lparr>ac_exclude := ex\<rparr>"

definition rootfs_path :: "'w app_os \<Rightarrow> app_config \<Rightarrow> string" where
  "rootfs_path os c = ap_join os (ac_rootfs_base c) (ac_container_name c)"

definition staged_app_dir :: "'w app_os \<Rightarrow> app_config \<Rightarrow> string" where
  "staged_app_dir os c = ap_join os (rootfs_path os c) ''App''"

definition staged_exe_path :: "'w app_os \<Rightarrow> app_config \<Rightarrow> string" where
  "staged_exe_path os c = ap_join os (staged_app_dir os c)
     (case ap_strip_prefix os (ac_app_root c) (ac_exe_path c) of Some rel \<Rightarrow> rel | None \<Rightarrow> ac_exe_path c)"

section \<open>The walk\<close>

definition link_or_copy_app :: "mirror_os \<Rightarrow> path \<Rightarrow> nat \<Rightarrow> mirror \<Rightarrow> mirror" where
  "link_or_copy_app os p sz m =
     (if mi_files m p = Some sz then m\<lparr>mi_skipped := mi_skipped m + 1\<rparr>
      else if mi_files m p = None \<and> mo_hardlink os p then
        m\<lparr>mi_files := (mi_files m)(p \<mapsto> sz), mi_linked := mi_linked m + 1\<rparr>
      else if mo_copy os p then m\<lparr>mi_files := (mi_files m)(p \<mapsto> sz), mi_copied := mi_copied m + 1\<rparr>
      else m\<lparr>mi_skipped := mi_skipped m + 1\<rparr>)"

text \<open>\<open>None\<close> when the matcher panics. An unreadable directory is skipped.\<close>

fun walk_and_stage :: "mirror_os \<Rightarrow> string list \<Rightarrow> path \<Rightarrow> (string \<times> node) list \<Rightarrow> mirror \<Rightarrow> mirror option" where
  "walk_and_stage os excludes cur [] m = Some m"
| "walk_and_stage os excludes cur ((name, nd) # ents) m =
     (let p = cur @ [name] in
      case matches_glob (rel_str p) excludes of
        None \<Rightarrow> None
      | Some True \<Rightarrow> walk_and_stage os excludes cur ents (m\<lparr>mi_skipped := mi_skipped m + 1\<rparr>)
      | Some False \<Rightarrow> (case nd of
            DirNode None \<Rightarrow> walk_and_stage os excludes cur ents m
          | DirNode (Some sub) \<Rightarrow> (case walk_and_stage os excludes p sub m of
                None \<Rightarrow> None | Some m' \<Rightarrow> walk_and_stage os excludes cur ents m')
          | FileNode sz \<Rightarrow> walk_and_stage os excludes cur ents (link_or_copy_app os p sz m)
          | OtherNode \<Rightarrow> walk_and_stage os excludes cur ents m))"

text \<open>The walk only adds files of the tree, with their sizes, or brings files there up to date.\<close>

fun has_file :: "(string \<times> node) list \<Rightarrow> path \<Rightarrow> nat \<Rightarrow> bool" where
  "has_file [] q sz \<longleftrightarrow> False"
| "has_file ((name, nd) # ents) q sz \<longleftrightarrow> has_file ents q sz \<or> (case nd of
       FileNode n \<Rightarrow> q = [name] \<and> sz = n
     | DirNode (Some sub) \<Rightarrow> q \<noteq> [] \<and> q ! 0 = name \<and> has_file sub (drop 1 q) sz
     | _ \<Rightarrow> False)"

lemma walk_files:
  "walk_and_stage os excludes cur ents m = Some m' \<Longrightarrow>
     mi_files m' q = mi_files m q \<or> (\<exists>r sz. q = cur @ r \<and> has_file ents r sz \<and> mi_files m' q = Some sz)"
proof (induction os excludes cur ents m arbitrary: m' rule: walk_and_stage.induct)
  case (2 os excludes cur name nd ents m)
  let ?p = "cur @ [name]"
  obtain hit where hit: "matches_glob (rel_str ?p) excludes = Some hit" using "2.prems" by (auto simp: Let_def split: option.splits)
  show ?case
  proof (cases hit)
    case True
    then have yes: "matches_glob (rel_str ?p) excludes = Some True" using hit by simp
    with "2.prems" "2.IH"(1) [OF refl yes refl] show ?thesis by fastforce
  next
    case False
    then have no: "matches_glob (rel_str ?p) excludes = Some False" using hit by simp
    show ?thesis
    proof (cases nd)
      case (FileNode sz)
      have "mi_files (link_or_copy_app os ?p sz m) q = mi_files m q \<or> q = ?p \<and> mi_files (link_or_copy_app os ?p sz m) q = Some sz"
        by (auto simp: link_or_copy_app_def)
      with "2.prems" no FileNode "2.IH"(2) [OF refl no refl FileNode] show ?thesis by fastforce
    next
      case OtherNode
      with "2.prems" no "2.IH"(6) [OF refl no refl OtherNode] show ?thesis by fastforce
    next
      case (DirNode sub)
      show ?thesis
      proof (cases sub)
        case None
        with DirNode have nd: "nd = DirNode None" by simp
        with "2.prems" no "2.IH"(3) [OF refl no refl DirNode None] show ?thesis by fastforce
      next
        case (Some es)
        with DirNode have nd: "nd = DirNode (Some es)" by simp
        with "2.prems" no obtain m1 where m1: "walk_and_stage os excludes ?p es m = Some m1"
          "walk_and_stage os excludes cur ents m1 = Some m'" by (auto simp: Let_def split: option.splits)
        have "mi_files m1 q = mi_files m q \<or> (\<exists>r sz. q = ?p @ r \<and> has_file es r sz \<and> mi_files m1 q = Some sz)"
          using "2.IH"(4) [OF refl no refl DirNode Some m1(1)] by simp
        moreover have "mi_files m' q = mi_files m1 q \<or> (\<exists>r sz. q = cur @ r \<and> has_file ents r sz \<and> mi_files m' q = Some sz)"
          using "2.IH"(5) [OF refl no refl DirNode Some m1] by simp
        ultimately show ?thesis by (fastforce simp: nd)
      qed
    qed
  qed
qed simp

text \<open>\<open>files_staged\<close> is the sum of the links and the copies.\<close>

record stage_stats =
  ss_linked :: nat
  ss_copied :: nat
  ss_skipped :: nat

definition files_staged :: "stage_stats \<Rightarrow> nat" where
  "files_staged st = ss_linked st + ss_copied st"

definition no_stats :: stage_stats where
  "no_stats = \<lparr>ss_linked = 0, ss_copied = 0, ss_skipped = 0\<rparr>"

definition hardlink_tree :: "'w app_os \<Rightarrow> string \<Rightarrow> string \<Rightarrow> string list \<Rightarrow> 'w app_sys \<Rightarrow> (stage_stats \<times> 'w app_sys) option" where
  "hardlink_tree os src dst excludes s = (case ap_tree os src (as_world s) of
       None \<Rightarrow> Some (no_stats, s)
     | Some ents \<Rightarrow> map_option (\<lambda>m. (\<lparr>ss_linked = mi_linked m, ss_copied = mi_copied m, ss_skipped = mi_skipped m\<rparr>,
           s\<lparr>as_dirs := (as_dirs s)(dst := mi_files m)\<rparr>))
         (walk_and_stage (ap_mirror os dst) excludes [] ents
           \<lparr>mi_files = as_dirs s dst, mi_linked = 0, mi_copied = 0, mi_skipped = 0\<rparr>))"

section \<open>Staging and running\<close>

definition acall :: "('w \<Rightarrow> 'a \<times> 'w) \<Rightarrow> 'w app_sys \<Rightarrow> 'a \<times> 'w app_sys" where
  "acall f s = (let (r, w) = f (as_world s) in (r, s\<lparr>as_world := w\<rparr>))"

definition adirs :: "'w app_os \<Rightarrow> string \<Rightarrow> string \<Rightarrow> 'w app_sys \<Rightarrow> (PsrootError + unit) \<times> 'w app_sys" where
  "adirs os what dir s = (case acall (ap_mkdir os dir) s of
       (Inl e, s) \<Rightarrow> (Inl (OtherError (what @ dir @ '': '' @ e)), s) | (Inr _, s) \<Rightarrow> (Inr (), s))"

fun make_all :: "'w app_os \<Rightarrow> string list \<Rightarrow> 'w app_sys \<Rightarrow> (PsrootError + unit) \<times> 'w app_sys" where
  "make_all os [] s = (Inr (), s)"
| "make_all os (d # ds) s = st_bind (adirs os ''create dir '' d s) (\<lambda>_ s. make_all os ds s)"

definition app_prepare_rootfs :: "'w app_os \<Rightarrow> string \<Rightarrow> 'w app_sys \<Rightarrow> (PsrootError + unit) \<times> 'w app_sys" where
  "app_prepare_rootfs os root s = make_all os
     [ap_join os root ''App'', ap_join os (ap_join os root ''Users'') ''ContainerUser'', ap_join os root ''Temp''] s"

definition stage_single :: "'w app_os \<Rightarrow> string \<Rightarrow> string \<Rightarrow> 'w app_sys \<Rightarrow> (PsrootError + stage_stats) \<times> 'w app_sys" where
  "stage_single os exe target s = (case acall (ap_link os exe target) s of
       (True, s) \<Rightarrow> (Inr (no_stats\<lparr>ss_linked := 1\<rparr>), s)
     | (False, s) \<Rightarrow> (case acall (ap_copy os exe target) s of
           (Inl e, s) \<Rightarrow> (Inl (OtherError (''copy exe '' @ exe @ '': '' @ e)), s)
         | (Inr _, s) \<Rightarrow> (Inr (no_stats\<lparr>ss_copied := 1\<rparr>), s)))"

definition stage_app :: "'w app_os \<Rightarrow> app_config \<Rightarrow> 'w app_sys \<Rightarrow> ((PsrootError + stage_stats) \<times> 'w app_sys) option" where
  "stage_app os c s = (let dst = staged_app_dir os c in case adirs os ''create app dir '' dst s of
       (Inl e, s) \<Rightarrow> Some (Inl e, s)
     | (Inr _, s) \<Rightarrow>
       if is_system_dir (ap_lower os (ac_app_root c))
       then map_option (\<lambda>name. stage_single os (ac_exe_path c) (ap_join os dst name) s) (ap_file_name os (ac_exe_path c))
       else map_option (\<lambda>(stats, s). (Inr stats, s)) (hardlink_tree os (ac_app_root c) dst (ac_exclude c) s))"

text \<open>\<open>strict\<close> is the waiting variant, which gives up when a directory cannot be made.\<close>

fun stage_extra :: "'w app_os \<Rightarrow> bool \<Rightarrow> string \<Rightarrow> string list \<Rightarrow> (string \<times> string) list \<Rightarrow> 'w app_sys \<Rightarrow>
    ((PsrootError + unit) \<times> 'w app_sys) option" where
  "stage_extra os strict root excludes [] s = Some (Inr (), s)"
| "stage_extra os strict root excludes ((host, name) # ds) s =
     (let dst = ap_join os root name in case adirs os ''create dir '' dst s of
       (Inl e, s) \<Rightarrow>
         if strict then Some (Inl e, s)
         else (case hardlink_tree os host dst excludes s of None \<Rightarrow> None
           | Some (_, s) \<Rightarrow> stage_extra os strict root excludes ds s)
     | (Inr _, s) \<Rightarrow> (case hardlink_tree os host dst excludes s of None \<Rightarrow> None
         | Some (_, s) \<Rightarrow> stage_extra os strict root excludes ds s))"

definition app_quote_arg :: "string \<Rightarrow> string" where
  "app_quote_arg s =
     (if s = [] then [CHR 0x22, CHR 0x22]
      else if list_ex (\<lambda>w. contains w s) white_space \<or> CHR 0x22 \<in> set s
      then CHR 0x22 # concat (map (\<lambda>c. if c = CHR 0x22 then [CHR 0x5C, CHR 0x22] else [c]) s) @ [CHR 0x22]
      else s)"

definition app_cmdline :: "'w app_os \<Rightarrow> app_config \<Rightarrow> string" where
  "app_cmdline os c = app_quote_arg (staged_exe_path os c) @ concat (map (\<lambda>a. CHR '' '' # app_quote_arg a) (ac_args c))"

text \<open>Up to the running process; the desktop is closed when the spawn fails.\<close>

definition stage_and_spawn :: "'w app_os \<Rightarrow> bool \<Rightarrow> app_config \<Rightarrow> 'w app_sys \<Rightarrow>
    ((PsrootError + nat \<times> nat) \<times> 'w app_sys) option" where
  "stage_and_spawn os strict c s =
     (let root = rootfs_path os c in case app_prepare_rootfs os root s of
       (Inl e, s) \<Rightarrow> Some (Inl e, s)
     | (Inr _, s) \<Rightarrow> (case stage_app os c s of
           None \<Rightarrow> None
         | Some (Inl e, s) \<Rightarrow> Some (Inl e, s)
         | Some (Inr _, s) \<Rightarrow> (case stage_extra os strict root (ac_exclude c) (ac_extra_dirs c) s of
               None \<Rightarrow> None
             | Some (Inl e, s) \<Rightarrow> Some (Inl e, s)
             | Some (Inr _, s) \<Rightarrow> (case acall (ap_desktop os (ac_container_name c)) s of
                   (Inl e, s) \<Rightarrow> Some (Inl e, s)
                 | (Inr desk, s) \<Rightarrow> (case acall (ap_spawn os desk (app_cmdline os c) root) s of
                       (Inl e, s) \<Rightarrow> Some (Inl e, s\<lparr>as_world := ap_close_desktop os desk (as_world s)\<rparr>)
                     | (Inr pid, s) \<Rightarrow> Some (Inr (desk, pid), s))))))"

definition stage_and_spawn_gui :: "'w app_os \<Rightarrow> app_config \<Rightarrow> 'w app_sys \<Rightarrow>
    ((PsrootError + nat \<times> nat \<times> string) \<times> 'w app_sys) option" where
  "stage_and_spawn_gui os c s =
     map_option (\<lambda>(r, s). (map_ok (\<lambda>(d, p). (d, p, rootfs_path os c)) r, s)) (stage_and_spawn os False c s)"

definition stage_and_run_gui :: "'w app_os \<Rightarrow> app_config \<Rightarrow> 'w app_sys \<Rightarrow> ((PsrootError + u32) \<times> 'w app_sys) option" where
  "stage_and_run_gui os c s = (case stage_and_spawn os True c s of
       None \<Rightarrow> None
     | Some (Inl e, s) \<Rightarrow> Some (Inl e, s)
     | Some (Inr (desk, pid), s) \<Rightarrow>
       let (code, s) = acall (ap_wait os pid) s; w = ap_remove_all os (rootfs_path os c) (as_world s) in
       Some (Inr code, s\<lparr>as_world := ap_close_desktop os desk w\<rparr>))"

end
