(* ===== verification/Cli_Text.thy ===== *)
theory Cli_Text
  imports Config
begin

text \<open>
  What the Windows command line does with its arguments, \<open>crates/psroot-cli/src/main_windows.rs\<close>:
  memory sizes, \<open>--volume\<close> and \<open>--bind\<close> specifications, network modes, the configuration built from
  them, and the quoting of the command line a shell is started with. Unicode \<open>to_uppercase\<close> and
  \<open>to_lowercase\<close> are parameters. Arithmetic is that of a release build, where \<open>u64\<close> wraps.
\<close>

section \<open>Sizes, volumes and modes\<close>

definition memory_error :: PsrootError where
  "memory_error = OtherError ''Invalid memory value''"

text \<open>The number before a unit, and its product.\<close>

definition memory_in :: "u64 \<Rightarrow> string \<Rightarrow> PsrootError + u64" where
  "memory_in unit num = map_ok (\<lambda>n. of_nat n * unit) (ok_or memory_error (parse_uint (2 ^ 64) num))"

definition parse_memory :: "(string \<Rightarrow> string) \<Rightarrow> string \<Rightarrow> PsrootError + u64" where
  "parse_memory upper text = (let s = upper (trim text) in
     if ends_with ''G'' s then memory_in 1073741824 (butlast s)
     else if ends_with ''M'' s then memory_in 1048576 (butlast s)
     else if ends_with ''K'' s then memory_in 1024 (butlast s)
     else memory_in 1 s)"

text \<open>\<open>splitn(3, ':')\<close>: at most two cuts, the rest stays whole.\<close>

fun splitn :: "nat \<Rightarrow> char \<Rightarrow> string \<Rightarrow> string list" where
  "splitn 0 d s = []"
| "splitn (Suc 0) d s = [s]"
| "splitn (Suc (Suc n)) d s = (case split_first d s of None \<Rightarrow> [s] | Some (a, b) \<Rightarrow> a # splitn (Suc n) d b)"

definition parse_volume :: "string \<Rightarrow> VolumeMount option" where
  "parse_volume s = (case splitn 3 (CHR '':'') s of
       host # target # rest \<Rightarrow> Some \<lparr>vm_host_path = host, vm_container_path = target,
         vm_read_only = (last (host # target # rest) = ''ro'')\<rparr>
     | _ \<Rightarrow> None)"

definition parse_ports :: "string list \<Rightarrow> PsrootError + PortMapping list" where
  "parse_ports publish = collect_results
     (map (\<lambda>s. case parse_publish s of Inl e \<Rightarrow> Inl (OtherError e) | Inr m \<Rightarrow> Inr m) publish)"

definition parse_network_mode :: "(string \<Rightarrow> string) \<Rightarrow> string \<Rightarrow> PsrootError + NetworkAccess" where
  "parse_network_mode lower network = (let m = lower network in
     if m \<in> {''none'', ''''} then Inr NoNetwork
     else if m \<in> {''outbound'', ''out''} then Inr Outbound
     else if m \<in> {''full'', ''all''} then Inr Full
     else if m \<in> {''netstack'', ''ns''} then Inr Netstack
     else Inl (OtherError (''Invalid network mode '' @ quoted m @ '': use none, outbound, full, or netstack'')))"

text \<open>\<open>KEY=VALUE\<close> arguments collected into a \<open>HashMap\<close>; one without \<open>=\<close> is dropped.\<close>

fun env_pairs :: "string list \<Rightarrow> (string \<times> string) list" where
  "env_pairs [] = []"
| "env_pairs (e # es) = (case split_first (CHR ''='') e of None \<Rightarrow> env_pairs es | Some kv \<Rightarrow> kv # env_pairs es)"

definition env_of_args :: "string list \<Rightarrow> (string \<times> string) list" where
  "env_of_args es = foldl (\<lambda>env (k, v). hm_insert k v env) [] (env_pairs es)"

definition cli_default_config :: ContainerConfig where
  "cli_default_config = \<lparr>cc_name = None, cc_rootfs_path = [], cc_command = [''cmd.exe''], cc_env = [],
     cc_resources = default_limits, cc_volumes = [], cc_hostname = None,
     cc_working_directory = ''C:'' @ [CHR 0x5C], cc_silo = False, cc_tools = [], cc_shares = [],
     cc_security_profile = DefaultProfile, cc_network = NoNetwork, cc_ports = []\<rparr>"

text \<open>The options \<open>create\<close> and \<open>run\<close> share.\<close>

record create_args =
  ca_name :: "string option"
  ca_rootfs :: string
  ca_memory :: string
  ca_cpu :: u32
  ca_max_procs :: u32
  ca_silo :: bool
  ca_volumes :: "string list"
  ca_envs :: "string list"
  ca_workdir :: string
  ca_tools :: "string list"
  ca_network :: string
  ca_publish :: "string list"

definition cli_build_config :: "(string \<Rightarrow> string) \<Rightarrow> (string \<Rightarrow> string) \<Rightarrow> create_args \<Rightarrow> string list \<Rightarrow>
    PsrootError + ContainerConfig" where
  "cli_build_config upper lower a command =
     and_then (parse_memory upper (ca_memory a)) (\<lambda>memory.
     and_then (parse_network_mode lower (ca_network a)) (\<lambda>network.
     map_ok (\<lambda>ports.
       \<lparr>cc_name = ca_name a, cc_rootfs_path = ca_rootfs a, cc_command = command, cc_env = env_of_args (ca_envs a),
        cc_resources = default_limits\<lparr>rl_memory := memory, rl_cpu_rate := ca_cpu a, rl_max_processes := ca_max_procs a\<rparr>,
        cc_volumes = List.map_filter parse_volume (ca_volumes a), cc_hostname = None,
        cc_working_directory = ca_workdir a, cc_silo = ca_silo a, cc_tools = ca_tools a, cc_shares = [],
        cc_security_profile = DefaultProfile, cc_network = network, cc_ports = ports\<rparr>)
       (parse_ports (ca_publish a))))"

section \<open>Bind specifications\<close>

definition alphabetic :: "char \<Rightarrow> bool" where
  "alphabetic c \<longleftrightarrow> (let n = of_char c :: nat in 65 \<le> n \<and> n \<le> 90 \<or> 97 \<le> n \<and> n \<le> 122)"

abbreviation back_slash :: char where "back_slash \<equiv> CHR 0x5C"
abbreviation dquote :: char where "dquote \<equiv> CHR 0x22"

definition slash_char :: "char \<Rightarrow> bool" where
  "slash_char c \<longleftrightarrow> c = back_slash \<or> c = CHR ''/''"

definition byte_at :: "string \<Rightarrow> nat \<Rightarrow> char option" where
  "byte_at s i = (if i < length s then Some (s ! i) else None)"

text \<open>The scan for the separator, from an index of at least 2.\<close>

function bind_sep :: "string \<Rightarrow> nat \<Rightarrow> nat option" where
  "bind_sep body i =
     (if i < length body then
        if body ! i = CHR '':'' then
          (case byte_at body (i + 1) of
             None \<Rightarrow> Some (if alphabetic (body ! (i - 1)) \<and>
                 (i = 1 \<or> body ! (i - 2) = CHR '':'' \<or> slash_char (body ! (i - 2))) then i - 2 else i)
           | Some ch \<Rightarrow>
               if slash_char ch then Some (if alphabetic (body ! (i - 1)) \<and>
                 (i = 1 \<or> body ! (i - 2) = CHR '':'' \<or> slash_char (body ! (i - 2))) then i - 2 else i)
               else if alphabetic ch \<and> byte_at body (i + 2) \<in> {Some (CHR '':''), None} then Some i
               else bind_sep body (i + 1))
        else bind_sep body (i + 1)
      else None)"
  by auto
termination by (relation "measure (\<lambda>(body, i). length body - i)") auto

declare bind_sep.simps [simp del]

definition strip_suffix :: "string \<Rightarrow> string \<Rightarrow> string option" where
  "strip_suffix p s = (if ends_with p s then Some (take (length s - length p) s) else None)"

definition bind_mode :: "string \<Rightarrow> string \<times> bool" where
  "bind_mode raw = (case strip_suffix '':ro'' raw of
       Some body \<Rightarrow> (body, True)
     | None \<Rightarrow> (case strip_suffix '':rw'' raw of Some body \<Rightarrow> (body, False) | None \<Rightarrow> (raw, False)))"

definition parse_bind_spec :: "string \<Rightarrow> string + VolumeMount" where
  "parse_bind_spec s = (let (body, ro) = bind_mode (trim s) in
     if length body < 3 \<or> body ! 1 \<noteq> CHR '':''
     then Inl (''host path must start with a drive letter (got '' @ quoted body @ '')'')
     else and_then (ok_or (''cannot find HOST:CONTAINER separator in '' @ quoted body) (bind_sep body 2)) (\<lambda>sep.
       let host = take sep body; target = drop (sep + 1) body in
       if host = [] \<or> target = [] then Inl ''empty host or container path''
       else Inr \<lparr>vm_host_path = host, vm_container_path = target, vm_read_only = ro\<rparr>))"

section \<open>Quoting for the command line\<close>

fun quote_chars :: "nat \<Rightarrow> string \<Rightarrow> string" where
  "quote_chars n [] = replicate (n * 2) back_slash @ [dquote]"
| "quote_chars n (c # cs) =
     (if c = back_slash then quote_chars (n + 1) cs
      else if c = dquote then replicate (n * 2 + 1) back_slash @ dquote # quote_chars 0 cs
      else replicate n back_slash @ c # quote_chars 0 cs)"

definition needs_quote :: "string \<Rightarrow> bool" where
  "needs_quote s \<longleftrightarrow> s = [] \<or> (\<exists>c \<in> set s. c \<in> {CHR '' '', CHR 0x09, dquote, CHR 0x0A})"

definition quote_arg_for_cmdline :: "string \<Rightarrow> string" where
  "quote_arg_for_cmdline s = (if needs_quote s then dquote # quote_chars 0 s else s)"

text \<open>The command line of the legacy shell: the binary and its arguments.\<close>

fun quoted_args :: "string list \<Rightarrow> string" where
  "quoted_args [] = []"
| "quoted_args (a # as') = CHR '' '' # quote_arg_for_cmdline a @ quoted_args as'"

definition legacy_command_line :: "string \<Rightarrow> string list \<Rightarrow> string" where
  "legacy_command_line binary extra = quote_arg_for_cmdline binary @ quoted_args extra"

section \<open>The cache directory\<close>

definition cache_root_dir :: "(string \<Rightarrow> string \<Rightarrow> string) \<Rightarrow> (string \<rightharpoonup> string) \<Rightarrow> string" where
  "cache_root_dir join env = (case env ''PSROOT_CACHE_DIR'' of
       Some v \<Rightarrow> v
     | None \<Rightarrow> (let home = (case env ''USERPROFILE'' of Some h \<Rightarrow> h
           | None \<Rightarrow> ''C:'' @ back_slash # ''Users'' @ back_slash # ''Default'') in
         join (join (join home ''.psroot'') ''cache'') ''shells''))"

section \<open>Reading a bind specification back\<close>

text \<open>
  A host directory on a drive, and a target: a path, or a drive letter with or without a path. Where
  the target starts with a slash and the last component of the host path is one letter, the scan
  takes that letter for the drive of the target.
\<close>

definition mount_host :: "string \<Rightarrow> bool" where
  "mount_host h \<longleftrightarrow> 2 \<le> length h \<and> alphabetic (h ! 0) \<and> h ! 1 = CHR '':'' \<and> CHR '':'' \<notin> set (drop 2 h)"

definition mount_target :: "string \<Rightarrow> bool" where
  "mount_target t \<longleftrightarrow> t \<noteq> [] \<and> plain_char (last t) \<and>
     (slash_char (t ! 0) \<or> alphabetic (t ! 0) \<and> (length t = 1 \<or> t ! 1 = CHR '':''))"

definition letter_component :: "string \<Rightarrow> bool" where
  "letter_component h \<longleftrightarrow> alphabetic (last h) \<and> 3 \<le> length h \<and>
     (h ! (length h - 2) = CHR '':'' \<or> slash_char (h ! (length h - 2)))"

lemma char_classes [simp]:
  "\<not> slash_char (CHR '':'')" "\<not> alphabetic (CHR '':'')"
  "slash_char c \<Longrightarrow> \<not> alphabetic c" "alphabetic c \<Longrightarrow> plain_char c"
  by (auto simp: slash_char_def alphabetic_def plain_char_def Let_def)

lemma bind_sep_skip:
  assumes "\<forall>k. i \<le> k \<longrightarrow> k < j \<longrightarrow> body ! k \<noteq> CHR '':''" "i \<le> j" "j \<le> length body"
  shows "bind_sep body i = bind_sep body j"
  using assms
proof (induction "j - i" arbitrary: i)
  case (Suc n)
  then have "i < j" by simp
  with Suc have "bind_sep body i = bind_sep body (i + 1)"
    by (subst bind_sep.simps) simp
  with Suc \<open>i < j\<close> show ?case by simp
qed simp

lemma bind_sep_at:
  assumes "mount_host h" "mount_target t"
  shows "bind_sep (h @ CHR '':'' # t) 2 =
    Some (if slash_char (t ! 0) \<and> letter_component h then length h - 2 else length h)"
proof -
  let ?b = "h @ CHR '':'' # t"
  have h: "2 \<le> length h" "h ! 1 = CHR '':''" using assms(1) by (auto simp: mount_host_def)
  have tip: "last h = h ! (length h - 1)" using h by (intro last_conv_nth) auto
  have skip: "?b ! k \<noteq> CHR '':''" if two: "2 \<le> k" and less: "k < length h" for k
  proof -
    obtain m where m: "k = 2 + m" using le_Suc_ex [OF two] by blast
    then have "h ! k = drop 2 h ! m" "m < length (drop 2 h)" using less by simp_all
    then have "h ! k \<in> set (drop 2 h)" by (metis nth_mem)
    with assms(1) have "h ! k \<noteq> CHR '':''" by (metis mount_host_def)
    then show ?thesis using less by (simp add: nth_append)
  qed
  have to: "bind_sep ?b 2 = bind_sep ?b (length h)"
    by (rule bind_sep_skip) (use skip h in auto)
  have next1: "byte_at ?b (length h + 1) = Some (t ! 0)"
    using assms(2) by (cases t) (auto simp: byte_at_def nth_append mount_target_def)
  have next2: "byte_at ?b (length h + 2) = (if length t = 1 then None else Some (t ! 1))"
    using assms(2) by (cases t; cases "List.tl t") (auto simp: byte_at_def nth_append mount_target_def)
  have before: "?b ! (length h - 1) = last h" "?b ! (length h - 2) = h ! (length h - 2)"
    using h by (auto simp: tip nth_append)
  have two: "length h = 2 \<Longrightarrow> \<not> alphabetic (last h)"
    using h by (simp add: tip)
  have here: "?b ! length h = CHR '':''" "length h < length ?b" "length h \<noteq> 1" using h by auto
  show ?thesis
  proof (cases "slash_char (t ! 0)")
    case True
    then have "bind_sep ?b (length h) = Some (if alphabetic (last h) \<and>
        (h ! (length h - 2) = CHR '':'' \<or> slash_char (h ! (length h - 2))) then length h - 2 else length h)"
      by (subst bind_sep.simps) (simp only: here next1 before option.simps if_True simp_thms)
    with True to two h show ?thesis by (auto simp: letter_component_def)
  next
    case False
    then have "alphabetic (t ! 0)" "length t = 1 \<or> t ! 1 = CHR '':''" using assms(2) by (auto simp: mount_target_def)
    then have "bind_sep ?b (length h) = Some (length h)"
      using False by (subst bind_sep.simps) (auto simp only: here next1 next2 option.simps if_True if_False simp_thms insert_iff split: if_splits)
    with False to show ?thesis by simp
  qed
qed

lemma bind_mode_append:
  assumes "mode \<in> {'':ro'', '':rw''} \<or> mode = [] \<and> \<not> ends_with '':ro'' b \<and> \<not> ends_with '':rw'' b"
  shows "bind_mode (b @ mode) = (b, mode = '':ro'')"
  using assms by (auto simp: bind_mode_def strip_suffix_def ends_with_def)

text \<open>
  A bind specification reads back. For every directory on a drive, target and mode,
  \<open>parse_bind_spec\<close> returns the host path, the target and whether the mode is \<open>:ro\<close>; except that a
  slashed target after a directory with a one-letter name takes the letter along as its drive.
\<close>

theorem bind_spec_reads_back:
  assumes "mount_host h" "mount_target t"
    and "mode \<in> {'':ro'', '':rw''} \<or>
      mode = [] \<and> \<not> ends_with '':ro'' (h @ CHR '':'' # t) \<and> \<not> ends_with '':rw'' (h @ CHR '':'' # t)"
  shows "parse_bind_spec (h @ CHR '':'' # t @ mode) = Inr
    (if slash_char (t ! 0) \<and> letter_component h
     then \<lparr>vm_host_path = take (length h - 2) h, vm_container_path = last h # CHR '':'' # t, vm_read_only = (mode = '':ro'')\<rparr>
     else \<lparr>vm_host_path = h, vm_container_path = t, vm_read_only = (mode = '':ro'')\<rparr>)"
proof -
  let ?b = "h @ CHR '':'' # t"
  have h: "2 \<le> length h" "h ! 1 = CHR '':''" "plain_char (h ! 0)" and t: "t \<noteq> []" "plain_char (last t)"
    using assms(1,2) by (auto simp: mount_host_def mount_target_def)
  have ends: "plain_char ((h @ CHR '':'' # t @ mode) ! 0)" "plain_char (last (h @ CHR '':'' # t @ mode))"
    using h t assms(3) by (auto simp: nth_append plain_char_def)
  have "trim (?b @ mode) = ?b @ mode" using ends by (intro trim_plain) simp
  then have mode: "bind_mode (trim (?b @ mode)) = (?b, mode = '':ro'')"
    using bind_mode_append [OF assms(3)] by simp
  have sep: "bind_sep ?b 2 = Some (if slash_char (t ! 0) \<and> letter_component h then length h - 2 else length h)"
    by (rule bind_sep_at [OF assms(1,2)])
  have colon: "?b ! 1 = CHR '':''" "3 \<le> length ?b" using h t by (auto simp: nth_append)
  have cut: "3 \<le> length h \<Longrightarrow> drop (length h - 1) ?b = last h # CHR '':'' # t"
    by (cases h rule: rev_cases) auto
  show ?thesis
    using mode sep colon h t cut
    by (auto simp: parse_bind_spec_def letter_component_def Suc_diff_Suc numeral_eq_Suc)
qed

lemma bind_spec_reads_back_witness:
  "let sl = CHR 0x5C in
   parse_bind_spec (''C:'' @ sl # ''proj:M::ro'') = Inr \<lparr>vm_host_path = ''C:'' @ sl # ''proj'',
     vm_container_path = ''M:'', vm_read_only = True\<rparr> \<and>
   parse_bind_spec (''C:'' @ sl # ''proj'' @ sl # ''a:/mnt'') = Inr \<lparr>vm_host_path = ''C:'' @ sl # ''proj'',
     vm_container_path = ''a:/mnt'', vm_read_only = False\<rparr>"
proof -
  let ?h = "''C:'' @ CHR 0x5C # ''proj''" and ?g = "''C:'' @ CHR 0x5C # ''proj'' @ CHR 0x5C # ''a''"
  have "mount_host ?h" "mount_target ''M:''" "mount_host ?g" "mount_target ''/mnt''"
    and "slash_char (''/mnt'' ! 0) \<and> letter_component ?g" "\<not> slash_char (''M:'' ! 0)"
    "\<not> ends_with '':ro'' (?g @ CHR '':'' # ''/mnt'')" "\<not> ends_with '':rw'' (?g @ CHR '':'' # ''/mnt'')" by code_simp+
  then show ?thesis
    using bind_spec_reads_back [of ?h "''M:''" "'':ro''"] bind_spec_reads_back [of ?g "''/mnt''" "[]"]
    by (simp del: char_classes)
qed

end
