(* ===== verification/Cli_Quote.thy ===== *)
theory Cli_Quote
  imports Cli_Text
begin

text \<open>
  The quoting of \<open>quote_arg_for_cmdline\<close> against the rules by which a Windows program splits its
  command line. The splitter is the program's, not this repository's: it is a parameter, and
  \<open>splits_as_documented\<close> states the documented rules. \<open>start\<close> reads between two arguments, and
  \<open>go q acc\<close> inside one, \<open>q\<close> telling whether a double quote is open and \<open>acc\<close> what was read of it.
\<close>

definition blank :: "char \<Rightarrow> bool" where
  "blank c \<longleftrightarrow> c = CHR '' '' \<or> c = CHR 0x09"

abbreviation slashes :: "nat \<Rightarrow> string" where
  "slashes n \<equiv> replicate n back_slash"

text \<open>A run of backslashes at the front that is not followed by a double quote.\<close>

definition no_quote_after :: "string \<Rightarrow> bool" where
  "no_quote_after s \<longleftrightarrow> (case dropWhile ((=) back_slash) s of [] \<Rightarrow> True | c # _ \<Rightarrow> c \<noteq> dquote)"

definition splits_as_documented :: "(string \<Rightarrow> string list) \<Rightarrow> (bool \<Rightarrow> string \<Rightarrow> string \<Rightarrow> string list) \<Rightarrow> bool" where
  "splits_as_documented start go \<longleftrightarrow>
     start [] = [] \<and>
     (\<forall>c r. blank c \<longrightarrow> start (c # r) = start r) \<and>
     (\<forall>c r. \<not> blank c \<longrightarrow> start (c # r) = go False [] (c # r)) \<and>
     (\<forall>q acc. go q acc [] = [acc]) \<and>
     (\<forall>acc c r. blank c \<longrightarrow> go False acc (c # r) = acc # start r) \<and>
     (\<forall>q acc c r. c \<noteq> back_slash \<longrightarrow> c \<noteq> dquote \<longrightarrow> (blank c \<longrightarrow> q) \<longrightarrow> go q acc (c # r) = go q (acc @ [c]) r) \<and>
     (\<forall>q acc r. no_quote_after r \<longrightarrow> go q acc (back_slash # r) = go q (acc @ [back_slash]) r) \<and>
     (\<forall>q acc n r. go q acc (slashes (2 * n + 1) @ dquote # r) = go q (acc @ slashes n @ [dquote]) r) \<and>
     (\<forall>acc n r. go False acc (slashes (2 * n) @ dquote # r) = go True (acc @ slashes n) r) \<and>
     (\<forall>acc n r. (r = [] \<or> r ! 0 \<noteq> dquote) \<longrightarrow> go True acc (slashes (2 * n) @ dquote # r) = go False (acc @ slashes n) r)"

lemma doc_rules:
  assumes "splits_as_documented start go"
  shows doc_start: "start [] = []" "blank c \<Longrightarrow> start (c # r) = start r" "\<not> blank c \<Longrightarrow> start (c # r) = go False [] (c # r)"
    and doc_end: "go q acc [] = [acc]" "blank c \<Longrightarrow> go False acc (c # r) = acc # start r"
    and doc_plain: "c \<noteq> back_slash \<Longrightarrow> c \<noteq> dquote \<Longrightarrow> (blank c \<Longrightarrow> q) \<Longrightarrow> go q acc (c # r) = go q (acc @ [c]) r"
    and doc_slash: "no_quote_after r \<Longrightarrow> go q acc (back_slash # r) = go q (acc @ [back_slash]) r"
    and doc_quoted: "go q acc (slashes (2 * n + 1) @ dquote # r) = go q (acc @ slashes n @ [dquote]) r"
    and doc_open: "go False acc (slashes (2 * n) @ dquote # r) = go True (acc @ slashes n) r"
  using assms unfolding splits_as_documented_def by simp_all

lemma doc_close:
  assumes "splits_as_documented start go" and "r = [] \<or> r ! 0 \<noteq> dquote"
  shows "go True acc (slashes (2 * n) @ dquote # r) = go False (acc @ slashes n) r"
proof -
  have "\<forall>acc n r. (r = [] \<or> r ! 0 \<noteq> dquote) \<longrightarrow>
      go True acc (slashes (2 * n) @ dquote # r) = go False (acc @ slashes n) r"
    using assms(1) unfolding splits_as_documented_def by (elim conjE)
  then show ?thesis using assms(2) by blast
qed

lemma no_quote_after_simps [simp]:
  "no_quote_after []" "no_quote_after (back_slash # r) = no_quote_after r"
  "c \<noteq> back_slash \<Longrightarrow> no_quote_after (c # r) \<longleftrightarrow> c \<noteq> dquote"
  by (auto simp: no_quote_after_def)

text \<open>Backslashes that no double quote follows are read as they stand.\<close>

lemma go_slashes:
  assumes "splits_as_documented start go" "no_quote_after r"
  shows "go q acc (slashes n @ r) = go q (acc @ slashes n) r"
proof (induction n arbitrary: acc)
  case (Suc n)
  have "no_quote_after (slashes n @ r)" using assms(2) by (induction n) simp_all
  then show ?case using doc_slash [OF assms(1)] Suc by simp
qed simp

text \<open>What may follow an argument: the end, or the blank before the next.\<close>

definition argument_end :: "string \<Rightarrow> bool" where
  "argument_end r \<longleftrightarrow> r = [] \<or> blank (r ! 0)"

lemma argument_endD: "argument_end r \<Longrightarrow> (r = [] \<or> r ! 0 \<noteq> dquote) \<and> no_quote_after r"
  by (cases r) (auto simp: argument_end_def blank_def no_quote_after_def)

lemma go_quote_chars:
  assumes doc: "splits_as_documented start go" and rest: "argument_end r"
  shows "go True acc (quote_chars n s @ r) = go False (acc @ slashes n @ s) r"
proof (induction n s arbitrary: acc rule: quote_chars.induct)
  case (1 n)
  show ?case using doc_close [OF doc, of r acc n] argument_endD [OF rest] by (simp add: mult.commute)
next
  case (2 n c cs)
  consider "c = back_slash" | "c = dquote" | "c \<noteq> back_slash" "c \<noteq> dquote" by blast
  then show ?case
  proof cases
    case 1
    with 2(1) show ?thesis by (simp add: replicate_app_Cons_same)
  next
    case 2
    note IH = "2.IH"(2)
    from 2 show ?thesis using doc_quoted [OF doc, of True acc n "quote_chars 0 cs @ r"] IH by (simp add: mult.commute)
  next
    case 3
    then have "go True acc (slashes n @ c # quote_chars 0 cs @ r) = go True (acc @ slashes n @ [c]) (quote_chars 0 cs @ r)"
      using go_slashes [OF doc, of "c # quote_chars 0 cs @ r"] doc_plain [OF doc, of c True] by simp
    with 3 "2.IH"(3) show ?thesis by simp
  qed
qed

lemma go_unquoted:
  assumes doc: "splits_as_documented start go" and rest: "argument_end r"
    and "\<forall>c \<in> set s. \<not> blank c \<and> c \<noteq> dquote"
  shows "go False acc (s @ r) = go False (acc @ s) r"
  using assms(3)
proof (induction s arbitrary: acc)
  case (Cons c s)
  have "no_quote_after (s @ r)" using Cons.prems argument_endD [OF rest] by (induction s) (auto simp: no_quote_after_def)
  with Cons show ?case using doc_slash [OF doc, of "s @ r" False acc] doc_plain [OF doc, of c False acc "s @ r"]
    by (cases "c = back_slash") auto
qed simp

lemma start_quoted:
  assumes doc: "splits_as_documented start go" and rest: "argument_end r"
  shows "start (quote_arg_for_cmdline a @ r) = go False a r"
proof (cases "needs_quote a")
  case True
  have "start (dquote # quote_chars 0 a @ r) = go False [] (dquote # quote_chars 0 a @ r)"
    using doc_start(3) [OF doc, of dquote] by (simp add: blank_def)
  also have "\<dots> = go True [] (quote_chars 0 a @ r)" using doc_open [OF doc, of "[]" 0] by simp
  finally show ?thesis using True go_quote_chars [OF doc rest, of "[]" 0 a] by (simp add: quote_arg_for_cmdline_def)
next
  case False
  then have plain: "\<forall>c \<in> set a. \<not> blank c \<and> c \<noteq> dquote" and "a \<noteq> []" by (auto simp: needs_quote_def blank_def)
  then have "start (a @ r) = go False [] (a @ r)" using doc_start(3) [OF doc] by (cases a) auto
  with False go_unquoted [OF doc rest plain, of "[]"] show ?thesis by (simp add: quote_arg_for_cmdline_def)
qed

text \<open>
  C34. Arguments survive the command line: whatever they contain (blanks, quotes, backslashes before
  quotes, nothing at all), a program that splits its command line by the documented rules reads,
  after the program name, exactly the arguments that were given.
\<close>

theorem quoted_args_read_back:
  assumes "splits_as_documented start go"
  shows "start (quoted_args args) = args"
proof (induction args)
  case Nil
  show ?case using doc_start(1) [OF assms] by simp
next
  case (Cons a args)
  have rest: "argument_end (quoted_args args)" by (cases args) (simp_all add: argument_end_def blank_def)
  have "start (quoted_args (a # args)) = start (quote_arg_for_cmdline a @ quoted_args args)"
    using doc_start(2) [OF assms, of "CHR '' ''"] by (simp add: blank_def)
  also have "\<dots> = go False a (quoted_args args)" by (rule start_quoted [OF assms rest])
  also have "\<dots> = a # start (quoted_args args)"
    using doc_end(1) [OF assms, of False a] doc_end(2) [OF assms, of "CHR '' ''"] doc_start [OF assms]
    by (cases args) (simp_all add: blank_def)
  finally show ?case using Cons by simp
qed

text \<open>
  A splitter by the rules: between arguments, or in one with the backslashes pending, whether a quote
  is open, and what was read.
\<close>

fun split_args :: "(nat \<times> bool \<times> string) option \<Rightarrow> string \<Rightarrow> string list" where
  "split_args None [] = []"
| "split_args None (c # r) =
     (if blank c then split_args None r
      else if c = back_slash then split_args (Some (1, False, [])) r
      else if c = dquote then split_args (Some (0, True, [])) r
      else split_args (Some (0, False, [c])) r)"
| "split_args (Some (n, q, acc)) [] = [acc @ slashes n]"
| "split_args (Some (n, q, acc)) (c # r) =
     (if c = back_slash then split_args (Some (n + 1, q, acc)) r
      else if c = dquote then
        (if odd n then split_args (Some (0, q, acc @ slashes (n div 2) @ [dquote])) r
         else if q \<and> r \<noteq> [] \<and> r ! 0 = dquote then split_args (Some (1, q, acc @ slashes (n div 2))) r
         else split_args (Some (0, \<not> q, acc @ slashes (n div 2))) r)
      else if blank c \<and> \<not> q then (acc @ slashes n) # split_args None r
      else split_args (Some (0, q, acc @ slashes n @ [c])) r)"

definition read_on :: "bool \<Rightarrow> string \<Rightarrow> string \<Rightarrow> string list" where
  "read_on q acc = split_args (Some (0, q, acc))"

lemma split_args_slashes: "split_args (Some (m, q, acc)) (slashes n @ r) = split_args (Some (m + n, q, acc)) r"
  by (induction n arbitrary: m) simp_all

lemma split_args_pending:
  "no_quote_after r \<Longrightarrow> split_args (Some (m + n, q, acc)) r = split_args (Some (n, q, acc @ slashes m)) r"
proof (induction r arbitrary: n)
  case (Cons c r)
  show ?case
  proof (cases "c = back_slash")
    case True
    with Cons show ?thesis using Cons.IH [of "n + 1"] by simp
  next
    case False
    with Cons.prems show ?thesis by (simp add: replicate_add)
  qed
qed (simp add: replicate_add)

lemma split_args_documented: "splits_as_documented (split_args None) read_on"
  unfolding splits_as_documented_def read_on_def
proof (intro conjI allI impI)
  fix q acc r
  assume "no_quote_after r"
  then show "split_args (Some (0, q, acc)) (back_slash # r) = split_args (Some (0, q, acc @ [back_slash])) r"
    using split_args_pending [of r 1 0 q acc] by simp
qed (auto simp: split_args_slashes blank_def)

lemma quoted_args_read_back_witness:
  "split_args None (quoted_args [''a b'', [], ''c'' @ slashes 2 @ [dquote], ''d e'' @ slashes 1]) =
     [''a b'', [], ''c'' @ slashes 2 @ [dquote], ''d e'' @ slashes 1]"
  by (rule quoted_args_read_back [OF split_args_documented])

end
