(* ===== verification/Cli_Windows.thy ===== *)
theory Cli_Windows
  imports Cli_Text Container_Session Setup App_Stage
begin

text \<open>
  The commands of \<open>psroot\<close> on Windows, \<open>crates/psroot-cli/src/main_windows.rs\<close>, over the container,
  the resolver, the stager, the set-up and application staging. What is printed is left out, except
  the lines that are a command's result. A \<open>Container\<close> that goes out of scope is dropped. Where the
  code can panic the result is an option.
\<close>

section \<open>The host\<close>

record 'k cli_os =
  wl_os :: "'k container_os"
  wl_setup :: "'k kern setup_os"
  wl_res :: "'k kern \<Rightarrow> res_host"
  wl_catalog :: catalog                                   \<comment> \<open>what \<open>Resolver::new\<close> loads\<close>
  wl_resolver_text :: "resolver_error \<Rightarrow> string"
  wl_env :: "string \<rightharpoonup> string"
  wl_upper :: "string \<Rightarrow> string"
  wl_lower :: "string \<Rightarrow> string"
  wl_join :: "string \<Rightarrow> string \<Rightarrow> string"
  wl_parent :: "string \<Rightarrow> string option"
  wl_exists :: "string \<Rightarrow> 'k kern \<Rightarrow> bool"
  wl_remove_all :: "string \<Rightarrow> 'k kern \<Rightarrow> 'k kern"
  wl_names :: "'k kern \<Rightarrow> PsrootError + string list"       \<comment> \<open>\<open>read_dir\<close> of the containers\<close>

definition cli_cache_root :: "'k cli_os \<Rightarrow> string" where
  "cli_cache_root os = cache_root_dir (wl_join os) (wl_env os)"

section \<open>create, start, run, exec, stop, rm, ls, stats\<close>

definition cmd_create :: "'k cli_os \<Rightarrow> create_args \<Rightarrow> string \<Rightarrow> 'k csys \<Rightarrow> (PsrootError + string) \<times> 'k csys" where
  "cmd_create os a command s =
     st_bind (cli_build_config (wl_upper os) (wl_lower os) a [command], s) (\<lambda>config s.
     st_bind (create (wl_os os) config s) (\<lambda>c s. (Inr (ct_id c), container_drop (wl_os os) c s)))"

definition cmd_start :: "'k cli_os \<Rightarrow> string \<Rightarrow> 'k csys \<Rightarrow> (PsrootError + unit) \<times> 'k csys" where
  "cmd_start os cid s = st_bind (load cid s, s) (\<lambda>c s.
     let (r, c, s) = start (wl_os os) c s in (r, container_drop (wl_os os) c s))"

text \<open>The lines that \<open>run\<close> prints for its ports: host side, ephemeral port, container port.\<close>

definition port_lines :: "PortMapping list \<Rightarrow> (string \<times> u16 \<times> u16 \<times> u16) list" where
  "port_lines = List.map_filter (\<lambda>m. map_option (\<lambda>e. (pm_host_bind m, pm_host_port m, e, pm_container_port m))
     (pm_ephemeral_port m))"

definition cmd_run :: "'k cli_os \<Rightarrow> create_args \<Rightarrow> string list \<Rightarrow> 'k csys \<Rightarrow>
    (PsrootError + string \<times> (string \<times> u16 \<times> u16 \<times> u16) list) \<times> 'k csys" where
  "cmd_run os a command s =
     st_bind (cli_build_config (wl_upper os) (wl_lower os) a (if command = [] then [''cmd.exe''] else command), s) (\<lambda>config s.
     st_bind (create (wl_os os) config s) (\<lambda>c s.
     let (r, c, s) = start (wl_os os) c s in
     (map_ok (\<lambda>_. (ct_id c, port_lines (cc_ports (ct_config c)))) r, container_drop (wl_os os) c s)))"

definition cmd_exec :: "'k cli_os \<Rightarrow> string \<Rightarrow> string \<Rightarrow> 'k csys \<Rightarrow> (PsrootError + u32) \<times> 'k csys" where
  "cmd_exec os cid command s = st_bind (load cid s, s) (\<lambda>c s.
     let (r, c, s) = exec (wl_os os) command c s in (r, container_drop (wl_os os) c s))"

definition cmd_stop :: "'k cli_os \<Rightarrow> string \<Rightarrow> 'k csys \<Rightarrow> (PsrootError + unit) \<times> 'k csys" where
  "cmd_stop os cid s = st_bind (load cid s, s) (\<lambda>c s.
     let (r, c, s) = stop (wl_os os) c s in (r, container_drop (wl_os os) c s))"

definition cmd_rm :: "'k cli_os \<Rightarrow> string \<Rightarrow> bool \<Rightarrow> 'k csys \<Rightarrow> (PsrootError + unit) \<times> 'k csys" where
  "cmd_rm os cid force s = st_bind (load cid s, s) (\<lambda>c s. remove (wl_os os) c force s)"

definition cmd_ls :: "'k cli_os \<Rightarrow> string option \<Rightarrow> 'k csys \<Rightarrow>
    PsrootError + (string \<times> ContainerState \<times> string \<times> PortMapping list) list" where
  "cmd_ls os status s = map_ok (\<lambda>names. filter (\<lambda>(cid, state, created, ports).
     case status of None \<Rightarrow> True | Some f \<Rightarrow> show_state state = f) (list_with_ports names s)) (wl_names os (kern_of s))"

definition cmd_stats :: "'k cli_os \<Rightarrow> string \<Rightarrow> 'k csys \<Rightarrow> PsrootError + ContainerStats" where
  "cmd_stats os cid s = and_then (load cid s) (\<lambda>c. stats (wl_os os) c s)"

section \<open>shell\<close>

record shell_args =
  sa_tools :: "string list"
  sa_network :: string
  sa_memory :: string
  sa_cpu :: u32
  sa_max_procs :: u32
  sa_publish :: "string list"
  sa_shell :: "string option"
  sa_version :: "string option"
  sa_args :: "string list"
  sa_env :: "string list"
  sa_explain :: bool
  sa_no_stage :: bool
  sa_binary :: "string option"
  sa_bind :: "string list"
  sa_share :: "string list"
  sa_isolate :: string

definition parse_binds :: "string list \<Rightarrow> PsrootError + VolumeMount list" where
  "parse_binds specs = collect_results (map (\<lambda>spec. case parse_bind_spec spec of
       Inl e \<Rightarrow> Inl (OtherError (''--bind '' @ quoted spec @ '': '' @ e)) | Inr m \<Rightarrow> Inr m) specs)"

definition shell_config :: "shell_args \<Rightarrow> u64 \<Rightarrow> NetworkAccess \<Rightarrow> PortMapping list \<Rightarrow> ContainerConfig" where
  "shell_config a memory net ports = cli_default_config\<lparr>cc_tools := sa_tools a, cc_shares := sa_share a,
     cc_network := net, cc_ports := ports,
     cc_resources := default_limits\<lparr>rl_memory := memory, rl_cpu_rate := sa_cpu a, rl_max_processes := sa_max_procs a\<rparr>\<rparr>"

text \<open>The path of a mount below the rootfs: without drive and leading separators.\<close>

definition junction_suffix :: "string \<Rightarrow> string" where
  "junction_suffix target = (let cp = trim target;
       suffix = (if 2 \<le> length cp \<and> cp ! 1 = CHR '':'' then drop 2 cp else cp) in
     dropWhile (\<lambda>c. c = CHR ''/'') (dropWhile (\<lambda>c. c = back_slash) suffix))"

fun bind_junctions :: "'k cli_os \<Rightarrow> string \<Rightarrow> VolumeMount list \<Rightarrow> 'k kern \<Rightarrow> 'k kern" where
  "bind_junctions os rootfs [] w = w"
| "bind_junctions os rootfs (vm # vms) w =
     (let path = wl_join os rootfs (junction_suffix (vm_container_path vm));
          w = (case wl_parent os path of None \<Rightarrow> w | Some parent \<Rightarrow> co_mkdir_all (wl_os os) parent w);
          w = (if wl_exists os path w then wl_remove_all os path w else w)
      in bind_junctions os rootfs vms (snd (sh_junction (co_shell (wl_os os)) path (vm_host_path vm) w)))"

text \<open>
  The banner shows the last 34 bytes of the rootfs path. Cutting a \<open>str\<close> inside a character panics.
\<close>

definition continuation_byte :: "char \<Rightarrow> bool" where
  "continuation_byte c \<longleftrightarrow> (let n = of_char c :: nat in 128 \<le> n \<and> n < 192)"

definition banner_tail :: "string \<Rightarrow> string option" where
  "banner_tail p = (let n = length p - 34 in
     if 0 < n \<and> continuation_byte (p ! n) then None else Some (drop n p))"

text \<open>After the shell: its error drops the container, a code is followed by \<open>remove(false)\<close>.\<close>

definition remove_after :: "'k cli_os \<Rightarrow> Container \<Rightarrow> 'k csys \<Rightarrow> (PsrootError + unit) \<times> 'k csys" where
  "remove_after os c s = remove (wl_os os) c False s"

definition legacy_session :: "'k cli_os \<Rightarrow> string \<Rightarrow> Container \<Rightarrow> 'k csys \<Rightarrow> (PsrootError + unit) \<times> 'k csys" where
  "legacy_session os cmdline c s =
     (let (_, c, s) = setup_port_mappings_for_shell (wl_os os) c s in
      case shell (wl_os os) cmdline c s of
        (Inl e, s) \<Rightarrow> (Inl e, container_drop (wl_os os) c s)
      | (Inr code, s) \<Rightarrow> (let (c, s) = teardown_port_mappings (wl_os os) c s in remove_after os c s))"

definition legacy_shell :: "'k cli_os \<Rightarrow> shell_args \<Rightarrow> string \<Rightarrow> u64 \<Rightarrow> NetworkAccess \<Rightarrow> PortMapping list \<Rightarrow> 'k csys \<Rightarrow>
    ((PsrootError + unit) \<times> 'k csys) option" where
  "legacy_shell os a binary memory net ports s = (case parse_binds (sa_bind a) of
       Inl e \<Rightarrow> Some (Inl e, s)
     | Inr volumes \<Rightarrow>
       (let config = (shell_config a memory net ports)\<lparr>cc_command := [binary], cc_volumes := volumes,
              cc_env := env_of_args (sa_env a)\<rparr> in
        case create (wl_os os) config s of
          (Inl e, s) \<Rightarrow> Some (Inl e, s)
        | (Inr c, s) \<Rightarrow>
          (let rootfs = cc_rootfs_path (ct_config c);
               s = (if cp_bind_filter (bo_caps (co_box (wl_os os))) then s
                    else kern_do (bind_junctions os rootfs volumes) s) in
           if sa_explain a then Some (remove_after os c s)
           else case banner_tail rootfs of
             None \<Rightarrow> None
           | Some _ \<Rightarrow> Some (legacy_session os (legacy_command_line binary (sa_args a)) c s))))"

text \<open>\<open>winget\<close> needs the profile directory of the user at its own path.\<close>

definition winget_bind :: "'k cli_os \<Rightarrow> string list \<Rightarrow> VolumeMount list \<Rightarrow> 'k kern \<Rightarrow> VolumeMount list" where
  "winget_bind os tools mounts w =
     (if ''winget'' \<in> set tools then (case wl_env os ''USERNAME'' of
          None \<Rightarrow> mounts
        | Some user \<Rightarrow> (let host = ''C:'' @ back_slash # ''Users'' @ back_slash # user in
            if user \<noteq> [] \<and> wl_exists os host w \<and> \<not> (\<exists>m \<in> set mounts. vm_host_path m = host)
            then mounts @ [\<lparr>vm_host_path = host, vm_container_path = host, vm_read_only = False\<rparr>] else mounts))
      else mounts)"

text \<open>\<open>--isolate\<close>: whether a silo is used; \<open>None\<close> for an unknown mode.\<close>

definition choose_silo :: "'k cli_os \<Rightarrow> string \<Rightarrow> bool option" where
  "choose_silo os isolate = (let m = wl_lower os isolate; silos = cp_server_silos (bo_caps (co_box (wl_os os))) in
     if m \<in> {''full'', ''silo''} then Some silos
     else if m \<in> {''standard'', ''appcontainer'', ''ac''} then Some False
     else if m \<in> {''auto'', ''''} then Some silos
     else None)"

text \<open>What follows \<open>remove(false)?\<close> when the command is refused after the container was made.\<close>

definition refuse :: "'k cli_os \<Rightarrow> PsrootError \<Rightarrow> Container \<Rightarrow> 'k csys \<Rightarrow> (PsrootError + unit) \<times> 'k csys" where
  "refuse os e c s = st_bind (remove_after os c s) (\<lambda>_ s. (Inl e, s))"

definition plan_session :: "'k cli_os \<Rightarrow> shell_args \<Rightarrow> LaunchPlan \<Rightarrow> Container \<Rightarrow> 'k csys \<Rightarrow>
    ((PsrootError + unit) \<times> 'k csys) option" where
  "plan_session os a plan c s =
     (if sa_explain a then Some (remove_after os c s)
      else if sa_no_stage a \<and> lp_stage plan \<noteq> [] \<and> \<not> wl_exists os (lp_cache_dir plan) (kern_of s) then
        Some (refuse os (OtherError (''shell '' @ quoted (lp_shell_name plan) @
          '' is not staged and --no-stage was given. Run `psroot stage '' @ lp_shell_name plan @ ''` first.'')) c s)
      else case banner_tail (cc_rootfs_path (ct_config c)) of
        None \<Rightarrow> None
      | Some _ \<Rightarrow> Some (case choose_silo os (sa_isolate a) of
            None \<Rightarrow> refuse os (OtherError (''Invalid --isolate '' @ quoted (wl_lower os (sa_isolate a)) @
              '': use auto, standard, or full'')) c s
          | Some use_silo \<Rightarrow> (case shell_with_plan (wl_os os) plan use_silo c s of
              (Inl e, s) \<Rightarrow> (Inl e, container_drop (wl_os os) c s)
            | (Inr code, s) \<Rightarrow> remove_after os c s)))"

definition shell_request :: "shell_args \<Rightarrow> PsrootError + ShellRequest" where
  "shell_request a =
     (let req = (shell_request_new (case sa_shell a of Some n \<Rightarrow> n | None \<Rightarrow> ''cmd''))\<lparr>
            rq_args := sa_args a, rq_env := env_pairs (sa_env a)\<rparr> in
      case sa_version a of
        None \<Rightarrow> Inr req
      | Some vs \<Rightarrow> (case req_parse vs of
          None \<Rightarrow> Inl (OtherError (''Invalid --shell-version '' @ quoted vs @ '': use e.g. '' @ quoted ''>=7.4'' @
            '' or '' @ quoted ''~7.5''))
        | Some v \<Rightarrow> Inr (req\<lparr>rq_version := Some v\<rparr>)))"

definition plan_shell :: "'k cli_os \<Rightarrow> shell_args \<Rightarrow> u64 \<Rightarrow> NetworkAccess \<Rightarrow> PortMapping list \<Rightarrow> 'k csys \<Rightarrow>
    ((PsrootError + unit) \<times> 'k csys) option" where
  "plan_shell os a memory net ports s = (case shell_request a of
       Inl e \<Rightarrow> Some (Inl e, s)
     | Inr req \<Rightarrow>
       (let cache = cli_cache_root os; s = kern_do (co_mkdir_all (wl_os os) cache) s in
        case on_kern (require_ready (wl_setup os) cache) s of
          (Inl e, s) \<Rightarrow> Some (Inl e, s)
        | (Inr _, s) \<Rightarrow> (case parse_binds (sa_bind a) of
            Inl e \<Rightarrow> Some (Inl e, s)
          | Inr mounts \<Rightarrow>
            (let config = (shell_config a memory net ports)\<lparr>
                   cc_volumes := winget_bind os (sa_tools a) mounts (kern_of s)\<rparr> in
             case create (wl_os os) config s of
               (Inl e, s) \<Rightarrow> Some (Inl e, s)
             | (Inr c, s) \<Rightarrow>
               (case resolve (wl_res os (kern_of s)) (wl_catalog os) req \<lparr>rc_container_id = ct_id c,
                    rc_rootfs = cc_rootfs_path (ct_config c), rc_network = net, rc_cache_root = cache,
                    rc_allow_admin = False\<rparr> of
                  None \<Rightarrow> None
                | Some (Inl e) \<Rightarrow> Some (Inl (OtherError (''resolver: '' @ wl_resolver_text os e)), container_drop (wl_os os) c s)
                | Some (Inr plan) \<Rightarrow> plan_session os a plan c s)))))"

definition cmd_shell :: "'k cli_os \<Rightarrow> shell_args \<Rightarrow> 'k csys \<Rightarrow> ((PsrootError + unit) \<times> 'k csys) option" where
  "cmd_shell os a s =
     (if sa_shell a \<noteq> None \<and> sa_binary a \<noteq> None
      then Some (Inl (OtherError ''--shell and --shell-binary are mutually exclusive''), s)
      else case parse_network_mode (wl_lower os) (sa_network a) of
        Inl e \<Rightarrow> Some (Inl e, s)
      | Inr net \<Rightarrow> (case parse_memory (wl_upper os) (sa_memory a) of
          Inl e \<Rightarrow> Some (Inl e, s)
        | Inr memory \<Rightarrow> (case parse_ports (sa_publish a) of
            Inl e \<Rightarrow> Some (Inl e, s)
          | Inr ports \<Rightarrow> (case sa_binary a of
              Some binary \<Rightarrow> legacy_shell os a binary memory net ports s
            | None \<Rightarrow> plan_shell os a memory net ports s))))"

section \<open>stage, shell-list, shell-info, setup\<close>

text \<open>A resolution outside a container; \<open>container_id\<close> is a fixed word.\<close>

definition scratch_dir :: "'k cli_os \<Rightarrow> string" where
  "scratch_dir os = wl_join os (cli_cache_root os) ''.stage-scratch''"

definition cli_resolve :: "'k cli_os \<Rightarrow> ShellRequest \<Rightarrow> string \<Rightarrow> NetworkAccess \<Rightarrow> 'k csys \<Rightarrow>
    (resolver_error + LaunchPlan) option" where
  "cli_resolve os req cid net s = resolve (wl_res os (kern_of s)) (wl_catalog os) req
     \<lparr>rc_container_id = cid, rc_rootfs = scratch_dir os, rc_network = net, rc_cache_root = cli_cache_root os,
      rc_allow_admin = False\<rparr>"

text \<open>A version that does not parse is no constraint, and \<open>--force\<close> is not looked at.\<close>

definition cmd_stage :: "'k cli_os \<Rightarrow> string \<Rightarrow> string option \<Rightarrow> bool \<Rightarrow> 'k csys \<Rightarrow>
    ((PsrootError + StageOutcome) \<times> 'k csys) option" where
  "cmd_stage os name version force s =
     (let s = kern_do (co_mkdir_all (wl_os os) (cli_cache_root os)) s;
          s = kern_do (co_mkdir_all (wl_os os) (scratch_dir os)) s;
          req = (shell_request_new name)\<lparr>rq_version := Option.bind version req_parse\<rparr> in
      case cli_resolve os req ''stage-cli'' NoNetwork s of
        None \<Rightarrow> None
      | Some (Inl e) \<Rightarrow> Some (Inl (OtherError (''resolver: '' @ wl_resolver_text os e)), s)
      | Some (Inr plan) \<Rightarrow> Some (on_box (\<lambda>b.
          (case apply_plan (bo_stage (co_box (wl_os os))) plan ''S-1-5-32-545'' ''stage-cli'' (sx_manifests b) (sx_world b) of
             (r, ms, w) \<Rightarrow>
               (case r of Inl e \<Rightarrow> Inl (OtherError (''stager: '' @ sh_stage_error (co_shell (wl_os os)) e)) | Inr out \<Rightarrow> Inr out,
                b\<lparr>sx_manifests := ms, sx_world := w\<rparr>))) s))"

definition cmd_shell_list :: "'k cli_os \<Rightarrow> (string \<times> string) list" where
  "cmd_shell_list os = map (\<lambda>e. (cf_name e, if cf_display e = [] then cf_name e else cf_display e))
     (cat_entries (wl_catalog os))"

text \<open>The entry, and the plan or why there is none.\<close>

definition cmd_shell_info :: "'k cli_os \<Rightarrow> string \<Rightarrow> 'k csys \<Rightarrow>
    ((PsrootError + CatalogFile \<times> (resolver_error + LaunchPlan)) \<times> 'k csys) option" where
  "cmd_shell_info os name s = (case catalog_lookup (wl_lower os) name (wl_catalog os) of
       None \<Rightarrow> None
     | Some None \<Rightarrow> Some (Inl (OtherError (''unknown shell '' @ quoted name)), s)
     | Some (Some entry) \<Rightarrow>
       (let s = kern_do (co_mkdir_all (wl_os os) (scratch_dir os)) s in
        map_option (\<lambda>r. (Inr (entry, r), s)) (cli_resolve os (shell_request_new name) ''info'' Outbound s)))"

text \<open>How many grants are missing, and what was applied.\<close>

definition cmd_setup :: "'k cli_os \<Rightarrow> bool \<Rightarrow> 'k csys \<Rightarrow> (PsrootError + nat \<times> string list) \<times> 'k csys" where
  "cmd_setup os dry_run s =
     (let cache = cli_cache_root os; (checks, s) = on_kern (check_status (wl_setup os) cache) s;
          needed = length (filter (\<lambda>c. \<not> sc_has c) checks) in
      if dry_run then (Inr (needed, []), s)
      else st_bind (on_kern (setup_apply (wl_setup os) cache) s) (\<lambda>applied s. (Inr (needed, applied), s)))"

section \<open>gui\<close>

record gui_args =
  ga_exe :: string
  ga_app_root :: "string option"
  ga_args :: "string list"
  ga_timeout :: nat
  ga_extra_dir :: "string list"
  ga_exclude :: "string list"
  ga_no_network :: bool

text \<open>\<open>rsplitn(2, ':')\<close>: what precedes the last colon and what follows it.\<close>

definition split_last :: "char \<Rightarrow> string \<Rightarrow> (string \<times> string) option" where
  "split_last d s = map_option (\<lambda>(a, b). (rev b, rev a)) (split_first d (rev s))"

fun add_extra_dirs :: "string list \<Rightarrow> app_config \<Rightarrow> app_config" where
  "add_extra_dirs [] c = c"
| "add_extra_dirs (spec # specs) c = add_extra_dirs specs (case split_last (CHR '':'') spec of
       None \<Rightarrow> c | Some (host, mount) \<Rightarrow> with_extra_dir host mount c)"

definition gui_config :: "gui_args \<Rightarrow> app_config \<Rightarrow> app_config" where
  "gui_config a c =
     (let c = (case ga_app_root a of None \<Rightarrow> c | Some root \<Rightarrow> with_app_root root c);
          c = (if ga_args a = [] then c else with_args (filter (\<lambda>x. x \<noteq> ''--'') (ga_args a)) c);
          c = (if ga_exclude a = [] then c else with_excludes (ga_exclude a) c)
      in add_extra_dirs (ga_extra_dir a) (c\<lparr>ac_network := \<not> ga_no_network a\<rparr>))"

text \<open>
  The process is waited for, or stopped when it still runs after the timeout; then the desktop is
  closed and the staged copy removed.
\<close>

record 'w gui_os =
  gw_sleep :: "nat \<Rightarrow> 'w \<Rightarrow> 'w"
  gw_running :: "nat \<Rightarrow> 'w \<Rightarrow> bool"
  gw_terminate :: "nat \<Rightarrow> 'w \<Rightarrow> 'w"
  gw_close :: "nat \<Rightarrow> 'w \<Rightarrow> 'w"                     \<comment> \<open>\<open>Drop\<close> of the process: both handles\<close>

definition gui_wait :: "'w app_os \<Rightarrow> 'w gui_os \<Rightarrow> nat \<Rightarrow> nat \<Rightarrow> 'w \<Rightarrow> u32 option \<times> 'w" where
  "gui_wait os gs timeout proc w =
     (if timeout = 0 then let (code, w) = ap_wait os proc w in (Some code, w)
      else let w = gw_sleep gs timeout w in
        if gw_running gs proc w then (None, gw_terminate gs proc w)
        else let (code, w) = ap_wait os proc w in (Some code, w))"

definition cmd_gui :: "'w app_os \<Rightarrow> 'w gui_os \<Rightarrow> gui_args \<Rightarrow> 'w app_sys \<Rightarrow>
    ((PsrootError + u32 option) \<times> 'w app_sys) option" where
  "cmd_gui os gs a s = (case from_exe os (ga_exe a) of
       Inl e \<Rightarrow> Some (Inl e, s)
     | Inr c \<Rightarrow> (case stage_and_spawn_gui os (gui_config a c) s of
         None \<Rightarrow> None
       | Some (Inl e, s) \<Rightarrow> Some (Inl e, s)
       | Some (Inr (desk, proc, root), s) \<Rightarrow>
         (let (code, s) = acall (gui_wait os gs (ga_timeout a) proc) s;
              w = ap_close_desktop os desk (as_world s); w = ap_remove_all os root w
          in Some (Inr code, s\<lparr>as_world := gw_close gs proc w\<rparr>))))"

section \<open>The command line\<close>

datatype cli_command = CInfo | CCreate create_args string | CStart string | CRun create_args "string list"
  | CExec string string | CShell shell_args | CStage string "string option" bool | CShellList | CShellInfo string
  | CSetup bool | CStop string | CRm string bool | CLs "string option" | CStats string

definition unit_result :: "('e + 'a) \<times> 's \<Rightarrow> ('e + unit) \<times> 's" where
  "unit_result m = (map_ok (\<lambda>_. ()) (fst m), snd m)"

text \<open>\<open>run\<close> without the commands \<open>gui\<close>, which has its own state, and \<open>test\<close>.\<close>

fun run_command :: "'k cli_os \<Rightarrow> cli_command \<Rightarrow> 'k csys \<Rightarrow> ((PsrootError + unit) \<times> 'k csys) option" where
  "run_command os CInfo s = Some (Inr (), s)"
| "run_command os (CCreate a command) s = Some (unit_result (cmd_create os a command s))"
| "run_command os (CStart cid) s = Some (cmd_start os cid s)"
| "run_command os (CRun a command) s = Some (unit_result (cmd_run os a command s))"
| "run_command os (CExec cid command) s = Some (unit_result (cmd_exec os cid command s))"
| "run_command os (CShell a) s = cmd_shell os a s"
| "run_command os (CStage name version force) s = map_option unit_result (cmd_stage os name version force s)"
| "run_command os CShellList s = Some (Inr (), s)"
| "run_command os (CShellInfo name) s = map_option unit_result (cmd_shell_info os name s)"
| "run_command os (CSetup dry_run) s = Some (unit_result (cmd_setup os dry_run s))"
| "run_command os (CStop cid) s = Some (cmd_stop os cid s)"
| "run_command os (CRm cid force) s = Some (cmd_rm os cid force s)"
| "run_command os (CLs status) s = Some (map_ok (\<lambda>_. ()) (cmd_ls os status s), s)"
| "run_command os (CStats cid) s = Some (map_ok (\<lambda>_. ()) (cmd_stats os cid s), s)"

text \<open>\<open>main\<close>: the exit code; a panic is the runtime's 101.\<close>

definition main_windows :: "'k cli_os \<Rightarrow> cli_command \<Rightarrow> 'k csys \<Rightarrow> nat" where
  "main_windows os cmd s = (case run_command os cmd s of
       None \<Rightarrow> 101 | Some (Inl e, _) \<Rightarrow> 1 | Some (Inr _, _) \<Rightarrow> 0)"

end
