(* ===== verification/Cli_Sessions.thy ===== *)
theory Cli_Sessions
  imports Cli_Windows
begin

text \<open>
  What the Windows commands leave behind: the container directories after a shell command, and the
  state of a container between two commands.
\<close>

section \<open>Directories\<close>

definition only_dir :: "string \<Rightarrow> 'k csys \<Rightarrow> 'k csys \<Rightarrow> bool" where
  "only_dir cid s s' \<longleftrightarrow> (\<forall>d. d \<noteq> cid \<longrightarrow> cy_dirs s' d = cy_dirs s d)"

lemma only_dir_same [intro]: "cy_dirs s' = cy_dirs s \<Longrightarrow> only_dir cid s s'"
  by (simp add: only_dir_def)

lemma only_dir_trans: "only_dir cid s t \<Longrightarrow> only_dir cid t u \<Longrightarrow> only_dir cid s u"
  by (simp add: only_dir_def)

lemma create_only:
  "create os config s = (r, s') \<Longrightarrow> \<exists>cid. only_dir cid s s' \<and>
     (\<forall>c. r = Inr c \<longrightarrow> ct_id c = cid \<and> ct_state c = Created \<and> ct_runtime c = no_runtime)"
proof -
  assume run: "create os config s = (r, s')"
  obtain uuid s0 where u: "on_kern (co_uuid os) s = (uuid, s0)" by fastforce
  let ?cid = "''psroot-'' @ take 8 uuid"
  have "only_dir ?cid s s' \<and> (\<forall>c. r = Inr c \<longrightarrow> ct_id c = ?cid \<and> ct_state c = Created \<and> ct_runtime c = no_runtime)"
    using run dirs_simps(2) [OF u]
    by (auto simp: create_def u only_dir_def st_bind_def Let_def dest!: dirs_simps(2) split: prod.splits sum.splits if_splits)
  then show ?thesis by blast
qed

lemma remove_dir_tries_only: "remove_dir_tries os cid ns s = (r, s') \<Longrightarrow> only_dir cid s s'"
proof (induction os cid ns s arbitrary: r s' rule: remove_dir_tries.induct)
  case (2 os cid n ns s)
  show ?case
  proof (cases "cy_dirs s cid")
    case None
    then have "remove_dir_tries os cid ns s = (r, s')" using 2(3) by (simp only: remove_dir_tries.simps option.case)
    from 2(1) [OF None this] show ?thesis .
  next
    case (Some d)
    obtain left s1 where rm: "on_kern (co_remove_dir os n d) s = (left, s1)" by fastforce
    show ?thesis
    proof (cases left)
      case None
      then have "s' = s1\<lparr>cy_dirs := (cy_dirs s1)(cid := None)\<rparr>"
        using 2(3) by (simp only: remove_dir_tries.simps Some option.case rm prod.case) simp
      then show ?thesis using dirs_simps(2) [OF rm] by (simp add: only_dir_def)
    next
      case left: (Some d')
      then have "remove_dir_tries os cid ns (s1\<lparr>cy_dirs := (cy_dirs s1)(cid \<mapsto> d')\<rparr>) = (r, s')"
        using 2(3) by (simp only: remove_dir_tries.simps Some option.case rm prod.case)
      from 2(2) [OF Some rm [symmetric] left this] show ?thesis using dirs_simps(2) [OF rm] by (simp add: only_dir_def)
    qed
  qed
qed (auto simp: only_dir_def)

lemma drop_idle: "ct_state c \<noteq> Running \<Longrightarrow> container_drop os c s = drop_runtime os (ct_runtime c) s"
  by (simp add: container_drop_def stop_def)

lemma remove_idle:
  assumes "remove os c force s = (r, s')" and "ct_state c \<noteq> Running"
  shows "only_dir (ct_id c) s s' \<and> (r = Inr () \<longrightarrow> cy_dirs s' (ct_id c) = None)"
proof -
  obtain s1 where rem: "remove_stopped os c s = (r, s1)" and s': "s' = drop_runtime os (ct_runtime c) s1"
    using assms by (auto simp: remove_def drop_idle Let_def split: prod.splits)
  have "only_dir (ct_id c) s s1 \<and> (r = Inr () \<longrightarrow> cy_dirs s1 (ct_id c) = None)"
    using rem by (auto simp: remove_stopped_def Let_def only_dir_def simp del: remove_dir_tries.simps
        dest: remove_dir_tries_only remove_tries_ok split: if_splits)
  then show ?thesis by (simp add: s' only_dir_def)
qed

lemma shell_dirs: "shell os cmd c s = (r, s') \<Longrightarrow> cy_dirs s' = cy_dirs s"
  by (auto simp: shell_def dest: dirs_simps(1))

lemma record_plan_only: "only_dir (ct_id c) s (record_plan os plan sid c s)"
  by (auto simp: record_plan_def only_dir_def Let_def split: option.split sum.split)

lemma shell_with_plan_only:
  assumes "shell_with_plan os plan silo c s = (r, s')"
  shows "only_dir (ct_id c) s s'"
proof -
  let ?run = "if silo then on_box (spawn_interactive_plan_silo (co_shell os) plan (ct_config c)) s
    else on_box (spawn_interactive_plan (co_box os) (sh_stage_error (co_shell os)) plan (ct_config c)) s"
  obtain q s1 where run: "?run = (q, s1)" by fastforce
  then have "cy_dirs s1 = cy_dirs s" by (auto dest: dirs_simps(1) split: if_splits)
  then show ?thesis
    using assms record_plan_only [of c s1 os plan]
    by (auto simp: shell_with_plan_def run only_dir_def split: sum.splits prod.splits)
qed

section \<open>The shell command\<close>

text \<open>How a session with the container \<open>c\<close> ends.\<close>

definition leaves :: "Container \<Rightarrow> 'k csys \<Rightarrow> (PsrootError + unit) \<times> 'k csys \<Rightarrow> bool" where
  "leaves c s m \<longleftrightarrow> only_dir (ct_id c) s (snd m) \<and> (fst m = Inr () \<longrightarrow> cy_dirs (snd m) (ct_id c) = None)"

lemma leaves_remove: "ct_state c \<noteq> Running \<Longrightarrow> only_dir (ct_id c) s t \<Longrightarrow> leaves c s (remove_after os c t)"
  using remove_idle [of "wl_os os" c False t] only_dir_trans
  by (cases "remove_after os c t") (fastforce simp: leaves_def remove_after_def)

lemma leaves_drop: "ct_state c \<noteq> Running \<Longrightarrow> only_dir (ct_id c) s t \<Longrightarrow> leaves c s (Inl e, container_drop os c t)"
  by (simp add: leaves_def drop_idle only_dir_def)

lemma leaves_refuse: "ct_state c \<noteq> Running \<Longrightarrow> only_dir (ct_id c) s t \<Longrightarrow> leaves c s (refuse os e c t)"
  using leaves_remove [of c s t os]
  by (auto simp: leaves_def refuse_def st_bind_def split: prod.splits sum.splits)

lemma leaves_plan_session:
  assumes "plan_session os a plan c s = Some m" and "ct_state c \<noteq> Running"
  shows "leaves c s m"
proof -
  have here: "only_dir (ct_id c) s s" by (simp add: only_dir_def)
  note ends = leaves_remove [OF assms(2) here, of os] leaves_refuse [OF assms(2) here, of os]
  show ?thesis
    using assms(1) ends leaves_remove [OF assms(2) shell_with_plan_only, of "wl_os os" plan _ s _ _ os]
      leaves_drop [OF assms(2) shell_with_plan_only, of "wl_os os" plan _ s]
    by (auto simp: plan_session_def split: if_splits option.splits prod.splits sum.splits)
qed

lemma leaves_legacy_session:
  assumes "ct_state c \<noteq> Running"
  shows "leaves c s (legacy_session os line c s)"
proof -
  obtain r1 c1 s1 where ports: "setup_port_mappings_for_shell (wl_os os) c s = (r1, c1, s1)" by (metis prod_cases3)
  obtain r2 s2 where run: "shell (wl_os os) line c1 s1 = (r2, s2)" by fastforce
  obtain c3 s3 where torn: "teardown_port_mappings (wl_os os) c1 s2 = (c3, s3)" by fastforce
  have c1: "ct_id c1 = ct_id c" "ct_state c1 \<noteq> Running"
    using core_setup_ports [OF ports] assms by (auto simp: core_def)
  have c3: "ct_id c3 = ct_id c" "ct_state c3 \<noteq> Running"
    using core_teardown [OF torn] c1 by (auto simp: core_def)
  have "cy_dirs s1 = cy_dirs s"
    using ports by (auto simp: setup_port_mappings_for_shell_def dest!: dirs_start_mapper split: if_splits)
  moreover have "cy_dirs s3 = cy_dirs s2" using torn by (auto simp: teardown_port_mappings_def)
  ultimately have same: "only_dir (ct_id c1) s s2" "only_dir (ct_id c3) s s3"
    using shell_dirs [OF run] by (auto simp: only_dir_def)
  have "leaves c1 s (Inl e, container_drop (wl_os os) c1 s2)" "leaves c3 s (remove_after os c3 s3)" for e
    using leaves_drop [OF c1(2) same(1)] leaves_remove [OF c3(2) same(2)] by auto
  then show ?thesis using c1 c3 by (cases r2) (auto simp: legacy_session_def ports run torn leaves_def)
qed

lemma leaves_from:
  assumes "leaves c t m" "only_dir (ct_id c) s t"
  shows "\<exists>cid. only_dir cid s (snd m) \<and> (fst m = Inr () \<longrightarrow> cy_dirs (snd m) cid = None)"
  using assms only_dir_trans unfolding leaves_def by blast

lemma created_idle: "r = Inr c \<longrightarrow> ct_id c = cid \<and> ct_state c = Created \<and> ct_runtime c = no_runtime \<Longrightarrow>
    r = Inr c \<Longrightarrow> ct_id c = cid \<and> ct_state c \<noteq> Running" for r :: "PsrootError + Container"
  by simp

lemma legacy_shell_leaves:
  assumes "legacy_shell os a binary memory net ports s = Some m"
  shows "\<exists>cid. only_dir cid s (snd m) \<and> (fst m = Inr () \<longrightarrow> cy_dirs (snd m) cid = None)"
proof (cases "parse_binds (sa_bind a)")
  case (Inl e)
  then show ?thesis using assms by (auto simp: legacy_shell_def only_dir_def)
next
  case (Inr volumes)
  let ?config = "(shell_config a memory net ports)\<lparr>cc_command := [binary], cc_volumes := volumes, cc_env := env_of_args (sa_env a)\<rparr>"
  obtain r s1 where made: "create (wl_os os) ?config s = (r, s1)" by fastforce
  from create_only [OF made] obtain cid where cid: "only_dir cid s s1"
    and c: "\<And>c. r = Inr c \<Longrightarrow> ct_id c = cid \<and> ct_state c \<noteq> Running" by auto
  show ?thesis
  proof (cases r)
    case (Inl e)
    then show ?thesis using assms Inr made cid by (auto simp: legacy_shell_def)
  next
    case r: (Inr c)
    let ?t = "if cp_bind_filter (bo_caps (co_box (wl_os os))) then s1
      else kern_do (bind_junctions os (cc_rootfs_path (ct_config c)) volumes) s1"
    have t: "only_dir (ct_id c) s ?t" using cid \<open>r = Inr c\<close> c by (auto simp: only_dir_def dirs_simps(3))
    have idle: "ct_state c \<noteq> Running" using c r by simp
    have here: "only_dir (ct_id c) ?t ?t" by (simp add: only_dir_def)
    have "m = remove_after os c ?t \<or> m = legacy_session os (legacy_command_line binary (sa_args a)) c ?t"
      using assms Inr made r by (auto simp: legacy_shell_def Let_def split: if_splits option.splits)
    then have "leaves c ?t m"
      using leaves_remove [OF idle here] leaves_legacy_session [OF idle] by metis
    then show ?thesis using t by (rule leaves_from)
  qed
qed

lemma plan_shell_leaves:
  assumes "plan_shell os a memory net ports s = Some m"
  shows "\<exists>cid. only_dir cid s (snd m) \<and> (fst m = Inr () \<longrightarrow> cy_dirs (snd m) cid = None)"
proof (cases "shell_request a")
  case (Inl e)
  then show ?thesis using assms by (auto simp: plan_shell_def only_dir_def)
next
  case req: (Inr req)
  let ?s = "kern_do (co_mkdir_all (wl_os os) (cli_cache_root os)) s"
  obtain q s1 where ready: "on_kern (require_ready (wl_setup os) (cli_cache_root os)) ?s = (q, s1)" by fastforce
  then have s1: "cy_dirs s1 = cy_dirs s" using dirs_simps(2) [OF ready] by (simp add: dirs_simps(3))
  show ?thesis
  proof (cases "q = Inr () \<and> (\<exists>mounts. parse_binds (sa_bind a) = Inr mounts)")
    case False
    then have "\<exists>e. m = (Inl e, s1)" using assms req ready
      by (cases q; cases "parse_binds (sa_bind a)") (auto simp: plan_shell_def Let_def)
    then show ?thesis using s1 by (auto simp: only_dir_def)
  next
    case True
    then obtain mounts where mounts: "q = Inr ()" "parse_binds (sa_bind a) = Inr mounts" by blast
    let ?config = "(shell_config a memory net ports)\<lparr>cc_volumes := winget_bind os (sa_tools a) mounts (kern_of s1)\<rparr>"
    obtain r s2 where made: "create (wl_os os) ?config s1 = (r, s2)" by fastforce
    from create_only [OF made] obtain cid where cid: "only_dir cid s1 s2"
      and c: "\<And>c. r = Inr c \<Longrightarrow> ct_id c = cid \<and> ct_state c \<noteq> Running" by auto
    have s2: "only_dir cid s s2" using cid s1 by (simp add: only_dir_def)
    show ?thesis
    proof (cases r)
      case (Inl e)
      then show ?thesis using assms req ready mounts made s2 by (auto simp: plan_shell_def Let_def)
    next
      case r: (Inr c)
      have idle: "ct_id c = cid" "ct_state c \<noteq> Running" using c [OF r] by auto
      have here: "only_dir (ct_id c) s2 s2" by (simp add: only_dir_def)
      have "(\<exists>e. m = (Inl e, container_drop (wl_os os) c s2)) \<or> (\<exists>plan. plan_session os a plan c s2 = Some m)"
        using assms req ready mounts made r by (auto simp: plan_shell_def Let_def split: option.splits sum.splits)
      then have "leaves c s2 m"
        using leaves_drop [OF idle(2) here] leaves_plan_session [OF _ idle(2)] by blast
      then show ?thesis using s2 idle(1) leaves_from by blast
    qed
  qed
qed

text \<open>
  C31. A shell command touches the directory of one container at most, whatever fails; when it
  succeeds, that directory is gone again.
\<close>

theorem shell_command_cleans_up:
  assumes "cmd_shell os a s = Some (r, s')"
  shows "\<exists>cid. (\<forall>d. d \<noteq> cid \<longrightarrow> cy_dirs s' d = cy_dirs s d) \<and> (r = Inr () \<longrightarrow> cy_dirs s' cid = None)"
proof -
  have "\<exists>cid. only_dir cid s s' \<and> (r = Inr () \<longrightarrow> cy_dirs s' cid = None)"
    using assms legacy_shell_leaves [of os a _ _ _ _ s "(r, s')"] plan_shell_leaves [of os a _ _ _ s "(r, s')"]
    by (auto simp: cmd_shell_def split: if_splits sum.splits option.splits)
  then show ?thesis by (simp add: only_dir_def)
qed

section \<open>Between two commands\<close>

lemma load_idle: "load cid s = Inr c \<Longrightarrow> ct_id c = cid \<and> ct_state c \<noteq> Running \<and> ct_runtime c = no_runtime"
  by (auto simp: load_def split: option.splits sum.splits if_splits)

lemma drop_no_runtime: "drop_runtime os no_runtime s = s"
  by (simp add: drop_runtime_def no_runtime_def drop_bind_def drop_mapper_def drop_netstack_def)

lemma drop_running:
  assumes "ct_state c = Running" and saves: "\<And>f w. co_save os f w" and "cy_dirs s (ct_id c) \<noteq> None"
  shows "status_on_disk (container_drop os c s) (ct_id c) = Some Stopped"
proof -
  obtain r c' s' where stop: "stop os c s = (r, c', s')" by (metis prod_cases3)
  have "r = Inr ()" using stop assms
    by (auto simp: stop_def Let_def write_state_def dirs_simps(3) split: option.splits prod.splits)
  then have "status_on_disk s' (ct_id c) = Some Stopped" using stop_disk [of os c s "()" c' s'] stop assms(1) by simp
  then show ?thesis by (simp add: container_drop_def stop status_on_disk_def read_state_def)
qed

text \<open>
  C32. No container outlives the command that started it: after a successful \<open>start\<close> or \<open>run\<close>
  it is recorded as stopped (when files can be saved), since the command drops it when it returns.
  So \<open>exec\<close> and \<open>stats\<close> fail for every container in every state, and \<open>stop\<close> changes nothing.
\<close>

theorem no_container_outlives_command:
  "(\<forall>cid s'. (\<forall>f w. co_save (wl_os os) f w) \<longrightarrow> cmd_start os cid s = (Inr (), s') \<longrightarrow> status_on_disk s' cid = Some Stopped) \<and>
   (\<forall>a cmd cid ports s'. (\<forall>f w. co_save (wl_os os) f w) \<longrightarrow> cmd_run os a cmd s = (Inr (cid, ports), s') \<longrightarrow>
      status_on_disk s' cid = Some Stopped) \<and>
   (\<forall>cid cmd. \<exists>e. cmd_exec os cid cmd s = (Inl e, s)) \<and>
   (\<forall>cid. \<exists>e. cmd_stats os cid s = Inl e) \<and>
   (\<forall>cid. snd (cmd_stop os cid s) = s)"
proof (intro conjI allI impI)
  fix cid s'
  assume saves: "\<forall>f w. co_save (wl_os os) f w" and run: "cmd_start os cid s = (Inr (), s')"
  obtain c where c: "load cid s = Inr c" using run by (cases "load cid s") (auto simp: cmd_start_def)
  obtain r c' s1 where start: "start (wl_os os) c s = (r, c', s1)" by (metis prod_cases3)
  have r: "r = Inr ()" "s' = container_drop (wl_os os) c' s1" using run by (simp_all add: cmd_start_def c start)
  note st = start_disk [of "wl_os os" c s "()" c' s1] start_result [OF start]
  have "ct_state c' = Running" "ct_id c' = cid" "cy_dirs s1 (ct_id c') \<noteq> None"
    using st r start load_idle [OF c] by (auto simp: status_on_disk_def read_state_def core_def split: option.splits)
  then show "status_on_disk s' cid = Some Stopped" using drop_running saves r by blast
next
  fix a cmd cid ports s'
  assume saves: "\<forall>f w. co_save (wl_os os) f w" and run: "cmd_run os a cmd s = (Inr (cid, ports), s')"
  obtain config where config: "cli_build_config (wl_upper os) (wl_lower os) a (if cmd = [] then [''cmd.exe''] else cmd) = Inr config"
    using run by (cases "cli_build_config (wl_upper os) (wl_lower os) a (if cmd = [] then [''cmd.exe''] else cmd)") (auto simp: cmd_run_def)
  obtain c s0 where c: "create (wl_os os) config s = (Inr c, s0)"
    using run config by (cases "create (wl_os os) config s"; cases "fst (create (wl_os os) config s)") (auto simp: cmd_run_def)
  obtain r c' s1 where start: "start (wl_os os) c s0 = (r, c', s1)" by (metis prod_cases3)
  have r: "r = Inr ()" "ct_id c' = cid" "s' = container_drop (wl_os os) c' s1"
    using run config c start by (auto simp: cmd_run_def map_ok_Inr_iff)
  note st = start_disk [of "wl_os os" c s0 "()" c' s1] start_result [OF start]
  have "ct_state c' = Running" "cy_dirs s1 (ct_id c') \<noteq> None"
    using st r start by (auto simp: status_on_disk_def read_state_def core_def split: option.splits)
  then show "status_on_disk s' cid = Some Stopped" using drop_running saves r by blast
next
  fix cid cmd
  show "\<exists>e. cmd_exec os cid cmd s = (Inl e, s)"
    by (cases "load cid s") (auto simp: cmd_exec_def exec_def drop_idle drop_no_runtime dest: load_idle)
next
  fix cid
  show "\<exists>e. cmd_stats os cid s = Inl e"
    by (cases "load cid s") (auto simp: cmd_stats_def stats_def dest: load_idle)
next
  fix cid
  show "snd (cmd_stop os cid s) = s"
    by (cases "load cid s") (auto simp: cmd_stop_def stop_def drop_idle drop_no_runtime dest: load_idle)
qed

section \<open>Instances\<close>

text \<open>A host on which the calls succeed and AppContainers are not available.\<close>

definition plain_box :: "'w sbox_os" where
  "plain_box = calm_box\<lparr>bo_available := False\<rparr>"

definition plain_host :: "'k container_os \<Rightarrow> 'k container_os" where
  "plain_host os = (calm_host os)\<lparr>co_shell := (co_shell os)\<lparr>sh_box := plain_box,
     sh_kern := (sh_kern (co_shell os))\<lparr>ko_create_job := \<lambda>w. (Inr 7, w), ko_limits := \<lambda>_ _ w. (Inr (), w)\<rparr>\<rparr>,
     co_exe_dir := None, co_mkdir := \<lambda>_ _. True, co_prepare := \<lambda>_ w. (Inr (), w), co_uuid := \<lambda>w. (''0123456789'', w)\<rparr>"

definition plain_cli :: "'k cli_os \<Rightarrow> 'k cli_os" where
  "plain_cli os = os\<lparr>wl_os := plain_host (wl_os os), wl_upper := id, wl_lower := id\<rparr>"

definition created_sys :: "unit csys" where
  "created_sys = demo_sys\<lparr>cy_dirs := [''psroot-1'' \<mapsto> \<lparr>cd_config = Inr demo_config,
     cd_state = Inr \<lparr>sf_status = Created, sf_created = ''2025'', sf_pid = None, sf_silo_id = None, sf_ports = [],
       sf_aces = [], sf_cache_refs = []\<rparr>\<rparr>]\<rparr>"

lemma plain_spawn: "\<exists>s'. spawn_sandboxed plain_box cmd config job s = (Inr 3, s')"
  by (simp add: spawn_sandboxed_def spawn_with_restricted_token_def plain_box_def calm_box_def call_def
      assign_and_resume_def Let_def)

lemma plain_start: "\<exists>s'. cmd_start (plain_cli os) ''psroot-1'' created_sys = (Inr (), s')"
proof -
  let ?os = "plain_host (wl_os os)" and ?s = created_sys
  have parts: "bo_caps plain_box = detect_caps 26100 False" "co_box ?os = plain_box" "co_exe_dir ?os = None"
    "co_save ?os f w" "ko_create_job (co_kern ?os) k = (Inr 7, k)" "ko_limits (co_kern ?os) j l k = (Inr (), k)" for f w j l k
    by (simp_all add: plain_host_def plain_box_def calm_box_def calm_host_def)
  obtain c where c: "load ''psroot-1'' ?s = Inr c" and cc: "ct_state c = Created" "ct_config c = demo_config"
    "ct_runtime c = no_runtime" "ct_id c = ''psroot-1''"
    by (simp add: load_def created_sys_def)
  obtain s1 where job: "create_job ?os demo_config ?s = (Inr 7, s1)"
    by (simp add: create_job_def kcall_def on_kern_def on_box_def call_def parts Let_def split_beta)
  have dirs: "cy_dirs s1 = cy_dirs ?s" using dirs_create_job [OF job] .
  obtain s2 where spawn: "on_box (spawn_sandboxed plain_box (join_with '' '' (cc_command demo_config)) demo_config 7) s1 = (Inr 3, s2)"
    using plain_spawn [of "join_with '' '' (cc_command demo_config)" demo_config 7 "cy_box s1"] by (auto simp: on_box_def)
  have dirs2: "cy_dirs s2 = cy_dirs ?s" using dirs_simps(1) [OF spawn] dirs by simp
  have config: "cc_ports demo_config = []" "cc_volumes demo_config = []" "cc_network demo_config = NoNetwork"
    "\<not> cp_server_silos (detect_caps 26100 False)"
    by (simp_all add: demo_config_def detect_caps_def)
  have keep: "ct_config (set_runtime g c) = ct_config c" for g by (simp add: set_runtime_def)
  have started: "start_job ?os (detect_caps 26100 False) c ?s =
      (Inr (), set_runtime (rt_job_update (\<lambda>_. Some 7)) (set_runtime (rt_bind_update (\<lambda>_. None)) c), s2)"
    using job spawn
    by (simp add: cc config start_job_def setup_bind_links_def set_bind_def drop_bind_def no_runtime_def
        try_start_netstack_def try_inject_procshim_def dll_beside_def parts keep Let_def)
  have saved: "\<exists>s'. write_state ?os c' s2 = (Inr (), s')" if "ct_id c' = ''psroot-1''" for c'
    using that dirs2 by (auto simp: write_state_def parts created_sys_def Let_def split: option.split prod.split)
  let ?c = "set_runtime (rt_job_update (\<lambda>_. Some 7)) (set_runtime (rt_bind_update (\<lambda>_. None)) c)\<lparr>ct_state := Running\<rparr>"
  obtain s3 where "write_state ?os ?c s2 = (Inr (), s3)" using saved [of ?c] cc by auto
  then have run: "start ?os c ?s = (Inr (), ?c, s3)"
    by (simp add: start_def cc config publish_ports_def parts started Let_def)
  then show ?thesis by (auto simp: cmd_start_def c plain_cli_def)
qed

text \<open>A start that succeeds, with the status it leaves; then \<open>exec\<close> is refused.\<close>

lemma no_container_outlives_command_witness:
  "\<forall>os :: unit cli_os. \<exists>s' e. cmd_start (plain_cli os) ''psroot-1'' created_sys = (Inr (), s') \<and>
    status_on_disk s' ''psroot-1'' = Some Stopped \<and> cmd_exec (plain_cli os) ''psroot-1'' ''cmd.exe'' s' = (Inl e, s')"
proof
  fix os :: "unit cli_os"
  obtain s' where run: "cmd_start (plain_cli os) ''psroot-1'' created_sys = (Inr (), s')" using plain_start by blast
  have "co_save (wl_os (plain_cli os)) f w" for f w by (simp add: plain_cli_def plain_host_def calm_host_def)
  then have "status_on_disk s' ''psroot-1'' = Some Stopped"
    using no_container_outlives_command [of "plain_cli os" created_sys] run by blast
  moreover obtain e where "cmd_exec (plain_cli os) ''psroot-1'' ''cmd.exe'' s' = (Inl e, s')"
    using no_container_outlives_command [of "plain_cli os" s'] by blast
  ultimately show "\<exists>s' e. cmd_start (plain_cli os) ''psroot-1'' created_sys = (Inr (), s') \<and>
    status_on_disk s' ''psroot-1'' = Some Stopped \<and> cmd_exec (plain_cli os) ''psroot-1'' ''cmd.exe'' s' = (Inl e, s')" using run by blast
qed

text \<open>\<open>psroot shell --shell-binary sh --explain\<close>.\<close>

definition explain_args :: shell_args where
  "explain_args = \<lparr>sa_tools = [], sa_network = ''none'', sa_memory = ''1G'', sa_cpu = 10000, sa_max_procs = 100,
     sa_publish = [], sa_shell = None, sa_version = None, sa_args = [], sa_env = [], sa_explain = True,
     sa_no_stage = False, sa_binary = Some ''sh'', sa_bind = [], sa_share = [], sa_isolate = ''auto''\<rparr>"

lemma plain_remove: "ct_state c \<noteq> Running \<Longrightarrow> \<exists>s'. remove (plain_host os) c force s = (Inr (), s')"
  by (auto simp: remove_def remove_stopped_def container_drop_def stop_def Let_def plain_host_def calm_host_def on_kern_def
      on_box_def call_def split_beta split: option.split)

lemma plain_create:
  "\<exists>c s'. create (plain_host os) config s = (Inr c, s') \<and> ct_state c = Created"
proof -
  let ?os = "plain_host os"
  have prep: "on_kern (co_prepare ?os cfg) t = (Inr (), t)" for cfg t
    by (simp add: plain_host_def on_kern_def on_box_def call_def)
  have parts: "co_mkdir ?os d w" "co_save ?os f w" for d f w by (simp_all add: plain_host_def calm_host_def)
  obtain uuid t where "on_kern (co_uuid ?os) s = (uuid, t)" by fastforce
  then show ?thesis by (simp only: create_def prep parts Let_def prod.case st_bind_simps if_True if_False simp_thms) simp
qed

lemma one_giga: "parse_memory id ''1G'' = Inr 1073741824"
proof -
  have "trim ''1G'' = ''1G''" by (rule trim_plain) (simp add: plain_char_def)
  moreover have "parse_uint (2 ^ 64) ''1'' = Some 1"
    by (simp add: parse_uint_def digit_val_def Let_def)
  ultimately show ?thesis
    by (simp add: parse_memory_def memory_in_def ends_with_def)
qed

lemma plain_explain: "\<exists>s'. cmd_shell (plain_cli os) explain_args s = Some (Inr (), s')"
proof -
  have net: "parse_network_mode id ''none'' = Inr NoNetwork" by code_simp
  let ?config = "(shell_config explain_args 1073741824 NoNetwork [])\<lparr>cc_command := [''sh''], cc_volumes := [], cc_env := env_of_args []\<rparr>"
  obtain c s1 where made: "create (plain_host (wl_os os)) ?config s = (Inr c, s1)" and idle: "ct_state c = Created"
    using plain_create by blast
  have "\<exists>s'. legacy_shell (plain_cli os) explain_args ''sh'' 1073741824 NoNetwork [] s = Some (Inr (), s')"
    using made idle plain_remove [of c "wl_os os" False]
    by (simp add: legacy_shell_def remove_after_def plain_cli_def explain_args_def parse_binds_def Let_def)
  then show ?thesis
    using one_giga net by (simp add: cmd_shell_def explain_args_def plain_cli_def parse_ports_def)
qed

lemma shell_command_cleans_up_witness:
  "\<forall>os :: unit cli_os. \<exists>s' cid. cmd_shell (plain_cli os) explain_args created_sys = Some (Inr (), s') \<and> cy_dirs s' cid = None"
proof
  fix os :: "unit cli_os"
  obtain s' where run: "cmd_shell (plain_cli os) explain_args created_sys = Some (Inr (), s')" using plain_explain by blast
  from shell_command_cleans_up [OF run] show "\<exists>s' cid. cmd_shell (plain_cli os) explain_args created_sys = Some (Inr (), s') \<and> cy_dirs s' cid = None" using run by blast
qed

end
