(* ===== verification/Cli_Config.thy ===== *)
theory Cli_Config
  imports Cli_Sessions
begin

text \<open>
  The configurations that reach a container from the Windows command line are well formed, and stay
  so through every operation: a variable is set once, and no port is 0.
\<close>

definition config_wf :: "ContainerConfig \<Rightarrow> bool" where
  "config_wf config \<longleftrightarrow> distinct (map fst (cc_env config)) \<and>
     (\<forall>m \<in> set (cc_ports config). pm_host_port m \<noteq> 0 \<and> pm_container_port m \<noteq> 0)"

lemma config_wfI: "distinct (map fst (cc_env config)) \<Longrightarrow>
    (\<And>m. m \<in> set (cc_ports config) \<Longrightarrow> pm_host_port m \<noteq> 0 \<and> pm_container_port m \<noteq> 0) \<Longrightarrow> config_wf config"
  by (simp add: config_wf_def)

section \<open>Arguments\<close>

lemma distinct_hm_fold: "distinct (map fst env) \<Longrightarrow> distinct (map fst (fold (\<lambda>(k, v). hm_insert k v) kvs env))"
  by (induction kvs arbitrary: env) (auto intro: distinct_hm_insert)

lemma env_of_args_distinct: "distinct (map fst (env_of_args es))"
proof -
  have "distinct (map fst env) \<Longrightarrow> distinct (map fst (foldl (\<lambda>env (k, v). hm_insert k v env) env kvs))" for env kvs
    by (induction kvs arbitrary: env) (auto intro: distinct_hm_insert)
  from this [of "[]"] show ?thesis by (simp add: env_of_args_def)
qed

lemma parse_ports_nonzero:
  assumes "parse_ports publish = Inr ports" "m \<in> set ports"
  shows "pm_host_port m \<noteq> 0 \<and> pm_container_port m \<noteq> 0"
proof -
  from collect_results_InrD [OF assms(1) [unfolded parse_ports_def]] have
    "Inr m \<in> set (map (\<lambda>s. case parse_publish s of Inl e \<Rightarrow> Inl (OtherError e) | Inr m \<Rightarrow> Inr m) publish)"
    using assms(2) by (metis imageI list.set_map)
  then obtain s where "parse_publish s = Inr m" by (auto split: sum.splits)
  from parse_publish_ports [OF this] show ?thesis by simp
qed

lemma build_config_wf: "cli_build_config upper lower a command = Inr config \<Longrightarrow> config_wf config"
  by (auto simp: cli_build_config_def and_then_Inr_iff map_ok_Inr_iff env_of_args_distinct
      intro!: config_wfI dest: parse_ports_nonzero)

section \<open>Operations\<close>

lemma wf_cong: "cc_env c' = cc_env c \<Longrightarrow> cc_ports c' = cc_ports c \<Longrightarrow> config_wf c \<Longrightarrow> config_wf c'"
  by (simp add: config_wf_def)

lemma wf_port_env: "config_wf c \<Longrightarrow> config_wf (add_port_env c)"
proof -
  assume wf: "config_wf c"
  have "distinct (map fst env) \<Longrightarrow>
      distinct (map fst (fold (\<lambda>k e. case f k of None \<Rightarrow> e | Some v \<Rightarrow> hm_insert k v e) ks env))" for env ks and f :: "string \<Rightarrow> string option"
    by (induction ks arbitrary: env) (auto intro: distinct_hm_insert split: option.split)
  with wf show ?thesis by (simp add: config_wf_def add_port_env_def Let_def)
qed

lemma wf_add_env: "config_wf c \<Longrightarrow> config_wf (add_env kvs c)"
  by (simp add: config_wf_def add_env_def distinct_hm_fold)

lemma allocate_ports_kept:
  "allocate_ports os ms w = ((r, ms'), w') \<Longrightarrow>
     map (\<lambda>m. (pm_host_port m, pm_container_port m)) ms' = map (\<lambda>m. (pm_host_port m, pm_container_port m)) ms"
  by (induction ms arbitrary: r ms' w w') (auto split: option.splits prod.splits sum.splits)

lemma wf_ports_kept:
  assumes "map (\<lambda>m. (pm_host_port m, pm_container_port m)) ps = map (\<lambda>m. (pm_host_port m, pm_container_port m)) (cc_ports c)"
    and "config_wf c"
  shows "config_wf (c\<lparr>cc_ports := ps\<rparr>)"
proof (rule config_wfI)
  show "distinct (map fst (cc_env (c\<lparr>cc_ports := ps\<rparr>)))" using assms(2) by (simp add: config_wf_def)
next
  fix m assume "m \<in> set (cc_ports (c\<lparr>cc_ports := ps\<rparr>))"
  then have "(pm_host_port m, pm_container_port m) \<in> set (map (\<lambda>m. (pm_host_port m, pm_container_port m)) ps)" by auto
  then have "(pm_host_port m, pm_container_port m) \<in> set (map (\<lambda>m. (pm_host_port m, pm_container_port m)) (cc_ports c))"
    by (simp only: assms(1))
  then show "pm_host_port m \<noteq> 0 \<and> pm_container_port m \<noteq> 0" using assms(2) by (auto simp: config_wf_def)
qed

abbreviation ctr_wf :: "Container \<Rightarrow> bool" where
  "ctr_wf c \<equiv> config_wf (ct_config c)"

lemma set_runtime_config [simp]: "ct_config (set_runtime f c) = ct_config c"
  by (simp add: set_runtime_def)

lemma set_config_config [simp]: "ct_config (set_config f c) = f (ct_config c)"
  by (simp add: set_config_def)

lemma wf_start_mapper: "start_mapper os c s = (r, c', s') \<Longrightarrow> ctr_wf c \<Longrightarrow> ctr_wf c'"
  by (auto simp: start_mapper_def Let_def wf_port_env split: prod.splits sum.splits)

lemma wf_publish: "publish_ports os c s = (r, c', s') \<Longrightarrow> ctr_wf c \<Longrightarrow> ctr_wf c'"
proof -
  assume run: "publish_ports os c s = (r, c', s')" and wf: "ctr_wf c"
  obtain r1 ports s1 where alloc: "on_kern (allocate_ports os (cc_ports (ct_config c))) s = ((r1, ports), s1)" by (metis surj_pair)
  then obtain w' where "allocate_ports os (cc_ports (ct_config c)) (kern_of s) = ((r1, ports), w')"
    by (auto simp: on_kern_def on_box_def call_def kern_of_def Let_def split: prod.splits)
  from wf_ports_kept [OF allocate_ports_kept [OF this] wf]
  have "ctr_wf (set_config (cc_ports_update (\<lambda>_. ports)) c)" by simp
  from wf_start_mapper [OF _ this] this show ?thesis
    using run wf alloc by (auto simp: publish_ports_def Let_def split: if_splits sum.splits)
qed

lemma config_inject: "try_inject_netstack os pid ns c s = (c', s') \<Longrightarrow> ct_config c' = ct_config c"
  by (auto simp: try_inject_netstack_def Let_def split: prod.splits option.splits sum.splits)

lemma config_set_bind: "set_bind os bf c s = (c', s') \<Longrightarrow> ct_config c' = ct_config c"
  by (auto simp: set_bind_def)

lemma wf_start_silo: "start_silo os caps c s = (r, c', s') \<Longrightarrow> ctr_wf c \<Longrightarrow> ctr_wf c'"
  by (auto simp: start_silo_def Let_def dest!: config_set_bind split: prod.splits sum.splits)

lemma wf_start_job: "start_job os caps c s = (r, c', s') \<Longrightarrow> ctr_wf c \<Longrightarrow> ctr_wf c'"
  by (auto simp: start_job_def Let_def wf_add_env dest!: config_set_bind config_inject split: prod.splits sum.splits option.splits)

lemma wf_start: "start os c s = (r, c', s') \<Longrightarrow> ctr_wf c \<Longrightarrow> ctr_wf c'"
  by (auto simp: start_def Let_def dest: wf_publish wf_start_silo wf_start_job split: prod.splits sum.splits if_splits)

lemma config_exec: "exec os cmd c s = (r, c', s') \<Longrightarrow> ct_config c' = ct_config c"
  by (auto simp: exec_def Let_def split: prod.splits option.splits if_splits)

lemma config_stop: "stop os c s = (r, c', s') \<Longrightarrow> ct_config c' = ct_config c"
  by (auto simp: stop_def Let_def split: prod.splits option.splits if_splits)

lemma wf_setup_ports: "setup_port_mappings_for_shell os c s = (r, c', s') \<Longrightarrow> ctr_wf c \<Longrightarrow> ctr_wf c'"
proof -
  assume run: "setup_port_mappings_for_shell os c s = (r, c', s')" and wf: "ctr_wf c"
  have "map (\<lambda>m. (pm_host_port m, pm_container_port m)) (map own_port ps) = map (\<lambda>m. (pm_host_port m, pm_container_port m)) ps" for ps
    by (simp add: own_port_def split: option.split)
  from wf_ports_kept [OF this [of "cc_ports (ct_config c)"] wf]
  have "ctr_wf (set_config (cc_ports_update (map own_port)) c)" by (simp add: config_wf_def)
  from wf_start_mapper [OF _ this] show ?thesis using run wf by (auto simp: setup_port_mappings_for_shell_def split: if_splits)
qed

section \<open>The invariant\<close>

text \<open>The containers a command line makes, and what the operations turn them into.\<close>

inductive cli_container :: "'k container_os \<Rightarrow> Container \<Rightarrow> bool" for os where
  made: "cli_build_config upper lower a cmd = Inr config \<Longrightarrow> create os config s = (Inr c, s') \<Longrightarrow> cli_container os c"
| started: "cli_container os c \<Longrightarrow> start os c s = (r, c', s') \<Longrightarrow> cli_container os c'"
| execed: "cli_container os c \<Longrightarrow> exec os cmd c s = (r, c', s') \<Longrightarrow> cli_container os c'"
| mapped: "cli_container os c \<Longrightarrow> setup_port_mappings_for_shell os c s = (r, c', s') \<Longrightarrow> cli_container os c'"
| unmapped: "cli_container os c \<Longrightarrow> teardown_port_mappings os c s = (c', s') \<Longrightarrow> cli_container os c'"
| stopped: "cli_container os c \<Longrightarrow> stop os c s = (r, c', s') \<Longrightarrow> cli_container os c'"

lemma create_config:
  "create os config s = (Inr c, s') \<Longrightarrow> cc_env (ct_config c) = cc_env config \<and> cc_ports (ct_config c) = cc_ports config"
  by (auto simp: create_def Let_def st_bind_def split: prod.splits sum.splits if_splits)


text \<open>\<open>psroot create -p 8080:3000 -e A=1 -e A=2\<close>.\<close>

definition demo_create_args :: create_args where
  "demo_create_args = \<lparr>ca_name = None, ca_rootfs = [], ca_memory = ''1G'', ca_cpu = 10000, ca_max_procs = 100, ca_silo = False,
     ca_volumes = [], ca_envs = [''A=1'', ''A=2''], ca_workdir = ''C:'', ca_tools = [], ca_network = ''none'',
     ca_publish = [''8080:3000'']\<rparr>"

lemma demo_build: "\<exists>config. cli_build_config id id demo_create_args [''cmd.exe''] = Inr config \<and>
    cc_env config = [(''A'', ''2'')] \<and> map pm_host_port (cc_ports config) = [8080]"
proof -
  have net: "parse_network_mode id ''none'' = Inr NoNetwork" by code_simp
  have ports: "parse_publish ''8080:3000'' = Inr (new_mapping ''127.0.0.1'' 8080 3000)"
  proof -
    have "split_on (CHR '':'') ''8080:3000'' = [''8080'', ''3000'']" by simp
    moreover have "parse_u16 ''8080'' = Some 8080" "parse_u16 ''3000'' = Some 3000"
      using parse_u16_show [of 8080] parse_u16_show [of 3000] by (simp_all add: show_nat.simps texts)
    ultimately show ?thesis by (simp add: parse_publish_def parse_port_def)
  qed
  have env: "env_of_args [''A=1'', ''A=2''] = [(''A'', ''2'')]" by (simp add: env_of_args_def)
  show ?thesis
    by (simp add: cli_build_config_def demo_create_args_def one_giga net parse_ports_def ports env new_mapping_def List.map_filter_simps)
qed


end
