(* ===== verification/Cli_Unix.thy ===== *)
theory Cli_Unix
  imports Cli_Text Unix_Lifecycle Unix_Profile
begin

text \<open>
  The commands of \<open>psroot\<close> on Linux and macOS, \<open>crates/psroot-cli/src/main_unix.rs\<close>, over the
  containers of \<open>crates/psroot-unix\<close>. A command yields its exit code; what it prints is left out,
  except for the id that \<open>create\<close> prints. On macOS this is the backend \<open>PSROOT_BACKEND=native\<close> selects.
\<close>

section \<open>Arguments\<close>

definition parse_isolation :: "string \<Rightarrow> Isolation" where
  "parse_isolation s = (if s = ''minimal'' then IsoMinimal else if s = ''full'' then IsoFull else IsoStandard)"

definition parse_network :: "string \<Rightarrow> NetworkAccess" where
  "parse_network s = (if s = ''none'' then NoNetwork else if s = ''full'' then Full
     else if s = ''netstack'' then Netstack else Outbound)"

record resource_args =
  ra_memory :: string
  ra_cpu :: u32
  ra_max_procs :: u32
  ra_network :: string
  ra_isolate :: string
  ra_volume :: "string list"
  ra_env :: "string list"
  ra_publish :: "string list"
  ra_name :: "string option"
  ra_rootfs :: "string option"
  ra_publish_addr :: string

definition unix_volume :: "string \<Rightarrow> UError + VolumeMount" where
  "unix_volume v = (case splitn 3 (CHR '':'') v of
       host # target # rest \<Rightarrow> Inr \<lparr>vm_host_path = host, vm_container_path = target, vm_read_only = (rest = [''ro''])\<rparr>
     | _ \<Rightarrow> Inl (UOther (''bad volume: '' @ v)))"

text \<open>A port that does not parse becomes 0.\<close>

definition port_or_zero :: "string \<Rightarrow> u16" where
  "port_or_zero s = (case parse_u16 s of Some p \<Rightarrow> p | None \<Rightarrow> 0)"

definition unix_port :: "string \<Rightarrow> string \<Rightarrow> PortMapping" where
  "unix_port addr p = (case split_first (CHR '':'') p of
       Some (host, ctr) \<Rightarrow> new_mapping addr (port_or_zero host) (port_or_zero ctr)
     | None \<Rightarrow> new_mapping addr (port_or_zero p) (port_or_zero p))"

definition unix_build_config :: "resource_args \<Rightarrow> string list \<Rightarrow> UError + ContainerConfig" where
  "unix_build_config a command =
     and_then (parse_size (ra_memory a)) (\<lambda>memory.
     map_ok (\<lambda>volumes.
       \<lparr>cc_name = ra_name a, cc_rootfs_path = (case ra_rootfs a of Some r \<Rightarrow> r | None \<Rightarrow> []), cc_command = command,
        cc_env = env_of_args (ra_env a),
        cc_resources = \<lparr>rl_memory = memory, rl_cpu_rate = ra_cpu a, rl_max_processes = ra_max_procs a,
          rl_affinity = 0, rl_priority_class = 0\<rparr>,
        cc_volumes = volumes, cc_hostname = Some ''psroot'', cc_working_directory = ''/home/container'', cc_silo = False,
        cc_tools = [], cc_shares = [], cc_security_profile = DefaultProfile, cc_network = parse_network (ra_network a),
        cc_ports = map (unix_port (ra_publish_addr a)) (ra_publish a)\<rparr>)
       (collect_results (map unix_volume (ra_volume a))))"

text \<open>Two ports that are not numbers are published as port 0 of the host, without a word.\<close>

lemma unparsed_port_is_zero: "unix_port ''127.0.0.1'' ''web:http'' = new_mapping ''127.0.0.1'' 0 0"
  by (simp add: unix_port_def port_or_zero_def parse_u16_def parse_uint_def digit_val_def Let_def)

section \<open>Commands\<close>

definition code_or :: "int \<Rightarrow> UError + int \<Rightarrow> int" where
  "code_or d r = (case r of Inl _ \<Rightarrow> d | Inr n \<Rightarrow> n)"

definition done_code :: "UError + unit \<Rightarrow> int" where
  "done_code r = (case r of Inl _ \<Rightarrow> 1 | Inr _ \<Rightarrow> 0)"

text \<open>The runner of the platform for an isolation level.\<close>

type_synonym 'w iso_runner = "Isolation \<Rightarrow> 'w runner"

definition made_container :: "'w unix_os \<Rightarrow> resource_args \<Rightarrow> string list \<Rightarrow> 'w usys \<Rightarrow> (int + ucontainer) \<times> 'w usys" where
  "made_container os a command s = (case unix_build_config a command of
       Inl e \<Rightarrow> (Inl 2, s)
     | Inr config \<Rightarrow> (case unix_create os config (parse_isolation (ra_isolate a)) s of
           (Inl e, s) \<Rightarrow> (Inl 1, s) | (Inr c, s) \<Rightarrow> (Inr c, s)))"

definition ucmd_create :: "'w unix_os \<Rightarrow> resource_args \<Rightarrow> string option \<Rightarrow> 'w usys \<Rightarrow> (int \<times> string option) \<times> 'w usys" where
  "ucmd_create os a command s =
     (case made_container os a [case command of Some c \<Rightarrow> c | None \<Rightarrow> ''/bin/sh''] s of
        (Inl code, s) \<Rightarrow> ((code, None), s)
      | (Inr c, s) \<Rightarrow> ((0, Some (cr_id (uc_record c))), s))"

definition ucmd_run :: "'w unix_os \<Rightarrow> target \<Rightarrow> 'w iso_runner \<Rightarrow> bool \<Rightarrow> resource_args \<Rightarrow> string list \<Rightarrow> 'w usys \<Rightarrow> int \<times> 'w usys" where
  "ucmd_run os target runner tty a command s =
     (let cmd = (if command = [] then [''/bin/sh'', ''-c'', ''echo psroot ok''] else command) in
      case made_container os a cmd s of
        (Inl code, s) \<Rightarrow> (code, s)
      | (Inr c, s) \<Rightarrow>
        (let (r, c, s) = unix_run os (runner (uc_isolation c)) cmd tty c s;
             s = snd (unix_remove os target c s)
         in (code_or 1 r, s)))"

definition ucmd_shell :: "'w unix_os \<Rightarrow> target \<Rightarrow> 'w iso_runner \<Rightarrow> resource_args \<Rightarrow> 'w usys \<Rightarrow> int \<times> 'w usys" where
  "ucmd_shell os target runner a s = (case made_container os a (default_shell_command os) s of
       (Inl code, s) \<Rightarrow> (code, s)
     | (Inr c, s) \<Rightarrow>
       (let (r, c, s) = unix_shell os (runner (uc_isolation c)) c s; s = snd (unix_remove os target c s)
        in (code_or 1 r, s)))"

definition ucmd_start :: "'w unix_os \<Rightarrow> 'w iso_runner \<Rightarrow> bool \<Rightarrow> string \<Rightarrow> 'w usys \<Rightarrow> int \<times> 'w usys" where
  "ucmd_start os runner tty key s = (case unix_load os key s of
       Inl e \<Rightarrow> (1, s)
     | Inr c \<Rightarrow>
       (let (r, c, s) = unix_run os (runner (uc_isolation c)) (cc_command (cr_config (uc_record c))) tty c s
        in (code_or 1 r, s)))"

definition ucmd_exec :: "'w unix_os \<Rightarrow> 'w iso_runner \<Rightarrow> string \<Rightarrow> string list \<Rightarrow> 'w usys \<Rightarrow> int \<times> 'w usys" where
  "ucmd_exec os runner key command s = (case unix_load os key s of
       Inl e \<Rightarrow> (1, s)
     | Inr c \<Rightarrow> if command = [] then (2, s)
       else let (r, s) = unix_exec (runner (uc_isolation c)) command c s in (code_or 1 r, s))"

definition ucmd_stop :: "'w unix_os \<Rightarrow> string \<Rightarrow> 'w usys \<Rightarrow> int \<times> 'w usys" where
  "ucmd_stop os key s = (case unix_load os key s of
       Inl e \<Rightarrow> (1, s) | Inr c \<Rightarrow> (let (r, c, s) = unix_stop os c s in (done_code r, s)))"

definition ucmd_rm :: "'w unix_os \<Rightarrow> target \<Rightarrow> string \<Rightarrow> 'w usys \<Rightarrow> int \<times> 'w usys" where
  "ucmd_rm os target key s = (case unix_load os key s of
       Inl e \<Rightarrow> (1, s) | Inr c \<Rightarrow> (let (r, s) = unix_remove os target c s in (done_code r, s)))"

text \<open>The rows of \<open>ls\<close>; a list that cannot be read is empty.\<close>

definition ucmd_ls :: "'w unix_os \<Rightarrow> 'w usys \<Rightarrow> (string \<times> string \<times> string \<times> string) list" where
  "ucmd_ls os s = map (\<lambda>i. (in_id i, (case in_name i of Some n \<Rightarrow> n | None \<Rightarrow> []), show_state (in_state i),
       join_with '' '' (in_command i)))
     (case record_list os s of Inl e \<Rightarrow> [] | Inr infos \<Rightarrow> infos)"

definition ucmd_stats :: "'w unix_os \<Rightarrow> string \<Rightarrow> 'w usys \<Rightarrow> int \<times> ustats option" where
  "ucmd_stats os key s = (case unix_load os key s of Inl e \<Rightarrow> (1, None) | Inr c \<Rightarrow> (0, Some (unix_stats c)))"

text \<open>\<open>info\<close>: the capabilities, and how many containers are known.\<close>

definition ucmd_info :: "'w unix_os \<Rightarrow> UCapabilities \<Rightarrow> 'w usys \<Rightarrow> UCapabilities \<times> nat" where
  "ucmd_info os caps s = (caps, length (case record_list os s of Inl e \<Rightarrow> [] | Inr infos \<Rightarrow> infos))"

datatype unix_command = UInfo | UCreate resource_args "string option" | URun resource_args "string list"
  | UShell resource_args | UStart string | UExec string "string list" | UStop string | URm string | ULs | UStats string

text \<open>\<open>main\<close> without \<open>test\<close>.\<close>

fun main_unix :: "'w unix_os \<Rightarrow> target \<Rightarrow> 'w iso_runner \<Rightarrow> bool \<Rightarrow> unix_command \<Rightarrow> 'w usys \<Rightarrow> int \<times> 'w usys" where
  "main_unix os target runner tty UInfo s = (0, s)"
| "main_unix os target runner tty (UCreate a command) s = (let ((code, _), s) = ucmd_create os a command s in (code, s))"
| "main_unix os target runner tty (URun a command) s = ucmd_run os target runner tty a command s"
| "main_unix os target runner tty (UShell a) s = ucmd_shell os target runner a s"
| "main_unix os target runner tty (UStart key) s = ucmd_start os runner tty key s"
| "main_unix os target runner tty (UExec key command) s = ucmd_exec os runner key command s"
| "main_unix os target runner tty (UStop key) s = ucmd_stop os key s"
| "main_unix os target runner tty (URm key) s = ucmd_rm os target key s"
| "main_unix os target runner tty ULs s = (0, s)"
| "main_unix os target runner tty (UStats key) s = (fst (ucmd_stats os key s), s)"

section \<open>A command on Linux and the address pool\<close>

lemma ucall_net: "ucall f s = (r, t) \<Longrightarrow> ns_leases (us_net t) = ns_leases (us_net s)"
  by (rule ucall_leases)

lemma save_leases_same: "record_save os r s = (x, t) \<Longrightarrow> us_net t = us_net s"
  using record_save_net [of os r s] by simp

lemma create_leases: "unix_create os config isol s = (r, t) \<Longrightarrow> ns_leases (us_net t) = ns_leases (us_net s) \<and>
    (\<forall>c. r = Inr c \<longrightarrow> cr_container_ip (uc_record c) = None)"
  by (auto simp: unix_create_def st_bind_def Let_def dest!: ucall_net save_leases_same split: prod.splits sum.splits)

lemma run_leases:
  assumes saves: "\<And>w. nt_lease_error (uo_net os) w = None"
    and run: "unix_run os (linux_run os) cmd tty c s = (r, c', t)"
  shows "(uleased t = uleased s \<or> (\<exists>e h. r = Inl e \<and> in_pool h \<and> h \<notin> uleased s \<and> uleased t = insert h (uleased s))) \<and>
    cr_container_ip (uc_record c') = cr_container_ip (uc_record c)"
proof -
  let ?r = "running_record cmd (uo_now os (uworld s)) (uc_record c)"
  obtain x s1 where save: "record_save os ?r s = (x, s1)" by fastforce
  obtain q s2 where go: "linux_run os ?r tty s1 = (q, s2)" by fastforce
  let ?r2 = "stopped_record (uo_now os (uworld s2)) q ?r"
  obtain y s3 where save2: "record_save os ?r2 s2 = (y, s3)" by fastforce
  have same: "us_net s1 = us_net s" "us_net s3 = us_net s2" using save_leases_same save save2 by blast+
  have ip: "cr_container_ip ?r = cr_container_ip (uc_record c)" by (simp add: running_record_def Let_def)
  show ?thesis
  proof (cases x)
    case (Inl e)
    then show ?thesis using run save same ip by (auto simp: unix_run_def set_record_def)
  next
    case (Inr u)
    have out: "t = s3" "r = (case y of Inl e \<Rightarrow> Inl e | Inr _ \<Rightarrow> q)" "c' = set_record ?r2 c"
      using run Inr save go save2 by (auto simp: unix_run_def Let_def)
    note rel = linux_run_releases [OF saves go]
    have "uleased t = uleased s \<or> (\<exists>e h. r = Inl e \<and> in_pool h \<and> h \<notin> uleased s \<and> uleased t = insert h (uleased s))"
      using rel by (cases q; cases y) (auto simp: out same)
    then show ?thesis using ip by (simp add: out set_record_def)
  qed
qed

lemma remove_leases:
  "cr_container_ip (uc_record c) = None \<Longrightarrow> ns_leases (us_net (snd (unix_remove os target c s))) = ns_leases (us_net s)"
  by (auto simp: unix_remove_def remove_net_def Let_def dest!: ucall_net split: prod.splits)


definition bridged_args :: resource_args where
  "bridged_args = \<lparr>ra_memory = ''1G'', ra_cpu = 10000, ra_max_procs = 100, ra_network = ''full'', ra_isolate = ''full'',
     ra_volume = [], ra_env = [], ra_publish = [], ra_name = None, ra_rootfs = None, ra_publish_addr = ''127.0.0.1''\<rparr>"

lemma bridged_config: "\<exists>config. unix_build_config bridged_args [''ls''] = Inr config \<and> cc_network config = Full \<and>
    cc_ports config = [] \<and> cc_rootfs_path config = [] \<and> cc_command config = [''ls'']"
proof -
  have "trim ''1G'' = ''1G''" "trim ''1'' = ''1''" by (rule trim_plain, simp add: plain_char_def)+
  then have "\<exists>m. parse_size ''1G'' = Inr m"
    by (simp add: parse_size_def size_unit_def parse_uint_def digit_val_def Let_def)
  then show ?thesis by (auto simp: unix_build_config_def bridged_args_def parse_network_def)
qed

lemma bad_size: "unix_build_config (bridged_args\<lparr>ra_memory := ''lots''\<rparr>) command = Inl (UInvalid ''bad size: lots'')"
proof -
  have "trim ''lots'' = ''lots''" by (rule trim_plain) (simp add: plain_char_def)
  then show ?thesis
    by (simp add: unix_build_config_def bridged_args_def parse_size_def size_unit_def parse_uint_def digit_val_def Let_def)
qed

text \<open>On the machine where every tool works a run returns the program's code, whatever the record.\<close>

lemma demo_linux_run: "\<exists>t. linux_run (demo_unix False) r False s = (Inr 3, t)"
proof -
  obtain bnet s1 where net: "try_prepare_bridged_net (demo_unix False) r (udo (setup_cgroup (demo_unix False) r) s) = (bnet, s1)"
    by fastforce
  have "fst (linux_run (demo_unix False) r False s) = Inr 3"
    by (simp add: linux_run_def linux_spawn_def net demo_unix_def [of False, THEN arg_cong [where f = "uo_exists"]]
        demo_unix_def [of False, THEN arg_cong [where f = "uo_pipes"]] demo_unix_def [of False, THEN arg_cong [where f = "uo_fork"]]
        demo_unix_def [of False, THEN arg_cong [where f = "uo_wait"]] ucall_def on_net_def exit_code_of_def Let_def)
  then show ?thesis by (metis prod.collapse)
qed

lemma demo_populate: "populate (demo_unix b) rootfs w = (Inr (), w)"
  by (simp add: populate_def demo_unix_def self_contained_def Let_def)

lemma demo_create: "\<exists>c t. unix_create (demo_unix b) config isol s = (Inr c, t)"
proof -
  have calls: "ucall (uo_mkdir (demo_unix b) d) u = (Inr (), u)" "ucall (populate (demo_unix b) d) u = (Inr (), u)" for d u
    by (simp_all add: ucall_def on_net_def demo_populate) (simp add: demo_unix_def)
  obtain cid s1 where "ucall (uo_uuid (demo_unix b)) s = (cid, s1)" by fastforce
  moreover have "unix_container_dir (demo_unix b) cid s1 = Inr (path_join ''/s'' cid)"
    by (simp add: unix_container_dir_def demo_unix_def)
  ultimately show ?thesis by (simp add: unix_create_def calls save_works [OF demo_disk] Let_def)
qed

lemma demo_command:
  "\<exists>t. ucmd_run (demo_unix False) Linux (\<lambda>_. linux_run (demo_unix False)) False bridged_args [''ls''] s = (3, t)"
proof -
  obtain config where "unix_build_config bridged_args [''ls''] = Inr config" using bridged_config by blast
  moreover obtain c s1 where "unix_create (demo_unix False) config (parse_isolation (ra_isolate bridged_args)) s = (Inr c, s1)"
    using demo_create by blast
  ultimately have made: "made_container (demo_unix False) bridged_args [''ls''] s = (Inr c, s1)"
    by (simp add: made_container_def)
  obtain c' s2 where "unix_run (demo_unix False) (linux_run (demo_unix False)) [''ls''] False c s1 = (Inr 3, c', s2)"
  proof -
    let ?r = "running_record [''ls''] (uo_now (demo_unix False) (uworld s1)) (uc_record c)"
    let ?s = "s1\<lparr>us_records := (us_records s1)(cr_id ?r \<mapsto> Inr ?r)\<rparr>"
    obtain u where "linux_run (demo_unix False) ?r False ?s = (Inr 3, u)" using demo_linux_run by blast
    then show ?thesis using that by (simp add: unix_run_def Let_def save_works [OF demo_disk])
  qed
  with made show ?thesis by (simp add: ucmd_run_def code_or_def Let_def)
qed


end
