(* ===== verification/Cli_Self_Test.thy ===== *)
theory Cli_Self_Test
  imports Cli_Unix
begin

text \<open>
  \<open>psroot test\<close>: the selection and the verdict on Windows (\<open>cmd_test\<close> of
  \<open>crates/psroot-cli/src/main_windows.rs\<close>, over its sections) and the smoke tests on Linux and macOS
  (\<open>main_unix.rs\<close>), over the containers they create. A test on Unix is its name and whether it
  passed; the messages are left out. Waiting for a terminal, a page or an address is a parameter.
\<close>

section \<open>The sections on Windows\<close>

record counts =
  ct_passed :: u32
  ct_failed :: u32
  ct_skipped :: u32

text \<open>A section counts what it tests and ends with a result; which ones there are, and what they need.\<close>

datatype needs = Nothing_needed | Silos | Bind_filter

definition test_sections :: "(string \<times> needs) list" where
  "test_sections = [(''job'', Nothing_needed), (''process'', Nothing_needed), (''fs'', Nothing_needed),
     (''lifecycle'', Nothing_needed), (''exec'', Nothing_needed), (''tools'', Nothing_needed), (''output'', Nothing_needed),
     (''env'', Nothing_needed), (''stress'', Nothing_needed), (''sandbox'', Nothing_needed), (''silo'', Silos),
     (''bindlink'', Bind_filter), (''network'', Nothing_needed)]"

type_synonym 'w section_test = "string \<Rightarrow> u32 \<times> u32 \<Rightarrow> 'w \<Rightarrow> ((PsrootError + unit) \<times> u32 \<times> u32) \<times> 'w"

definition met :: "bool \<Rightarrow> bool \<Rightarrow> needs \<Rightarrow> bool" where
  "met silos bind n = (case n of Nothing_needed \<Rightarrow> True | Silos \<Rightarrow> silos | Bind_filter \<Rightarrow> bind)"

definition test_section :: "'w section_test \<Rightarrow> bool \<Rightarrow> bool \<Rightarrow> string \<Rightarrow> string \<times> needs \<Rightarrow> counts \<times> 'w \<Rightarrow> counts \<times> 'w" where
  "test_section run silos bind category sec cw =
     (let (name, n) = sec; (c, w) = cw in
      if category \<noteq> ''all'' \<and> category \<noteq> name then (c, w)
      else if \<not> met silos bind n then (c\<lparr>ct_skipped := ct_skipped c + 1\<rparr>, w)
      else let ((r, p, f), w) = run name (ct_passed c, ct_failed c) w in
        (c\<lparr>ct_passed := p, ct_failed := (case r of Inr _ \<Rightarrow> f | Inl _ \<Rightarrow> f + 1)\<rparr>, w))"

definition zero_counts :: counts where
  "zero_counts = \<lparr>ct_passed = 0, ct_failed = 0, ct_skipped = 0\<rparr>"

definition win_tests :: "'w section_test \<Rightarrow> bool \<Rightarrow> bool \<Rightarrow> string \<Rightarrow> 'w \<Rightarrow> counts \<times> 'w" where
  "win_tests run silos bind category w = fold (test_section run silos bind category) test_sections (zero_counts, w)"

text \<open>The exit code.\<close>

definition win_cmd_test :: "'w section_test \<Rightarrow> bool \<Rightarrow> bool \<Rightarrow> string \<Rightarrow> 'w \<Rightarrow> nat \<times> 'w" where
  "win_cmd_test run silos bind category w =
     (let (c, w) = win_tests run silos bind category w in (if ct_failed c > 0 then 1 else 0, w))"

text \<open>A category that does not exist runs nothing and is reported as passed.\<close>

lemma unknown_category_passes:
  assumes "category \<noteq> ''all''" and "category \<notin> set (map fst test_sections)"
  shows "win_cmd_test run silos bind category w = (0, w)"
  using assms by (simp add: win_cmd_test_def win_tests_def test_sections_def test_section_def zero_counts_def)

text \<open>One section alone: its own failures, and one more when it ends with an error.\<close>

lemma single_section_verdict:
  assumes "run ''job'' (0, 0) w = ((r, p, f), w')"
  shows "win_cmd_test run silos bind ''job'' w =
    (if (case r of Inr _ \<Rightarrow> f | Inl _ \<Rightarrow> f + 1) > 0 then 1 else 0, w')"
  using assms by (simp add: win_cmd_test_def win_tests_def test_sections_def test_section_def zero_counts_def met_def)

section \<open>A command in a container of its own\<close>

record 'w test_os =
  te_unix :: "'w unix_os"
  te_target :: target
  te_runner :: "'w iso_runner"
  te_read :: "string \<Rightarrow> 'w \<Rightarrow> string option"
  te_text :: "UError \<Rightarrow> string"
  te_home :: "string option"
  te_exe :: "string option"
  te_tty :: "string list \<Rightarrow> 'w \<Rightarrow> (string + wait_status option list \<times> string) \<times> 'w"
    \<comment> \<open>a command in a terminal of its own: what each look at the child says until the deadline, and the output\<close>
  te_free_port :: "'w \<Rightarrow> u16 option \<times> 'w"
  te_forward :: "u16 \<Rightarrow> u16 \<Rightarrow> 'w \<Rightarrow> bool \<times> 'w"
  te_pages :: "u16 \<Rightarrow> 'w usys \<Rightarrow> string list \<times> 'w usys"   \<comment> \<open>what \<open>curl\<close> got until the deadline\<close>
  te_await_ip :: "string \<Rightarrow> 'w usys \<Rightarrow> string option \<times> 'w usys"
  te_ping :: "string \<Rightarrow> 'w \<Rightarrow> bool \<times> 'w"
  te_kill :: "int \<Rightarrow> 'w \<Rightarrow> 'w"

definition quote_mark :: char where "quote_mark = CHR 0x27"
definition bslash_mark :: char where "bslash_mark = CHR 0x5C"

text \<open>The script: every word in single quotes, a quote in it as quote, backslash, quote, quote.\<close>

definition sh_escape :: "string \<Rightarrow> string" where
  "sh_escape a = concat (map (\<lambda>c. if c = quote_mark then [quote_mark, bslash_mark, quote_mark, quote_mark] else [c]) a)"

definition sh_quote :: "string \<Rightarrow> string" where
  "sh_quote a = quote_mark # sh_escape a @ [quote_mark]"

definition exec_line :: "string list \<Rightarrow> string" where
  "exec_line cmd = ''exec '' @ concat (map (\<lambda>a. sh_quote a @ '' '') cmd) @ [CHR 0x0A]"

definition test_script :: "string list \<Rightarrow> string" where
  "test_script cmd = ''#!/bin/sh'' @ CHR 0x0A # exec_line cmd"

definition simple_config :: "string list \<Rightarrow> NetworkAccess \<Rightarrow> ContainerConfig" where
  "simple_config cmd net = \<lparr>cc_name = None, cc_rootfs_path = [], cc_command = cmd, cc_env = [],
     cc_resources = default_limits, cc_volumes = [], cc_hostname = Some ''psroot'',
     cc_working_directory = ''/home/container'', cc_silo = False, cc_tools = [], cc_shares = [],
     cc_security_profile = DefaultProfile, cc_network = net, cc_ports = []\<rparr>"

definition host_home_of :: "ucontainer \<Rightarrow> string" where
  "host_home_of c = path_join (path_join (path_join (cr_dir (uc_record c)) ''rootfs'') ''home'') ''container''"

definition seen_inside :: "target \<Rightarrow> string \<Rightarrow> string \<Rightarrow> string" where
  "seen_inside target home name = (if target = Linux then ''/home/container/'' @ name else path_join home name)"

definition read_or_empty :: "'w test_os \<Rightarrow> string \<Rightarrow> 'w usys \<Rightarrow> string" where
  "read_or_empty te p s = (case te_read te p (uworld s) of None \<Rightarrow> [] | Some t \<Rightarrow> t)"

definition run_wrapped :: "'w test_os \<Rightarrow> string list \<Rightarrow> string \<Rightarrow> ucontainer \<Rightarrow> 'w usys \<Rightarrow> (int \<times> string) \<times> 'w usys" where
  "run_wrapped te wrapped out c s =
     (let (r, c, s) = unix_run (te_unix te) (te_runner te (uc_isolation c)) wrapped False c s;
          text = read_or_empty te out s;
          s = snd (unix_remove (te_unix te) (te_target te) c s)
      in ((code_or (-1) r, text), s))"

definition run_simple :: "'w test_os \<Rightarrow> string list \<Rightarrow> NetworkAccess \<Rightarrow> 'w usys \<Rightarrow> (int \<times> string) \<times> 'w usys" where
  "run_simple te cmd net s = (case unix_create (te_unix te) (simple_config cmd net) IsoStandard s of
       (Inl e, s) \<Rightarrow> ((-1, te_text te e), s)
     | (Inr c, s) \<Rightarrow>
       (let home = host_home_of c;
            s = snd (ucall (uo_mkdir (te_unix te) home) s);
            inside_out = seen_inside (te_target te) home ''psroot-test-out.txt'';
            inside_script = seen_inside (te_target te) home ''psroot-test-cmd.sh'';
            s = snd (ucall (uo_write (te_unix te) (path_join home ''psroot-test-cmd.sh'') (test_script cmd)) s)
        in run_wrapped te [''/bin/sh'', ''-c'', ''/bin/sh '' @ [quote_mark] @ inside_script @ [quote_mark] @ '' > '' @
             [quote_mark] @ inside_out @ [quote_mark] @ '' 2>&1''] (path_join home ''psroot-test-out.txt'') c s))"

section \<open>The tests\<close>

definition in_shell :: "string \<Rightarrow> string list" where
  "in_shell script = [''/bin/sh'', ''-c'', script]"

definition test_echo :: "'w test_os \<Rightarrow> 'w usys \<Rightarrow> (string \<times> bool) \<times> 'w usys" where
  "test_echo te s = (let ((code, out), s) = run_simple te [''echo'', ''psroot-echo-ok''] NoNetwork s in
     ((''echo'', code = 0 \<and> contains ''psroot-echo-ok'' out), s))"

text \<open>A host without \<open>HOME\<close> passes.\<close>

definition test_host_home_isolated :: "'w test_os \<Rightarrow> 'w usys \<Rightarrow> (string \<times> bool) \<times> 'w usys" where
  "test_host_home_isolated te s = (case te_home te of
       Some (c # cs) \<Rightarrow>
         (let ((code, out), s) = run_simple te (in_shell (''ls '' @ [quote_mark] @ (c # cs) @ [quote_mark] @
                '' >/dev/null 2>&1; echo rc=$?'')) NoNetwork s in
          ((''host_home_isolated'', code = 0 \<and> \<not> contains ''rc=0'' out), s))
     | _ \<Rightarrow> ((''host_home_isolated'', True), s))"

definition test_env_sanitized :: "'w test_os \<Rightarrow> 'w usys \<Rightarrow> (string \<times> bool) \<times> 'w usys" where
  "test_env_sanitized te s =
     (let ((code, out), s) = run_simple te (in_shell
          ''echo USER=$USER HOME=$HOME PATH=$PATH PSROOT_CONTAINER_ID=${PSROOT_CONTAINER_ID:-unset}'') NoNetwork s in
      ((''env_sanitized'', code = 0 \<and> contains ''USER=container'' out \<and> contains ''/home/container'' out \<and>
          contains ''PSROOT_CONTAINER_ID='' out), s))"

definition mem_config :: ContainerConfig where
  "mem_config = (simple_config (in_shell ''ulimit -v'') NoNetwork)\<lparr>cc_hostname := None,
     cc_resources := \<lparr>rl_memory = 67108864, rl_cpu_rate = 10000, rl_max_processes = 100, rl_affinity = 0,
       rl_priority_class = 0\<rparr>\<rparr>"

definition mem_verdict :: "string \<Rightarrow> bool" where
  "mem_verdict out = (case parse_uint (2 ^ 64) (trim out) of None \<Rightarrow> False | Some n \<Rightarrow> 0 < n \<and> n \<le> 70000)"

definition test_memory_limit :: "'w test_os \<Rightarrow> 'w usys \<Rightarrow> (string \<times> bool) \<times> 'w usys" where
  "test_memory_limit te s =
     (if te_target te = MacOs then ((''memory_limit'', True), s)
      else case unix_create (te_unix te) mem_config IsoStandard s of
        (Inl e, s) \<Rightarrow> ((''memory_limit'', False), s)
      | (Inr c, s) \<Rightarrow>
        (let home = host_home_of c;
             s = snd (ucall (uo_mkdir (te_unix te) home) s);
             ((_, out), s) = run_wrapped te (in_shell (''ulimit -v > '' @ [quote_mark] @
               seen_inside (te_target te) home ''psroot-mem.txt'' @ [quote_mark] @ '' 2>&1''))
               (path_join home ''psroot-mem.txt'') c s
         in ((''memory_limit'', mem_verdict out), s)))"

definition network_probe :: string where
  "network_probe = ''command -v curl >/dev/null && curl -s -m 3 -o /dev/null -w '' @ [quote_mark] @ ''%{http_code}'' @
     [bslash_mark] @ ''n'' @ [quote_mark] @ '' https://1.1.1.1 || echo NOCURL''"

definition test_network_none :: "'w test_os \<Rightarrow> 'w usys \<Rightarrow> (string \<times> bool) \<times> 'w usys" where
  "test_network_none te s = (let ((code, out), s) = run_simple te (in_shell network_probe) NoNetwork s; txt = trim out in
     ((''network_none'', txt = ''NOCURL'' \<or> \<not> starts_with ''2'' txt), s))"

definition listed :: "'w test_os \<Rightarrow> string \<Rightarrow> 'w usys \<Rightarrow> bool" where
  "listed te cid s = (case record_list (te_unix te) s of Inl e \<Rightarrow> False | Inr l \<Rightarrow> \<exists>i \<in> set l. in_id i = cid)"

definition test_lifecycle :: "'w test_os \<Rightarrow> 'w usys \<Rightarrow> (string \<times> bool) \<times> 'w usys" where
  "test_lifecycle te s =
     (let config = (simple_config (in_shell ''echo done'') NoNetwork)\<lparr>cc_hostname := None,
            cc_name := Some (''psroot-test-'' @ show_nat (uo_pid (te_unix te)))\<rparr> in
      case unix_create (te_unix te) config IsoStandard s of
        (Inl e, s) \<Rightarrow> ((''lifecycle'', False), s)
      | (Inr c, s) \<Rightarrow>
        (let cid = cr_id (uc_record c); before = listed te cid s;
             s = snd (unix_remove (te_unix te) (te_target te) c s)
         in ((''lifecycle'', before \<and> \<not> listed te cid s), s)))"

definition quick_remove :: "'w test_os \<Rightarrow> ucontainer \<Rightarrow> 'w usys \<Rightarrow> 'w usys" where
  "quick_remove te c s = snd (unix_remove (te_unix te) (te_target te) c s)"

definition stop_and_remove :: "'w test_os \<Rightarrow> ucontainer \<Rightarrow> 'w usys \<Rightarrow> 'w usys" where
  "stop_and_remove te c s = (let (_, c, s) = unix_stop (te_unix te) c s in quick_remove te c s)"

text \<open>The program itself, run in a terminal; the first look that finds the child ended decides.\<close>

fun child_ended :: "wait_status option list \<Rightarrow> int option" where
  "child_ended [] = None"
| "child_ended (Some (WExited c) # ws) = Some (int c)"
| "child_ended (Some (WSignaled sig) # ws) = Some (128 + int sig)"
| "child_ended (_ # ws) = child_ended ws"

definition tty_argv :: "string \<Rightarrow> string list" where
  "tty_argv exe = [exe, ''run'', ''--network'', ''none'', ''--'', ''/bin/sh'', ''-c'',
     ''echo MARKER_OK USER=$USER HOME=$HOME ID=$PSROOT_CONTAINER_ID; exit 0'']"

definition test_tty_shell :: "'w test_os \<Rightarrow> 'w usys \<Rightarrow> (string \<times> bool) \<times> 'w usys" where
  "test_tty_shell te s = (case te_exe te of
       None \<Rightarrow> ((''tty_shell'', False), s)
     | Some exe \<Rightarrow> (case ucall (te_tty te (tty_argv exe)) s of
           (Inl e, s) \<Rightarrow> ((''tty_shell'', False), s)
         | (Inr (looks, out), s) \<Rightarrow> ((''tty_shell'', child_ended looks = Some 0 \<and> contains ''MARKER_OK'' out \<and>
             contains ''USER=container'' out \<and> contains ''ID='' out), s)))"

definition sq :: "string \<Rightarrow> string" where "sq t = quote_mark # t @ [quote_mark]"

definition server_script :: "string \<Rightarrow> u16 \<Rightarrow> string" where
  "server_script bind port = join_with [CHR 0x0A]
     [''import http.server,socketserver;'', ''h=http.server.BaseHTTPRequestHandler;'', ''class H(h):'',
      ''  def do_GET(s):'',
      ''    s.send_response(200);s.send_header('' @ sq ''X-Psroot'' @ '','' @ sq ''ok'' @
        '');s.end_headers();s.wfile.write(b'' @ sq ''PSROOT_PUBLISH_OK'' @ '')'',
      ''  def log_message(s,*a,**k):pass'',
      ''socketserver.TCPServer(('' @ sq bind @ '','' @ show_nat (unat port) @ ''),H).serve_forever()'']"

definition pythons :: "string list" where
  "pythons = [''/opt/homebrew/bin/python3'', ''/usr/local/bin/python3'', ''/usr/bin/python3'']"

definition kill_tree :: "'w test_os \<Rightarrow> nat \<Rightarrow> 'w usys \<Rightarrow> 'w usys" where
  "kill_tree te pid s = udo (te_kill te (int pid)) (udo (te_kill te (- int pid)) s)"

text \<open>The server, if a later look at the record still has its process.\<close>

definition kill_recorded :: "'w test_os \<Rightarrow> string \<Rightarrow> 'w usys \<Rightarrow> 'w usys" where
  "kill_recorded te cid s = (case unix_load (te_unix te) cid s of
       Inl e \<Rightarrow> s
     | Inr c \<Rightarrow> (case ust_host_pid (unix_stats c) of None \<Rightarrow> s | Some pid \<Rightarrow> kill_tree te pid s))"

definition bridged_host :: "'w test_os \<Rightarrow> 'w usys \<Rightarrow> bool" where
  "bridged_host te s \<longleftrightarrow> te_target te = Linux \<and> net_available (uo_net (te_unix te)) (uworld s)"

definition publish_config :: "'w test_os \<Rightarrow> string \<Rightarrow> bool \<Rightarrow> u16 \<Rightarrow> u16 \<Rightarrow> ContainerConfig" where
  "publish_config te py bridged host_port cont_port =
     (simple_config [py, ''-c'', server_script (if bridged then ''0.0.0.0'' else ''127.0.0.1'') cont_port] Outbound)
       \<lparr>cc_name := Some (''psroot-pub-'' @ show_nat (uo_pid (te_unix te)) @ ''-'' @ show_nat (unat host_port)),
        cc_env := [(''PYTHONUNBUFFERED'', ''1'')], cc_ports := [new_mapping ''127.0.0.1'' host_port cont_port]\<rparr>"

definition published :: "'w test_os \<Rightarrow> u16 \<Rightarrow> ucontainer \<Rightarrow> 'w usys \<Rightarrow> bool \<times> 'w usys" where
  "published te host_port c s = (case start_detached (te_unix te) c s of
       (Inl e, c, s) \<Rightarrow> (False, quick_remove te c s)
     | (Inr _, c, s) \<Rightarrow>
       (let (pages, s) = te_pages te host_port s;
            reached = (\<exists>p \<in> set pages. contains ''PSROOT_PUBLISH_OK'' p);
            (_, c, s) = unix_stop (te_unix te) c s;
            s = kill_recorded te (cr_id (uc_record c)) s
        in (reached, quick_remove te c s)))"

definition publish_session :: "'w test_os \<Rightarrow> bool \<Rightarrow> u16 \<Rightarrow> u16 \<Rightarrow> ucontainer \<Rightarrow> 'w usys \<Rightarrow> bool \<times> 'w usys" where
  "publish_session te bridged host_port cont_port c s =
     (if bridged then published te host_port c s
      else case ucall (te_forward te host_port cont_port) s of
        (False, s) \<Rightarrow> (False, quick_remove te c s)
      | (True, s) \<Rightarrow> published te host_port c s)"

definition test_network_publish :: "'w test_os \<Rightarrow> 'w usys \<Rightarrow> (string \<times> bool) \<times> 'w usys" where
  "test_network_publish te s = (case find (\<lambda>p. uo_exists (te_unix te) p (uworld s)) pythons of
       None \<Rightarrow> ((''network_publish'', True), s)
     | Some py \<Rightarrow> (case ucall (te_free_port te) s of
         (None, s) \<Rightarrow> ((''network_publish'', False), s)
       | (Some host_port, s) \<Rightarrow> (case ucall (te_free_port te) s of
           (None, s) \<Rightarrow> ((''network_publish'', False), s)
         | (Some cont_port, s) \<Rightarrow> (let bridged = bridged_host te s in
           case unix_create (te_unix te) (publish_config te py bridged host_port cont_port) IsoStandard s of
             (Inl e, s) \<Rightarrow> ((''network_publish'', False), s)
           | (Inr c, s) \<Rightarrow>
               (let (ok, s) = publish_session te bridged host_port cont_port c s in ((''network_publish'', ok), s))))))"

definition bridged_session :: "'w test_os \<Rightarrow> ucontainer \<Rightarrow> 'w usys \<Rightarrow> bool \<times> 'w usys" where
  "bridged_session te c s = (case start_detached (te_unix te) c s of
       (Inl e, c, s) \<Rightarrow> (False, quick_remove te c s)
     | (Inr _, c, s) \<Rightarrow> (case te_await_ip te (cr_id (uc_record c)) s of
         (Some (d # ds), s) \<Rightarrow> (let (pinged, s) = ucall (te_ping te (d # ds)) s in (pinged, stop_and_remove te c s))
       | (_, s) \<Rightarrow> (False, stop_and_remove te c s)))"

definition test_network_bridged :: "'w test_os \<Rightarrow> 'w usys \<Rightarrow> (string \<times> bool) \<times> 'w usys" where
  "test_network_bridged te s =
     (if \<not> bridged_host te s then ((''network_bridged'', True), s)
      else let config = (simple_config [''/bin/sleep'', ''30''] Outbound)
             \<lparr>cc_name := Some (''psroot-bridged-'' @ show_nat (uo_pid (te_unix te)))\<rparr> in
        case unix_create (te_unix te) config IsoStandard s of
          (Inl e, s) \<Rightarrow> ((''network_bridged'', False), s)
        | (Inr c, s) \<Rightarrow> (let (ok, s) = bridged_session te c s in ((''network_bridged'', ok), s)))"

fun run_tests :: "('s \<Rightarrow> 'a \<times> 's) list \<Rightarrow> 's \<Rightarrow> 'a list \<times> 's" where
  "run_tests [] s = ([], s)"
| "run_tests (t # ts) s = (let (r, s) = t s; (rs, s) = run_tests ts s in (r # rs, s))"

text \<open>The category is not looked at. The exit code is 0 when all passed.\<close>

definition unix_cmd_test :: "'w test_os \<Rightarrow> string \<Rightarrow> 'w usys \<Rightarrow> (nat \<times> (string \<times> bool) list) \<times> 'w usys" where
  "unix_cmd_test te category s =
     (let (results, s) = run_tests [test_echo te, test_host_home_isolated te, test_env_sanitized te, test_memory_limit te,
            test_network_none te, test_lifecycle te, test_tty_shell te, test_network_publish te, test_network_bridged te] s
      in ((if filter (\<lambda>(n, ok). \<not> ok) results = [] then 0 else 1, results), s))"

lemma unix_verdict:
  "fst (fst (unix_cmd_test te category s)) = 0 \<longleftrightarrow> (\<forall>(n, ok) \<in> set (snd (fst (unix_cmd_test te category s))). ok)"
  by (auto simp: unix_cmd_test_def Let_def filter_empty_conv split: prod.splits)

text \<open>
  A container that cannot be created counts as a network that is cut off: without output the network
  test passes, unless the error's text begins with a 2.
\<close>

lemma network_test_passes_on_error:
  assumes "unix_create (te_unix te) (simple_config (in_shell network_probe) NoNetwork) IsoStandard s = (Inl e, s')"
    and "\<not> starts_with ''2'' (trim (te_text te e))"
  shows "fst (test_network_none te s) = (''network_none'', True)"
  using assms by (simp add: test_network_none_def run_simple_def Let_def)

section \<open>The script says the command\<close>

text \<open>
  How a shell splits a line into words: blanks between words, single quotes take everything up to
  the next quote, a backslash outside quotes takes one character.
\<close>

fun sh_words :: "bool \<Rightarrow> string option \<Rightarrow> string \<Rightarrow> string list" where
  "sh_words q w [] = (case w of None \<Rightarrow> [] | Some w \<Rightarrow> [w])"
| "sh_words True w (c # cs) = (let t = (case w of None \<Rightarrow> [] | Some t \<Rightarrow> t) in
     if c = quote_mark then sh_words False (Some t) cs else sh_words True (Some (t @ [c])) cs)"
| "sh_words False w (c # cs) = (let t = (case w of None \<Rightarrow> [] | Some t \<Rightarrow> t) in
     if c = quote_mark then sh_words True (Some t) cs
     else if c = bslash_mark then (case cs of [] \<Rightarrow> sh_words False (Some t) [] | d # ds \<Rightarrow> sh_words False (Some (t @ [d])) ds)
     else if c \<in> {CHR '' '', CHR 0x0A} then (case w of None \<Rightarrow> sh_words False None cs | Some t \<Rightarrow> t # sh_words False None cs)
     else sh_words False (Some (t @ [c])) cs)"

lemma sh_escape_reads:
  "sh_words True (Some t) (sh_escape a @ quote_mark # rest) = sh_words False (Some (t @ a)) rest"
proof (induction a arbitrary: t)
  case (Cons c cs)
  then show ?case
    by (cases "c = quote_mark") (simp_all add: sh_escape_def quote_mark_def bslash_mark_def)
qed (simp add: sh_escape_def)

lemma sh_quote_reads: "sh_words False None (sh_quote a @ '' '' @ rest) = a # sh_words False None rest"
  by (simp add: sh_quote_def sh_escape_reads) (simp add: quote_mark_def bslash_mark_def)

lemma script_says_command: "sh_words False None (exec_line cmd) = ''exec'' # cmd"
proof -
  have "sh_words False None (concat (map (\<lambda>a. sh_quote a @ '' '') cmd) @ [CHR 0x0A]) = cmd"
    using sh_quote_reads by (induction cmd) (simp_all add: quote_mark_def bslash_mark_def)
  then show ?thesis by (simp add: exec_line_def quote_mark_def bslash_mark_def)
qed

section \<open>What a test leaves\<close>

text \<open>On Linux a command run for a test gives its address back, or one stays leased and the code is -1.\<close>

lemma run_simple_releases:
  assumes saves: "\<And>w. nt_lease_error (uo_net (te_unix te)) w = None"
    and linux: "te_target te = Linux" "te_runner te = (\<lambda>_. linux_run (te_unix te))"
    and run: "run_simple te cmd net s = ((code, out), t)"
  shows "uleased t = uleased s \<or> (code = -1 \<and> (\<exists>h. in_pool h \<and> h \<notin> uleased s \<and> uleased t = insert h (uleased s)))"
proof -
  obtain m s1 where made: "unix_create (te_unix te) (simple_config cmd net) IsoStandard s = (m, s1)" by fastforce
  note l1 = create_leases [OF made]
  show ?thesis
  proof (cases m)
    case (Inl e)
    then show ?thesis using run made l1 by (simp add: run_simple_def)
  next
    case (Inr c)
    define home where "home = host_home_of c"
    obtain x s2 where mk: "ucall (uo_mkdir (te_unix te) home) s1 = (x, s2)" by fastforce
    obtain y s3 where wr: "ucall (uo_write (te_unix te) (path_join home ''psroot-test-cmd.sh'') (test_script cmd)) s2 = (y, s3)"
      by fastforce
    obtain wrapped p where body: "run_wrapped te wrapped p c s3 = ((code, out), t)"
      using run made Inr mk wr by (simp add: run_simple_def home_def Let_def)
    obtain r c' s4 where go: "unix_run (te_unix te) (linux_run (te_unix te)) wrapped False c s3 = (r, c', s4)"
      by (metis prod_cases3)
    have out: "code = code_or (-1) r" "t = snd (unix_remove (te_unix te) Linux c' s4)"
      using body go linux by (auto simp: run_wrapped_def Let_def)
    note rl = run_leases [OF saves go]
    have "ns_leases (us_net t) = ns_leases (us_net s4)"
      unfolding out using rl l1 Inr by (intro remove_leases) simp
    then show ?thesis using rl l1 ucall_net [OF mk] ucall_net [OF wr] out by (auto simp: code_or_def)
  qed
qed

end
