(* ===== verification/Mac_Lima.thy ===== *)
theory Mac_Lima
  imports Cli_Text
begin

text \<open>
  The macOS driver, \<open>crates/psroot-cli/src/mac_lima.rs\<close>: a command is passed on to \<open>psroot\<close> in a Linux
  virtual machine, with \<open>ssh\<close> tunnels for the ports it publishes. \<open>limactl\<close>, \<open>ssh\<close>, \<open>pkill\<close>, the
  clock and the files are parameters. The wait for the address has a deadline of 30 seconds and sleeps
  at least one second in each round, so 30 rounds are all it can make.
\<close>

record 'w lima_os =
  lo_env :: "string \<rightharpoonup> string"
  lo_join :: "string \<Rightarrow> string \<Rightarrow> string"
  lo_version_ok :: "'w \<Rightarrow> bool"                                     \<comment> \<open>\<open>limactl --version\<close>\<close>
  lo_list :: "string \<Rightarrow> 'w \<Rightarrow> (bool \<times> string) option"              \<comment> \<open>\<open>limactl list\<close>: success and output\<close>
  lo_limactl :: "string list \<Rightarrow> 'w \<Rightarrow> (string + bool \<times> int option) \<times> 'w"   \<comment> \<open>success and exit code\<close>
  lo_status_text :: "bool \<times> int option \<Rightarrow> string"
  lo_temp_file :: "string \<Rightarrow> string"
  lo_write_template :: "string \<Rightarrow> 'w \<Rightarrow> (string + unit) \<times> 'w"
  lo_mkdir :: "string \<Rightarrow> 'w \<Rightarrow> 'w"
  lo_spawn :: "string list \<Rightarrow> string \<Rightarrow> 'w \<Rightarrow> nat option \<times> 'w"
  lo_try_wait :: "nat \<Rightarrow> 'w \<Rightarrow> int option option \<times> 'w"                \<comment> \<open>the exit code of a child that ended\<close>
  lo_wait :: "nat \<Rightarrow> 'w \<Rightarrow> int option option \<times> 'w"
  lo_lookup :: "string \<Rightarrow> 'w \<Rightarrow> string option \<times> 'w"                  \<comment> \<open>what the lookup script prints\<close>
  lo_ssh :: "string list \<Rightarrow> 'w \<Rightarrow> bool \<times> 'w"
  lo_pkill :: "string \<Rightarrow> 'w \<Rightarrow> 'w"
  lo_second :: "'w \<Rightarrow> 'w"                                           \<comment> \<open>a sleep of one second\<close>
  lo_late :: "'w \<Rightarrow> bool"                                           \<comment> \<open>the deadline has passed\<close>
  lo_epoch :: "'w \<Rightarrow> nat"

section \<open>The machine\<close>

definition vm_name :: "'w lima_os \<Rightarrow> string" where
  "vm_name os = (case lo_env os ''PSROOT_VM_NAME'' of Some n \<Rightarrow> n | None \<Rightarrow> ''psroot'')"

definition lima_home :: "'w lima_os \<Rightarrow> string" where
  "lima_home os = (case lo_env os ''HOME'' of Some h \<Rightarrow> h | None \<Rightarrow> ''/tmp'')"

definition ssh_config :: "'w lima_os \<Rightarrow> string" where
  "ssh_config os = lo_join os (lo_join os (lo_join os (lima_home os) ''.lima'') (vm_name os)) ''ssh.config''"

definition vm_status :: "'w lima_os \<Rightarrow> 'w \<Rightarrow> string option" where
  "vm_status os w = (case lo_list os (vm_name os) w of
       None \<Rightarrow> None
     | Some (ok, out) \<Rightarrow> (let s = trim out in if \<not> ok \<or> s = [] then None else Some s))"

definition limactl_ok :: "'w lima_os \<Rightarrow> string \<Rightarrow> string list \<Rightarrow> 'w \<Rightarrow> (string + unit) \<times> 'w" where
  "limactl_ok os what args w = (case lo_limactl os args w of
       (Inl e, w) \<Rightarrow> (Inl (''limactl '' @ what @ '': '' @ e), w)
     | (Inr st, w) \<Rightarrow> if fst st then (Inr (), w)
         else (Inl (''limactl '' @ what @ '' exited '' @ lo_status_text os st), w))"

definition create_vm :: "'w lima_os \<Rightarrow> 'w \<Rightarrow> (string + unit) \<times> 'w" where
  "create_vm os w = (let tmpl = lo_temp_file os (''psroot-lima-'' @ vm_name os @ ''.yaml'') in
     case lo_write_template os tmpl w of
       (Inl e, w) \<Rightarrow> (Inl (''write template: '' @ e), w)
     | (Inr _, w) \<Rightarrow> limactl_ok os ''create'' [''create'', ''--name='' @ vm_name os, tmpl] w)"

definition ensure_vm :: "'w lima_os \<Rightarrow> 'w \<Rightarrow> (string + unit) \<times> 'w" where
  "ensure_vm os w =
     (if \<not> lo_version_ok os w then (Inl ''limactl not found. Install with: brew install lima'', w)
      else st_bind (if vm_status os w = None then create_vm os w else (Inr (), w)) (\<lambda>_ w.
        if vm_status os w = Some ''Running'' then (Inr (), w)
        else limactl_ok os ''start'' [''start'', vm_name os] w))"

section \<open>Flags\<close>

text \<open>The value of a publish flag at an argument, given the argument before it.\<close>

definition publish_value :: "string option \<Rightarrow> string \<Rightarrow> string option" where
  "publish_value prev a =
     (if prev \<in> {Some ''--publish'', Some ''-p''} then Some a
      else case strip_prefix ''--publish='' a of Some v \<Rightarrow> Some v | None \<Rightarrow> strip_prefix ''-p='' a)"

definition publish_pair :: "string \<Rightarrow> (u16 \<times> u16) option" where
  "publish_pair v = (case split_first (CHR '':'') v of
       None \<Rightarrow> None
     | Some (h, c) \<Rightarrow> (case (parse_u16 h, parse_u16 c) of (Some h, Some c) \<Rightarrow> Some (h, c) | _ \<Rightarrow> None))"

definition name_value :: "string option \<Rightarrow> string \<Rightarrow> string option" where
  "name_value prev a = (if prev \<in> {Some ''--name'', Some ''-n''} then Some a else strip_prefix ''--name='' a)"

fun run_flags :: "string option \<Rightarrow> string list \<Rightarrow> (u16 \<times> u16) list \<Rightarrow> string option \<Rightarrow> (u16 \<times> u16) list \<times> string option" where
  "run_flags prev [] pairs name = (pairs, name)"
| "run_flags prev (a # rest) pairs name = run_flags (Some a) rest
     (case Option.bind (publish_value prev a) publish_pair of None \<Rightarrow> pairs | Some p \<Rightarrow> pairs @ [p])
     (case name_value prev a of Some n \<Rightarrow> Some n | None \<Rightarrow> name)"

definition extract_run_flags :: "string list \<Rightarrow> (u16 \<times> u16) list \<times> string option" where
  "extract_run_flags argv = run_flags None argv [] None"

section \<open>Dispatch\<close>

definition vm_psroot :: "'w lima_os \<Rightarrow> string list \<Rightarrow> string list" where
  "vm_psroot os argv = [''shell'', ''--workdir'', ''/'', vm_name os, ''sudo'', ''/usr/local/bin/psroot''] @ argv"

definition or_one :: "int option \<Rightarrow> int" where
  "or_one c = (case c of Some n \<Rightarrow> n | None \<Rightarrow> 1)"

definition vm_exec_foreground :: "'w lima_os \<Rightarrow> string list \<Rightarrow> 'w \<Rightarrow> int \<times> 'w" where
  "vm_exec_foreground os argv w = (case lo_limactl os (vm_psroot os argv) w of
       (Inl e, w) \<Rightarrow> (1, w) | (Inr (ok, code), w) \<Rightarrow> (or_one code, w))"

text \<open>The last line of the output that begins with a digit.\<close>

definition ascii_digit :: "char \<Rightarrow> bool" where
  "ascii_digit c \<longleftrightarrow> digit_val c \<noteq> None"

definition lines_of :: "string \<Rightarrow> string list" where
  "lines_of out = split_on (CHR 0x0A) out"

definition last_address :: "string \<Rightarrow> string option" where
  "last_address out =
     (let ls = filter (\<lambda>l. l \<noteq> [] \<and> ascii_digit (l ! 0)) (map trim (lines_of out)) in
      if ls = [] then None else Some (last ls))"

definition lookup_container_ip :: "'w lima_os \<Rightarrow> string \<Rightarrow> 'w \<Rightarrow> string option \<times> 'w" where
  "lookup_container_ip os name w = (let (out, w) = lo_lookup os name w in (Option.bind out last_address, w))"

datatype poll = Address string | Ended int | TimedOut

fun poll_ip :: "nat \<Rightarrow> 'w lima_os \<Rightarrow> string \<Rightarrow> nat \<Rightarrow> 'w \<Rightarrow> poll \<times> 'w" where
  "poll_ip 0 os name child w = (TimedOut, w)"
| "poll_ip (Suc n) os name child w =
     (if lo_late os w then (TimedOut, w)
      else case lookup_container_ip os name (lo_second os w) of
        (Some ip, w) \<Rightarrow> (Address ip, w)
      | (None, w) \<Rightarrow> (case lo_try_wait os child w of
          (Some code, w) \<Rightarrow> (Ended (or_one code), w)
        | (None, w) \<Rightarrow> poll_ip n os name child w))"

definition tunnel_args :: "'w lima_os \<Rightarrow> string \<Rightarrow> u16 \<times> u16 \<Rightarrow> string list" where
  "tunnel_args os ip p = [''-F'', ssh_config os, ''-o'', ''ExitOnForwardFailure=yes'', ''-fN'', ''-L'',
     show_nat (unat (fst p)) @ CHR '':'' # ip @ CHR '':'' # show_nat (unat (snd p)), ''lima-'' @ vm_name os]"

definition open_tunnels :: "'w lima_os \<Rightarrow> string \<Rightarrow> (u16 \<times> u16) list \<Rightarrow> 'w \<Rightarrow> 'w" where
  "open_tunnels os ip pairs w = fold (\<lambda>p w. snd (lo_ssh os (tunnel_args os ip p) w)) pairs w"

definition lima_cleanup :: "'w lima_os \<Rightarrow> string \<Rightarrow> string \<Rightarrow> 'w \<Rightarrow> 'w" where
  "lima_cleanup os ip name w =
     snd (lo_limactl os (vm_psroot os [''stop'', name]) (lo_pkill os (''ssh -F .*-L .*:'' @ ip @ '':'') w))"

definition wait_code :: "'w lima_os \<Rightarrow> nat \<Rightarrow> 'w \<Rightarrow> int \<times> 'w" where
  "wait_code os child w = (case lo_wait os child w of
       (None, w) \<Rightarrow> (1, w) | (Some code, w) \<Rightarrow> (or_one code, w))"

text \<open>A name is made up when none is given, and put at the end of the arguments.\<close>

definition named_argv :: "'w lima_os \<Rightarrow> string list \<Rightarrow> string option \<Rightarrow> 'w \<Rightarrow> string \<times> string list" where
  "named_argv os argv name w = (case name of
       Some n \<Rightarrow> (n, argv)
     | None \<Rightarrow> (let n = ''psroot-'' @ show_nat (lo_epoch os w) in (n, argv @ [''--name'', n])))"

definition run_tunnelled :: "'w lima_os \<Rightarrow> string list \<Rightarrow> (u16 \<times> u16) list \<Rightarrow> string option \<Rightarrow> 'w \<Rightarrow> int \<times> 'w" where
  "run_tunnelled os argv pairs name w =
     (let (name, argv) = named_argv os argv name w;
          dir = lo_join os (lo_join os (lima_home os) ''.psroot'') ''tunnels''; w = lo_mkdir os dir w in
      case lo_spawn os (vm_psroot os argv) (lo_join os dir (name @ ''.log'')) w of
        (None, w) \<Rightarrow> (1, w)
      | (Some child, w) \<Rightarrow> (case poll_ip 30 os name child w of
          (Ended code, w) \<Rightarrow> (code, w)
        | (TimedOut, w) \<Rightarrow> wait_code os child w
        | (Address ip, w) \<Rightarrow>
            (let (code, w) = wait_code os child (open_tunnels os ip pairs w) in (code, lima_cleanup os ip name w))))"

definition dispatch :: "'w lima_os \<Rightarrow> string list \<Rightarrow> 'w \<Rightarrow> int \<times> 'w" where
  "dispatch os argv w = (case ensure_vm os w of
       (Inl e, w) \<Rightarrow> (127, w)
     | (Inr _, w) \<Rightarrow>
       (let (pairs, name) = (case argv of c # _ \<Rightarrow> if c \<in> {''run'', ''create'', ''start''} then extract_run_flags argv else ([], None)
              | [] \<Rightarrow> ([], None)) in
        if pairs = [] then vm_exec_foreground os argv w else run_tunnelled os argv pairs name w))"

section \<open>What the flags mean\<close>

text \<open>The arguments, each with the one before it.\<close>

definition with_prev :: "string option \<Rightarrow> string list \<Rightarrow> (string option \<times> string) list" where
  "with_prev prev argv = zip (prev # map Some argv) argv"

lemma with_prev_simps [simp]: "with_prev p [] = []" "with_prev p (a # as') = (p, a) # with_prev (Some a) as'"
  by (simp_all add: with_prev_def)

lemma run_flags_pairs: "fst (run_flags prev argv pairs name) =
    pairs @ List.map_filter (\<lambda>(p, a). Option.bind (publish_value p a) publish_pair) (with_prev prev argv)"
  by (induction argv arbitrary: prev pairs name) (auto simp: List.map_filter_simps split: option.split)

text \<open>
  The flags are looked for in the words of the container's command too, and the made-up name comes
  after that command.
\<close>

lemma flags_in_command:
  "extract_run_flags [''run'', ''ssh'', ''-p'', ''22:22''] = ([(22, 22)], None)"
  "named_argv os [''run'', ''ssh'', ''-p'', ''22:22''] None w =
     (''psroot-'' @ show_nat (lo_epoch os w), [''run'', ''ssh'', ''-p'', ''22:22'', ''--name'', ''psroot-'' @ show_nat (lo_epoch os w)])"
  by (simp_all add: extract_run_flags_def publish_value_def publish_pair_def name_value_def strip_prefix_def parse_u16_def
      parse_uint_def digit_val_def named_argv_def Let_def)

end
