(* ===== verification/Desktop.thy ===== *)
theory Desktop
  imports Config
begin

text \<open>
  Isolated desktops, \<open>crates/psroot-desktop/src/desktop.rs\<close>: a desktop of its own in the window
  station of the session, processes started on it, and the handles both hold. Explicit are the open
  desktop and process handles; the calls of Windows are parameters.
\<close>

section \<open>The system\<close>

record security_attributes =
  sec_descriptor :: "nat option"                  \<comment> \<open>\<open>None\<close> is the null pointer\<close>
  sec_inherit :: bool

text \<open>What \<open>SetSecurityInfo\<close> is told to set; \<open>None\<close> is a null pointer.\<close>

record security_call =
  sc_object_type :: nat
  sc_information :: nat
  sc_dacl :: "nat option"

record start_args =
  st_command :: "16 word list"
  st_directory :: "16 word list option"
  st_inherit :: bool
  st_flags :: u32
  st_desktop :: "16 word list"
  st_attributes :: "nat option"                   \<comment> \<open>the attribute list of \<open>STARTUPINFOEXW\<close>\<close>

record started =
  sd_process :: nat
  sd_thread :: nat
  sd_process_id :: u32
  sd_thread_id :: u32

record 'w desk_os =
  dk_uuid :: "'w \<Rightarrow> string \<times> 'w"
  dk_utf16 :: "string \<Rightarrow> 16 word list"              \<comment> \<open>\<open>encode_utf16\<close>\<close>
  dk_create_desktop :: "16 word list \<Rightarrow> u32 \<Rightarrow> security_attributes \<Rightarrow> 'w \<Rightarrow> (u32 + nat) \<times> 'w"
  dk_station :: "'w \<Rightarrow> u32 + nat"
  dk_set_security :: "nat \<Rightarrow> security_call \<Rightarrow> 'w \<Rightarrow> 'w"
  dk_create_process :: "start_args \<Rightarrow> 'w \<Rightarrow> (u32 + started) \<times> 'w"
  dk_wait :: "nat \<Rightarrow> u32 \<Rightarrow> 'w \<Rightarrow> u32 \<times> 'w"
  dk_exit_code :: "nat \<Rightarrow> 'w \<Rightarrow> u32 option"           \<comment> \<open>\<open>None\<close> when the call fails\<close>
  dk_terminate :: "nat \<Rightarrow> u32 \<Rightarrow> 'w \<Rightarrow> 'w"

record 'w desk_sys =
  dy_desktops :: "nat list"
  dy_handles :: "nat list"
  dy_world :: 'w

record isolated_desktop =
  id_handle :: nat
  id_name :: string
  id_full_name :: string

section \<open>Desktops\<close>

definition desktop_access :: u32 where
  "desktop_access = (0x0002 OR 0x0004 OR 0x0008 OR 0x0001 OR 0x0080 OR 0x0100) OR 0x10000000"

definition wide :: "'w desk_os \<Rightarrow> string \<Rightarrow> 16 word list" where
  "wide os s = dk_utf16 os s @ [0]"

definition build_security_attributes :: security_attributes where
  "build_security_attributes = \<lparr>sec_descriptor = None, sec_inherit = False\<rparr>"

text \<open>The result of \<open>SetSecurityInfo\<close> is not looked at.\<close>

definition grant_winstation_access :: "'w desk_os \<Rightarrow> 'w \<Rightarrow> (PsrootError + unit) \<times> 'w" where
  "grant_winstation_access os w = (case dk_station os w of
       Inl e \<Rightarrow> (Inl (Win32 ''GetProcessWindowStation'' e), w)
     | Inr station \<Rightarrow> (Inr (), dk_set_security os station \<lparr>sc_object_type = 7, sc_information = 4, sc_dacl = None\<rparr> w))"

definition desktop_name :: "'w desk_os \<Rightarrow> string option \<Rightarrow> 'w \<Rightarrow> string \<times> 'w" where
  "desktop_name os name w = (case name of
       Some n \<Rightarrow> (''Psroot-'' @ n, w) | None \<Rightarrow> (let (u, w) = dk_uuid os w in (''Psroot-'' @ u, w)))"

definition desktop_create :: "'w desk_os \<Rightarrow> string option \<Rightarrow> bool \<Rightarrow> 'w desk_sys \<Rightarrow>
    (PsrootError + isolated_desktop) \<times> 'w desk_sys" where
  "desktop_create os name with_sid s =
     (let (name, w) = desktop_name os name (dy_world s) in
      case dk_create_desktop os (wide os name) desktop_access build_security_attributes w of
        (Inl e, w) \<Rightarrow> (Inl (Win32 ''CreateDesktopW'' e), s\<lparr>dy_world := w\<rparr>)
      | (Inr h, w) \<Rightarrow>
        (let s = s\<lparr>dy_desktops := h # dy_desktops s, dy_world := w\<rparr> in
         st_bind (if with_sid then let (r, w) = grant_winstation_access os (dy_world s) in (r, s\<lparr>dy_world := w\<rparr>)
                  else (Inr (), s)) (\<lambda>_ s.
         (Inr \<lparr>id_handle = h, id_name = name, id_full_name = ''WinSta0'' @ CHR 0x5C # name\<rparr>, s))))"

definition desktop_drop :: "isolated_desktop \<Rightarrow> 'w desk_sys \<Rightarrow> 'w desk_sys" where
  "desktop_drop d s = s\<lparr>dy_desktops := remove1 (id_handle d) (dy_desktops s)\<rparr>"

section \<open>Processes\<close>

definition extended_startupinfo :: u32 where "extended_startupinfo = 0x00080000"

definition start_args_for :: "'w desk_os \<Rightarrow> isolated_desktop \<Rightarrow> string \<Rightarrow> string option \<Rightarrow> bool \<Rightarrow> u32 \<Rightarrow> nat option \<Rightarrow> start_args" where
  "start_args_for os d cmd dir inherit flags attrs =
     \<lparr>st_command = wide os cmd, st_directory = map_option (wide os) dir, st_inherit = inherit,
      st_flags = (case attrs of Some _ \<Rightarrow> flags OR extended_startupinfo | None \<Rightarrow> flags),
      st_desktop = wide os (id_full_name d), st_attributes = attrs\<rparr>"

definition spawn_process :: "'w desk_os \<Rightarrow> isolated_desktop \<Rightarrow> string \<Rightarrow> string option \<Rightarrow> bool \<Rightarrow> u32 \<Rightarrow> nat option \<Rightarrow>
    'w desk_sys \<Rightarrow> (PsrootError + started) \<times> 'w desk_sys" where
  "spawn_process os d cmd dir inherit flags attrs s =
     (case dk_create_process os (start_args_for os d cmd dir inherit flags attrs) (dy_world s) of
        (Inl e, w) \<Rightarrow> (Inl (Win32 ''CreateProcessW(isolated_desktop)'' e), s\<lparr>dy_world := w\<rparr>)
      | (Inr p, w) \<Rightarrow> (Inr p, s\<lparr>dy_handles := sd_process p # sd_thread p # dy_handles s, dy_world := w\<rparr>))"

text \<open>\<open>wait\<close> ignores a failure of \<open>GetExitCodeProcess\<close>: the code is then 0.\<close>

definition process_wait :: "'w desk_os \<Rightarrow> started \<Rightarrow> 'w desk_sys \<Rightarrow> u32 \<times> 'w desk_sys" where
  "process_wait os p s = (let (_, w) = dk_wait os (sd_process p) 0xFFFFFFFF (dy_world s) in
     (case dk_exit_code os (sd_process p) w of Some c \<Rightarrow> c | None \<Rightarrow> 0, s\<lparr>dy_world := w\<rparr>))"

definition process_is_running :: "'w desk_os \<Rightarrow> started \<Rightarrow> 'w desk_sys \<Rightarrow> bool \<times> 'w desk_sys" where
  "process_is_running os p s = (let (r, w) = dk_wait os (sd_process p) 0 (dy_world s) in (r = 258, s\<lparr>dy_world := w\<rparr>))"

definition process_terminate :: "'w desk_os \<Rightarrow> started \<Rightarrow> 'w desk_sys \<Rightarrow> 'w desk_sys" where
  "process_terminate os p s = s\<lparr>dy_world := dk_terminate os (sd_process p) 1 (dy_world s)\<rparr>"

definition process_drop :: "started \<Rightarrow> 'w desk_sys \<Rightarrow> 'w desk_sys" where
  "process_drop p s = s\<lparr>dy_handles := remove1 (sd_thread p) (remove1 (sd_process p) (dy_handles s))\<rparr>"

section \<open>Handles\<close>

text \<open>
  What was opened is closed by the drops, also with other desktops and processes in between; but a
  window station that cannot be had makes \<open>create\<close> fail after the desktop was opened, and nothing
  closes that.
\<close>

lemma desktop_balanced:
  assumes "desktop_create os name with_sid s = (Inr d, s1)" "dy_desktops s2 = xs @ dy_desktops s1" "id_handle d \<notin> set xs"
  shows "dy_desktops (desktop_drop d s2) = xs @ dy_desktops s"
  using assms
  by (auto simp: desktop_create_def desktop_drop_def remove1_append st_bind_def Let_def
      split: prod.splits sum.splits if_splits)

lemma process_balanced:
  assumes "spawn_process os d cmd dir inherit flags attrs s = (Inr p, s1)" "dy_handles s2 = dy_handles s1"
  shows "dy_handles (process_drop p s2) = dy_handles s"
  using assms by (auto simp: spawn_process_def process_drop_def split: prod.splits sum.splits)

lemma desktop_leaked:
  assumes "dk_create_desktop os (wide os (''Psroot-'' @ n)) desktop_access build_security_attributes (dy_world s) = (Inr h, w)"
    and "dk_station os w = Inl e"
  shows "\<exists>s'. desktop_create os (Some n) True s = (Inl (Win32 ''GetProcessWindowStation'' e), s') \<and>
    dy_desktops s' = h # dy_desktops s"
  using assms by (simp add: desktop_create_def desktop_name_def grant_winstation_access_def Let_def)

end
