(* ===== verification/Junction.thy ===== *)
theory Junction
  imports Text
begin

text \<open>
  Directory junctions by volume GUID, \<open>create_volume_guid_junction\<close> of
  \<open>crates/psroot-container/src/sandbox.rs\<close>: the names a junction stores, the reparse buffer that
  carries them, and the calls that make it. Files and volumes are parameters over a world; UTF-16
  conversion is one too. \<open>None\<close> is a panic: the buffer is sized in 16-bit arithmetic.
\<close>

section \<open>The reparse buffer\<close>

definition mount_point_tag :: u32 where "mount_point_tag = 0xA0000003"

definition wide_bytes :: "u16 list \<Rightarrow> u8 list" where
  "wide_bytes ws = concat (map (to_le 2) ws)"

definition reparse_buffer :: "u16 list \<Rightarrow> u16 list \<Rightarrow> u8 list option" where
  "reparse_buffer substitute print =
     (let sub_len = of_nat (length substitute * 2) :: u16; prt_len = of_nat (length print * 2) :: u16;
          total = unat (sub_len + 2 + prt_len + 2); data_len = 8 + total;
          body = wide_bytes substitute @ [0, 0] @ wide_bytes print in
      if length body > total then None
      else Some (to_le 4 mount_point_tag @ to_le 2 (of_nat data_len :: u16) @ to_le 2 (0 :: u16) @
        to_le 2 (0 :: u16) @ to_le 2 sub_len @ to_le 2 (sub_len + 2) @ to_le 2 prt_len @
        body @ replicate (total - length body) 0))"

section \<open>Names\<close>

definition bslash_char :: char where "bslash_char = CHR 0x5C"

definition trim_bslash :: "string \<Rightarrow> string" where
  "trim_bslash s = dropWhile (\<lambda>c. c = bslash_char) s"

definition volume_id :: "string \<Rightarrow> string" where
  "volume_id guid = (let s = (case strip_prefix [bslash_char, bslash_char, CHR ''?'', bslash_char] guid of
       Some r \<Rightarrow> r | None \<Rightarrow> guid) in rev (dropWhile (\<lambda>c. c = bslash_char) (rev s)))"

definition ascii_letter :: "char \<Rightarrow> bool" where
  "ascii_letter c \<longleftrightarrow> (let n = of_char c :: nat in 65 \<le> n \<and> n \<le> 90 \<or> 97 \<le> n \<and> n \<le> 122)"

text \<open>The path below the volume's mount point.\<close>

definition volume_relative :: "string \<Rightarrow> string \<Rightarrow> string" where
  "volume_relative vol canonical =
     (let path = replace_all [bslash_char, bslash_char, CHR ''?'', bslash_char] [] canonical in
      trim_bslash (case strip_prefix vol path of
        Some r \<Rightarrow> r
      | None \<Rightarrow> trim_bslash (dropWhile (\<lambda>c. c = CHR '':'') (dropWhile ascii_letter path))))"

definition substitute_name :: "string \<Rightarrow> string \<Rightarrow> string" where
  "substitute_name guid rel = [bslash_char, CHR ''?'', CHR ''?'', bslash_char] @ volume_id guid @ bslash_char # rel"

section \<open>Making a junction\<close>

datatype junction_error = JunctionOther string | JunctionIo nat

record 'w junction_os =
  jo_volume_path :: "string \<Rightarrow> 'w \<Rightarrow> string option"
  jo_volume_name :: "string \<Rightarrow> 'w \<Rightarrow> string option"
  jo_canonicalize :: "string \<Rightarrow> 'w \<Rightarrow> string + string"
  jo_parent :: "string \<Rightarrow> string option"
  jo_mkdir :: "string \<Rightarrow> 'w \<Rightarrow> (nat + unit) \<times> 'w"
  jo_exists :: "string \<Rightarrow> 'w \<Rightarrow> bool"
  jo_remove_dir :: "string \<Rightarrow> 'w \<Rightarrow> 'w"
  jo_remove_all :: "string \<Rightarrow> 'w \<Rightarrow> 'w"
  jo_open :: "string \<Rightarrow> 'w \<Rightarrow> (nat + nat) \<times> 'w"
  jo_set_reparse :: "nat \<Rightarrow> u8 list \<Rightarrow> 'w \<Rightarrow> nat option \<times> 'w"
  jo_close :: "nat \<Rightarrow> 'w \<Rightarrow> 'w"
  jo_utf16 :: "string \<Rightarrow> u16 list"

definition junction_names :: "'w junction_os \<Rightarrow> string \<Rightarrow> 'w \<Rightarrow> junction_error + string \<times> string" where
  "junction_names os target w = (case jo_volume_path os target w of
       None \<Rightarrow> Inl (JunctionOther (''GetVolumePathNameW('' @ CHR 0x27 # target @ CHR 0x27 # '') failed''))
     | Some vol \<Rightarrow> (case jo_volume_name os vol w of
         None \<Rightarrow> Inl (JunctionOther ''GetVolumeNameForVolumeMountPointW failed'')
       | Some guid \<Rightarrow> (case jo_canonicalize os target w of
           Inl e \<Rightarrow> Inl (JunctionOther (''canonicalize: '' @ e))
         | Inr canonical \<Rightarrow> (let rel = volume_relative vol canonical in Inr (substitute_name guid rel, vol @ rel)))))"

definition io_step :: "(nat + 'a) \<times> 'w \<Rightarrow> (junction_error + 'a) \<times> 'w" where
  "io_step m = (case m of (Inl n, w) \<Rightarrow> (Inl (JunctionIo n), w) | (Inr x, w) \<Rightarrow> (Inr x, w))"

text \<open>An empty directory at the place of the link; what stood there is removed.\<close>

definition clear_link :: "'w junction_os \<Rightarrow> string \<Rightarrow> 'w \<Rightarrow> (junction_error + unit) \<times> 'w" where
  "clear_link os link w =
     st_bind (case jo_parent os link of None \<Rightarrow> (Inr (), w) | Some p \<Rightarrow> io_step (jo_mkdir os p w)) (\<lambda>_ w.
     let w = (if jo_exists os link w then let w = jo_remove_dir os link w in
            if jo_exists os link w then jo_remove_all os link w else w else w)
     in io_step (jo_mkdir os link w))"

definition create_volume_guid_junction :: "'w junction_os \<Rightarrow> string \<Rightarrow> string \<Rightarrow> 'w \<Rightarrow>
    ((junction_error + unit) \<times> 'w) option" where
  "create_volume_guid_junction os link target w = (case junction_names os target w of
       Inl e \<Rightarrow> Some (Inl e, w)
     | Inr (substitute, print) \<Rightarrow> (case clear_link os link w of
         (Inl e, w) \<Rightarrow> Some (Inl e, w)
       | (Inr _, w) \<Rightarrow> (case jo_open os link w of
           (Inl n, w) \<Rightarrow> Some (Inl (JunctionIo n), w)
         | (Inr h, w) \<Rightarrow> (case reparse_buffer (jo_utf16 os substitute) (jo_utf16 os print) of
             None \<Rightarrow> None
           | Some buf \<Rightarrow> (case jo_set_reparse os h buf w of
               (err, w) \<Rightarrow> Some (case err of Some n \<Rightarrow> Inl (JunctionIo n) | None \<Rightarrow> Inr (), jo_close os h w))))))"

section \<open>Reading the buffer\<close>

text \<open>
  As the file system reads it: at 8 and 12 the offset and the length in bytes of the two names, counted
  from byte 16.
\<close>

fun wide_chars :: "u8 list \<Rightarrow> u16 list" where
  "wide_chars (a # b # r) = from_le [a, b] # wide_chars r"
| "wide_chars _ = []"

definition field16 :: "nat \<Rightarrow> u8 list \<Rightarrow> nat" where
  "field16 i buf = unat (from_le (get_bytes i 2 buf) :: u16)"

definition stored_name :: "nat \<Rightarrow> u8 list \<Rightarrow> u16 list" where
  "stored_name i buf = wide_chars (get_bytes (16 + field16 i buf) (field16 (i + 2) buf) buf)"

lemma wide_chars_bytes [simp]: "wide_chars (wide_bytes ws) = ws"
proof (induction ws)
  case (Cons w ws)
  have "from_le (to_le 2 w) = w" by simp
  then have "from_le [ucast w, ucast (drop_bit 8 w)] = w" by (simp add: numeral_2_eq_2)
  with Cons show ?case by (simp add: wide_bytes_def numeral_2_eq_2)
qed (simp add: wide_bytes_def)

lemma length_wide_bytes [simp]: "length (wide_bytes ws) = 2 * length ws"
  by (induction ws) (simp_all add: wide_bytes_def)

lemma unat_of_nat_u16: "n < 65536 \<Longrightarrow> unat (of_nat n :: u16) = n"
  by (rule of_nat_inverse) simp_all

lemma reparse_buffer_fits:
  assumes "2 * length s + 2 * length p + 12 < 65536"
  shows "reparse_buffer s p = Some (to_le 4 mount_point_tag @ to_le 2 (of_nat (12 + 2 * length s + 2 * length p) :: u16) @
    to_le 2 (0 :: u16) @ to_le 2 (0 :: u16) @ to_le 2 (of_nat (2 * length s) :: u16) @ to_le 2 (of_nat (2 * length s + 2) :: u16) @
    to_le 2 (of_nat (2 * length p) :: u16) @ wide_bytes s @ [0, 0] @ wide_bytes p @ [0, 0])"
proof -
  let ?n = "2 * length s + 2 * length p"
  have c: "length s * 2 = 2 * length s" "length p * 2 = 2 * length p" by simp_all
  have "(of_nat (2 * length s + 2) :: u16) + of_nat (2 * length p) + 2 = of_nat (?n + 4)" by simp
  then have total: "unat ((of_nat (2 * length s + 2) :: u16) + of_nat (2 * length p) + 2) = ?n + 4"
    using assms unat_of_nat_u16 [of "?n + 4"] by (simp only:)
  have len: "length (wide_bytes s @ [0, 0] @ wide_bytes p) = ?n + 2" by simp
  have parts: "8 + (?n + 4) = 12 + 2 * length s + 2 * length p" "\<not> ?n + 4 < ?n + 2" "?n + 4 - (?n + 2) = 2"
    "(of_nat (2 * length s) :: u16) + 2 = of_nat (2 * length s + 2)" by simp_all
  have zeros: "replicate 2 0 = [0 :: u8, 0]" by (simp add: numeral_2_eq_2)
  show ?thesis
    unfolding reparse_buffer_def Let_def c total len parts zeros by (subst if_not_P) simp_all
qed

text \<open>
  C36. The reparse buffer reads back: for names that fit into it, its tag is that of a mount point, its
  data length is that of what follows the first 8 bytes, and the offsets and lengths in it lead to
  exactly the two names, each followed by a zero character.
\<close>

theorem reparse_buffer_reads_back:
  assumes "2 * length s + 2 * length p + 12 < 65536"
  shows "\<exists>buf. reparse_buffer s p = Some buf \<and> from_le (get_bytes 0 4 buf) = mount_point_tag \<and>
    field16 4 buf = length buf - 8 \<and> stored_name 8 buf = s \<and> stored_name 12 buf = p"
proof -
  let ?h = "to_le 4 mount_point_tag @ to_le 2 (of_nat (12 + 2 * length s + 2 * length p) :: u16) @ to_le 2 (0 :: u16)"
  let ?f = "to_le 2 (0 :: u16) @ to_le 2 (of_nat (2 * length s) :: u16) @ to_le 2 (of_nat (2 * length s + 2) :: u16) @
    to_le 2 (of_nat (2 * length p) :: u16)"
  let ?n = "wide_bytes s @ [0, 0] @ wide_bytes p @ [0, 0]"
  let ?b = "?h @ ?f @ ?n"
  have buf: "reparse_buffer s p = Some ?b" using reparse_buffer_fits [OF assms] by simp
  have tag: "from_le (get_bytes 0 4 ?b) = mount_point_tag" by (simp add: get_bytes_def)
  have f4: "field16 4 ?b = 12 + 2 * length s + 2 * length p"
    using assms unat_of_nat_u16 [of "12 + 2 * length s + 2 * length p"] by (simp add: field16_def get_bytes_def)
  have f8: "field16 8 ?b = 0" by (simp add: field16_def get_bytes_def)
  have f10: "field16 10 ?b = 2 * length s"
    using assms unat_of_nat_u16 [of "2 * length s"] by (simp add: field16_def get_bytes_def)
  have f12: "field16 12 ?b = 2 * length s + 2"
    using assms unat_of_nat_u16 [of "2 * length s + 2"] by (simp add: field16_def get_bytes_def)
  have f14: "field16 14 ?b = 2 * length p"
    using assms unat_of_nat_u16 [of "2 * length p"] by (simp add: field16_def get_bytes_def)
  have names: "get_bytes 16 (2 * length s) ?b = wide_bytes s"
    "get_bytes (16 + (2 * length s + 2)) (2 * length p) ?b = wide_bytes p"
    by (simp_all add: get_bytes_def)
  show ?thesis
    using buf tag f4 f8 f10 f12 f14 names by (intro exI [of _ ?b]) (simp add: stored_name_def)
qed

lemma reparse_buffer_reads_back_witness:
  "\<exists>buf. reparse_buffer [92, 63] [67] = Some buf \<and> stored_name 8 buf = [92, 63] \<and> stored_name 12 buf = [67]"
  using reparse_buffer_reads_back [of "[92, 63]" "[67]"] by auto

end
