(* ===== verification/Code_Memory.thy ===== *)
theory Code_Memory
  imports Text
begin

text \<open>
  The memory of a process as a function from 64-bit addresses to bytes, for the parts of the program
  that read and write through raw pointers: reads and writes of blocks, little-endian loads, and the
  frame rules the patchers rely on. Address arithmetic wraps, as it does on the machine.
\<close>

type_synonym memory = "u64 \<Rightarrow> u8"

section \<open>Blocks\<close>

definition block :: "u64 \<Rightarrow> nat \<Rightarrow> u64 set" where
  "block a n = {x. unat (x - a) < n}"

definition peek :: "u64 \<Rightarrow> nat \<Rightarrow> memory \<Rightarrow> u8 list" where
  "peek a n m = map (\<lambda>i. m (a + of_nat i)) [0..<n]"

definition poke :: "u64 \<Rightarrow> u8 list \<Rightarrow> memory \<Rightarrow> memory" where
  "poke a bs m = (\<lambda>x. if unat (x - a) < length bs then bs ! unat (x - a) else m x)"

definition load16 :: "u64 \<Rightarrow> memory \<Rightarrow> u16" where "load16 a m = from_le (peek a 2 m)"
definition load32 :: "u64 \<Rightarrow> memory \<Rightarrow> u32" where "load32 a m = from_le (peek a 4 m)"
definition load64 :: "u64 \<Rightarrow> memory \<Rightarrow> u64" where "load64 a m = from_le (peek a 8 m)"

lemma mem_block: "x \<in> block a n \<longleftrightarrow> unat (x - a) < n"
  by (simp add: block_def)

lemma block_offset: "i < n \<Longrightarrow> i < 2 ^ 64 \<Longrightarrow> a + of_nat i \<in> block a n"
  by (simp add: mem_block unat_of_nat)

lemma block_offsetE:
  assumes "x \<in> block a n"
  obtains i where "i < n" and "x = a + of_nat i"
  using assms by (intro that [of "unat (x - a)"]) (simp_all add: mem_block)

text \<open>A part of a block, and blocks that do not meet.\<close>

lemma block_inside:
  assumes "i + k \<le> n" "n \<le> 2 ^ 64"
  shows "block (a + of_nat i) k \<subseteq> block a n"
proof
  fix x assume "x \<in> block (a + of_nat i) k"
  then obtain j where "j < k" and x: "x = a + of_nat (i + j)" by (auto elim!: block_offsetE simp: algebra_simps)
  with assms show "x \<in> block a n" unfolding x by (intro block_offset) simp_all
qed

lemma block_within:
  assumes "unat (a - b) + k \<le> n" "n \<le> 2 ^ 64"
  shows "block a k \<subseteq> block b n"
  using block_inside [OF assms, of b] by simp

lemma blocks_apart:
  assumes "n \<le> unat (b - a)" "k \<le> unat (a - b)" "n \<le> 2 ^ 64" "k \<le> 2 ^ 64"
  shows "block a n \<inter> block b k = {}"
proof (rule ccontr)
  assume "block a n \<inter> block b k \<noteq> {}"
  then obtain i j where ij: "i < n" "j < k" "a + of_nat i = b + of_nat j"
    by (auto elim!: block_offsetE)
  show False
  proof (cases "j \<le> i")
    case True
    with ij have "b - a = of_nat (i - j)" by (simp add: of_nat_diff algebra_simps)
    then have "unat (b - a) = i - j" using ij(1) assms(3) by (simp only:) (simp add: unat_of_nat)
    with ij assms(1) show False by simp
  next
    case False
    with ij have "a - b = of_nat (j - i)" by (simp add: of_nat_diff algebra_simps)
    then have "unat (a - b) = j - i" using ij(2) assms(4) by (simp only:) (simp add: unat_of_nat)
    with ij assms(2) show False by simp
  qed
qed

lemma length_peek [simp]: "length (peek a n m) = n"
  by (simp add: peek_def)

lemma peek_cong: "(\<And>x. x \<in> block a n \<Longrightarrow> m x = m' x) \<Longrightarrow> n \<le> 2 ^ 64 \<Longrightarrow> peek a n m = peek a n m'"
  by (simp add: peek_def block_offset)

lemma poke_outside: "x \<notin> block a (length bs) \<Longrightarrow> poke a bs m x = m x"
  by (simp add: poke_def mem_block)

lemma poke_at: "i < length bs \<Longrightarrow> length bs \<le> 2 ^ 64 \<Longrightarrow> poke a bs m (a + of_nat i) = bs ! i"
  by (simp add: poke_def unat_of_nat)

lemma peek_poke: "length bs = n \<Longrightarrow> n \<le> 2 ^ 64 \<Longrightarrow> peek a n (poke a bs m) = bs"
  by (rule nth_equalityI) (simp_all add: peek_def poke_at)

lemma poke_peek: "n \<le> 2 ^ 64 \<Longrightarrow> poke a (peek a n m) m = m"
  by (rule ext) (simp add: poke_def peek_def)

lemma poke_peek_at: "poke a (peek a n m) m' x = (if x \<in> block a n then m x else m' x)"
  by (simp add: poke_def peek_def mem_block)

lemma poke_over: "length bs = length cs \<Longrightarrow> poke a bs (poke a cs m) = poke a bs m"
  by (rule ext) (simp add: poke_def)

lemma peek_poke_other:
  assumes "block a n \<inter> block b (length bs) = {}" "n \<le> 2 ^ 64"
  shows "peek a n (poke b bs m) = peek a n m"
  using assms by (intro peek_cong poke_outside) auto

lemma peek_append: "peek a (n + k) m = peek a n m @ peek (a + of_nat n) k m"
  by (rule nth_equalityI) (auto simp: peek_def nth_append simp flip: of_nat_add)

lemma peek_part: "i + k \<le> n \<Longrightarrow> peek (a + of_nat i) k m = take k (drop i (peek a n m))"
  by (rule nth_equalityI) (auto simp: peek_def add.assoc simp flip: of_nat_add)

section \<open>Loads\<close>

text \<open>Encoding what was decoded: no byte of the array is lost.\<close>

lemma to_le_from_le:
  "8 * length bs \<le> LENGTH('a) \<Longrightarrow> to_le (length bs) (from_le bs :: 'a::len word) = bs"
proof (induction bs)
  case (Cons b bs)
  let ?r = "from_le bs :: 'a word"
  have low: "\<not> bit ?r k" if "8 * length bs \<le> k" for k
    using that
  proof (induction bs arbitrary: k)
    case (Cons c cs)
    then show ?case
      by (cases "k < 8") (auto simp: bit_or_iff bit_push_bit_iff bit_ucast_iff dest: bit_imp_le_length)
  qed simp
  have "ucast (ucast b OR push_bit 8 ?r) = b"
    using Cons.prems by (intro bit_word_eqI) (auto simp: bit_ucast_iff bit_or_iff bit_push_bit_iff)
  moreover have "drop_bit 8 (ucast b OR push_bit 8 ?r) = ?r"
    using Cons.prems low
    by (intro bit_word_eqI) (auto simp: bit_ucast_iff bit_or_iff bit_push_bit_iff bit_drop_bit_eq
        dest: bit_imp_le_length intro: ccontr)
  ultimately show ?case using Cons by simp
qed simp

lemma store_load64 [simp]: "to_le 8 (load64 a m) = peek a 8 m"
  using to_le_from_le [of "peek a 8 m", where ?'a = 64] by (simp add: load64_def)

lemma from_le_to_le_u64 [simp]: "from_le (to_le 8 (w :: u64)) = w"
  by (rule from_le_to_le) simp

lemma load64_poke: "load64 a (poke a (to_le 8 v) m) = v"
  by (simp add: load64_def peek_poke)

lemma load_cong:
  "(\<And>x. x \<in> block a 8 \<Longrightarrow> m x = m' x) \<Longrightarrow> load64 a m = load64 a m'"
  "(\<And>x. x \<in> block a 4 \<Longrightarrow> m x = m' x) \<Longrightarrow> load32 a m = load32 a m'"
  "(\<And>x. x \<in> block a 2 \<Longrightarrow> m x = m' x) \<Longrightarrow> load16 a m = load16 a m'"
  by (simp_all add: load64_def load32_def load16_def cong: peek_cong)

section \<open>Writing to protected pages\<close>

text \<open>
  \<open>VirtualProtect\<close> of an address, a size and a protection: the old protection, or \<open>None\<close> when it
  fails. A write makes the page writable, copies, and sets the old protection again, whose result is
  not looked at.
\<close>

type_synonym 'w protect = "u64 \<Rightarrow> nat \<Rightarrow> u32 \<Rightarrow> 'w \<Rightarrow> u32 option \<times> 'w"

definition patch_code :: "'w protect \<Rightarrow> u64 \<Rightarrow> u8 list \<Rightarrow> memory \<times> 'w \<Rightarrow> bool \<times> memory \<times> 'w" where
  "patch_code protect a bs mw = (case protect a (length bs) 0x40 (snd mw) of
       (None, w) \<Rightarrow> (False, fst mw, w)
     | (Some old, w) \<Rightarrow> (True, poke a bs (fst mw), snd (protect a (length bs) old w)))"

lemma patch_code_outside:
  "x \<notin> block a (length bs) \<Longrightarrow> fst (snd (patch_code protect a bs mw)) x = fst mw x"
  by (simp add: patch_code_def poke_outside split: prod.split option.split)

definition protect_ok :: "'w protect \<Rightarrow> bool" where
  "protect_ok protect \<longleftrightarrow> (\<forall>a n p w. fst (protect a n p w) \<noteq> None)"

lemma patch_code_ok:
  assumes "protect_ok protect"
  shows "fst (patch_code protect a bs mw)" "fst (snd (patch_code protect a bs mw)) = poke a bs (fst mw)"
proof -
  have "fst (protect a (length bs) 0x40 (snd mw)) \<noteq> None" using assms by (simp add: protect_ok_def)
  then show "fst (patch_code protect a bs mw)" "fst (snd (patch_code protect a bs mw)) = poke a bs (fst mw)"
    by (auto simp: patch_code_def split: prod.split option.split)
qed

lemma patch_code_True:
  "patch_code protect a bs mw = (True, m, w) \<Longrightarrow> m = poke a bs (fst mw)"
  "patch_code protect a bs mw = (False, m, w) \<Longrightarrow> m = fst mw"
  by (auto simp: patch_code_def split: prod.splits option.splits)

end
