(* ===== verification/Iat.thy ===== *)
theory Iat
  imports Code_Memory
begin

text \<open>
  Import-table patching, \<open>crates/psroot-netshim/src/iat.rs\<close>, and its copy in
  \<open>crates/psroot-procshim/src/iat.rs\<close>, where the two differ a parameter of the walk. A loaded module is
  read from memory, header, descriptors, thunks and names, while its slots are written: each loop has
  a bound \<open>k\<close> on its rounds, and \<open>None\<close> is a loop that has not ended by then.
\<close>

section \<open>Bytes\<close>

fun cstr_bytes :: "nat \<Rightarrow> u64 \<Rightarrow> memory \<Rightarrow> u8 list option" where
  "cstr_bytes 0 p m = None"
| "cstr_bytes (Suc k) p m = (if m p = 0 then Some [] else map_option ((#) (m p)) (cstr_bytes k (p + 1) m))"

definition strip_nul :: "u8 list \<Rightarrow> u8 list" where
  "strip_nul bs = (if bs \<noteq> [] \<and> last bs = 0 then butlast bs else bs)"

definition to_ascii_lowercase :: "u8 \<Rightarrow> u8" where
  "to_ascii_lowercase b = (if 65 \<le> b \<and> b \<le> 90 then b + 32 else b)"

definition ascii_eq_ignore_case :: "u8 list \<Rightarrow> u8 list \<Rightarrow> bool" where
  "ascii_eq_ignore_case a b \<longleftrightarrow> length a = length b \<and>
     list_all (\<lambda>(x, y). to_ascii_lowercase x = to_ascii_lowercase y) (zip a b)"

section \<open>State\<close>

text \<open>\<open>he_original\<close> is the cell that \<open>original\<close> points to.\<close>

record hook_entry =
  he_name :: "u8 list"
  he_replacement :: u64
  he_original :: nat

record 'w iat_sys =
  is_mem :: memory
  is_cells :: "nat \<Rightarrow> u64"
  is_world :: 'w

definition write_protected :: "'w protect \<Rightarrow> u64 \<Rightarrow> u64 \<Rightarrow> 'w iat_sys \<Rightarrow> bool \<times> 'w iat_sys" where
  "write_protected protect slot v s = (let (ok, m, w) = patch_code protect slot (to_le 8 v) (is_mem s, is_world s)
     in (ok, s\<lparr>is_mem := m, is_world := w\<rparr>))"

text \<open>What is done at a slot whose name is hooked: how much it counts, and the state after it.\<close>

type_synonym 'w slot_action = "u64 \<Rightarrow> hook_entry \<Rightarrow> 'w iat_sys \<Rightarrow> nat \<times> 'w iat_sys"

definition patch_slot :: "'w protect \<Rightarrow> 'w slot_action" where
  "patch_slot protect slot h s =
     (let s = s\<lparr>is_cells := (is_cells s)(he_original h := load64 slot (is_mem s))\<rparr>;
          (ok, s) = write_protected protect slot (he_replacement h) s
      in (if ok then 1 else 0, s))"

definition restore_slot :: "'w protect \<Rightarrow> 'w slot_action" where
  "restore_slot protect slot h s = (let (ok, s) = write_protected protect slot (is_cells s (he_original h)) s
     in (if ok then 1 else 0, s))"

text \<open>The copy restores only what was captured, and counts it whether or not the write works.\<close>

definition restore_slot_proc :: "'w protect \<Rightarrow> 'w slot_action" where
  "restore_slot_proc protect slot h s =
     (if is_cells s (he_original h) \<noteq> 0
      then (1, snd (write_protected protect slot (is_cells s (he_original h)) s)) else (0, s))"

section \<open>Walking the imports\<close>

definition ordinal_flag :: u64 where "ordinal_flag = 0x8000000000000000"

fun slot_hooks :: "'w slot_action \<Rightarrow> u64 \<Rightarrow> u8 list \<Rightarrow> hook_entry list \<Rightarrow> nat \<times> 'w iat_sys \<Rightarrow> nat \<times> 'w iat_sys" where
  "slot_hooks act slot name [] r = r"
| "slot_hooks act slot name (h # hs) (hits, s) = slot_hooks act slot name hs
     (if name = strip_nul (he_name h) then let (n, s) = act slot h s in (hits + n, s) else (hits, s))"

type_synonym reader = "u64 \<Rightarrow> memory \<Rightarrow> u8 list option"

fun thunk_loop :: "nat \<Rightarrow> reader \<Rightarrow> 'w slot_action \<Rightarrow> u64 \<Rightarrow> hook_entry list \<Rightarrow> u64 \<Rightarrow> u64 \<Rightarrow> nat \<times> 'w iat_sys \<Rightarrow>
    (nat \<times> 'w iat_sys) option" where
  "thunk_loop 0 rd act base hooks p q r = None"
| "thunk_loop (Suc n) rd act base hooks p q r =
     (let v = load64 p (is_mem (snd r)) in
      if v = 0 then Some r
      else if v AND ordinal_flag \<noteq> 0 then thunk_loop n rd act base hooks (p + 8) (q + 8) r
      else case rd (base + v + 2) (is_mem (snd r)) of
        None \<Rightarrow> None
      | Some name \<Rightarrow> thunk_loop n rd act base hooks (p + 8) (q + 8) (slot_hooks act q name hooks r))"

text \<open>
  One descriptor at \<open>d\<close>: the names are in the table of \<open>OriginalFirstThunk\<close>, or in the slots themselves
  when there is none.
\<close>

definition walk_descriptor :: "nat \<Rightarrow> reader \<Rightarrow> 'w slot_action \<Rightarrow> u64 \<Rightarrow> hook_entry list \<Rightarrow> u64 \<Rightarrow> nat \<times> 'w iat_sys \<Rightarrow>
    (nat \<times> 'w iat_sys) option" where
  "walk_descriptor k rd act base hooks d r =
     (let m = is_mem (snd r); original = load32 d m; first = load32 (d + 16) m in
      thunk_loop k rd act base hooks (base + ucast (if original \<noteq> 0 then original else first)) (base + ucast first) r)"

fun import_loop :: "nat \<Rightarrow> nat \<Rightarrow> (u8 list \<Rightarrow> bool) \<Rightarrow> reader \<Rightarrow> 'w slot_action \<Rightarrow> u64 \<Rightarrow> hook_entry list \<Rightarrow> u64 \<Rightarrow>
    nat \<times> 'w iat_sys \<Rightarrow> (nat \<times> 'w iat_sys) option" where
  "import_loop k 0 wanted rd act base hooks d r = None"
| "import_loop k (Suc n) wanted rd act base hooks d r =
     (let m = is_mem (snd r); name = load32 (d + 12) m in
      if name = 0 \<and> load32 (d + 16) m = 0 then Some r
      else case rd (base + ucast name) m of
        None \<Rightarrow> None
      | Some dll \<Rightarrow>
        (case (if wanted dll then walk_descriptor k rd act base hooks d r else Some r) of
           None \<Rightarrow> None
         | Some r \<Rightarrow> import_loop k n wanted rd act base hooks (d + 20) r))"

text \<open>
  The import directory: its address relative to the module and its size. \<open>e_lfanew\<close> is signed;
  \<open>IMAGE_NT_HEADERS64\<close> has the second data directory at byte 144.
\<close>

definition nt_header :: "u64 \<Rightarrow> memory \<Rightarrow> u64" where
  "nt_header base m = base + scast (load32 (base + 60) m)"

definition import_dir :: "u64 \<Rightarrow> memory \<Rightarrow> (u32 \<times> u32) option" where
  "import_dir base m =
     (if load16 base m \<noteq> 0x5A4D then None
      else let nt = nt_header base m in
        if load32 nt m \<noteq> 0x4550 then None else Some (load32 (nt + 144) m, load32 (nt + 148) m))"

definition walk_module :: "nat \<Rightarrow> bool \<Rightarrow> (u8 list \<Rightarrow> bool) \<Rightarrow> reader \<Rightarrow> 'w slot_action \<Rightarrow> u64 \<Rightarrow> hook_entry list \<Rightarrow>
    'w iat_sys \<Rightarrow> (nat \<times> 'w iat_sys) option" where
  "walk_module k sized wanted rd act base hooks s =
     (if base = 0 then Some (0, s)
      else case import_dir base (is_mem s) of
        None \<Rightarrow> Some (0, s)
      | Some (va, len) \<Rightarrow> if va = 0 \<or> sized \<and> len = 0 then Some (0, s)
          else import_loop k k wanted rd act base hooks (base + ucast va) (0, s))"

section \<open>The functions of the two crates\<close>

definition patch_module :: "'w protect \<Rightarrow> nat \<Rightarrow> u64 \<Rightarrow> u8 list \<Rightarrow> hook_entry list \<Rightarrow> 'w iat_sys \<Rightarrow> (nat \<times> 'w iat_sys) option" where
  "patch_module protect k base dll hooks s =
     walk_module k True (\<lambda>name. ascii_eq_ignore_case name dll) (cstr_bytes k) (patch_slot protect) base hooks s"

definition restore_module :: "'w protect \<Rightarrow> nat \<Rightarrow> u64 \<Rightarrow> u8 list \<Rightarrow> hook_entry list \<Rightarrow> 'w iat_sys \<Rightarrow> (nat \<times> 'w iat_sys) option" where
  "restore_module protect k base dll hooks s =
     walk_module k False (\<lambda>name. ascii_eq_ignore_case name dll) (cstr_bytes k) (restore_slot protect) base hooks s"

definition cstr_bytes_proc :: "nat \<Rightarrow> reader" where
  "cstr_bytes_proc k p m = (if p = 0 then Some [] else cstr_bytes k p m)"

definition ascii_eq_proc :: "u8 list \<Rightarrow> u8 list \<Rightarrow> bool" where
  "ascii_eq_proc a b \<longleftrightarrow> ascii_eq_ignore_case a (strip_nul b)"

definition patch_module_proc :: "'w protect \<Rightarrow> nat \<Rightarrow> u64 \<Rightarrow> u8 list \<Rightarrow> hook_entry list \<Rightarrow> 'w iat_sys \<Rightarrow> (nat \<times> 'w iat_sys) option" where
  "patch_module_proc protect k base dll hooks s =
     walk_module k True (\<lambda>name. ascii_eq_proc name dll) (cstr_bytes_proc k) (patch_slot protect) base hooks s"

definition restore_module_proc :: "'w protect \<Rightarrow> nat \<Rightarrow> u64 \<Rightarrow> u8 list \<Rightarrow> hook_entry list \<Rightarrow> 'w iat_sys \<Rightarrow> (nat \<times> 'w iat_sys) option" where
  "restore_module_proc protect k base dll hooks s =
     walk_module k True (\<lambda>name. ascii_eq_proc name dll) (cstr_bytes_proc k) (restore_slot_proc protect) base hooks s"

section \<open>A module in memory\<close>

text \<open>
  An import table as data, and when memory holds it, reading addresses in \<open>T\<close> only. A change outside
  \<open>T\<close> leaves the table as it is.
\<close>

datatype thunk = Ordinal | Named "u8 list"

record import_entry =
  ie_dll :: "u8 list"
  ie_thunks :: "thunk list"
  ie_first :: u32

fun cstr_at :: "memory \<Rightarrow> u64 set \<Rightarrow> u64 \<Rightarrow> u8 list \<Rightarrow> bool" where
  "cstr_at m T p [] \<longleftrightarrow> p \<in> T \<and> m p = 0"
| "cstr_at m T p (b # bs) \<longleftrightarrow> p \<in> T \<and> m p = b \<and> b \<noteq> 0 \<and> cstr_at m T (p + 1) bs"

fun thunks_at :: "memory \<Rightarrow> u64 set \<Rightarrow> u64 \<Rightarrow> u64 \<Rightarrow> thunk list \<Rightarrow> bool" where
  "thunks_at m T base p [] \<longleftrightarrow> block p 8 \<subseteq> T \<and> load64 p m = 0"
| "thunks_at m T base p (Ordinal # ts) \<longleftrightarrow> block p 8 \<subseteq> T \<and> load64 p m AND ordinal_flag \<noteq> 0 \<and> thunks_at m T base (p + 8) ts"
| "thunks_at m T base p (Named name # ts) \<longleftrightarrow> block p 8 \<subseteq> T \<and> load64 p m \<noteq> 0 \<and> load64 p m AND ordinal_flag = 0 \<and>
     cstr_at m T (base + load64 p m + 2) name \<and> thunks_at m T base (p + 8) ts"

definition names_table :: "u64 \<Rightarrow> u64 \<Rightarrow> memory \<Rightarrow> u64" where
  "names_table base d m = base + ucast (if load32 d m \<noteq> 0 then load32 d m else load32 (d + 16) m)"

fun imports_at :: "memory \<Rightarrow> u64 set \<Rightarrow> u64 \<Rightarrow> u64 \<Rightarrow> import_entry list \<Rightarrow> bool" where
  "imports_at m T base d [] \<longleftrightarrow> block d 20 \<subseteq> T \<and> load32 (d + 12) m = 0 \<and> load32 (d + 16) m = 0"
| "imports_at m T base d (e # es) \<longleftrightarrow> block d 20 \<subseteq> T \<and> \<not> (load32 (d + 12) m = 0 \<and> load32 (d + 16) m = 0) \<and>
     load32 (d + 16) m = ie_first e \<and> cstr_at m T (base + ucast (load32 (d + 12) m)) (ie_dll e) \<and>
     thunks_at m T base (names_table base d m) (ie_thunks e) \<and> imports_at m T base (d + 20) es"

definition module_at :: "memory \<Rightarrow> u64 set \<Rightarrow> u64 \<Rightarrow> import_entry list \<Rightarrow> bool" where
  "module_at m T base es \<longleftrightarrow> base \<noteq> 0 \<and>
     block base 2 \<union> block (base + 60) 4 \<union> block (nt_header base m) 4 \<union> block (nt_header base m + 144) 8 \<subseteq> T \<and>
     (\<exists>va len. import_dir base m = Some (va, len) \<and> va \<noteq> 0 \<and> len \<noteq> 0 \<and> imports_at m T base (base + ucast va) es)"

end
