(* ===== verification/Iat_Restore.thy ===== *)
theory Iat_Restore
  imports Iat
begin

text \<open>
  What the import-table walk does to a module that memory holds: it acts on each slot of the wanted
  DLL once, in order, and what patching writes restoring takes back.
\<close>

section \<open>Frames\<close>

lemma load_frame:
  assumes "\<forall>x \<in> T. m' x = m x"
  shows "block p 8 \<subseteq> T \<Longrightarrow> load64 p m' = load64 p m" "block p 4 \<subseteq> T \<Longrightarrow> load32 p m' = load32 p m"
    "block p 2 \<subseteq> T \<Longrightarrow> load16 p m' = load16 p m"
  using assms by (auto intro!: load_cong)

lemma cstr_at_frame: "\<forall>x \<in> T. m' x = m x \<Longrightarrow> cstr_at m T p bs \<Longrightarrow> cstr_at m' T p bs"
  by (induction bs arbitrary: p) auto

lemma thunks_at_frame:
  assumes "\<forall>x \<in> T. m' x = m x"
  shows "thunks_at m T base p ts \<Longrightarrow> thunks_at m' T base p ts"
proof (induction ts arbitrary: p)
  case (Cons t ts)
  then show ?case
    by (cases t) (auto simp: load_frame(1) [OF assms] intro: cstr_at_frame [OF assms])
qed (simp add: load_frame(1) [OF assms])

lemma block_parts:
  "block d 20 \<subseteq> T \<Longrightarrow> block d 4 \<subseteq> T" "block d 20 \<subseteq> T \<Longrightarrow> block (d + 12) 4 \<subseteq> T" "block d 20 \<subseteq> T \<Longrightarrow> block (d + 16) 4 \<subseteq> T"
  using block_inside [of 0 4 20 d] block_inside [of 12 4 20 d] block_inside [of 16 4 20 d] by auto

lemma names_table_frame:
  "\<forall>x \<in> T. m' x = m x \<Longrightarrow> block d 20 \<subseteq> T \<Longrightarrow> names_table base d m' = names_table base d m"
  by (simp add: names_table_def load_frame(2) [of T m' m] block_parts)

lemma imports_at_frame:
  assumes "\<forall>x \<in> T. m' x = m x"
  shows "imports_at m T base d es \<Longrightarrow> imports_at m' T base d es"
proof (induction es arbitrary: d)
  case (Cons e es)
  then have "block d 20 \<subseteq> T" by simp
  note same = load_frame(2) [OF assms] block_parts [OF this] names_table_frame [OF assms this]
  from Cons show ?case
    by (auto simp: same intro: cstr_at_frame [OF assms] thunks_at_frame [OF assms])
qed (simp add: load_frame(2) [OF assms] block_parts)

lemma import_dir_frame:
  assumes same: "\<forall>x \<in> T. m' x = m x"
    and T: "block base 2 \<union> block (base + 60) 4 \<union> block (nt_header base m) 4 \<union> block (nt_header base m + 144) 8 \<subseteq> T"
  shows "nt_header base m' = nt_header base m" "import_dir base m' = import_dir base m"
proof -
  have "load32 (base + 60) m' = load32 (base + 60) m" using T by (intro load_frame(2) [OF same]) simp
  then show nt: "nt_header base m' = nt_header base m" by (simp add: nt_header_def)
  have parts: "block (nt_header base m + 144) 4 \<subseteq> T" "block (nt_header base m + 148) 4 \<subseteq> T"
    using T block_inside [of 0 4 8 "nt_header base m + 144"] block_inside [of 4 4 8 "nt_header base m + 144"]
    by (auto simp: algebra_simps)
  have "load16 base m' = load16 base m" using T by (intro load_frame(3) [OF same]) simp
  then show "import_dir base m' = import_dir base m"
    using T parts by (simp add: import_dir_def nt load_frame(2) [OF same] Let_def)
qed

lemma module_at_frame:
  assumes same: "\<forall>x \<in> T. m' x = m x" and "module_at m T base es"
  shows "module_at m' T base es"
proof -
  have T: "block base 2 \<union> block (base + 60) 4 \<union> block (nt_header base m) 4 \<union> block (nt_header base m + 144) 8 \<subseteq> T"
    using assms(2) by (simp add: module_at_def)
  from assms(2) show ?thesis
    unfolding module_at_def import_dir_frame [OF same T] using imports_at_frame [OF same] by blast
qed

section \<open>The walk\<close>

fun thunk_slots :: "u64 \<Rightarrow> thunk list \<Rightarrow> (u64 \<times> u8 list) list" where
  "thunk_slots q [] = []"
| "thunk_slots q (Ordinal # ts) = thunk_slots (q + 8) ts"
| "thunk_slots q (Named name # ts) = (q, name) # thunk_slots (q + 8) ts"

definition module_slots :: "(u8 list \<Rightarrow> bool) \<Rightarrow> u64 \<Rightarrow> import_entry list \<Rightarrow> (u64 \<times> u8 list) list" where
  "module_slots wanted base es = concat (map (\<lambda>e. if wanted (ie_dll e)
     then thunk_slots (base + ucast (ie_first e)) (ie_thunks e) else []) es)"

definition run_slots :: "'w slot_action \<Rightarrow> hook_entry list \<Rightarrow> (u64 \<times> u8 list) list \<Rightarrow> nat \<times> 'w iat_sys \<Rightarrow> nat \<times> 'w iat_sys" where
  "run_slots act hooks slots r = fold (\<lambda>(slot, name) r. slot_hooks act slot name hooks r) slots r"

text \<open>Bounds that suffice: no list or name of the table is as long as \<open>k\<close>.\<close>

fun thunk_fits :: "nat \<Rightarrow> thunk \<Rightarrow> bool" where
  "thunk_fits k Ordinal \<longleftrightarrow> True"
| "thunk_fits k (Named name) \<longleftrightarrow> length name < k"

definition entry_fits :: "nat \<Rightarrow> import_entry \<Rightarrow> bool" where
  "entry_fits k e \<longleftrightarrow> length (ie_dll e) < k \<and> length (ie_thunks e) < k \<and> list_all (thunk_fits k) (ie_thunks e)"

definition reads_names :: "nat \<Rightarrow> reader \<Rightarrow> bool" where
  "reads_names k rd \<longleftrightarrow> (\<forall>m T p bs. cstr_at m T p bs \<longrightarrow> length bs < k \<longrightarrow> rd p m = Some bs)"

definition local_action :: "'w slot_action \<Rightarrow> bool" where
  "local_action act \<longleftrightarrow> (\<forall>slot h s x. x \<notin> block slot 8 \<longrightarrow> is_mem (snd (act slot h s)) x = is_mem s x)"

lemma cstr_reads: "reads_names k (cstr_bytes k)"
proof -
  have "length bs < k \<longrightarrow> cstr_bytes k p m = Some bs" if "cstr_at m T p bs" for m T p bs
    using that
  proof (induction bs arbitrary: k p)
    case Nil
    then show ?case by (cases k) auto
  next
    case (Cons b bs)
    then show ?case by (cases k) auto
  qed
  then show ?thesis by (simp add: reads_names_def)
qed

lemma reads_namesD: "reads_names k rd \<Longrightarrow> cstr_at m T p bs \<Longrightarrow> length bs < k \<Longrightarrow> rd p m = Some bs"
  unfolding reads_names_def by (elim allE impE)

lemma slot_hooks_local:
  assumes "local_action act" "x \<notin> block slot 8"
  shows "is_mem (snd (slot_hooks act slot name hooks r)) x = is_mem (snd r) x"
  using assms
  by (induction hooks arbitrary: r) (auto simp: local_action_def split: prod.splits, metis snd_conv)

lemma thunk_loop_run:
  assumes "reads_names k rd" "local_action act"
  shows "thunks_at (is_mem (snd r)) T base p ts \<Longrightarrow> list_all (thunk_fits k) ts \<Longrightarrow> length ts < n \<Longrightarrow>
    \<forall>(slot, name) \<in> set (thunk_slots q ts). block slot 8 \<inter> T = {} \<Longrightarrow>
    thunk_loop n rd act base hooks p q r = Some (run_slots act hooks (thunk_slots q ts) r)"
proof (induction ts arbitrary: n p q r)
  case Nil
  then show ?case by (cases n) (auto simp: run_slots_def)
next
  case (Cons t ts)
  then obtain n' where n: "n = Suc n'" by (cases n) auto
  show ?case
  proof (cases t)
    case Ordinal
    with Cons n show ?thesis by (auto simp: Let_def)
  next
    case (Named name)
    let ?r = "slot_hooks act q name hooks r"
    have read: "rd (base + load64 p (is_mem (snd r)) + 2) (is_mem (snd r)) = Some name"
      using Cons.prems(1,2) Named by (intro reads_namesD [OF assms(1), where T = T]) simp_all
    have "\<forall>x \<in> T. is_mem (snd ?r) x = is_mem (snd r) x"
      using Cons.prems(4) Named by (intro ballI slot_hooks_local [OF assms(2)]) auto
    then have "thunks_at (is_mem (snd ?r)) T base (p + 8) ts"
      using Cons.prems(1) Named by (auto intro: thunks_at_frame)
    with Cons.IH [of ?r "p + 8" n' "q + 8"] Cons.prems n Named read show ?thesis by (simp add: Let_def run_slots_def)
  qed
qed

lemma run_slots_append: "run_slots act hooks (xs @ ys) r = run_slots act hooks ys (run_slots act hooks xs r)"
  by (simp add: run_slots_def)

lemma run_slots_local:
  assumes "local_action act" "\<forall>(slot, name) \<in> set slots. x \<notin> block slot 8"
  shows "is_mem (snd (run_slots act hooks slots r)) x = is_mem (snd r) x"
  using assms(2)
  by (induction slots arbitrary: r) (auto simp: run_slots_def slot_hooks_local [OF assms(1)])

lemma import_loop_run:
  assumes "reads_names k rd" "local_action act"
  shows "imports_at (is_mem (snd r)) T base d es \<Longrightarrow> list_all (entry_fits k) es \<Longrightarrow> length es < n \<Longrightarrow>
    \<forall>(slot, name) \<in> set (module_slots wanted base es). block slot 8 \<inter> T = {} \<Longrightarrow>
    import_loop k n wanted rd act base hooks d r = Some (run_slots act hooks (module_slots wanted base es) r)"
proof (induction es arbitrary: n d r)
  case Nil
  then show ?case by (cases n) (auto simp: run_slots_def module_slots_def Let_def)
next
  case (Cons e es)
  then obtain n' where n: "n = Suc n'" by (cases n) auto
  let ?m = "is_mem (snd r)"
  have read: "rd (base + ucast (load32 (d + 12) ?m)) ?m = Some (ie_dll e)"
    using Cons.prems(1,2) by (intro reads_namesD [OF assms(1), where T = T]) (simp_all add: entry_fits_def)
  let ?slots = "if wanted (ie_dll e) then thunk_slots (base + ucast (ie_first e)) (ie_thunks e) else []"
  let ?r = "run_slots act hooks ?slots r"
  have split: "module_slots wanted base (e # es) = ?slots @ module_slots wanted base es"
    by (simp add: module_slots_def)
  have "walk_descriptor k rd act base hooks d r = Some ?r" if "wanted (ie_dll e)"
    using thunk_loop_run [OF assms, of r T base "names_table base d ?m" "ie_thunks e" k "base + ucast (ie_first e)" hooks]
      Cons.prems that
    by (auto simp: walk_descriptor_def names_table_def entry_fits_def split Let_def)
  then have one: "(if wanted (ie_dll e) then walk_descriptor k rd act base hooks d r else Some r) = Some ?r"
    by (simp add: run_slots_def)
  have "\<forall>x \<in> T. is_mem (snd ?r) x = ?m x"
    using Cons.prems(4) unfolding split by (intro ballI run_slots_local [OF assms(2)]) auto
  then have "imports_at (is_mem (snd ?r)) T base (d + 20) es" using Cons.prems(1) by (auto intro: imports_at_frame)
  then have rest: "import_loop k n' wanted rd act base hooks (d + 20) ?r =
      Some (run_slots act hooks (module_slots wanted base es) ?r)"
    using Cons.prems n by (intro Cons.IH) (auto simp: split)
  have goes: "\<not> (load32 (d + 12) ?m = 0 \<and> load32 (d + 16) ?m = 0)"
    using Cons.prems(1) unfolding imports_at.simps by (elim conjE)
  show ?case
    unfolding n split run_slots_append import_loop.simps Let_def if_not_P [OF goes] read option.case one by (rule rest)
qed

lemma walk_module_run:
  assumes "reads_names k rd" "local_action act" "module_at (is_mem s) T base es" "list_all (entry_fits k) es" "length es < k"
    and "\<forall>(slot, name) \<in> set (module_slots wanted base es). block slot 8 \<inter> T = {}"
  shows "walk_module k sized wanted rd act base hooks s = Some (run_slots act hooks (module_slots wanted base es) (0, s))"
proof -
  obtain va len where "base \<noteq> 0" "import_dir base (is_mem s) = Some (va, len)" "va \<noteq> 0" "len \<noteq> 0"
    "imports_at (is_mem s) T base (base + ucast va) es"
    using assms(3) by (auto simp: module_at_def)
  with import_loop_run [OF assms(1,2), of "(0, s)" T base "base + ucast va" es k wanted hooks] assms(4-6)
  show ?thesis by (simp add: walk_module_def)
qed

section \<open>The hooked slots\<close>

definition hook_for :: "hook_entry list \<Rightarrow> u8 list \<Rightarrow> hook_entry option" where
  "hook_for hooks name = List.find (\<lambda>h. name = strip_nul (he_name h)) hooks"

definition hooked :: "hook_entry list \<Rightarrow> (u64 \<times> u8 list) list \<Rightarrow> (u64 \<times> hook_entry) list" where
  "hooked hooks slots = List.map_filter (\<lambda>(slot, name). map_option (Pair slot) (hook_for hooks name)) slots"

fun act_all :: "'w slot_action \<Rightarrow> (u64 \<times> hook_entry) list \<Rightarrow> nat \<times> 'w iat_sys \<Rightarrow> nat \<times> 'w iat_sys" where
  "act_all act [] r = r"
| "act_all act ((slot, h) # hs) (n, s) = (let (k, s) = act slot h s in act_all act hs (n + k, s))"

text \<open>A table of hooks: no name and no cell twice.\<close>

definition hooks_ok :: "hook_entry list \<Rightarrow> bool" where
  "hooks_ok hooks \<longleftrightarrow> distinct (map (strip_nul \<circ> he_name) hooks) \<and> distinct (map he_original hooks)"

lemma slot_hooks_find:
  assumes "distinct (map (strip_nul \<circ> he_name) hooks)"
  shows "slot_hooks act slot name hooks (n, s) =
    (case hook_for hooks name of None \<Rightarrow> (n, s) | Some h \<Rightarrow> let (k, s) = act slot h s in (n + k, s))"
  using assms
proof (induction hooks arbitrary: n s)
  case (Cons h hooks)
  have none: "name = strip_nul (he_name h) \<Longrightarrow> hook_for hooks name = None"
    using Cons.prems by (auto simp: hook_for_def find_None_iff)
  show ?case
    using Cons none by (cases "act slot h s") (auto simp: hook_for_def)
qed (simp add: hook_for_def)

lemma run_slots_hooked:
  assumes "distinct (map (strip_nul \<circ> he_name) hooks)"
  shows "run_slots act hooks slots (n, s) = act_all act (hooked hooks slots) (n, s)"
proof (induction slots arbitrary: n s)
  case (Cons x slots)
  obtain slot name where x: "x = (slot, name)" by (cases x)
  show ?case
    using Cons by (cases "hook_for hooks name"; cases "act slot (the (hook_for hooks name)) s")
      (simp_all add: run_slots_def x slot_hooks_find [OF assms] hooked_def List.map_filter_simps)
qed (simp add: run_slots_def hooked_def List.map_filter_simps)

text \<open>Slots that do not overlap, and hooks that do not share a cell.\<close>

definition slots_apart :: "(u64 \<times> hook_entry) list \<Rightarrow> bool" where
  "slots_apart hs \<longleftrightarrow> sorted_wrt (\<lambda>(a, g) (b, h). block a 8 \<inter> block b 8 = {} \<and> he_original g \<noteq> he_original h) hs"

definition slot_bytes :: "(u64 \<times> hook_entry) list \<Rightarrow> u64 set" where
  "slot_bytes hs = (\<Union>(a, h) \<in> set hs. block a 8)"

lemma slot_bytes_simps [simp]:
  "slot_bytes [] = {}" "slot_bytes ((a, h) # hs) = block a 8 \<union> slot_bytes hs"
  by (simp_all add: slot_bytes_def)

lemma in_slot_bytes: "(a, h) \<in> set hs \<Longrightarrow> x \<in> block a 8 \<Longrightarrow> x \<in> slot_bytes hs"
  by (auto simp: slot_bytes_def)

lemma slots_apart_Cons [simp]:
  "slots_apart ((a, g) # hs) \<longleftrightarrow> block a 8 \<inter> slot_bytes hs = {} \<and> (\<forall>(b, h) \<in> set hs. he_original g \<noteq> he_original h) \<and> slots_apart hs"
  by (auto simp: slots_apart_def slot_bytes_def)

lemma patch_slot_ok:
  assumes "protect_ok protect"
  shows "fst (patch_slot protect a h s) = 1"
    "is_mem (snd (patch_slot protect a h s)) = poke a (to_le 8 (he_replacement h)) (is_mem s)"
    "is_cells (snd (patch_slot protect a h s)) = (is_cells s)(he_original h := load64 a (is_mem s))"
  using patch_code_ok [OF assms, of a "to_le 8 (he_replacement h)" "(is_mem s, is_world s)"]
  by (auto simp: patch_slot_def write_protected_def Let_def split: prod.split)

lemma restore_slot_ok:
  assumes "protect_ok protect"
  shows "fst (restore_slot protect a h s) = 1"
    "is_mem (snd (restore_slot protect a h s)) = poke a (to_le 8 (is_cells s (he_original h))) (is_mem s)"
    "is_cells (snd (restore_slot protect a h s)) = is_cells s"
  using patch_code_ok [OF assms, of a "to_le 8 (is_cells s (he_original h))" "(is_mem s, is_world s)"]
  by (auto simp: restore_slot_def write_protected_def Let_def split: prod.split)

lemma patch_all:
  assumes "protect_ok protect"
  shows "slots_apart hs \<Longrightarrow> act_all (patch_slot protect) hs (n, s) = (n', t) \<Longrightarrow>
    n' = n + length hs \<and> (\<forall>x. x \<notin> slot_bytes hs \<longrightarrow> is_mem t x = is_mem s x) \<and>
    (\<forall>c. (\<forall>(a, h) \<in> set hs. he_original h \<noteq> c) \<longrightarrow> is_cells t c = is_cells s c) \<and>
    (\<forall>(a, h) \<in> set hs. load64 a (is_mem t) = he_replacement h \<and> is_cells t (he_original h) = load64 a (is_mem s))"
proof (induction hs arbitrary: n s)
  case (Cons x hs)
  obtain a h where x: "x = (a, h)" by (cases x)
  obtain s1 where one: "patch_slot protect a h s = (1, s1)" using patch_slot_ok(1) [OF assms] by (metis prod.collapse)
  have m1: "is_mem s1 = poke a (to_le 8 (he_replacement h)) (is_mem s)"
    and c1: "is_cells s1 = (is_cells s)(he_original h := load64 a (is_mem s))"
    using patch_slot_ok [OF assms, of a h s] one by simp_all
  have apart: "block a 8 \<inter> slot_bytes hs = {}" "\<forall>(b, g) \<in> set hs. he_original h \<noteq> he_original g" "slots_apart hs"
    using Cons.prems(1) by (simp_all add: x)
  have run: "act_all (patch_slot protect) hs (n + 1, s1) = (n', t)" using Cons.prems(2) by (simp add: x one)
  note rest = Cons.IH [OF apart(3) run]
  have out: "is_mem s1 y = is_mem s y" if "y \<notin> block a 8" for y using that by (simp add: m1 poke_outside)
  have "load64 a (is_mem t) = load64 a (is_mem s1)" using rest apart(1) by (intro load_cong(1)) auto
  then have here: "load64 a (is_mem t) = he_replacement h" by (simp add: m1 load64_poke)
  have there: "load64 b (is_mem s1) = load64 b (is_mem s)" if "(b, g) \<in> set hs" for b g
    using apart(1) in_slot_bytes [OF that] by (intro load_cong(1) out) auto
  have keep: "(\<forall>(a, h) \<in> set hs. he_original h \<noteq> c) \<longrightarrow> is_cells t c = is_cells s1 c" for c using rest by simp
  have "is_cells t (he_original h) = is_cells s1 (he_original h)"
    by (rule keep [rule_format]) (use apart(2) in auto)
  then have cell: "is_cells t (he_original h) = load64 a (is_mem s)" by (simp add: c1)
  show ?case
    using rest out here there cell c1 by (auto simp: x)
qed simp

lemma restore_all:
  assumes "protect_ok protect"
  shows "slots_apart hs \<Longrightarrow> act_all (restore_slot protect) hs (n, s) = (n', t) \<Longrightarrow>
    n' = n + length hs \<and> (\<forall>x. x \<notin> slot_bytes hs \<longrightarrow> is_mem t x = is_mem s x) \<and> is_cells t = is_cells s \<and>
    (\<forall>(a, h) \<in> set hs. peek a 8 (is_mem t) = to_le 8 (is_cells s (he_original h)))"
proof (induction hs arbitrary: n s)
  case (Cons x hs)
  obtain a h where x: "x = (a, h)" by (cases x)
  obtain s1 where one: "restore_slot protect a h s = (1, s1)" using restore_slot_ok(1) [OF assms] by (metis prod.collapse)
  have m1: "is_mem s1 = poke a (to_le 8 (is_cells s (he_original h))) (is_mem s)" and c1: "is_cells s1 = is_cells s"
    using restore_slot_ok [OF assms, of a h s] one by simp_all
  have apart: "block a 8 \<inter> slot_bytes hs = {}" "slots_apart hs" using Cons.prems(1) by (simp_all add: x)
  have run: "act_all (restore_slot protect) hs (n + 1, s1) = (n', t)" using Cons.prems(2) by (simp add: x one)
  note rest = Cons.IH [OF apart(2) run]
  have "peek a 8 (is_mem t) = peek a 8 (is_mem s1)" using rest apart(1) by (intro peek_cong) auto
  then have here: "peek a 8 (is_mem t) = to_le 8 (is_cells s (he_original h))" by (simp add: m1 peek_poke)
  have out: "is_mem s1 y = is_mem s y" if "y \<notin> block a 8" for y using that by (simp add: m1 poke_outside)
  show ?case using rest out here c1 by (auto simp: x)
qed simp

section \<open>Patching and restoring a module\<close>

definition separate_slots :: "(u64 \<times> u8 list) list \<Rightarrow> bool" where
  "separate_slots slots \<longleftrightarrow> sorted_wrt (\<lambda>(a, m) (b, n). block a 8 \<inter> block b 8 = {} \<and> m \<noteq> n) slots"

lemma hook_forD: "hook_for hooks name = Some h \<Longrightarrow> h \<in> set hooks \<and> name = strip_nul (he_name h)"
  by (auto simp: hook_for_def find_Some_iff)

lemma hooked_member: "(b, g) \<in> set (hooked hooks slots) \<longleftrightarrow> (\<exists>m. (b, m) \<in> set slots \<and> hook_for hooks m = Some g)"
  by (force simp: hooked_def List.map_filter_def)

lemma same_cell:
  assumes "hooks_ok hooks" "g \<in> set hooks" "h \<in> set hooks" "he_original g = he_original h"
  shows "g = h"
  using assms by (auto simp: hooks_ok_def distinct_map dest: inj_onD)

lemma hooked_apart:
  assumes "hooks_ok hooks"
  shows "separate_slots slots \<Longrightarrow> slots_apart (hooked hooks slots)"
proof (induction slots)
  case (Cons x slots)
  obtain a name where x: "x = (a, name)" by (cases x)
  have tail: "slots_apart (hooked hooks slots)" using Cons by (simp add: separate_slots_def)
  show ?case
  proof (cases "hook_for hooks name")
    case None
    then show ?thesis using tail by (simp add: x hooked_def List.map_filter_simps)
  next
    case (Some h)
    have sep: "block a 8 \<inter> block b 8 = {} \<and> he_original h \<noteq> he_original g" if "(b, g) \<in> set (hooked hooks slots)" for b g
    proof -
      obtain m where m: "(b, m) \<in> set slots" "hook_for hooks m = Some g"
        using \<open>(b, g) \<in> set (hooked hooks slots)\<close> unfolding hooked_member by (elim exE conjE)
      have here: "block a 8 \<inter> block b 8 = {}" "name \<noteq> m" using Cons.prems m(1) by (auto simp: separate_slots_def x)
      have "h \<in> set hooks" "g \<in> set hooks" "name = strip_nul (he_name h)" "m = strip_nul (he_name g)"
        using hook_forD [OF Some] hook_forD [OF m(2)] by simp_all
      then show ?thesis using here same_cell [OF assms, of h g] by blast
    qed
    then have "block a 8 \<inter> slot_bytes (hooked hooks slots) = {}" unfolding slot_bytes_def by blast
    then show ?thesis
      using Some tail sep by (auto simp: x hooked_def List.map_filter_simps)
  qed
qed (simp add: slots_apart_def hooked_def List.map_filter_simps)

lemma write_protected_local: "x \<notin> block slot 8 \<Longrightarrow> is_mem (snd (write_protected protect slot v s)) x = is_mem s x"
  using patch_code_outside [of x slot "to_le 8 v" protect "(is_mem s, is_world s)"]
  by (simp add: write_protected_def case_prod_beta Let_def)

lemma local_actions: "local_action (patch_slot protect)" "local_action (restore_slot protect)"
  by (simp_all add: local_action_def patch_slot_def restore_slot_def write_protected_local case_prod_beta Let_def)

lemma peek_eqD: "peek a n m = peek a n m' \<Longrightarrow> x \<in> block a n \<Longrightarrow> m x = m' x"
  by (elim block_offsetE) (simp add: peek_def)

text \<open>
  Patching a module and restoring it. For a loaded module whose slots lie outside its tables and
  where no hooked function is imported twice, \<open>patch_module\<close> puts the replacement into exactly the
  slots of hooked functions of the DLL, whatever the case of its name, keeps each function that was
  there in the hook's cell, counts the slots and changes no other byte; then \<open>restore_module\<close> gives the
  memory back. Both end within any bound above the sizes of the tables.
\<close>

lemma iat_patch_and_restore:
  assumes "module_at (is_mem s) T base es" "list_all (entry_fits k) es" "length es < k"
    and "slots = module_slots (\<lambda>name. ascii_eq_ignore_case name dll) base es"
    and "separate_slots slots" "\<forall>(slot, name) \<in> set slots. block slot 8 \<inter> T = {}" "hooks_ok hooks" "protect_ok protect"
  shows "\<exists>t u. patch_module protect k base dll hooks s = Some (length (hooked hooks slots), t) \<and>
    (\<forall>(slot, h) \<in> set (hooked hooks slots). load64 slot (is_mem t) = he_replacement h \<and>
      is_cells t (he_original h) = load64 slot (is_mem s)) \<and>
    (\<forall>x. x \<notin> slot_bytes (hooked hooks slots) \<longrightarrow> is_mem t x = is_mem s x) \<and>
    restore_module protect k base dll hooks t = Some (length (hooked hooks slots), u) \<and> is_mem u = is_mem s"
proof -
  let ?hs = "hooked hooks slots"
  have names: "distinct (map (strip_nul \<circ> he_name) hooks)" using assms(7) by (simp add: hooks_ok_def)
  have apart: "slots_apart ?hs" by (rule hooked_apart [OF assms(7,5)])
  obtain n t where t: "act_all (patch_slot protect) ?hs (0, s) = (n, t)" by fastforce
  note patched = patch_all [OF assms(8) apart t]
  obtain n' u where u: "act_all (restore_slot protect) ?hs (0, t) = (n', u)" by fastforce
  note restored = restore_all [OF assms(8) apart u]
  have clear: "block a 8 \<inter> T = {}" if "(a, h) \<in> set ?hs" for a h
  proof -
    obtain m where "(a, m) \<in> set slots" using \<open>(a, h) \<in> set ?hs\<close> unfolding hooked_member by (elim exE conjE)
    from bspec [OF assms(6) this] show ?thesis by simp
  qed
  then have "T \<inter> slot_bytes ?hs = {}" unfolding slot_bytes_def by blast
  then have same: "\<forall>x \<in> T. is_mem t x = is_mem s x" using patched by auto
  have first: "patch_module protect k base dll hooks s = Some (length ?hs, t)"
    using walk_module_run [OF cstr_reads local_actions(1) assms(1-3)] assms(4,6) t patched
    by (simp add: patch_module_def run_slots_hooked [OF names])
  have second: "restore_module protect k base dll hooks t = Some (length ?hs, u)"
    using walk_module_run [OF cstr_reads local_actions(2) module_at_frame [OF same assms(1)] assms(2,3)] assms(4,6) u restored
    by (simp add: restore_module_def run_slots_hooked [OF names])
  have "is_mem u x = is_mem s x" for x
  proof (cases "x \<in> slot_bytes ?hs")
    case True
    then obtain a h where ah: "(a, h) \<in> set ?hs" "x \<in> block a 8" by (auto simp: slot_bytes_def)
    have "\<forall>(a, h) \<in> set ?hs. is_cells t (he_original h) = load64 a (is_mem s)" using patched by auto
    moreover have "\<forall>(a, h) \<in> set ?hs. peek a 8 (is_mem u) = to_le 8 (is_cells t (he_original h))" using restored by simp
    ultimately have "peek a 8 (is_mem u) = peek a 8 (is_mem s)" using ah(1) by (auto dest!: bspec [OF _ ah(1)])
    then show ?thesis using ah(2) by (rule peek_eqD)
  next
    case False
    then show ?thesis using restored patched by simp
  qed
  then have "is_mem u = is_mem s" by (rule ext)
  then show ?thesis using first second patched by (intro exI [of _ t] exI [of _ u] conjI) simp_all
qed

text \<open>
  A slot patched twice loses the original: the hook itself is captured, so a hook that calls the real
  function calls itself, and restoring leaves it in place.
\<close>

lemma patched_twice:
  assumes "protect_ok protect"
  shows "is_cells (snd (patch_slot protect a h (snd (patch_slot protect a h s)))) (he_original h) = he_replacement h"
  by (simp add: patch_slot_ok [OF assms] load64_poke)

end
