(* ===== verification/Shim_Load.thy ===== *)
theory Shim_Load
  imports Iat_Restore Channel
begin

text \<open>
  Loading the network shim: \<open>crates/psroot-netshim/src/install.rs\<close>, which patches the Winsock imports
  of modules and restores them when the guard is dropped, and \<open>dllmain.rs\<close>, which attaches to the
  daemon's shared memory and hooks the main executable. The captured functions are the cells of the
  import-table patcher; the client is the channel it talks over.
\<close>

section \<open>State\<close>

datatype install_error = ShimAlreadyInstalled | NoImportsFound

record 'w shim_os =
  so_protect :: "'w protect"
  so_limit :: nat                                        \<comment> \<open>rounds allowed to each loop of the walk\<close>
  so_address :: "string \<Rightarrow> u64"                          \<comment> \<open>where the hook of a function is\<close>
  so_main :: u64                                         \<comment> \<open>\<open>GetModuleHandleW\<close> of null\<close>
  so_env :: "string \<rightharpoonup> string"
  so_open :: "string \<Rightarrow> nat \<Rightarrow> 'w \<Rightarrow> bool \<times> 'w"             \<comment> \<open>\<open>SharedMemory::open\<close>\<close>

text \<open>\<open>sh_client\<close> is \<open>STATE\<close>, set once.\<close>

record 'w shim_sys =
  sh_iat :: "'w iat_sys"
  sh_client :: "channel option"
  sh_bypass :: u32

definition bytes_of :: "string \<Rightarrow> u8 list" where
  "bytes_of s = map of_char s"

definition winsock_names :: "string list" where
  "winsock_names = [''socket'', ''connect'', ''send'', ''recv'', ''closesocket'', ''bind'', ''listen'', ''getsockname'',
     ''getpeername'', ''sendto'', ''recvfrom'']"

definition build_entries :: "'w shim_os \<Rightarrow> hook_entry list" where
  "build_entries os = map (\<lambda>(i, name). \<lparr>he_name = bytes_of name @ [0], he_replacement = so_address os name, he_original = i\<rparr>)
     (enumerate 0 winsock_names)"

definition ws2_32 :: "u8 list" where "ws2_32 = bytes_of ''ws2_32.dll''"

section \<open>Installing and restoring\<close>

text \<open>Every module is patched, also after one without Winsock imports.\<close>

fun patch_modules :: "'w shim_os \<Rightarrow> hook_entry list \<Rightarrow> u64 list \<Rightarrow> bool \<times> 'w iat_sys \<Rightarrow> (bool \<times> 'w iat_sys) option" where
  "patch_modules os hooks [] r = Some r"
| "patch_modules os hooks (m # ms) (hit, s) = (case patch_module (so_protect os) (so_limit os) m ws2_32 hooks s of
       None \<Rightarrow> None | Some (hits, s) \<Rightarrow> patch_modules os hooks ms (hit \<or> 0 < hits, s))"

definition shim_install :: "'w shim_os \<Rightarrow> channel \<Rightarrow> u64 list \<Rightarrow> 'w shim_sys \<Rightarrow>
    ((install_error + u64 list) \<times> 'w shim_sys) option" where
  "shim_install os client modules s =
     (if sh_client s \<noteq> None then Some (Inl ShimAlreadyInstalled, s)
      else let b = sh_bypass s + 1 in
        case patch_modules os (build_entries os) modules (False, (sh_iat s)\<lparr>is_cells := (\<lambda>c. 0)\<rparr>) of
          None \<Rightarrow> None
        | Some (hit, i) \<Rightarrow> Some (if hit then Inr modules else Inl NoImportsFound,
            s\<lparr>sh_iat := i, sh_client := Some client, sh_bypass := (if b = 0 then 0 else b - 1)\<rparr>))"

definition install_main_exe :: "'w shim_os \<Rightarrow> channel \<Rightarrow> 'w shim_sys \<Rightarrow> ((install_error + u64 list) \<times> 'w shim_sys) option" where
  "install_main_exe os client s = shim_install os client [so_main os] s"

fun restore_modules :: "'w shim_os \<Rightarrow> hook_entry list \<Rightarrow> u64 list \<Rightarrow> 'w iat_sys \<Rightarrow> 'w iat_sys option" where
  "restore_modules os hooks [] s = Some s"
| "restore_modules os hooks (m # ms) s = (case restore_module (so_protect os) (so_limit os) m ws2_32 hooks s of
       None \<Rightarrow> None | Some (_, s) \<Rightarrow> restore_modules os hooks ms s)"

definition shim_guard_drop :: "'w shim_os \<Rightarrow> u64 list \<Rightarrow> 'w shim_sys \<Rightarrow> 'w shim_sys option" where
  "shim_guard_drop os modules s = (case sh_client s of
       None \<Rightarrow> Some s
     | Some _ \<Rightarrow> map_option (\<lambda>i. s\<lparr>sh_iat := i\<rparr>) (restore_modules os (build_entries os) modules (sh_iat s)))"

section \<open>Loading the DLL\<close>

text \<open>
  The init thread: whatever is missing or does not fit, the DLL does nothing. The guard is forgotten,
  so the hooks stay. The first component says whether they went in.
\<close>

definition shim_try_init :: "'w shim_os \<Rightarrow> 'w shim_sys \<Rightarrow> (bool \<times> 'w shim_sys) option" where
  "shim_try_init os s =
     (case so_env os ''PSROOT_NS_NAME'' of None \<Rightarrow> Some (False, s) | Some name \<Rightarrow>
      (case Option.bind (so_env os ''PSROOT_NS_SIZE'') (parse_uint (2 ^ 64)) of None \<Rightarrow> Some (False, s) | Some len \<Rightarrow>
       (let layout = layout_new DEFAULT_RING_SLOTS in
        if cl_total_size layout \<noteq> len then Some (False, s)
        else case so_open os name len (is_world (sh_iat s)) of
          (False, w) \<Rightarrow> Some (False, s\<lparr>sh_iat := (sh_iat s)\<lparr>is_world := w\<rparr>\<rparr>)
        | (True, w) \<Rightarrow>
            map_option (\<lambda>(r, s). (case r of Inl e \<Rightarrow> False | Inr ms \<Rightarrow> True, s))
              (install_main_exe os (channel_attach layout Shim) (s\<lparr>sh_iat := (sh_iat s)\<lparr>is_world := w\<rparr>\<rparr>)))))"

text \<open>\<open>DllMain\<close>, with whether the thread could be created; it always returns \<open>TRUE\<close>.\<close>

definition shim_dll_main :: "'w shim_os \<Rightarrow> u32 \<Rightarrow> bool \<Rightarrow> 'w shim_sys \<Rightarrow> 'w shim_sys option" where
  "shim_dll_main os reason spawned s =
     (if reason = 1 \<and> spawned then map_option snd (shim_try_init os s) else Some s)"

section \<open>In and out again\<close>

lemma build_entries_ok: "hooks_ok (build_entries os)"
  by (simp add: hooks_ok_def build_entries_def winsock_names_def strip_nul_def bytes_of_def comp_def)

text \<open>
  C38. Winsock hooks go in and come out. For a loaded executable whose slots lie outside its tables and
  which imports no hooked function twice, \<open>install\<close> reports success exactly when some hooked function is
  imported; every such slot then leads to its hook, the function that was there is kept for the hook
  to call, no other byte has changed, and the bypass counter is as before. Dropping the guard gives
  the memory back.
\<close>

theorem shim_hooks_go_in_and_out:
  assumes "module_at (is_mem (sh_iat s)) T base es" "list_all (entry_fits (so_limit os)) es" "length es < so_limit os"
    and "slots = module_slots (\<lambda>name. ascii_eq_ignore_case name ws2_32) base es" "separate_slots slots"
    and "\<forall>(slot, name) \<in> set slots. block slot 8 \<inter> T = {}" "protect_ok (so_protect os)"
    and "sh_client s = None" "sh_bypass s \<noteq> - 1"
  shows "\<exists>t u. shim_install os client [base] s =
      Some (if hooked (build_entries os) slots = [] then Inl NoImportsFound else Inr [base], t) \<and>
    sh_client t = Some client \<and> sh_bypass t = sh_bypass s \<and>
    (\<forall>(slot, h) \<in> set (hooked (build_entries os) slots). load64 slot (is_mem (sh_iat t)) = he_replacement h \<and>
      is_cells (sh_iat t) (he_original h) = load64 slot (is_mem (sh_iat s))) \<and>
    (\<forall>x. x \<notin> slot_bytes (hooked (build_entries os) slots) \<longrightarrow> is_mem (sh_iat t) x = is_mem (sh_iat s) x) \<and>
    shim_guard_drop os [base] t = Some u \<and> is_mem (sh_iat u) = is_mem (sh_iat s)"
proof -
  let ?i = "(sh_iat s)\<lparr>is_cells := (\<lambda>c. 0)\<rparr>" and ?hs = "hooked (build_entries os) slots"
  have "module_at (is_mem ?i) T base es" using assms(1) by simp
  from iat_patch_and_restore [OF this assms(2-6) build_entries_ok [of os] assms(7)] obtain i j where
    patch: "patch_module (so_protect os) (so_limit os) base ws2_32 (build_entries os) ?i = Some (length ?hs, i)"
    and at: "\<forall>(slot, h) \<in> set ?hs. load64 slot (is_mem i) = he_replacement h \<and> is_cells i (he_original h) = load64 slot (is_mem ?i)"
    and out: "\<forall>x. x \<notin> slot_bytes ?hs \<longrightarrow> is_mem i x = is_mem ?i x"
    and restore: "restore_module (so_protect os) (so_limit os) base ws2_32 (build_entries os) i = Some (length ?hs, j)"
    and same: "is_mem j = is_mem ?i"
    by (elim exE conjE)
  let ?t = "s\<lparr>sh_iat := i, sh_client := Some client\<rparr>"
  have bypass: "sh_bypass s + 1 \<noteq> 0" using assms(9) by (simp add: eq_neg_iff_add_eq_0)
  have "shim_install os client [base] s = Some (if ?hs = [] then Inl NoImportsFound else Inr [base], ?t)"
    using assms(8) bypass by (simp add: shim_install_def patch Let_def)
  moreover have "shim_guard_drop os [base] ?t = Some (?t\<lparr>sh_iat := j\<rparr>)"
    by (simp add: shim_guard_drop_def restore)
  ultimately show ?thesis
    using at out same by (intro exI [of _ ?t] exI [of _ "?t\<lparr>sh_iat := j\<rparr>"]) simp
qed

section \<open>A small executable\<close>

text \<open>
  An executable at 10000 with one descriptor, for \<open>WS2_32.dll\<close>, and the functions \<open>send\<close> and \<open>bar\<close> in
  the slots from 10500.
\<close>

definition demo_module :: memory where
  "demo_module a = (case map_of [
      (0x10000, 77), (0x10001, 90), (0x1003C, 64), (0x10040, 80), (0x10041, 69), (0x100D1, 2), (0x100D4, 40),
      (0x10201, 3), (0x1020D, 4), (0x10211, 5), (0x10300, 32), (0x10301, 4), (0x10308, 64), (0x10309, 4),
      (0x10400, 87), (0x10401, 83), (0x10402, 50), (0x10403, 95), (0x10404, 51), (0x10405, 50), (0x10406,
      46), (0x10407, 100), (0x10408, 108), (0x10409, 108), (0x10422, 115), (0x10423, 101), (0x10424,
      110), (0x10425, 100), (0x10442, 98), (0x10443, 97), (0x10444, 114), (0x10500, 17), (0x10501, 112),
      (0x10508, 34), (0x10509, 112)] a of
     Some b \<Rightarrow> b | None \<Rightarrow> 0)"

definition demo_imports :: "import_entry list" where
  "demo_imports = [\<lparr>ie_dll = bytes_of ''WS2_32.dll'', ie_thunks = [Named (bytes_of ''send''), Named (bytes_of ''bar'')],
     ie_first = 0x500\<rparr>]"

definition demo_shim_os :: "unit shim_os" where
  "demo_shim_os = \<lparr>so_protect = (\<lambda>a n p w. (Some 4, w)), so_limit = 16, so_address = (\<lambda>name. 0x9000), so_main = 0x10000,
     so_env = Map.empty, so_open = (\<lambda>name len w. (True, w))\<rparr>"

definition demo_shim_sys :: "unit shim_sys" where
  "demo_shim_sys = \<lparr>sh_iat = \<lparr>is_mem = demo_module, is_cells = (\<lambda>c. 0), is_world = ()\<rparr>, sh_client = None, sh_bypass = 0\<rparr>"

lemma peeks:
  "peek a 2 m = [m a, m (a + 1)]" "peek a 4 m = [m a, m (a + 1), m (a + 2), m (a + 3)]"
  "peek a 8 m = [m a, m (a + 1), m (a + 2), m (a + 3), m (a + 4), m (a + 5), m (a + 6), m (a + 7)]"
  by (simp_all add: peek_def upt_rec)

lemma demo_loads:
  "load16 0x10000 demo_module = 0x5A4D" "load32 0x1003C demo_module = 0x40" "load32 0x10040 demo_module = 0x4550"
  "load32 0x100D0 demo_module = 0x200" "load32 0x100D4 demo_module = 40"
  "load32 0x10200 demo_module = 0x300" "load32 0x1020C demo_module = 0x400" "load32 0x10210 demo_module = 0x500"
  "load32 0x10220 demo_module = 0" "load32 0x10224 demo_module = 0"
  "load64 0x10300 demo_module = 0x420" "load64 0x10308 demo_module = 0x440" "load64 0x10310 demo_module = 0"
  "load64 0x10500 demo_module = 0x7011"
  by (simp_all add: load16_def load32_def load64_def peeks demo_module_def)

lemma demo_bytes:
  "cstr_at demo_module (block 0x10000 0x500) 0x10400 (bytes_of ''WS2_32.dll'')"
  "cstr_at demo_module (block 0x10000 0x500) 0x10422 (bytes_of ''send'')"
  "cstr_at demo_module (block 0x10000 0x500) 0x10442 (bytes_of ''bar'')"
  by (simp_all add: mem_block bytes_of_def) (simp_all add: demo_module_def)

lemma demo_tables: "module_at demo_module (block 0x10000 0x500) 0x10000 demo_imports"
proof -
  let ?T = "block 0x10000 0x500" and ?m = demo_module
  have nt: "nt_header 0x10000 ?m = 0x10040" by (simp add: nt_header_def demo_loads)
  have dir: "import_dir 0x10000 ?m = Some (0x200, 40)" by (simp add: import_dir_def nt demo_loads Let_def)
  have names: "names_table 0x10000 0x10200 ?m = 0x10300" by (simp add: names_table_def demo_loads)
  have "thunks_at ?m ?T 0x10000 0x10300 [Named (bytes_of ''send''), Named (bytes_of ''bar'')]"
    using demo_bytes by (simp add: demo_loads ordinal_flag_def block_within)
  then have "imports_at ?m ?T 0x10000 0x10200 demo_imports"
    using demo_bytes(1) by (simp add: demo_imports_def demo_loads names block_within)
  then show ?thesis unfolding module_at_def nt by (intro conjI exI [of _ "0x200"] exI [of _ "40"]) (simp_all add: dir block_within)
qed

lemma demo_slots:
  "module_slots (\<lambda>name. ascii_eq_ignore_case name ws2_32) 0x10000 demo_imports =
    [(0x10500, bytes_of ''send''), (0x10508, bytes_of ''bar'')]"
proof -
  have "ascii_eq_ignore_case (bytes_of ''WS2_32.dll'') ws2_32"
    by (simp add: ascii_eq_ignore_case_def to_ascii_lowercase_def ws2_32_def bytes_of_def)
  then show ?thesis by (simp add: module_slots_def demo_imports_def)
qed

lemma demo_hooked:
  "hooked (build_entries demo_shim_os) [(0x10500, bytes_of ''send''), (0x10508, bytes_of ''bar'')] =
    [(0x10500, \<lparr>he_name = bytes_of ''send'' @ [0], he_replacement = 0x9000, he_original = 2\<rparr>)]"
  by (simp add: hooked_def hook_for_def build_entries_def winsock_names_def strip_nul_def bytes_of_def demo_shim_os_def
      List.map_filter_simps)

lemma shim_hooks_go_in_and_out_witness:
  "\<exists>t u. shim_install demo_shim_os (channel_attach default_layout Shim) [0x10000] demo_shim_sys = Some (Inr [0x10000], t) \<and>
     load64 0x10500 (is_mem (sh_iat t)) = 0x9000 \<and> is_cells (sh_iat t) 2 = 0x7011 \<and> is_mem (sh_iat t) 0x10508 = 0x22 \<and>
     shim_guard_drop demo_shim_os [0x10000] t = Some u \<and> is_mem (sh_iat u) = demo_module"
proof -
  let ?slots = "[(0x10500, bytes_of ''send''), (0x10508, bytes_of ''bar'')] :: (u64 \<times> u8 list) list"
  let ?T = "block 0x10000 0x500"
  have tables: "module_at (is_mem (sh_iat demo_shim_sys)) ?T 0x10000 demo_imports"
    using demo_tables by (simp add: demo_shim_sys_def)
  have fits: "list_all (entry_fits (so_limit demo_shim_os)) demo_imports" "length demo_imports < so_limit demo_shim_os"
    by (simp_all add: demo_imports_def entry_fits_def demo_shim_os_def bytes_of_def)
  have apart: "separate_slots ?slots" "\<forall>(slot, name) \<in> set ?slots. block slot 8 \<inter> ?T = {}"
    by (simp_all add: separate_slots_def blocks_apart bytes_of_def)
  have rest: "protect_ok (so_protect demo_shim_os)" "sh_client demo_shim_sys = None" "sh_bypass demo_shim_sys \<noteq> - 1"
    by (simp_all add: demo_shim_os_def demo_shim_sys_def protect_ok_def)
  note res = shim_hooks_go_in_and_out [OF tables fits demo_slots [symmetric] apart rest, of "channel_attach default_layout Shim"]
  from res obtain t u where
    run: "shim_install demo_shim_os (channel_attach default_layout Shim) [0x10000] demo_shim_sys =
      Some (if hooked (build_entries demo_shim_os) ?slots = [] then Inl NoImportsFound else Inr [0x10000], t)"
    and at: "\<forall>(slot, h) \<in> set (hooked (build_entries demo_shim_os) ?slots). load64 slot (is_mem (sh_iat t)) = he_replacement h \<and>
      is_cells (sh_iat t) (he_original h) = load64 slot (is_mem (sh_iat demo_shim_sys))"
    and out: "\<forall>x. x \<notin> slot_bytes (hooked (build_entries demo_shim_os) ?slots) \<longrightarrow>
      is_mem (sh_iat t) x = is_mem (sh_iat demo_shim_sys) x"
    and undo: "shim_guard_drop demo_shim_os [0x10000] t = Some u" and same: "is_mem (sh_iat u) = is_mem (sh_iat demo_shim_sys)"
    by (elim exE conjE)
  have mem: "is_mem (sh_iat demo_shim_sys) = demo_module" by (simp add: demo_shim_sys_def)
  have "(0x10508 :: u64) \<notin> block 0x10500 8" by (simp add: mem_block)
  then have "is_mem (sh_iat t) 0x10508 = 0x22" using out unfolding demo_hooked mem by (simp add: demo_module_def)
  moreover have "load64 0x10500 (is_mem (sh_iat t)) = 0x9000" "is_cells (sh_iat t) 2 = 0x7011"
    using at unfolding demo_hooked mem by (simp_all add: demo_loads)
  ultimately show ?thesis using run undo same unfolding demo_hooked mem by (intro exI [of _ t] exI [of _ u]) simp
qed

end
