(* ===== verification/Inline_Hook.thy ===== *)
theory Inline_Hook
  imports Code_Memory
begin

text \<open>
  How the process-visibility shim gets in front of \<open>ntdll\<close>: \<open>crates/psroot-procshim/src/install.rs\<close>,
  which overwrites the first bytes of two exported functions with a jump and keeps their system-call
  stub in a trampoline, and \<open>dllmain.rs\<close>, which installs the hooks when the DLL is loaded.
\<close>

section \<open>State\<close>

datatype hook_error = AlreadyInstalled | NtdllNotFound | FunctionNotFound string | PatchFailed string

text \<open>\<open>ShimState\<close>: the root of the container and where the real functions can be called.\<close>

record proc_shim =
  ps_root_pid :: u32
  ps_query :: u64
  ps_open :: u64

record 'w hook_os =
  ho_protect :: "'w protect"
  ho_alloc :: "nat \<Rightarrow> 'w \<Rightarrow> u64 option \<times> 'w"
  ho_ntdll :: "'w \<Rightarrow> u64 option"
  ho_proc :: "u64 \<Rightarrow> string \<Rightarrow> 'w \<Rightarrow> u64 option"
  ho_pid :: u32
  ho_query_hook :: u64
  ho_open_hook :: u64

record 'w hook_sys =
  hk_mem :: memory
  hk_shim :: "proc_shim option"
  hk_bypass :: u32
  hk_world :: 'w

record patch_record =
  pr_target :: u64
  pr_bytes :: "u8 list"
  pr_trampoline :: u64

section \<open>One function\<close>

definition SYSCALL_STUB_SIZE :: nat where "SYSCALL_STUB_SIZE = 24"
definition PATCH_SIZE :: nat where "PATCH_SIZE = 16"

text \<open>\<open>jmp qword ptr [rip+0]\<close>, the address, and two \<open>nop\<close>s.\<close>

definition jump_patch :: "u64 \<Rightarrow> u8 list" where
  "jump_patch hook = [0xFF, 0x25, 0, 0, 0, 0] @ to_le 8 hook @ [0x90, 0x90]"

definition apply_inline_hook :: "'w hook_os \<Rightarrow> u64 \<Rightarrow> u64 \<Rightarrow> 'w hook_sys \<Rightarrow> u64 option \<times> 'w hook_sys" where
  "apply_inline_hook os target hook s = (case ho_alloc os SYSCALL_STUB_SIZE (hk_world s) of
       (None, w) \<Rightarrow> (None, s\<lparr>hk_world := w\<rparr>)
     | (Some tramp, w) \<Rightarrow>
       (let m = poke tramp (peek target SYSCALL_STUB_SIZE (hk_mem s)) (hk_mem s);
            (ok, m, w) = patch_code (ho_protect os) target (jump_patch hook) (m, w)
        in (if ok then Some tramp else None, s\<lparr>hk_mem := m, hk_world := w\<rparr>)))"

definition restore_patch :: "'w hook_os \<Rightarrow> patch_record \<Rightarrow> 'w hook_sys \<Rightarrow> 'w hook_sys" where
  "restore_patch os p s = (let (_, m, w) = patch_code (ho_protect os) (pr_target p) (pr_bytes p) (hk_mem s, hk_world s)
     in s\<lparr>hk_mem := m, hk_world := w\<rparr>)"

section \<open>Installing\<close>

text \<open>One export hooked: the real function is stored once the jump is in place.\<close>

definition hook_export :: "'w hook_os \<Rightarrow> u64 \<Rightarrow> string \<Rightarrow> u64 \<Rightarrow> (u64 \<Rightarrow> proc_shim \<Rightarrow> proc_shim) \<Rightarrow> 'w hook_sys \<Rightarrow>
    (hook_error + patch_record) \<times> 'w hook_sys" where
  "hook_export os ntdll name hook store s = (case ho_proc os ntdll name (hk_world s) of
       None \<Rightarrow> (Inl (FunctionNotFound name), s)
     | Some target \<Rightarrow> (case apply_inline_hook os target hook s of
         (None, s) \<Rightarrow> (Inl (PatchFailed name), s)
       | (Some tramp, s) \<Rightarrow>
         (Inr \<lparr>pr_target = target, pr_bytes = peek tramp PATCH_SIZE (hk_mem s), pr_trampoline = tramp\<rparr>,
          s\<lparr>hk_shim := map_option (store tramp) (hk_shim s)\<rparr>)))"

definition install_hooks :: "'w hook_os \<Rightarrow> 'w hook_sys \<Rightarrow> (hook_error + patch_record list) \<times> 'w hook_sys" where
  "install_hooks os s = (case ho_ntdll os (hk_world s) of
       None \<Rightarrow> (Inl NtdllNotFound, s)
     | Some ntdll \<Rightarrow>
       st_bind (hook_export os ntdll ''NtQuerySystemInformation'' (ho_query_hook os) (\<lambda>t st. st\<lparr>ps_query := t\<rparr>) s) (\<lambda>p s.
       st_bind (hook_export os ntdll ''NtOpenProcess'' (ho_open_hook os) (\<lambda>t st. st\<lparr>ps_open := t\<rparr>) s) (\<lambda>q s.
       (Inr [p, q], s))))"

definition proc_shim_new :: "u32 \<Rightarrow> proc_shim" where
  "proc_shim_new pid = \<lparr>ps_root_pid = pid, ps_query = 0, ps_open = 0\<rparr>"

text \<open>The bypass guard is held while the bytes change and dropped on every way out.\<close>

definition install :: "'w hook_os \<Rightarrow> 'w hook_sys \<Rightarrow> (hook_error + patch_record list) \<times> 'w hook_sys" where
  "install os s =
     (if hk_shim s \<noteq> None then (Inl AlreadyInstalled, s)
      else let (r, t) = install_hooks os (s\<lparr>hk_shim := Some (proc_shim_new (ho_pid os)), hk_bypass := hk_bypass s + 1\<rparr>)
        in (r, t\<lparr>hk_bypass := (if hk_bypass t = 0 then 0 else hk_bypass t - 1)\<rparr>))"

text \<open>\<open>Drop\<close> of the guard, and \<open>try_init\<close>, which forgets it.\<close>

definition guard_drop :: "'w hook_os \<Rightarrow> patch_record list \<Rightarrow> 'w hook_sys \<Rightarrow> 'w hook_sys" where
  "guard_drop os ps s = fold (restore_patch os) ps s"

definition try_init :: "'w hook_os \<Rightarrow> 'w hook_sys \<Rightarrow> bool \<times> 'w hook_sys" where
  "try_init os s = (let (r, s) = install os s in (case r of Inl e \<Rightarrow> False | Inr ps \<Rightarrow> True, s))"

definition dll_main :: "'w hook_os \<Rightarrow> u32 \<Rightarrow> 'w hook_sys \<Rightarrow> 'w hook_sys" where
  "dll_main os reason s = (if reason = 1 then snd (try_init os s) else s)"

section \<open>What the processor sees\<close>

text \<open>Where execution goes from an address that holds an indirect jump relative to the next instruction.\<close>

definition jump_target :: "u64 \<Rightarrow> memory \<Rightarrow> u64 option" where
  "jump_target a m = (if peek a 6 m = [0xFF, 0x25, 0, 0, 0, 0] then Some (load64 (a + 6) m) else None)"

lemma length_jump_patch [simp]: "length (jump_patch hook) = 16"
  by (simp add: jump_patch_def)

lemma jump_target_cong:
  assumes "\<And>x. x \<in> block a 16 \<Longrightarrow> m x = m' x"
  shows "jump_target a m = jump_target a m'"
proof -
  have "peek a 14 m = peek a 14 m'" using assms by (intro peek_cong) (auto simp: mem_block)
  then have "peek a 6 m @ peek (a + 6) 8 m = peek a 6 m' @ peek (a + 6) 8 m'"
    using peek_append [of a 6 8 m] peek_append [of a 6 8 m'] by simp
  then show ?thesis by (simp add: jump_target_def load64_def)
qed

lemma jump_target_patch: "jump_target a (poke a (jump_patch hook) m) = Some hook"
proof -
  let ?M = "poke a (jump_patch hook) m"
  have whole: "peek a 16 ?M = jump_patch hook" by (simp add: peek_poke)
  have "peek a 6 ?M = take 6 (peek a 16 ?M)" "peek (a + 6) 8 ?M = take 8 (drop 6 (peek a 16 ?M))"
    using peek_append [of a 6 10 ?M] peek_append [of "a + 6" 8 2 ?M] by simp_all
  then have "peek a 6 ?M = [0xFF, 0x25, 0, 0, 0, 0]" "peek (a + 6) 8 ?M = to_le 8 hook"
    unfolding whole by (simp_all add: jump_patch_def)
  then show ?thesis by (simp add: jump_target_def load64_def)
qed

section \<open>Installing and restoring\<close>

lemma peek_shorter: "peek a n m = peek a n m' \<Longrightarrow> k \<le> n \<Longrightarrow> peek a k m = peek a k m'"
  using peek_append [of a k "n - k" m] peek_append [of a k "n - k" m'] by simp

lemma block_mono: "k \<le> n \<Longrightarrow> block a k \<subseteq> block a n"
  by (auto simp: mem_block)

lemma hook_export_ok:
  assumes "hook_export os ntdll name hook store s = (Inr p, t)"
    and "block (pr_trampoline p) 24 \<inter> block (pr_target p) 24 = {}"
  shows "hk_mem t = poke (pr_target p) (jump_patch hook)
      (poke (pr_trampoline p) (peek (pr_target p) 24 (hk_mem s)) (hk_mem s))"
    and "pr_bytes p = peek (pr_target p) 16 (hk_mem s)"
    and "hk_shim t = map_option (store (pr_trampoline p)) (hk_shim s)"
    and "hk_bypass t = hk_bypass s"
proof -
  obtain target tramp s1 where found: "ho_proc os ntdll name (hk_world s) = Some target"
    and applied: "apply_inline_hook os target hook s = (Some tramp, s1)"
    and t: "t = s1\<lparr>hk_shim := map_option (store tramp) (hk_shim s1)\<rparr>"
    and p: "p = \<lparr>pr_target = target, pr_bytes = peek tramp 16 (hk_mem s1), pr_trampoline = tramp\<rparr>"
    using assms(1) by (auto simp: hook_export_def PATCH_SIZE_def split: option.splits prod.splits)
  let ?stub = "peek target 24 (hk_mem s)"
  have mem: "hk_mem s1 = poke target (jump_patch hook) (poke tramp ?stub (hk_mem s))"
    and same: "hk_shim s1 = hk_shim s" "hk_bypass s1 = hk_bypass s"
    using applied patch_code_True(1)
    by (auto simp: apply_inline_hook_def SYSCALL_STUB_SIZE_def Let_def split: option.splits prod.splits if_splits) fastforce
  have "peek tramp 24 (hk_mem s1) = peek tramp 24 (poke tramp ?stub (hk_mem s))"
    unfolding mem using assms(2) block_mono [of 16 24 target] by (intro peek_poke_other) (auto simp: p)
  then have "peek tramp 24 (hk_mem s1) = ?stub" by (simp add: peek_poke)
  then have "peek tramp 16 (hk_mem s1) = peek target 16 (hk_mem s)"
    using peek_append [of tramp 16 8 "hk_mem s1"] peek_append [of target 16 8 "hk_mem s"] by simp
  then show "hk_mem t = poke (pr_target p) (jump_patch hook) (poke (pr_trampoline p) (peek (pr_target p) 24 (hk_mem s)) (hk_mem s))"
    "pr_bytes p = peek (pr_target p) 16 (hk_mem s)"
    "hk_shim t = map_option (store (pr_trampoline p)) (hk_shim s)" "hk_bypass t = hk_bypass s"
    by (simp_all add: p t mem same)
qed

text \<open>The regions of an installation: the stubs of the two functions and their trampolines.\<close>

definition regions_apart :: "patch_record \<Rightarrow> patch_record \<Rightarrow> bool" where
  "regions_apart p q \<longleftrightarrow>
     (let rs = map (\<lambda>a. block a 24) [pr_target p, pr_target q, pr_trampoline p, pr_trampoline q] in
      \<forall>i < 4. \<forall>j < i. rs ! i \<inter> rs ! j = {})"

definition trampolines :: "patch_record \<Rightarrow> patch_record \<Rightarrow> u64 set" where
  "trampolines p q = block (pr_trampoline p) 24 \<union> block (pr_trampoline q) 24"

lemma regions_apartD:
  assumes "regions_apart p q"
  shows "block (pr_trampoline p) 24 \<inter> block (pr_target p) 24 = {}" "block (pr_trampoline q) 24 \<inter> block (pr_target q) 24 = {}"
    "block (pr_trampoline p) 24 \<inter> block (pr_target q) 24 = {}" "block (pr_trampoline q) 24 \<inter> block (pr_target p) 24 = {}"
    "block (pr_target q) 24 \<inter> block (pr_target p) 24 = {}" "block (pr_trampoline q) 24 \<inter> block (pr_trampoline p) 24 = {}"
  using assms by (auto simp: regions_apart_def Let_def numeral_eq_Suc less_Suc_eq)

lemma install_ok:
  assumes "install os s = (Inr [p, q], t)"
  obtains ntdll s1 u where "hook_export os ntdll ''NtQuerySystemInformation'' (ho_query_hook os) (\<lambda>t st. st\<lparr>ps_query := t\<rparr>)
      (s\<lparr>hk_shim := Some (proc_shim_new (ho_pid os)), hk_bypass := hk_bypass s + 1\<rparr>) = (Inr p, s1)"
    and "hook_export os ntdll ''NtOpenProcess'' (ho_open_hook os) (\<lambda>t st. st\<lparr>ps_open := t\<rparr>) s1 = (Inr q, u)"
    and "t = u\<lparr>hk_bypass := (if hk_bypass u = 0 then 0 else hk_bypass u - 1)\<rparr>"
  using assms
  by (auto simp: install_def install_hooks_def st_bind_def split: if_splits option.splits prod.splits sum.splits)

lemma restore_mem:
  "protect_ok (ho_protect os) \<Longrightarrow> hk_mem (restore_patch os p s) = poke (pr_target p) (pr_bytes p) (hk_mem s)"
  using patch_code_ok(2) [of "ho_protect os" "pr_target p" "pr_bytes p" "(hk_mem s, hk_world s)"]
  by (auto simp: restore_patch_def split: prod.split)

text \<open>The memory after two patches, the second of which finds the first made.\<close>

lemma two_hooks:
  assumes "regions_apart p q"
    and m1: "m1 = poke (pr_target p) (jump_patch h) (poke (pr_trampoline p) (peek (pr_target p) 24 m) m)"
    and m2: "m2 = poke (pr_target q) (jump_patch k) (poke (pr_trampoline q) (peek (pr_target q) 24 m1) m1)"
  shows "jump_target (pr_target p) m2 = Some h" and "jump_target (pr_target q) m2 = Some k"
    and "peek (pr_trampoline p) 24 m2 = peek (pr_target p) 24 m"
    and "peek (pr_trampoline q) 24 m2 = peek (pr_target q) 24 m"
proof -
  note apart = regions_apartD [OF assms(1)]
  have sub: "x \<in> block a 24" if "x \<in> block a 16" for x a
    using that by (simp add: mem_block)
  have out1: "m1 x = m x" if "x \<notin> block (pr_target p) 16" "x \<notin> block (pr_trampoline p) 24" for x
    using that by (simp add: m1 poke_outside)
  have out2: "m2 x = m1 x" if "x \<notin> block (pr_target q) 16" "x \<notin> block (pr_trampoline q) 24" for x
    using that by (simp add: m2 poke_outside)
  have "jump_target (pr_target p) m2 = jump_target (pr_target p) m1"
    using apart by (intro jump_target_cong out2) (auto dest: sub)
  then show "jump_target (pr_target p) m2 = Some h" by (simp add: m1 jump_target_patch)
  show "jump_target (pr_target q) m2 = Some k" by (simp add: m2 jump_target_patch)
  have "peek (pr_trampoline p) 24 m2 = peek (pr_trampoline p) 24 m1"
    using apart by (intro peek_cong out2) (auto dest: sub)
  also have "\<dots> = peek (pr_target p) 24 m"
    unfolding m1 using apart by (subst peek_poke_other) (auto simp: peek_poke dest: sub)
  finally show "peek (pr_trampoline p) 24 m2 = peek (pr_target p) 24 m" .
  have q_stub: "peek (pr_target q) 24 m1 = peek (pr_target q) 24 m"
    using apart by (intro peek_cong out1) (auto dest: sub)
  show "peek (pr_trampoline q) 24 m2 = peek (pr_target q) 24 m"
    unfolding m2 using apart by (subst peek_poke_other) (auto simp: peek_poke q_stub dest: sub)
qed

text \<open>
  C37. Inline hooks go in and come out. After a successful installation each of the two functions
  begins with a jump to its hook, the shim finds the function's own stub, byte for byte, where the
  hook calls the real function, nothing else in memory has changed, and the thread's bypass counter
  is as before. Dropping the guard gives the memory back, but for the trampolines, when pages can be
  made writable.
\<close>

theorem inline_hooks_go_in_and_out:
  assumes "install os s = (Inr [p, q], t)" and "regions_apart p q" and "hk_bypass s \<noteq> - 1"
  shows "jump_target (pr_target p) (hk_mem t) = Some (ho_query_hook os) \<and>
    jump_target (pr_target q) (hk_mem t) = Some (ho_open_hook os) \<and>
    hk_shim t = Some \<lparr>ps_root_pid = ho_pid os, ps_query = pr_trampoline p, ps_open = pr_trampoline q\<rparr> \<and>
    peek (pr_trampoline p) 24 (hk_mem t) = peek (pr_target p) 24 (hk_mem s) \<and>
    peek (pr_trampoline q) 24 (hk_mem t) = peek (pr_target q) 24 (hk_mem s) \<and>
    hk_bypass t = hk_bypass s \<and>
    (\<forall>x. x \<notin> block (pr_target p) 16 \<union> block (pr_target q) 16 \<union> trampolines p q \<longrightarrow> hk_mem t x = hk_mem s x) \<and>
    (protect_ok (ho_protect os) \<longrightarrow>
      (\<forall>x. x \<notin> trampolines p q \<longrightarrow> hk_mem (guard_drop os [p, q] t) x = hk_mem s x))"
proof -
  note apart = regions_apartD [OF assms(2)]
  have sub: "x \<in> block a 24" if "x \<in> block a 16" for x a
    using that by (simp add: mem_block)
  obtain ntdll s1 u where e1: "hook_export os ntdll ''NtQuerySystemInformation'' (ho_query_hook os) (\<lambda>t st. st\<lparr>ps_query := t\<rparr>)
      (s\<lparr>hk_shim := Some (proc_shim_new (ho_pid os)), hk_bypass := hk_bypass s + 1\<rparr>) = (Inr p, s1)"
    and e2: "hook_export os ntdll ''NtOpenProcess'' (ho_open_hook os) (\<lambda>t st. st\<lparr>ps_open := t\<rparr>) s1 = (Inr q, u)"
    and t: "t = u\<lparr>hk_bypass := (if hk_bypass u = 0 then 0 else hk_bypass u - 1)\<rparr>"
    by (rule install_ok [OF assms(1)])
  note first = hook_export_ok [OF e1 apart(1)] and second = hook_export_ok [OF e2 apart(2)]
  define m where "m = hk_mem s"
  define m1 where "m1 = hk_mem s1"
  have m1: "m1 = poke (pr_target p) (jump_patch (ho_query_hook os)) (poke (pr_trampoline p) (peek (pr_target p) 24 m) m)"
    and m2: "hk_mem t = poke (pr_target q) (jump_patch (ho_open_hook os)) (poke (pr_trampoline q) (peek (pr_target q) 24 m1) m1)"
    using first(1) second(1) by (simp_all add: t m_def m1_def)
  note hooked = two_hooks [OF assms(2) m1 m2]
  have out1: "m1 x = m x" if "x \<notin> block (pr_target p) 16" "x \<notin> block (pr_trampoline p) 24" for x
    using that by (simp add: m1 poke_outside)
  have out2: "hk_mem t x = m1 x" if "x \<notin> block (pr_target q) 16" "x \<notin> block (pr_trampoline q) 24" for x
    using that by (simp add: m2 poke_outside)
  have undone: "hk_mem (guard_drop os [p, q] t) x = m x"
    if "protect_ok (ho_protect os)" "x \<notin> trampolines p q" for x
  proof -
    have "hk_mem (guard_drop os [p, q] t) x =
        (if x \<in> block (pr_target q) 16 then m1 x else if x \<in> block (pr_target p) 16 then m x else hk_mem t x)"
      using first(2) second(2) by (simp add: guard_drop_def restore_mem [OF that(1)] poke_peek_at m_def m1_def)
    then show ?thesis using that(2) apart out1 [of x] out2 [of x] by (auto simp: trampolines_def split: if_splits dest: sub)
  qed
  show ?thesis
    using hooked undone out1 out2 first(3,4) second(3,4) assms(3)
    by (auto simp: t m_def trampolines_def proc_shim_new_def eq_neg_iff_add_eq_0)
qed

text \<open>A module whose two functions lie next to each other, and two free pages for the trampolines.\<close>

definition demo_hook_os :: "u64 list hook_os" where
  "demo_hook_os = \<lparr>ho_protect = (\<lambda>a n p w. (Some 0x20, w)),
     ho_alloc = (\<lambda>n w. case w of [] \<Rightarrow> (None, []) | a # rest \<Rightarrow> (Some a, rest)),
     ho_ntdll = (\<lambda>w. Some 0x1000),
     ho_proc = (\<lambda>m name w. Some (if name = ''NtOpenProcess'' then 0x2020 else 0x2000)),
     ho_pid = 4711, ho_query_hook = 0x7000, ho_open_hook = 0x7100\<rparr>"

definition demo_hook_sys :: "u64 list hook_sys" where
  "demo_hook_sys = \<lparr>hk_mem = (\<lambda>a. ucast a), hk_shim = None, hk_bypass = 0, hk_world = [0x5000, 0x6000]\<rparr>"

lemma demo_install: "\<exists>p q t. install demo_hook_os demo_hook_sys = (Inr [p, q], t) \<and> pr_target p = 0x2000 \<and>
    pr_target q = 0x2020 \<and> pr_trampoline p = 0x5000 \<and> pr_trampoline q = 0x6000"
  by (simp add: install_def install_hooks_def hook_export_def apply_inline_hook_def patch_code_def demo_hook_os_def
      demo_hook_sys_def Let_def)

lemma inline_hooks_go_in_and_out_witness:
  "\<exists>p q t. install demo_hook_os demo_hook_sys = (Inr [p, q], t) \<and> jump_target 0x2020 (hk_mem t) = Some 0x7100 \<and>
     peek 0x6000 24 (hk_mem t) = peek 0x2020 24 (\<lambda>a. ucast a) \<and>
     hk_mem (guard_drop demo_hook_os [p, q] t) 0x2025 = 0x25"
proof -
  obtain p q t where run: "install demo_hook_os demo_hook_sys = (Inr [p, q], t)" and
    at: "pr_target p = 0x2000" "pr_target q = 0x2020" "pr_trampoline p = 0x5000" "pr_trampoline q = 0x6000"
    using demo_install by (elim exE conjE)
  have "regions_apart p q"
    by (simp add: regions_apart_def at Let_def numeral_eq_Suc less_Suc_eq all_conj_distrib) (intro conjI blocks_apart; simp)
  moreover have "hk_bypass demo_hook_sys \<noteq> - 1" "protect_ok (ho_protect demo_hook_os)"
    by (simp_all add: demo_hook_sys_def demo_hook_os_def protect_ok_def)
  moreover have "(0x2025 :: u64) \<notin> trampolines p q" by (simp add: trampolines_def at mem_block)
  ultimately show ?thesis
    using inline_hooks_go_in_and_out [OF run] run at by (intro exI [of _ p] exI [of _ q] exI [of _ t]) (simp add: demo_hook_sys_def demo_hook_os_def)
qed

text \<open>
  A second function that cannot be found: the installation fails, the first hook stays in, and the
  guard that could remove it is gone.
\<close>

lemma partial_install:
  assumes "hk_shim s = None" "ho_ntdll os (hk_world s) = Some ntdll"
    and "hook_export os ntdll ''NtQuerySystemInformation'' (ho_query_hook os) (\<lambda>t st. st\<lparr>ps_query := t\<rparr>)
      (s\<lparr>hk_shim := Some (proc_shim_new (ho_pid os)), hk_bypass := hk_bypass s + 1\<rparr>) = (Inr p, s1)"
    and "ho_proc os ntdll ''NtOpenProcess'' (hk_world s1) = None"
  shows "\<exists>t. install os s = (Inl (FunctionNotFound ''NtOpenProcess''), t) \<and> hk_mem t = hk_mem s1"
  using assms by (simp add: install_def install_hooks_def) (simp add: hook_export_def)

end
