(* ===== verification/Peb_Patch.thy ===== *)
theory Peb_Patch
  imports Code_Memory Junction Sandbox_Silo
begin

text \<open>
  The image path of a suspended child, \<open>crates/psroot-container/src/peb_patch.rs\<close>: reading and writing
  the child's memory, and the two \<open>UNICODE_STRING\<close>s of its process parameters that are replaced.
  Explicit is the child's memory; which reads, writes and allocations fail is a parameter.
\<close>

section \<open>The child\<close>

text \<open>A write that fails has written some bytes. The padding of a \<open>UNICODE_STRING\<close> has no set value.\<close>

record 'w peb_os =
  pe_query :: "'w \<Rightarrow> u32 + u64"                        \<comment> \<open>status, or \<open>PebBaseAddress\<close>\<close>
  pe_read_fails :: "u64 \<Rightarrow> nat \<Rightarrow> 'w \<Rightarrow> u32 option"
  pe_write_fails :: "u64 \<Rightarrow> nat \<Rightarrow> 'w \<Rightarrow> (u32 \<times> nat) option"   \<comment> \<open>error, bytes written\<close>
  pe_alloc :: "nat \<Rightarrow> 'w \<Rightarrow> (u32 + u64) \<times> 'w"
  pe_utf16 :: "string \<Rightarrow> u16 list"
  pe_padding :: "u8 list"

record 'w peb_sys =
  pb_mem :: memory
  pb_world :: 'w

fun show_hex :: "nat \<Rightarrow> string" where
  "show_hex n = (if n < 16 then [hex_digit n] else show_hex (n div 16) @ [hex_digit (n mod 16)])"

declare show_hex.simps [simp del]

definition read_error :: "u64 \<Rightarrow> u32 \<Rightarrow> PsrootError" where
  "read_error addr err = OtherError (''ReadProcessMemory(@0x'' @ show_hex (unat addr) @ '') failed: win32 err '' @ show_nat (unat err))"

definition read_mem :: "'w peb_os \<Rightarrow> u64 \<Rightarrow> 'w peb_sys \<Rightarrow> PsrootError + u64" where
  "read_mem os addr s = (case pe_read_fails os addr 8 (pb_world s) of
       Some err \<Rightarrow> Inl (read_error addr err) | None \<Rightarrow> Inr (load64 addr (pb_mem s)))"

definition write_mem :: "'w peb_os \<Rightarrow> u64 \<Rightarrow> u8 list \<Rightarrow> 'w peb_sys \<Rightarrow> (PsrootError + unit) \<times> 'w peb_sys" where
  "write_mem os addr bs s = (case pe_write_fails os addr (length bs) (pb_world s) of
       Some (err, n) \<Rightarrow> (Inl (OtherError (''WriteProcessMemory(@0x'' @ show_hex (unat addr) @ '', '' @ show_nat (length bs) @
           '' bytes) failed: win32 err '' @ show_nat (unat err))), s\<lparr>pb_mem := poke addr (take n bs) (pb_mem s)\<rparr>)
     | None \<Rightarrow> (Inr (), s\<lparr>pb_mem := poke addr bs (pb_mem s)\<rparr>))"

section \<open>Replacing a string\<close>

definition unicode_string :: "'w peb_os \<Rightarrow> nat \<Rightarrow> nat \<Rightarrow> u64 \<Rightarrow> u8 list" where
  "unicode_string os len maximum buffer =
     to_le 2 (of_nat len :: u16) @ to_le 2 (of_nat maximum :: u16) @ pe_padding os @ to_le 8 buffer"

definition patch_field :: "'w peb_os \<Rightarrow> u64 \<Rightarrow> u64 \<Rightarrow> string \<Rightarrow> 'w peb_sys \<Rightarrow> (PsrootError + unit) \<times> 'w peb_sys" where
  "patch_field os params offset new s =
     (let wide = pe_utf16 os new @ [0]; bytes_with_nul = length wide * 2; length_bytes = (length wide - 1) * 2 in
      case pe_alloc os bytes_with_nul (pb_world s) of
        (Inl err, w) \<Rightarrow> (Inl (OtherError (''VirtualAllocEx(child PEB string) failed: win32 err '' @ show_nat (unat err))), s\<lparr>pb_world := w\<rparr>)
      | (Inr buffer, w) \<Rightarrow>
          st_bind (write_mem os buffer (wide_bytes wide) (s\<lparr>pb_world := w\<rparr>)) (\<lambda>_ s.
          write_mem os (params + offset) (unicode_string os length_bytes bytes_with_nul buffer) s))"

definition patch_image_path :: "'w peb_os \<Rightarrow> string \<Rightarrow> string option \<Rightarrow> 'w peb_sys \<Rightarrow> (PsrootError + unit) \<times> 'w peb_sys" where
  "patch_image_path os path cmdline s = (case pe_query os (pb_world s) of
       Inl st \<Rightarrow> (Inl (OtherError (''NtQueryInformationProcess(ProcessBasicInformation) -> 0x'' @ hex8 st)), s)
     | Inr peb \<Rightarrow>
       if peb = 0 then (Inl (OtherError ''NtQueryInformationProcess returned NULL PebBaseAddress''), s)
       else st_bind (read_mem os (peb + 0x20) s, s) (\<lambda>params s.
         if params = 0 then (Inl (OtherError ''child PEB.ProcessParameters is NULL (process not yet initialized?)''), s)
         else st_bind (patch_field os params 0x60 path s) (\<lambda>_ s.
           case cmdline of None \<Rightarrow> (Inr (), s) | Some cl \<Rightarrow> patch_field os params 0x70 cl s)))"

section \<open>Reading a string\<close>

text \<open>As the loader reads it: the length in bytes, and the characters at the buffer.\<close>

definition read_unicode :: "u64 \<Rightarrow> memory \<Rightarrow> u16 list" where
  "read_unicode a m = wide_chars (peek (load64 (a + 8) m) (unat (load16 a m)) m)"

lemma write_mem_ok: "write_mem os addr bs s = (Inr x, t) \<Longrightarrow> t = s\<lparr>pb_mem := poke addr bs (pb_mem s)\<rparr>"
  by (auto simp: write_mem_def split: option.splits prod.splits)

lemma patch_field_ok:
  assumes "patch_field os params offset new s = (Inr x, t)"
  obtains buffer w where "pe_alloc os (2 * length (pe_utf16 os new) + 2) (pb_world s) = (Inr buffer, w)"
    and "pb_world t = w"
    and "pb_mem t = poke (params + offset) (unicode_string os (2 * length (pe_utf16 os new)) (2 * length (pe_utf16 os new) + 2) buffer)
      (poke buffer (wide_bytes (pe_utf16 os new @ [0])) (pb_mem s))"
  using assms
  by (auto simp: patch_field_def st_bind_def Let_def mult.commute split: prod.splits sum.splits dest!: write_mem_ok)

lemma length_unicode_string: "length (pe_padding os) = 4 \<Longrightarrow> length (unicode_string os n k b) = 16"
  by (simp add: unicode_string_def)

lemma us_header_fields:
  assumes "length (pe_padding os) = 4" "peek a 16 m = unicode_string os n k b"
  shows "load16 a m = of_nat n" "load16 (a + 2) m = of_nat k" "load64 (a + 8) m = b"
proof -
  have "peek a 2 m = take 2 (peek a 16 m)" "peek (a + 2) 2 m = take 2 (drop 2 (peek a 16 m))"
    "peek (a + 8) 8 m = take 8 (drop 8 (peek a 16 m))"
    using peek_part [of 0 2 16 a m] peek_part [of 2 2 16 a m] peek_part [of 8 8 16 a m] by simp_all
  then show "load16 a m = of_nat n" "load16 (a + 2) m = of_nat k" "load64 (a + 8) m = b"
    using assms by (simp_all add: unicode_string_def load16_def load64_def)
qed

lemma wide_bytes_append: "wide_bytes (xs @ ys) = wide_bytes xs @ wide_bytes ys"
  by (simp add: wide_bytes_def)

lemma unicode_reads_back:
  assumes "length (pe_padding os) = 4" "length ws < 32767"
    and "peek a 16 m = unicode_string os (2 * length ws) (2 * length ws + 2) b"
    and "peek b (2 * length ws + 2) m = wide_bytes (ws @ [0])"
  shows "read_unicode a m = ws"
proof -
  have "load16 a m = of_nat (2 * length ws)" "load64 (a + 8) m = b" by (rule us_header_fields [OF assms(1,3)])+
  moreover have "unat (of_nat (2 * length ws) :: u16) = 2 * length ws" using assms(2) by (intro unat_of_nat_u16) simp
  moreover have "peek b (2 * length ws) m = take (2 * length ws) (wide_bytes (ws @ [0]))"
    using peek_part [of 0 "2 * length ws" "2 * length ws + 2" b m] assms(4) by simp
  then have "peek b (2 * length ws) m = wide_bytes ws" by (simp add: wide_bytes_append)
  ultimately show ?thesis by (simp add: read_unicode_def)
qed

text \<open>A header and its buffer that are as they were written give the string back.\<close>

lemma patched_reads:
  assumes pad: "length (pe_padding os) = 4" and short: "length ws < 32767"
    and apart: "block b (2 * length ws + 2) \<inter> block h 16 = {}"
    and agree: "\<And>x. x \<in> block h 16 \<union> block b (2 * length ws + 2) \<Longrightarrow>
      m' x = poke h (unicode_string os (2 * length ws) (2 * length ws + 2) b) (poke b (wide_bytes (ws @ [0])) m) x"
  shows "read_unicode h m' = ws"
proof -
  let ?n = "2 * length ws + 2" and ?m = "poke b (wide_bytes (ws @ [0])) m"
  let ?u = "unicode_string os (2 * length ws) ?n b"
  note len = length_unicode_string [OF pad]
  have wide: "length (wide_bytes (ws @ [0])) = ?n" and small: "?n \<le> 2 ^ 64" using short by simp_all
  have "peek h 16 m' = peek h 16 (poke h ?u ?m)" by (intro peek_cong agree) auto
  then have header: "peek h 16 m' = ?u" by (simp add: peek_poke len)
  have "peek b ?n m' = peek b ?n (poke h ?u ?m)" by (intro peek_cong agree small) auto
  also have "\<dots> = peek b ?n ?m" using apart len small by (intro peek_poke_other) auto
  also have "\<dots> = wide_bytes (ws @ [0])" using wide small by (intro peek_poke)
  finally show ?thesis by (rule unicode_reads_back [OF pad short header])
qed

text \<open>
  C39. The new paths are what the loader reads. When the call succeeds, with strings below 32767 UTF-16
  units and memory that \<open>VirtualAllocEx\<close> did not take from the two headers or hand out twice, reading
  \<open>ImagePathName\<close> and \<open>CommandLine\<close> of the process parameters gives the strings that were passed, and
  nothing but the headers and the new buffers has changed.
\<close>

theorem image_path_reads_back:
  assumes "patch_image_path os path (Some cl) s = (Inr (), t)" and "pe_query os (pb_world s) = Inr peb"
    and "params = load64 (peb + 0x20) (pb_mem s)" and pad: "length (pe_padding os) = 4"
    and short: "length (pe_utf16 os path) < 32767" "length (pe_utf16 os cl) < 32767"
    and fresh: "\<And>n w b w'. pe_alloc os n w = (Inr b, w') \<Longrightarrow> block b n \<inter> block (params + 0x60) 32 = {}"
    and once: "\<And>n w b w' k c w''. pe_alloc os n w = (Inr b, w') \<Longrightarrow> pe_alloc os k w' = (Inr c, w'') \<Longrightarrow> block b n \<inter> block c k = {}"
  shows "read_unicode (params + 0x60) (pb_mem t) = pe_utf16 os path \<and>
    read_unicode (params + 0x70) (pb_mem t) = pe_utf16 os cl \<and>
    (\<exists>b c. \<forall>x. x \<notin> block (params + 0x60) 32 \<union> block b (2 * length (pe_utf16 os path) + 2) \<union> block c (2 * length (pe_utf16 os cl) + 2) \<longrightarrow>
      pb_mem t x = pb_mem s x)"
proof -
  let ?p = "pe_utf16 os path" and ?c = "pe_utf16 os cl" and ?h = "params + 0x60" and ?g = "params + 0x70"
  obtain s1 where f1: "patch_field os params 0x60 path s = (Inr (), s1)" and f2: "patch_field os params 0x70 cl s1 = (Inr (), t)"
    using assms(1-3) by (auto simp: patch_image_path_def read_mem_def st_bind_def split: if_splits option.splits prod.splits sum.splits)
  obtain b w1 where b: "pe_alloc os (2 * length ?p + 2) (pb_world s) = (Inr b, w1)" "pb_world s1 = w1"
    and m1: "pb_mem s1 = poke ?h (unicode_string os (2 * length ?p) (2 * length ?p + 2) b) (poke b (wide_bytes (?p @ [0])) (pb_mem s))"
    using f1 by (rule patch_field_ok)
  obtain c w2 where c: "pe_alloc os (2 * length ?c + 2) (pb_world s1) = (Inr c, w2)"
    and m2: "pb_mem t = poke ?g (unicode_string os (2 * length ?c) (2 * length ?c + 2) c) (poke c (wide_bytes (?c @ [0])) (pb_mem s1))"
    using f2 by (rule patch_field_ok)
  note len = length_unicode_string [OF pad]
  have wide: "length (wide_bytes (ws @ [0])) = 2 * length ws + 2" for ws by simp
  have sub: "block ?h 16 \<subseteq> block ?h 32" "block ?g 16 \<subseteq> block ?h 32" and headers: "block ?h 16 \<inter> block ?g 16 = {}"
    by (simp_all add: block_within blocks_apart)
  have apart: "block b (2 * length ?p + 2) \<inter> block ?h 32 = {}" "block c (2 * length ?c + 2) \<inter> block ?h 32 = {}"
    "block b (2 * length ?p + 2) \<inter> block c (2 * length ?c + 2) = {}"
    using fresh [OF b(1)] fresh [OF c] once [OF b(1)] c b(2) by auto
  have out1: "pb_mem s1 x = pb_mem s x" if "x \<notin> block ?h 16" "x \<notin> block b (2 * length ?p + 2)" for x
    using that by (simp add: m1 poke_outside len wide del: length_wide_bytes)
  have out2: "pb_mem t x = pb_mem s1 x" if "x \<notin> block ?g 16" "x \<notin> block c (2 * length ?c + 2)" for x
    using that by (simp add: m2 poke_outside len wide del: length_wide_bytes)
  have one: "read_unicode ?h (pb_mem t) = ?p"
  proof (rule patched_reads [OF pad short(1)])
    show "block b (2 * length ?p + 2) \<inter> block ?h 16 = {}" using apart sub by blast
    show "pb_mem t x = poke ?h (unicode_string os (2 * length ?p) (2 * length ?p + 2) b)
        (poke b (wide_bytes (?p @ [0])) (pb_mem s)) x" if "x \<in> block ?h 16 \<union> block b (2 * length ?p + 2)" for x
      unfolding m1 [symmetric] using that apart sub headers by (intro out2) auto
  qed
  have two: "read_unicode ?g (pb_mem t) = ?c"
    by (rule patched_reads [OF pad short(2), of c]) (use apart sub m2 in auto)
  have "\<forall>x. x \<notin> block ?h 32 \<union> block b (2 * length ?p + 2) \<union> block c (2 * length ?c + 2) \<longrightarrow> pb_mem t x = pb_mem s x"
  proof (intro allI impI)
    fix x assume x: "x \<notin> block ?h 32 \<union> block b (2 * length ?p + 2) \<union> block c (2 * length ?c + 2)"
    then have "x \<notin> block ?h 16" "x \<notin> block ?g 16" using sub by blast+
    with x out1 [of x] out2 [of x] show "pb_mem t x = pb_mem s x" by simp
  qed
  then show ?thesis using one two by blast
qed

text \<open>A longer string is stored with its length modulo 65536: this one, of 32768 units, is empty to the loader.\<close>

lemma long_path_is_empty: "load16 a (poke a (unicode_string os (2 * 32768) (2 * 32768 + 2) b) m) = 0"
proof -
  have "peek a 2 (poke a (unicode_string os 65536 65538 b) m) = take 2 (unicode_string os 65536 65538 b)"
    by (rule nth_equalityI) (simp_all add: peek_def poke_at poke_def unicode_string_def unat_of_nat nth_append)
  then show ?thesis by (simp add: load16_def unicode_string_def)
qed

text \<open>A child with its process parameters at 2000, and two free pages.\<close>

definition demo_peb_os :: "nat peb_os" where
  "demo_peb_os = \<lparr>pe_query = (\<lambda>w. Inr 0x1000), pe_read_fails = (\<lambda>a n w. None), pe_write_fails = (\<lambda>a n w. None),
     pe_alloc = (\<lambda>n w. if n \<le> 4096 \<and> w < 2 then (Inr (if w = 0 then 0x100000 else 0x200000), w + 1) else (Inl 8, w)),
     pe_utf16 = map of_char, pe_padding = [0, 0, 0, 0]\<rparr>"

definition demo_peb_sys :: "nat peb_sys" where
  "demo_peb_sys = \<lparr>pb_mem = (\<lambda>a. if a = 0x1021 then 0x20 else 0), pb_world = 0\<rparr>"

lemma image_path_reads_back_witness:
  "\<exists>t. patch_image_path demo_peb_os ''C:/a'' (Some ''a b'') demo_peb_sys = (Inr (), t) \<and>
    read_unicode 0x2060 (pb_mem t) = [67, 58, 47, 97] \<and> read_unicode 0x2070 (pb_mem t) = [97, 32, 98]"
proof -
  have params: "0x2000 = load64 (0x1000 + 0x20) (pb_mem demo_peb_sys)"
    by (simp add: load64_def peek_def upt_rec demo_peb_sys_def)
  have "\<exists>t. patch_image_path demo_peb_os ''C:/a'' (Some ''a b'') demo_peb_sys = (Inr (), t)"
    using params [symmetric]
    by (simp add: patch_image_path_def demo_peb_os_def read_mem_def patch_field_def write_mem_def st_bind_def Let_def)
      (simp add: demo_peb_sys_def)
  then obtain t where run: "patch_image_path demo_peb_os ''C:/a'' (Some ''a b'') demo_peb_sys = (Inr (), t)" ..
  have fresh: "block b n \<inter> block (0x2000 + 0x60) 32 = {}" if "pe_alloc demo_peb_os n w = (Inr b, w')" for n w b w'
  proof -
    have "n \<le> 4096" "b \<in> {0x100000, 0x200000}" using that by (auto simp: demo_peb_os_def split: if_splits)
    then show ?thesis by (intro blocks_apart) auto
  qed
  have once: "block b n \<inter> block c k = {}"
    if "pe_alloc demo_peb_os n w = (Inr b, w')" "pe_alloc demo_peb_os k w' = (Inr c, w'')" for n w b w' k c w''
  proof -
    have "n \<le> 4096" "k \<le> 4096" "b = 0x100000" "c = 0x200000" using that by (auto simp: demo_peb_os_def split: if_splits)
    then show ?thesis by (intro blocks_apart) auto
  qed
  have query: "pe_query demo_peb_os (pb_world demo_peb_sys) = Inr 0x1000" "length (pe_padding demo_peb_os) = 4"
    "length (pe_utf16 demo_peb_os ''C:/a'') < 32767" "length (pe_utf16 demo_peb_os ''a b'') < 32767"
    by (simp_all add: demo_peb_os_def)
  have "read_unicode (0x2000 + 0x60) (pb_mem t) = pe_utf16 demo_peb_os ''C:/a''"
    "read_unicode (0x2000 + 0x70) (pb_mem t) = pe_utf16 demo_peb_os ''a b''"
    using image_path_reads_back [OF run query(1) params query(2-4) fresh once] by simp_all
  then show ?thesis using run by (simp add: demo_peb_os_def)
qed

end
