(* ===== verification/Win_Handles.thy ===== *)
theory Win_Handles
  imports Silo
begin

text \<open>
  The Windows objects behind the sandbox and the job: the restricted token, the spawn of a process
  outside a silo, \<open>JobObject\<close> of \<open>crates/psroot-job/src/handle.rs\<close>, and the functions of
  \<open>crates/psroot-container/src/sandbox.rs\<close> that are looked up in their libraries at run time. What a
  call answers is a parameter; the handles held are those of \<open>Silo\<close>.
\<close>

section \<open>The calls\<close>

text \<open>\<open>None\<close> and \<open>False\<close> are failures; \<open>wh_last_error\<close> is \<open>GetLastError\<close>, asked after whatever came between.\<close>

record 'w handle_os =
  wh_kern :: "'w kern_os"
  wh_last_error :: "'w \<Rightarrow> u32"
  wh_well_known :: "nat \<Rightarrow> nat \<Rightarrow> u8 list option"              \<comment> \<open>kind and room; the SID\<close>
  wh_own_token :: "'w \<Rightarrow> nat option \<times> 'w"
  wh_restrict :: "nat \<Rightarrow> u32 \<Rightarrow> 'w \<Rightarrow> nat option \<times> 'w"
  wh_set_token :: "nat \<Rightarrow> nat \<Rightarrow> u8 list \<Rightarrow> u32 \<Rightarrow> u32 \<Rightarrow> 'w \<Rightarrow> bool \<times> 'w"
    \<comment> \<open>token, class, the SID of the label, its attributes, the length passed\<close>
  wh_create_job :: "string option \<Rightarrow> 'w \<Rightarrow> nat option \<times> 'w"
  wh_assign :: "nat \<Rightarrow> nat \<Rightarrow> 'w \<Rightarrow> bool \<times> 'w"
  wh_open_process :: "u32 \<Rightarrow> u32 \<Rightarrow> 'w \<Rightarrow> nat option \<times> 'w"
  wh_end_job :: "nat \<Rightarrow> u32 \<Rightarrow> 'w \<Rightarrow> bool \<times> 'w"
  wh_set_job :: "nat \<Rightarrow> u32 \<Rightarrow> u8 list option \<Rightarrow> 'w \<Rightarrow> bool \<times> 'w"
  wh_query_job :: "nat \<Rightarrow> u32 \<Rightarrow> nat \<Rightarrow> 'w \<Rightarrow> u8 list option \<times> 'w"
  wh_create_process :: "string \<Rightarrow> string \<Rightarrow> u32 \<Rightarrow> 'w \<Rightarrow> (nat \<times> nat \<times> u32) option \<times> 'w"

definition last_win32 :: "'w handle_os \<Rightarrow> string \<Rightarrow> 'w kern \<Rightarrow> (PsrootError + 'a) \<times> 'w kern" where
  "last_win32 os what s = (Inl (Win32 what (wh_last_error os (kn_world s))), s)"

abbreviation closed :: "'w handle_os \<Rightarrow> nat \<Rightarrow> 'w kern \<Rightarrow> 'w kern" where
  "closed os \<equiv> close_handle (wh_kern os)"

section \<open>Well-known SIDs\<close>

definition MAX_SID_SIZE :: nat where "MAX_SID_SIZE = 68"

record capability_sid =
  cs_buf :: "u8 list"
  cs_size :: u32

definition capability_create :: "'w handle_os \<Rightarrow> nat \<Rightarrow> 'w kern \<Rightarrow> (PsrootError + capability_sid) \<times> 'w kern" where
  "capability_create os kind s = (case wh_well_known os kind MAX_SID_SIZE of
       None \<Rightarrow> last_win32 os ''CreateWellKnownSid(capability)'' s
     | Some sid \<Rightarrow> (Inr \<lparr>cs_buf = put_bytes 0 sid (replicate MAX_SID_SIZE 0), cs_size = word_of_nat (length sid)\<rparr>, s))"

section \<open>The restricted token\<close>

definition low_label :: nat where "low_label = 66"

definition create_restricted_token :: "'w handle_os \<Rightarrow> 'w kern \<Rightarrow> (PsrootError + nat) \<times> 'w kern" where
  "create_restricted_token os s = (case kcall (wh_own_token os) s of
       (None, s) \<Rightarrow> last_win32 os ''OpenProcessToken'' s
     | (Some token, s) \<Rightarrow> (case kcall (wh_restrict os token (0x1 OR 0x4)) (opened token s) of
         (None, s) \<Rightarrow> last_win32 os ''CreateRestrictedToken'' (closed os token s)
       | (Some restricted, s) \<Rightarrow> (let s = closed os token (opened restricted s) in
         case wh_well_known os low_label MAX_SID_SIZE of
           None \<Rightarrow> last_win32 os ''CreateWellKnownSid(LowLabel)'' (closed os restricted s)
         | Some sid \<Rightarrow> (case kcall (wh_set_token os restricted 25 sid 0x20 (16 + word_of_nat (length sid))) s of
             (False, s) \<Rightarrow> last_win32 os ''SetTokenInformation(IntegrityLevel)'' (closed os restricted s)
           | (True, s) \<Rightarrow> (Inr restricted, s)))))"

section \<open>Job objects\<close>

text \<open>\<open>JobObject::new\<close> and \<open>new_named\<close>.\<close>

definition job_create :: "'w handle_os \<Rightarrow> string option \<Rightarrow> 'w kern \<Rightarrow> (PsrootError + nat) \<times> 'w kern" where
  "job_create os name s = (case kcall (wh_create_job os name) s of
       (None, s) \<Rightarrow> last_win32 os ''CreateJobObjectW'' s
     | (Some h, s) \<Rightarrow> (Inr h, opened h s))"

definition assign_handle :: "'w handle_os \<Rightarrow> nat \<Rightarrow> nat \<Rightarrow> 'w kern \<Rightarrow> (PsrootError + unit) \<times> 'w kern" where
  "assign_handle os job process s = (case kcall (wh_assign os job process) s of
       (False, s) \<Rightarrow> last_win32 os ''AssignProcessToJobObject'' s
     | (True, s) \<Rightarrow> (Inr (), s))"

definition assign_pid :: "'w handle_os \<Rightarrow> nat \<Rightarrow> u32 \<Rightarrow> 'w kern \<Rightarrow> (PsrootError + unit) \<times> 'w kern" where
  "assign_pid os job pid s = (case kcall (wh_open_process os (0x0100 OR 0x0001) pid) s of
       (None, s) \<Rightarrow> last_win32 os ''OpenProcess'' s
     | (Some h, s) \<Rightarrow> (let (r, s) = assign_handle os job h (opened h s) in (r, closed os h s)))"

text \<open>A job that is gone already is no error: then the last error may be 0.\<close>

definition job_terminate :: "'w handle_os \<Rightarrow> nat \<Rightarrow> u32 \<Rightarrow> 'w kern \<Rightarrow> (PsrootError + unit) \<times> 'w kern" where
  "job_terminate os job code s = (case kcall (wh_end_job os job code) s of
       (True, s) \<Rightarrow> (Inr (), s)
     | (False, s) \<Rightarrow> (let err = wh_last_error os (kn_world s) in
         if err \<noteq> 0 then (Inl (Win32 ''TerminateJobObject'' err), s) else (Inr (), s)))"

definition set_info_null :: "'w handle_os \<Rightarrow> nat \<Rightarrow> u32 \<Rightarrow> 'w kern \<Rightarrow> (PsrootError + unit) \<times> 'w kern" where
  "set_info_null os job cls s = (case kcall (wh_set_job os job cls None) s of
       (False, s) \<Rightarrow> last_win32 os ''SetInformationJobObject'' s
     | (True, s) \<Rightarrow> (Inr (), s))"

text \<open>\<open>size\<close> is that of the type asked for; what the kernel does not write stays zero.\<close>

definition query_info :: "'w handle_os \<Rightarrow> nat \<Rightarrow> u32 \<Rightarrow> nat \<Rightarrow> 'w kern \<Rightarrow> (PsrootError + u8 list) \<times> 'w kern" where
  "query_info os job cls n s = (case kcall (wh_query_job os job cls n) s of
       (None, s) \<Rightarrow> last_win32 os ''QueryInformationJobObject'' s
     | (Some bytes, s) \<Rightarrow> (Inr (put_bytes 0 bytes (replicate n 0)), s))"

definition job_drop :: "'w handle_os \<Rightarrow> nat \<Rightarrow> 'w kern \<Rightarrow> 'w kern" where
  "job_drop os job s = (if job \<noteq> 0 then closed os job s else s)"

section \<open>A process outside a silo\<close>

definition spawn_and_assign :: "'w handle_os \<Rightarrow> nat \<Rightarrow> string \<Rightarrow> ContainerConfig \<Rightarrow> 'w kern \<Rightarrow> (PsrootError + u32) \<times> 'w kern" where
  "spawn_and_assign os job cmd config s =
     (case kcall (wh_create_process os cmd (cc_working_directory config) (0x00000004 OR 0x08000000)) s of
        (None, s) \<Rightarrow> last_win32 os ''CreateProcessW'' s
      | (Some (process, thread, pid), s) \<Rightarrow>
        (case assign_handle os job process (opened thread (opened process s)) of
           (Inl e, s) \<Rightarrow> (Inl e, closed os thread (closed os process
               (s\<lparr>kn_world := ko_kill (wh_kern os) process (kn_world s)\<rparr>)))
         | (Inr _, s) \<Rightarrow> (Inr pid, closed os thread (closed os process
               (s\<lparr>kn_world := ko_resume (wh_kern os) thread (kn_world s)\<rparr>)))))"

section \<open>Handles\<close>

text \<open>
  Whatever the kernel answers, a call ends with the handles it began with and the one it hands out,
  and the thread keeps its identity.
\<close>

definition hands_out :: "('e + nat) \<times> 'w kern \<Rightarrow> 'w kern \<Rightarrow> bool" where
  "hands_out r s = (case r of (Inl _, s') \<Rightarrow> gained [] s s' | (Inr h, s') \<Rightarrow> gained [h] s s')"

definition keeps_handles :: "('e + 'a) \<times> 'w kern \<Rightarrow> 'w kern \<Rightarrow> bool" where
  "keeps_handles r s = gained [] s (snd r)"

lemma kcall_held:
  "kcall f s = (r, s') \<Longrightarrow> held s' = held s \<and> kn_impersonating s' = kn_impersonating s"
  using kcall_gained [of f s r s'] by (simp add: gained_def)

lemma last_win32_eq: "last_win32 os what s = (Inl (Win32 what (wh_last_error os (kn_world s))), s)"
  by (simp add: last_win32_def)

lemmas handle_simps = gained_def last_win32_eq hands_out_def keeps_handles_def Let_def

lemma assign_handle_keeps: "keeps_handles (assign_handle os job p s) s"
  by (auto simp: assign_handle_def handle_simps dest: kcall_held split: prod.splits bool.splits)

lemma assign_handle_held:
  "assign_handle os job p s = (r, s') \<Longrightarrow> held s' = held s \<and> kn_impersonating s' = kn_impersonating s"
  using assign_handle_keeps [of os job p s] by (simp add: keeps_handles_def gained_def)

lemma token_hands_out: "hands_out (create_restricted_token os s) s"
  by (auto simp: create_restricted_token_def handle_simps dest!: kcall_held
      split: prod.splits bool.splits option.splits)

lemma job_create_hands_out: "hands_out (job_create os name s) s"
  by (auto simp: job_create_def handle_simps dest!: kcall_held split: prod.splits option.splits)

lemma assign_pid_keeps: "keeps_handles (assign_pid os job pid s) s"
  by (auto simp: assign_pid_def handle_simps dest!: kcall_held assign_handle_held
      split: prod.splits option.splits)

lemma spawn_and_assign_keeps: "keeps_handles (spawn_and_assign os job cmd config s) s"
  by (auto simp: spawn_and_assign_def handle_simps dest!: kcall_held assign_handle_held
      split: prod.splits option.splits sum.splits)

lemma job_drop_held: "held (job_drop os job s) = held s - real [job]"
  by (simp add: job_drop_def)

end
