(* ===== verification/Shared_Memory.thy ===== *)
theory Shared_Memory
  imports Win_Handles
begin

text \<open>
  \<open>SharedMemory\<close> of \<open>crates/psroot-netstack-ipc/src/shm.rs\<close>: the mapping behind the channel, made by
  the host and opened by the shim, with its handle and its view; and \<open>Job\<close> and token handles beside
  it, for what all of them keep.
\<close>

section \<open>Mappings\<close>

text \<open>The views a process has, beside its handles. \<open>0\<close> is the null pointer.\<close>

record 'w views =
  vw_views :: "nat list"
  vw_kern :: "'w kern"

record 'w mapping_os =
  mp_handles :: "'w handle_os"
  mp_create :: "string \<Rightarrow> u32 \<Rightarrow> u32 \<Rightarrow> 'w \<Rightarrow> nat option \<times> 'w"    \<comment> \<open>the size as high and low word\<close>
  mp_open :: "string \<Rightarrow> 'w \<Rightarrow> nat option \<times> 'w"
  mp_map :: "nat \<Rightarrow> u64 \<Rightarrow> 'w \<Rightarrow> nat option \<times> 'w"
  mp_unmap :: "nat \<Rightarrow> 'w \<Rightarrow> 'w"

record shared_memory =
  sm_handle :: nat
  sm_view :: nat
  sm_size :: u64
  sm_owns_mapping :: bool

definition vcall :: "('w \<Rightarrow> 'a \<times> 'w) \<Rightarrow> 'w views \<Rightarrow> 'a \<times> 'w views" where
  "vcall f v = (let (r, s) = kcall f (vw_kern v) in (r, v\<lparr>vw_kern := s\<rparr>))"

definition os_error :: "'w mapping_os \<Rightarrow> 'w views \<Rightarrow> u32" where
  "os_error os v = wh_last_error (mp_handles os) (kn_world (vw_kern v))"

text \<open>The tail of all three constructors: the error is read before the handle is closed.\<close>

definition map_view :: "'w mapping_os \<Rightarrow> bool \<Rightarrow> nat \<Rightarrow> u64 \<Rightarrow> 'w views \<Rightarrow> (u32 + shared_memory) \<times> 'w views" where
  "map_view os owns h n v = (case vcall (mp_map os h n) v of
       (None, v) \<Rightarrow> (Inl (os_error os v), v\<lparr>vw_kern := closed (mp_handles os) h (vw_kern v)\<rparr>)
     | (Some view, v) \<Rightarrow>
         (Inr \<lparr>sm_handle = h, sm_view = view, sm_size = n, sm_owns_mapping = owns\<rparr>, v\<lparr>vw_views := view # vw_views v\<rparr>))"

definition took :: "nat \<Rightarrow> 'w views \<Rightarrow> 'w views" where
  "took h v = v\<lparr>vw_kern := opened h (vw_kern v)\<rparr>"

definition shm_create :: "'w mapping_os \<Rightarrow> string \<Rightarrow> u64 \<Rightarrow> 'w views \<Rightarrow> (u32 + shared_memory) \<times> 'w views" where
  "shm_create os name n v = (case vcall (mp_create os name (ucast (drop_bit 32 n)) (ucast n)) v of
       (None, v) \<Rightarrow> (Inl (os_error os v), v)
     | (Some h, v) \<Rightarrow> map_view os True h n (took h v))"

definition shm_open :: "'w mapping_os \<Rightarrow> string \<Rightarrow> u64 \<Rightarrow> 'w views \<Rightarrow> (u32 + shared_memory) \<times> 'w views" where
  "shm_open os name n v = (case vcall (mp_open os name) v of
       (None, v) \<Rightarrow> (Inl (os_error os v), v)
     | (Some h, v) \<Rightarrow> map_view os False h n (took h v))"

text \<open>The handle is the caller's; it belongs to the mapping from here on, and goes when mapping fails.\<close>

definition shm_from_handle :: "'w mapping_os \<Rightarrow> nat \<Rightarrow> u64 \<Rightarrow> 'w views \<Rightarrow> (u32 + shared_memory) \<times> 'w views" where
  "shm_from_handle os h n v = map_view os False h n v"

definition shm_len :: "shared_memory \<Rightarrow> u64" where "shm_len m = sm_size m"

definition shm_is_empty :: "shared_memory \<Rightarrow> bool" where "shm_is_empty m \<longleftrightarrow> sm_size m = 0"

definition shm_raw_handle :: "shared_memory \<Rightarrow> nat" where "shm_raw_handle m = sm_handle m"

text \<open>The addresses of the slices handed out.\<close>

definition shm_slice :: "shared_memory \<Rightarrow> nat set" where
  "shm_slice m = {sm_view m..<sm_view m + unat (sm_size m)}"

definition shm_unmap :: "'w mapping_os \<Rightarrow> shared_memory \<Rightarrow> 'w views \<Rightarrow> 'w views" where
  "shm_unmap os m v = (if sm_view m \<noteq> 0
     then v\<lparr>vw_views := remove1 (sm_view m) (vw_views v),
            vw_kern := (vw_kern v)\<lparr>kn_world := mp_unmap os (sm_view m) (kn_world (vw_kern v))\<rparr>\<rparr> else v)"

definition shm_drop :: "'w mapping_os \<Rightarrow> shared_memory \<Rightarrow> 'w views \<Rightarrow> 'w views" where
  "shm_drop os m v = (let v = shm_unmap os m v in
     if sm_handle m \<noteq> 0 then v\<lparr>vw_kern := closed (mp_handles os) (sm_handle m) (vw_kern v)\<rparr> else v)"

section \<open>Nothing is left behind\<close>

text \<open>
  \<open>balanced xs v r\<close>: with the handles \<open>xs\<close> given up by the caller, a constructor that fails has kept
  no handle and no view, and one that succeeds has the two its value names.
\<close>

definition viewed :: "'w views \<Rightarrow> nat multiset" where
  "viewed v = filter_mset (\<lambda>a. a \<noteq> 0) (mset (vw_views v))"

definition balanced :: "nat list \<Rightarrow> 'w views \<Rightarrow> (u32 + shared_memory) \<times> 'w views \<Rightarrow> bool" where
  "balanced xs v r = (case r of
       (Inl _, v') \<Rightarrow> held (vw_kern v') = held (vw_kern v) - real xs \<and> viewed v' = viewed v
     | (Inr m, v') \<Rightarrow> held (vw_kern v') = held (vw_kern v) - real xs + real [sm_handle m] \<and>
         viewed v' = viewed v + real [sm_view m])"

lemma vcall_held: "vcall f v = (r, v') \<Longrightarrow> held (vw_kern v') = held (vw_kern v) \<and> viewed v' = viewed v"
  by (auto simp: vcall_def viewed_def Let_def dest!: kcall_held split: prod.splits)

lemma viewed_simps [simp]:
  "viewed (v\<lparr>vw_kern := s\<rparr>) = viewed v" "viewed (v\<lparr>vw_views := a # vw_views v\<rparr>) = viewed v + real [a]"
  "viewed (v\<lparr>vw_views := remove1 a (vw_views v)\<rparr>) = viewed v - real [a]"
  by (auto simp: viewed_def real_def)

lemma map_view_balanced:
  assumes "h \<in># held (vw_kern v) \<or> h = 0"
  shows "balanced [h] v (map_view os owns h n v)"
  using assms by (auto simp: map_view_def balanced_def dest!: vcall_held split: prod.splits option.splits)

lemma balanced_took: "balanced [h] (took h v) r \<Longrightarrow> balanced [] v r"
  by (auto simp: balanced_def took_def viewed_def real_def split: prod.splits sum.splits)

lemma map_took_balanced: "balanced [] v (map_view os owns h n (took h v))"
  by (rule balanced_took, rule map_view_balanced) (simp add: took_def)

lemma balanced_cong:
  "held (vw_kern v1) = held (vw_kern v) \<and> viewed v1 = viewed v \<Longrightarrow> balanced [] v1 r \<Longrightarrow> balanced [] v r"
  by (auto simp: balanced_def viewed_def split: prod.splits sum.splits)

lemma shm_create_balanced: "balanced [] v (shm_create os name n v)"
  by (auto simp: shm_create_def dest!: vcall_held split: prod.splits option.splits
      intro: balanced_cong [OF _ map_took_balanced]) (auto simp: balanced_def)

lemma shm_open_balanced: "balanced [] v (shm_open os name n v)"
  by (auto simp: shm_open_def dest!: vcall_held split: prod.splits option.splits
      intro: balanced_cong [OF _ map_took_balanced]) (auto simp: balanced_def)

lemma shm_from_handle_balanced:
  "h \<in># held (vw_kern v) \<Longrightarrow> balanced [h] v (shm_from_handle os h n v)"
  unfolding shm_from_handle_def by (rule map_view_balanced) simp

lemma shm_drop_held:
  "held (vw_kern (shm_drop os m v)) = held (vw_kern v) - real [sm_handle m]"
  "viewed (shm_drop os m v) = viewed v - real [sm_view m]"
  by (auto simp: shm_drop_def shm_unmap_def Let_def)

text \<open>A mapping made and dropped.\<close>

definition after_drop :: "'w mapping_os \<Rightarrow> (u32 + shared_memory) \<times> 'w views \<Rightarrow> 'w views" where
  "after_drop os r = (case r of (Inl _, v) \<Rightarrow> v | (Inr m, v) \<Rightarrow> shm_drop os m v)"

definition same_holdings :: "'w views \<Rightarrow> 'w views \<Rightarrow> bool" where
  "same_holdings v v' \<longleftrightarrow> held (vw_kern v') = held (vw_kern v) \<and> viewed v' = viewed v"

lemma balanced_after_drop: "balanced [] v r \<Longrightarrow> same_holdings v (after_drop os r)"
  by (auto simp: balanced_def after_drop_def same_holdings_def shm_drop_held split: prod.splits sum.splits)

text \<open>C40.
  Whatever Windows answers, no handle is lost: a mapping that is made or opened and then dropped, or
  fails on the way, leaves the handles and views there were; the restricted token and a job are the
  only handles their constructors leave open; assigning a process to a job by its id and starting a
  process in a job keep none.
\<close>

theorem no_handle_is_lost:
  "same_holdings v (after_drop mos (shm_create mos name n v)) \<and>
   same_holdings v (after_drop mos (shm_open mos name n v)) \<and>
   hands_out (create_restricted_token os s) s \<and>
   hands_out (job_create os job_name s) s \<and>
   keeps_handles (assign_pid os job pid s) s \<and>
   keeps_handles (spawn_and_assign os job cmd config s) s"
  by (intro conjI balanced_after_drop shm_create_balanced shm_open_balanced token_hands_out
      job_create_hands_out assign_pid_keeps spawn_and_assign_keeps)

end
