(* ===== verification/Win_Library.thy ===== *)
theory Win_Library
  imports Config
begin

text \<open>
  The functions that \<open>crates/psroot-container/src/sandbox.rs\<close> looks up at run time: the AppContainer
  calls, held in a \<open>OnceLock\<close>, and the conversion of a SID to text, whose string the system
  allocates. Explicit are the references to libraries, the memory that is the caller's to free and
  the lock.
\<close>

section \<open>Libraries\<close>

record ac_apis =
  ac_create :: nat
  ac_delete :: nat
  ac_derive :: nat
  ac_free :: nat

record 'w lib_sys =
  ly_loaded :: "string list"              \<comment> \<open>one entry for every reference\<close>
  ly_memory :: "nat list"
  ly_ac_apis :: "ac_apis option option"   \<comment> \<open>the \<open>OnceLock\<close>\<close>
  ly_world :: 'w

record 'w lib_os =
  lo_load :: "string \<Rightarrow> 'w \<Rightarrow> nat option \<times> 'w"
  lo_proc :: "nat \<Rightarrow> string \<Rightarrow> nat option"
  lo_sid_text :: "nat \<Rightarrow> string \<Rightarrow> 'w \<Rightarrow> (u32 + nat \<times> 16 word list) \<times> 'w"
    \<comment> \<open>the function, the SID; the error, or where the text is and what is there up to the first null\<close>
  lo_from_utf16 :: "16 word list \<Rightarrow> string"       \<comment> \<open>\<open>from_utf16_lossy\<close>\<close>
  lo_local_free :: "nat \<Rightarrow> nat \<Rightarrow> 'w \<Rightarrow> 'w"        \<comment> \<open>the function and the address\<close>

definition load_library :: "'w lib_os \<Rightarrow> string \<Rightarrow> 'w lib_sys \<Rightarrow> nat option \<times> 'w lib_sys" where
  "load_library os name s = (case lo_load os name (ly_world s) of
       (None, w) \<Rightarrow> (None, s\<lparr>ly_world := w\<rparr>)
     | (Some h, w) \<Rightarrow> (Some h, s\<lparr>ly_loaded := name # ly_loaded s, ly_world := w\<rparr>))"

section \<open>AppContainer\<close>

definition find_ac_apis :: "'w lib_os \<Rightarrow> 'w lib_sys \<Rightarrow> ac_apis option \<times> 'w lib_sys" where
  "find_ac_apis os s = (case load_library os ''userenv.dll'' s of
       (None, s) \<Rightarrow> (None, s)
     | (Some lib, s) \<Rightarrow>
         (let create = lo_proc os lib ''CreateAppContainerProfile'';
              delete = lo_proc os lib ''DeleteAppContainerProfile'';
              derive = lo_proc os lib ''DeriveAppContainerSidFromAppContainerName'';
              (advapi, s) = load_library os ''advapi32.dll'' s;
              free = Option.bind advapi (\<lambda>a. lo_proc os a ''FreeSid'') in
          (case (create, delete, derive, free) of
             (Some c, Some d, Some dr, Some f) \<Rightarrow> Some \<lparr>ac_create = c, ac_delete = d, ac_derive = dr, ac_free = f\<rparr>
           | _ \<Rightarrow> None, s)))"

definition load_ac_apis :: "'w lib_os \<Rightarrow> 'w lib_sys \<Rightarrow> ac_apis option \<times> 'w lib_sys" where
  "load_ac_apis os s = (case ly_ac_apis s of
       Some r \<Rightarrow> (r, s)
     | None \<Rightarrow> (let (r, s) = find_ac_apis os s in (r, s\<lparr>ly_ac_apis := Some r\<rparr>)))"

definition appcontainer_available :: "'w lib_os \<Rightarrow> 'w lib_sys \<Rightarrow> bool \<times> 'w lib_sys" where
  "appcontainer_available os s = (let (r, s) = load_ac_apis os s in (r \<noteq> None, s))"

text \<open>The first answer stands: a later call changes nothing and, however the system changed, says the same.\<close>

lemma ac_apis_decided_once:
  assumes "load_ac_apis os s = (r, s1)" and "ly_ac_apis s2 = ly_ac_apis s1"
  shows "load_ac_apis os2 s2 = (r, s2)"
  using assms by (auto simp: load_ac_apis_def split: option.splits prod.splits)

section \<open>SIDs as text\<close>

definition free_text :: "'w lib_os \<Rightarrow> nat \<Rightarrow> 'w lib_sys \<Rightarrow> 'w lib_sys" where
  "free_text os p s = (case load_library os ''kernel32.dll'' s of
       (None, s) \<Rightarrow> s
     | (Some kernel32, s) \<Rightarrow> (case lo_proc os kernel32 ''LocalFree'' of
           None \<Rightarrow> s
         | Some f \<Rightarrow> s\<lparr>ly_memory := remove1 p (ly_memory s), ly_world := lo_local_free os f p (ly_world s)\<rparr>))"

definition sid_to_string :: "'w lib_os \<Rightarrow> string \<Rightarrow> 'w lib_sys \<Rightarrow> (PsrootError + string) \<times> 'w lib_sys" where
  "sid_to_string os sid s = (case load_library os ''advapi32.dll'' s of
       (None, s) \<Rightarrow> (Inl (OtherError ''advapi32.dll not found''), s)
     | (Some advapi, s) \<Rightarrow> (case lo_proc os advapi ''ConvertSidToStringSidW'' of
         None \<Rightarrow> (Inl (OtherError ''ConvertSidToStringSidW not found''), s)
       | Some func \<Rightarrow> (case lo_sid_text os func sid (ly_world s) of
           (Inl e, w) \<Rightarrow> (Inl (Win32 ''ConvertSidToStringSidW'' e), s\<lparr>ly_world := w\<rparr>)
         | (Inr (p, text), w) \<Rightarrow>
             (Inr (lo_from_utf16 os text), free_text os p (s\<lparr>ly_memory := p # ly_memory s, ly_world := w\<rparr>)))))"

definition appcontainer_sid_string :: "'w lib_os \<Rightarrow> string \<Rightarrow> 'w lib_sys \<Rightarrow> (PsrootError + string) \<times> 'w lib_sys" where
  "appcontainer_sid_string os sid s = sid_to_string os sid s"

text \<open>
  With \<open>LocalFree\<close> where it always is, the string does not stay allocated; but the references to the
  two libraries are never given back, so each conversion leaves two more.
\<close>

lemma sid_text_freed:
  assumes "\<forall>w. \<exists>h. fst (lo_load os ''kernel32.dll'' w) = Some h \<and> lo_proc os h ''LocalFree'' \<noteq> None"
    and "sid_to_string os sid s = (r, s')"
  shows "ly_memory s' = ly_memory s"
  using assms
  by (auto simp: sid_to_string_def free_text_def load_library_def split: option.splits prod.splits sum.splits)
    (metis fst_conv option.distinct(1) option.inject)+

lemma sid_text_keeps_libraries:
  assumes "\<forall>w. fst (lo_load os ''kernel32.dll'' w) \<noteq> None"
    and "sid_to_string os sid s = (Inr text, s')"
  shows "ly_loaded s' = [''kernel32.dll'', ''advapi32.dll''] @ ly_loaded s"
  using assms
  by (auto simp: sid_to_string_def free_text_def load_library_def split: option.splits prod.splits sum.splits)
    (metis fst_conv option.distinct(1))+

end
