(* ===== verification/Nt_Objects.thy ===== *)
theory Nt_Objects
  imports Silo
begin

text \<open>
  The arguments of the NT object calls, \<open>crates/psroot-namespace/src/ntapi.rs\<close>: counted strings,
  object attributes and the directories that shadow another one. \<open>Silo\<close> has the other calls.
\<close>

section \<open>Counted strings\<close>

text \<open>The buffer ends with a null, which \<open>us_length\<close> leaves out; both lengths are cut to 16 bits.\<close>

record unicode_str =
  us_length :: u16
  us_maximum :: u16
  us_buffer :: "16 word list"

definition to_wide :: "(string \<Rightarrow> 16 word list) \<Rightarrow> string \<Rightarrow> 16 word list" where
  "to_wide utf16 s = utf16 s @ [0]"

definition make_unicode_string :: "16 word list \<Rightarrow> unicode_str" where
  "make_unicode_string s = \<lparr>us_length = word_of_nat ((length s - 1) * 2), us_maximum = word_of_nat (length s * 2),
     us_buffer = s\<rparr>"

text \<open>What the kernel reads of such a string.\<close>

definition unicode_text :: "unicode_str \<Rightarrow> 16 word list" where
  "unicode_text u = take (unat (us_length u) div 2) (us_buffer u)"

text \<open>The whole name up to 32767 units; 32768 units are an empty name.\<close>

lemma unicode_text_whole:
  assumes "length (utf16 s) < 32768"
  shows "unicode_text (make_unicode_string (to_wide utf16 s)) = utf16 s"
proof -
  have "unat (word_of_nat (length (utf16 s) * 2) :: u16) = length (utf16 s) * 2"
    using assms by (subst unat_of_nat) simp
  then show ?thesis
    by (simp add: unicode_text_def make_unicode_string_def to_wide_def del: of_nat_mult)
qed

lemma unicode_text_cut:
  assumes "length (utf16 s) = 32768"
  shows "unicode_text (make_unicode_string (to_wide utf16 s)) = []"
  using assms by (simp add: unicode_text_def make_unicode_string_def to_wide_def unat_of_nat)

section \<open>Object attributes\<close>

record object_attributes =
  oa_length :: u32
  oa_root :: nat
  oa_name :: "unicode_str option"
  oa_attributes :: u32
  oa_security :: "nat option"

definition OBJ_CASE_INSENSITIVE :: u32 where "OBJ_CASE_INSENSITIVE = 0x40"
definition OBJ_OPENIF :: u32 where "OBJ_OPENIF = 0x80"

text \<open>The structure has 48 bytes on a 64-bit system.\<close>

definition make_object_attributes :: "unicode_str \<Rightarrow> nat option \<Rightarrow> bool \<Rightarrow> object_attributes" where
  "make_object_attributes name root open_if =
     \<lparr>oa_length = 48, oa_root = (case root of Some r \<Rightarrow> r | None \<Rightarrow> 0), oa_name = Some name,
      oa_attributes = (if open_if then OBJ_CASE_INSENSITIVE OR OBJ_OPENIF else OBJ_CASE_INSENSITIVE),
      oa_security = None\<rparr>"

lemma open_if_bit: "(oa_attributes (make_object_attributes name root open_if) AND OBJ_OPENIF \<noteq> 0) = open_if"
  by (simp add: make_object_attributes_def OBJ_CASE_INSENSITIVE_def OBJ_OPENIF_def)

section \<open>Shadow directories\<close>

text \<open>Attributes and the directory that is shadowed; status and handle.\<close>

type_synonym 'w shadow_call = "object_attributes \<Rightarrow> nat \<Rightarrow> 'w \<Rightarrow> (u32 \<times> nat) \<times> 'w"

definition create_directory_shadowed :: "'w shadow_call \<Rightarrow> nat \<Rightarrow> 'w kern \<Rightarrow> (PsrootError + nat) \<times> 'w kern" where
  "create_directory_shadowed f shadow s =
     nt_handle ''NtCreateDirectoryObjectEx(shadow)'' [0]
       (kcall (f \<lparr>oa_length = 48, oa_root = 0, oa_name = None, oa_attributes = OBJ_CASE_INSENSITIVE, oa_security = None\<rparr> shadow) s)"

definition create_directory_named_shadowed :: "(string \<Rightarrow> 16 word list) \<Rightarrow> 'w shadow_call \<Rightarrow> string \<Rightarrow> nat \<Rightarrow> 'w kern \<Rightarrow>
    (PsrootError + nat) \<times> 'w kern" where
  "create_directory_named_shadowed utf16 f name shadow s =
     nt_handle ''NtCreateDirectoryObjectEx(named-shadow)'' [0, 0x40000000]
       (kcall (f (make_object_attributes (make_unicode_string (to_wide utf16 name)) None True) shadow) s)"

lemma shadowed_gained:
  "create_directory_shadowed f shadow s = (res, s') \<Longrightarrow> case res of Inl e \<Rightarrow> gained [] s s' | Inr h \<Rightarrow> gained [h] s s'"
  "create_directory_named_shadowed utf16 f name shadow s = (res, s') \<Longrightarrow>
     case res of Inl e \<Rightarrow> gained [] s s' | Inr h \<Rightarrow> gained [h] s s'"
  by (auto simp: create_directory_shadowed_def create_directory_named_shadowed_def kcall_def nt_handle_def gained_def
      real_def Let_def split: prod.splits if_splits sum.splits)

end
