(* ===== verification/Exe_Version.thy ===== *)
theory Exe_Version
  imports Probe Config
begin

text \<open>
  The version of an executable, \<open>read_exe_version\<close> of \<open>crates/psroot-shell-resolver/src/probe.rs\<close>:
  the numbers of the fixed part of its version resource, as text that \<open>version.rs\<close> reads. The
  resource calls of Windows are parameters. Also the probe the resolver's tests use in place of the
  host.
\<close>

section \<open>The version resource\<close>

record version_api =
  va_size :: "string \<Rightarrow> u32"                                \<comment> \<open>0 when there is none\<close>
  va_info :: "string \<Rightarrow> u32 \<Rightarrow> u8 list option"
  va_fixed :: "u8 list \<Rightarrow> (u8 list \<times> u32) option"
    \<comment> \<open>\<open>VerQueryValueW\<close> of the root: the memory it points to (\<open>[]\<close> for the null pointer) and its length\<close>

definition zero_version :: string where
  "zero_version = ''0.0.0.0''"

definition fixed_u32 :: "nat \<Rightarrow> u8 list \<Rightarrow> u32" where
  "fixed_u32 i data = from_le (get_bytes (4 * i) 4 data)"

definition version_parts :: "u8 list \<Rightarrow> u32 list" where
  "version_parts data = (let ms = fixed_u32 2 data; ls = fixed_u32 3 data in
     [drop_bit 16 ms AND 0xFFFF, ms AND 0xFFFF, drop_bit 16 ls AND 0xFFFF, ls AND 0xFFFF])"

text \<open>Bytes 8 to 15 behind the pointer are read, however long the value is said to be.\<close>

definition read_exe_version :: "version_api \<Rightarrow> string \<Rightarrow> string" where
  "read_exe_version va path =
     (if va_size va path = 0 then zero_version
      else case va_info va path (va_size va path) of
        None \<Rightarrow> zero_version
      | Some buf \<Rightarrow> (case va_fixed va buf of
          None \<Rightarrow> zero_version
        | Some (data, len) \<Rightarrow>
            if len = 0 \<or> data = [] then zero_version
            else show_version (version_parts data)))"

definition read_exe_version_elsewhere :: "string \<Rightarrow> string" where
  "read_exe_version_elsewhere path = ''0.0.0.0''"

text \<open>
  What is read is a version of four numbers below 65536, which \<open>parse_version\<close> gives back; with no
  resource it is all zeros. So is the version of every shell the probe of the host finds.
\<close>

lemma unat_and_u16: "unat ((w :: u32) AND 0xFFFF) < 65536"
proof -
  have "(w AND 0xFFFF) \<le> 0xFFFF" by (rule word_and_le1)
  then show ?thesis by (simp add: word_le_nat_alt)
qed

lemma zero_version_parts: "zero_version = show_version [0, 0, 0, 0]"
  by code_simp

lemma read_exe_version_parts:
  "parse_version (read_exe_version va path) = [0, 0, 0, 0] \<or>
   (\<exists>buf data len. va_info va path (va_size va path) = Some buf \<and> va_fixed va buf = Some (data, len) \<and>
      parse_version (read_exe_version va path) = version_parts data)"
  by (auto simp: read_exe_version_def zero_version_parts parse_show_version split: option.splits)

lemma exe_version_four_numbers:
  "length (parse_version (read_exe_version va path)) = 4 \<and>
   (\<forall>c \<in> set (parse_version (read_exe_version va path)). unat c < 65536)"
  using read_exe_version_parts [of va path] by (auto simp: version_parts_def Let_def unat_and_u16)

lemma found_version_four_numbers:
  assumes "real_find (os\<lparr>po_exe_version := read_exe_version va\<rparr>) cat = Inr (Some h)"
  shows "length (parse_version (hs_version h)) = 4"
proof -
  let ?os = "os\<lparr>po_exe_version := read_exe_version va\<rparr>"
  have none: "length (parse_version ''0.0.0.0'') = 4"
    by (simp add: zero_version_parts [unfolded zero_version_def] parse_show_version)
  have "probe_rules ?os cat rules = Some h \<Longrightarrow> \<exists>entry. hs_version h = probe_version ?os cat entry" for rules
    by (induction ?os cat rules rule: probe_rules.induct) (auto simp: Let_def split: option.splits if_splits)
  with assms obtain entry where "hs_version h = probe_version ?os cat entry"
    by (auto simp: real_find_def)
  with none show ?thesis
    using exe_version_four_numbers [of va] by (auto simp: probe_version_def)
qed

section \<open>The probe of the tests\<close>

type_synonym mock_probe = "(string \<times> HostShell) list"

definition mock_with :: "mock_probe \<Rightarrow> string \<Rightarrow> HostShell \<Rightarrow> mock_probe" where
  "mock_with m name shell = hm_insert name shell m"

definition mock_find :: "mock_probe \<Rightarrow> CatalogFile \<Rightarrow> 'e + HostShell option" where
  "mock_find m cat = Inr (map_of m (cf_name cat))"

lemma mock_find_with:
  "mock_find (mock_with m name shell) cat =
     (if cf_name cat = name then Inr (Some shell) else mock_find m cat)"
  by (simp add: mock_find_def mock_with_def map_of_hm_insert)

end
