(* ===== verification/Unix_Terminal.thy ===== *)
theory Unix_Terminal
  imports Unix_Pty
begin

text \<open>
  What a session does to the host's terminal: the rest of \<open>crates/psroot-unix/src/pty.rs\<close> around the
  loop of \<open>Unix_Pty\<close>, the child that \<open>run_interactive\<close> of \<open>backend_macos.rs\<close> forks, and the
  connections of the forwarder of \<open>ports.rs\<close>. The terminal attributes and the descriptors in
  non-blocking mode are explicit.
\<close>

section \<open>Raw mode\<close>

datatype input_flag = IGNBRK | BRKINT | PARMRK | ISTRIP | INLCR | IGNCR | ICRNL | IXON | OtherInput nat

datatype output_flag = OPOST | OtherOutput nat

datatype local_flag = ECHO | ECHONL | ICANON | ISIG | IEXTEN | OtherLocal nat

datatype control_flag = PARENB | OtherControl nat

text \<open>\<open>tc_size\<close> is what the bits under \<open>CSIZE\<close> say: the bits of a character.\<close>

record termios =
  tc_input :: "input_flag set"
  tc_output :: "output_flag set"
  tc_local :: "local_flag set"
  tc_control :: "control_flag set"
  tc_size :: nat
  tc_vmin :: u8
  tc_vtime :: u8
  tc_chars :: "u8 list"                  \<comment> \<open>the other control characters\<close>

definition raw_attrs :: "termios \<Rightarrow> termios" where
  "raw_attrs t = t\<lparr>
     tc_input := tc_input t - {IGNBRK, BRKINT, PARMRK, ISTRIP, INLCR, IGNCR, ICRNL, IXON},
     tc_output := tc_output t - {OPOST},
     tc_local := tc_local t - {ECHO, ECHONL, ICANON, ISIG, IEXTEN},
     tc_control := tc_control t - {PARENB},
     tc_size := 8, tc_vmin := 1, tc_vtime := 0\<rparr>"

text \<open>\<open>None\<close>: standard input is not a terminal.\<close>

record winsize =
  wz_row :: u16
  wz_col :: u16
  wz_xpixel :: u16
  wz_ypixel :: u16

record host_tty =
  ht_attrs :: "termios option"
  ht_nonblocking :: "nat list"           \<comment> \<open>descriptors with \<open>O_NONBLOCK\<close>\<close>
  ht_sizes :: "(nat \<times> winsize) list"     \<comment> \<open>the sizes set on a terminal, the last first\<close>

definition stdin_fd :: nat where "stdin_fd = 0"

text \<open>\<open>takes\<close>: whether the terminal accepts the attributes; the results of \<open>tcsetattr\<close> are not looked at.\<close>

definition set_attrs :: "(termios \<Rightarrow> bool) \<Rightarrow> termios \<Rightarrow> host_tty \<Rightarrow> host_tty" where
  "set_attrs takes t h = (if takes t then h\<lparr>ht_attrs := Some t\<rparr> else h)"

type_synonym raw_guard = "termios option"

definition raw_guard_new :: "(termios \<Rightarrow> bool) \<Rightarrow> host_tty \<Rightarrow> raw_guard \<times> host_tty" where
  "raw_guard_new takes h = (case ht_attrs h of
       None \<Rightarrow> (None, h)
     | Some t \<Rightarrow> (Some t, set_attrs takes (raw_attrs t) h))"

definition raw_guard_drop :: "(termios \<Rightarrow> bool) \<Rightarrow> raw_guard \<Rightarrow> host_tty \<Rightarrow> host_tty" where
  "raw_guard_drop takes g h = (case g of Some saved \<Rightarrow> set_attrs takes saved h | None \<Rightarrow> h)"

section \<open>The size of the window\<close>

definition default_winsize :: winsize where
  "default_winsize = \<lparr>wz_row = 24, wz_col = 80, wz_xpixel = 0, wz_ypixel = 0\<rparr>"

text \<open>The four numbers \<open>TIOCGWINSZ\<close> writes, when it does.\<close>

definition current_winsize :: "(u16 \<times> u16 \<times> u16 \<times> u16) option \<Rightarrow> winsize option" where
  "current_winsize ws = (case ws of
       None \<Rightarrow> None
     | Some (r, c, x, y) \<Rightarrow> Some \<lparr>wz_row = r, wz_col = c, wz_xpixel = x, wz_ypixel = y\<rparr>)"

definition set_winsize :: "nat \<Rightarrow> winsize \<Rightarrow> host_tty \<Rightarrow> host_tty" where
  "set_winsize fd ws h = h\<lparr>ht_sizes := (fd, ws) # ht_sizes h\<rparr>"

definition pty_open :: "(winsize \<Rightarrow> string + nat \<times> nat) \<Rightarrow> (u16 \<times> u16 \<times> u16 \<times> u16) option \<Rightarrow> UError + nat \<times> nat" where
  "pty_open openpty ws = (case openpty (case current_winsize ws of Some z \<Rightarrow> z | None \<Rightarrow> default_winsize) of
       Inl e \<Rightarrow> Inl (UNix e) | Inr pair \<Rightarrow> Inr pair)"

section \<open>A session\<close>

text \<open>A descriptor whose flags cannot be read is left alone.\<close>

definition set_nonblocking :: "(nat \<Rightarrow> bool) \<Rightarrow> nat \<Rightarrow> host_tty \<Rightarrow> host_tty" where
  "set_nonblocking readable fd h =
     (if readable fd \<and> fd \<notin> set (ht_nonblocking h) then h\<lparr>ht_nonblocking := fd # ht_nonblocking h\<rparr> else h)"

text \<open>Every round that does not end the loop passes the size of the window on.\<close>

fun resize_rounds :: "nat \<Rightarrow> (round \<times> (u16 \<times> u16 \<times> u16 \<times> u16) option) list \<Rightarrow> terminal \<Rightarrow> host_tty \<Rightarrow> host_tty" where
  "resize_rounds master [] t h = h"
| "resize_rounds master ((r, ws) # rs) t h = (case forward_round r t of
       (Some _, _) \<Rightarrow> h
     | (None, t) \<Rightarrow> resize_rounds master rs t
         (case current_winsize ws of Some z \<Rightarrow> set_winsize master z h | None \<Rightarrow> h))"

definition forward_session :: "(termios \<Rightarrow> bool) \<Rightarrow> (nat \<Rightarrow> bool) \<Rightarrow> nat \<Rightarrow>
    (round \<times> (u16 \<times> u16 \<times> u16 \<times> u16) option) list \<Rightarrow> terminal \<Rightarrow> host_tty \<Rightarrow> (UError + int) option \<times> terminal \<times> host_tty" where
  "forward_session takes readable master rs t h =
     (let (g, h) = raw_guard_new takes h;
          h = set_nonblocking readable stdin_fd (set_nonblocking readable master h);
          (res, t') = forward (map fst rs) t;
          h = resize_rounds master rs t h in
      (res, t', raw_guard_drop takes g h))"

text \<open>
  The attributes are what they were when the session ends, however it ends; but standard input, which
  the shell that started the program shares, stays non-blocking.
\<close>

lemma tty_simps [simp]:
  "ht_attrs (set_nonblocking readable fd h) = ht_attrs h" "ht_attrs (set_winsize fd ws h) = ht_attrs h"
  "ht_nonblocking (set_winsize fd ws h) = ht_nonblocking h" "ht_nonblocking (set_attrs takes a h) = ht_nonblocking h"
  by (simp_all add: set_nonblocking_def set_winsize_def set_attrs_def)

lemma resize_keeps [simp]:
  "ht_attrs (resize_rounds m rs t h) = ht_attrs h" "ht_nonblocking (resize_rounds m rs t h) = ht_nonblocking h"
  by (induction m rs t h rule: resize_rounds.induct) (auto split: prod.splits option.splits)

lemma session_restores_attrs:
  assumes "\<forall>a. ht_attrs h = Some a \<longrightarrow> takes a"
  shows "ht_attrs (snd (snd (forward_session takes readable master rs t h))) = ht_attrs h"
  using assms
  by (auto simp: forward_session_def raw_guard_new_def raw_guard_drop_def set_attrs_def Let_def
      split: option.splits prod.splits)

lemma session_leaves_nonblocking:
  assumes "readable stdin_fd"
  shows "stdin_fd \<in> set (ht_nonblocking (snd (snd (forward_session takes readable master rs t h))))"
  using assms
  by (auto simp: forward_session_def raw_guard_new_def raw_guard_drop_def set_nonblocking_def Let_def
      split: option.splits prod.splits)

lemma raw_attrs_raw: "raw_attrs (raw_attrs t) = raw_attrs t"
  by (simp add: raw_attrs_def)

section \<open>The forked child on macOS\<close>

text \<open>
  Limits are not set on macOS; a directory that cannot be entered is no error. The environment is
  emptied and filled, as a map.
\<close>

datatype child_image = ExecFails int | Execs "string list" "string \<rightharpoonup> string" string | BadArgument

fun remove_env :: "string list \<Rightarrow> (string \<rightharpoonup> string) \<Rightarrow> (string \<rightharpoonup> string)" where
  "remove_env [] e = e"
| "remove_env (k # ks) e = remove_env ks (e(k := None))"

fun set_env :: "(string \<times> string) list \<Rightarrow> (string \<rightharpoonup> string) \<Rightarrow> (string \<rightharpoonup> string)" where
  "set_env [] e = e"
| "set_env ((k, v) # kvs) e = set_env kvs (e(k \<mapsto> v))"

definition interactive_child :: "(string \<Rightarrow> bool) \<Rightarrow> (string list \<Rightarrow> bool) \<Rightarrow> string list \<Rightarrow> (string \<times> string) list \<Rightarrow> string \<Rightarrow>
    string \<Rightarrow> (string \<times> string) list \<Rightarrow> child_image" where
  "interactive_child can_enter can_exec argv env cwd host_cwd host_env =
     (let dir = if can_enter cwd then cwd else host_cwd;
          e = set_env env (remove_env (map fst host_env) (map_of host_env)) in
      if \<exists>a \<in> set argv. CHR 0x00 \<in> set a then BadArgument
      else if can_exec argv then Execs argv e dir else ExecFails 127)"

lemma remove_env_apply: "remove_env ks e k = (if k \<in> set ks then None else e k)"
  by (induction ks arbitrary: e) auto

lemma remove_env_all: "remove_env (map fst host_env) (map_of host_env) = Map.empty"
  by (auto simp: fun_eq_iff remove_env_apply map_of_eq_None_iff)

lemma set_env_map: "set_env kvs e = e ++ map_of (rev kvs)"
  by (induction kvs arbitrary: e) auto

text \<open>Nothing of the host's environment reaches the shell; but its directory does when the home cannot be entered.\<close>

lemma interactive_child_env:
  assumes "interactive_child can_enter can_exec argv env cwd host_cwd host_env = Execs argv' e dir"
  shows "e = map_of (rev env)" and "dir = cwd \<or> (dir = host_cwd \<and> \<not> can_enter cwd)"
  using assms
  by (auto simp: interactive_child_def Let_def set_env_map remove_env_all split: if_splits)

section \<open>The forwarder\<close>

text \<open>\<open>pump\<close>: two threads, one for each direction, on what the two connections deliver and take.\<close>

record connection =
  cn_delivers :: "chunk list"
  cn_takes :: "string \<Rightarrow> bool"
  cn_clones :: bool

text \<open>What reaches \<open>b\<close> and what reaches \<open>a\<close>, each with whether the writing side was shut down.\<close>

definition pump :: "connection \<Rightarrow> connection \<Rightarrow> ((string \<times> bool) \<times> (string \<times> bool)) option" where
  "pump a b = (if \<not> cn_clones a \<or> \<not> cn_clones b then None
     else Some (copy_stream (cn_delivers a) (cn_takes b) [], copy_stream (cn_delivers b) (cn_takes a) []))"

text \<open>An accept that fails is skipped; a backend that does not answer ends the one connection.\<close>

definition serve_client :: "(nat \<Rightarrow> connection option) \<Rightarrow> nat \<times> connection \<Rightarrow> ((string \<times> bool) \<times> (string \<times> bool)) option" where
  "serve_client connect c = (case connect (fst c) of None \<Rightarrow> None | Some server \<Rightarrow> pump (snd c) server)"

fun forwarder_loop :: "(nat \<Rightarrow> connection option) \<Rightarrow> (nat \<times> connection) option list \<Rightarrow>
    ((string \<times> bool) \<times> (string \<times> bool)) option list" where
  "forwarder_loop connect [] = []"
| "forwarder_loop connect (None # cs) = forwarder_loop connect cs"
| "forwarder_loop connect (Some c # cs) = serve_client connect c # forwarder_loop connect cs"

definition spawn_forwarder :: "string option \<Rightarrow> (nat \<Rightarrow> connection option) \<Rightarrow> (nat \<times> connection) option list \<Rightarrow>
    string + ((string \<times> bool) \<times> (string \<times> bool)) option list" where
  "spawn_forwarder bind_error connect cs = (case bind_error of Some e \<Rightarrow> Inl e | None \<Rightarrow> Inr (forwarder_loop connect cs))"

text \<open>Each client is served by itself; a request and its answer both arrive whole.\<close>

lemma forwarder_serves_each:
  "forwarder_loop connect cs = map (serve_client connect) (List.map_filter (\<lambda>c. c) cs)"
  by (induction connect cs rule: forwarder_loop.induct) (simp_all add: List.map_filter_simps)

lemma pump_delivers:
  assumes "cn_delivers a = map Chunk xs @ [ChunkEnd]" "cn_delivers b = map Chunk ys @ [ChunkEnd]"
    and "cn_clones a" "cn_clones b" "\<forall>bs. cn_takes a bs" "\<forall>bs. cn_takes b bs"
  shows "pump a b = Some ((concat xs, True), (concat ys, True))"
  using assms copy_stream_delivers [of "cn_takes b" xs "[]" "[]"] copy_stream_delivers [of "cn_takes a" ys "[]" "[]"]
  by (simp add: pump_def)

end
